(* ===== verification/Prelude.thy ===== *)
theory Prelude
  imports Main "HOL-Library.Sublist"
begin

text \<open>
  Shared vocabulary of the development: results and exceptions, the state-and-exception
  actions that the service methods are translated into, rows of a table kept as a list in
  insertion order, the string operations of the standard library that the services use,
  and the interface of a reflexive and transitive relation between the stores before and
  after an action (\<open>store_rel\<close>), which every frame condition and every invariant of the
  services is an instance of.

  A JavaScript string is represented by its UTF-8 bytes, a \<^typ>\<open>string\<close>. Comparison,
  concatenation, splitting at an ASCII separator and prefix tests agree with the code-unit
  versions under this representation, and \<open>Buffer.from(s, 'utf8')\<close> is the identity.
  White space and letter case are those of ASCII.
\<close>

named_theorems act_simps \<open>unfolding of the action combinators\<close>
named_theorems rel_intros \<open>rules for actions that stay within a relation\<close>

section \<open>Exceptions and results\<close>

text \<open>
  The NestJS HTTP exceptions the services throw, the unique constraint error of the
  database client (code P2002) and any other \<open>Error\<close>, each with its message.
\<close>

datatype err =
    BadRequest string
  | NotFound string
  | Conflict string
  | Forbidden string
  | Unauthorized string
  | UniqueViolation
  | OtherError string

type_synonym 'a res = "err + 'a"

definition bindE :: "'a res \<Rightarrow> ('a \<Rightarrow> 'b res) \<Rightarrow> 'b res" where
  "bindE r f = (case r of Inl e \<Rightarrow> Inl e | Inr a \<Rightarrow> f a)"

lemma bindE_simps [simp]:
  "bindE (Inl e) f = Inl e" "bindE (Inr a) f = f a"
  by (simp_all add: bindE_def)

lemma bindE_Inr_iff: "bindE r f = Inr b \<longleftrightarrow> (\<exists>a. r = Inr a \<and> f a = Inr b)"
  by (cases r) auto

definition guard :: "bool \<Rightarrow> err \<Rightarrow> unit res" where
  "guard ok e = (if ok then Inr () else Inl e)"

lemma guard_Inr [simp]: "guard ok e = Inr u \<longleftrightarrow> ok"
  by (simp add: guard_def)

lemma guard_simps [simp]: "guard True e = Inr ()" "guard False e = Inl e"
  by (simp_all add: guard_def)

definition is_Inr :: "'a res \<Rightarrow> bool" where
  "is_Inr r = (case r of Inl _ \<Rightarrow> False | Inr _ \<Rightarrow> True)"

lemma is_Inr_simps [simp]: "is_Inr (Inr a)" "\<not> is_Inr (Inl e)"
  by (simp_all add: is_Inr_def)

section \<open>Actions: state and exceptions\<close>

text \<open>
  An \<open>async\<close> method is an action: it takes the store and gives a result, an exception or
  a value, and the store it leaves. Writes made before a throw stay, as they do in the
  database; \<open>transaction\<close> is \<open>prisma.$transaction\<close>, which rolls them back.
\<close>

type_synonym ('s, 'a) act = "'s \<Rightarrow> 'a res \<times> 's"

definition ret :: "'a \<Rightarrow> ('s, 'a) act" where
  "ret a s = (Inr a, s)"

definition throw :: "err \<Rightarrow> ('s, 'a) act" where
  "throw e s = (Inl e, s)"

definition bindA :: "('s, 'a) act \<Rightarrow> ('a \<Rightarrow> ('s, 'b) act) \<Rightarrow> ('s, 'b) act" where
  "bindA m f s = (case m s of (Inl e, t) \<Rightarrow> (Inl e, t) | (Inr a, t) \<Rightarrow> f a t)"

definition reads :: "('s \<Rightarrow> 'a res) \<Rightarrow> ('s, 'a) act" where
  "reads g s = (g s, s)"

definition gets :: "('s \<Rightarrow> 'a) \<Rightarrow> ('s, 'a) act" where
  "gets g s = (Inr (g s), s)"

definition modify :: "('s \<Rightarrow> 's) \<Rightarrow> ('s, unit) act" where
  "modify h s = (Inr (), h s)"

definition catch :: "('s, 'a) act \<Rightarrow> (err \<Rightarrow> ('s, 'a) act) \<Rightarrow> ('s, 'a) act" where
  "catch m h s = (case m s of (Inl e, t) \<Rightarrow> h e t | (Inr a, t) \<Rightarrow> (Inr a, t))"

definition transaction :: "('s, 'a) act \<Rightarrow> ('s, 'a) act" where
  "transaction m s = (case m s of (Inl e, t) \<Rightarrow> (Inl e, s) | (Inr a, t) \<Rightarrow> (Inr a, t))"

text \<open>A \<open>for\<close> loop over a list whose body may throw, collecting the results.\<close>

fun forA :: "'x list \<Rightarrow> ('x \<Rightarrow> ('s, 'a) act) \<Rightarrow> ('s, 'a list) act" where
  "forA [] f = ret []"
| "forA (x # xs) f = bindA (f x) (\<lambda>a. bindA (forA xs f) (\<lambda>as. ret (a # as)))"

lemma ret_apply [act_simps]: "ret a s = (Inr a, s)" by (simp add: ret_def)
lemma throw_apply [act_simps]: "throw e s = (Inl e, s)" by (simp add: throw_def)
lemma reads_apply [act_simps]: "reads g s = (g s, s)" by (simp add: reads_def)
lemma gets_apply [act_simps]: "gets g s = (Inr (g s), s)" by (simp add: gets_def)
lemma modify_apply [act_simps]: "modify h s = (Inr (), h s)" by (simp add: modify_def)

lemma bindA_reads [act_simps]:
  "bindA (reads g) f s = (case g s of Inl e \<Rightarrow> (Inl e, s) | Inr a \<Rightarrow> f a s)"
  by (simp add: bindA_def reads_def split: sum.splits)

lemma bindA_gets [act_simps]: "bindA (gets g) f s = f (g s) s"
  by (simp add: bindA_def gets_def)

lemma bindA_modify [act_simps]: "bindA (modify h) f s = f () (h s)"
  by (simp add: bindA_def modify_def)

lemma bindA_ret [act_simps]: "bindA (ret a) f = f a"
  by (simp add: bindA_def ret_def fun_eq_iff)

lemma bindA_throw [act_simps]: "bindA (throw e) f = throw e"
  by (simp add: bindA_def throw_def fun_eq_iff)

lemma bindA_assoc: "bindA (bindA m f) g = bindA m (\<lambda>a. bindA (f a) g)"
  by (auto simp: bindA_def fun_eq_iff split: prod.splits sum.splits)

lemma bindA_InrE:
  assumes "bindA m f s = (Inr b, t)"
  obtains a u where "m s = (Inr a, u)" and "f a u = (Inr b, t)"
  using assms by (auto simp: bindA_def split: prod.splits sum.splits)

lemma bindA_InlE:
  assumes "bindA m f s = (Inl e, t)"
  obtains "m s = (Inl e, t)" | a u where "m s = (Inr a, u)" and "f a u = (Inl e, t)"
  using assms by (auto simp: bindA_def split: prod.splits sum.splits)

lemma bindA_done: "m s = (Inr a, t) \<Longrightarrow> bindA m f s = f a t"
  by (simp add: bindA_def)

lemma bindA_fail: "m s = (Inl e, t) \<Longrightarrow> bindA m f s = (Inl e, t)"
  by (simp add: bindA_def)

lemma transaction_done: "m s = (Inr a, t) \<Longrightarrow> transaction m s = (Inr a, t)"
  by (simp add: transaction_def)

section \<open>Relations between the store before and after\<close>

text \<open>
  \<open>within R m s\<close>: running \<open>m\<close> from \<open>s\<close>, whether it returns or throws, ends in a store
  related to \<open>s\<close>. For a reflexive and transitive \<open>R\<close> the rules below carry a handler's
  proof through its structure, leaving one obligation for each write.
\<close>

definition within :: "('s \<Rightarrow> 's \<Rightarrow> bool) \<Rightarrow> ('s, 'a) act \<Rightarrow> 's \<Rightarrow> bool" where
  "within R m s = R s (snd (m s))"

locale store_rel =
  fixes R :: "'s \<Rightarrow> 's \<Rightarrow> bool"
  assumes rel_refl: "R s s"
    and rel_trans: "R s t \<Longrightarrow> R t u \<Longrightarrow> R s u"
begin

lemma within_ret: "within R (ret a) s"
  by (simp add: within_def ret_def rel_refl)

lemma within_throw: "within R (throw e) s"
  by (simp add: within_def throw_def rel_refl)

lemma within_reads: "within R (reads g) s"
  by (simp add: within_def reads_def rel_refl)

lemma within_gets: "within R (gets g) s"
  by (simp add: within_def gets_def rel_refl)

lemma within_modify: "R s (h s) \<Longrightarrow> within R (modify h) s"
  by (simp add: within_def modify_def)

lemma within_bind_reads:
  "(\<And>a. g s = Inr a \<Longrightarrow> within R (f a) s) \<Longrightarrow> within R (bindA (reads g) f) s"
  by (auto simp: within_def bindA_reads rel_refl split: sum.splits)

lemma within_bind_gets: "within R (f (g s)) s \<Longrightarrow> within R (bindA (gets g) f) s"
  by (simp add: within_def bindA_gets)

lemma within_bind:
  assumes "within R m s"
    and "\<And>a t. m s = (Inr a, t) \<Longrightarrow> R s t \<Longrightarrow> within R (f a) t"
  shows "within R (bindA m f) s"
  using assms rel_trans
  by (fastforce simp: within_def bindA_def split: prod.splits sum.splits)

lemma within_catch:
  assumes "within R m s"
    and "\<And>e t. m s = (Inl e, t) \<Longrightarrow> R s t \<Longrightarrow> within R (h e) t"
  shows "within R (catch m h) s"
  using assms rel_trans
  by (fastforce simp: within_def catch_def split: prod.splits sum.splits)

lemma within_transaction: "within R m s \<Longrightarrow> within R (transaction m) s"
  by (auto simp: within_def transaction_def rel_refl split: prod.splits sum.splits)

lemma within_if:
  "(b \<Longrightarrow> within R m s) \<Longrightarrow> (\<not> b \<Longrightarrow> within R n s) \<Longrightarrow> within R (if b then m else n) s"
  by simp

lemma within_option:
  "(x = None \<Longrightarrow> within R m s) \<Longrightarrow> (\<And>a. x = Some a \<Longrightarrow> within R (f a) s) \<Longrightarrow>
   within R (case x of None \<Rightarrow> m | Some a \<Rightarrow> f a) s"
  by (cases x) auto

lemma within_forA:
  "(\<And>x t. x \<in> set xs \<Longrightarrow> within R (f x) t) \<Longrightarrow> within R (forA xs f) s"
proof (induction xs arbitrary: s)
  case Nil
  then show ?case by (simp add: within_ret)
next
  case (Cons x xs)
  then show ?case by (auto intro!: within_bind within_ret)
qed

lemmas within_rules = within_ret within_throw within_reads within_gets
  within_bind_reads within_bind_gets within_catch within_transaction within_if
  within_option within_forA within_modify

lemma within_result: "within R m s \<Longrightarrow> m s = (r, t) \<Longrightarrow> R s t"
  by (simp add: within_def)

end

text \<open>
  Two kinds of relation are store relations: keeping a predicate (an invariant), and
  leaving a part of the store alone (a frame).
\<close>

definition keeps :: "('s \<Rightarrow> bool) \<Rightarrow> 's \<Rightarrow> 's \<Rightarrow> bool" where
  "keeps P s t = (P s \<longrightarrow> P t)"

definition same :: "('s \<Rightarrow> 'a) \<Rightarrow> 's \<Rightarrow> 's \<Rightarrow> bool" where
  "same f s t = (f t = f s)"

interpretation keeps: store_rel "keeps P" for P :: "'s \<Rightarrow> bool"
  by unfold_locales (auto simp: keeps_def)

interpretation same: store_rel "same f" for f :: "'s \<Rightarrow> 'a"
  by unfold_locales (auto simp: same_def)

section \<open>Tables\<close>

text \<open>
  A table is the list of its rows in insertion order. \<open>findUnique\<close> and \<open>findFirst\<close> give
  the first row that satisfies the condition; on a unique column there is at most one.
  \<open>update\<close> and \<open>updateMany\<close> rewrite the rows that satisfy the condition, \<open>deleteMany\<close>
  drops them, \<open>create\<close> appends.
\<close>

definition find_row :: "('r \<Rightarrow> bool) \<Rightarrow> 'r list \<Rightarrow> 'r option" where
  "find_row p rows = List.find p rows"

definition update_rows :: "('r \<Rightarrow> bool) \<Rightarrow> ('r \<Rightarrow> 'r) \<Rightarrow> 'r list \<Rightarrow> 'r list" where
  "update_rows p f rows = map (\<lambda>r. if p r then f r else r) rows"

definition delete_rows :: "('r \<Rightarrow> bool) \<Rightarrow> 'r list \<Rightarrow> 'r list" where
  "delete_rows p rows = filter (\<lambda>r. \<not> p r) rows"

definition count_rows :: "('r \<Rightarrow> bool) \<Rightarrow> 'r list \<Rightarrow> nat" where
  "count_rows p rows = length (filter p rows)"

definition exists_row :: "('r \<Rightarrow> bool) \<Rightarrow> 'r list \<Rightarrow> bool" where
  "exists_row p rows = list_ex p rows"

lemma find_row_Nil [simp]: "find_row p [] = None"
  by (simp add: find_row_def)

lemma find_row_Cons [simp]:
  "find_row p (r # rows) = (if p r then Some r else find_row p rows)"
  by (simp add: find_row_def)

lemma find_row_None: "find_row p rows = None \<longleftrightarrow> (\<forall>r \<in> set rows. \<not> p r)"
  by (induction rows) auto

lemma find_row_Some: "find_row p rows = Some r \<Longrightarrow> r \<in> set rows \<and> p r"
  by (induction rows) (auto split: if_splits)

lemma find_row_SomeD1: "find_row p rows = Some r \<Longrightarrow> r \<in> set rows"
  and find_row_SomeD2: "find_row p rows = Some r \<Longrightarrow> p r"
  by (auto dest: find_row_Some)

lemma find_row_append:
  "find_row p (xs @ ys) = (case find_row p xs of None \<Rightarrow> find_row p ys | Some r \<Rightarrow> Some r)"
  by (induction xs) auto

lemma exists_row_iff: "exists_row p rows \<longleftrightarrow> (\<exists>r \<in> set rows. p r)"
  by (simp add: exists_row_def list_ex_iff)

lemma set_update_rows: "set (update_rows p f rows) = (\<lambda>r. if p r then f r else r) ` set rows"
  by (simp add: update_rows_def)

lemma length_update_rows [simp]: "length (update_rows p f rows) = length rows"
  by (simp add: update_rows_def)

lemma set_delete_rows: "set (delete_rows p rows) = {r \<in> set rows. \<not> p r}"
  by (auto simp: delete_rows_def)

lemma map_update_rows:
  "(\<And>r. r \<in> set rows \<Longrightarrow> p r \<Longrightarrow> k (f r) = k r) \<Longrightarrow> map k (update_rows p f rows) = map k rows"
  by (auto simp: update_rows_def)

lemma distinct_map_delete_rows:
  "distinct (map k rows) \<Longrightarrow> distinct (map k (delete_rows p rows))"
  by (simp add: delete_rows_def distinct_map_filter)

lemma find_row_update_same:
  assumes "\<And>r. p (f r) = p r"
  shows "find_row p (update_rows p f rows) = map_option f (find_row p rows)"
  by (induction rows) (auto simp: update_rows_def assms)

lemma find_row_update_other:
  assumes "\<And>r. q r \<Longrightarrow> \<not> p r" and "\<And>r. p r \<Longrightarrow> \<not> q (f r)"
  shows "find_row q (update_rows p f rows) = find_row q rows"
  using assms by (induction rows) (auto simp: update_rows_def)

lemma find_row_unique:
  assumes "distinct (map k rows)" and "r \<in> set rows"
  shows "find_row (\<lambda>x. k x = k r) rows = Some r"
  using assms by (induction rows) (auto simp: rev_image_eqI)

lemma distinct_key_inj:
  "distinct (map k rows) \<Longrightarrow> x \<in> set rows \<Longrightarrow> y \<in> set rows \<Longrightarrow> k x = k y \<Longrightarrow> x = y"
  by (meson distinct_map inj_onD)

text \<open>
  The contract of a table with a key, as its clients use it: what is found after a create
  or an update, and that keys stay unique.
\<close>

locale keyed_table =
  fixes key :: "'r \<Rightarrow> 'k"
    and lookup :: "'k \<Rightarrow> 't \<Rightarrow> 'r option"
    and create :: "'r \<Rightarrow> 't \<Rightarrow> 't"
    and update :: "'k \<Rightarrow> ('r \<Rightarrow> 'r) \<Rightarrow> 't \<Rightarrow> 't"
    and wf :: "'t \<Rightarrow> bool"
  assumes lookup_key: "lookup k t = Some r \<Longrightarrow> key r = k"
    and lookup_create: "lookup (key r) t = None \<Longrightarrow>
          lookup k (create r t) = (if k = key r then Some r else lookup k t)"
    and lookup_update: "(\<And>r. key (f r) = key r) \<Longrightarrow>
          lookup k' (update k f t) = (if k' = k then map_option f (lookup k t) else lookup k' t)"
    and wf_create: "wf t \<Longrightarrow> lookup (key r) t = None \<Longrightarrow> wf (create r t)"
    and wf_update: "(\<And>r. key (f r) = key r) \<Longrightarrow> wf t \<Longrightarrow> wf (update k f t)"
begin

lemma lookup_created: "lookup (key r) t = None \<Longrightarrow> lookup (key r) (create r t) = Some r"
  by (simp add: lookup_create)

lemma lookup_kept: "lookup k t = Some x \<Longrightarrow> lookup (key r) t = None \<Longrightarrow>
  lookup k (create r t) = Some x"
  by (auto simp: lookup_create)

lemma lookup_updated:
  "(\<And>r. key (f r) = key r) \<Longrightarrow> lookup k t = Some x \<Longrightarrow> lookup k (update k f t) = Some (f x)"
  by (simp add: lookup_update)

end

definition lookup_by :: "('r \<Rightarrow> 'k) \<Rightarrow> 'k \<Rightarrow> 'r list \<Rightarrow> 'r option" where
  "lookup_by key k rows = find_row (\<lambda>r. key r = k) rows"

definition append_row :: "'r \<Rightarrow> 'r list \<Rightarrow> 'r list" where
  "append_row r rows = rows @ [r]"

definition update_by :: "('r \<Rightarrow> 'k) \<Rightarrow> 'k \<Rightarrow> ('r \<Rightarrow> 'r) \<Rightarrow> 'r list \<Rightarrow> 'r list" where
  "update_by key k f rows = update_rows (\<lambda>r. key r = k) f rows"

lemma find_row_congkey:
  "(\<And>r. key (f r) = key r) \<Longrightarrow>
   find_row (\<lambda>r. key r = k') (update_rows (\<lambda>r. key r = k) f rows) =
   (if k' = k then map_option f (find_row (\<lambda>r. key r = k) rows)
    else find_row (\<lambda>r. key r = k') rows)"
  by (induction rows) (auto simp: update_rows_def)

interpretation rows: keyed_table key "lookup_by key" append_row "update_by key"
    "\<lambda>rows. distinct (map key rows)" for key :: "'r \<Rightarrow> 'k"
proof unfold_locales
  show "lookup_by key k t = Some r \<Longrightarrow> key r = k" for k t r
    by (auto simp: lookup_by_def dest: find_row_SomeD2)
  show "lookup_by key (key r) t = None \<Longrightarrow>
      lookup_by key k (append_row r t) = (if k = key r then Some r else lookup_by key k t)" for r t k
    by (auto simp: lookup_by_def append_row_def find_row_append split: option.splits)
  show "(\<And>r. key (f r) = key r) \<Longrightarrow> lookup_by key k' (update_by key k f t) =
      (if k' = k then map_option f (lookup_by key k t) else lookup_by key k' t)" for f k k' t
    by (simp add: lookup_by_def update_by_def find_row_congkey)
  show "distinct (map key t) \<Longrightarrow> lookup_by key (key r) t = None \<Longrightarrow>
      distinct (map key (append_row r t))" for t r
    by (auto simp: lookup_by_def append_row_def find_row_None)
  show "(\<And>r. key (f r) = key r) \<Longrightarrow> distinct (map key t) \<Longrightarrow>
      distinct (map key (update_by key k f t))" for f t k
    by (simp add: update_by_def map_update_rows)
qed

lemma lookup_by_Some: "lookup_by key k rows = Some r \<Longrightarrow> r \<in> set rows \<and> key r = k"
  by (auto simp: lookup_by_def dest: find_row_Some)

lemma lookup_by_None: "lookup_by key k rows = None \<longleftrightarrow> k \<notin> key ` set rows"
  by (auto simp: lookup_by_def find_row_None)

lemma set_append_row [simp]: "set (append_row r rows) = insert r (set rows)"
  by (auto simp: append_row_def)

lemma set_update_by:
  "set (update_by key k f rows) = (\<lambda>r. if key r = k then f r else r) ` set rows"
  by (simp add: update_by_def set_update_rows)

lemma map_update_by:
  "(\<And>r. g (f r) = g r) \<Longrightarrow> map g (update_by key k f rows) = map g rows"
  by (simp add: update_by_def map_update_rows)

lemma map_append_row [simp]: "map g (append_row r rows) = map g rows @ [g r]"
  by (simp add: append_row_def)

section \<open>Strings\<close>

definition is_space :: "char \<Rightarrow> bool" where
  "is_space c = (c = CHR '' '' \<or> c = CHR 0x09 \<or> c = CHR 0x0A \<or> c = CHR 0x0B \<or>
     c = CHR 0x0C \<or> c = CHR 0x0D)"

definition trim_left :: "string \<Rightarrow> string" where
  "trim_left s = dropWhile is_space s"

definition trim :: "string \<Rightarrow> string" where
  "trim s = rev (trim_left (rev (trim_left s)))"

definition blank :: "string \<Rightarrow> bool" where
  "blank s = (trim s = [])"

text \<open>\<open>s.split(c)\<close> for a one-character separator.\<close>

fun split_on :: "char \<Rightarrow> string \<Rightarrow> string list" where
  "split_on d [] = [[]]"
| "split_on d (c # cs) =
     (if c = d then [] # split_on d cs
      else (case split_on d cs of [] \<Rightarrow> [[c]] | p # ps \<Rightarrow> (c # p) # ps))"

definition starts_with :: "string \<Rightarrow> string \<Rightarrow> bool" where
  "starts_with p s = prefix p s"

definition upper_char :: "char \<Rightarrow> char" where
  "upper_char c = (let n = of_char c :: nat in if 97 \<le> n \<and> n \<le> 122 then char_of (n - 32) else c)"

definition to_upper :: "string \<Rightarrow> string" where
  "to_upper s = map upper_char s"

definition lower_char :: "char \<Rightarrow> char" where
  "lower_char ch = (let n = of_char ch :: nat in if 65 \<le> n \<and> n \<le> 90 then char_of (n + 32) else ch)"

definition to_lower :: "string \<Rightarrow> string" where
  "to_lower s = map lower_char s"

text \<open>A nullable string column or optional argument in a condition: null, undefined and
  the empty string are falsy.\<close>

definition truthy :: "string option \<Rightarrow> bool" where
  "truthy x = (case x of None \<Rightarrow> False | Some s \<Rightarrow> s \<noteq> [])"

lemma truthy_simps [simp]: "\<not> truthy None" "truthy (Some s) \<longleftrightarrow> s \<noteq> []"
  by (simp_all add: truthy_def)

lemma truthyE: "truthy x \<Longrightarrow> (\<And>s. x = Some s \<Longrightarrow> s \<noteq> [] \<Longrightarrow> P) \<Longrightarrow> P"
  by (cases x) auto

end
