(* ===== verification/Json.thy ===== *)
theory Json
  imports Prelude
begin

text \<open>
  JSON values as the code sees them (\<open>unknown\<close>, \<open>Prisma.JsonValue\<close>), \<open>JSON.stringify\<close>
  and \<open>JSON.parse\<close>. Objects keep their keys in insertion order; a number is an integer or,
  for a literal whose exact decimal value is not an integer, its text. Integers are not
  rounded to doubles. The main result is the round trip \<open>json_parse_stringify\<close>.
\<close>

datatype json =
    JNull
  | JBool bool
  | JInt int
  | JFloat string
  | JStr string
  | JArr "json list"
  | JObj "(string \<times> json) list"

text \<open>Reading a property of an object value: \<open>undefined\<close> is \<^term>\<open>None\<close>.\<close>

definition obj_get :: "(string \<times> json) list \<Rightarrow> string \<Rightarrow> json option" where
  "obj_get fs k = map_of fs k"

definition is_str :: "json option \<Rightarrow> bool" where
  "is_str v = (case v of Some (JStr _) \<Rightarrow> True | _ \<Rightarrow> False)"

definition str_of :: "json option \<Rightarrow> string option" where
  "str_of v = (case v of Some (JStr s) \<Rightarrow> Some s | _ \<Rightarrow> None)"

lemma str_of_Some: "str_of v = Some s \<longleftrightarrow> v = Some (JStr s)"
  by (auto simp: str_of_def split: option.splits json.splits)

text \<open>\<open>Array.isArray\<close> false, not null, \<open>typeof\<close> object: the record test of the services.\<close>

definition as_record :: "json \<Rightarrow> (string \<times> json) list option" where
  "as_record v = (case v of JObj fs \<Rightarrow> Some fs | _ \<Rightarrow> None)"

section \<open>JSON.stringify\<close>

definition hex_digit :: "nat \<Rightarrow> char" where
  "hex_digit n = (if n < 10 then char_of (48 + n) else char_of (87 + n))"

definition escape_char :: "char \<Rightarrow> string" where
  "escape_char c =
    (if c = CHR 0x22 then [CHR 0x5C, CHR 0x22]
     else if c = CHR 0x5C then [CHR 0x5C, CHR 0x5C]
     else if c = CHR 0x08 then [CHR 0x5C, CHR ''b'']
     else if c = CHR 0x0C then [CHR 0x5C, CHR ''f'']
     else if c = CHR 0x0A then [CHR 0x5C, CHR ''n'']
     else if c = CHR 0x0D then [CHR 0x5C, CHR ''r'']
     else if c = CHR 0x09 then [CHR 0x5C, CHR ''t'']
     else if (of_char c :: nat) < 32
       then [CHR 0x5C, CHR ''u'', CHR ''0'', CHR ''0'',
             hex_digit (of_char c div 16), hex_digit (of_char c mod 16)]
     else [c])"

definition quote :: "string \<Rightarrow> string" where
  "quote s = CHR 0x22 # concat (map escape_char s) @ [CHR 0x22]"

fun nat_text :: "nat \<Rightarrow> string" where
  "nat_text n = (if n < 10 then [char_of (48 + n)]
                 else nat_text (n div 10) @ [char_of (48 + n mod 10)])"

declare nat_text.simps [simp del]

definition int_text :: "int \<Rightarrow> string" where
  "int_text i = (if i < 0 then CHR ''-'' # nat_text (nat (- i)) else nat_text (nat i))"

fun commas :: "string list \<Rightarrow> string" where
  "commas [] = []"
| "commas [s] = s"
| "commas (s # t # ts) = s @ CHR '','' # commas (t # ts)"

fun stringify :: "json \<Rightarrow> string" where
  "stringify JNull = ''null''"
| "stringify (JBool b) = (if b then ''true'' else ''false'')"
| "stringify (JInt i) = int_text i"
| "stringify (JFloat s) = s"
| "stringify (JStr s) = quote s"
| "stringify (JArr vs) = CHR ''['' # commas (map stringify vs) @ '']''"
| "stringify (JObj fs) =
     CHR 0x7B # commas (map (\<lambda>(k, v). quote k @ CHR '':'' # stringify v) fs) @ [CHR 0x7D]"

section \<open>JSON.parse\<close>

type_synonym 'a parser = "string \<Rightarrow> ('a \<times> string) option"

definition json_space :: "char \<Rightarrow> bool" where
  "json_space c = (c = CHR '' '' \<or> c = CHR 0x09 \<or> c = CHR 0x0A \<or> c = CHR 0x0D)"

definition skip_ws :: "string \<Rightarrow> string" where
  "skip_ws s = dropWhile json_space s"

text \<open>The rest of the input after one expected character.\<close>

definition eat :: "char \<Rightarrow> string \<Rightarrow> string option" where
  "eat c s = (if s \<noteq> [] \<and> hd s = c then Some (tl s) else None)"

lemma eat_simps [simp]:
  "eat c [] = None" "eat c (d # s) = (if d = c then Some s else None)"
  by (auto simp: eat_def)

definition is_digit :: "char \<Rightarrow> bool" where
  "is_digit c = (48 \<le> (of_char c :: nat) \<and> (of_char c :: nat) \<le> 57)"

definition digit_value :: "char \<Rightarrow> nat" where
  "digit_value c = of_char c - 48"

definition digits_value :: "string \<Rightarrow> nat" where
  "digits_value s = foldl (\<lambda>a c. 10 * a + digit_value c) 0 s"

text \<open>The exact value of a number literal: an integer where it is one.\<close>

definition number_value :: "bool \<Rightarrow> string \<Rightarrow> string \<Rightarrow> int \<Rightarrow> string \<Rightarrow> json" where
  "number_value neg ip fp ex text =
    (let m = int (digits_value (ip @ fp)); m' = (if neg then - m else m);
         k = ex - int (length fp)
     in if 0 \<le> k then JInt (m' * 10 ^ nat k)
        else if (10 ^ nat (- k)) dvd m' then JInt (m' div 10 ^ nat (- k))
        else JFloat text)"

definition number_char :: "char \<Rightarrow> bool" where
  "number_char c = (is_digit c \<or> c \<in> set ''-+.eE'')"

definition read_exponent :: "string \<Rightarrow> int option" where
  "read_exponent s =
    (case s of
       [] \<Rightarrow> Some 0
     | c # r \<Rightarrow>
        if c \<in> set ''eE'' then
          (let neg = (r \<noteq> [] \<and> hd r = CHR ''-'');
               ds = (if r \<noteq> [] \<and> hd r \<in> set ''-+'' then tl r else r)
           in if ds \<noteq> [] \<and> list_all is_digit ds
              then Some (if neg then - int (digits_value ds) else int (digits_value ds))
              else None)
        else None)"

definition read_number :: "string \<Rightarrow> json option" where
  "read_number text =
    (let neg = (text \<noteq> [] \<and> hd text = CHR ''-''); s = (if neg then tl text else text);
         ip = takeWhile is_digit s; r = dropWhile is_digit s
     in if ip = [] \<or> (hd ip = CHR ''0'' \<and> 1 < length ip) then None
        else if r \<noteq> [] \<and> hd r = CHR ''.'' then
          (let fp = takeWhile is_digit (tl r); r2 = dropWhile is_digit (tl r)
           in if fp = [] then None
              else map_option (\<lambda>ex. number_value neg ip fp ex text) (read_exponent r2))
        else map_option (\<lambda>ex. number_value neg ip [] ex text) (read_exponent r))"

definition hex_value :: "char \<Rightarrow> nat option" where
  "hex_value c = (let n = of_char c :: nat in
     if 48 \<le> n \<and> n \<le> 57 then Some (n - 48)
     else if 97 \<le> n \<and> n \<le> 102 then Some (n - 87)
     else if 65 \<le> n \<and> n \<le> 70 then Some (n - 55)
     else None)"

definition hex4 :: "char \<Rightarrow> char \<Rightarrow> char \<Rightarrow> char \<Rightarrow> nat option" where
  "hex4 a b c d = (case (hex_value a, hex_value b, hex_value c, hex_value d) of
     (Some w, Some x, Some y, Some z) \<Rightarrow> Some (4096 * w + 256 * x + 16 * y + z)
   | _ \<Rightarrow> None)"

text \<open>UTF-8 of one code point (a lone surrogate keeps its three bytes).\<close>

definition utf8_of :: "nat \<Rightarrow> string" where
  "utf8_of n =
    (if n < 128 then [char_of n]
     else if n < 2048 then [char_of (192 + n div 64), char_of (128 + n mod 64)]
     else if n < 65536 then
       [char_of (224 + n div 4096), char_of (128 + n div 64 mod 64), char_of (128 + n mod 64)]
     else [char_of (240 + n div 262144), char_of (128 + n div 4096 mod 64),
           char_of (128 + n div 64 mod 64), char_of (128 + n mod 64)])"

definition simple_escape :: "char \<Rightarrow> char option" where
  "simple_escape c =
    (if c = CHR 0x22 then Some (CHR 0x22) else if c = CHR 0x5C then Some (CHR 0x5C)
     else if c = CHR ''/'' then Some (CHR ''/'') else if c = CHR ''b'' then Some (CHR 0x08)
     else if c = CHR ''f'' then Some (CHR 0x0C) else if c = CHR ''n'' then Some (CHR 0x0A)
     else if c = CHR ''r'' then Some (CHR 0x0D) else if c = CHR ''t'' then Some (CHR 0x09)
     else None)"

definition push_str :: "string \<Rightarrow> (string \<times> string) option \<Rightarrow> (string \<times> string) option" where
  "push_str p r = map_option (\<lambda>(s, rest). (p @ s, rest)) r"

text \<open>The body of a string literal, after its opening quote. A surrogate pair written as
  two escapes is one code point.\<close>

fun read_string :: "nat \<Rightarrow> string parser" where
  "read_string 0 s = None"
| "read_string (Suc n) [] = None"
| "read_string (Suc n) (c # cs) =
    (if c = CHR 0x22 then Some ([], cs)
     else if c = CHR 0x5C then
       (case cs of
          [] \<Rightarrow> None
        | e # r \<Rightarrow>
           if e = CHR ''u'' then
             (case r of
                w # x # y # z # r2 \<Rightarrow>
                  (case hex4 w x y z of
                     None \<Rightarrow> None
                   | Some hi \<Rightarrow>
                      (case r2 of
                         b # u # w2 # x2 # y2 # z2 # r3 \<Rightarrow>
                           (case hex4 w2 x2 y2 z2 of
                              Some lo \<Rightarrow>
                                if 55296 \<le> hi \<and> hi < 56320 \<and> b = CHR 0x5C \<and> u = CHR ''u'' \<and>
                                   56320 \<le> lo \<and> lo < 57344
                                then push_str (utf8_of (65536 + (hi - 55296) * 1024 + (lo - 56320)))
                                       (read_string n r3)
                                else push_str (utf8_of hi) (read_string n r2)
                            | None \<Rightarrow> push_str (utf8_of hi) (read_string n r2))
                       | _ \<Rightarrow> push_str (utf8_of hi) (read_string n r2)))
              | _ \<Rightarrow> None)
           else (case simple_escape e of
                   None \<Rightarrow> None
                 | Some d \<Rightarrow> push_str [d] (read_string n r)))
     else if (of_char c :: nat) < 32 then None
     else push_str [c] (read_string n cs))"

definition read_str :: "string parser" where
  "read_str s = read_string (Suc (length s)) s"

text \<open>Of two members with one name the last value wins, at the place of the first.\<close>

fun put_member :: "string \<Rightarrow> json \<Rightarrow> (string \<times> json) list \<Rightarrow> (string \<times> json) list" where
  "put_member k v [] = [(k, v)]"
| "put_member k v ((k', v') # fs) = (if k = k' then (k, v) # fs else (k', v') # put_member k v fs)"

text \<open>
  The recursive descent, with fuel: one unit per nesting level and element. The whole text's
  length and one are enough, since every call consumes a character.
\<close>

fun read_value :: "nat \<Rightarrow> json parser"
  and read_elems :: "nat \<Rightarrow> json list parser"
  and read_members :: "nat \<Rightarrow> (string \<times> json) list \<Rightarrow> (string \<times> json) list parser" where
  "read_value 0 s = None"
| "read_value (Suc n) s =
    (case s of
       [] \<Rightarrow> None
     | c # r \<Rightarrow>
        if c = CHR 0x22 then map_option (\<lambda>(t, r). (JStr t, r)) (read_str r)
        else if c = CHR ''['' then
          (case eat CHR '']'' (skip_ws r) of
             Some r2 \<Rightarrow> Some (JArr [], r2)
           | None \<Rightarrow> map_option (\<lambda>(vs, r). (JArr vs, r)) (read_elems n (skip_ws r)))
        else if c = CHR 0x7B then
          (case eat CHR 0x7D (skip_ws r) of
             Some r2 \<Rightarrow> Some (JObj [], r2)
           | None \<Rightarrow> map_option (\<lambda>(fs, r). (JObj fs, r)) (read_members n [] (skip_ws r)))
        else if prefix ''null'' s then Some (JNull, drop 4 s)
        else if prefix ''true'' s then Some (JBool True, drop 4 s)
        else if prefix ''false'' s then Some (JBool False, drop 5 s)
        else map_option (\<lambda>v. (v, dropWhile number_char s)) (read_number (takeWhile number_char s)))"
| "read_elems 0 s = None"
| "read_elems (Suc n) s =
    (case read_value n s of
       None \<Rightarrow> None
     | Some (v, r) \<Rightarrow>
        (case eat CHR '']'' (skip_ws r) of
           Some r2 \<Rightarrow> Some ([v], r2)
         | None \<Rightarrow>
            (case eat CHR '','' (skip_ws r) of
               Some r2 \<Rightarrow> map_option (\<lambda>(vs, r). (v # vs, r)) (read_elems n (skip_ws r2))
             | None \<Rightarrow> None)))"
| "read_members 0 acc s = None"
| "read_members (Suc n) acc s =
    (case eat CHR 0x22 s of
       None \<Rightarrow> None
     | Some r \<Rightarrow>
        (case read_str r of
           None \<Rightarrow> None
         | Some (k, r1) \<Rightarrow>
            (case eat CHR '':'' (skip_ws r1) of
               None \<Rightarrow> None
             | Some r2 \<Rightarrow>
                (case read_value n (skip_ws r2) of
                   None \<Rightarrow> None
                 | Some (v, r3) \<Rightarrow>
                    (case eat CHR 0x7D (skip_ws r3) of
                       Some r4 \<Rightarrow> Some (put_member k v acc, r4)
                     | None \<Rightarrow>
                        (case eat CHR '','' (skip_ws r3) of
                           Some r4 \<Rightarrow> read_members n (put_member k v acc) (skip_ws r4)
                         | None \<Rightarrow> None))))))"

definition json_parse :: "string \<Rightarrow> json option" where
  "json_parse s =
    (case read_value (Suc (length s)) (skip_ws s) of
       None \<Rightarrow> None
     | Some (v, r) \<Rightarrow> if skip_ws r = [] then Some v else None)"

section \<open>The round trip\<close>

lemma hex_value_digit: "d < 16 \<Longrightarrow> hex_value (hex_digit d) = Some d"
  by (auto simp: hex_value_def hex_digit_def of_char_of)

lemma push_str_Some [simp]: "push_str p (Some (s, r)) = Some (p @ s, r)"
  by (simp add: push_str_def)

lemma read_string_u:
  assumes "hex4 w x y z = Some hi" and "hi < 55296"
  shows "read_string (Suc n) (CHR 0x5C # CHR ''u'' # w # x # y # z # r) =
    push_str (utf8_of hi) (read_string n r)"
  using assms by (auto split: list.splits option.splits)

lemma read_string_quoted:
  "length s < n \<Longrightarrow>
   read_string n (concat (map escape_char s) @ CHR 0x22 # rest) = Some (s, rest)"
proof (induction s arbitrary: n)
  case Nil
  then show ?case by (cases n) auto
next
  case (Cons c s)
  then obtain m where n: "n = Suc m" and m: "length s < m" by (cases n) auto
  note IH = Cons.IH [OF m]
  let ?k = "of_char c :: nat"
  consider (special) "c \<in> {CHR 0x22, CHR 0x5C, CHR 0x08, CHR 0x0C, CHR 0x0A, CHR 0x0D, CHR 0x09}"
    | (control) "c \<notin> {CHR 0x22, CHR 0x5C, CHR 0x08, CHR 0x0C, CHR 0x0A, CHR 0x0D, CHR 0x09}" "?k < 32"
    | (plain) "c \<notin> {CHR 0x22, CHR 0x5C, CHR 0x08, CHR 0x0C, CHR 0x0A, CHR 0x0D, CHR 0x09}" "\<not> ?k < 32"
    by blast
  then show ?case
  proof cases
    case special
    then show ?thesis using IH n by (auto simp: escape_char_def simple_escape_def)
  next
    case control
    have "hex4 CHR ''0'' CHR ''0'' (hex_digit (?k div 16)) (hex_digit (?k mod 16)) = Some ?k"
      using control(2) by (simp add: hex4_def hex_value_digit) (simp add: hex_value_def)
    moreover have "utf8_of ?k = [c]" using control(2) by (simp add: utf8_of_def)
    moreover have "escape_char c = [CHR 0x5C, CHR ''u'', CHR ''0'', CHR ''0'',
        hex_digit (?k div 16), hex_digit (?k mod 16)]"
      using control by (auto simp: escape_char_def)
    ultimately show ?thesis
      using control(2) IH n by (simp add: read_string_u del: read_string.simps)
  next
    case plain
    then show ?thesis using IH n by (auto simp: escape_char_def)
  qed
qed

lemma length_escape: "length s \<le> length (concat (map escape_char s))"
  by (induction s) (auto simp: escape_char_def)

lemma read_quoted: "read_str (concat (map escape_char s) @ CHR 0x22 # rest) = Some (s, rest)"
  unfolding read_str_def by (rule read_string_quoted) (use length_escape [of s] in simp)

lemma nat_text_ne: "nat_text n \<noteq> []"
  by (subst nat_text.simps) simp

lemma is_digit_char: "(d :: nat) < 10 \<Longrightarrow> is_digit (char_of (48 + d))"
  by (simp add: is_digit_def of_char_of)

lemma nat_text_digits: "list_all is_digit (nat_text n)"
proof (induction n rule: nat_text.induct)
  case (1 n)
  then show ?case
    by (subst nat_text.simps) (auto simp: is_digit_char)
qed

lemma nat_text_value: "digits_value (nat_text n) = n"
proof (induction n rule: nat_text.induct)
  case (1 n)
  then show ?case
    by (subst nat_text.simps) (auto simp: digits_value_def digit_value_def of_char_of)
qed

lemma nat_text_head: "hd (nat_text n) = CHR ''0'' \<Longrightarrow> length (nat_text n) = 1"
proof (induction n rule: nat_text.induct)
  case (1 n)
  show ?case
  proof (cases "n < 10")
    case True
    then show ?thesis by (subst nat_text.simps) simp
  next
    case False
    then have eq: "nat_text n = nat_text (n div 10) @ [char_of (48 + n mod 10)]"
      by (subst nat_text.simps) simp
    with "1.prems" have "hd (nat_text (n div 10)) = CHR ''0''" by (simp add: nat_text_ne)
    with "1.IH" False have "length (nat_text (n div 10)) = 1" by simp
    moreover obtain c where c: "nat_text (n div 10) = [c]"
      using calculation by (auto simp: length_Suc_conv)
    ultimately have "digits_value [CHR ''0''] = n div 10"
      using nat_text_value [of "n div 10"] \<open>hd (nat_text (n div 10)) = CHR ''0''\<close> by simp
    with False show ?thesis by (simp add: digits_value_def digit_value_def)
  qed
qed

lemma is_digit_number: "is_digit c \<Longrightarrow> number_char c"
  by (simp add: number_char_def)

lemma takeWhile_all_append:
  "list_all p xs \<Longrightarrow> ys = [] \<or> \<not> p (hd ys) \<Longrightarrow>
   takeWhile p (xs @ ys) = xs \<and> dropWhile p (xs @ ys) = ys"
  by (cases ys) (auto simp: list_all_iff takeWhile_append dropWhile_append)

lemma takeWhile_all: "list_all p xs \<Longrightarrow> takeWhile p xs = xs \<and> dropWhile p xs = []"
  using takeWhile_all_append [of p xs "[]"] by simp

lemma hd_digit_not_minus: "is_digit (hd s) \<Longrightarrow> hd s \<noteq> CHR ''-''"
  by (auto simp: is_digit_def)

lemma hd_nat_text: "is_digit (hd (nat_text n))"
  using nat_text_digits [of n] nat_text_ne [of n] by (cases "nat_text n") auto

lemma nat_text_takeWhile [simp]:
  "takeWhile is_digit (nat_text n) = nat_text n" "dropWhile is_digit (nat_text n) = []"
  using takeWhile_all [OF nat_text_digits [of n]] by simp_all

lemma nat_text_not_zero: "hd (nat_text n) = CHR ''0'' \<Longrightarrow> \<not> 1 < length (nat_text n)"
  using nat_text_head [of n] by simp

lemma read_number_nat: "read_number (nat_text n) = Some (JInt (int n))"
  using nat_text_ne [of n] nat_text_not_zero [of n] hd_digit_not_minus [OF hd_nat_text [of n]]
  by (auto simp: read_number_def Let_def read_exponent_def number_value_def nat_text_value)

lemma read_number_neg: "read_number (CHR ''-'' # nat_text n) = Some (JInt (- int n))"
  using nat_text_ne [of n] nat_text_not_zero [of n]
  by (auto simp: read_number_def Let_def read_exponent_def number_value_def nat_text_value)

lemma read_number_int: "read_number (int_text i) = Some (JInt i)"
  by (simp add: int_text_def read_number_nat read_number_neg)

lemma int_text_chars: "list_all number_char (int_text i)"
  using nat_text_digits by (auto simp: int_text_def list_all_iff number_char_def)

lemma int_text_hd: "int_text i \<noteq> [] \<and> (is_digit (hd (int_text i)) \<or> hd (int_text i) = CHR ''-'')"
  using hd_nat_text nat_text_ne by (auto simp: int_text_def)

text \<open>Values whose numbers are integers and whose objects have no repeated name: what
  \<open>JSON.stringify\<close> gives back.\<close>

fun plain_json :: "json \<Rightarrow> bool" where
  "plain_json (JFloat s) = False"
| "plain_json (JArr vs) = list_all plain_json vs"
| "plain_json (JObj fs) = (distinct (map fst fs) \<and> list_all (\<lambda>(k, v). plain_json v) fs)"
| "plain_json v = True"

fun fuel_of :: "json \<Rightarrow> nat" where
  "fuel_of (JArr vs) = Suc (sum_list (map (\<lambda>v. Suc (fuel_of v)) vs))"
| "fuel_of (JObj fs) = Suc (sum_list (map (\<lambda>(k, v). Suc (fuel_of v)) fs))"
| "fuel_of v = 1"


lemma length_commas:
  "length (commas ss) = sum_list (map length ss) + (length ss - 1)"
  by (induction ss rule: commas.induct) auto

lemma length_quote: "2 \<le> length (quote s)"
  by (simp add: quote_def)

lemma sum_list_Suc: "(\<Sum>x\<leftarrow>xs. Suc (f x)) = sum_list (map f xs) + length xs"
  by (induction xs) auto

lemma fuel_of_le: "plain_json v \<Longrightarrow> fuel_of v \<le> length (stringify v)"
proof (induction v rule: fuel_of.induct)
  case (1 vs)
  then have "sum_list (map fuel_of vs) \<le> sum_list (map (length \<circ> stringify) vs)"
    by (intro sum_list_mono) (auto simp: list_all_iff)
  then show ?case
    by (auto simp: length_commas sum_list_Suc o_def)
next
  case (2 fs)
  let ?m = "\<lambda>(k, v). quote k @ CHR '':'' # stringify v"
  have "Suc (fuel_of (snd x)) \<le> length (?m x)" if "x \<in> set fs" for x
  proof -
    obtain k v where x: "x = (k, v)" by (cases x)
    with 2 that have "fuel_of v \<le> length (stringify v)" by (fastforce simp: list_all_iff)
    with x show ?thesis by simp
  qed
  then have "sum_list (map (\<lambda>x. Suc (fuel_of (snd x))) fs) \<le> sum_list (map (length \<circ> ?m) fs)"
    by (intro sum_list_mono) auto
  then show ?case by (simp add: length_commas case_prod_unfold o_def)
qed (auto simp: quote_def Suc_le_eq int_text_hd)

definition ends_number :: "string \<Rightarrow> bool" where
  "ends_number rest = (rest = [] \<or> \<not> number_char (hd rest))"

lemma ends_number_simps [simp]:
  "ends_number []" "ends_number (c # r) \<longleftrightarrow> \<not> number_char c"
  by (auto simp: ends_number_def)

lemma not_number_chars [simp]:
  "\<not> number_char CHR '','' " "\<not> number_char CHR '']''" "\<not> number_char CHR 0x7D"
  by (simp_all add: number_char_def is_digit_def)

lemma skip_ws_simps [simp]:
  "skip_ws [] = []" "\<not> json_space c \<Longrightarrow> skip_ws (c # r) = c # r"
  by (simp_all add: skip_ws_def)

lemma not_json_space [simp]:
  "\<not> json_space CHR '','' " "\<not> json_space CHR '']''" "\<not> json_space CHR 0x7D"
  "\<not> json_space CHR 0x7B" "\<not> json_space CHR 0x22" "\<not> json_space CHR '':''" "\<not> json_space CHR ''[''"
  by (simp_all add: json_space_def)

lemma stringify_head:
  "plain_json v \<Longrightarrow> \<exists>c r. stringify v = c # r \<and> \<not> json_space c \<and> c \<noteq> CHR '']'' \<and> c \<noteq> CHR 0x7D"
proof (cases v)
  case (JInt i)
  then show ?thesis using int_text_hd [of i]
    by (cases "int_text i") (auto simp: json_space_def is_digit_def)
qed (auto simp: quote_def json_space_def)

lemma skip_ws_stringify: "plain_json v \<Longrightarrow> skip_ws (stringify v @ r) = stringify v @ r"
  using stringify_head by fastforce

lemma put_member_new: "k \<notin> fst ` set acc \<Longrightarrow> put_member k v acc = acc @ [(k, v)]"
  by (induction acc) auto

lemma read_elems_ok:
  assumes "\<And>v n rest. v \<in> set vs \<Longrightarrow> fuel_of v \<le> n \<Longrightarrow> ends_number rest \<Longrightarrow>
      read_value n (stringify v @ rest) = Some (v, rest)"
    and "vs \<noteq> []" and "(\<Sum>v\<leftarrow>vs. Suc (fuel_of v)) \<le> n" and "list_all plain_json vs"
  shows "read_elems n (commas (map stringify vs) @ CHR '']'' # rest) = Some (vs, rest)"
  using assms
proof (induction vs arbitrary: n)
  case Nil
  then show ?case by simp
next
  case (Cons v vs)
  then obtain m where n: "n = Suc m" and m: "fuel_of v \<le> m" "(\<Sum>v\<leftarrow>vs. Suc (fuel_of v)) \<le> m"
    by (cases n) auto
  have v: "read_value m (stringify v @ r) = Some (v, r)" if "ends_number r" for r
    using Cons.prems(1) m(1) that by simp
  show ?case
  proof (cases vs)
    case Nil
    then show ?thesis using n v by simp
  next
    case (Cons w ws)
    then have "read_elems m (commas (map stringify vs) @ CHR '']'' # rest) = Some (vs, rest)"
      using Cons.IH [of m] Cons.prems m(2) by simp
    moreover have "skip_ws (commas (map stringify vs) @ CHR '']'' # rest) =
        commas (map stringify vs) @ CHR '']'' # rest"
      using Cons Cons.prems(4) skip_ws_stringify [of w] by (cases ws) auto
    ultimately show ?thesis using n v Cons by simp
  qed
qed

lemma commas_Cons: "commas (s # ss) = s @ (if ss = [] then [] else CHR '','' # commas ss)"
  by (cases ss) auto

lemma commas_head:
  assumes "vs \<noteq> []" and "list_all plain_json vs"
  shows "\<exists>c r. commas (map stringify vs) @ t = c # r \<and> \<not> json_space c \<and> c \<noteq> CHR '']''"
proof -
  obtain v ws where vs: "vs = v # ws" using assms(1) by (cases vs) auto
  obtain c r where "stringify v = c # r" "\<not> json_space c" "c \<noteq> CHR '']''"
    using stringify_head [of v] assms(2) vs by auto
  then show ?thesis by (simp add: vs commas_Cons)
qed

abbreviation member_text :: "string \<times> json \<Rightarrow> string" where
  "member_text \<equiv> (\<lambda>(k, v). quote k @ CHR '':'' # stringify v)"

lemma members_head:
  "fs \<noteq> [] \<Longrightarrow> \<exists>r. commas (map member_text fs) @ t = CHR 0x22 # r"
  by (cases fs) (auto simp: quote_def commas_Cons)

lemma skip_ws_members:
  "fs \<noteq> [] \<Longrightarrow> skip_ws (commas (map member_text fs) @ r) = commas (map member_text fs) @ r"
  using members_head [of fs r] by auto

lemma read_members_ok:
  assumes "\<And>k v n rest. (k, v) \<in> set fs \<Longrightarrow> fuel_of v \<le> n \<Longrightarrow> ends_number rest \<Longrightarrow>
      read_value n (stringify v @ rest) = Some (v, rest)"
    and "fs \<noteq> []" and "(\<Sum>(k, v)\<leftarrow>fs. Suc (fuel_of v)) \<le> n"
    and "list_all (\<lambda>(k, v). plain_json v) fs" and "distinct (map fst (acc @ fs))"
  shows "read_members n acc (commas (map member_text fs) @ CHR 0x7D # rest) = Some (acc @ fs, rest)"
  using assms
proof (induction fs arbitrary: n acc)
  case Nil
  then show ?case by simp
next
  case (Cons f fs)
  obtain k v where f: "f = (k, v)" by (cases f)
  with Cons.prems obtain m where n: "n = Suc m" and m: "fuel_of v \<le> m"
      "(\<Sum>(k, v)\<leftarrow>fs. Suc (fuel_of v)) \<le> m"
    by (cases n) auto
  have v: "read_value m (stringify v @ r) = Some (v, r)" if "ends_number r" for r
    using Cons.prems(1) [of k v m r] m(1) that f by simp
  have ws: "skip_ws (stringify v @ r) = stringify v @ r" for r
    using Cons.prems(4) f by (simp add: skip_ws_stringify)
  have put: "put_member k v acc = acc @ [(k, v)]"
    using Cons.prems(5) f by (intro put_member_new) auto
  show ?case
  proof (cases "fs = []")
    case True
    then show ?thesis using n v f ws put by (simp add: quote_def read_quoted)
  next
    case False
    have "read_members m (acc @ [(k, v)]) (commas (map member_text fs) @ CHR 0x7D # rest) =
        Some ((acc @ [(k, v)]) @ fs, rest)"
      using Cons.prems m(2) f by (intro Cons.IH False) auto
    moreover have "commas (map member_text (f # fs)) =
        quote k @ CHR '':'' # stringify v @ CHR '','' # commas (map member_text fs)"
      using False f by (cases fs) auto
    ultimately show ?thesis
      using n v f ws put skip_ws_members [OF False] by (simp add: quote_def read_quoted)
  qed
qed

lemma read_value_int:
  assumes "ends_number rest"
  shows "read_value (Suc n) (int_text i @ rest) = Some (JInt i, rest)"
proof -
  obtain c r where cr: "int_text i = c # r" and c: "is_digit c \<or> c = CHR ''-''"
    using int_text_hd [of i] by (cases "int_text i") auto
  have "takeWhile number_char (int_text i @ rest) = int_text i \<and>
      dropWhile number_char (int_text i @ rest) = rest"
    using assms by (intro takeWhile_all_append int_text_chars) (simp add: ends_number_def)
  moreover have "c \<noteq> CHR 0x22" "c \<noteq> CHR ''[''" "c \<noteq> CHR 0x7B" "c \<noteq> CHR ''n''" "c \<noteq> CHR ''t''"
      "c \<noteq> CHR ''f''"
    using c by (auto simp: is_digit_def)
  ultimately show ?thesis using read_number_int [of i] cr by simp
qed

lemma read_value_atom:
  assumes "v = JNull \<or> (\<exists>b. v = JBool b) \<or> (\<exists>i. v = JInt i) \<or> (\<exists>t. v = JStr t)"
    and "1 \<le> n" and "ends_number rest"
  shows "read_value n (stringify v @ rest) = Some (v, rest)"
proof -
  obtain m where "n = Suc m" using assms(2) by (cases n) auto
  then have "read_value n (stringify JNull @ rest) = Some (JNull, rest)"
    "read_value n (stringify (JBool b) @ rest) = Some (JBool b, rest)"
    "read_value n (stringify (JInt i) @ rest) = Some (JInt i, rest)"
    "read_value n (stringify (JStr t) @ rest) = Some (JStr t, rest)" for b i t
    using assms(3) by (auto simp: quote_def read_quoted read_value_int [simplified])
  with assms(1) show ?thesis by blast
qed

lemma read_value_stringify:
  "plain_json v \<Longrightarrow> fuel_of v \<le> n \<Longrightarrow> ends_number rest \<Longrightarrow>
   read_value n (stringify v @ rest) = Some (v, rest)"
proof (induction v arbitrary: n rest rule: fuel_of.induct)
  case (1 vs)
  then obtain m where n: "n = Suc m" by (cases n) auto
  show ?case
  proof (cases "vs = []")
    case True
    then show ?thesis using n by simp
  next
    case False
    have "read_elems m (commas (map stringify vs) @ CHR '']'' # rest) = Some (vs, rest)"
      using 1 n False by (intro read_elems_ok) (auto simp: list_all_iff)
    moreover obtain c r where "commas (map stringify vs) @ CHR '']'' # rest = c # r"
      "\<not> json_space c" "c \<noteq> CHR '']''"
      using commas_head [OF False, of "CHR '']'' # rest"] 1(2) by auto
    ultimately show ?thesis using n by simp
  qed
next
  case (2 fs)
  then obtain m where n: "n = Suc m" by (cases n) auto
  show ?case
  proof (cases "fs = []")
    case True
    then show ?thesis using n by simp
  next
    case False
    have "read_members m [] (commas (map member_text fs) @ CHR 0x7D # rest) = Some ([] @ fs, rest)"
      using 2 n False by (intro read_members_ok) (auto simp: list_all_iff)
    moreover obtain r where "commas (map member_text fs) @ CHR 0x7D # rest = CHR 0x22 # r"
      using members_head [OF False] by blast
    ultimately show ?thesis using n by (simp split: if_splits)
  qed
next
  case "3_1"
  show ?case by (rule read_value_atom) (use "3_1" in auto)
next
  case "3_2"
  show ?case by (rule read_value_atom) (use "3_2" in auto)
next
  case "3_3"
  show ?case by (rule read_value_atom) (use "3_3" in auto)
next
  case "3_4"
  then show ?case by simp
next
  case "3_5"
  show ?case by (rule read_value_atom) (use "3_5" in auto)
qed

theorem json_parse_stringify: "plain_json v \<Longrightarrow> json_parse (stringify v) = Some v"
  using read_value_stringify [of v "Suc (length (stringify v))" "[]"] fuel_of_le [of v]
    skip_ws_stringify [of v "[]"]
  by (simp add: json_parse_def)

end
