(* ===== verification/Encoding.thy ===== *)
theory Encoding
  imports Json
begin

text \<open>
  \<open>Buffer.toString('base64url')\<close> and \<open>Buffer.from(s, 'base64url')\<close>, and the contract that
  every textual encoding of the tokens relies on: what is encoded is decoded again
  (\<open>codec\<close>). The JSON text of a value and its base64url form are instances, and so is
  their composition, the payload part of a signed token.
\<close>

section \<open>base64url\<close>

definition b64_char :: "nat \<Rightarrow> char" where
  "b64_char n =
    (if n < 26 then char_of (65 + n) else if n < 52 then char_of (71 + n)
     else if n < 62 then char_of (n - 4) else if n = 62 then CHR ''-'' else CHR ''_'')"

text \<open>The decoder also knows the standard alphabet and skips every other character.\<close>

definition b64_value :: "char \<Rightarrow> nat option" where
  "b64_value c = (let n = of_char c :: nat in
    if 65 \<le> n \<and> n \<le> 90 then Some (n - 65)
    else if 97 \<le> n \<and> n \<le> 122 then Some (n - 71)
    else if 48 \<le> n \<and> n \<le> 57 then Some (n + 4)
    else if n = 45 \<or> n = 43 then Some 62
    else if n = 95 \<or> n = 47 then Some 63
    else None)"

abbreviation byte :: "char \<Rightarrow> nat" where "byte c \<equiv> of_char c"

fun to_base64url :: "string \<Rightarrow> string" where
  "to_base64url [] = []"
| "to_base64url [a] = [b64_char (byte a div 4), b64_char (byte a mod 4 * 16)]"
| "to_base64url [a, b] =
     [b64_char (byte a div 4), b64_char (byte a mod 4 * 16 + byte b div 16),
      b64_char (byte b mod 16 * 4)]"
| "to_base64url (a # b # c # r) =
     b64_char (byte a div 4) # b64_char (byte a mod 4 * 16 + byte b div 16) #
     b64_char (byte b mod 16 * 4 + byte c div 64) # b64_char (byte c mod 64) # to_base64url r"

fun sextets_bytes :: "nat list \<Rightarrow> string" where
  "sextets_bytes [] = []"
| "sextets_bytes [w] = []"
| "sextets_bytes [w, x] = [char_of (w * 4 + x div 16)]"
| "sextets_bytes [w, x, y] = [char_of (w * 4 + x div 16), char_of (x mod 16 * 16 + y div 4)]"
| "sextets_bytes (w # x # y # z # r) =
     char_of (w * 4 + x div 16) # char_of (x mod 16 * 16 + y div 4) #
     char_of (y mod 4 * 64 + z) # sextets_bytes r"

fun sextets :: "string \<Rightarrow> nat list" where
  "sextets [] = []"
| "sextets (c # cs) = (case b64_value c of None \<Rightarrow> sextets cs | Some n \<Rightarrow> n # sextets cs)"

definition from_base64url :: "string \<Rightarrow> string" where
  "from_base64url s = sextets_bytes (sextets s)"

lemma b64_value_char: "n < 64 \<Longrightarrow> b64_value (b64_char n) = Some n"
  by (auto simp: b64_value_def b64_char_def of_char_of Let_def)

lemma byte_high: "byte c div 16 < 16" "byte c div 64 < 4" "byte c div 4 < 64"
  using nat_of_char_less_256 [of c] by (simp_all add: less_mult_imp_div_less)

lemma byte_parts:
  "byte c div 4 < 64" "byte c mod 4 * 16 + byte d div 16 < 64" "byte c mod 16 * 4 + byte d div 64 < 64"
  "byte c mod 64 < 64" "byte c mod 4 * 16 < 64" "byte c mod 16 * 4 < 64"
proof -
  have "byte c mod 4 < 4" "byte c mod 16 < 16" by simp_all
  with byte_high [of c] byte_high [of d]
  show "byte c div 4 < 64" "byte c mod 4 * 16 + byte d div 16 < 64"
    "byte c mod 16 * 4 + byte d div 64 < 64" "byte c mod 64 < 64" "byte c mod 4 * 16 < 64"
    "byte c mod 16 * 4 < 64" by linarith+
qed

lemma digits_split: "r < k \<Longrightarrow> (q * k + r) div k = q" "r < k \<Longrightarrow> (q * k + r) mod k = (r :: nat)"
  by simp_all

lemma sextets_char [simp]: "n < 64 \<Longrightarrow> sextets (b64_char n # s) = n # sextets s"
  by (simp add: b64_value_char)

lemma byte_join:
  "byte a div 4 * 4 + (byte a mod 4 * 16 + byte b div 16) div 16 = byte a"
  "(byte a mod 4 * 16 + byte b div 16) mod 16 * 16 + (byte b mod 16 * 4 + byte c div 64) div 4 = byte b"
  "(byte b mod 16 * 4 + byte c div 64) mod 4 * 64 + byte c mod 64 = byte c"
  using byte_high by (simp_all only: digits_split div_mult_mod_eq)

lemma byte_join_end:
  "byte a div 4 * 4 + byte a mod 4 * 16 div 16 = byte a"
  "(byte a mod 4 * 16 + byte b div 16) mod 16 * 16 + byte b mod 16 * 4 div 4 = byte b"
  using byte_high by (simp_all add: digits_split)

lemma from_to_base64url: "from_base64url (to_base64url s) = s"
proof -
  have "sextets_bytes (sextets (to_base64url s)) = s"
    by (induction s rule: to_base64url.induct)
      (simp_all only: to_base64url.simps sextets_char sextets.simps(1) byte_parts
        sextets_bytes.simps byte_join byte_join_end char_of_char)
  then show ?thesis by (simp add: from_base64url_def)
qed

lemma set_to_base64url: "set (to_base64url s) \<subseteq> b64_char ` {..<64}"
  by (induction s rule: to_base64url.induct) (auto intro!: imageI simp: byte_parts)

lemma b64_value_base64url: "c \<in> set (to_base64url s) \<Longrightarrow> b64_value c \<noteq> None"
  using set_to_base64url [of s] by (auto simp: b64_value_char)

lemma dot_not_in_base64url: "CHR ''.'' \<notin> set (to_base64url s)"
  using b64_value_base64url [of "CHR ''.''" s] by (auto simp: b64_value_def)

lemma space_not_in_base64url: "c \<in> set (to_base64url s) \<Longrightarrow> \<not> is_space c"
  using b64_value_base64url [of c s] by (auto simp: b64_value_def is_space_def)

lemma to_base64url_Nil [simp]: "to_base64url s = [] \<longleftrightarrow> s = []"
  by (cases s rule: to_base64url.cases) auto

section \<open>The contract of an encoding\<close>

locale codec =
  fixes enc :: "'a \<Rightarrow> 'b"
    and dec :: "'b \<Rightarrow> 'a option"
    and ok :: "'a \<Rightarrow> bool"
  assumes dec_enc: "ok x \<Longrightarrow> dec (enc x) = Some x"
begin

lemma enc_inj: "ok x \<Longrightarrow> ok y \<Longrightarrow> enc x = enc y \<Longrightarrow> x = y"
  using dec_enc by (metis option.inject)

lemma dec_enc_iff: "ok x \<Longrightarrow> dec (enc x) = Some y \<longleftrightarrow> x = y"
  by (simp add: dec_enc)

end

locale codec_pair = inner: codec enc1 dec1 ok1 + outer: codec enc2 dec2 "\<lambda>_. True"
  for enc1 :: "'a \<Rightarrow> 'b" and dec1 :: "'b \<Rightarrow> 'a option" and ok1 :: "'a \<Rightarrow> bool"
    and enc2 :: "'b \<Rightarrow> 'c" and dec2 :: "'c \<Rightarrow> 'b option"

sublocale codec_pair \<subseteq> both: codec "\<lambda>x. enc2 (enc1 x)" "\<lambda>y. Option.bind (dec2 y) dec1" ok1
  by unfold_locales (simp add: inner.dec_enc outer.dec_enc)

interpretation json_text: codec stringify json_parse plain_json
  by unfold_locales (rule json_parse_stringify)

interpretation base64url: codec to_base64url "\<lambda>s. Some (from_base64url s)" "\<lambda>_. True"
  by unfold_locales (simp add: from_to_base64url)

text \<open>\<open>encodeBase64Url(JSON.stringify(v))\<close> and \<open>JSON.parse(decodeBase64Url(s))\<close>.\<close>

definition encode_json :: "json \<Rightarrow> string" where
  "encode_json v = to_base64url (stringify v)"

definition decode_json :: "string \<Rightarrow> json option" where
  "decode_json s = json_parse (from_base64url s)"

interpretation payload: codec_pair stringify json_parse plain_json
    to_base64url "\<lambda>s. Some (from_base64url s)"
  by unfold_locales

lemma decode_encode_json: "plain_json v \<Longrightarrow> decode_json (encode_json v) = Some v"
  using payload.both.dec_enc [of v] by (simp add: decode_json_def encode_json_def)

lemma encode_json_inj: "plain_json v \<Longrightarrow> plain_json w \<Longrightarrow> encode_json v = encode_json w \<Longrightarrow> v = w"
  unfolding encode_json_def by (rule payload.both.enc_inj)

section \<open>Splitting and trimming\<close>

lemma split_on_no_sep: "d \<notin> set s \<Longrightarrow> split_on d s = [s]"
  by (induction s) auto

lemma split_on_Cons: "d \<notin> set s \<Longrightarrow> split_on d (s @ d # t) = s # split_on d t"
  by (induction s) auto

lemma split_on_ne: "split_on d s \<noteq> []"
  by (induction s) (auto split: list.splits)

lemma dropWhile_none: "(\<And>c. c \<in> set s \<Longrightarrow> \<not> p c) \<Longrightarrow> dropWhile p s = s"
  by (cases s) auto

lemma trim_left_Nil [simp]: "trim_left [] = []"
  by (simp add: trim_left_def)

lemma trim_left_none: "(\<And>c. c \<in> set s \<Longrightarrow> \<not> is_space c) \<Longrightarrow> trim_left s = s"
  by (simp add: trim_left_def dropWhile_none)

lemma trim_no_space:
  assumes "\<And>c. c \<in> set s \<Longrightarrow> \<not> is_space c"
  shows "trim s = s"
proof -
  have "trim_left s = s" by (rule trim_left_none) (rule assms)
  moreover have "trim_left (rev s) = rev s" by (rule trim_left_none) (use assms in simp)
  ultimately show ?thesis by (simp add: trim_def)
qed

lemma set_trim_left: "set (trim_left s) \<subseteq> set s"
  by (auto simp: trim_left_def dest: set_dropWhileD)

lemma set_trim: "set (trim s) \<subseteq> set s"
  using set_trim_left [of s] set_trim_left [of "rev (trim_left s)"] by (auto simp: trim_def)

lemma trim_left_idem: "trim_left (trim_left s) = trim_left s"
  by (simp add: trim_left_def)

lemma trim_left_hd: "trim_left s \<noteq> [] \<Longrightarrow> \<not> is_space (hd (trim_left s))"
  unfolding trim_left_def by (rule hd_dropWhile)

lemma trim_left_id: "s = [] \<or> \<not> is_space (hd s) \<Longrightarrow> trim_left s = s"
  by (cases s) (auto simp: trim_left_def)

lemma rtrim_prefix: "prefix (rev (trim_left (rev s))) s"
  unfolding trim_left_def using suffix_dropWhile [of is_space "rev s"]
  by (simp add: suffix_to_prefix)

lemma rtrim_hd:
  "rev (trim_left (rev s)) \<noteq> [] \<Longrightarrow> hd (rev (trim_left (rev s))) = hd s"
  using rtrim_prefix [of s] by (metis hd_append2 prefix_def)

lemma trim_trim [simp]: "trim (trim s) = trim s"
proof -
  let ?l = "trim_left s"
  have "trim_left (rev (trim_left (rev ?l))) = rev (trim_left (rev ?l))"
  proof (rule trim_left_id, cases "rev (trim_left (rev ?l)) = []")
    case False
    then have "hd (rev (trim_left (rev ?l))) = hd ?l" by (rule rtrim_hd)
    moreover have "?l \<noteq> []"
    proof
      assume "?l = []"
      with False show False by simp
    qed
    ultimately show "rev (trim_left (rev ?l)) = [] \<or> \<not> is_space (hd (rev (trim_left (rev ?l))))"
      using trim_left_hd by auto
  qed simp
  then show ?thesis unfolding trim_def by (simp add: trim_left_idem)
qed

end
