(* ===== verification/Schema.thy ===== *)
theory Schema
  imports Encoding
begin

text \<open>
  The data model of \<open>prisma/schema.prisma\<close>: the enumerations with the schema's
  constructors (prefixed, since several enumerations share names), one record per model
  with the columns the services read or write, and the store, which holds one table per
  model, the jobs put on the BullMQ queues, and the positions of the id generator and of
  the random source.

  \<open>env\<close> is what one run of a handler takes from outside \<open>src/\<close>: the clock, the id and
  random generators, the primitives of Node's \<open>crypto\<close>, date conversion, configuration
  values and whether the queue accepts jobs. They are parameters; where a result relies
  on one of their documented laws, the law is a hypothesis. \<open>new Date()\<close> is read as one
  value during one run.
\<close>

section \<open>Enumerations\<close>

datatype event_status = EV_DRAFT | EV_SCHEDULED | EV_ACTIVE | EV_COMPLETED | EV_CANCELLED | EV_ARCHIVED
datatype device_status = DEV_PENDING | DEV_ACTIVE | DEV_SUSPENDED | DEV_REVOKED
datatype key_status = KEY_ACTIVE | KEY_REVOKED | KEY_ROTATED
datatype reg_status = REG_PENDING | REG_ACTIVE | REG_CANCELLED | REG_BLOCKED | REG_ARCHIVED
datatype reg_source = SRC_ONLINE | SRC_ONSITE | SRC_EXCEL_IMPORT | SRC_OFFLINE_DEVICE | SRC_ADMIN | SRC_PUBLIC
datatype field_type = F_TEXT | F_TEXTAREA | F_NUMBER | F_EMAIL | F_PHONE | F_DATE | F_BOOLEAN
  | F_SELECT | F_MULTI_SELECT | F_FILE
datatype qr_status = QR_ACTIVE | QR_REVOKED | QR_EXPIRED
datatype scan_status = SC_PENDING | SC_PROCESSED | SC_DUPLICATE | SC_FAILED | SC_INVALID_QR
datatype movement_type = MV_ENTRY | MV_EXIT | MV_CHECKPOINT | MV_BOOTH_VISIT
  | MV_SESSION_ATTENDANCE | MV_VIP_ACCESS
datatype movement_result = ALLOWED | DENIED | WARNING
datatype mapping_status = MAP_PENDING | MAP_SYNCED | MAP_MATCHED_EXISTING | MAP_CONFLICTED | MAP_REVOKED
datatype offline_status = OS_PENDING_LINK | OS_LINKED | OS_PROCESSED | OS_CONFLICTED | OS_FAILED
datatype batch_status = BT_RECEIVED | BT_PROCESSING | BT_COMPLETED | BT_PARTIAL_FAILED | BT_FAILED | BT_DUPLICATE
datatype sync_type = OFFLINE_REGISTRATION | OFFLINE_SCAN | QR_GENERATION | SCAN_EVENT
datatype sync_status = OP_PENDING | OP_PROCESSED | OP_FAILED | OP_DUPLICATE | OP_SKIPPED
datatype session_status = SES_ACTIVE | SES_ENDED | SES_EXPIRED
datatype scan_mode = MODE_ENTRY | MODE_EXIT | MODE_CHECKPOINT | MODE_BOOTH_VISIT
  | MODE_SESSION_ATTENDANCE | MODE_VIP_ACCESS
datatype checkpoint_type = CP_ENTRY | CP_EXIT | CP_BOOTH | CP_SESSION_ROOM | CP_VIP_AREA
  | CP_INTERNAL_POINT | CP_WORKSHOP_AREA | CP_OTHER
datatype event_type = EXHIBITION | CONFERENCE | WORKSHOP | SUMMIT | FESTIVAL | CAREER_FAIR | OTHER_EVENT
datatype user_role = SUPER_ADMIN | CLIENT_VIEWER | STAFF
datatype user_status = US_ACTIVE | US_SUSPENDED | US_INVITED | US_DELETED
datatype import_status = IM_PENDING | IM_PROCESSING | IM_COMPLETED | IM_PARTIAL_FAILED | IM_FAILED | IM_CANCELLED
datatype row_status = RW_PENDING | RW_PROCESSED | RW_FAILED | RW_DUPLICATE | RW_SKIPPED

section \<open>Rows\<close>

type_synonym id = string
type_synonym time = int \<comment> \<open>milliseconds since the epoch\<close>

record event_row =
  ev_id :: id
  ev_clientId :: id
  ev_status :: event_status
  ev_startsAt :: time
  ev_endsAt :: time
  ev_allowReEntry :: bool
  ev_duplicateStrategy :: string
  ev_qrValidFrom :: "time option"
  ev_qrValidUntil :: "time option"
  ev_type :: event_type
  ev_titleAr :: string
  ev_titleEn :: "string option"
  ev_descriptionAr :: "string option"
  ev_descriptionEn :: "string option"
  ev_timezone :: string
  ev_createdAt :: time

record attendee_type =
  at_id :: id
  at_eventId :: id
  at_code :: string
  at_isDefault :: bool
  at_isActive :: bool
  at_nameAr :: string
  at_nameEn :: "string option"
  at_descriptionAr :: "string option"
  at_descriptionEn :: "string option"
  at_sortOrder :: int
  at_createdAt :: time

record reg_field =
  rf_id :: id
  rf_eventId :: id
  rf_attendeeTypeId :: "id option"
  rf_key :: string
  rf_labelAr :: string
  rf_labelEn :: "string option"
  rf_type :: field_type
  rf_isRequired :: bool
  rf_options :: json
  rf_isActive :: bool
  rf_isUnique :: bool
  rf_validation :: json
  rf_sortOrder :: int
  rf_placeholderAr :: "string option"
  rf_placeholderEn :: "string option"
  rf_helpTextAr :: "string option"
  rf_helpTextEn :: "string option"
  rf_createdAt :: time

record registration =
  rg_id :: id
  rg_publicId :: string
  rg_eventId :: id
  rg_attendeeTypeId :: id
  rg_status :: reg_status
  rg_source :: reg_source
  rg_fullName :: string
  rg_phone :: "string option"
  rg_email :: "string option"
  rg_companyName :: "string option"
  rg_jobTitle :: "string option"
  rg_externalId :: "string option"
  rg_customFields :: json
  rg_notes :: "string option"
  rg_registeredAt :: time
  rg_syncedAt :: "time option"
  rg_createdAt :: time
  rg_updatedAt :: time

record qr_token =
  qr_id :: id
  qr_registrationId :: id
  qr_eventId :: id
  qr_tokenId :: string
  qr_payload :: json
  qr_signature :: string
  qr_status :: qr_status
  qr_validFrom :: time
  qr_validUntil :: time
  qr_generatedAt :: time
  qr_revokedAt :: "time option"
  qr_updatedAt :: time

record scan_event =
  sc_id :: id
  sc_operationId :: string
  sc_eventId :: id
  sc_deviceId :: id
  sc_staffSessionId :: "id option"
  sc_checkpointId :: "id option"
  sc_registrationId :: "id option"
  sc_qrTokenId :: "id option"
  sc_qrPayload :: json
  sc_qrRaw :: "string option"
  sc_type :: movement_type
  sc_status :: scan_status
  sc_result :: "movement_result option"
  sc_reason :: "string option"
  sc_scannedAtDevice :: time
  sc_processedAt :: "time option"
  sc_payload :: json

record movement =
  mv_id :: id
  mv_eventId :: id
  mv_registrationId :: id
  mv_qrTokenId :: "id option"
  mv_scanEventRawId :: id
  mv_deviceId :: id
  mv_staffSessionId :: "id option"
  mv_checkpointId :: "id option"
  mv_type :: movement_type
  mv_result :: movement_result
  mv_reason :: "string option"
  mv_occurredAt :: time

record device =
  dv_id :: id
  dv_eventId :: id
  dv_code :: string
  dv_apiKeyHash :: string
  dv_status :: device_status
  dv_lastSeenAt :: "time option"
  dv_name :: string
  dv_metadata :: json
  dv_createdAt :: time

record offline_key =
  ky_id :: id
  ky_deviceId :: id
  ky_version :: int
  ky_publicKey :: string
  ky_status :: key_status
  ky_validFrom :: time
  ky_validUntil :: "time option"
  ky_revokedAt :: "time option"

record mapping_row =
  mp_id :: id
  mp_eventId :: id
  mp_issuerDeviceId :: id
  mp_operationId :: string \<comment> \<open>\<open>offlineRegistrationOperationId\<close>\<close>
  mp_localId :: string \<comment> \<open>\<open>offlineRegistrationId\<close>\<close>
  mp_offlineQrToken :: string
  mp_issuerKeyVersion :: int
  mp_payloadHash :: string
  mp_registrationId :: "id option"
  mp_canonicalQrTokenId :: "id option"
  mp_status :: mapping_status
  mp_conflictCode :: "string option"
  mp_conflictMessage :: "string option"
  mp_syncedAt :: "time option"

record offline_scan =
  os_id :: id
  os_operationId :: string
  os_eventId :: id
  os_scannerDeviceId :: id
  os_checkpointId :: id
  os_staffSessionId :: "id option"
  os_offlineQrToken :: string
  os_regOperationId :: "string option" \<comment> \<open>\<open>offlineRegistrationOperationId\<close>\<close>
  os_issuerDeviceId :: "id option"
  os_issuerKeyVersion :: "int option"
  os_scannedAtDevice :: time
  os_movementType :: movement_type
  os_localResult :: "string option"
  os_qrPayload :: json
  os_qrPayloadHash :: "string option"
  os_status :: offline_status
  os_registrationId :: "id option"
  os_movementId :: "id option"
  os_scanEventRawId :: "id option"
  os_conflictCode :: "string option"
  os_conflictMessage :: "string option"
  os_syncedAt :: "time option"

record staff_session =
  ss_id :: id
  ss_eventId :: id
  ss_staffUserId :: id
  ss_deviceId :: id
  ss_checkpointId :: id
  ss_mode :: scan_mode
  ss_status :: session_status
  ss_startedAt :: time
  ss_endedAt :: "time option"
  ss_lastSeenAt :: "time option"
  ss_metadata :: json

record staff_assignment =
  sa_id :: id
  sa_eventId :: id
  sa_userId :: id
  sa_checkpointId :: "id option"
  sa_deviceId :: "id option"
  sa_isActive :: bool
  sa_updatedAt :: time
  sa_notes :: "string option"
  sa_createdAt :: time

record venue =
  vn_id :: id
  vn_eventId :: id
  vn_nameAr :: string
  vn_nameEn :: "string option"
  vn_addressAr :: "string option"
  vn_addressEn :: "string option"
  vn_city :: "string option"
  vn_country :: "string option"
  vn_createdAt :: time

record zone =
  zn_id :: id
  zn_eventId :: id
  zn_venueId :: "id option"
  zn_parentId :: "id option"
  zn_nameAr :: string
  zn_nameEn :: "string option"
  zn_code :: "string option"
  zn_sortOrder :: int
  zn_createdAt :: time

record checkpoint =
  cp_id :: id
  cp_eventId :: id
  cp_venueId :: "id option"
  cp_zoneId :: "id option"
  cp_nameAr :: string
  cp_nameEn :: "string option"
  cp_code :: string
  cp_type :: checkpoint_type
  cp_allowedAttendeeTypes :: json
  cp_isActive :: bool
  cp_sortOrder :: int
  cp_createdAt :: time

record user_row =
  us_id :: id
  us_role :: user_role
  us_status :: user_status
  us_clientId :: "id option"
  us_email :: "string option"
  us_phone :: "string option"
  us_passwordHash :: string
  us_fullName :: string
  us_lastLoginAt :: "time option"
  us_deletedAt :: "time option"
  us_createdAt :: time

record client_row =
  cl_id :: id
  cl_name :: string
  cl_contactName :: "string option"
  cl_contactPhone :: "string option"
  cl_contactEmail :: "string option"
  cl_notes :: "string option"
  cl_isActive :: bool
  cl_primaryUserId :: "id option"
  cl_createdAt :: time

record refresh_token =
  rt_id :: id
  rt_userId :: id
  rt_tokenHash :: string
  rt_revokedAt :: "time option"
  rt_expiresAt :: time

record ticket_template =
  tt_id :: id
  tt_eventId :: id
  tt_attendeeTypeId :: "id option"

record ticket_image =
  ti_eventId :: id
  ti_registrationId :: id
  ti_templateId :: id

record notification_template =
  nt_id :: id
  nt_eventId :: "id option"

record notification_log =
  nl_eventId :: "id option"
  nl_registrationId :: "id option"
  nl_templateId :: "id option"

record sync_batch =
  sb_id :: id
  sb_batchId :: string
  sb_eventId :: id
  sb_deviceId :: id
  sb_staffSessionId :: "id option"
  sb_status :: batch_status
  sb_totalOperations :: nat
  sb_processedCount :: nat
  sb_failedCount :: nat
  sb_duplicateCount :: nat
  sb_processedAt :: "time option"
  sb_payload :: json
  sb_result :: json

record sync_op =
  so_id :: id
  so_syncBatchId :: id
  so_operationId :: string
  so_type :: sync_type
  so_status :: sync_status
  so_input :: json
  so_output :: json
  so_errorCode :: "string option"
  so_errorMessage :: "string option"
  so_processedAt :: "time option"
  so_createdAt :: time

record import_job =
  ij_id :: id
  ij_eventId :: id
  ij_attendeeTypeId :: "id option"
  ij_uploadedByUserId :: "id option"
  ij_fileName :: string
  ij_fileMimeType :: "string option"
  ij_fileSizeBytes :: int
  ij_status :: import_status
  ij_totalRows :: nat
  ij_processedRows :: nat
  ij_successRows :: nat
  ij_failedRows :: nat
  ij_duplicateRows :: nat
  ij_options :: json
  ij_summary :: json
  ij_startedAt :: "time option"
  ij_completedAt :: "time option"
  ij_createdAt :: time

record import_row =
  iw_id :: id
  iw_importJobId :: id
  iw_rowNumber :: nat
  iw_status :: row_status
  iw_rawData :: "(string \<times> json) list"
  iw_normalizedData :: json
  iw_registrationId :: "id option"
  iw_errorCode :: "string option"
  iw_errorMessage :: "string option"
  iw_processedAt :: "time option"

record key_audit =
  ka_eventId :: id
  ka_entityId :: id
  ka_deviceId :: id
  ka_keyVersion :: int
  ka_rotated :: bool

section \<open>Queues\<close>

datatype job =
    ScanProcess id
  | OfflineReconcile id string string id
  | RegistrationCreated id id reg_source bool
  | ImportProcess id

section \<open>The store\<close>

record store =
  events :: "event_row list"
  attendeeTypes :: "attendee_type list"
  regFields :: "reg_field list"
  registrations :: "registration list"
  qrTokens :: "qr_token list"
  scans :: "scan_event list"
  movements :: "movement list"
  devices :: "device list"
  offlineKeys :: "offline_key list"
  mappings :: "mapping_row list"
  offlineScans :: "offline_scan list"
  staffSessions :: "staff_session list"
  staffAssignments :: "staff_assignment list"
  venues :: "venue list"
  zones :: "zone list"
  checkpoints :: "checkpoint list"
  users :: "user_row list"
  syncBatches :: "sync_batch list"
  syncOps :: "sync_op list"
  importJobs :: "import_job list"
  importRows :: "import_row list"
  clients :: "client_row list"
  refreshTokens :: "refresh_token list"
  ticketTemplates :: "ticket_template list"
  ticketImages :: "ticket_image list"
  notificationTemplates :: "notification_template list"
  notificationLogs :: "notification_log list"
  brandings :: "id list" \<comment> \<open>the \<open>eventId\<close> of each \<open>EventBranding\<close>\<close>
  badgeTemplates :: "id list" \<comment> \<open>the \<open>eventId\<close> of each \<open>EventBadgeTemplate\<close>\<close>
  keyAudits :: "key_audit list"
  jobs :: "job list"
  next_id :: nat
  next_rand :: nat

definition empty_store :: store where
  "empty_store = \<lparr>events = [], attendeeTypes = [], regFields = [], registrations = [],
     qrTokens = [], scans = [], movements = [], devices = [], offlineKeys = [], mappings = [],
     offlineScans = [], staffSessions = [], staffAssignments = [], venues = [], zones = [],
     checkpoints = [], users = [],
     syncBatches = [], syncOps = [], importJobs = [], importRows = [], clients = [],
     refreshTokens = [], ticketTemplates = [], ticketImages = [], notificationTemplates = [], notificationLogs = [],
     brandings = [], badgeTemplates = [], keyAudits = [], jobs = [], next_id = 0, next_rand = 0\<rparr>"

section \<open>The environment of a run\<close>

record env =
  now :: time
  cuid :: "nat \<Rightarrow> id" \<comment> \<open>the ids the database client generates, in order\<close>
  random_hex :: "nat \<Rightarrow> string" \<comment> \<open>\<open>randomBytes(8).toString('hex').toUpperCase()\<close>, by draw\<close>
  random_nonce :: "nat \<Rightarrow> string" \<comment> \<open>\<open>randomBytes(12).toString('base64url')\<close>, by draw\<close>
  hmac_sha256 :: "string \<Rightarrow> string \<Rightarrow> string" \<comment> \<open>secret and message to the digest bytes\<close>
  sha256_hex :: "string \<Rightarrow> string"
  is_ed25519 :: "string \<Rightarrow> bool" \<comment> \<open>\<open>createPublicKey\<close> accepts the text, of type ed25519\<close>
  ed25519_verify :: "string \<Rightarrow> string \<Rightarrow> string \<Rightarrow> bool" \<comment> \<open>public key, message, signature\<close>
  parse_date :: "string \<Rightarrow> time option" \<comment> \<open>\<open>new Date(s).getTime()\<close>, \<open>None\<close> for NaN\<close>
  iso_date :: "time \<Rightarrow> string" \<comment> \<open>\<open>toISOString\<close>\<close>
  qr_secret :: string
  queue_up :: bool \<comment> \<open>\<open>Queue.add\<close> resolves\<close>
  scan_processing_enabled :: bool
  pipeline_enabled :: bool

text \<open>
  The documented laws of these parameters that some results assume: the generated ids
  never repeat, a SHA-256 digest has 32 bytes, and a valid date survives \<open>toISOString\<close> and
  \<open>new Date\<close>. A date is valid up to 8.64e15 milliseconds on either side of the epoch.
\<close>

definition valid_time :: "time \<Rightarrow> bool" where
  "valid_time ms = (\<bar>ms\<bar> \<le> 8640000000000000)"

definition id_law :: "env \<Rightarrow> bool" where
  "id_law c = inj (cuid c)"

definition mac_law :: "env \<Rightarrow> bool" where
  "mac_law c = (\<forall>k m. length (hmac_sha256 c k m) = 32)"

definition date_law :: "env \<Rightarrow> bool" where
  "date_law c = (\<forall>t. valid_time t \<longrightarrow> parse_date c (iso_date c t) = Some t \<and> \<not> blank (iso_date c t))"

text \<open>A fresh id: the generator moves on.\<close>

definition new_id :: "env \<Rightarrow> (store, id) act" where
  "new_id c = (\<lambda>s. (Inr (cuid c (next_id s)), s\<lparr>next_id := Suc (next_id s)\<rparr>))"

definition draw :: "(nat \<Rightarrow> string) \<Rightarrow> (store, string) act" where
  "draw g = (\<lambda>s. (Inr (g (next_rand s)), s\<lparr>next_rand := Suc (next_rand s)\<rparr>))"

definition add_job :: "job \<Rightarrow> store \<Rightarrow> store" where
  "add_job j s = s\<lparr>jobs := jobs s @ [j]\<rparr>"

section \<open>Lookups every service uses\<close>

definition find_event :: "id \<Rightarrow> store \<Rightarrow> event_row option" where
  "find_event i s = lookup_by ev_id i (events s)"

definition find_device :: "id \<Rightarrow> store \<Rightarrow> device option" where
  "find_device i s = lookup_by dv_id i (devices s)"

definition find_checkpoint :: "id \<Rightarrow> store \<Rightarrow> checkpoint option" where
  "find_checkpoint i s = lookup_by cp_id i (checkpoints s)"

definition find_session :: "id \<Rightarrow> store \<Rightarrow> staff_session option" where
  "find_session i s = lookup_by ss_id i (staffSessions s)"

definition find_user :: "id \<Rightarrow> store \<Rightarrow> user_row option" where
  "find_user i s = lookup_by us_id i (users s)"

definition find_attendee_type :: "id \<Rightarrow> store \<Rightarrow> attendee_type option" where
  "find_attendee_type i s = lookup_by at_id i (attendeeTypes s)"

definition find_registration :: "id \<Rightarrow> store \<Rightarrow> registration option" where
  "find_registration i s = lookup_by rg_id i (registrations s)"

definition find_scan :: "id \<Rightarrow> store \<Rightarrow> scan_event option" where
  "find_scan i s = lookup_by sc_id i (scans s)"

definition find_scan_by_op :: "string \<Rightarrow> store \<Rightarrow> scan_event option" where
  "find_scan_by_op i s = lookup_by sc_operationId i (scans s)"

definition find_qr_by_token :: "string \<Rightarrow> store \<Rightarrow> qr_token option" where
  "find_qr_by_token i s = lookup_by qr_tokenId i (qrTokens s)"

definition find_qr_by_registration :: "id \<Rightarrow> store \<Rightarrow> qr_token option" where
  "find_qr_by_registration i s = lookup_by qr_registrationId i (qrTokens s)"

definition find_mapping_by_token :: "string \<Rightarrow> store \<Rightarrow> mapping_row option" where
  "find_mapping_by_token i s = lookup_by mp_offlineQrToken i (mappings s)"

definition find_offline_scan :: "id \<Rightarrow> store \<Rightarrow> offline_scan option" where
  "find_offline_scan i s = lookup_by os_id i (offlineScans s)"

definition find_offline_scan_by_op :: "string \<Rightarrow> store \<Rightarrow> offline_scan option" where
  "find_offline_scan_by_op i s = lookup_by os_operationId i (offlineScans s)"

definition movement_of_scan :: "id \<Rightarrow> store \<Rightarrow> movement option" where
  "movement_of_scan i s = lookup_by mv_scanEventRawId i (movements s)"

lemmas find_defs = find_event_def find_device_def find_checkpoint_def find_session_def
  find_user_def find_attendee_type_def find_registration_def find_scan_def find_scan_by_op_def
  find_qr_by_token_def find_qr_by_registration_def find_mapping_by_token_def
  find_offline_scan_def find_offline_scan_by_op_def movement_of_scan_def

text \<open>
  \<open>ensureEventCanBeModified\<close> and \<open>ensureActiveDevice\<close>, which several services repeat
  word for word.
\<close>

definition ensureEventCanBeModified :: "id \<Rightarrow> store \<Rightarrow> event_row res" where
  "ensureEventCanBeModified i s =
    (case find_event i s of
       None \<Rightarrow> Inl (NotFound ''Event not found'')
     | Some e \<Rightarrow>
        if ev_status e = EV_ARCHIVED then Inl (BadRequest ''Archived events cannot be modified'')
        else Inr e)"

definition ensureActiveDevice :: "id \<Rightarrow> id \<Rightarrow> store \<Rightarrow> device res" where
  "ensureActiveDevice i eventId s =
    (case find_device i s of
       None \<Rightarrow> Inl (NotFound ''Device not found'')
     | Some d \<Rightarrow>
        if dv_eventId d \<noteq> eventId then Inl (BadRequest ''Device must belong to the same event'')
        else if dv_status d \<noteq> DEV_ACTIVE then Inl (BadRequest ''Device must be ACTIVE'')
        else Inr d)"

lemma ensureEventCanBeModified_Inr:
  "ensureEventCanBeModified i s = Inr e \<longleftrightarrow> find_event i s = Some e \<and> ev_status e \<noteq> EV_ARCHIVED"
  by (auto simp: ensureEventCanBeModified_def split: option.splits)

lemma ensureActiveDevice_Inr:
  "ensureActiveDevice i ev s = Inr d \<longleftrightarrow>
   find_device i s = Some d \<and> dv_eventId d = ev \<and> dv_status d = DEV_ACTIVE"
  by (auto simp: ensureActiveDevice_def split: option.splits)

end
