(* ===== verification/QrSigning.thy ===== *)
theory QrSigning
  imports Schema
begin

text \<open>
  \<open>src/common/utils/qr-signing.util.ts\<close>: the tokens that are printed in QR codes. A signed
  token is \<open>base64url(JSON payload).base64url(HMAC)\<close>; a compact token is
  \<open>Q2.tokenId.MAC\<close> with the first 16 bytes of the HMAC of \<open>Q2.tokenId\<close>. The HMAC is the
  parameter \<open>hm\<close> (secret, message, digest bytes).

  The lemmas say exactly which tokens each verifier accepts, that it accepts what its
  constructor makes, and how the formats relate.
\<close>

type_synonym mac = "string \<Rightarrow> string \<Rightarrow> string"

record qr_payload =
  pl_tokenId :: string
  pl_eventId :: string
  pl_registrationId :: string
  pl_registrationPublicId :: string
  pl_attendeeTypeId :: string
  pl_attendeeTypeCode :: string
  pl_issuedAt :: string
  pl_validFrom :: string
  pl_validUntil :: string
  pl_nonce :: string

text \<open>The object literal of \<open>QrService.generate\<close>, in its key order.\<close>

definition payload_fields :: "qr_payload \<Rightarrow> (string \<times> json) list" where
  "payload_fields p =
    [(''tokenId'', JStr (pl_tokenId p)), (''eventId'', JStr (pl_eventId p)),
     (''registrationId'', JStr (pl_registrationId p)),
     (''registrationPublicId'', JStr (pl_registrationPublicId p)),
     (''attendeeTypeId'', JStr (pl_attendeeTypeId p)),
     (''attendeeTypeCode'', JStr (pl_attendeeTypeCode p)), (''issuedAt'', JStr (pl_issuedAt p)),
     (''validFrom'', JStr (pl_validFrom p)), (''validUntil'', JStr (pl_validUntil p)),
     (''nonce'', JStr (pl_nonce p))]"

definition requiredFields :: "string list" where
  "requiredFields = [''tokenId'', ''eventId'', ''registrationId'', ''registrationPublicId'',
     ''attendeeTypeId'', ''attendeeTypeCode'', ''issuedAt'', ''validFrom'', ''validUntil'',
     ''nonce'']"

definition compact_prefix :: string where "compact_prefix = ''Q2''"
definition compact_signature_bytes :: nat where "compact_signature_bytes = 16"

definition signEncodedPayload :: "mac \<Rightarrow> string \<Rightarrow> string \<Rightarrow> string" where
  "signEncodedPayload hm encodedPayload secret = to_base64url (hm secret encodedPayload)"

definition signCompactTokenId :: "mac \<Rightarrow> string \<Rightarrow> string \<Rightarrow> string" where
  "signCompactTokenId hm tokenId secret =
     to_base64url (take compact_signature_bytes (hm secret (compact_prefix @ ''.'' @ tokenId)))"

text \<open>Equal lengths and equal bytes.\<close>

definition signaturesEqual :: "string \<Rightarrow> string \<Rightarrow> bool" where
  "signaturesEqual l r = (length l = length r \<and> list_all2 (=) l r)"

definition createSignedQrToken :: "mac \<Rightarrow> json \<Rightarrow> string \<Rightarrow> string" where
  "createSignedQrToken hm payload secret =
    (let encodedPayload = encode_json payload
     in encodedPayload @ ''.'' @ signEncodedPayload hm encodedPayload secret)"

definition reconstructSignedQrToken :: "json \<Rightarrow> string \<Rightarrow> string" where
  "reconstructSignedQrToken payload signature = encode_json payload @ ''.'' @ signature"

definition createCompactQrToken :: "mac \<Rightarrow> string \<Rightarrow> string \<Rightarrow> string res" where
  "createCompactQrToken hm tokenId secret =
    (let normalizedTokenId = trim tokenId
     in if normalizedTokenId = [] then Inl (OtherError ''QR token ID is required'')
        else Inr (compact_prefix @ ''.'' @ normalizedTokenId @ ''.'' @
                  signCompactTokenId hm normalizedTokenId secret))"

definition field_ok :: "(string \<times> json) list \<Rightarrow> string \<Rightarrow> bool" where
  "field_ok payload key = (case str_of (obj_get payload key) of
     None \<Rightarrow> False | Some v \<Rightarrow> \<not> blank v)"

definition verifySignedQrToken :: "mac \<Rightarrow> string \<Rightarrow> string \<Rightarrow> (string \<times> json) list res" where
  "verifySignedQrToken hm qrToken secret =
    (case split_on CHR ''.'' (trim qrToken) of
       [encodedPayload, signature] \<Rightarrow>
         if encodedPayload = [] \<or> signature = []
         then Inl (OtherError ''Invalid signed QR token format'')
         else if \<not> signaturesEqual signature (signEncodedPayload hm encodedPayload secret)
         then Inl (OtherError ''Invalid QR token signature'')
         else (case Option.bind (decode_json encodedPayload) as_record of
                 None \<Rightarrow> Inl (OtherError ''Invalid signed QR token payload'')
               | Some payload \<Rightarrow>
                   if list_ex (\<lambda>key. \<not> field_ok payload key) requiredFields
                   then Inl (OtherError ''Invalid signed QR token payload'')
                   else Inr payload)
     | _ \<Rightarrow> Inl (OtherError ''Invalid signed QR token format''))"

text \<open>The class \<open>[a-zA-Z0-9_-]\<close>.\<close>

definition id_char :: "char \<Rightarrow> bool" where
  "id_char c = (let n = byte c in
     97 \<le> n \<and> n \<le> 122 \<or> 65 \<le> n \<and> n \<le> 90 \<or> 48 \<le> n \<and> n \<le> 57 \<or> n = 95 \<or> n = 45)"

definition id_text :: "string \<Rightarrow> bool" where
  "id_text s = (s \<noteq> [] \<and> list_all id_char s)"

definition verifyCompactQrTokenV2 :: "mac \<Rightarrow> string \<Rightarrow> string \<Rightarrow> string res" where
  "verifyCompactQrTokenV2 hm qrToken secret =
    (case split_on CHR ''.'' qrToken of
       [pre, tokenId, signature] \<Rightarrow>
         if pre \<noteq> compact_prefix \<or> tokenId = [] \<or> signature = []
         then Inl (OtherError ''Invalid compact QR token format'')
         else if length tokenId > 128 \<or> \<not> id_text tokenId
         then Inl (OtherError ''Invalid compact QR token ID'')
         else if \<not> id_text signature
         then Inl (OtherError ''Invalid compact QR token signature'')
         else if \<not> signaturesEqual signature (signCompactTokenId hm tokenId secret)
         then Inl (OtherError ''Invalid compact QR token signature'')
         else Inr tokenId
     | _ \<Rightarrow> Inl (OtherError ''Invalid compact QR token format''))"

definition verifyLegacyCompactQrToken :: "mac \<Rightarrow> string \<Rightarrow> string \<Rightarrow> string res" where
  "verifyLegacyCompactQrToken hm qrToken secret =
    (case split_on CHR ''.'' qrToken of
       [encodedPayload, signature] \<Rightarrow>
         if encodedPayload = [] \<or> signature = []
         then Inl (OtherError ''Invalid compact QR token format'')
         else if \<not> signaturesEqual signature (signEncodedPayload hm encodedPayload secret)
         then Inl (OtherError ''Invalid compact QR token signature'')
         else (case Option.bind (decode_json encodedPayload) as_record of
                 None \<Rightarrow> Inl (OtherError ''Invalid compact QR token payload'')
               | Some payload \<Rightarrow>
                   (case str_of (obj_get payload ''tokenId'') of
                      None \<Rightarrow> Inl (OtherError ''Invalid compact QR token payload'')
                    | Some t \<Rightarrow>
                        if trim t = [] then Inl (OtherError ''Invalid compact QR token payload'')
                        else Inr (trim t)))
     | _ \<Rightarrow> Inl (OtherError ''Invalid compact QR token format''))"

definition verifyCompactQrToken :: "mac \<Rightarrow> string \<Rightarrow> string \<Rightarrow> string res" where
  "verifyCompactQrToken hm qrToken secret =
    (let normalizedToken = trim qrToken
     in if starts_with (compact_prefix @ ''.'') normalizedToken
        then verifyCompactQrTokenV2 hm normalizedToken secret
        else verifyLegacyCompactQrToken hm normalizedToken secret)"

section \<open>Splitting into parts\<close>

lemma signaturesEqual_iff [simp]: "signaturesEqual l r \<longleftrightarrow> l = r"
  by (auto simp: signaturesEqual_def list.rel_eq)

lemma split_on_single: "split_on d s = [p] \<longleftrightarrow> d \<notin> set s \<and> p = s"
proof
  assume "split_on d s = [p]"
  then show "d \<notin> set s \<and> p = s"
  proof (induction s arbitrary: p)
    case (Cons c s)
    obtain q qs where "split_on d s = q # qs" by (metis neq_Nil_conv split_on_ne)
    with Cons show ?case by (auto split: if_splits)
  qed simp
qed (auto simp: split_on_no_sep)

lemma split_on_step:
  assumes "ps \<noteq> []"
  shows "split_on d s = p # ps \<longleftrightarrow> d \<notin> set p \<and> (\<exists>t. s = p @ d # t \<and> split_on d t = ps)"
proof
  assume "split_on d s = p # ps"
  then show "d \<notin> set p \<and> (\<exists>t. s = p @ d # t \<and> split_on d t = ps)"
  proof (induction s arbitrary: p)
    case Nil
    with assms show ?case by simp
  next
    case (Cons c s)
    show ?case
    proof (cases "c = d")
      case True
      with Cons.prems show ?thesis by auto
    next
      case False
      then obtain q qs where "split_on d s = q # qs" by (metis neq_Nil_conv split_on_ne)
      with Cons.prems False have "split_on d s = q # ps" "p = c # q" by auto
      with Cons.IH [of q] False show ?thesis by auto
    qed
  qed
next
  assume "d \<notin> set p \<and> (\<exists>t. s = p @ d # t \<and> split_on d t = ps)"
  then show "split_on d s = p # ps" by (auto simp: split_on_Cons)
qed

lemma split_on_two:
  "split_on d s = [p, q] \<longleftrightarrow> d \<notin> set p \<and> d \<notin> set q \<and> s = p @ d # q"
  by (auto simp: split_on_step split_on_single)

lemma split_on_three:
  "split_on d s = [p, q, r] \<longleftrightarrow> d \<notin> set p \<and> d \<notin> set q \<and> d \<notin> set r \<and> s = p @ d # q @ d # r"
  by (auto simp: split_on_step split_on_single)

lemma id_text_no_dot: "id_text s \<Longrightarrow> CHR ''.'' \<notin> set s"
  by (auto simp: id_text_def list_all_iff id_char_def Let_def)

lemma id_text_no_space: "id_text s \<Longrightarrow> c \<in> set s \<Longrightarrow> \<not> is_space c"
  by (auto simp: id_text_def list_all_iff id_char_def Let_def is_space_def)

lemma id_char_b64: "n < 64 \<Longrightarrow> id_char (b64_char n)"
  by (auto simp: id_char_def b64_char_def Let_def of_char_of)

lemma id_text_base64url: "s \<noteq> [] \<Longrightarrow> id_text (to_base64url s)"
  using set_to_base64url [of s] by (auto simp: id_text_def list_all_iff id_char_b64)

section \<open>What is accepted\<close>

lemma verifySigned_Inr:
  "verifySignedQrToken hm q secret = Inr fs \<longleftrightarrow>
   (\<exists>p. trim q = p @ ''.'' @ signEncodedPayload hm p secret \<and> CHR ''.'' \<notin> set p \<and>
        p \<noteq> [] \<and> hm secret p \<noteq> [] \<and> decode_json p = Some (JObj fs) \<and>
        list_all (field_ok fs) requiredFields)"
  (is "?l \<longleftrightarrow> ?r")
proof
  assume ?l
  then obtain p g where s: "split_on CHR ''.'' (trim q) = [p, g]" and "p \<noteq> []" "g \<noteq> []"
    and g: "g = signEncodedPayload hm p secret" and d: "decode_json p = Some (JObj fs)"
    and f: "list_all (field_ok fs) requiredFields"
    by (auto simp: verifySignedQrToken_def as_record_def list_all_iff list_ex_iff
          split: list.splits if_splits option.splits json.splits bind_splits)
  moreover have "hm secret p \<noteq> []" using \<open>g \<noteq> []\<close> g by (auto simp: signEncodedPayload_def)
  ultimately show ?r by (auto simp: split_on_two)
next
  assume ?r
  then obtain p where p: "trim q = p @ CHR ''.'' # signEncodedPayload hm p secret" "CHR ''.'' \<notin> set p"
      "p \<noteq> []" "hm secret p \<noteq> []" "decode_json p = Some (JObj fs)"
      "list_all (field_ok fs) requiredFields" by auto
  then have "split_on CHR ''.'' (trim q) = [p, signEncodedPayload hm p secret]"
    by (simp add: split_on_two dot_not_in_base64url signEncodedPayload_def)
  with p show ?l
    by (auto simp: verifySignedQrToken_def as_record_def signEncodedPayload_def list_all_iff list_ex_iff)
qed

lemma verifyLegacy_Inr:
  "verifyLegacyCompactQrToken hm q secret = Inr t \<longleftrightarrow>
   (\<exists>p fs u. q = p @ ''.'' @ signEncodedPayload hm p secret \<and> CHR ''.'' \<notin> set p \<and>
        p \<noteq> [] \<and> hm secret p \<noteq> [] \<and> decode_json p = Some (JObj fs) \<and>
        obj_get fs ''tokenId'' = Some (JStr u) \<and> t = trim u \<and> t \<noteq> [])"
  (is "?l \<longleftrightarrow> ?r")
proof
  assume ?l
  then obtain p g fs u where s: "split_on CHR ''.'' q = [p, g]" and "p \<noteq> []" "g \<noteq> []"
    and g: "g = signEncodedPayload hm p secret" and d: "decode_json p = Some (JObj fs)"
    and f: "obj_get fs ''tokenId'' = Some (JStr u)" "t = trim u" "t \<noteq> []"
    by (auto simp: verifyLegacyCompactQrToken_def as_record_def str_of_Some
          split: list.splits if_splits option.splits json.splits bind_splits)
  moreover have "hm secret p \<noteq> []" using \<open>g \<noteq> []\<close> g by (auto simp: signEncodedPayload_def)
  ultimately show ?r by (auto simp: split_on_two)
next
  assume ?r
  then obtain p fs u where p: "q = p @ CHR ''.'' # signEncodedPayload hm p secret" "CHR ''.'' \<notin> set p"
      "p \<noteq> []" "hm secret p \<noteq> []" "decode_json p = Some (JObj fs)"
      "obj_get fs ''tokenId'' = Some (JStr u)" "t = trim u" "t \<noteq> []" by auto
  then have "split_on CHR ''.'' q = [p, signEncodedPayload hm p secret]"
    by (simp add: split_on_two dot_not_in_base64url signEncodedPayload_def)
  with p show ?l
    by (auto simp: verifyLegacyCompactQrToken_def as_record_def signEncodedPayload_def str_of_def)
qed

lemma verifyV2_Inr:
  "verifyCompactQrTokenV2 hm q secret = Inr t \<longleftrightarrow>
   q = ''Q2.'' @ t @ ''.'' @ signCompactTokenId hm t secret \<and> id_text t \<and> length t \<le> 128 \<and>
   hm secret (''Q2.'' @ t) \<noteq> []"
  (is "?l \<longleftrightarrow> ?r")
proof
  assume ?l
  then obtain g where s: "split_on CHR ''.'' q = [''Q2'', t, g]" and "g \<noteq> []"
    and g: "g = signCompactTokenId hm t secret" "id_text t" "length t \<le> 128"
    by (auto simp: verifyCompactQrTokenV2_def compact_prefix_def split: list.splits if_splits)
  moreover have "hm secret (''Q2.'' @ t) \<noteq> []"
    using \<open>g \<noteq> []\<close> g by (auto simp: signCompactTokenId_def compact_prefix_def)
  ultimately show ?r by (auto simp: split_on_three)
next
  assume r: ?r
  let ?g = "signCompactTokenId hm t secret"
  have ne: "take compact_signature_bytes (hm secret (''Q2.'' @ t)) \<noteq> []"
    using r by (simp add: compact_signature_bytes_def)
  then have g: "id_text ?g" "?g \<noteq> []"
    using id_text_base64url [OF ne] by (auto simp: signCompactTokenId_def compact_prefix_def)
  have "CHR ''.'' \<notin> set t" "CHR ''.'' \<notin> set ?g"
    using r g id_text_no_dot by blast+
  then have "split_on CHR ''.'' q = [''Q2'', t, ?g]"
    using r by (simp add: split_on_three split_on_two)
  then show ?l
    using r g by (auto simp: verifyCompactQrTokenV2_def compact_prefix_def id_text_def)
qed

lemma starts_with_Q2: "starts_with (compact_prefix @ ''.'') q \<longleftrightarrow> (\<exists>r. q = ''Q2.'' @ r)"
  by (auto simp: starts_with_def compact_prefix_def prefix_def)

lemma payload_lookup:
  "obj_get (payload_fields p) ''tokenId'' = Some (JStr (pl_tokenId p))"
  by (simp add: obj_get_def payload_fields_def)

lemma plain_payload: "plain_json (JObj (payload_fields p))"
  by (simp add: payload_fields_def)

lemma encode_json_ne: "plain_json v \<Longrightarrow> encode_json v \<noteq> []"
  using decode_encode_json [of v] by (auto simp: decode_json_def from_base64url_def json_parse_def skip_ws_def)

lemma signed_trim:
  "trim (encode_json v @ CHR ''.'' # to_base64url h) = encode_json v @ CHR ''.'' # to_base64url h"
  by (rule trim_no_space)
    (auto simp: encode_json_def dest: space_not_in_base64url, simp add: is_space_def)

definition payload_nonblank :: "qr_payload \<Rightarrow> bool" where
  "payload_nonblank p = list_all (field_ok (payload_fields p)) requiredFields"

section \<open>Properties\<close>

lemma decode_Q2: "decode_json ''Q2'' = None"
  by code_simp

lemma legacy_not_Q2:
  assumes "q = p @ ''.'' @ g" and "CHR ''.'' \<notin> set p" and "decode_json p = Some v"
  shows "\<not> starts_with (compact_prefix @ ''.'') q"
proof
  assume "starts_with (compact_prefix @ ''.'') q"
  then obtain r where "p @ CHR ''.'' # g = ''Q2'' @ CHR ''.'' # r"
    using assms(1) by (auto simp: starts_with_Q2)
  then have "split_on CHR ''.'' (p @ CHR ''.'' # g) = split_on CHR ''.'' (''Q2'' @ CHR ''.'' # r)"
    by simp
  then have "p = ''Q2''" using assms(2) by (simp add: split_on_Cons)
  with assms(3) decode_Q2 show False by simp
qed

text \<open>C3: \<open>verifySignedQrToken\<close> accepts a token exactly when, up to surrounding white space, it is
  an encoded payload followed by a dot and the MAC of that encoded payload under the secret, the
  payload decodes to an object, and all ten required fields are non-blank strings; what it returns
  is that object. So nothing is accepted whose MAC does not match, and nothing else is read.\<close>

theorem verifySigned_accepts:
  "verifySignedQrToken hm q secret = Inr fs \<longleftrightarrow>
   (\<exists>p. trim q = p @ ''.'' @ to_base64url (hm secret p) \<and> CHR ''.'' \<notin> set p \<and>
        p \<noteq> [] \<and> hm secret p \<noteq> [] \<and> decode_json p = Some (JObj fs) \<and>
        list_all (field_ok fs) requiredFields)"
  using verifySigned_Inr [of hm q secret fs] by (simp add: signEncodedPayload_def)

lemma verify_createSigned:
  assumes "payload_nonblank p" and "\<forall>k m. length (hm k m) = 32"
  shows "verifySignedQrToken hm (createSignedQrToken hm (JObj (payload_fields p)) secret) secret =
      Inr (payload_fields p)"
proof -
  let ?e = "encode_json (JObj (payload_fields p))"
  have "trim (createSignedQrToken hm (JObj (payload_fields p)) secret) = ?e @ ''.'' @ signEncodedPayload hm ?e secret"
    by (simp add: createSignedQrToken_def signEncodedPayload_def signed_trim Let_def)
  moreover have "decode_json ?e = Some (JObj (payload_fields p))" "?e \<noteq> []"
    using plain_payload by (rule decode_encode_json, rule encode_json_ne)
  moreover have "CHR ''.'' \<notin> set ?e" by (simp add: encode_json_def dot_not_in_base64url)
  moreover have "hm secret ?e \<noteq> []" using assms(2) by (metis list.size(3) zero_neq_numeral)
  ultimately show ?thesis
    using assms(1) by (auto simp: verifySigned_Inr payload_nonblank_def)
qed

text \<open>A token made by \<open>createSignedQrToken\<close> from a payload with non-blank fields is accepted
  under the same secret and gives the payload back, whatever the texts in it, and so does the token
  that \<open>reconstructSignedQrToken\<close> builds from the payload and the stored MAC. The MAC is assumed to
  be what SHA-256 gives, 32 bytes.\<close>

theorem signed_roundtrip:
  assumes "payload_nonblank p" and "\<forall>k m. length (hm k m) = 32"
  shows "verifySignedQrToken hm (createSignedQrToken hm (JObj (payload_fields p)) secret) secret =
      Inr (payload_fields p) \<and>
    reconstructSignedQrToken (JObj (payload_fields p))
      (signEncodedPayload hm (encode_json (JObj (payload_fields p))) secret) =
      createSignedQrToken hm (JObj (payload_fields p)) secret"
  using verify_createSigned [OF assms]
  by (simp add: reconstructSignedQrToken_def createSignedQrToken_def Let_def)

definition sample_payload :: qr_payload where
  "sample_payload = \<lparr>pl_tokenId = ''QRT_0A'', pl_eventId = ''e1'', pl_registrationId = ''r1'',
     pl_registrationPublicId = ''REG_1'', pl_attendeeTypeId = ''t1'', pl_attendeeTypeCode = ''VIP'',
     pl_issuedAt = ''2025-01-01'', pl_validFrom = ''2025-01-01'', pl_validUntil = ''2025-01-02'',
     pl_nonce = ''n''\<rparr>"

definition sample_mac :: mac where
  "sample_mac k m = take 32 (k @ m @ replicate 32 CHR ''.'')"

lemma length_sample_mac: "length (sample_mac k m) = 32"
  by (simp add: sample_mac_def)

lemma sample_payload_nonblank: "payload_nonblank sample_payload"
  by code_simp

lemma signed_roundtrip_witness:
  "verifySignedQrToken sample_mac
     (createSignedQrToken sample_mac (JObj (payload_fields sample_payload)) ''k'') ''k'' =
   Inr (payload_fields sample_payload)"
  using signed_roundtrip [OF sample_payload_nonblank, of sample_mac] length_sample_mac by simp

text \<open>\<open>verifyCompactQrToken\<close> accepts exactly two forms, up to surrounding white space: the
  compact one, where the id has only letters, digits, dashes and underscores, at most 128 of them,
  and is followed by the first 16 bytes of the MAC of the prefix and the id; and the older one, a
  payload object with a non-blank token id followed by the full MAC of the encoded payload.\<close>

theorem verifyCompact_accepts:
  "verifyCompactQrToken hm q secret = Inr t \<longleftrightarrow>
   (trim q = ''Q2.'' @ t @ ''.'' @ to_base64url (take 16 (hm secret (''Q2.'' @ t))) \<and>
      id_text t \<and> length t \<le> 128 \<and> hm secret (''Q2.'' @ t) \<noteq> []) \<or>
   (\<exists>p fs u. trim q = p @ ''.'' @ to_base64url (hm secret p) \<and> CHR ''.'' \<notin> set p \<and>
        p \<noteq> [] \<and> hm secret p \<noteq> [] \<and> decode_json p = Some (JObj fs) \<and>
        obj_get fs ''tokenId'' = Some (JStr u) \<and> t = trim u \<and> t \<noteq> [])"
proof (cases "starts_with (compact_prefix @ ''.'') (trim q)")
  case True
  then have "\<not> (\<exists>p fs g. trim q = p @ ''.'' @ g \<and> CHR ''.'' \<notin> set p \<and> decode_json p = Some (JObj fs))"
    using legacy_not_Q2 by blast
  then show ?thesis using True
    by (auto simp: verifyCompactQrToken_def verifyV2_Inr signCompactTokenId_def
          compact_signature_bytes_def compact_prefix_def)
next
  case False
  then have "\<not> (\<exists>r. trim q = ''Q2.'' @ r)" by (simp add: starts_with_Q2)
  then show ?thesis using False
    by (auto simp: verifyCompactQrToken_def verifyLegacy_Inr signEncodedPayload_def)
qed

text \<open>\<open>createCompactQrToken\<close> succeeds on an id of the allowed characters (white space around
  it is dropped) and the token it gives is accepted as that id, and only as that id.\<close>

theorem compact_roundtrip:
  assumes "id_text (trim t)" and "length (trim t) \<le> 128" and "\<forall>k m. length (hm k m) = 32"
  shows "\<exists>q. createCompactQrToken hm t secret = Inr q \<and>
    (\<forall>u. verifyCompactQrToken hm q secret = Inr u \<longleftrightarrow> u = trim t)"
proof -
  let ?g = "signCompactTokenId hm (trim t) secret"
  let ?q = "''Q2.'' @ trim t @ ''.'' @ ?g"
  have "c \<in> set ?q \<Longrightarrow> \<not> is_space c" for c
    using assms(1) by (auto simp: is_space_def signCompactTokenId_def dest: id_text_no_space space_not_in_base64url)
  then have q: "trim ?q = ?q" by (rule trim_no_space)
  have "hm secret (''Q2.'' @ trim t) \<noteq> []" using assms(3) by (metis list.size(3) zero_neq_numeral)
  then have "verifyCompactQrToken hm ?q secret = Inr (trim t)"
    using assms(1,2) q by (simp add: verifyCompactQrToken_def starts_with_Q2 verifyV2_Inr)
  moreover have "createCompactQrToken hm t secret = Inr ?q"
    using assms(1) by (auto simp: createCompactQrToken_def compact_prefix_def id_text_def Let_def)
  ultimately show ?thesis by auto
qed

lemma compact_roundtrip_witness:
  "\<exists>q. createCompactQrToken sample_mac ''  QRT_0A '' ''k'' = Inr q \<and>
    (\<forall>u. verifyCompactQrToken sample_mac q ''k'' = Inr u \<longleftrightarrow> u = trim ''  QRT_0A '')"
  by (rule compact_roundtrip) (code_simp, code_simp, simp add: length_sample_mac)

text \<open>The formats cannot be confused: a token that \<open>verifySignedQrToken\<close> accepts is also accepted
  by \<open>verifyCompactQrToken\<close>, which gives the token id of the very same payload, and so badges printed
  before the compact format stay readable and never resolve to another id.\<close>

theorem signed_accepted_as_compact:
  assumes "verifySignedQrToken hm q secret = Inr fs"
  shows "\<exists>u. obj_get fs ''tokenId'' = Some (JStr u) \<and>
    verifyCompactQrToken hm q secret = Inr (trim u)"
proof -
  obtain p where p: "trim q = p @ ''.'' @ signEncodedPayload hm p secret" "CHR ''.'' \<notin> set p"
      "p \<noteq> []" "hm secret p \<noteq> []" "decode_json p = Some (JObj fs)"
      "list_all (field_ok fs) requiredFields"
    using assms by (auto simp: verifySigned_Inr)
  then have "field_ok fs ''tokenId''" by (simp add: requiredFields_def)
  then obtain u where u: "obj_get fs ''tokenId'' = Some (JStr u)" "trim u \<noteq> []"
    by (auto simp: field_ok_def str_of_Some blank_def split: option.splits)
  have "\<not> starts_with (compact_prefix @ ''.'') (trim q)"
    using legacy_not_Q2 [OF p(1,2,5)] .
  with p u have "verifyCompactQrToken hm q secret = Inr (trim u)"
    by (auto simp: verifyCompactQrToken_def verifyLegacy_Inr)
  with u show ?thesis by auto
qed

lemma signed_accepted_as_compact_witness:
  "\<exists>u. obj_get (payload_fields sample_payload) ''tokenId'' = Some (JStr u) \<and>
    verifyCompactQrToken sample_mac
      (createSignedQrToken sample_mac (JObj (payload_fields sample_payload)) ''k'') ''k'' = Inr (trim u)"
  using verify_createSigned [OF sample_payload_nonblank, of sample_mac] length_sample_mac
  by (intro signed_accepted_as_compact) blast

end
