(* ===== verification/Sample.thy ===== *)
theory Sample
  imports QrSigning
begin

text \<open>
  A concrete environment, at which the theorems that assume something of the parameters are
  applied: ids are decimal numbers, random texts sixteen decimal digits, dates are written as their number of
  milliseconds, the digest is the first 32 bytes of secret and message, and a signature is
  the public key followed by the message.
\<close>

definition sample_parse_date :: "string \<Rightarrow> time option" where
  "sample_parse_date s = (case json_parse s of Some (JInt i) \<Rightarrow> Some i | _ \<Rightarrow> None)"

definition sample_hex :: "nat \<Rightarrow> string" where
  "sample_hex n = rev (take 16 (rev (nat_text n) @ replicate 16 CHR ''0''))"

definition sample_env :: env where
  "sample_env = \<lparr>now = 1000, cuid = (\<lambda>n. CHR ''c'' # nat_text n), random_hex = sample_hex,
     random_nonce = nat_text, hmac_sha256 = sample_mac, sha256_hex = (\<lambda>s. s),
     is_ed25519 = (\<lambda>k. k \<noteq> []), ed25519_verify = (\<lambda>k m g. g = k @ m),
     parse_date = sample_parse_date, iso_date = int_text, qr_secret = ''secret'',
     queue_up = True, scan_processing_enabled = True, pipeline_enabled = True\<rparr>"

lemma nat_text_inj: "inj nat_text"
  by (rule injI) (metis nat_text_value)

lemma blank_int_text: "\<not> blank (int_text t)"
proof -
  obtain d r where d: "int_text t = d # r" and "is_digit d \<or> d = CHR ''-''"
    using int_text_hd [of t] by (cases "int_text t") auto
  then have h: "\<not> is_space d" by (auto simp: is_digit_def is_space_def)
  have "trim_left (int_text t) = int_text t" using d h by (simp add: trim_left_id)
  moreover have "rev (trim_left (rev (int_text t))) \<noteq> []"
    using d h by (auto simp: trim_left_def)
  ultimately show ?thesis by (simp add: blank_def trim_def)
qed

lemma sample_laws:
  "id_law sample_env" "mac_law sample_env" "date_law sample_env"
proof -
  show "id_law sample_env"
    using nat_text_inj by (auto simp: id_law_def sample_env_def inj_def)
  show "mac_law sample_env" by (simp add: mac_law_def sample_env_def length_sample_mac)
  have "json_parse (int_text t) = Some (JInt t)" for t
    using json_parse_stringify [of "JInt t"] by simp
  then show "date_law sample_env"
    by (simp add: date_law_def sample_env_def sample_parse_date_def blank_int_text)
qed

lemma run_Inr: "is_Inr (fst x) \<Longrightarrow> \<exists>a t. x = (Inr a, t)"
  by (cases x; cases "fst x") auto

lemma find_row_cong:
  "(\<And>r. r \<in> set rows \<Longrightarrow> p r = q r) \<Longrightarrow> find_row p rows = find_row q rows"
  by (induction rows) auto

lemma sample_hex_text: "id_text (sample_hex n)" "length (sample_hex n) = 16"
proof -
  have "is_digit d \<Longrightarrow> id_char d" for d by (auto simp: is_digit_def id_char_def Let_def)
  moreover have "is_digit CHR ''0''" by (simp add: is_digit_def)
  ultimately have "list_all id_char (rev (nat_text n) @ replicate 16 CHR ''0'')"
    using nat_text_digits [of n] by (auto simp: list_all_iff)
  then show "id_text (sample_hex n)"
    by (auto simp: id_text_def sample_hex_def list_all_iff dest: in_set_takeD)
  show "length (sample_hex n) = 16" by (simp add: sample_hex_def)
qed

text \<open>A store with one event, attendee type, registration, device and checkpoint.\<close>

definition sample_event :: event_row where
  "sample_event = \<lparr>ev_id = ''e1'', ev_clientId = ''cl'', ev_status = EV_ACTIVE, ev_startsAt = 500,
     ev_endsAt = 9000, ev_allowReEntry = False, ev_duplicateStrategy = ''REJECT'',
     ev_qrValidFrom = None, ev_qrValidUntil = Some 8000, ev_type = EXHIBITION, ev_titleAr = ''Expo'', ev_titleEn = None,
     ev_descriptionAr = None, ev_descriptionEn = None, ev_timezone = ''Asia/Damascus'', ev_createdAt = 0\<rparr>"

definition sample_type :: attendee_type where
  "sample_type = \<lparr>at_id = ''t1'', at_eventId = ''e1'', at_code = ''VIP'', at_isDefault = True,
     at_isActive = True, at_nameAr = ''Guest'', at_nameEn = None, at_descriptionAr = None, at_descriptionEn = None,
     at_sortOrder = 0, at_createdAt = 0\<rparr>"

definition sample_registration :: registration where
  "sample_registration = \<lparr>rg_id = ''r1'', rg_publicId = ''REG_1'', rg_eventId = ''e1'',
     rg_attendeeTypeId = ''t1'', rg_status = REG_ACTIVE, rg_source = SRC_ADMIN, rg_fullName = ''Ann'',
     rg_phone = None, rg_email = None, rg_companyName = None, rg_jobTitle = None,
     rg_externalId = None, rg_customFields = JNull, rg_notes = None,
     rg_registeredAt = 500, rg_syncedAt = None, rg_createdAt = 500, rg_updatedAt = 500\<rparr>"

definition sample_device :: device where
  "sample_device = \<lparr>dv_id = ''d1'', dv_eventId = ''e1'', dv_code = ''D1'', dv_apiKeyHash = ''h'',
     dv_status = DEV_ACTIVE, dv_lastSeenAt = None, dv_name = ''Scanner'', dv_metadata = JNull, dv_createdAt = 0\<rparr>"

definition sample_checkpoint :: checkpoint where
  "sample_checkpoint = \<lparr>cp_id = ''p1'', cp_eventId = ''e1'', cp_venueId = None,
     cp_zoneId = None, cp_nameAr = ''Gate'', cp_nameEn = None, cp_code = ''C1'', cp_type = CP_ENTRY,
     cp_allowedAttendeeTypes = JNull, cp_isActive = True, cp_sortOrder = 0, cp_createdAt = 0\<rparr>"

definition sample_regs :: store where
  "sample_regs = empty_store\<lparr>events := [sample_event], attendeeTypes := [sample_type],
     registrations := [sample_registration], devices := [sample_device],
     checkpoints := [sample_checkpoint]\<rparr>"

lemma blank_nat_text: "\<not> blank (nat_text n)"
  using blank_int_text [of "int n"] by (simp add: int_text_def)

end
