(* ===== verification/OfflineQr.thy ===== *)
theory OfflineQr
  imports Sample "HOL-Library.List_Lexorder" "HOL-Library.Char_ord"
begin

text \<open>
  \<open>src/modules/offline/offline-qr.service.ts\<close>: the keys of devices that register visitors
  without a connection, and the badges those devices sign. A badge is
  \<open>base64url(JSON).base64url(Ed25519 signature)\<close>; its JSON is an object (version 1) or an array of
  nine (version 2), which is normalised to the object form. Ed25519, SHA-256 and the conversion
  of dates are parameters of the environment.
\<close>

section \<open>Payload and hash\<close>

type_synonym fields = "(string \<times> json) list"

record verified_qr =
  vq_signedOfflineQr :: string
  vq_encodedPayload :: string
  vq_signature :: string
  vq_payload :: fields
  vq_payloadHash :: string

text \<open>
  \<open>stableStringify\<close>: the members of an object in the order of their keys. (The code sorts the
  keys and then renders the members; rendering keeps the keys, so sorting the rendered members
  is the same. The order is that of the UTF-8 bytes.)
\<close>

fun stableStringify :: "json \<Rightarrow> string" where
  "stableStringify (JArr vs) = CHR ''['' # commas (map stableStringify vs) @ '']''"
| "stableStringify (JObj fs) =
     CHR 0x7B # commas (map (\<lambda>(k, t). quote k @ CHR '':'' # t)
       (sort_key fst (map (\<lambda>(k, v). (k, stableStringify v)) fs))) @ [CHR 0x7D]"
| "stableStringify v = stringify v"

definition hashPayload :: "env \<Rightarrow> fields \<Rightarrow> string" where
  "hashPayload c payload = sha256_hex c (stableStringify (JObj payload))"

definition tokensEqual :: "string \<Rightarrow> string \<Rightarrow> bool" where
  "tokensEqual l r = (length l = length r \<and> list_all2 (=) l r)"

text \<open>Reading members that have been checked to be strings and integers.\<close>

definition str_field :: "fields \<Rightarrow> string \<Rightarrow> string" where
  "str_field fs k = (case str_of (obj_get fs k) of Some s \<Rightarrow> s | None \<Rightarrow> [])"

definition int_field :: "fields \<Rightarrow> string \<Rightarrow> int" where
  "int_field fs k = (case obj_get fs k of Some (JInt i) \<Rightarrow> i | _ \<Rightarrow> 0)"

definition nonblank_str :: "json \<Rightarrow> bool" where
  "nonblank_str v = (case v of JStr s \<Rightarrow> \<not> blank s | _ \<Rightarrow> False)"

definition int_of_json :: "json \<Rightarrow> int option" where
  "int_of_json v = (case v of JInt i \<Rightarrow> Some i | _ \<Rightarrow> None)"

definition compact_fields :: "env \<Rightarrow> string \<Rightarrow> string \<Rightarrow> int \<Rightarrow> string \<Rightarrow> string \<Rightarrow> string \<Rightarrow>
    int \<Rightarrow> int \<Rightarrow> fields" where
  "compact_fields c eventId issuerDeviceId issuerKeyVersion operationId token attendeeTypeId
     issuedAtSeconds validUntilSeconds =
    [(''v'', JInt 2), (''type'', JStr ''OFFLINE_REGISTRATION''), (''eventId'', JStr eventId),
     (''issuerDeviceId'', JStr issuerDeviceId), (''issuerKeyVersion'', JInt issuerKeyVersion),
     (''offlineRegistrationOperationId'', JStr operationId), (''offlineQrToken'', JStr token),
     (''attendeeTypeId'', JStr attendeeTypeId),
     (''issuedAt'', JStr (iso_date c (issuedAtSeconds * 1000))),
     (''validUntil'', JStr (iso_date c (validUntilSeconds * 1000)))]"

definition normalizeCompact :: "env \<Rightarrow> json list \<Rightarrow> fields res" where
  "normalizeCompact c value =
    (case value of
       [version, eventId, issuerDeviceId, issuerKeyVersion, operationId, token, attendeeTypeId,
        issuedAtSeconds, validUntilSeconds] \<Rightarrow>
         if version \<noteq> JInt 2
         then Inl (BadRequest ''Unsupported compact offline QR payload version'')
         else if list_ex (\<lambda>item. \<not> nonblank_str item)
                   [eventId, issuerDeviceId, operationId, token, attendeeTypeId]
         then Inl (BadRequest ''Compact offline QR contains invalid identifiers'')
         else (case int_of_json issuerKeyVersion of
             None \<Rightarrow> Inl (BadRequest ''Compact offline QR key version is invalid'')
           | Some kv \<Rightarrow>
               if kv < 1 then Inl (BadRequest ''Compact offline QR key version is invalid'')
               else (case (int_of_json issuedAtSeconds, int_of_json validUntilSeconds) of
                   (Some ia, Some vu) \<Rightarrow>
                     if ia \<le> 0 \<or> vu \<le> ia
                     then Inl (BadRequest ''Compact offline QR timestamps are invalid'')
                     else if \<not> valid_time (ia * 1000) \<or> \<not> valid_time (vu * 1000)
                     then Inl (BadRequest ''Compact offline QR dates are invalid'')
                     else (case (eventId, issuerDeviceId, operationId, token, attendeeTypeId) of
                         (JStr e, JStr i, JStr opid, JStr t, JStr a) \<Rightarrow>
                           Inr (compact_fields c e i kv opid t a ia vu)
                       | _ \<Rightarrow> Inl (BadRequest ''Compact offline QR contains invalid identifiers''))
                 | _ \<Rightarrow> Inl (BadRequest ''Compact offline QR timestamps are invalid'')))
     | _ \<Rightarrow> Inl (BadRequest ''Invalid compact offline QR payload length''))"

definition normalizeOfflineQrPayload :: "env \<Rightarrow> json \<Rightarrow> fields res" where
  "normalizeOfflineQrPayload c value =
    (case value of
       JArr vs \<Rightarrow> normalizeCompact c vs
     | JObj fs \<Rightarrow> Inr fs
     | _ \<Rightarrow> Inl (BadRequest ''Invalid offline QR payload structure''))"

definition parseSignedOfflineQr :: "env \<Rightarrow> string \<Rightarrow> verified_qr res" where
  "parseSignedOfflineQr c signedOfflineQr =
    (case split_on CHR ''.'' signedOfflineQr of
       [encodedPayload, signature] \<Rightarrow>
         if encodedPayload = [] \<or> signature = []
         then Inl (BadRequest ''Invalid offline QR token format'')
         else (case decode_json encodedPayload of
             None \<Rightarrow> Inl (BadRequest ''Invalid offline QR payload encoding'')
           | Some rawPayload \<Rightarrow>
               bindE (normalizeOfflineQrPayload c rawPayload) (\<lambda>payload.
                 Inr \<lparr>vq_signedOfflineQr = signedOfflineQr, vq_encodedPayload = encodedPayload,
                      vq_signature = signature, vq_payload = payload,
                      vq_payloadHash = hashPayload c payload\<rparr>))
     | _ \<Rightarrow> Inl (BadRequest ''Invalid offline QR token format''))"

definition offline_required :: "string list" where
  "offline_required = [''type'', ''eventId'', ''issuerDeviceId'', ''offlineRegistrationOperationId'',
     ''offlineQrToken'', ''attendeeTypeId'', ''issuedAt'', ''validUntil'']"

fun assertStrings :: "fields \<Rightarrow> string list \<Rightarrow> unit res" where
  "assertStrings payload [] = Inr ()"
| "assertStrings payload (field # rest) =
     (if \<not> field_ok payload field then Inl (BadRequest (''Offline QR '' @ field @ '' is required''))
      else assertStrings payload rest)"

definition assertOfflineQrPayload :: "env \<Rightarrow> fields \<Rightarrow> unit res" where
  "assertOfflineQrPayload c payload =
    (if (obj_get payload ''v'' \<noteq> Some (JInt 1) \<and> obj_get payload ''v'' \<noteq> Some (JInt 2)) \<or>
        obj_get payload ''type'' \<noteq> Some (JStr ''OFFLINE_REGISTRATION'')
     then Inl (BadRequest ''Unsupported offline QR payload version'')
     else if Option.bind (obj_get payload ''issuerKeyVersion'') int_of_json = None
     then Inl (BadRequest ''Offline QR key version is required'')
     else bindE (assertStrings payload offline_required) (\<lambda>_.
       if parse_date c (str_field payload ''issuedAt'') = None
       then Inl (BadRequest ''Offline QR issuedAt is invalid'')
       else Inr ()))"

section \<open>Keys\<close>

text \<open>Comparing with an invalid date is false in both directions.\<close>

definition assertKeyUsableForPayload :: "env \<Rightarrow> offline_key \<Rightarrow> fields \<Rightarrow> unit res" where
  "assertKeyUsableForPayload c key payload =
    (let issuedAt = parse_date c (str_field payload ''issuedAt'');
         before = (\<lambda>t. case issuedAt of None \<Rightarrow> False | Some i \<Rightarrow> i < t);
         after = (\<lambda>t. case issuedAt of None \<Rightarrow> False | Some i \<Rightarrow> t < i);
         from = (\<lambda>t. case issuedAt of None \<Rightarrow> False | Some i \<Rightarrow> t \<le> i)
     in if before (ky_validFrom key)
        then Inl (BadRequest ''Offline QR predates issuer key validity'')
        else if (case ky_validUntil key of None \<Rightarrow> False | Some t \<Rightarrow> after t)
        then Inl (BadRequest ''Offline QR was issued after key rotation'')
        else if ky_status key = KEY_REVOKED \<and>
                (case ky_revokedAt key of None \<Rightarrow> True | Some t \<Rightarrow> from t)
        then Inl (BadRequest ''Offline QR issuer key is revoked'')
        else Inr ())"

definition assertEd25519PublicKey :: "env \<Rightarrow> string \<Rightarrow> unit res" where
  "assertEd25519PublicKey c publicKey =
    guard (is_ed25519 c publicKey) (BadRequest ''Invalid Ed25519 public key'')"

definition is_key :: "id \<Rightarrow> int \<Rightarrow> offline_key \<Rightarrow> bool" where
  "is_key deviceId version k = (ky_deviceId k = deviceId \<and> ky_version k = version)"

definition find_key :: "id \<Rightarrow> int \<Rightarrow> store \<Rightarrow> offline_key option" where
  "find_key deviceId version s = find_row (is_key deviceId version) (offlineKeys s)"

definition verifySignedOfflineQr :: "env \<Rightarrow> string \<Rightarrow> string option \<Rightarrow> store \<Rightarrow> verified_qr res" where
  "verifySignedOfflineQr c signedOfflineQr expectedEventId s =
    bindE (parseSignedOfflineQr c signedOfflineQr) (\<lambda>parsed.
    let payload = vq_payload parsed in
    bindE (assertOfflineQrPayload c payload) (\<lambda>_.
    if truthy expectedEventId \<and> Some (str_field payload ''eventId'') \<noteq> expectedEventId
    then Inl (BadRequest ''Offline QR event mismatch'')
    else if (case parse_date c (str_field payload ''validUntil'') of
               None \<Rightarrow> True | Some t \<Rightarrow> t < now c)
    then Inl (BadRequest ''Offline QR expired'')
    else (case find_device (str_field payload ''issuerDeviceId'') s of
        None \<Rightarrow> Inl (BadRequest ''Offline QR issuer is not trusted'')
      | Some issuer \<Rightarrow>
          if dv_eventId issuer \<noteq> str_field payload ''eventId''
          then Inl (BadRequest ''Offline QR issuer is not trusted'')
          else (case find_key (dv_id issuer) (int_field payload ''issuerKeyVersion'') s of
              None \<Rightarrow> Inl (BadRequest ''Offline QR issuer key not found'')
            | Some key \<Rightarrow>
                bindE (assertKeyUsableForPayload c key payload) (\<lambda>_.
                bindE (assertEd25519PublicKey c (ky_publicKey key)) (\<lambda>_.
                if ed25519_verify c (ky_publicKey key) (vq_encodedPayload parsed)
                     (from_base64url (vq_signature parsed))
                then Inr parsed
                else Inl (BadRequest ''Invalid offline QR signature''))))))
    )"

section \<open>Provisioning\<close>

definition rotateKeys :: "env \<Rightarrow> id \<Rightarrow> int \<Rightarrow> store \<Rightarrow> store" where
  "rotateKeys c deviceId keyVersion s = s\<lparr>offlineKeys :=
     update_rows (\<lambda>k. ky_deviceId k = deviceId \<and> ky_status k = KEY_ACTIVE \<and> ky_version k \<noteq> keyVersion)
       (\<lambda>k. k\<lparr>ky_status := KEY_ROTATED, ky_validUntil := Some (now c)\<rparr>) (offlineKeys s)\<rparr>"

definition upsertKey :: "env \<Rightarrow> id \<Rightarrow> int \<Rightarrow> string \<Rightarrow> (store, offline_key) act" where
  "upsertKey c deviceId keyVersion publicKey =
    bindA (gets (find_key deviceId keyVersion)) (\<lambda>found. case found of
      Some k \<Rightarrow>
        (let k' = k\<lparr>ky_publicKey := publicKey, ky_status := KEY_ACTIVE, ky_validUntil := None,
                    ky_revokedAt := None\<rparr>
         in bindA (modify (\<lambda>s. s\<lparr>offlineKeys :=
              update_rows (is_key deviceId keyVersion)
                (\<lambda>k. k\<lparr>ky_publicKey := publicKey, ky_status := KEY_ACTIVE, ky_validUntil := None,
                       ky_revokedAt := None\<rparr>) (offlineKeys s)\<rparr>)) (\<lambda>_. ret k'))
    | None \<Rightarrow>
        bindA (new_id c) (\<lambda>i.
        let k = \<lparr>ky_id = i, ky_deviceId = deviceId, ky_version = keyVersion,
                 ky_publicKey = publicKey, ky_status = KEY_ACTIVE, ky_validFrom = now c,
                 ky_validUntil = None, ky_revokedAt = None\<rparr>
        in bindA (modify (\<lambda>s. s\<lparr>offlineKeys := append_row k (offlineKeys s)\<rparr>)) (\<lambda>_. ret k)))"

definition provisionDevicePublicKey ::
    "env \<Rightarrow> id \<Rightarrow> string \<Rightarrow> int \<Rightarrow> bool \<Rightarrow> (store, offline_key) act" where
  "provisionDevicePublicKey c deviceId publicKey keyVersion rotateExisting =
    bindA (reads (\<lambda>s. assertEd25519PublicKey c publicKey)) (\<lambda>_.
    bindA (gets (find_device deviceId)) (\<lambda>found. case found of
      None \<Rightarrow> throw (NotFound ''Device not found'')
    | Some device \<Rightarrow>
        transaction (
          bindA (if rotateExisting then modify (rotateKeys c deviceId keyVersion) else ret ()) (\<lambda>_.
          bindA (upsertKey c deviceId keyVersion publicKey) (\<lambda>key.
          bindA (modify (\<lambda>s. s\<lparr>keyAudits := keyAudits s @
            [\<lparr>ka_eventId = dv_eventId device, ka_entityId = ky_id key, ka_deviceId = deviceId,
              ka_keyVersion = keyVersion, ka_rotated = rotateExisting\<rparr>]\<rparr>)) (\<lambda>_.
          ret key))))))"

record trust_entry =
  te_deviceId :: id
  te_code :: string
  te_keyVersion :: int
  te_publicKey :: string
  te_status :: key_status
  te_validFrom :: time
  te_validUntil :: "time option"

definition getTrustBundle :: "id \<Rightarrow> store \<Rightarrow> (id \<times> trust_entry list) res" where
  "getTrustBundle deviceId s =
    (case find_device deviceId s of
       None \<Rightarrow> Inl (BadRequest ''Device must be ACTIVE'')
     | Some device \<Rightarrow>
         if dv_status device \<noteq> DEV_ACTIVE then Inl (BadRequest ''Device must be ACTIVE'')
         else Inr (dv_eventId device,
           [\<lparr>te_deviceId = ky_deviceId k, te_code = dv_code d, te_keyVersion = ky_version k,
             te_publicKey = ky_publicKey k, te_status = ky_status k,
             te_validFrom = ky_validFrom k, te_validUntil = ky_validUntil k\<rparr>.
            k \<leftarrow> sort_key ky_deviceId (sort_key (\<lambda>k. - ky_version k) (offlineKeys s)),
            ky_status k = KEY_ACTIVE \<or> ky_status k = KEY_ROTATED,
            d \<leftarrow> (case find_device (ky_deviceId k) s of None \<Rightarrow> [] | Some d \<Rightarrow> [d]),
            dv_eventId d = dv_eventId device \<and> dv_status d = DEV_ACTIVE]))"

section \<open>The canonical text\<close>

text \<open>\<open>canon\<close> sorts the members of every object; the stable text is the plain text of that.\<close>

fun canon :: "json \<Rightarrow> json" where
  "canon (JArr vs) = JArr (map canon vs)"
| "canon (JObj fs) = JObj (sort_key fst (map (\<lambda>(k, v). (k, canon v)) fs))"
| "canon v = v"

lemma insort_map_snd:
  "insort_key fst (k, f v) (map (\<lambda>(k, v). (k, f v)) xs) =
   map (\<lambda>(k, v). (k, f v)) (insort_key fst (k, v) xs)"
  by (induction xs) auto

lemma sort_map_snd:
  "sort_key fst (map (\<lambda>(k, v). (k, f v)) xs) = map (\<lambda>(k, v). (k, f v)) (sort_key fst xs)"
  by (induction xs) (auto simp: insort_map_snd)

lemma map_fst_snd [simp]: "map fst (map (\<lambda>(k, v). (k, f v)) xs) = map fst xs"
  by (simp add: case_prod_beta comp_def)

lemma distinct_sort_key: "distinct (map fst (sort_key fst xs)) \<longleftrightarrow> distinct (map fst xs)"
  by (simp add: distinct_map)

lemma map_of_sort_key: "distinct (map fst xs) \<Longrightarrow> map_of (sort_key fst xs) = map_of xs"
  by (simp add: map_of_inject_set distinct_sort_key)

lemma sort_key_eq_iff:
  assumes "distinct (map fst xs)" and "distinct (map fst ys)"
  shows "sort_key fst xs = sort_key fst ys \<longleftrightarrow> map_of xs = map_of ys"
proof
  assume "sort_key fst xs = sort_key fst ys"
  with assms show "map_of xs = map_of ys" by (metis map_of_sort_key)
next
  assume m: "map_of xs = map_of ys"
  then have set: "set xs = set ys" using assms by (simp add: map_of_inject_set)
  let ?s = "sort_key fst xs" and ?t = "sort_key fst ys"
  have "map fst ?s = map fst ?t"
    by (rule sorted_distinct_set_unique) (use assms set in \<open>simp_all add: distinct_sort_key\<close>)
  moreover have "map_of ?s = map_of ?t" using assms m by (simp add: map_of_sort_key)
  moreover have "map (\<lambda>k. (k, the (map_of zs k))) (map fst zs) = zs"
    if "distinct (map fst zs)" for zs :: "('a \<times> 'b) list"
    using that by (auto intro!: map_idI simp: map_of_is_SomeI)
  ultimately show "?s = ?t" using assms distinct_sort_key by metis
qed

lemma stableStringify_canon: "stableStringify v = stringify (canon v)"
proof (induction v rule: stableStringify.induct)
  case (1 vs)
  then have "map stableStringify vs = map (stringify \<circ> canon) vs" by simp
  then show ?case by (simp only: canon.simps stringify.simps stableStringify.simps map_map)
next
  case (2 fs)
  have "map (\<lambda>(k, v). (k, stableStringify v)) fs = map (\<lambda>(k, v). (k, stringify (canon v))) fs"
    using 2 by auto
  then show ?case
    by (simp add: sort_map_snd [of stableStringify] sort_map_snd [of canon] comp_def case_prod_beta
          sort_map_snd [of "\<lambda>v. stringify (canon v)"] del: map_eq_conv)
qed simp_all

lemma plain_canon: "plain_json v \<Longrightarrow> plain_json (canon v)"
proof (induction v rule: canon.induct)
  case (2 fs)
  have "map fst (map (\<lambda>(k, v). (k, canon v)) fs) = map fst fs" by (rule map_fst_snd)
  then have "distinct (map fst (sort_key fst (map (\<lambda>(k, v). (k, canon v)) fs)))"
    using 2(2) by (simp only: distinct_sort_key) simp
  then show ?case using 2 by (auto simp: list_all_iff)
qed (auto simp: list_all_iff)

lemma stableStringify_inj:
  "plain_json v \<Longrightarrow> plain_json w \<Longrightarrow> stableStringify v = stableStringify w \<longleftrightarrow> canon v = canon w"
  using json_text.enc_inj [OF plain_canon plain_canon, of v w] by (auto simp: stableStringify_canon)

lemma plain_member: "plain_json (JObj fs) \<Longrightarrow> obj_get fs k = Some v \<Longrightarrow> plain_json v"
  by (auto simp: obj_get_def list_all_iff dest!: map_of_SomeD)

text \<open>The text that is hashed for a badge does not depend on the order in which the members of
  the payload were written, and depends on everything else: two objects have the same stable text
  exactly when every key is missing in both or has members with the same stable text.\<close>

theorem stableStringify_eq_iff:
  assumes "plain_json (JObj fs)" and "plain_json (JObj gs)"
  shows "stableStringify (JObj fs) = stableStringify (JObj gs) \<longleftrightarrow>
    (\<forall>k. map_option stableStringify (obj_get fs k) = map_option stableStringify (obj_get gs k))"
proof -
  let ?c = "map (\<lambda>(k, v). (k, canon v))"
  have inj: "map_option canon (obj_get fs k) = map_option canon (obj_get gs k) \<longleftrightarrow>
      map_option stableStringify (obj_get fs k) = map_option stableStringify (obj_get gs k)" for k
    using plain_member [OF assms(1), of k] plain_member [OF assms(2), of k]
    by (cases "obj_get fs k"; cases "obj_get gs k") (simp_all add: stableStringify_inj)
  have "stableStringify (JObj fs) = stableStringify (JObj gs) \<longleftrightarrow>
      sort_key fst (?c fs) = sort_key fst (?c gs)"
    using assms by (simp only: stableStringify_inj canon.simps json.inject)
  also have "\<dots> \<longleftrightarrow> map_of (?c fs) = map_of (?c gs)"
    using assms by (intro sort_key_eq_iff) (simp_all only: map_fst_snd plain_json.simps)
  also have "\<dots> \<longleftrightarrow> (\<forall>k. map_option canon (obj_get fs k) = map_option canon (obj_get gs k))"
    by (auto simp: map_of_map obj_get_def fun_eq_iff)
  also have "\<dots> \<longleftrightarrow>
      (\<forall>k. map_option stableStringify (obj_get fs k) = map_option stableStringify (obj_get gs k))"
    using inj by blast
  finally show ?thesis .
qed

lemma stableStringify_eq_iff_witness:
  "stableStringify (JObj [(''b'', JInt 1), (''a'', JArr [JNull])]) =
   stableStringify (JObj [(''a'', JArr [JNull]), (''b'', JInt 1)])"
  by (subst stableStringify_eq_iff) (simp_all add: obj_get_def)

section \<open>What is accepted\<close>

text \<open>The rule of \<open>assertKeyUsableForPayload\<close> and the event check, as predicates.\<close>

definition key_covers :: "offline_key \<Rightarrow> time \<Rightarrow> bool" where
  "key_covers k t = (ky_validFrom k \<le> t \<and>
     (case ky_validUntil k of None \<Rightarrow> True | Some u \<Rightarrow> t \<le> u) \<and>
     (case ky_status k of
        KEY_REVOKED \<Rightarrow> (case ky_revokedAt k of None \<Rightarrow> False | Some r \<Rightarrow> t < r)
      | _ \<Rightarrow> True))"

definition event_agrees :: "string option \<Rightarrow> string \<Rightarrow> bool" where
  "event_agrees expected e = (expected = None \<or> expected = Some [] \<or> expected = Some e)"

lemma keyUsable_Inr:
  "parse_date c (str_field p ''issuedAt'') = Some t \<Longrightarrow>
   assertKeyUsableForPayload c k p = Inr u \<longleftrightarrow> key_covers k t"
  by (auto simp: assertKeyUsableForPayload_def key_covers_def Let_def split: option.splits key_status.splits)

lemma assertStrings_Inr: "assertStrings p ks = Inr u \<longleftrightarrow> list_all (field_ok p) ks"
  by (induction ks) auto

lemma parse_Inr:
  "parseSignedOfflineQr c q = Inr v \<longleftrightarrow>
   (\<exists>raw. q = vq_encodedPayload v @ ''.'' @ vq_signature v \<and> vq_encodedPayload v \<noteq> [] \<and>
      vq_signature v \<noteq> [] \<and> CHR ''.'' \<notin> set (vq_encodedPayload v) \<and>
      CHR ''.'' \<notin> set (vq_signature v) \<and> vq_signedOfflineQr v = q \<and>
      decode_json (vq_encodedPayload v) = Some raw \<and>
      normalizeOfflineQrPayload c raw = Inr (vq_payload v) \<and>
      vq_payloadHash v = hashPayload c (vq_payload v))"
  (is "?l \<longleftrightarrow> ?r")
proof
  assume ?l
  then obtain p g where "split_on CHR ''.'' q = [p, g]"
    and "p \<noteq> [] \<and> g \<noteq> [] \<and> (\<exists>raw f. decode_json p = Some raw \<and> normalizeOfflineQrPayload c raw = Inr f \<and>
      v = \<lparr>vq_signedOfflineQr = q, vq_encodedPayload = p, vq_signature = g, vq_payload = f,
           vq_payloadHash = hashPayload c f\<rparr>)"
    by (auto simp: parseSignedOfflineQr_def bindE_Inr_iff split: list.splits if_splits option.splits)
  then show ?r by (auto simp: split_on_two)
next
  assume ?r
  then have "split_on CHR ''.'' q = [vq_encodedPayload v, vq_signature v]"
    by (auto simp: split_on_two)
  with \<open>?r\<close> show ?l by (auto simp: parseSignedOfflineQr_def)
qed

lemma assertPayload_Inr:
  "assertOfflineQrPayload c p = Inr u \<longleftrightarrow>
   (obj_get p ''v'' = Some (JInt 1) \<or> obj_get p ''v'' = Some (JInt 2)) \<and>
   obj_get p ''type'' = Some (JStr ''OFFLINE_REGISTRATION'') \<and>
   (\<exists>kv. obj_get p ''issuerKeyVersion'' = Some (JInt kv)) \<and>
   list_all (field_ok p) offline_required \<and>
   (\<exists>t. parse_date c (str_field p ''issuedAt'') = Some t)"
proof -
  have "Option.bind x int_of_json = None \<longleftrightarrow> \<not> (\<exists>kv. x = Some (JInt kv))" for x
    by (cases x) (auto simp: int_of_json_def split: json.splits)
  then show ?thesis
    unfolding assertOfflineQrPayload_def
    by (auto simp: bindE_Inr_iff assertStrings_Inr split: if_splits)
qed

lemma verifyOffline_Inr:
  "verifySignedOfflineQr c q expected s = Inr v \<longleftrightarrow>
   (\<exists>issuer key issuedAt validUntil.
      parseSignedOfflineQr c q = Inr v \<and>
      q = vq_encodedPayload v @ ''.'' @ vq_signature v \<and>
      assertOfflineQrPayload c (vq_payload v) = Inr () \<and>
      event_agrees expected (str_field (vq_payload v) ''eventId'') \<and>
      parse_date c (str_field (vq_payload v) ''validUntil'') = Some validUntil \<and> now c \<le> validUntil \<and>
      find_device (str_field (vq_payload v) ''issuerDeviceId'') s = Some issuer \<and>
      dv_eventId issuer = str_field (vq_payload v) ''eventId'' \<and>
      find_key (dv_id issuer) (int_field (vq_payload v) ''issuerKeyVersion'') s = Some key \<and>
      parse_date c (str_field (vq_payload v) ''issuedAt'') = Some issuedAt \<and>
      key_covers key issuedAt \<and> is_ed25519 c (ky_publicKey key) \<and>
      ed25519_verify c (ky_publicKey key) (vq_encodedPayload v) (from_base64url (vq_signature v)))"
  (is "?l \<longleftrightarrow> ?r")
proof
  assume ?l
  then have "parseSignedOfflineQr c q = Inr v" "assertOfflineQrPayload c (vq_payload v) = Inr ()"
    by (auto simp: verifySignedOfflineQr_def bindE_Inr_iff Let_def split: if_splits option.splits)
  moreover from this obtain t where "parse_date c (str_field (vq_payload v) ''issuedAt'') = Some t"
    by (auto simp: assertPayload_Inr)
  moreover have "q = vq_encodedPayload v @ ''.'' @ vq_signature v"
    using calculation(1) by (auto simp: parse_Inr)
  ultimately show ?r using \<open>?l\<close>
    by (auto simp: verifySignedOfflineQr_def assertEd25519PublicKey_def event_agrees_def truthy_def
          keyUsable_Inr bindE_Inr_iff Let_def split: if_splits option.splits)
next
  assume ?r
  then show ?l
    by (auto simp: verifySignedOfflineQr_def assertEd25519PublicKey_def event_agrees_def truthy_def
          bindE_Inr_iff keyUsable_Inr)
qed

text \<open>C4: An offline badge is accepted exactly when it is an encoded payload and a signature; the
  payload, normalised, has every required member; it names the expected event if one is expected;
  it has not expired; its issuer is a device of that very event; the issuer has a key of the named
  version that covers the moment of issue (not before the key, not after its rotation, before its
  revocation); and the Ed25519 signature over the encoded payload verifies under that key. The
  result carries the normalised payload and its hash.\<close>

theorem verifySignedOfflineQr_accepts:
  "verifySignedOfflineQr c q expected s = Inr v \<longleftrightarrow>
   (\<exists>issuer key issuedAt validUntil.
      parseSignedOfflineQr c q = Inr v \<and>
      q = vq_encodedPayload v @ ''.'' @ vq_signature v \<and>
      assertOfflineQrPayload c (vq_payload v) = Inr () \<and>
      event_agrees expected (str_field (vq_payload v) ''eventId'') \<and>
      parse_date c (str_field (vq_payload v) ''validUntil'') = Some validUntil \<and> now c \<le> validUntil \<and>
      find_device (str_field (vq_payload v) ''issuerDeviceId'') s = Some issuer \<and>
      dv_eventId issuer = str_field (vq_payload v) ''eventId'' \<and>
      find_key (dv_id issuer) (int_field (vq_payload v) ''issuerKeyVersion'') s = Some key \<and>
      parse_date c (str_field (vq_payload v) ''issuedAt'') = Some issuedAt \<and>
      key_covers key issuedAt \<and> is_ed25519 c (ky_publicKey key) \<and>
      ed25519_verify c (ky_publicKey key) (vq_encodedPayload v) (from_base64url (vq_signature v)))"
  by (rule verifyOffline_Inr)

section \<open>Badges of a trusted device\<close>

definition compact_badge :: "id \<Rightarrow> id \<Rightarrow> int \<Rightarrow> string \<Rightarrow> string \<Rightarrow> id \<Rightarrow> int \<Rightarrow> int \<Rightarrow> json" where
  "compact_badge e i kv opid tok at ia vu =
     JArr [JInt 2, JStr e, JStr i, JInt kv, JStr opid, JStr tok, JStr at, JInt ia, JInt vu]"

definition badge_text :: "json \<Rightarrow> string \<Rightarrow> string" where
  "badge_text b sig = encode_json b @ ''.'' @ to_base64url sig"

lemma compact_normal:
  assumes "list_all (\<lambda>t. \<not> blank t) [e, i, opid, tok, at]" and "1 \<le> kv" and "0 < ia" and "ia < vu"
    and "valid_time (ia * 1000)" and "valid_time (vu * 1000)"
  shows "normalizeOfflineQrPayload c (compact_badge e i kv opid tok at ia vu) =
    Inr (compact_fields c e i kv opid tok at ia vu)"
  using assms
  by (simp add: normalizeOfflineQrPayload_def compact_badge_def normalizeCompact_def nonblank_str_def
        int_of_json_def)

lemma compact_assert:
  assumes "list_all (\<lambda>t. \<not> blank t) [e, i, opid, tok, at]" and "date_law c"
    and "valid_time (ia * 1000)" and "valid_time (vu * 1000)"
  shows "assertOfflineQrPayload c (compact_fields c e i kv opid tok at ia vu) = Inr ()"
proof -
  have "\<not> blank ''OFFLINE_REGISTRATION''" by code_simp
  with assms show ?thesis
    by (simp add: assertPayload_Inr compact_fields_def obj_get_def offline_required_def field_ok_def
          str_of_def str_field_def date_law_def)
qed

lemma plain_badge: "plain_json (compact_badge e i kv opid tok at ia vu)"
  by (simp add: compact_badge_def)

lemma badge_parts:
  "plain_json b \<Longrightarrow> sig \<noteq> [] \<Longrightarrow>
   split_on CHR ''.'' (badge_text b sig) = [encode_json b, to_base64url sig]"
  by (simp add: badge_text_def split_on_two encode_json_def dot_not_in_base64url)

lemma badge_accepted:
  assumes dev: "find_device i s = Some d" "dv_id d = i" "dv_eventId d = e"
    and key: "find_key i kv s = Some key" "key_covers key (ia * 1000)" "is_ed25519 c (ky_publicKey key)"
    and sig: "sig \<noteq> []"
      "ed25519_verify c (ky_publicKey key) (encode_json (compact_badge e i kv opid tok at ia vu)) sig"
    and strs: "list_all (\<lambda>t. \<not> blank t) [e, i, opid, tok, at]" "1 \<le> kv"
    and dates: "date_law c" "0 < ia" "ia < vu" "valid_time (ia * 1000)" "valid_time (vu * 1000)"
    and unexpired: "now c \<le> vu * 1000"
  shows "\<exists>v. verifySignedOfflineQr c (badge_text (compact_badge e i kv opid tok at ia vu) sig) (Some e) s =
      Inr v \<and> vq_payload v = compact_fields c e i kv opid tok at ia vu"
proof -
  let ?b = "compact_badge e i kv opid tok at ia vu"
  let ?f = "compact_fields c e i kv opid tok at ia vu"
  let ?v = "\<lparr>vq_signedOfflineQr = badge_text ?b sig, vq_encodedPayload = encode_json ?b,
    vq_signature = to_base64url sig, vq_payload = ?f, vq_payloadHash = hashPayload c ?f\<rparr>"
  have parse: "parseSignedOfflineQr c (badge_text ?b sig) = Inr ?v"
    using compact_normal [OF strs(1,2) dates(2-5), of c] sig(1)
    by (simp add: parseSignedOfflineQr_def badge_parts plain_badge encode_json_ne decode_encode_json)
  have fields: "str_field ?f ''eventId'' = e" "str_field ?f ''issuerDeviceId'' = i"
    "int_field ?f ''issuerKeyVersion'' = kv"
    "parse_date c (str_field ?f ''issuedAt'') = Some (ia * 1000)"
    "parse_date c (str_field ?f ''validUntil'') = Some (vu * 1000)"
    using dates by (simp_all add: compact_fields_def str_field_def int_field_def obj_get_def str_of_def date_law_def)
  have "verifySignedOfflineQr c (badge_text ?b sig) (Some e) s = Inr ?v"
    unfolding verifySignedOfflineQr_def parse
    using compact_assert [OF strs(1) dates(1,4,5)] fields dev key sig unexpired
      keyUsable_Inr [OF fields(4), of key "()"]
    by (simp add: assertEd25519PublicKey_def from_to_base64url Let_def)
  then show ?thesis by auto
qed

text \<open>A compact badge that a device of the event has signed with a key that covers its moment of
  issue is accepted until it expires, in every later state in which the device and the key are
  still stored, and is read as the same event, device, operation, token and attendee type.\<close>

theorem trusted_badge_accepted:
  assumes dev: "find_device i s = Some d" "dv_id d = i" "dv_eventId d = e"
    and key: "find_key i kv s = Some key" "key_covers key (ia * 1000)" "is_ed25519 c (ky_publicKey key)"
    and sig: "sig \<noteq> []"
      "ed25519_verify c (ky_publicKey key) (encode_json (compact_badge e i kv opid tok at ia vu)) sig"
    and strs: "list_all (\<lambda>t. \<not> blank t) [e, i, opid, tok, at]" "1 \<le> kv"
    and dates: "date_law c" "0 < ia" "ia < vu" "valid_time (ia * 1000)" "valid_time (vu * 1000)"
    and unexpired: "now c \<le> vu * 1000"
  shows "\<exists>v. verifySignedOfflineQr c (badge_text (compact_badge e i kv opid tok at ia vu) sig) (Some e) s =
      Inr v \<and> vq_payload v = compact_fields c e i kv opid tok at ia vu"
  using assms by (rule badge_accepted)

definition sample_key :: offline_key where
  "sample_key = \<lparr>ky_id = ''k1'', ky_deviceId = ''d1'', ky_version = 1, ky_publicKey = ''PK'',
     ky_status = KEY_ACTIVE, ky_validFrom = 500, ky_validUntil = None, ky_revokedAt = None\<rparr>"

definition sample_store :: store where
  "sample_store = empty_store\<lparr>devices := [sample_device], offlineKeys := [sample_key]\<rparr>"

lemma sample_found:
  "find_device ''d1'' sample_store = Some sample_device"
  "find_key ''d1'' 1 sample_store = Some sample_key"
  by (simp_all add: sample_store_def find_defs lookup_by_def sample_device_def find_key_def is_key_def
        sample_key_def)

lemma trusted_badge_accepted_witness:
  "let b = compact_badge ''e1'' ''d1'' 1 ''op'' ''tok'' ''t1'' 1 2 in
   \<exists>v. verifySignedOfflineQr sample_env (badge_text b (''PK'' @ encode_json b)) (Some ''e1'') sample_store =
      Inr v \<and> vq_payload v = compact_fields sample_env ''e1'' ''d1'' 1 ''op'' ''tok'' ''t1'' 1 2"
  unfolding Let_def
proof (rule trusted_badge_accepted)
  show "find_device ''d1'' sample_store = Some sample_device" by (rule sample_found)
  show "find_key ''d1'' 1 sample_store = Some sample_key" by (rule sample_found)
  show "list_all (\<lambda>t. \<not> blank t) [''e1'', ''d1'', ''op'', ''tok'', ''t1'']" by code_simp
qed (simp_all add: sample_device_def sample_key_def key_covers_def sample_env_def valid_time_def
       sample_laws [unfolded sample_env_def])

section \<open>Rotation\<close>

definition keys_unique :: "store \<Rightarrow> bool" where
  "keys_unique s = distinct (map (\<lambda>k. (ky_deviceId k, ky_version k)) (offlineKeys s))"

lemma find_key_iff:
  assumes "keys_unique s"
  shows "find_key d v s = Some k \<longleftrightarrow> k \<in> set (offlineKeys s) \<and> is_key d v k"
proof
  assume "find_key d v s = Some k"
  then show "k \<in> set (offlineKeys s) \<and> is_key d v k" by (auto simp: find_key_def dest: find_row_Some)
next
  assume k: "k \<in> set (offlineKeys s) \<and> is_key d v k"
  have "is_key d v = (\<lambda>x. (ky_deviceId x, ky_version x) = (ky_deviceId k, ky_version k))"
    using k by (auto simp: is_key_def)
  with k show "find_key d v s = Some k"
    using assms find_row_unique [of "\<lambda>k. (ky_deviceId k, ky_version k)" "offlineKeys s" k]
    by (simp add: find_key_def keys_unique_def)
qed

lemma rotateKeys_unique [simp]: "keys_unique (rotateKeys c d v s) = keys_unique s"
  by (simp add: keys_unique_def rotateKeys_def map_update_rows)

text \<open>The keys the rotation retires, as they are afterwards.\<close>

definition retired :: "env \<Rightarrow> offline_key \<Rightarrow> offline_key" where
  "retired c k = k\<lparr>ky_status := KEY_ROTATED, ky_validUntil := Some (now c)\<rparr>"

lemma rotateKeys_set:
  "set (offlineKeys (rotateKeys c d v s)) =
   (\<lambda>k. if ky_deviceId k = d \<and> ky_status k = KEY_ACTIVE \<and> ky_version k \<noteq> v then retired c k else k) `
     set (offlineKeys s)"
  by (simp add: rotateKeys_def set_update_rows retired_def)

lemma upsertKey_run:
  assumes "keys_unique s" and "upsertKey c d v pub s = (r, t)"
  shows "\<exists>k. r = Inr k \<and> is_key d v k \<and> ky_status k = KEY_ACTIVE \<and> ky_publicKey k = pub \<and>
    ky_validUntil k = None \<and> keys_unique t \<and> devices t = devices s \<and>
    set (offlineKeys t) = insert k {x \<in> set (offlineKeys s). \<not> is_key d v x}"
proof (cases "find_key d v s")
  case None
  then have "\<forall>x \<in> set (offlineKeys s). \<not> is_key d v x" by (simp add: find_key_def find_row_None)
  then show ?thesis using None assms
    by (auto simp: upsertKey_def act_simps bindA_def new_id_def keys_unique_def is_key_def Let_def)
next
  case (Some k)
  then have k: "k \<in> set (offlineKeys s)" "is_key d v k"
    by (auto simp: find_key_def dest: find_row_SomeD1 find_row_SomeD2)
  let ?f = "\<lambda>k. k\<lparr>ky_publicKey := pub, ky_status := KEY_ACTIVE, ky_validUntil := None, ky_revokedAt := None\<rparr>"
  have u: "x = k" if "x \<in> set (offlineKeys s)" "is_key d v x" for x
    using that k find_key_iff [OF assms(1)] by (metis option.inject)
  have t: "r = Inr (?f k)" "t = s\<lparr>offlineKeys := update_rows (is_key d v) ?f (offlineKeys s)\<rparr>"
    using Some assms(2) by (simp_all add: upsertKey_def act_simps Let_def)
  have "set (offlineKeys t) = insert (?f k) {x \<in> set (offlineKeys s). \<not> is_key d v x}"
    unfolding t(2) using k by (auto simp: set_update_rows image_iff dest: u)
  moreover have "keys_unique t" using assms(1) by (simp add: t(2) keys_unique_def map_update_rows)
  moreover have "is_key d v (?f k)" using k by (simp add: is_key_def)
  ultimately show ?thesis using t by simp
qed

lemma provision_run:
  assumes "keys_unique s" and "provisionDevicePublicKey c d pub v rot s = (Inr k, t)"
  shows "is_ed25519 c pub \<and> is_key d v k \<and> ky_status k = KEY_ACTIVE \<and> ky_publicKey k = pub \<and>
    ky_validUntil k = None \<and> keys_unique t \<and> devices t = devices s \<and>
    set (offlineKeys t) = insert k {x \<in> set (offlineKeys (if rot then rotateKeys c d v s else s)).
      \<not> is_key d v x}"
proof -
  let ?s = "if rot then rotateKeys c d v s else s"
  from assms(2) obtain dev where "find_device d s = Some dev" and pk: "is_ed25519 c pub"
    by (auto simp: provisionDevicePublicKey_def act_simps assertEd25519PublicKey_def guard_def
          split: option.splits if_splits)
  with assms(2) obtain u where u: "upsertKey c d v pub ?s = (Inr k, u)" "offlineKeys t = offlineKeys u"
      "devices t = devices u"
    by (auto simp: provisionDevicePublicKey_def act_simps assertEd25519PublicKey_def transaction_def
          elim!: bindA_InrE split: prod.splits sum.splits if_splits)
  have "keys_unique ?s" "devices ?s = devices s" using assms(1) by simp_all (simp add: rotateKeys_def)
  with upsertKey_run [OF _ u(1)] u pk show ?thesis by (auto simp: keys_unique_def)
qed

text \<open>Provisioning a key with rotation leaves the device with exactly one \<open>ACTIVE\<close> key, the one
  given; no key of another device changes; every key the device had in another version is still
  stored, \<open>ROTATED\<close> and closed at that moment if it was \<open>ACTIVE\<close>, unchanged otherwise; and (device,
  version) stays unique.\<close>

theorem rotation_single_active:
  assumes "keys_unique s" and "provisionDevicePublicKey c d pub v True s = (Inr k, t)"
  shows "{x \<in> set (offlineKeys t). ky_deviceId x = d \<and> ky_status x = KEY_ACTIVE} = {k} \<and>
    ky_version k = v \<and> ky_publicKey k = pub \<and>
    {x \<in> set (offlineKeys t). ky_deviceId x \<noteq> d} = {x \<in> set (offlineKeys s). ky_deviceId x \<noteq> d} \<and>
    {x \<in> set (offlineKeys t). ky_deviceId x = d \<and> ky_version x \<noteq> v} =
      (\<lambda>x. if ky_status x = KEY_ACTIVE then retired c x else x) `
        {x \<in> set (offlineKeys s). ky_deviceId x = d \<and> ky_version x \<noteq> v} \<and>
    keys_unique t"
proof -
  note r = provision_run [OF assms]
  have "retired c x \<noteq> k" "ky_status (retired c x) = KEY_ROTATED" "ky_deviceId (retired c x) = ky_deviceId x"
    "ky_version (retired c x) = ky_version x" for x
    using r by (auto simp: retired_def)
  with r show ?thesis by (auto simp: rotateKeys_set is_key_def image_iff)
qed

lemma rotation_single_active_witness:
  "\<exists>k t. provisionDevicePublicKey sample_env ''d1'' ''PK2'' 2 True sample_store = (Inr k, t) \<and>
    {x \<in> set (offlineKeys t). ky_deviceId x = ''d1'' \<and> ky_status x = KEY_ACTIVE} = {k}"
proof -
  have "keys_unique sample_store" by (simp add: keys_unique_def sample_store_def)
  moreover have "\<exists>k t. provisionDevicePublicKey sample_env ''d1'' ''PK2'' 2 True sample_store = (Inr k, t)"
    by (rule run_Inr) code_simp
  ultimately show ?thesis using rotation_single_active by blast
qed

text \<open>Rotation takes effect on badges: once a device's key has been replaced, a badge that names
  any version that was \<open>ACTIVE\<close> before is accepted only if it was issued up to the rotation, whoever
  presents it and whenever, as long as the keys are not provisioned again.\<close>

theorem rotated_key_signs_no_more:
  assumes "keys_unique s" and "provisionDevicePublicKey c d pub v True s = (Inr k, t)"
    and "old \<in> set (offlineKeys s)" and "is_key d w old" and "ky_status old = KEY_ACTIVE" and "w \<noteq> v"
    and "verifySignedOfflineQr c' q ex t = Inr p"
    and "str_field (vq_payload p) ''issuerDeviceId'' = d"
    and "int_field (vq_payload p) ''issuerKeyVersion'' = w"
  shows "\<exists>issuedAt. parse_date c' (str_field (vq_payload p) ''issuedAt'') = Some issuedAt \<and>
    issuedAt \<le> now c"
proof -
  have "retired c old \<in> set (offlineKeys t)" "is_key d w (retired c old)" "keys_unique t"
    using provision_run [OF assms(1,2)] assms(3-6) by (auto simp: rotateKeys_set is_key_def retired_def)
  then have key: "find_key d w t = Some (retired c old)" by (simp add: find_key_iff)
  have "dv_id i = d" if "find_device d t = Some i" for i
    using that by (auto simp: find_device_def dest: lookup_by_Some)
  with assms(7-9) key obtain ia where "parse_date c' (str_field (vq_payload p) ''issuedAt'') = Some ia"
    "key_covers (retired c old) ia"
    by (auto simp: verifyOffline_Inr)
  then show ?thesis by (auto simp: key_covers_def retired_def)
qed

definition sample_rotation :: store where
  "sample_rotation = snd (provisionDevicePublicKey sample_env ''d1'' ''PK2'' 2 True sample_store)"

definition sample_badge :: string where
  "sample_badge = (let b = compact_badge ''e1'' ''d1'' 1 ''o'' ''t'' ''a'' 1 2
     in badge_text b (''PK'' @ encode_json b))"

lemma sample_rotation_found:
  "find_device ''d1'' sample_rotation = Some sample_device"
  "find_key ''d1'' 1 sample_rotation = Some (retired sample_env sample_key)"
  unfolding retired_def by code_simp+

lemma sample_badge_checked:
  "\<exists>p. verifySignedOfflineQr sample_env sample_badge (Some ''e1'') sample_rotation = Inr p \<and>
    vq_payload p = compact_fields sample_env ''e1'' ''d1'' 1 ''o'' ''t'' ''a'' 1 2"
  unfolding sample_badge_def Let_def
proof (rule badge_accepted)
  show "find_device ''d1'' sample_rotation = Some sample_device"
    "find_key ''d1'' 1 sample_rotation = Some (retired sample_env sample_key)"
    by (rule sample_rotation_found)+
  show "list_all (\<lambda>t. \<not> blank t) [''e1'', ''d1'', ''o'', ''t'', ''a'']" by code_simp
qed (simp_all add: sample_device_def sample_key_def key_covers_def sample_env_def valid_time_def
       retired_def sample_laws [unfolded sample_env_def])

lemma rotated_key_signs_no_more_witness:
  "\<exists>p issuedAt. verifySignedOfflineQr sample_env sample_badge (Some ''e1'') sample_rotation = Inr p \<and>
    parse_date sample_env (str_field (vq_payload p) ''issuedAt'') = Some issuedAt \<and> issuedAt \<le> 1000"
proof -
  obtain p where p: "verifySignedOfflineQr sample_env sample_badge (Some ''e1'') sample_rotation = Inr p"
      "str_field (vq_payload p) ''issuerDeviceId'' = ''d1''"
      "int_field (vq_payload p) ''issuerKeyVersion'' = 1"
    using sample_badge_checked
    by (auto simp: compact_fields_def str_field_def int_field_def obj_get_def str_of_def)
  have "is_Inr (fst (provisionDevicePublicKey sample_env ''d1'' ''PK2'' 2 True sample_store))" by code_simp
  then obtain k where k: "provisionDevicePublicKey sample_env ''d1'' ''PK2'' 2 True sample_store =
      (Inr k, sample_rotation)"
    using run_Inr by (fastforce simp: sample_rotation_def)
  have "keys_unique sample_store" by (simp add: keys_unique_def sample_store_def)
  from rotated_key_signs_no_more [OF this k, of sample_key 1] p show ?thesis
    by (force simp: sample_store_def sample_key_def is_key_def sample_env_def)
qed

end
