(* ===== verification/QrService.thy ===== *)
theory QrService
  imports Sample
begin

text \<open>
  \<open>src/modules/qr/qr.service.ts\<close>: one QR token per registration. \<open>generate\<close> creates the row,
  returns it while it is \<open>ACTIVE\<close>, and refreshes a revoked or expired row in place with a new
  token id; \<open>validate\<close> resolves a scanned token through its token id; \<open>revoke\<close> ends it. The two
  race branches of \<open>createOrRefreshQrToken\<close> are kept: it takes the row that was read before as
  an argument, so its lemmas hold when that row is stale.
\<close>

section \<open>Operations\<close>

record qr_response =
  fr_qrToken :: string
  fr_compactQrToken :: string
  fr_signedQrToken :: string
  fr_payload :: json
  fr_validFrom :: time
  fr_validUntil :: time
  fr_status :: qr_status
  fr_revokedAt :: "time option"
  fr_generatedAt :: time

datatype validation =
    Invalid string "(string \<times> json) list option"
  | Valid registration event_row attendee_type "(string \<times> json) list"

definition formatQrToken :: "env \<Rightarrow> qr_token \<Rightarrow> qr_response res" where
  "formatQrToken c q =
    bindE (createCompactQrToken (hmac_sha256 c) (qr_tokenId q) (qr_secret c)) (\<lambda>compactQrToken.
      Inr \<lparr>fr_qrToken = compactQrToken, fr_compactQrToken = compactQrToken,
           fr_signedQrToken = createSignedQrToken (hmac_sha256 c) (qr_payload q) (qr_secret c),
           fr_payload = qr_payload q, fr_validFrom = qr_validFrom q, fr_validUntil = qr_validUntil q,
           fr_status = qr_status q, fr_revokedAt = qr_revokedAt q, fr_generatedAt = qr_generatedAt q\<rparr>)"

text \<open>A registration with its event and attendee type, which foreign keys make present.\<close>

definition findRegistrationWithRelations ::
    "id \<Rightarrow> store \<Rightarrow> (registration \<times> event_row \<times> attendee_type) res" where
  "findRegistrationWithRelations registrationId s =
    (case find_registration registrationId s of
       None \<Rightarrow> Inl (NotFound ''Registration not found'')
     | Some r \<Rightarrow>
         (case (find_event (rg_eventId r) s, find_attendee_type (rg_attendeeTypeId r) s) of
            (Some e, Some a) \<Rightarrow> Inr (r, e, a)
          | _ \<Rightarrow> Inl (OtherError ''Inconsistent query result'')))"

fun generateTokenId_loop :: "nat \<Rightarrow> env \<Rightarrow> (store, string) act" where
  "generateTokenId_loop 0 c = throw (BadRequest ''Could not generate unique QR token ID'')"
| "generateTokenId_loop (Suc attempts) c =
    bindA (draw (random_hex c)) (\<lambda>h.
    let tokenId = ''QRT_'' @ h in
    bindA (gets (find_qr_by_token tokenId)) (\<lambda>found.
    if found = None then ret tokenId else generateTokenId_loop attempts c))"

definition generateTokenId :: "env \<Rightarrow> (store, string) act" where
  "generateTokenId c = generateTokenId_loop 5 c"

definition find_active_qr :: "id \<Rightarrow> store \<Rightarrow> qr_token option" where
  "find_active_qr registrationId s =
     find_row (\<lambda>q. qr_registrationId q = registrationId \<and> qr_status q = QR_ACTIVE) (qrTokens s)"

text \<open>\<open>prisma.qrToken.create\<close> with the unique columns of the model.\<close>

definition create_qr_row :: "env \<Rightarrow> id \<Rightarrow> id \<Rightarrow> string \<Rightarrow> json \<Rightarrow> string \<Rightarrow> time \<Rightarrow> time \<Rightarrow>
    (store, qr_token) act" where
  "create_qr_row c registrationId eventId tokenId payload signature validFrom validUntil =
    bindA (new_id c) (\<lambda>i.
    let q = \<lparr>qr_id = i, qr_registrationId = registrationId, qr_eventId = eventId,
             qr_tokenId = tokenId, qr_payload = payload, qr_signature = signature,
             qr_status = QR_ACTIVE, qr_validFrom = validFrom, qr_validUntil = validUntil,
             qr_generatedAt = now c, qr_revokedAt = None, qr_updatedAt = now c\<rparr> in
    bindA (gets (\<lambda>s. exists_row
             (\<lambda>x. qr_registrationId x = registrationId \<or> qr_tokenId x = tokenId) (qrTokens s)))
      (\<lambda>taken. if taken then throw UniqueViolation
               else bindA (modify (\<lambda>s. s\<lparr>qrTokens := append_row q (qrTokens s)\<rparr>)) (\<lambda>_. ret q)))"

definition createOrRefreshQrToken :: "env \<Rightarrow> id \<Rightarrow> id \<Rightarrow> string \<Rightarrow> json \<Rightarrow> string \<Rightarrow> time \<Rightarrow> time \<Rightarrow>
    qr_token option \<Rightarrow> (store, qr_token) act" where
  "createOrRefreshQrToken c registrationId eventId tokenId payload signature validFrom validUntil
     existingQrToken =
    (case existingQrToken of
       Some ex \<Rightarrow>
         (let matches = (\<lambda>q. qr_id q = qr_id ex \<and> qr_tokenId q = qr_tokenId ex \<and>
                             qr_status q = qr_status ex) in
          bindA (gets (\<lambda>s. count_rows matches (qrTokens s))) (\<lambda>count.
          bindA (modify (\<lambda>s. s\<lparr>qrTokens := update_rows matches
              (\<lambda>q. q\<lparr>qr_eventId := eventId, qr_tokenId := tokenId, qr_payload := payload,
                     qr_signature := signature, qr_validFrom := validFrom,
                     qr_validUntil := validUntil, qr_status := QR_ACTIVE, qr_revokedAt := None,
                     qr_generatedAt := now c, qr_updatedAt := now c\<rparr>) (qrTokens s)\<rparr>)) (\<lambda>_.
          if count = 1 then
            bindA (gets (find_qr_by_registration registrationId)) (\<lambda>refreshed. case refreshed of
              None \<Rightarrow> throw (NotFound ''QR token was not found after refresh'')
            | Some q \<Rightarrow> ret q)
          else
            bindA (gets (find_active_qr registrationId)) (\<lambda>active. case active of
              Some q \<Rightarrow> ret q
            | None \<Rightarrow> throw (BadRequest ''Could not refresh QR token'')))))
     | None \<Rightarrow>
         catch (create_qr_row c registrationId eventId tokenId payload signature validFrom validUntil)
           (\<lambda>error. if error \<noteq> UniqueViolation then throw error
              else bindA (gets (find_active_qr registrationId)) (\<lambda>active. case active of
                Some q \<Rightarrow> ret q
              | None \<Rightarrow> throw error)))"

definition new_payload :: "env \<Rightarrow> string \<Rightarrow> string \<Rightarrow> registration \<Rightarrow> attendee_type \<Rightarrow> time \<Rightarrow> time \<Rightarrow>
    qr_payload" where
  "new_payload c tokenId nonce r a validFrom validUntil =
    \<lparr>pl_tokenId = tokenId, pl_eventId = rg_eventId r, pl_registrationId = rg_id r,
     pl_registrationPublicId = rg_publicId r, pl_attendeeTypeId = rg_attendeeTypeId r,
     pl_attendeeTypeCode = at_code a, pl_issuedAt = iso_date c (now c),
     pl_validFrom = iso_date c validFrom, pl_validUntil = iso_date c validUntil, pl_nonce = nonce\<rparr>"

text \<open>The validity period and the rest of \<open>generate\<close> once there is no \<open>ACTIVE\<close> row.\<close>

definition valid_window :: "event_row \<Rightarrow> time \<times> time" where
  "valid_window e =
    (case ev_qrValidFrom e of Some t \<Rightarrow> t | None \<Rightarrow> ev_startsAt e,
     case ev_qrValidUntil e of Some t \<Rightarrow> t | None \<Rightarrow> ev_endsAt e)"

definition issueQrToken :: "env \<Rightarrow> registration \<Rightarrow> event_row \<Rightarrow> attendee_type \<Rightarrow> qr_token option \<Rightarrow>
    (store, qr_response) act" where
  "issueQrToken c r e a existing =
    (let validFrom = fst (valid_window e); validUntil = snd (valid_window e) in
     bindA (generateTokenId c) (\<lambda>tokenId.
     bindA (draw (random_nonce c)) (\<lambda>nonce.
     let payload = JObj (payload_fields (new_payload c tokenId nonce r a validFrom validUntil));
         qrToken = createSignedQrToken (hmac_sha256 c) payload (qr_secret c);
         signature = split_on CHR ''.'' qrToken ! 1 in
     bindA (createOrRefreshQrToken c (rg_id r) (rg_eventId r) tokenId payload signature
              validFrom validUntil existing) (\<lambda>stored.
     reads (\<lambda>s. formatQrToken c stored)))))"

definition generate :: "env \<Rightarrow> id \<Rightarrow> (store, qr_response) act" where
  "generate c registrationId =
    bindA (reads (findRegistrationWithRelations registrationId)) (\<lambda>(r, e, a).
    bindA (reads (\<lambda>s. guard (ev_status e \<noteq> EV_ARCHIVED)
      (BadRequest ''Archived events cannot be modified''))) (\<lambda>_.
    bindA (gets (find_qr_by_registration registrationId)) (\<lambda>existing.
    if (case existing of None \<Rightarrow> False | Some q \<Rightarrow> qr_status q = QR_ACTIVE)
    then reads (\<lambda>s. formatQrToken c (the existing))
    else issueQrToken c r e a existing)))"

definition findByRegistration :: "env \<Rightarrow> id \<Rightarrow> store \<Rightarrow> qr_response res" where
  "findByRegistration c registrationId s =
    bindE (findRegistrationWithRelations registrationId s) (\<lambda>_.
    case find_qr_by_registration registrationId s of
      None \<Rightarrow> Inl (NotFound ''QR token not found'')
    | Some q \<Rightarrow> formatQrToken c q)"

definition createCompactTokenForOffline :: "env \<Rightarrow> string \<Rightarrow> string res" where
  "createCompactTokenForOffline c tokenId =
    (if trim tokenId = [] then Inl (BadRequest ''QR token ID is required'')
     else createCompactQrToken (hmac_sha256 c) (trim tokenId) (qr_secret c))"

definition createSignedTokenForOfflineSnapshot :: "env \<Rightarrow> json \<Rightarrow> string \<Rightarrow> string res" where
  "createSignedTokenForOfflineSnapshot c payloadValue expectedTokenId =
    (case as_record payloadValue of
       None \<Rightarrow> Inl (BadRequest ''Stored QR payload is invalid'')
     | Some payload \<Rightarrow>
         if list_ex (\<lambda>key. \<not> field_ok payload key) requiredFields
         then Inl (BadRequest ''Stored QR payload is incomplete'')
         else if obj_get payload ''tokenId'' \<noteq> Some (JStr expectedTokenId)
         then Inl (BadRequest ''Stored QR token ID mismatch'')
         else Inr (createSignedQrToken (hmac_sha256 c) payloadValue (qr_secret c)))"

definition isFullPayload :: "(string \<times> json) list \<Rightarrow> bool" where
  "isFullPayload payload = (obj_get payload ''eventId'' \<noteq> None \<and> obj_get payload ''registrationId'' \<noteq> None)"

text \<open>The payload a token carries: the signed object, or the token id alone.\<close>

definition read_token :: "env \<Rightarrow> string \<Rightarrow> (string \<times> json) list res" where
  "read_token c qrToken =
    (case verifySignedQrToken (hmac_sha256 c) qrToken (qr_secret c) of
       Inr payload \<Rightarrow> Inr payload
     | Inl _ \<Rightarrow> bindE (verifyCompactQrToken (hmac_sha256 c) qrToken (qr_secret c))
                  (\<lambda>t. Inr [(''tokenId'', JStr t)]))"

definition token_id :: "(string \<times> json) list \<Rightarrow> string" where
  "token_id payload = (case str_of (obj_get payload ''tokenId'') of Some t \<Rightarrow> t | None \<Rightarrow> [])"

definition payloadMismatch :: "(string \<times> json) list \<Rightarrow> qr_token \<Rightarrow> registration \<Rightarrow> bool" where
  "payloadMismatch payload q r = (isFullPayload payload \<and>
     (obj_get payload ''eventId'' \<noteq> Some (JStr (qr_eventId q)) \<or>
      obj_get payload ''registrationId'' \<noteq> Some (JStr (qr_registrationId q)) \<or>
      obj_get payload ''registrationPublicId'' \<noteq> Some (JStr (rg_publicId r))))"

definition validate :: "env \<Rightarrow> string \<Rightarrow> store \<Rightarrow> validation res" where
  "validate c qrToken s =
    (case read_token c qrToken of
       Inl _ \<Rightarrow> Inr (Invalid ''INVALID_SIGNATURE'' None)
     | Inr payload \<Rightarrow>
         (case find_qr_by_token (token_id payload) s of
            None \<Rightarrow> Inr (Invalid ''TOKEN_NOT_FOUND'' (Some payload))
          | Some q \<Rightarrow>
              bindE (findRegistrationWithRelations (qr_registrationId q) s) (\<lambda>(r, _, a).
              case find_event (qr_eventId q) s of
                None \<Rightarrow> Inl (OtherError ''Inconsistent query result'')
              | Some e \<Rightarrow> Inr (
                  if payloadMismatch payload q r then Invalid ''EVENT_MISMATCH'' (Some payload)
                  else if qr_status q = QR_REVOKED then Invalid ''TOKEN_REVOKED'' (Some payload)
                  else if qr_status q = QR_EXPIRED \<or> now c < qr_validFrom q \<or> qr_validUntil q < now c
                  then Invalid ''TOKEN_EXPIRED'' (Some payload)
                  else if rg_status r \<noteq> REG_ACTIVE
                  then Invalid ''REGISTRATION_INACTIVE'' (Some payload)
                  else Valid r e a payload))))"

definition revoke :: "env \<Rightarrow> id \<Rightarrow> (store, qr_response) act" where
  "revoke c registrationId =
    bindA (reads (findRegistrationWithRelations registrationId)) (\<lambda>(r, e, a).
    bindA (reads (\<lambda>s. guard (ev_status e \<noteq> EV_ARCHIVED)
      (BadRequest ''Archived events cannot be modified''))) (\<lambda>_.
    bindA (gets (find_qr_by_registration registrationId)) (\<lambda>found. case found of
      None \<Rightarrow> throw (NotFound ''QR token not found'')
    | Some q \<Rightarrow>
        (let q' = q\<lparr>qr_status := QR_REVOKED, qr_revokedAt := Some (now c), qr_updatedAt := now c\<rparr> in
         bindA (modify (\<lambda>s. s\<lparr>qrTokens := update_by qr_registrationId registrationId
             (\<lambda>q. q\<lparr>qr_status := QR_REVOKED, qr_revokedAt := Some (now c), qr_updatedAt := now c\<rparr>) (qrTokens s)\<rparr>)) (\<lambda>_.
         reads (\<lambda>s. formatQrToken c q'))))))"

section \<open>Well-formed token rows\<close>

text \<open>
  What the schema and the services keep of the token table: registration, token id and row id are
  unique, and each row's payload is the one made for it: it names the row's token id, its
  registration, that registration's public id and its event, which is the row's event.
\<close>

definition payload_of :: "store \<Rightarrow> qr_token \<Rightarrow> qr_payload \<Rightarrow> bool" where
  "payload_of s q p = (qr_payload q = JObj (payload_fields p) \<and> payload_nonblank p \<and>
     pl_tokenId p = qr_tokenId q \<and> pl_eventId p = qr_eventId q \<and>
     pl_registrationId p = qr_registrationId q \<and>
     (case find_registration (qr_registrationId q) s of
        None \<Rightarrow> False
      | Some r \<Rightarrow> rg_publicId r = pl_registrationPublicId p \<and> rg_eventId r = qr_eventId q))"

definition qr_row_ok :: "store \<Rightarrow> qr_token \<Rightarrow> bool" where
  "qr_row_ok s q = (id_text (qr_tokenId q) \<and> length (qr_tokenId q) \<le> 128 \<and> (\<exists>p. payload_of s q p))"

definition qr_wf :: "store \<Rightarrow> bool" where
  "qr_wf s = (distinct (map qr_registrationId (qrTokens s)) \<and>
     distinct (map qr_tokenId (qrTokens s)) \<and> distinct (map qr_id (qrTokens s)) \<and>
     (\<forall>q \<in> set (qrTokens s). qr_row_ok s q))"

text \<open>
  What \<open>generate\<close> relies on: ids, public ids and type codes are not blank and event dates are
  valid (the columns are required), the random texts are what Node gives, the clock is valid.
\<close>

definition refs_ok :: "store \<Rightarrow> bool" where
  "refs_ok s = ((\<forall>r \<in> set (registrations s). list_all (\<lambda>x. \<not> blank x)
       [rg_id r, rg_publicId r, rg_eventId r, rg_attendeeTypeId r]) \<and>
     (\<forall>a \<in> set (attendeeTypes s). \<not> blank (at_code a)) \<and>
     (\<forall>e \<in> set (events s). valid_time (ev_startsAt e) \<and> valid_time (ev_endsAt e) \<and>
        (case ev_qrValidFrom e of None \<Rightarrow> True | Some t \<Rightarrow> valid_time t) \<and>
        (case ev_qrValidUntil e of None \<Rightarrow> True | Some t \<Rightarrow> valid_time t)))"

definition qr_env :: "env \<Rightarrow> bool" where
  "qr_env c = (mac_law c \<and> date_law c \<and> valid_time (now c) \<and> id_law c \<and>
     (\<forall>n. id_text (random_hex c n) \<and> length (random_hex c n) = 16) \<and>
     (\<forall>n. \<not> blank (random_nonce c n)))"

text \<open>The ids handed out so far are those below the counter.\<close>

definition qr_ids_ok :: "env \<Rightarrow> store \<Rightarrow> bool" where
  "qr_ids_ok c s = (\<forall>q \<in> set (qrTokens s). \<exists>n < next_id s. qr_id q = cuid c n)"

text \<open>Everything but the token table and the generators.\<close>

definition base :: "store \<Rightarrow> store" where
  "base s = s\<lparr>qrTokens := [], next_id := 0, next_rand := 0\<rparr>"

text \<open>The rows of the other registrations.\<close>

definition others :: "id \<Rightarrow> store \<Rightarrow> qr_token list" where
  "others rid s = filter (\<lambda>q. qr_registrationId q \<noteq> rid) (qrTokens s)"

lemma others_update:
  assumes "\<And>q. qr_registrationId (f q) = qr_registrationId q"
  shows "others rid (s\<lparr>qrTokens := update_by qr_registrationId rid f (qrTokens s)\<rparr>) = others rid s"
proof -
  have "filter (\<lambda>q. qr_registrationId q \<noteq> rid) (update_by qr_registrationId rid f rows) =
      filter (\<lambda>q. qr_registrationId q \<noteq> rid) rows" for rows
    using assms by (induction rows) (auto simp: update_by_def update_rows_def)
  then show ?thesis by (simp add: others_def)
qed

lemma others_generators [simp]: "others rid (s\<lparr>next_rand := m\<rparr>) = others rid s"
  "others rid (s\<lparr>next_id := n\<rparr>) = others rid s"
  by (simp_all add: others_def)

lemma base_tables:
  "base t = base s \<Longrightarrow> registrations t = registrations s"
  "base t = base s \<Longrightarrow> events t = events s"
  "base t = base s \<Longrightarrow> attendeeTypes t = attendeeTypes s"
  by (metis base_def store.ext_inject store.surjective store.update_convs)+

lemma base_finds:
  assumes "base t = base s"
  shows "find_registration i t = find_registration i s" "find_event i t = find_event i s"
    "find_attendee_type i t = find_attendee_type i s"
    "findRegistrationWithRelations i t = findRegistrationWithRelations i s"
  using base_tables [OF assms]
  by (simp_all add: find_registration_def find_event_def find_attendee_type_def
        findRegistrationWithRelations_def cong: option.case_cong)

lemma base_payload_of: "base t = base s \<Longrightarrow> payload_of t = payload_of s"
  using base_finds(1) [of t s] by (simp add: payload_of_def fun_eq_iff)

lemma base_row_ok:
  assumes "base t = base s"
  shows "qr_row_ok t = qr_row_ok s"
  using base_payload_of [OF assms] by (intro ext) (simp only: qr_row_ok_def)

lemma base_refs_ok: "base t = base s \<Longrightarrow> refs_ok t = refs_ok s"
  using base_tables [of t s] by (simp add: refs_ok_def)

section \<open>Steps of generate\<close>

lemma distinct_update_fresh:
  assumes "distinct (map key rows)" and "distinct (map key2 rows)" and "v \<notin> key2 ` set rows"
    and "\<And>r. key2 (f r) = v"
  shows "distinct (map key2 (update_by key k f rows))"
  using assms(1-3)
proof (induction rows)
  case (Cons r rows)
  have tail: "update_by key k f rows = rows" if "key r = k"
  proof -
    have "key x \<noteq> k" if "x \<in> set rows" for x
      using Cons.prems(1) that \<open>key r = k\<close> by (metis distinct.simps(2) image_eqI list.map(2) list.set_map)
    then show ?thesis by (simp add: update_by_def update_rows_def map_idI)
  qed
  show ?case
  proof (cases "key r = k")
    case True
    then show ?thesis using Cons tail assms(4) by (simp add: update_by_def update_rows_def)
  next
    case False
    have "key2 r \<notin> key2 ` set (update_by key k f rows)"
      using Cons.prems assms(4) by (auto simp: set_update_by)
    moreover have "distinct (map key2 (update_by key k f rows))" using Cons by simp
    moreover have "update_by key k f (r # rows) = r # update_by key k f rows"
      using False by (simp add: update_by_def update_rows_def)
    ultimately show ?thesis by simp
  qed
qed (simp add: update_by_def update_rows_def)

lemma count_unique:
  "distinct (map key rows) \<Longrightarrow> r \<in> set rows \<Longrightarrow> count_rows (\<lambda>x. key x = key r) rows = 1"
proof (induction rows)
  case (Cons x rows)
  then show ?case by (auto simp: count_rows_def filter_empty_conv rev_image_eqI)
qed simp

lemma generateTokenId_run:
  "generateTokenId_loop n c s = (Inr tid, t) \<Longrightarrow>
   \<exists>k m. tid = ''QRT_'' @ random_hex c k \<and> find_qr_by_token tid s = None \<and> t = s\<lparr>next_rand := m\<rparr>"
proof (induction n arbitrary: s)
  case 0
  then show ?case by (simp add: act_simps)
next
  case (Suc n)
  let ?u = "s\<lparr>next_rand := Suc (next_rand s)\<rparr>" and ?i = "''QRT_'' @ random_hex c (next_rand s)"
  have same: "find_qr_by_token i ?u = find_qr_by_token i s" for i by (simp add: find_qr_by_token_def)
  have step: "generateTokenId_loop (Suc n) c s =
      (if find_qr_by_token ?i s = None then ret ?i ?u else generateTokenId_loop n c ?u)"
    using same by (simp add: act_simps bindA_def draw_def Let_def)
  show ?case
  proof (cases "find_qr_by_token ?i s = None")
    case True
    then show ?thesis using Suc.prems [unfolded step] by (auto simp: ret_def)
  next
    case False
    then have "generateTokenId_loop n c ?u = (Inr tid, t)"
      using Suc.prems [unfolded step] by (simp only: if_False)
    from Suc.IH [OF this] show ?thesis by (auto simp: find_qr_by_token_def)
  qed
qed

definition refreshed :: "env \<Rightarrow> id \<Rightarrow> string \<Rightarrow> json \<Rightarrow> string \<Rightarrow> time \<Rightarrow> time \<Rightarrow> qr_token \<Rightarrow> qr_token" where
  "refreshed c eventId tokenId payload signature validFrom validUntil q =
     q\<lparr>qr_eventId := eventId, qr_tokenId := tokenId, qr_payload := payload,
       qr_signature := signature, qr_validFrom := validFrom, qr_validUntil := validUntil,
       qr_status := QR_ACTIVE, qr_revokedAt := None, qr_generatedAt := now c,
       qr_updatedAt := now c\<rparr>"

lemma refresh_run:
  assumes wf: "qr_wf s" and ex: "find_qr_by_registration rid s = Some ex"
  shows "createOrRefreshQrToken c rid e tid pl sg vf vu (Some ex) s =
    (Inr (refreshed c e tid pl sg vf vu ex),
     s\<lparr>qrTokens := update_by qr_registrationId rid (refreshed c e tid pl sg vf vu) (qrTokens s)\<rparr>)"
proof -
  let ?m = "\<lambda>q. qr_id q = qr_id ex \<and> qr_tokenId q = qr_tokenId ex \<and> qr_status q = qr_status ex"
  let ?f = "refreshed c e tid pl sg vf vu"
  have reg: "distinct (map qr_registrationId (qrTokens s))" and ids: "distinct (map qr_id (qrTokens s))"
    using wf by (auto simp: qr_wf_def)
  have "ex \<in> set (qrTokens s)" "qr_registrationId ex = rid"
    using ex by (auto simp: find_qr_by_registration_def dest: lookup_by_Some)
  with reg ids have m: "q \<in> set (qrTokens s) \<Longrightarrow> ?m q \<longleftrightarrow> qr_registrationId q = rid" for q
    using distinct_key_inj [OF reg, of q ex] distinct_key_inj [OF ids, of q ex] by auto
  have "count_rows ?m (qrTokens s) = count_rows (\<lambda>q. qr_registrationId q = rid) (qrTokens s)"
    using m by (auto simp: count_rows_def intro!: arg_cong [where f = length] filter_cong)
  moreover have "\<dots> = 1"
    using count_unique [OF reg] \<open>ex \<in> set (qrTokens s)\<close> \<open>qr_registrationId ex = rid\<close> by blast
  moreover have "update_rows ?m ?f (qrTokens s) = update_by qr_registrationId rid ?f (qrTokens s)"
    using m by (auto simp: update_by_def update_rows_def)
  moreover have "lookup_by qr_registrationId rid (update_by qr_registrationId rid ?f (qrTokens s)) = Some (?f ex)"
    using ex by (intro rows.lookup_updated) (simp_all add: refreshed_def find_qr_by_registration_def)
  ultimately show ?thesis
    by (simp add: createOrRefreshQrToken_def Let_def act_simps find_qr_by_registration_def
          refreshed_def [abs_def])
qed

lemma payload_nonblank_new:
  assumes "qr_env c" and "refs_ok s" and "r \<in> set (registrations s)" and "a \<in> set (attendeeTypes s)"
    and "\<not> blank tid" and "\<not> blank nonce" and "valid_time vf" and "valid_time vu"
  shows "payload_nonblank (new_payload c tid nonce r a vf vu)"
  using assms
  by (simp add: payload_nonblank_def requiredFields_def field_ok_def obj_get_def payload_fields_def
        str_of_def new_payload_def refs_ok_def qr_env_def date_law_def)

lemma trim_id_text: "id_text t \<Longrightarrow> trim t = t"
  by (rule trim_no_space) (rule id_text_no_space)

lemma token_text:
  assumes "qr_env c"
  shows "id_text (''QRT_'' @ random_hex c k)" "length (''QRT_'' @ random_hex c k) \<le> 128"
    "\<not> blank (''QRT_'' @ random_hex c k)"
proof -
  have h: "id_text (random_hex c k)" "length (random_hex c k) = 16" using assms by (auto simp: qr_env_def)
  have "id_char CHR ''Q'' \<and> id_char CHR ''R'' \<and> id_char CHR ''T'' \<and> id_char CHR ''_''" by code_simp
  with h show i: "id_text (''QRT_'' @ random_hex c k)" by (simp add: id_text_def)
  show "length (''QRT_'' @ random_hex c k) \<le> 128" using h by simp
  show "\<not> blank (''QRT_'' @ random_hex c k)"
    using trim_id_text [OF i] by (simp only: blank_def) simp
qed

text \<open>\<open>formatQrToken\<close> cannot fail on a well-formed row.\<close>

lemma format_ok:
  assumes "id_text (qr_tokenId q)"
  shows "formatQrToken c q = Inr
    \<lparr>fr_qrToken = ''Q2.'' @ qr_tokenId q @ ''.'' @ signCompactTokenId (hmac_sha256 c) (qr_tokenId q) (qr_secret c),
     fr_compactQrToken = ''Q2.'' @ qr_tokenId q @ ''.'' @ signCompactTokenId (hmac_sha256 c) (qr_tokenId q) (qr_secret c),
     fr_signedQrToken = createSignedQrToken (hmac_sha256 c) (qr_payload q) (qr_secret c),
     fr_payload = qr_payload q, fr_validFrom = qr_validFrom q, fr_validUntil = qr_validUntil q,
     fr_status = qr_status q, fr_revokedAt = qr_revokedAt q, fr_generatedAt = qr_generatedAt q\<rparr>"
proof -
  have "qr_tokenId q \<noteq> []" using assms by (simp add: id_text_def)
  then show ?thesis
    by (simp add: formatQrToken_def createCompactQrToken_def trim_id_text [OF assms] compact_prefix_def
          Let_def)
qed

lemma create_run:
  assumes "find_qr_by_registration rid s = None" and "find_qr_by_token tid s = None"
  shows "createOrRefreshQrToken c rid e tid pl sg vf vu None s =
    (let q = \<lparr>qr_id = cuid c (next_id s), qr_registrationId = rid, qr_eventId = e, qr_tokenId = tid,
          qr_payload = pl, qr_signature = sg, qr_status = QR_ACTIVE, qr_validFrom = vf,
          qr_validUntil = vu, qr_generatedAt = now c, qr_revokedAt = None, qr_updatedAt = now c\<rparr>
     in (Inr q, s\<lparr>next_id := Suc (next_id s), qrTokens := append_row q (qrTokens s)\<rparr>))"
proof -
  have "\<not> exists_row (\<lambda>x. qr_registrationId x = rid \<or> qr_tokenId x = tid) (qrTokens s)"
    using assms by (auto simp: exists_row_iff find_qr_by_registration_def find_qr_by_token_def lookup_by_None)
  then show ?thesis
    by (simp add: createOrRefreshQrToken_def create_qr_row_def catch_def bindA_def new_id_def gets_def
          modify_def ret_def Let_def)
qed

text \<open>Adding or refreshing a row keeps the table well formed.\<close>

lemma qr_wf_refresh:
  assumes wf: "qr_wf s" and ex: "find_qr_by_registration rid s = Some ex"
    and fresh: "find_qr_by_token tid s = None" and strs: "id_text tid" "length tid \<le> 128"
    and pl: "payload_of s (refreshed c e tid (JObj (payload_fields p)) sg vf vu ex) p"
    and t: "t = s\<lparr>qrTokens := update_by qr_registrationId rid
        (refreshed c e tid (JObj (payload_fields p)) sg vf vu) (qrTokens s), next_rand := m\<rparr>"
  shows "qr_wf t"
proof -
  let ?f = "refreshed c e tid (JObj (payload_fields p)) sg vf vu"
  have b: "base t = base s" by (simp add: t base_def)
  have "ex \<in> set (qrTokens s)" "qr_registrationId ex = rid"
    using ex by (auto simp: find_qr_by_registration_def dest: lookup_by_Some)
  then have only: "q = ex" if "q \<in> set (qrTokens s)" "qr_registrationId q = rid" for q
    using that wf distinct_key_inj [of qr_registrationId "qrTokens s"] by (auto simp: qr_wf_def)
  have "distinct (map qr_tokenId (update_by qr_registrationId rid ?f (qrTokens s)))"
    using wf fresh
    by (intro distinct_update_fresh [where v = tid])
      (auto simp: qr_wf_def refreshed_def find_qr_by_token_def lookup_by_None)
  moreover have "qr_row_ok s q" if "q \<in> set (update_by qr_registrationId rid ?f (qrTokens s))" for q
    using that wf only pl strs by (auto simp: set_update_by qr_wf_def qr_row_ok_def refreshed_def)
  ultimately show ?thesis
    using wf by (simp add: qr_wf_def base_row_ok [OF b], simp add: t map_update_by refreshed_def)
qed

lemma qr_wf_create:
  assumes wf: "qr_wf s" and ids: "qr_ids_ok c s" "id_law c"
    and new: "find_qr_by_registration (qr_registrationId q) s = None" "find_qr_by_token (qr_tokenId q) s = None"
      "qr_id q = cuid c (next_id s)"
    and row: "qr_row_ok s q"
    and t: "t = s\<lparr>next_id := Suc (next_id s), qrTokens := append_row q (qrTokens s), next_rand := m\<rparr>"
  shows "qr_wf t \<and> qr_ids_ok c t"
proof -
  have b: "base t = base s" by (simp add: t base_def)
  have "qr_id q \<noteq> qr_id x" if "x \<in> set (qrTokens s)" for x
    using that ids new(3) by (auto simp: qr_ids_ok_def id_law_def inj_eq)
  with wf new row have "qr_wf t"
    by (simp add: qr_wf_def base_row_ok [OF b])
      (auto simp: t find_qr_by_registration_def find_qr_by_token_def lookup_by_None image_iff)
  moreover have "qr_ids_ok c t"
    using ids(1) new(3) by (auto simp: qr_ids_ok_def t less_Suc_eq)
  ultimately show ?thesis ..
qed

lemma window_valid:
  assumes "refs_ok s" and "e \<in> set (events s)"
  shows "valid_time (fst (valid_window e))" "valid_time (snd (valid_window e))"
  using assms by (auto simp: refs_ok_def valid_window_def split: option.splits)

lemma relations_Inr:
  "findRegistrationWithRelations i s = Inr (r, e, a) \<longleftrightarrow>
   find_registration i s = Some r \<and> find_event (rg_eventId r) s = Some e \<and>
   find_attendee_type (rg_attendeeTypeId r) s = Some a"
  by (auto simp: findRegistrationWithRelations_def split: option.splits)

lemma find_in:
  "find_registration i s = Some r \<Longrightarrow> r \<in> set (registrations s) \<and> rg_id r = i"
  "find_event i s = Some e \<Longrightarrow> e \<in> set (events s) \<and> ev_id e = i"
  "find_attendee_type i s = Some a \<Longrightarrow> a \<in> set (attendeeTypes s) \<and> at_id a = i"
  "find_qr_by_registration i s = Some q \<Longrightarrow> q \<in> set (qrTokens s) \<and> qr_registrationId q = i"
  "find_qr_by_token j s = Some q \<Longrightarrow> q \<in> set (qrTokens s) \<and> qr_tokenId q = j"
  by (auto simp: find_defs dest: lookup_by_Some)

definition qr_inv :: "env \<Rightarrow> store \<Rightarrow> bool" where
  "qr_inv c s = (qr_wf s \<and> qr_ids_ok c s)"

text \<open>The store part of \<open>generate\<close> once the row was found missing, revoked or expired.\<close>

lemma store_token_run:
  assumes env: "qr_env c" and refs: "refs_ok s" and inv: "qr_inv c s"
    and rel: "find_registration rid s = Some r" "find_event (rg_eventId r) s = Some e"
      "find_attendee_type (rg_attendeeTypeId r) s = Some a"
    and tid: "tid = ''QRT_'' @ random_hex c k" "find_qr_by_token tid s = None"
    and pl: "pl = new_payload c tid (random_nonce c n) r a vf vu" and win: "valid_window e = (vf, vu)"
    and run: "createOrRefreshQrToken c (rg_id r) (rg_eventId r) tid (JObj (payload_fields pl)) sg vf vu
        (find_qr_by_registration rid s) (s\<lparr>next_rand := m\<rparr>) = (x, t)"
  shows "\<exists>q. x = Inr q \<and> find_qr_by_registration rid t = Some q \<and> qr_tokenId q = tid \<and>
    qr_status q = QR_ACTIVE \<and> qr_validFrom q = vf \<and> qr_validUntil q = vu \<and>
    base t = base s \<and> qr_inv c t \<and> others rid t = others rid s"
proof -
  let ?s = "s\<lparr>next_rand := m\<rparr>"
  note r = find_in(1) [OF rel(1)] and e = find_in(2) [OF rel(2)] and a = find_in(3) [OF rel(3)]
  have "valid_time vf" "valid_time vu" using window_valid [OF refs, of e] e win by auto
  then have nb: "payload_nonblank pl"
    using payload_nonblank_new [OF env refs] r a token_text(3) [OF env] env
    by (simp add: pl tid qr_env_def)
  have strs: "id_text tid" "length tid \<le> 128" using token_text [OF env] tid by auto
  have s: "qr_wf ?s" "qr_ids_ok c ?s" "base ?s = base s"
    using inv by (simp_all add: qr_inv_def qr_wf_def qr_ids_ok_def base_def base_row_ok [of ?s s])
  have fs: "find_qr_by_registration i ?s = find_qr_by_registration i s"
      "find_qr_by_token i ?s = find_qr_by_token i s" "find_registration i ?s = find_registration i s" for i
    by (simp_all add: find_defs)
  show ?thesis
  proof (cases "find_qr_by_registration rid s")
    case None
    let ?q = "\<lparr>qr_id = cuid c (next_id s), qr_registrationId = rid, qr_eventId = rg_eventId r, qr_tokenId = tid,
          qr_payload = JObj (payload_fields pl), qr_signature = sg, qr_status = QR_ACTIVE, qr_validFrom = vf,
          qr_validUntil = vu, qr_generatedAt = now c, qr_revokedAt = None, qr_updatedAt = now c\<rparr>"
    have x: "x = Inr ?q" and t: "t = ?s\<lparr>next_id := Suc (next_id ?s), qrTokens := append_row ?q (qrTokens ?s)\<rparr>"
      using run create_run [of rid ?s tid c "rg_eventId r" "JObj (payload_fields pl)" sg vf vu] None tid(2) r
      by (auto simp: fs Let_def)
    have "payload_of ?s ?q pl" using nb rel(1) r by (simp add: payload_of_def fs) (simp add: pl new_payload_def)
    then have "qr_row_ok ?s ?q" using strs by (auto simp: qr_row_ok_def)
    then have "qr_wf t \<and> qr_ids_ok c t"
      using None tid(2) s env by (intro qr_wf_create [of ?s c ?q t "next_rand ?s"])
        (simp_all add: fs t qr_env_def)
    moreover have "find_qr_by_registration rid t = Some ?q"
      using None rows.lookup_created [of qr_registrationId ?q "qrTokens s"]
      by (simp add: t find_qr_by_registration_def)
    moreover have "base t = base s" by (simp add: t base_def)
    moreover have "others rid t = others rid s" by (simp add: t others_def append_row_def)
    ultimately show ?thesis using x by (simp add: qr_inv_def)
  next
    case (Some ex)
    let ?f = "refreshed c (rg_eventId r) tid (JObj (payload_fields pl)) sg vf vu"
    have x: "x = Inr (?f ex)" and t: "t = ?s\<lparr>qrTokens := update_by qr_registrationId rid ?f (qrTokens ?s)\<rparr>"
      using run refresh_run [OF s(1), of rid ex] Some r by (simp_all add: fs)
    have ex: "qr_registrationId ex = rid" using find_in(4) [OF Some] by simp
    have "payload_of ?s (?f ex) pl"
      using nb rel(1) r ex by (simp add: payload_of_def fs refreshed_def) (simp add: pl new_payload_def)
    then have "qr_wf t"
      using Some tid(2) s strs by (intro qr_wf_refresh [of ?s rid ex tid c "rg_eventId r" pl sg vf vu t m])
        (simp_all add: fs t)
    moreover have "qr_ids_ok c t"
      using s by (auto simp: qr_ids_ok_def t set_update_by refreshed_def)
    moreover have "find_qr_by_registration rid t = Some (?f ex)"
      using Some rows.lookup_updated [of qr_registrationId ?f rid "qrTokens s" ex]
      by (simp add: t find_qr_by_registration_def refreshed_def)
    moreover have "base t = base s" by (simp add: t base_def)
    moreover have "others rid t = others rid s" unfolding t by (subst others_update) (simp_all add: refreshed_def)
    ultimately show ?thesis using x by (simp add: qr_inv_def refreshed_def)
  qed
qed

lemma generate_active:
  assumes "find_qr_by_registration rid s = Some q" and "qr_status q = QR_ACTIVE"
    and "findRegistrationWithRelations rid s = Inr (r, e, a)" and "ev_status e \<noteq> EV_ARCHIVED"
  shows "generate c rid s = (formatQrToken c q, s)"
  using assms by (simp add: generate_def act_simps)

lemma generate_issue:
  assumes "\<not> (\<exists>q. find_qr_by_registration rid s = Some q \<and> qr_status q = QR_ACTIVE)"
    and "findRegistrationWithRelations rid s = Inr (r, e, a)" and "ev_status e \<noteq> EV_ARCHIVED"
  shows "generate c rid s = issueQrToken c r e a (find_qr_by_registration rid s) s"
  using assms by (auto simp: generate_def act_simps split: option.splits)

lemma issue_with_id:
  assumes env: "qr_env c" and refs: "refs_ok s" and inv: "qr_inv c s"
    and rel: "findRegistrationWithRelations rid s = Inr (r, e, a)"
    and tid: "generateTokenId c s = (Inr tid, u)"
  shows "\<exists>q t. issueQrToken c r e a (find_qr_by_registration rid s) s = (formatQrToken c q, t) \<and>
    find_qr_by_registration rid t = Some q \<and> qr_status q = QR_ACTIVE \<and>
    base t = base s \<and> qr_inv c t \<and> others rid t = others rid s \<and>
    find_qr_by_token (qr_tokenId q) s = None \<and> (qr_validFrom q, qr_validUntil q) = valid_window e"
proof -
  let ?vf = "fst (valid_window e)" and ?vu = "snd (valid_window e)"
  obtain k m where k: "tid = ''QRT_'' @ random_hex c k" "find_qr_by_token tid s = None"
      "u = s\<lparr>next_rand := m\<rparr>"
    using generateTokenId_run tid unfolding generateTokenId_def by blast
  let ?p = "new_payload c tid (random_nonce c m) r a ?vf ?vu"
  let ?sg = "split_on CHR ''.'' (createSignedQrToken (hmac_sha256 c) (JObj (payload_fields ?p)) (qr_secret c)) ! 1"
  have d: "draw (random_nonce c) u = (Inr (random_nonce c m), s\<lparr>next_rand := Suc m\<rparr>)"
    by (simp add: draw_def k(3))
  obtain x v where x: "createOrRefreshQrToken c (rg_id r) (rg_eventId r) tid (JObj (payload_fields ?p)) ?sg ?vf ?vu
      (find_qr_by_registration rid s) (s\<lparr>next_rand := Suc m\<rparr>) = (x, v)" by fastforce
  from store_token_run [OF env refs inv _ _ _ k(1,2) refl _ x, of e] rel
  obtain q where q: "x = Inr q" "find_qr_by_registration rid v = Some q" "qr_tokenId q = tid"
      "qr_status q = QR_ACTIVE" "qr_validFrom q = ?vf" "qr_validUntil q = ?vu" "base v = base s" "qr_inv c v"
      "others rid v = others rid s"
    by (auto simp: relations_Inr)
  have "issueQrToken c r e a (find_qr_by_registration rid s) s = (formatQrToken c q, v)"
    unfolding issueQrToken_def Let_def
    by (simp only: bindA_def tid d x q(1) reads_def prod.case sum.case)
  with q k(2) show ?thesis by auto
qed

lemma issue_run:
  assumes env: "qr_env c" and refs: "refs_ok s" and inv: "qr_inv c s"
    and rel: "findRegistrationWithRelations rid s = Inr (r, e, a)"
    and run: "issueQrToken c r e a (find_qr_by_registration rid s) s = (Inr f, t)"
  shows "\<exists>q. find_qr_by_registration rid t = Some q \<and> qr_status q = QR_ACTIVE \<and>
    formatQrToken c q = Inr f \<and> base t = base s \<and> qr_inv c t \<and> others rid t = others rid s \<and>
    find_qr_by_token (qr_tokenId q) s = None \<and> (qr_validFrom q, qr_validUntil q) = valid_window e"
proof -
  obtain tid u where "generateTokenId c s = (Inr tid, u)"
    using run unfolding issueQrToken_def Let_def by (elim bindA_InrE)
  from issue_with_id [OF env refs inv rel this] run show ?thesis by auto
qed

text \<open>What a successful \<open>generate\<close> leaves.\<close>

lemma generate_run:
  assumes env: "qr_env c" and refs: "refs_ok s" and inv: "qr_inv c s"
    and run: "generate c rid s = (Inr f, t)"
  obtains q r e a where "findRegistrationWithRelations rid s = Inr (r, e, a)" "ev_status e \<noteq> EV_ARCHIVED"
    "find_qr_by_registration rid t = Some q" "qr_status q = QR_ACTIVE" "formatQrToken c q = Inr f"
    "base t = base s" "qr_inv c t" "others rid t = others rid s"
    "find_qr_by_registration rid s = Some q \<and> t = s \<or>
     find_qr_by_token (qr_tokenId q) s = None \<and> (qr_validFrom q, qr_validUntil q) = valid_window e"
proof -
  obtain r e a where rel: "findRegistrationWithRelations rid s = Inr (r, e, a)" and ev: "ev_status e \<noteq> EV_ARCHIVED"
    using run by (auto simp: generate_def act_simps guard_def split: sum.splits if_splits)
  show ?thesis
  proof (cases "\<exists>q. find_qr_by_registration rid s = Some q \<and> qr_status q = QR_ACTIVE")
    case True
    then obtain q where q: "find_qr_by_registration rid s = Some q" "qr_status q = QR_ACTIVE" by blast
    with run generate_active [OF q rel ev, of c] have "t = s" "formatQrToken c q = Inr f" by auto
    with q rel ev inv show ?thesis by (intro that) auto
  next
    case False
    from issue_run [OF env refs inv rel, of f t] run generate_issue [OF False rel ev, of c] rel ev
    show ?thesis by (auto intro: that)
  qed
qed

section \<open>Reading the tokens of a row\<close>

definition tokens_of :: "env \<Rightarrow> qr_token \<Rightarrow> string set" where
  "tokens_of c q =
    {''Q2.'' @ qr_tokenId q @ ''.'' @ signCompactTokenId (hmac_sha256 c) (qr_tokenId q) (qr_secret c),
     createSignedQrToken (hmac_sha256 c) (qr_payload q) (qr_secret c)}"

text \<open>The answer of \<open>validate\<close> that depends on the state of the row and its registration.\<close>

definition verdict :: "env \<Rightarrow> qr_token \<Rightarrow> registration \<Rightarrow> event_row \<Rightarrow> attendee_type \<Rightarrow>
    (string \<times> json) list \<Rightarrow> validation" where
  "verdict c q r e a payload =
    (if qr_status q = QR_REVOKED then Invalid ''TOKEN_REVOKED'' (Some payload)
     else if qr_status q = QR_EXPIRED \<or> now c < qr_validFrom q \<or> qr_validUntil q < now c
     then Invalid ''TOKEN_EXPIRED'' (Some payload)
     else if rg_status r \<noteq> REG_ACTIVE then Invalid ''REGISTRATION_INACTIVE'' (Some payload)
     else Valid r e a payload)"

lemma read_compact:
  assumes "mac_law c" and "id_text t" and "length t \<le> 128"
  shows "read_token c (''Q2.'' @ t @ ''.'' @ signCompactTokenId (hmac_sha256 c) t (qr_secret c)) =
    Inr [(''tokenId'', JStr t)]"
proof -
  let ?h = "hmac_sha256 c" and ?k = "qr_secret c"
  let ?q = "''Q2.'' @ t @ ''.'' @ signCompactTokenId ?h t ?k"
  have "x \<in> set ?q \<Longrightarrow> \<not> is_space x" for x
    using assms(2) by (auto simp: is_space_def signCompactTokenId_def dest: id_text_no_space space_not_in_base64url)
  then have q: "trim ?q = ?q" by (rule trim_no_space)
  have "?h ?k (''Q2.'' @ t) \<noteq> []" using assms(1) by (metis mac_law_def list.size(3) zero_neq_numeral)
  then have "verifyCompactQrToken ?h ?q ?k = Inr t"
    using assms(2,3) q by (simp add: verifyCompactQrToken_def starts_with_Q2 verifyV2_Inr)
  moreover have "\<nexists>fs. verifySignedQrToken ?h ?q ?k = Inr fs"
  proof
    assume "\<exists>fs. verifySignedQrToken ?h ?q ?k = Inr fs"
    then obtain fs p where "?q = p @ ''.'' @ signEncodedPayload ?h p ?k" "CHR ''.'' \<notin> set p"
        "decode_json p = Some (JObj fs)"
      unfolding verifySigned_Inr q by blast
    then have "\<not> starts_with (compact_prefix @ ''.'') ?q" by (rule legacy_not_Q2)
    then show False by (simp add: starts_with_Q2)
  qed
  ultimately show ?thesis by (cases "verifySignedQrToken ?h ?q ?k") (auto simp: read_token_def)
qed

lemma read_signed:
  assumes "mac_law c" and "payload_nonblank p"
  shows "read_token c (createSignedQrToken (hmac_sha256 c) (JObj (payload_fields p)) (qr_secret c)) =
    Inr (payload_fields p)"
  using verify_createSigned [OF assms(2)] assms(1) by (simp add: read_token_def mac_law_def)

lemma find_by_token:
  "qr_inv c s \<Longrightarrow> q \<in> set (qrTokens s) \<Longrightarrow> find_qr_by_token (qr_tokenId q) s = Some q"
  using find_row_unique [of qr_tokenId "qrTokens s" q]
  by (simp add: qr_inv_def qr_wf_def find_qr_by_token_def lookup_by_def)

lemma token_id_simps:
  "token_id (payload_fields p) = pl_tokenId p" "token_id [(''tokenId'', JStr t)] = t"
  by (simp_all add: token_id_def payload_lookup str_of_def) (simp add: obj_get_def)

lemma row_read:
  assumes "qr_inv c s" and "q \<in> set (qrTokens s)" and "mac_law c'" and "tok \<in> tokens_of c' q"
  shows "\<exists>p pl. read_token c' tok = Inr p \<and> token_id p = qr_tokenId q \<and> payload_of s q pl \<and>
    (p = payload_fields pl \<or> p = [(''tokenId'', JStr (qr_tokenId q))])"
proof -
  obtain pl where pl: "payload_of s q pl" "id_text (qr_tokenId q)" "length (qr_tokenId q) \<le> 128"
    using assms(1,2) by (auto simp: qr_inv_def qr_wf_def qr_row_ok_def)
  have p: "qr_payload q = JObj (payload_fields pl)" "payload_nonblank pl" "pl_tokenId pl = qr_tokenId q"
    using pl(1) by (simp_all add: payload_of_def)
  from assms(4) consider
    (compact) "tok = ''Q2.'' @ qr_tokenId q @ ''.'' @ signCompactTokenId (hmac_sha256 c') (qr_tokenId q) (qr_secret c')"
    | (signed) "tok = createSignedQrToken (hmac_sha256 c') (JObj (payload_fields pl)) (qr_secret c')"
    unfolding tokens_of_def p(1) by blast
  then show ?thesis
  proof cases
    case compact
    then show ?thesis using read_compact [OF assms(3) pl(2,3)] pl(1) token_id_simps(2) by metis
  next
    case signed
    then show ?thesis using read_signed [OF assms(3) p(2)] pl(1) p(3) token_id_simps(1) by metis
  qed
qed

lemma validate_row:
  assumes inv: "qr_inv c s" and q: "q \<in> set (qrTokens s)" and mac: "mac_law c'"
    and tok: "tok \<in> tokens_of c' q"
    and rel: "findRegistrationWithRelations (qr_registrationId q) s = Inr (r, e, a)"
  shows "\<exists>p. token_id p = qr_tokenId q \<and> validate c' tok s = Inr (verdict c' q r e a p)"
proof -
  obtain p pl where p: "read_token c' tok = Inr p" "token_id p = qr_tokenId q" "payload_of s q pl"
      "p = payload_fields pl \<or> p = [(''tokenId'', JStr (qr_tokenId q))]"
    using row_read [OF inv q mac tok] by blast
  have rel': "find_registration (qr_registrationId q) s = Some r" "find_event (rg_eventId r) s = Some e"
    using rel by (auto simp: relations_Inr)
  with p(3) have e: "rg_eventId r = qr_eventId q" "rg_publicId r = pl_registrationPublicId pl"
    by (auto simp: payload_of_def)
  have full: "\<not> payloadMismatch p q r"
    using p(3,4) e
    by (auto simp: payloadMismatch_def isFullPayload_def obj_get_def payload_fields_def payload_of_def)
  have "validate c' tok s = Inr (verdict c' q r e a p)"
    unfolding validate_def verdict_def
    using p(1,2) rel rel'(2) e(1) full by (simp add: find_by_token [OF inv q])
  with p(2) show ?thesis by blast
qed

lemma format_tokens:
  "id_text (qr_tokenId q) \<Longrightarrow> formatQrToken c q = Inr f \<Longrightarrow>
   tokens_of c q = {fr_qrToken f, fr_signedQrToken f} \<and> fr_validFrom f = qr_validFrom q \<and>
   fr_validUntil f = qr_validUntil q \<and> fr_compactQrToken f = fr_qrToken f"
  by (auto simp: format_ok tokens_of_def)

lemma tokens_of_now [simp]: "tokens_of (c\<lparr>now := n\<rparr>) q = tokens_of c q"
  by (simp add: tokens_of_def)

lemma format_now [simp]: "formatQrToken (c\<lparr>now := n\<rparr>) q = formatQrToken c q"
  by (simp add: formatQrToken_def)

lemma row_in_wf: "qr_inv c s \<Longrightarrow> find_qr_by_registration i s = Some q \<Longrightarrow>
  q \<in> set (qrTokens s) \<and> qr_registrationId q = i \<and> id_text (qr_tokenId q)"
  using find_in(4) [of i s q] by (auto simp: qr_inv_def qr_wf_def qr_row_ok_def)

lemma revoke_run:
  assumes inv: "qr_inv c s" and run: "revoke c rid s = (Inr f, t)"
  obtains q r e a where "find_qr_by_registration rid t = Some q" "qr_status q = QR_REVOKED"
    "formatQrToken c q = Inr f" "base t = base s" "qr_inv c t"
    "findRegistrationWithRelations rid s = Inr (r, e, a)"
    "others rid t = others rid s"
proof -
  let ?f = "\<lambda>q. q\<lparr>qr_status := QR_REVOKED, qr_revokedAt := Some (now c), qr_updatedAt := now c\<rparr>"
  obtain r e a q where rel: "findRegistrationWithRelations rid s = Inr (r, e, a)"
      and q: "find_qr_by_registration rid s = Some q" and f: "formatQrToken c (?f q) = Inr f"
      and t: "t = s\<lparr>qrTokens := update_by qr_registrationId rid ?f (qrTokens s)\<rparr>"
    using run by (auto simp: revoke_def act_simps Let_def split: sum.splits option.splits)
  have b: "base t = base s" by (simp add: t base_def)
  have "qr_row_ok s (?f x)" if "qr_row_ok s x" for x
    using that by (simp add: qr_row_ok_def payload_of_def cong: option.case_cong)
  then have "qr_wf t"
    using inv by (simp add: qr_inv_def qr_wf_def base_row_ok [OF b])
      (auto simp: t map_update_by set_update_by)
  moreover have "qr_ids_ok c t" using inv by (auto simp: qr_inv_def qr_ids_ok_def t set_update_by)
  moreover have "find_qr_by_registration rid t = Some (?f q)"
    using q rows.lookup_updated [of qr_registrationId ?f rid "qrTokens s" q]
    by (simp add: t find_qr_by_registration_def)
  moreover have "others rid t = others rid s"
    by (simp add: t others_update)
  ultimately show ?thesis using rel f b by (intro that [of "?f q"]) (simp_all add: qr_inv_def)
qed

lemma old_token_gone:
  assumes "qr_inv c s" and "find_qr_by_registration rid s = Some old"
    and "find_qr_by_registration rid t = Some q" and "qr_inv c t" and "qr_tokenId q \<noteq> qr_tokenId old"
    and "others rid t = others rid s"
  shows "find_qr_by_token (qr_tokenId old) t = None"
proof -
  have "qr_tokenId x \<noteq> qr_tokenId old" if x: "x \<in> set (qrTokens t)" for x
  proof (cases "qr_registrationId x = rid")
    case True
    then have "x = q"
      using x row_in_wf [OF assms(4,3)] assms(4) distinct_key_inj [of qr_registrationId "qrTokens t" x q]
      by (simp add: qr_inv_def qr_wf_def)
    then show ?thesis using assms(5) by simp
  next
    case False
    then have "x \<in> set (others rid t)" using x by (simp add: others_def)
    then have "x \<in> set (others rid s)" using assms(6) by simp
    then have "x \<in> set (qrTokens s)" by (simp add: others_def)
    moreover have "old \<in> set (qrTokens s)" "qr_registrationId old = rid" using row_in_wf [OF assms(1,2)] by auto
    ultimately show ?thesis
      using False assms(1) distinct_key_inj [of qr_tokenId "qrTokens s" x old]
      by (auto simp: qr_inv_def qr_wf_def)
  qed
  then show ?thesis by (simp add: find_qr_by_token_def lookup_by_None image_iff) metis
qed

lemma revoke_format:
  assumes "qr_inv c s" and "find_qr_by_registration rid s = Some q"
  shows "formatQrToken c (q\<lparr>qr_status := st, qr_revokedAt := x, qr_updatedAt := u\<rparr>) \<noteq> Inl err"
  using row_in_wf [OF assms] by (subst format_ok) simp_all

lemma compact_neq:
  assumes "id_text x" and "id_text y" and "x \<noteq> y"
  shows "x @ CHR ''.'' # g \<noteq> y @ CHR ''.'' # h"
proof
  assume "x @ CHR ''.'' # g = y @ CHR ''.'' # h"
  then have "split_on CHR ''.'' (x @ CHR ''.'' # g) = split_on CHR ''.'' (y @ CHR ''.'' # h)" by simp
  then show False using assms id_text_no_dot by (simp add: split_on_Cons)
qed

section \<open>Properties\<close>

text \<open>Whatever \<open>generate\<close> returns is scannable: while the registration is \<open>ACTIVE\<close> and inside the
  returned validity period, \<open>validate\<close> answers \<open>VALID\<close> with that registration for the compact token
  and for the signed token alike, whether the row was new, refreshed or already there.\<close>

theorem generated_token_valid:
  assumes "qr_env c" and "refs_ok s" and "qr_inv c s" and "generate c rid s = (Inr f, t)"
    and "find_registration rid s = Some r" and "rg_status r = REG_ACTIVE"
    and "fr_validFrom f \<le> n" and "n \<le> fr_validUntil f" and "tok \<in> {fr_qrToken f, fr_signedQrToken f}"
  shows "\<exists>e a p. validate (c\<lparr>now := n\<rparr>) tok t = Inr (Valid r e a p)"
proof -
  from assms(1-4) obtain q e a where g: "findRegistrationWithRelations rid s = Inr (r, e, a)"
      "find_qr_by_registration rid t = Some q" "qr_status q = QR_ACTIVE" "formatQrToken c q = Inr f"
      "base t = base s" "qr_inv c t"
    using assms(5) by (elim generate_run) (auto simp: relations_Inr)
  note row = row_in_wf [OF g(6,2)]
  note f = format_tokens [OF _ g(4)]
  have rel: "findRegistrationWithRelations (qr_registrationId q) t = Inr (r, e, a)"
    using g(1) row base_finds(4) [OF g(5)] by simp
  have "mac_law (c\<lparr>now := n\<rparr>)" using assms(1) by (simp add: qr_env_def mac_law_def)
  moreover have tok: "tok \<in> tokens_of (c\<lparr>now := n\<rparr>) q" using f row assms(9) by auto
  ultimately obtain p where "validate (c\<lparr>now := n\<rparr>) tok t = Inr (verdict (c\<lparr>now := n\<rparr>) q r e a p)"
    using validate_row [OF g(6) _ \<open>mac_law (c\<lparr>now := n\<rparr>)\<close> _ rel, of tok] row tok by auto
  then show ?thesis using g(3) f row assms(6-8) by (auto simp: verdict_def)
qed

text \<open>\<open>generate\<close> is idempotent: called again, at any later time, it returns the same tokens and
  changes nothing.\<close>

theorem generate_idempotent:
  assumes "qr_env c" and "refs_ok s" and "qr_inv c s" and "generate c rid s = (Inr f, t)"
  shows "generate (c\<lparr>now := n\<rparr>) rid t = (Inr f, t)"
proof -
  from assms obtain q r e a where g: "findRegistrationWithRelations rid s = Inr (r, e, a)"
      "ev_status e \<noteq> EV_ARCHIVED" "find_qr_by_registration rid t = Some q" "qr_status q = QR_ACTIVE"
      "formatQrToken c q = Inr f" "base t = base s"
    by (elim generate_run)
  have "findRegistrationWithRelations rid t = Inr (r, e, a)" using g(1) base_finds(4) [OF g(6)] by simp
  from generate_active [OF g(3,4) this g(2)] g(5) show ?thesis by simp
qed


text \<open>Regenerating after a revocation replaces the token for good: the new tokens validate under a new
  token id, and the tokens handed out before resolve to no row.\<close>

theorem regenerated_token_replaces:
  assumes "qr_env c" and "refs_ok s" and "qr_inv c s" and "find_qr_by_registration rid s = Some old"
    and "qr_status old \<noteq> QR_ACTIVE" and "formatQrToken c old = Inr f"
    and "generate c rid s = (Inr g, t)" and "tok \<in> {fr_qrToken f, fr_signedQrToken f}"
  shows "(\<exists>p. validate (c\<lparr>now := n\<rparr>) tok t = Inr (Invalid ''TOKEN_NOT_FOUND'' (Some p))) \<and>
    fr_qrToken g \<noteq> fr_qrToken f"
proof -
  obtain q where g: "find_qr_by_registration rid t = Some q" "formatQrToken c q = Inr g"
      "qr_status q = QR_ACTIVE" "qr_inv c t" "others rid t = others rid s"
      "find_qr_by_registration rid s = Some q \<and> t = s \<or> find_qr_by_token (qr_tokenId q) s = None"
    by (rule generate_run [OF assms(1,2,3,7)]) blast
  have new: "find_qr_by_token (qr_tokenId q) s = None" using g(3,6) assms(4,5) by auto
  have old: "old \<in> set (qrTokens s)" "id_text (qr_tokenId old)" using row_in_wf [OF assms(3,4)] by auto
  have q: "id_text (qr_tokenId q)" using row_in_wf [OF g(4,1)] by simp
  have neq: "qr_tokenId q \<noteq> qr_tokenId old"
    using new find_by_token [OF assms(3) old(1)] by auto
  have gone: "find_qr_by_token (qr_tokenId old) t = None"
    by (rule old_token_gone [OF assms(3,4) g(1,4) neq g(5)])
  have "mac_law (c\<lparr>now := n\<rparr>)" using assms(1) by (simp add: qr_env_def mac_law_def)
  moreover have "tok \<in> tokens_of (c\<lparr>now := n\<rparr>) old"
    using format_tokens [OF old(2) assms(6)] assms(8) by auto
  ultimately obtain p where "read_token (c\<lparr>now := n\<rparr>) tok = Inr p" "token_id p = qr_tokenId old"
    using row_read [OF assms(3) old(1)] by blast
  moreover have "fr_qrToken g \<noteq> fr_qrToken f"
    using assms(6) g(2) compact_neq [OF q old(2) neq] by (simp add: format_ok [OF old(2)] format_ok [OF q]) force
  ultimately show ?thesis using gone by (simp add: validate_def)
qed

lemma generateTokenId_store: "\<exists>m. snd (generateTokenId_loop n c s) = s\<lparr>next_rand := m\<rparr>"
proof (induction n arbitrary: s)
  case 0
  show ?case by (rule exI [of _ "next_rand s"]) (simp add: act_simps)
next
  case (Suc n)
  let ?u = "s\<lparr>next_rand := Suc (next_rand s)\<rparr>" and ?i = "''QRT_'' @ random_hex c (next_rand s)"
  have step: "generateTokenId_loop (Suc n) c s =
      (if find_qr_by_token ?i ?u = None then ret ?i ?u else generateTokenId_loop n c ?u)"
    by (simp add: act_simps bindA_def draw_def Let_def)
  obtain m where "snd (generateTokenId_loop n c ?u) = ?u\<lparr>next_rand := m\<rparr>" using Suc.IH by blast
  then show ?case unfolding step by (auto simp: ret_def)
qed

lemma qr_inv_rand [simp]: "qr_inv c (s\<lparr>next_rand := m\<rparr>) = qr_inv c s"
proof -
  have "base (s\<lparr>next_rand := m\<rparr>) = base s" by (simp add: base_def)
  from base_row_ok [OF this] show ?thesis by (simp add: qr_inv_def qr_wf_def qr_ids_ok_def)
qed

lemma issue_keeps:
  assumes "qr_env c" and "refs_ok s" and "qr_inv c s"
    and "findRegistrationWithRelations rid s = Inr (r, e, a)"
  shows "qr_inv c (snd (issueQrToken c r e a (find_qr_by_registration rid s) s))"
proof (cases "fst (generateTokenId c s)")
  case (Inr tid)
  then have "generateTokenId c s = (Inr tid, snd (generateTokenId c s))" by (metis prod.collapse)
  from issue_with_id [OF assms this] show ?thesis by auto
next
  case (Inl err)
  then have g: "generateTokenId c s = (Inl err, snd (generateTokenId c s))" by (metis prod.collapse)
  obtain m where "snd (generateTokenId c s) = s\<lparr>next_rand := m\<rparr>"
    using generateTokenId_store unfolding generateTokenId_def by blast
  then show ?thesis
    unfolding issueQrToken_def Let_def using assms(3) by (subst bindA_fail [of _ _ err]) (rule g, simp)
qed

text \<open>The token table stays well formed whatever \<open>generate\<close> and \<open>revoke\<close> do, exceptions included: one
  row per registration, unique token ids, and in every row the payload that was made for it.\<close>

theorem qr_operations_keep_inv:
  assumes "qr_env c" and "refs_ok s" and "qr_inv c s"
  shows "qr_inv c (snd (generate c rid s)) \<and> qr_inv c (snd (revoke c rid s))"
proof
  show "qr_inv c (snd (revoke c rid s))"
  proof (cases "fst (revoke c rid s)")
    case (Inr f)
    then have "revoke c rid s = (Inr f, snd (revoke c rid s))" by (metis prod.collapse)
    then show ?thesis using revoke_run [OF assms(3)] by blast
  next
    case (Inl err)
    then show ?thesis using assms(3) revoke_format [OF assms(3), of rid]
      by (auto simp: revoke_def act_simps Let_def split: sum.splits option.splits)
  qed
  show "qr_inv c (snd (generate c rid s))"
  proof (cases "findRegistrationWithRelations rid s")
    case (Inr x)
    then obtain r e a where rel: "findRegistrationWithRelations rid s = Inr (r, e, a)" by (cases x) auto
    consider (guarded) "ev_status e = EV_ARCHIVED"
      | (active) q where "find_qr_by_registration rid s = Some q" "qr_status q = QR_ACTIVE" "ev_status e \<noteq> EV_ARCHIVED"
      | (issue) "\<not> (\<exists>q. find_qr_by_registration rid s = Some q \<and> qr_status q = QR_ACTIVE)" "ev_status e \<noteq> EV_ARCHIVED"
      by blast
    then show ?thesis
    proof cases
      case guarded
      then show ?thesis using rel assms(3) by (simp add: generate_def act_simps)
    next
      case active
      then show ?thesis using generate_active [OF active(1,2) rel active(3)] assms(3) by simp
    next
      case issue
      then show ?thesis using generate_issue [OF issue(1) rel issue(2)] issue_keeps [OF assms rel] by simp
    qed
  qed (simp add: generate_def act_simps assms(3))
qed

text \<open>Two requests that race to issue a token agree. When both have read the same row (or no row), the
  first stores its token; the second, which still holds what it read, takes the branch written for
  the race: it stores nothing and returns the row of the first.\<close>

theorem racing_generates_agree:
  assumes "qr_inv c s" and "find_qr_by_registration rid s = ex"
    and "case ex of None \<Rightarrow> True | Some q \<Rightarrow> qr_status q \<noteq> QR_ACTIVE"
    and "find_qr_by_token tid s = None"
    and "createOrRefreshQrToken c rid e tid pl sg vf vu ex s = (Inr q, t)"
  shows "qr_status q = QR_ACTIVE \<and> qr_tokenId q = tid \<and>
    (\<exists>u. createOrRefreshQrToken c' rid e' tid' pl' sg' vf' vu' ex t = (Inr q, u) \<and> qrTokens u = qrTokens t)"
proof (cases ex)
  case None
  let ?q = "\<lparr>qr_id = cuid c (next_id s), qr_registrationId = rid, qr_eventId = e, qr_tokenId = tid,
          qr_payload = pl, qr_signature = sg, qr_status = QR_ACTIVE, qr_validFrom = vf,
          qr_validUntil = vu, qr_generatedAt = now c, qr_revokedAt = None, qr_updatedAt = now c\<rparr>"
  have q: "q = ?q" and t: "t = s\<lparr>next_id := Suc (next_id s), qrTokens := append_row ?q (qrTokens s)\<rparr>"
    using assms(2,4,5) create_run [of rid s tid c e pl sg vf vu] None by (auto simp: Let_def)
  have "find_row (\<lambda>q. qr_registrationId q = rid \<and> qr_status q = QR_ACTIVE) (qrTokens s) = None"
    using assms(2) None by (auto simp: find_row_None find_qr_by_registration_def lookup_by_None)
  then have "find_active_qr rid (t\<lparr>next_id := n\<rparr>) = Some ?q" for n
    by (simp add: find_active_qr_def t append_row_def find_row_append)
  moreover have "exists_row (\<lambda>x. qr_registrationId x = rid \<or> qr_tokenId x = tid') (qrTokens t)"
    by (simp add: exists_row_iff t)
  ultimately show ?thesis using None q
    by (simp add: createOrRefreshQrToken_def create_qr_row_def catch_def bindA_def new_id_def gets_def
          throw_def ret_def Let_def)
next
  case (Some x)
  let ?f = "refreshed c e tid pl sg vf vu"
  have x: "find_qr_by_registration rid s = Some x" "qr_status x \<noteq> QR_ACTIVE" using assms(2,3) Some by auto
  have q: "q = ?f x" and t: "t = s\<lparr>qrTokens := update_by qr_registrationId rid ?f (qrTokens s)\<rparr>"
    using refresh_run [OF _ x(1), of c e tid pl sg vf vu] assms(1,5) Some by (auto simp: qr_inv_def)
  have in_s: "x \<in> set (qrTokens s)" "qr_registrationId x = rid" using find_in(4) [OF x(1)] by auto
  have only: "y = x" if "y \<in> set (qrTokens s)" "qr_id y = qr_id x \<or> qr_registrationId y = rid" for y
    using that in_s assms(1) distinct_key_inj [of qr_id "qrTokens s" y x]
      distinct_key_inj [of qr_registrationId "qrTokens s" y x] by (auto simp: qr_inv_def qr_wf_def)
  have none: "\<not> (qr_id y = qr_id x \<and> qr_tokenId y = qr_tokenId x \<and> qr_status y = qr_status x)"
    if "y \<in> set (qrTokens t)" for y
    using that x(2) only in_s by (auto simp: t set_update_by refreshed_def)
  have "find_row (\<lambda>q. qr_registrationId q = rid \<and> qr_status q = QR_ACTIVE) (qrTokens t) = Some (?f x)"
  proof -
    have "find_row (\<lambda>q. qr_registrationId q = rid) (qrTokens t) = Some (?f x)"
      using x(1) rows.lookup_updated [of qr_registrationId ?f rid "qrTokens s" x]
      by (simp add: t find_qr_by_registration_def lookup_by_def refreshed_def)
    moreover have "find_row (\<lambda>q. qr_registrationId q = rid) (qrTokens t) =
        find_row (\<lambda>q. qr_registrationId q = rid \<and> qr_status q = QR_ACTIVE) (qrTokens t)"
      by (rule find_row_cong) (use in_s only in \<open>auto simp: t set_update_by refreshed_def\<close>)
    ultimately show ?thesis by simp
  qed
  then have "find_active_qr rid t = Some q" by (simp add: find_active_qr_def q)
  moreover have "count_rows (\<lambda>y. qr_id y = qr_id x \<and> qr_tokenId y = qr_tokenId x \<and> qr_status y = qr_status x)
      (qrTokens t) \<noteq> 1"
    using none by (simp add: count_rows_def filter_empty_conv [THEN iffD2])
  moreover have "update_rows (\<lambda>y. qr_id y = qr_id x \<and> qr_tokenId y = qr_tokenId x \<and> qr_status y = qr_status x) g
      (qrTokens t) = qrTokens t" for g
    using none by (auto simp: update_rows_def intro!: map_idI)
  ultimately show ?thesis using Some q
    by (simp add: createOrRefreshQrToken_def Let_def act_simps refreshed_def find_active_qr_def)
qed

section \<open>A concrete run\<close>

lemma sample_qr_env: "qr_env sample_env"
proof -
  have "valid_time (now sample_env)" by code_simp
  then show ?thesis
    using sample_laws sample_hex_text blank_nat_text by (simp add: qr_env_def sample_env_def)
qed

lemma sample_refs: "refs_ok sample_regs" by code_simp

lemma sample_inv: "qr_inv sample_env sample_regs"
  by (simp add: qr_inv_def qr_wf_def qr_ids_ok_def sample_regs_def empty_store_def)

lemma sample_relations:
  "findRegistrationWithRelations ''r1'' sample_regs = Inr (sample_registration, sample_event, sample_type)"
  by code_simp

lemma sample_gen_ok:
  "\<exists>f t. generate sample_env ''r1'' sample_regs = (Inr f, t) \<and>
     fr_validFrom f = 500 \<and> fr_validUntil f = 8000"
proof -
  have none: "find_qr_by_registration ''r1'' sample_regs = None" by code_simp
  have "find_qr_by_token i sample_regs = None" for i
    by (simp add: find_qr_by_token_def lookup_by_def sample_regs_def empty_store_def)
  then have "\<exists>tid u. generateTokenId sample_env sample_regs = (Inr tid, u)"
    by (simp add: generateTokenId_def numeral_eq_Suc act_simps bindA_def draw_def Let_def find_qr_by_token_def
          sample_regs_def empty_store_def)
  then obtain q t where q: "issueQrToken sample_env sample_registration sample_event sample_type
      (find_qr_by_registration ''r1'' sample_regs) sample_regs = (formatQrToken sample_env q, t)"
      "find_qr_by_registration ''r1'' t = Some q" "qr_inv sample_env t"
      "(qr_validFrom q, qr_validUntil q) = valid_window sample_event"
    using issue_with_id [OF sample_qr_env sample_refs sample_inv sample_relations] by blast
  have "generate sample_env ''r1'' sample_regs = (formatQrToken sample_env q, t)"
    using generate_issue [OF _ sample_relations] q(1) none by (simp add: sample_event_def)
  then show ?thesis
    using format_ok [of q sample_env] row_in_wf [OF q(3,2)] q(4)
    by (simp add: valid_window_def sample_event_def)
qed

lemma generated_token_valid_witness:
  "\<exists>f t e a p. generate sample_env ''r1'' sample_regs = (Inr f, t) \<and>
     validate (sample_env\<lparr>now := 700\<rparr>) (fr_qrToken f) t = Inr (Valid sample_registration e a p)"
proof -
  obtain f t where g: "generate sample_env ''r1'' sample_regs = (Inr f, t)"
      "fr_validFrom f = 500" "fr_validUntil f = 8000"
    using sample_gen_ok by blast
  have "find_registration ''r1'' sample_regs = Some sample_registration" "rg_status sample_registration = REG_ACTIVE"
    by code_simp+
  from generated_token_valid [OF sample_qr_env sample_refs sample_inv g(1) this, of 700 "fr_qrToken f"] g
  show ?thesis by auto
qed

lemma generate_idempotent_witness:
  "\<exists>f t. generate sample_env ''r1'' sample_regs = (Inr f, t) \<and>
     generate (sample_env\<lparr>now := 5000\<rparr>) ''r1'' t = (Inr f, t)"
  using sample_gen_ok generate_idempotent [OF sample_qr_env sample_refs sample_inv] by blast

lemma qr_operations_keep_inv_witness:
  "qr_inv sample_env (snd (generate sample_env ''r1'' sample_regs)) \<and>
   qr_inv sample_env (snd (revoke sample_env ''r1'' sample_regs))"
  by (rule qr_operations_keep_inv [OF sample_qr_env sample_refs sample_inv])

text \<open>The same run continued: revoke, and generate again.\<close>

lemma sample_revoke_ok:
  "\<exists>f t g u. generate sample_env ''r1'' sample_regs = (Inr f, t) \<and> qr_inv sample_env t \<and>
     base t = base sample_regs \<and> revoke sample_env ''r1'' t = (Inr g, u)"
proof -
  obtain f t where g: "generate sample_env ''r1'' sample_regs = (Inr f, t)" using sample_gen_ok by blast
  then obtain q where q: "find_qr_by_registration ''r1'' t = Some q" "qr_inv sample_env t" "base t = base sample_regs"
    by (rule generate_run [OF sample_qr_env sample_refs sample_inv])
  have rel: "findRegistrationWithRelations ''r1'' t = Inr (sample_registration, sample_event, sample_type)"
    using base_finds(4) [OF q(3)] sample_relations by simp
  have "fst (revoke sample_env ''r1'' t) \<noteq> Inl e" for e
    using rel q(1) revoke_format [OF q(2,1)] by (simp add: revoke_def act_simps Let_def sample_event_def)
  then obtain f' u where "revoke sample_env ''r1'' t = (Inr f', u)"
    by (cases "revoke sample_env ''r1'' t"; cases "fst (revoke sample_env ''r1'' t)") auto
  with g q show ?thesis by blast
qed


definition sample_qr_row :: qr_token where
  "sample_qr_row = \<lparr>qr_id = cuid sample_env 0, qr_registrationId = ''r1'', qr_eventId = ''e1'',
     qr_tokenId = ''QRT_0A'', qr_payload = JObj (payload_fields sample_payload), qr_signature = ''x'',
     qr_status = QR_REVOKED, qr_validFrom = 500, qr_validUntil = 8000, qr_generatedAt = 600,
     qr_revokedAt = Some 800, qr_updatedAt = 800\<rparr>"

definition sample_revoked :: store where
  "sample_revoked = sample_regs\<lparr>qrTokens := [sample_qr_row], next_id := 1\<rparr>"

lemma sample_revoked_ok:
  "base sample_revoked = base sample_regs" "refs_ok sample_revoked" "qr_inv sample_env sample_revoked"
  "find_qr_by_registration ''r1'' sample_revoked = Some sample_qr_row" "id_text (qr_tokenId sample_qr_row)"
proof -
  show b: "base sample_revoked = base sample_regs" by (simp add: base_def sample_revoked_def)
  show "refs_ok sample_revoked" using base_refs_ok [OF b] sample_refs by simp
  show "find_qr_by_registration ''r1'' sample_revoked = Some sample_qr_row"
    by (simp add: find_qr_by_registration_def lookup_by_def sample_revoked_def sample_qr_row_def)
  show i: "id_text (qr_tokenId sample_qr_row)" by code_simp
  have "find_registration ''r1'' sample_revoked = Some sample_registration" by code_simp
  then have "payload_of sample_revoked sample_qr_row sample_payload"
    using sample_payload_nonblank
    by (simp add: payload_of_def sample_qr_row_def sample_registration_def) (simp add: sample_payload_def)
  with i show "qr_inv sample_env sample_revoked"
    by (auto simp: qr_inv_def qr_wf_def qr_ids_ok_def qr_row_ok_def sample_revoked_def)
      (simp_all add: sample_qr_row_def)
qed

lemma sample_regenerate:
  "\<exists>h t. generate sample_env ''r1'' sample_revoked = (Inr h, t)"
proof -
  have rel: "findRegistrationWithRelations ''r1'' sample_revoked = Inr (sample_registration, sample_event, sample_type)"
    using base_finds(4) [OF sample_revoked_ok(1)] sample_relations by simp
  have neq: "''QRT_'' @ random_hex sample_env n \<noteq> ''QRT_0A''" for n
  proof
    assume "''QRT_'' @ random_hex sample_env n = ''QRT_0A''"
    then have "length (''QRT_'' @ random_hex sample_env n) = length ''QRT_0A''" by (rule arg_cong)
    moreover have "length (random_hex sample_env n) = 16"
      using sample_hex_text(2) [of n] by (simp add: sample_env_def)
    ultimately show False by simp
  qed
  have "find_qr_by_token (''QRT_'' @ random_hex sample_env n) (sample_revoked\<lparr>next_rand := m\<rparr>) = None" for n m
    using neq [of n] by (simp add: find_qr_by_token_def lookup_by_def sample_revoked_def sample_qr_row_def)
  then have "\<exists>tid u. generateTokenId sample_env sample_revoked = (Inr tid, u)"
    by (simp add: generateTokenId_def numeral_eq_Suc act_simps bindA_def draw_def Let_def)
  moreover have "generate sample_env ''r1'' sample_revoked = issueQrToken sample_env sample_registration
      sample_event sample_type (find_qr_by_registration ''r1'' sample_revoked) sample_revoked"
    using sample_revoked_ok(4) by (intro generate_issue [OF _ rel]) (simp_all add: sample_qr_row_def sample_event_def)
  ultimately obtain q v where v: "generate sample_env ''r1'' sample_revoked = (formatQrToken sample_env q, v)"
      "find_qr_by_registration ''r1'' v = Some q" "qr_inv sample_env v"
    using issue_with_id [OF sample_qr_env sample_revoked_ok(2,3) rel] by metis
  then show ?thesis using format_ok [of q sample_env] row_in_wf [OF v(3,2)] by simp
qed

lemma regenerated_token_replaces_witness:
  "\<exists>f g t p. formatQrToken sample_env sample_qr_row = Inr f \<and>
     generate sample_env ''r1'' sample_revoked = (Inr g, t) \<and>
     validate (sample_env\<lparr>now := 900\<rparr>) (fr_qrToken f) t = Inr (Invalid ''TOKEN_NOT_FOUND'' (Some p))"
proof -
  obtain f where f: "formatQrToken sample_env sample_qr_row = Inr f"
    using format_ok [OF sample_revoked_ok(5)] by blast
  obtain h t where h: "generate sample_env ''r1'' sample_revoked = (Inr h, t)" using sample_regenerate by blast
  have "qr_status sample_qr_row \<noteq> QR_ACTIVE" by (simp add: sample_qr_row_def)
  from regenerated_token_replaces [OF sample_qr_env sample_revoked_ok(2-4) this f h, of "fr_qrToken f" 900]
  show ?thesis using f h by auto
qed

lemma racing_generates_agree_witness:
  "\<exists>q t u. createOrRefreshQrToken sample_env ''r1'' ''e1'' ''QRT_1'' JNull ''s'' 1 2 None sample_regs = (Inr q, t) \<and>
     createOrRefreshQrToken sample_env ''r1'' ''e1'' ''QRT_2'' JNull ''s'' 1 2 None t = (Inr q, u)"
proof -
  have n: "find_qr_by_registration ''r1'' sample_regs = None" "find_qr_by_token ''QRT_1'' sample_regs = None"
    by code_simp+
  then obtain q t where r: "createOrRefreshQrToken sample_env ''r1'' ''e1'' ''QRT_1'' JNull ''s'' 1 2 None sample_regs =
      (Inr q, t)"
    using create_run [OF n] by (simp add: Let_def)
  from racing_generates_agree [OF sample_inv n(1) _ n(2) r] r show ?thesis by simp blast
qed

end
