(* ===== verification/ScanGuards.thy ===== *)
theory ScanGuards
  imports OfflineQr QrService
begin

text \<open>
  The reading half of \<open>src/modules/scans/scans.service.ts\<close>: the guards every scan passes, the
  resolution of a scanned code to a QR context (official token, offline reference \<open>O2.\<close>,
  signed offline badge), and the rules that decide a movement: the attendee types a checkpoint
  admits and re-entry. Nothing here writes.
\<close>

record scan_dto =
  dto_operationId :: string
  dto_eventId :: id
  dto_deviceId :: id
  dto_staffSessionId :: "id option"
  dto_checkpointId :: "id option"
  dto_qrToken :: string
  dto_type :: movement_type
  dto_scannedAt :: time \<comment> \<open>\<open>new Date(scannedAtDevice)\<close>, which the DTO checks to be a date\<close>
  dto_payload :: "json option"

datatype qr_context =
    ValidQr qr_token registration attendee_type fields
  | InvalidQr string "fields option" "id option" "id option"
  | PendingOffline verified_qr
  | PendingReference string fields "id option"

section \<open>Guards\<close>

definition ensureActiveStaffSession :: "id option \<Rightarrow> id \<Rightarrow> store \<Rightarrow> staff_session option res" where
  "ensureActiveStaffSession staffSessionId eventId s =
    (if \<not> truthy staffSessionId then Inr None
     else (case find_session (the staffSessionId) s of
         None \<Rightarrow> Inl (NotFound ''Staff session not found'')
       | Some ss \<Rightarrow>
           if ss_eventId ss \<noteq> eventId
           then Inl (BadRequest ''Staff session must belong to the same event'')
           else if ss_status ss \<noteq> SES_ACTIVE then Inl (BadRequest ''Staff session must be ACTIVE'')
           else Inr (Some ss)))"

definition ensureStaffSessionForOfflineReplay ::
    "id option \<Rightarrow> id \<Rightarrow> id \<Rightarrow> id \<Rightarrow> store \<Rightarrow> staff_session option res" where
  "ensureStaffSessionForOfflineReplay staffSessionId eventId deviceId checkpointId s =
    (if \<not> truthy staffSessionId then Inr None
     else (case find_session (the staffSessionId) s of
         None \<Rightarrow> Inr None
       | Some ss \<Rightarrow>
           if ss_eventId ss \<noteq> eventId \<or> ss_deviceId ss \<noteq> deviceId \<or> ss_checkpointId ss \<noteq> checkpointId
           then Inl (BadRequest ''Offline scan session does not match event, device, or checkpoint'')
           else Inr (Some ss)))"

definition ensureActiveCheckpoint :: "id option \<Rightarrow> id \<Rightarrow> store \<Rightarrow> checkpoint option res" where
  "ensureActiveCheckpoint checkpointId eventId s =
    (if \<not> truthy checkpointId then Inr None
     else (case find_checkpoint (the checkpointId) s of
         None \<Rightarrow> Inl (NotFound ''Checkpoint not found'')
       | Some cp \<Rightarrow>
           if cp_eventId cp \<noteq> eventId
           then Inl (BadRequest ''Checkpoint must belong to the same event'')
           else if \<not> cp_isActive cp then Inl (BadRequest ''Checkpoint must be active'')
           else Inr (Some cp)))"

text \<open>\<open>String(v)\<close>.\<close>

fun js_String :: "json \<Rightarrow> string" where
  "js_String (JStr s) = s"
| "js_String (JArr vs) = commas (map (\<lambda>v. if v = JNull then [] else js_String v) vs)"
| "js_String (JObj fs) = ''[object Object]''"
| "js_String v = stringify v"

definition getCheckpointAccessDenial :: "checkpoint option \<Rightarrow> string \<Rightarrow> string option" where
  "getCheckpointAccessDenial checkpoint attendeeTypeCode =
    (case checkpoint of
       None \<Rightarrow> None
     | Some cp \<Rightarrow>
         (case cp_allowedAttendeeTypes cp of
            JArr vs \<Rightarrow>
              (let allowedTypes = map js_String vs
               in if allowedTypes = [] \<or> attendeeTypeCode \<in> set allowedTypes then None
                  else Some ''ATTENDEE_TYPE_NOT_ALLOWED'')
          | _ \<Rightarrow> None))"

definition has_entered :: "id \<Rightarrow> id \<Rightarrow> movement \<Rightarrow> bool" where
  "has_entered eventId registrationId m = (mv_eventId m = eventId \<and> mv_registrationId m = registrationId \<and>
     mv_type m = MV_ENTRY \<and> mv_result m = ALLOWED)"

definition getReentryDenial :: "event_row \<Rightarrow> id \<Rightarrow> movement_type \<Rightarrow> store \<Rightarrow> string option" where
  "getReentryDenial event registrationId type s =
    (if ev_allowReEntry event \<or> type \<noteq> MV_ENTRY then None
     else if exists_row (has_entered (ev_id event) registrationId) (movements s)
     then Some ''ALREADY_ENTERED'' else None)"

definition toScanDenialReason :: "string \<Rightarrow> string" where
  "toScanDenialReason reason =
    (case map_of
       [(''INVALID_SIGNATURE'', ''INVALID_QR''), (''TOKEN_NOT_FOUND'', ''INVALID_QR''),
        (''OFFLINE_QR_NOT_SYNCED'', ''OFFLINE_REGISTRATION_NOT_SYNCED''),
        (''OFFLINE_QR_CONFLICTED'', ''INVALID_QR''), (''EVENT_MISMATCH'', ''WRONG_EVENT''),
        (''TOKEN_REVOKED'', ''QR_REVOKED''), (''TOKEN_EXPIRED'', ''QR_EXPIRED''),
        (''REGISTRATION_INACTIVE'', ''REGISTRATION_INACTIVE'')] reason of
       Some r \<Rightarrow> r | None \<Rightarrow> reason)"

section \<open>Resolving a scanned code\<close>

text \<open>The registration that the query includes, with its attendee type (required relations).\<close>

definition registration_with_type :: "id \<Rightarrow> store \<Rightarrow> (registration \<times> attendee_type) res" where
  "registration_with_type registrationId s =
    (case find_registration registrationId s of
       None \<Rightarrow> Inl (OtherError ''Inconsistent query result'')
     | Some r \<Rightarrow>
         (case find_attendee_type (rg_attendeeTypeId r) s of
            None \<Rightarrow> Inl (OtherError ''Inconsistent query result'')
          | Some a \<Rightarrow> Inr (r, a)))"

text \<open>The checks on the stored token that the three resolutions repeat.\<close>

definition token_state_denial :: "env \<Rightarrow> qr_token \<Rightarrow> registration \<Rightarrow> string option" where
  "token_state_denial c q r =
    (if qr_status q = QR_REVOKED then Some ''TOKEN_REVOKED''
     else if qr_status q = QR_EXPIRED \<or> now c < qr_validFrom q \<or> qr_validUntil q < now c
     then Some ''TOKEN_EXPIRED''
     else if rg_status r \<noteq> REG_ACTIVE then Some ''REGISTRATION_INACTIVE''
     else None)"

text \<open>A condition on a nullable id: \<open>undefined\<close> drops it from the \<open>where\<close> clause.\<close>

definition opt_matches :: "id option \<Rightarrow> id \<Rightarrow> bool" where
  "opt_matches x i = (case x of None \<Rightarrow> True | Some j \<Rightarrow> i = j)"

definition validateOfflineReferenceQrForScan :: "env \<Rightarrow> string \<Rightarrow> id \<Rightarrow> store \<Rightarrow> qr_context res" where
  "validateOfflineReferenceQrForScan c offlineQrToken eventId s =
    (let normalizedToken = trim offlineQrToken;
         payload = [(''inputType'', JStr ''OFFLINE_REFERENCE''), (''offlineQrToken'', JStr normalizedToken)] in
     case find_mapping_by_token normalizedToken s of
       None \<Rightarrow> Inr (PendingReference normalizedToken payload None)
     | Some mapping \<Rightarrow>
         if mp_eventId mapping \<noteq> eventId
         then Inr (InvalidQr ''EVENT_MISMATCH'' (Some payload) None (mp_registrationId mapping))
         else if \<not> truthy (mp_registrationId mapping) \<or> mp_status mapping = MAP_PENDING
         then Inr (PendingReference normalizedToken payload (mp_registrationId mapping))
         else if mp_status mapping = MAP_CONFLICTED
         then Inr (InvalidQr ''OFFLINE_QR_CONFLICTED'' (Some payload) None (mp_registrationId mapping))
         else if mp_status mapping = MAP_REVOKED
         then Inr (InvalidQr ''TOKEN_REVOKED'' (Some payload) None (mp_registrationId mapping))
         else (case find_row (\<lambda>q. qr_registrationId q = the (mp_registrationId mapping) \<and>
                   (truthy (mp_canonicalQrTokenId mapping) \<longrightarrow> Some (qr_id q) = mp_canonicalQrTokenId mapping))
                 (qrTokens s) of
             None \<Rightarrow> Inr (InvalidQr ''TOKEN_NOT_FOUND'' (Some payload) None (mp_registrationId mapping))
           | Some q \<Rightarrow>
               bindE (registration_with_type (qr_registrationId q) s) (\<lambda>(r, a).
               Inr (if qr_eventId q \<noteq> eventId
                    then InvalidQr ''EVENT_MISMATCH'' (Some payload) (Some (qr_id q)) (Some (qr_registrationId q))
                    else (case token_state_denial c q r of
                        Some reason \<Rightarrow>
                          InvalidQr reason (Some payload) (Some (qr_id q)) (Some (qr_registrationId q))
                      | None \<Rightarrow>
                          ValidQr q r a (payload @ [(''canonicalTokenId'', JStr (qr_tokenId q)),
                            (''registrationId'', JStr (qr_registrationId q))]))))))"

text \<open>Setting a key of an object literal after a spread: the place of an earlier key is kept.\<close>

fun set_field :: "string \<Rightarrow> json \<Rightarrow> fields \<Rightarrow> fields" where
  "set_field k v [] = [(k, v)]"
| "set_field k v ((k', v') # fs) = (if k' = k then (k, v) # fs else (k', v') # set_field k v fs)"

definition validateOfflineQrForScan :: "env \<Rightarrow> string \<Rightarrow> id \<Rightarrow> store \<Rightarrow> qr_context res" where
  "validateOfflineQrForScan c qrRaw eventId s =
    bindE (verifySignedOfflineQr c qrRaw (Some eventId) s) (\<lambda>verified.
    let payload = vq_payload verified in
    case find_mapping_by_token (str_field payload ''offlineQrToken'') s of
      None \<Rightarrow> Inr (PendingOffline verified)
    | Some mapping \<Rightarrow>
        if \<not> truthy (mp_registrationId mapping) \<or>
           mp_status mapping \<in> {MAP_PENDING, MAP_CONFLICTED, MAP_REVOKED}
        then Inr (PendingOffline verified)
        else (case find_row (\<lambda>q. opt_matches (mp_canonicalQrTokenId mapping) (qr_id q) \<and>
                  qr_registrationId q = the (mp_registrationId mapping)) (qrTokens s) of
            None \<Rightarrow> Inr (InvalidQr ''TOKEN_NOT_FOUND'' (Some payload) None (mp_registrationId mapping))
          | Some q \<Rightarrow>
              bindE (registration_with_type (qr_registrationId q) s) (\<lambda>(r, a).
              Inr (if qr_eventId q \<noteq> eventId \<or> str_field payload ''eventId'' \<noteq> eventId \<or>
                      str_field payload ''attendeeTypeId'' \<noteq> rg_attendeeTypeId r
                   then InvalidQr ''EVENT_MISMATCH'' (Some payload) (Some (qr_id q)) (Some (qr_registrationId q))
                   else (case token_state_denial c q r of
                       Some reason \<Rightarrow>
                         InvalidQr reason (Some payload) (Some (qr_id q)) (Some (qr_registrationId q))
                     | None \<Rightarrow>
                         ValidQr q r a (set_field ''canonicalTokenId'' (JStr (qr_tokenId q))
                           (set_field ''inputType'' (JStr ''OFFLINE_SIGNED'') payload)))))))"

text \<open>The payload disagrees with the event or with the stored registration, where it names them.\<close>

definition scanMismatch :: "fields \<Rightarrow> qr_token \<Rightarrow> id \<Rightarrow> bool" where
  "scanMismatch payload q eventId = (qr_eventId q \<noteq> eventId \<or>
     (is_str (obj_get payload ''eventId'') \<and> obj_get payload ''eventId'' \<noteq> Some (JStr eventId)) \<or>
     (is_str (obj_get payload ''registrationId'') \<and>
      obj_get payload ''registrationId'' \<noteq> Some (JStr (qr_registrationId q))))"

definition validateOfficialQr :: "env \<Rightarrow> fields \<Rightarrow> id \<Rightarrow> store \<Rightarrow> qr_context res" where
  "validateOfficialQr c payload eventId s =
    (if token_id payload = [] then Inr (InvalidQr ''INVALID_SIGNATURE'' (Some payload) None None)
     else (case find_qr_by_token (token_id payload) s of
         None \<Rightarrow> Inr (InvalidQr ''TOKEN_NOT_FOUND'' (Some payload) None None)
       | Some q \<Rightarrow>
           bindE (registration_with_type (qr_registrationId q) s) (\<lambda>(r, a).
           Inr (if scanMismatch payload q eventId
                then InvalidQr ''EVENT_MISMATCH'' (Some payload) (Some (qr_id q)) (Some (qr_registrationId q))
                else (case token_state_denial c q r of
                    Some reason \<Rightarrow>
                      InvalidQr reason (Some payload) (Some (qr_id q)) (Some (qr_registrationId q))
                  | None \<Rightarrow> ValidQr q r a payload)))))"

definition validateQrForScan :: "env \<Rightarrow> string \<Rightarrow> id \<Rightarrow> store \<Rightarrow> qr_context res" where
  "validateQrForScan c qrRaw eventId s =
    (let normalizedQr = trim qrRaw in
     if normalizedQr = [] then Inr (InvalidQr ''INVALID_SIGNATURE'' None None None)
     else if starts_with ''O2.'' normalizedQr
     then validateOfflineReferenceQrForScan c normalizedQr eventId s
     else (case read_token c normalizedQr of
         Inr payload \<Rightarrow> validateOfficialQr c payload eventId s
       | Inl _ \<Rightarrow>
           (case validateOfflineQrForScan c normalizedQr eventId s of
              Inr context \<Rightarrow> Inr context
            | Inl _ \<Rightarrow> Inr (InvalidQr ''INVALID_SIGNATURE'' None None None))))"

text \<open>The decision on a valid code: \<open>accessReason ?? reentryReason ?? 'ALLOWED'\<close>.\<close>

definition scan_reason :: "event_row \<Rightarrow> checkpoint option \<Rightarrow> attendee_type \<Rightarrow> id \<Rightarrow> movement_type \<Rightarrow>
    store \<Rightarrow> string" where
  "scan_reason event checkpoint a registrationId type s =
    (case getCheckpointAccessDenial checkpoint (at_code a) of
       Some reason \<Rightarrow> reason
     | None \<Rightarrow> (case getReentryDenial event registrationId type s of
         Some reason \<Rightarrow> reason
       | None \<Rightarrow> ''ALLOWED''))"

definition reason_result :: "string \<Rightarrow> movement_result" where
  "reason_result reason = (if reason = ''ALLOWED'' then ALLOWED else DENIED)"

end
