(* ===== verification/ScanService.thy ===== *)
theory ScanService
  imports ScanGuards
begin

text \<open>
  The writing half of \<open>src/modules/scans/scans.service.ts\<close>: a scan that arrives online
  (\<open>ingest\<close>), one that is only stored and queued (\<open>ingestFast\<close>, \<open>processRawScan\<close>), one that a
  device recorded without a connection (\<open>ingestOfflineScan\<close>), and the scans that wait for
  their registration to be synchronised (\<open>reconcileOfflineRegistration\<close>). The images and labels
  that \<open>formatScanResponse\<close> adds to an answer are left out: they do not touch these tables.
\<close>

datatype scan_answer =
    Replayed bool string scan_event "movement option" \<comment> \<open>\<open>duplicate\<close>, with the earlier decision\<close>
  | ReplayedRaw scan_event \<comment> \<open>\<open>duplicate\<close>, not decided\<close>
  | WaitingForSync id string \<comment> \<open>offline reference, not synchronised: not allowed\<close>
  | AdmittedProvisionally id string \<comment> \<open>signed offline badge, not synchronised: allowed\<close>
  | Refused string scan_event
  | Decided bool string scan_event movement

definition answer_allowed :: "scan_answer \<Rightarrow> bool" where
  "answer_allowed a = (case a of
     Replayed ok _ _ _ \<Rightarrow> ok | ReplayedRaw _ \<Rightarrow> False | WaitingForSync _ _ \<Rightarrow> False
   | AdmittedProvisionally _ _ \<Rightarrow> True | Refused _ _ \<Rightarrow> False | Decided ok _ _ _ \<Rightarrow> ok)"

text \<open>\<open>error.message\<close>.\<close>

definition err_message :: "err \<Rightarrow> string" where
  "err_message e = (case e of BadRequest m \<Rightarrow> m | NotFound m \<Rightarrow> m | Conflict m \<Rightarrow> m | Forbidden m \<Rightarrow> m
     | Unauthorized m \<Rightarrow> m | UniqueViolation \<Rightarrow> ''Unique constraint failed'' | OtherError m \<Rightarrow> m)"

section \<open>Writes\<close>

text \<open>\<open>create\<close> on the three tables, with the unique columns of the schema.\<close>

definition create_scan :: "env \<Rightarrow> (id \<Rightarrow> scan_event) \<Rightarrow> (store, scan_event) act" where
  "create_scan c row =
    bindA (new_id c) (\<lambda>i.
    bindA (gets (find_scan_by_op (sc_operationId (row i)))) (\<lambda>taken.
    if taken \<noteq> None then throw UniqueViolation
    else bindA (modify (\<lambda>s. s\<lparr>scans := append_row (row i) (scans s)\<rparr>)) (\<lambda>_. ret (row i))))"

definition create_movement :: "env \<Rightarrow> (id \<Rightarrow> movement) \<Rightarrow> (store, movement) act" where
  "create_movement c row =
    bindA (new_id c) (\<lambda>i.
    bindA (gets (movement_of_scan (mv_scanEventRawId (row i)))) (\<lambda>taken.
    if taken \<noteq> None then throw UniqueViolation
    else bindA (modify (\<lambda>s. s\<lparr>movements := append_row (row i) (movements s)\<rparr>)) (\<lambda>_. ret (row i))))"

definition create_offline_scan :: "env \<Rightarrow> (id \<Rightarrow> offline_scan) \<Rightarrow> (store, offline_scan) act" where
  "create_offline_scan c row =
    bindA (new_id c) (\<lambda>i.
    bindA (gets (find_offline_scan_by_op (os_operationId (row i)))) (\<lambda>taken.
    if taken \<noteq> None then throw UniqueViolation
    else bindA (modify (\<lambda>s. s\<lparr>offlineScans := append_row (row i) (offlineScans s)\<rparr>)) (\<lambda>_. ret (row i))))"

text \<open>\<open>update\<close> by id, giving the new row.\<close>

definition update_scan :: "id \<Rightarrow> (scan_event \<Rightarrow> scan_event) \<Rightarrow> (store, scan_event) act" where
  "update_scan i f =
    bindA (gets (find_scan i)) (\<lambda>found. case found of
      None \<Rightarrow> throw (OtherError ''Record to update not found'')
    | Some r \<Rightarrow> bindA (modify (\<lambda>s. s\<lparr>scans := update_by sc_id i f (scans s)\<rparr>)) (\<lambda>_. ret (f r)))"

definition update_offline_scan :: "id \<Rightarrow> (offline_scan \<Rightarrow> offline_scan) \<Rightarrow> (store, offline_scan) act" where
  "update_offline_scan i f =
    bindA (gets (find_offline_scan i)) (\<lambda>found. case found of
      None \<Rightarrow> throw (OtherError ''Record to update not found'')
    | Some r \<Rightarrow>
        bindA (modify (\<lambda>s. s\<lparr>offlineScans := update_by os_id i f (offlineScans s)\<rparr>)) (\<lambda>_. ret (f r)))"

definition touchActivity :: "env \<Rightarrow> id \<Rightarrow> id option \<Rightarrow> (store, unit) act" where
  "touchActivity c deviceId staffSessionId = modify (\<lambda>s. s
     \<lparr>devices := update_by dv_id deviceId (\<lambda>d. d\<lparr>dv_lastSeenAt := Some (now c)\<rparr>) (devices s),
      staffSessions := (if truthy staffSessionId
        then update_by ss_id (the staffSessionId) (\<lambda>x. x\<lparr>ss_lastSeenAt := Some (now c)\<rparr>) (staffSessions s)
        else staffSessions s)\<rparr>)"

definition json_or_null :: "json option \<Rightarrow> json" where
  "json_or_null v = (case v of None \<Rightarrow> JNull | Some j \<Rightarrow> j)"

definition createInvalidScan :: "env \<Rightarrow> scan_dto \<Rightarrow> string \<Rightarrow> fields option \<Rightarrow> id option \<Rightarrow> id option \<Rightarrow>
    (store, scan_event) act" where
  "createInvalidScan c dto reason qrPayload qrTokenId registrationId =
    create_scan c (\<lambda>i. \<lparr>sc_id = i, sc_operationId = dto_operationId dto, sc_eventId = dto_eventId dto,
      sc_deviceId = dto_deviceId dto, sc_staffSessionId = dto_staffSessionId dto,
      sc_checkpointId = dto_checkpointId dto, sc_registrationId = registrationId,
      sc_qrTokenId = qrTokenId, sc_qrPayload = json_or_null (map_option JObj qrPayload),
      sc_qrRaw = Some (dto_qrToken dto), sc_type = dto_type dto, sc_status = SC_INVALID_QR,
      sc_result = Some DENIED, sc_reason = Some reason, sc_scannedAtDevice = dto_scannedAt dto,
      sc_processedAt = Some (now c), sc_payload = json_or_null (dto_payload dto)\<rparr>)"

definition createProcessedScanAndMovement :: "env \<Rightarrow> scan_dto \<Rightarrow> qr_token \<Rightarrow> registration \<Rightarrow> fields \<Rightarrow>
    movement_result \<Rightarrow> string \<Rightarrow> (store, scan_event \<times> movement) act" where
  "createProcessedScanAndMovement c dto q r payload result reason =
    transaction (
      bindA (create_scan c (\<lambda>i. \<lparr>sc_id = i, sc_operationId = dto_operationId dto,
        sc_eventId = dto_eventId dto, sc_deviceId = dto_deviceId dto,
        sc_staffSessionId = dto_staffSessionId dto, sc_checkpointId = dto_checkpointId dto,
        sc_registrationId = Some (rg_id r), sc_qrTokenId = Some (qr_id q), sc_qrPayload = JObj payload,
        sc_qrRaw = Some (dto_qrToken dto), sc_type = dto_type dto, sc_status = SC_PROCESSED,
        sc_result = Some result, sc_reason = Some reason, sc_scannedAtDevice = dto_scannedAt dto,
        sc_processedAt = Some (now c), sc_payload = json_or_null (dto_payload dto)\<rparr>)) (\<lambda>scanEvent.
      bindA (create_movement c (\<lambda>i. \<lparr>mv_id = i, mv_eventId = dto_eventId dto,
        mv_registrationId = rg_id r, mv_qrTokenId = Some (qr_id q), mv_scanEventRawId = sc_id scanEvent,
        mv_deviceId = dto_deviceId dto, mv_staffSessionId = dto_staffSessionId dto,
        mv_checkpointId = dto_checkpointId dto, mv_type = dto_type dto, mv_result = result,
        mv_reason = Some reason, mv_occurredAt = dto_scannedAt dto\<rparr>)) (\<lambda>movement.
      ret (scanEvent, movement))))"

definition updateInvalidRawScan :: "env \<Rightarrow> id \<Rightarrow> string \<Rightarrow> fields option \<Rightarrow> id option \<Rightarrow> id option \<Rightarrow>
    (store, scan_event) act" where
  "updateInvalidRawScan c scanEventRawId reason qrPayload qrTokenId registrationId =
    update_scan scanEventRawId (\<lambda>x. x\<lparr>
      sc_qrTokenId := (case qrTokenId of None \<Rightarrow> sc_qrTokenId x | Some t \<Rightarrow> Some t),
      sc_registrationId := (case registrationId of None \<Rightarrow> sc_registrationId x | Some t \<Rightarrow> Some t),
      sc_qrPayload := json_or_null (map_option JObj qrPayload), sc_status := SC_INVALID_QR,
      sc_result := Some DENIED, sc_reason := Some reason, sc_processedAt := Some (now c)\<rparr>)"

definition updateRawScanAndCreateMovement :: "env \<Rightarrow> scan_event \<Rightarrow> qr_token \<Rightarrow> registration \<Rightarrow> fields \<Rightarrow>
    movement_result \<Rightarrow> string \<Rightarrow> (store, scan_event \<times> movement) act" where
  "updateRawScanAndCreateMovement c sc q r payload result reason =
    transaction (
      bindA (update_scan (sc_id sc) (\<lambda>x. x\<lparr>sc_registrationId := Some (rg_id r),
        sc_qrTokenId := Some (qr_id q), sc_qrPayload := JObj payload, sc_status := SC_PROCESSED,
        sc_result := Some result, sc_reason := Some reason, sc_processedAt := Some (now c)\<rparr>))
        (\<lambda>updatedScanEvent.
      bindA (create_movement c (\<lambda>i. \<lparr>mv_id = i, mv_eventId = sc_eventId sc, mv_registrationId = rg_id r,
        mv_qrTokenId = Some (qr_id q), mv_scanEventRawId = sc_id sc, mv_deviceId = sc_deviceId sc,
        mv_staffSessionId = sc_staffSessionId sc, mv_checkpointId = sc_checkpointId sc,
        mv_type = sc_type sc, mv_result = result, mv_reason = Some reason,
        mv_occurredAt = sc_scannedAtDevice sc\<rparr>)) (\<lambda>movement.
      ret (updatedScanEvent, movement))))"

section \<open>Scans that wait for their registration\<close>

definition local_result :: "json option \<Rightarrow> string option" where
  "local_result payload = (case payload of
     Some (JObj fs) \<Rightarrow> str_of (obj_get fs ''localResult'') | _ \<Rightarrow> None)"

definition createPendingOfflineReferenceScanFromOnlineScan ::
    "env \<Rightarrow> scan_dto \<Rightarrow> string \<Rightarrow> fields \<Rightarrow> id option \<Rightarrow> (store, offline_scan) act" where
  "createPendingOfflineReferenceScanFromOnlineScan c dto offlineQrToken payload registrationId =
    (if \<not> truthy (dto_checkpointId dto) then throw (BadRequest ''Offline scans require a checkpoint'')
     else bindA (gets (find_offline_scan_by_op (dto_operationId dto))) (\<lambda>existing. case existing of
       Some os \<Rightarrow> ret os
     | None \<Rightarrow> create_offline_scan c (\<lambda>i. \<lparr>os_id = i, os_operationId = dto_operationId dto,
         os_eventId = dto_eventId dto, os_scannerDeviceId = dto_deviceId dto,
         os_checkpointId = the (dto_checkpointId dto), os_staffSessionId = dto_staffSessionId dto,
         os_offlineQrToken = offlineQrToken, os_regOperationId = None, os_issuerDeviceId = None,
         os_issuerKeyVersion = None, os_scannedAtDevice = dto_scannedAt dto,
         os_movementType = dto_type dto, os_localResult = local_result (dto_payload dto),
         os_qrPayload = JObj payload, os_qrPayloadHash = None,
         os_status = (if truthy registrationId then OS_LINKED else OS_PENDING_LINK),
         os_registrationId = registrationId, os_movementId = None, os_scanEventRawId = None,
         os_conflictCode = None, os_conflictMessage = None, os_syncedAt = Some (now c)\<rparr>)))"

definition createPendingOfflineScanFromOnlineScan ::
    "env \<Rightarrow> scan_dto \<Rightarrow> verified_qr \<Rightarrow> (store, offline_scan) act" where
  "createPendingOfflineScanFromOnlineScan c dto verified =
    (let payload = vq_payload verified in
     if \<not> truthy (dto_checkpointId dto) then throw (BadRequest ''Offline scans require a checkpoint'')
     else bindA (gets (find_offline_scan_by_op (dto_operationId dto))) (\<lambda>existing. case existing of
       Some os \<Rightarrow> ret os
     | None \<Rightarrow> create_offline_scan c (\<lambda>i. \<lparr>os_id = i, os_operationId = dto_operationId dto,
         os_eventId = dto_eventId dto, os_scannerDeviceId = dto_deviceId dto,
         os_checkpointId = the (dto_checkpointId dto), os_staffSessionId = dto_staffSessionId dto,
         os_offlineQrToken = str_field payload ''offlineQrToken'',
         os_regOperationId = Some (str_field payload ''offlineRegistrationOperationId''),
         os_issuerDeviceId = Some (str_field payload ''issuerDeviceId''),
         os_issuerKeyVersion = Some (int_field payload ''issuerKeyVersion''),
         os_scannedAtDevice = dto_scannedAt dto, os_movementType = dto_type dto,
         os_localResult = local_result (dto_payload dto), os_qrPayload = JObj payload,
         os_qrPayloadHash = Some (vq_payloadHash verified), os_status = OS_PENDING_LINK,
         os_registrationId = None, os_movementId = None, os_scanEventRawId = None,
         os_conflictCode = None, os_conflictMessage = None, os_syncedAt = Some (now c)\<rparr>)))"

section \<open>Online scans\<close>

definition retryable_reference :: "scan_event \<Rightarrow> movement option \<Rightarrow> bool" where
  "retryable_reference sc m = (sc_status sc = SC_INVALID_QR \<and>
     sc_reason sc = Some ''OFFLINE_REGISTRATION_NOT_SYNCED'' \<and> m = None)"

text \<open>The answer to a repeated \<open>operationId\<close> that is not retried.\<close>

definition replay_answer :: "scan_event \<Rightarrow> movement option \<Rightarrow> scan_answer" where
  "replay_answer sc m =
    (if sc_status sc = SC_PROCESSED \<or> sc_status sc = SC_INVALID_QR
     then Replayed (sc_result sc = Some ALLOWED)
            (case sc_reason sc of Some r \<Rightarrow> r | None \<Rightarrow> ''DUPLICATE_SCAN'') sc m
     else ReplayedRaw sc)"

text \<open>From the guards on: the scan is new.\<close>

definition ingestNew :: "env \<Rightarrow> scan_dto \<Rightarrow> (store, scan_answer) act" where
  "ingestNew c dto =
    bindA (reads (ensureEventCanBeModified (dto_eventId dto))) (\<lambda>event.
    bindA (reads (ensureActiveDevice (dto_deviceId dto) (dto_eventId dto))) (\<lambda>device.
    bindA (reads (ensureActiveStaffSession (dto_staffSessionId dto) (dto_eventId dto))) (\<lambda>staffSession.
    bindA (reads (ensureActiveCheckpoint (dto_checkpointId dto) (dto_eventId dto))) (\<lambda>checkpoint.
    let touch = touchActivity c (dv_id device) (map_option ss_id staffSession) in
    bindA (reads (validateQrForScan c (dto_qrToken dto) (dto_eventId dto))) (\<lambda>qrContext.
    case qrContext of
      PendingReference offlineQrToken payload registrationId \<Rightarrow>
        bindA (createPendingOfflineReferenceScanFromOnlineScan c dto offlineQrToken payload registrationId)
          (\<lambda>os. bindA touch (\<lambda>_. ret (WaitingForSync (os_id os) offlineQrToken)))
    | PendingOffline verified \<Rightarrow>
        bindA (createPendingOfflineScanFromOnlineScan c dto verified) (\<lambda>os.
        bindA touch (\<lambda>_. ret (AdmittedProvisionally (os_id os)
          (str_field (vq_payload verified) ''offlineQrToken''))))
    | InvalidQr why payload qrTokenId registrationId \<Rightarrow>
        bindA (createInvalidScan c dto (toScanDenialReason why) payload qrTokenId registrationId) (\<lambda>sc.
        bindA touch (\<lambda>_. ret (Refused (toScanDenialReason why) sc)))
    | ValidQr q r a payload \<Rightarrow>
        bindA (gets (scan_reason event checkpoint a (rg_id r) (dto_type dto))) (\<lambda>reason.
        bindA (createProcessedScanAndMovement c dto q r payload (reason_result reason) reason)
          (\<lambda>(sc, m). bindA touch (\<lambda>_. ret (Decided (reason_result reason = ALLOWED) reason sc m))))
    )))))"

definition ingest :: "env \<Rightarrow> scan_dto \<Rightarrow> (store, scan_answer) act" where
  "ingest c dto =
    bindA (gets (find_scan_by_op (dto_operationId dto))) (\<lambda>existing. case existing of
      None \<Rightarrow> ingestNew c dto
    | Some sc \<Rightarrow>
        bindA (gets (movement_of_scan (sc_id sc))) (\<lambda>m.
        if retryable_reference sc m
        then bindA (modify (\<lambda>s. s\<lparr>scans := delete_rows (\<lambda>x. sc_id x = sc_id sc) (scans s)\<rparr>))
               (\<lambda>_. ingestNew c dto)
        else ret (replay_answer sc m)))"

datatype fast_answer = Accepted bool bool id scan_status \<comment> \<open>duplicate, queued, scan, status\<close>

definition ingestFast :: "env \<Rightarrow> scan_dto \<Rightarrow> (store, fast_answer) act" where
  "ingestFast c dto =
    bindA (gets (find_scan_by_op (dto_operationId dto))) (\<lambda>existing. case existing of
      Some sc \<Rightarrow> ret (Accepted True False (sc_id sc) (sc_status sc))
    | None \<Rightarrow>
        bindA (create_scan c (\<lambda>i. \<lparr>sc_id = i, sc_operationId = dto_operationId dto,
          sc_eventId = dto_eventId dto, sc_deviceId = dto_deviceId dto,
          sc_staffSessionId = dto_staffSessionId dto, sc_checkpointId = dto_checkpointId dto,
          sc_registrationId = None, sc_qrTokenId = None, sc_qrPayload = JNull,
          sc_qrRaw = Some (dto_qrToken dto), sc_type = dto_type dto, sc_status = SC_PENDING,
          sc_result = None, sc_reason = None, sc_scannedAtDevice = dto_scannedAt dto,
          sc_processedAt = None, sc_payload = json_or_null (dto_payload dto)\<rparr>)) (\<lambda>sc.
        if \<not> scan_processing_enabled c then ret (Accepted False False (sc_id sc) (sc_status sc))
        else if queue_up c
        then bindA (modify (add_job (ScanProcess (sc_id sc))))
               (\<lambda>_. ret (Accepted False True (sc_id sc) (sc_status sc)))
        else ret (Accepted False False (sc_id sc) (sc_status sc))))"

end
