(* ===== verification/ScanOffline.thy ===== *)
theory ScanOffline
  imports ScanService
begin

text \<open>
  The rest of \<open>src/modules/scans/scans.service.ts\<close>: the queue worker's \<open>processRawScan\<close>, and the
  scans that devices recorded without a connection.

  In a \<open>where\<close> clause a condition whose value is \<open>undefined\<close> is dropped; as an element of
  \<open>OR\<close> it selects nothing.
\<close>

section \<open>Stored scans\<close>

datatype raw_answer =
    RawNotFound
  | RawNotPending scan_status
  | RawWaiting scan_event
  | RawProvisional scan_event
  | RawRefused string scan_event
  | RawDecided bool string scan_event movement
  | RawFailed scan_event

definition object_payload :: "json \<Rightarrow> json option" where
  "object_payload v = (case v of JObj fs \<Rightarrow> Some (JObj fs) | _ \<Rightarrow> None)"

definition dto_of_scan :: "scan_event \<Rightarrow> scan_dto" where
  "dto_of_scan sc = \<lparr>dto_operationId = sc_operationId sc, dto_eventId = sc_eventId sc,
     dto_deviceId = sc_deviceId sc, dto_staffSessionId = sc_staffSessionId sc,
     dto_checkpointId = sc_checkpointId sc,
     dto_qrToken = (case sc_qrRaw sc of Some q \<Rightarrow> q | None \<Rightarrow> []), dto_type = sc_type sc,
     dto_scannedAt = sc_scannedAtDevice sc, dto_payload = object_payload (sc_payload sc)\<rparr>"

definition mark_failed :: "env \<Rightarrow> movement_result \<Rightarrow> string \<Rightarrow> scan_event \<Rightarrow> scan_event" where
  "mark_failed c result reason sc = sc\<lparr>sc_status := SC_FAILED, sc_result := Some result,
     sc_reason := Some reason, sc_processedAt := Some (now c)\<rparr>"

text \<open>The \<open>try\<close> block.\<close>

definition processPendingScan :: "env \<Rightarrow> scan_event \<Rightarrow> (store, raw_answer) act" where
  "processPendingScan c sc =
    bindA (reads (ensureEventCanBeModified (sc_eventId sc))) (\<lambda>event.
    bindA (reads (ensureActiveDevice (sc_deviceId sc) (sc_eventId sc))) (\<lambda>device.
    bindA (reads (ensureActiveStaffSession (sc_staffSessionId sc) (sc_eventId sc))) (\<lambda>staffSession.
    bindA (reads (ensureActiveCheckpoint (sc_checkpointId sc) (sc_eventId sc))) (\<lambda>checkpoint.
    let touch = touchActivity c (dv_id device) (map_option ss_id staffSession) in
    bindA (reads (validateQrForScan c (dto_qrToken (dto_of_scan sc)) (sc_eventId sc))) (\<lambda>qrContext.
    case qrContext of
      PendingReference offlineQrToken payload registrationId \<Rightarrow>
        bindA (createPendingOfflineReferenceScanFromOnlineScan c (dto_of_scan sc) offlineQrToken payload
                 registrationId) (\<lambda>_.
        bindA (update_scan (sc_id sc) (mark_failed c WARNING ''OFFLINE_REGISTRATION_NOT_SYNCED'')) (\<lambda>updated.
        bindA touch (\<lambda>_. ret (RawWaiting updated))))
    | PendingOffline verified \<Rightarrow>
        bindA (createPendingOfflineScanFromOnlineScan c (dto_of_scan sc) verified) (\<lambda>_.
        bindA (update_scan (sc_id sc) (mark_failed c WARNING ''OFFLINE_QR_PENDING_SYNC'')) (\<lambda>updated.
        bindA touch (\<lambda>_. ret (RawProvisional updated))))
    | InvalidQr why payload qrTokenId registrationId \<Rightarrow>
        bindA (updateInvalidRawScan c (sc_id sc) (toScanDenialReason why) payload qrTokenId registrationId)
          (\<lambda>updated. bindA touch (\<lambda>_. ret (RawRefused (toScanDenialReason why) updated)))
    | ValidQr q r a payload \<Rightarrow>
        bindA (gets (scan_reason event checkpoint a (rg_id r) (sc_type sc))) (\<lambda>reason.
        bindA (updateRawScanAndCreateMovement c sc q r payload (reason_result reason) reason)
          (\<lambda>(updated, m). bindA touch (\<lambda>_.
            ret (RawDecided (reason_result reason = ALLOWED) reason updated m))))
    )))))"

definition processRawScan :: "env \<Rightarrow> id \<Rightarrow> (store, raw_answer) act" where
  "processRawScan c scanEventRawId =
    bindA (gets (find_scan scanEventRawId)) (\<lambda>found. case found of
      None \<Rightarrow> ret RawNotFound
    | Some sc \<Rightarrow>
        if sc_status sc \<noteq> SC_PENDING then ret (RawNotPending (sc_status sc))
        else catch (processPendingScan c sc) (\<lambda>error.
          bindA (update_scan (sc_id sc) (mark_failed c DENIED (err_message error)))
            (\<lambda>updated. ret (RawFailed updated))))"

definition findRawScan :: "id \<Rightarrow> store \<Rightarrow> scan_event res" where
  "findRawScan i s = (case find_scan i s of
     None \<Rightarrow> Inl (NotFound ''Raw scan event not found'') | Some sc \<Rightarrow> Inr sc)"

definition findMovement :: "id \<Rightarrow> store \<Rightarrow> movement res" where
  "findMovement i s = (case lookup_by mv_id i (movements s) of
     None \<Rightarrow> Inl (NotFound ''Movement not found'') | Some m \<Rightarrow> Inr m)"

section \<open>Offline scans\<close>

record offline_input =
  oi_operationId :: string
  oi_eventId :: id
  oi_scannerDeviceId :: id
  oi_staffSessionId :: "id option"
  oi_checkpointId :: id
  oi_signedOfflineQr :: string
  oi_offlineQrToken :: "string option"
  oi_regOperationId :: "string option"
  oi_movementType :: movement_type
  oi_scannedAt :: time
  oi_localResult :: "string option"

datatype offline_answer =
    OffConflict offline_scan
  | OffPending offline_scan
  | OffDuplicate offline_scan
  | OffFailed offline_scan
  | OffProcessed bool string offline_scan scan_event movement

definition stored_payload :: "offline_scan \<Rightarrow> fields" where
  "stored_payload os = (case os_qrPayload os of JObj fs \<Rightarrow> fs | _ \<Rightarrow> [])"

definition offline_input_type :: "offline_scan \<Rightarrow> string" where
  "offline_input_type os =
    (case str_of (obj_get (stored_payload os) ''inputType'') of
       Some t \<Rightarrow> t
     | None \<Rightarrow> if truthy (os_qrPayloadHash os) then ''OFFLINE_SIGNED'' else ''OFFLINE_REFERENCE'')"

definition mapping_for_scan :: "offline_scan \<Rightarrow> mapping_row \<Rightarrow> bool" where
  "mapping_for_scan os m = (mp_eventId m = os_eventId os \<and>
     (mp_offlineQrToken m = os_offlineQrToken os \<or> os_regOperationId os = Some (mp_operationId m)) \<and>
     mp_registrationId m \<noteq> None)"

definition getCanonicalContextForOfflineScan ::
    "offline_scan \<Rightarrow> store \<Rightarrow> (qr_token \<times> registration \<times> attendee_type \<times> fields) option res" where
  "getCanonicalContextForOfflineScan os s =
    (case find_row (mapping_for_scan os) (mappings s) of
       None \<Rightarrow> Inr None
     | Some m \<Rightarrow>
         if \<not> truthy (mp_registrationId m) then Inr None
         else (case find_row (\<lambda>q. opt_matches (mp_canonicalQrTokenId m) (qr_id q) \<and>
                   Some (qr_registrationId q) = mp_registrationId m \<and> qr_status q = QR_ACTIVE) (qrTokens s) of
             None \<Rightarrow> Inl (BadRequest ''Canonical QR token not found'')
           | Some q \<Rightarrow>
               bindE (registration_with_type (qr_registrationId q) s) (\<lambda>(r, a).
               Inr (Some (q, r, a, set_field ''canonicalTokenId'' (JStr (qr_tokenId q))
                 (set_field ''inputType'' (JStr (offline_input_type os)) (stored_payload os)))))))"

definition dto_of_offline :: "offline_scan \<Rightarrow> scan_dto" where
  "dto_of_offline os = \<lparr>dto_operationId = os_operationId os, dto_eventId = os_eventId os,
     dto_deviceId = os_scannerDeviceId os, dto_staffSessionId = os_staffSessionId os,
     dto_checkpointId = Some (os_checkpointId os), dto_qrToken = os_offlineQrToken os,
     dto_type = os_movementType os, dto_scannedAt = os_scannedAtDevice os,
     dto_payload = Some (JObj [(''inputType'', JStr (offline_input_type os)),
       (''localResult'', json_or_null (map_option JStr (os_localResult os)))])\<rparr>"

text \<open>From the guards on: the registration is known and no movement has been recorded.\<close>

definition decideOfflineScan :: "env \<Rightarrow> offline_scan \<Rightarrow> scan_event option \<Rightarrow> qr_token \<Rightarrow> registration \<Rightarrow>
    attendee_type \<Rightarrow> fields \<Rightarrow> (store, offline_answer) act" where
  "decideOfflineScan c os existingRawScan q r a payload =
    bindA (reads (ensureEventCanBeModified (os_eventId os))) (\<lambda>event.
    bindA (reads (ensureActiveDevice (os_scannerDeviceId os) (os_eventId os))) (\<lambda>_.
    bindA (reads (ensureStaffSessionForOfflineReplay (os_staffSessionId os) (os_eventId os)
      (os_scannerDeviceId os) (os_checkpointId os))) (\<lambda>staffSession.
    bindA (reads (ensureActiveCheckpoint (Some (os_checkpointId os)) (os_eventId os))) (\<lambda>checkpoint.
    bindA (gets (scan_reason event checkpoint a (rg_id r) (os_movementType os))) (\<lambda>reason.
    let result = reason_result reason in
    bindA (case existingRawScan of
        Some sc \<Rightarrow> updateRawScanAndCreateMovement c sc q r payload result reason
      | None \<Rightarrow> createProcessedScanAndMovement c (dto_of_offline os) q r payload result reason)
      (\<lambda>(sc, m).
    bindA (update_offline_scan (os_id os) (\<lambda>x. x\<lparr>os_status := OS_PROCESSED,
      os_registrationId := Some (rg_id r), os_movementId := Some (mv_id m),
      os_scanEventRawId := Some (sc_id sc), os_syncedAt := Some (now c)\<rparr>)) (\<lambda>updated.
    bindA (touchActivity c (os_scannerDeviceId os) (map_option ss_id staffSession)) (\<lambda>_.
    ret (OffProcessed (result = ALLOWED) reason updated sc m)))))))))"

definition processOfflineScanOperation :: "env \<Rightarrow> id \<Rightarrow> (store, offline_answer) act" where
  "processOfflineScanOperation c offlineScanOperationId =
    bindA (gets (find_offline_scan offlineScanOperationId)) (\<lambda>found. case found of
      None \<Rightarrow> throw (NotFound ''Offline scan operation not found'')
    | Some os \<Rightarrow>
        if os_status os = OS_PROCESSED \<and> truthy (os_movementId os) then ret (OffDuplicate os)
        else
          bindA (gets (find_scan_by_op (os_operationId os))) (\<lambda>existingRawScan.
          bindA (gets (\<lambda>s. Option.bind existingRawScan (\<lambda>sc. movement_of_scan (sc_id sc) s))) (\<lambda>movementLog.
          case (existingRawScan, movementLog) of
            (Some sc, Some m) \<Rightarrow>
              bindA (update_offline_scan (os_id os) (\<lambda>x. x\<lparr>os_status := OS_PROCESSED,
                os_scanEventRawId := Some (sc_id sc), os_movementId := Some (mv_id m),
                os_registrationId := sc_registrationId sc, os_syncedAt := Some (now c)\<rparr>))
                (\<lambda>updated. ret (OffDuplicate updated))
          | _ \<Rightarrow>
              bindA (reads (getCanonicalContextForOfflineScan os)) (\<lambda>qrContext. case qrContext of
                None \<Rightarrow> ret (OffPending os)
              | Some (q, r, a, payload) \<Rightarrow> decideOfflineScan c os existingRawScan q r a payload))))"

text \<open>A first submission and a repeated one.\<close>

definition newOfflineScan :: "env \<Rightarrow> offline_input \<Rightarrow> verified_qr \<Rightarrow> string \<Rightarrow> mapping_row option \<Rightarrow>
    (store, offline_answer) act" where
  "newOfflineScan c input verified offlineQrToken mapping =
    (let payload = vq_payload verified;
         registrationId = Option.bind mapping mp_registrationId;
         linked = truthy registrationId in
     bindA (create_offline_scan c (\<lambda>i. \<lparr>os_id = i, os_operationId = oi_operationId input,
       os_eventId = oi_eventId input, os_scannerDeviceId = oi_scannerDeviceId input,
       os_checkpointId = oi_checkpointId input, os_staffSessionId = oi_staffSessionId input,
       os_offlineQrToken = offlineQrToken,
       os_regOperationId = (case oi_regOperationId input of Some o' \<Rightarrow> Some o'
         | None \<Rightarrow> Some (str_field payload ''offlineRegistrationOperationId'')),
       os_issuerDeviceId = Some (str_field payload ''issuerDeviceId''),
       os_issuerKeyVersion = Some (int_field payload ''issuerKeyVersion''),
       os_scannedAtDevice = oi_scannedAt input, os_movementType = oi_movementType input,
       os_localResult = oi_localResult input, os_qrPayload = JObj payload,
       os_qrPayloadHash = Some (vq_payloadHash verified),
       os_status = (if linked then OS_LINKED else OS_PENDING_LINK), os_registrationId = registrationId,
       os_movementId = None, os_scanEventRawId = None, os_conflictCode = None,
       os_conflictMessage = None, os_syncedAt = Some (now c)\<rparr>)) (\<lambda>os.
     if \<not> linked then ret (OffPending os) else processOfflineScanOperation c (os_id os)))"

definition repeatedOfflineScan :: "env \<Rightarrow> offline_input \<Rightarrow> verified_qr \<Rightarrow> mapping_row option \<Rightarrow>
    offline_scan \<Rightarrow> (store, offline_answer) act" where
  "repeatedOfflineScan c input verified mapping existing =
    (let registrationId = Option.bind mapping mp_registrationId in
     if truthy (os_qrPayloadHash existing) \<and> os_qrPayloadHash existing \<noteq> Some (vq_payloadHash verified)
     then bindA (update_offline_scan (os_id existing) (\<lambda>x. x\<lparr>os_status := OS_CONFLICTED,
            os_conflictCode := Some ''OFFLINE_SCAN_CONFLICT'',
            os_conflictMessage := Some (''Same offline scan operationId was submitted '' @
              ''with a different signed QR payload'')\<rparr>)) (\<lambda>conflicted. ret (OffConflict conflicted))
     else if truthy registrationId \<and> os_status existing \<noteq> OS_PROCESSED \<and> os_status existing \<noteq> OS_CONFLICTED
     then bindA (update_offline_scan (os_id existing) (\<lambda>x. x\<lparr>os_status := OS_LINKED,
            os_registrationId := registrationId, os_conflictCode := None, os_conflictMessage := None,
            os_staffSessionId := (case oi_staffSessionId input of Some t \<Rightarrow> Some t
              | None \<Rightarrow> os_staffSessionId existing)\<rparr>))
            (\<lambda>_. processOfflineScanOperation c (os_id existing))
     else if os_status existing = OS_PENDING_LINK \<or> os_status existing = OS_FAILED
     then ret (OffPending existing)
     else ret (OffDuplicate existing))"

definition ingestOfflineScan :: "env \<Rightarrow> offline_input \<Rightarrow> (store, offline_answer) act" where
  "ingestOfflineScan c input =
    bindA (reads (verifySignedOfflineQr c (oi_signedOfflineQr input) (Some (oi_eventId input)))) (\<lambda>verified.
    let badgeToken = str_field (vq_payload verified) ''offlineQrToken'';
        offlineQrToken = (case oi_offlineQrToken input of Some t \<Rightarrow> t | None \<Rightarrow> badgeToken) in
    if \<not> tokensEqual offlineQrToken badgeToken then throw (BadRequest ''Offline scan token mismatch'')
    else
      bindA (reads (ensureEventCanBeModified (oi_eventId input))) (\<lambda>_.
      bindA (reads (ensureActiveDevice (oi_scannerDeviceId input) (oi_eventId input))) (\<lambda>_.
      bindA (reads (ensureActiveStaffSession (oi_staffSessionId input) (oi_eventId input))) (\<lambda>_.
      bindA (reads (ensureActiveCheckpoint (Some (oi_checkpointId input)) (oi_eventId input))) (\<lambda>_.
      bindA (gets (find_offline_scan_by_op (oi_operationId input))) (\<lambda>existing.
      bindA (gets (find_mapping_by_token offlineQrToken)) (\<lambda>mapping.
      case existing of
        Some os \<Rightarrow> repeatedOfflineScan c input verified mapping os
      | None \<Rightarrow> newOfflineScan c input verified offlineQrToken mapping)))))))"

section \<open>Reconciliation\<close>

definition waits_for :: "id \<Rightarrow> string \<Rightarrow> string \<Rightarrow> offline_scan \<Rightarrow> bool" where
  "waits_for eventId offlineQrToken regOperationId os = (os_eventId os = eventId \<and>
     os_status os \<in> {OS_PENDING_LINK, OS_LINKED, OS_FAILED} \<and>
     (os_offlineQrToken os = offlineQrToken \<or> os_regOperationId os = Some regOperationId))"

definition reconcileOne :: "env \<Rightarrow> id \<Rightarrow> offline_scan \<Rightarrow> (store, offline_answer) act" where
  "reconcileOne c registrationId os =
    catch
      (bindA (update_offline_scan (os_id os) (\<lambda>x. x\<lparr>os_status := OS_LINKED,
         os_registrationId := Some registrationId\<rparr>)) (\<lambda>_. processOfflineScanOperation c (os_id os)))
      (\<lambda>error.
         bindA (update_offline_scan (os_id os) (\<lambda>x. x\<lparr>os_status := OS_FAILED,
           os_conflictCode := Some ''OFFLINE_RECONCILIATION_FAILED'',
           os_conflictMessage := Some (err_message error)\<rparr>)) (\<lambda>failed. ret (OffFailed failed)))"

definition reconcileOfflineRegistration :: "env \<Rightarrow> id \<Rightarrow> string \<Rightarrow> string \<Rightarrow> id \<Rightarrow>
    (store, offline_answer list) act" where
  "reconcileOfflineRegistration c eventId offlineQrToken regOperationId registrationId =
    bindA (gets (\<lambda>s. sort_key os_scannedAtDevice
      (filter (waits_for eventId offlineQrToken regOperationId) (offlineScans s)))) (\<lambda>pendingScans.
    forA pendingScans (reconcileOne c registrationId))"

end
