(* ===== verification/ScanInv.thy ===== *)
theory ScanInv
  imports ScanOffline
begin

text \<open>
  The invariant of the scan and movement tables, and that every operation of the scans service
  keeps it, whatever it answers or throws: operation ids are unique, a scan has at most one
  movement, a scan is \<open>PROCESSED\<close> exactly when it has one and then agrees with it, and where
  re-entry is not allowed a registration has at most one admitted entry.
\<close>

section \<open>The invariant\<close>

definition agrees :: "scan_event \<Rightarrow> movement \<Rightarrow> bool" where
  "agrees sc m = (sc_id sc = mv_scanEventRawId m \<and> sc_status sc = SC_PROCESSED \<and>
     sc_result sc = Some (mv_result m) \<and> sc_registrationId sc = Some (mv_registrationId m) \<and>
     sc_eventId sc = mv_eventId m \<and> sc_type sc = mv_type m)"

definition single_entry :: "event_row list \<Rightarrow> movement list \<Rightarrow> bool" where
  "single_entry evs mvs = (\<forall>e \<in> set evs. \<not> ev_allowReEntry e \<longrightarrow>
     (\<forall>r. count_rows (has_entered (ev_id e) r) mvs \<le> 1))"

definition scan_tables :: "env \<Rightarrow> nat \<Rightarrow> event_row list \<Rightarrow> scan_event list \<Rightarrow> movement list \<Rightarrow> bool" where
  "scan_tables c n evs scs mvs =
    (distinct (map ev_id evs) \<and> distinct (map sc_id scs) \<and> distinct (map sc_operationId scs) \<and>
     distinct (map mv_scanEventRawId mvs) \<and>
     (\<forall>sc \<in> set scs. \<exists>k < n. sc_id sc = cuid c k) \<and>
     (\<forall>m \<in> set mvs. \<exists>sc \<in> set scs. agrees sc m) \<and>
     (\<forall>sc \<in> set scs. sc_status sc = SC_PROCESSED \<longrightarrow> (\<exists>m \<in> set mvs. mv_scanEventRawId m = sc_id sc)) \<and>
     single_entry evs mvs)"

definition scan_inv :: "env \<Rightarrow> store \<Rightarrow> bool" where
  "scan_inv c s = scan_tables c (next_id s) (events s) (scans s) (movements s)"

lemma scan_tables_mono: "scan_tables c n evs scs mvs \<Longrightarrow> n \<le> m \<Longrightarrow> scan_tables c m evs scs mvs"
  unfolding scan_tables_def by (meson order_less_le_trans)

lemma scan_inv_frame [simp]:
  "scan_inv c (s\<lparr>devices := d\<rparr>) = scan_inv c s" "scan_inv c (s\<lparr>staffSessions := x\<rparr>) = scan_inv c s"
  "scan_inv c (s\<lparr>offlineScans := os\<rparr>) = scan_inv c s" "scan_inv c (add_job j s) = scan_inv c s"
  by (simp_all add: scan_inv_def add_job_def)

lemma scan_inv_id: "scan_inv c s \<Longrightarrow> scan_inv c (s\<lparr>next_id := Suc (next_id s)\<rparr>)"
  using scan_tables_mono by (simp add: scan_inv_def)

section \<open>The writes\<close>

lemma new_scan_id:
  assumes "scan_tables c n evs scs mvs" and "id_law c" and "sc \<in> set scs"
  shows "sc_id sc \<noteq> cuid c n"
  using assms by (auto simp: scan_tables_def id_law_def inj_eq)

lemma no_movement:
  "movement_of_scan i s = None \<longleftrightarrow> (\<forall>m \<in> set (movements s). mv_scanEventRawId m \<noteq> i)"
  by (auto simp: movement_of_scan_def lookup_by_None)

lemma tables_add_scan:
  assumes inv: "scan_tables c n evs scs mvs" and law: "id_law c"
    and sc: "sc_id sc = cuid c n" "sc_operationId sc \<notin> sc_operationId ` set scs" "sc_status sc \<noteq> SC_PROCESSED"
  shows "scan_tables c (Suc n) evs (append_row sc scs) mvs"
  using inv sc new_scan_id [OF inv law]
  by (auto simp: scan_tables_def less_Suc_eq)

lemma tables_update_scan:
  assumes inv: "scan_tables c n evs scs mvs" and free: "\<forall>m \<in> set mvs. mv_scanEventRawId m \<noteq> i"
    and f: "\<And>x. sc_id (f x) = sc_id x" "\<And>x. sc_operationId (f x) = sc_operationId x"
      "\<And>x. sc_status (f x) \<noteq> SC_PROCESSED"
  shows "scan_tables c n evs (update_by sc_id i f scs) mvs"
proof -
  have "\<exists>sc' \<in> set (update_by sc_id i f scs). agrees sc' m" if "m \<in> set mvs" "sc \<in> set scs" "agrees sc m" for m sc
    using that free by (auto simp: set_update_by agrees_def intro!: bexI [of _ sc])
  then show ?thesis
    using inv f by (auto simp: scan_tables_def map_update_by set_update_by)
qed

lemma tables_delete_scan:
  assumes inv: "scan_tables c n evs scs mvs" and free: "\<forall>m \<in> set mvs. mv_scanEventRawId m \<noteq> i"
  shows "scan_tables c n evs (delete_rows (\<lambda>x. sc_id x = i) scs) mvs"
  using inv free
  by (auto simp: scan_tables_def distinct_map_delete_rows set_delete_rows agrees_def) metis

text \<open>An admitted entry is recorded only where it may be.\<close>

definition entry_allowed :: "event_row list \<Rightarrow> movement list \<Rightarrow> movement \<Rightarrow> bool" where
  "entry_allowed evs mvs m = (mv_type m = MV_ENTRY \<and> mv_result m = ALLOWED \<longrightarrow>
     (\<forall>e \<in> set evs. ev_id e = mv_eventId m \<longrightarrow> ev_allowReEntry e \<or>
        \<not> exists_row (has_entered (ev_id e) (mv_registrationId m)) mvs))"

lemma single_entry_add:
  assumes "single_entry evs mvs" and "entry_allowed evs mvs m"
  shows "single_entry evs (append_row m mvs)"
proof (unfold single_entry_def, intro ballI impI allI)
  fix e r assume e: "e \<in> set evs" "\<not> ev_allowReEntry e"
  show "count_rows (has_entered (ev_id e) r) (append_row m mvs) \<le> 1"
  proof (cases "has_entered (ev_id e) r m")
    case True
    then have "\<not> exists_row (has_entered (ev_id e) r) mvs"
      using assms(2) e by (auto simp: entry_allowed_def has_entered_def)
    then have "count_rows (has_entered (ev_id e) r) mvs = 0"
      by (auto simp: count_rows_def exists_row_iff filter_empty_conv)
    then show ?thesis by (simp add: count_rows_def append_row_def)
  next
    case False
    then show ?thesis using assms(1) e by (simp add: count_rows_def append_row_def single_entry_def)
  qed
qed

lemma tables_add_movement:
  assumes inv: "scan_tables c n evs scs mvs" and law: "id_law c"
    and sc: "sc_id sc = cuid c n" "sc_operationId sc \<notin> sc_operationId ` set scs" "agrees sc m"
    and entry: "entry_allowed evs mvs m"
  shows "scan_tables c (Suc (Suc n)) evs (append_row sc scs) (append_row m mvs)"
proof -
  have new: "sc_id x \<noteq> sc_id sc" if "x \<in> set scs" for x using new_scan_id [OF inv law that] sc(1) by simp
  then have "mv_scanEventRawId x \<noteq> mv_scanEventRawId m" if "x \<in> set mvs" for x
    using that inv sc(3) by (fastforce simp: scan_tables_def agrees_def)
  moreover have "single_entry evs (append_row m mvs)"
    using inv entry by (intro single_entry_add) (auto simp: scan_tables_def)
  ultimately show ?thesis
    using inv sc new by (auto simp: scan_tables_def less_Suc_eq agrees_def)
qed

lemma tables_update_movement:
  assumes inv: "scan_tables c n evs scs mvs" and sc: "sc \<in> set scs" and free: "\<forall>x \<in> set mvs. mv_scanEventRawId x \<noteq> sc_id sc"
    and f: "\<And>x. sc_id (f x) = sc_id x" "\<And>x. sc_operationId (f x) = sc_operationId x"
    and ag: "agrees (f sc) m" and entry: "entry_allowed evs mvs m"
  shows "scan_tables c (Suc n) evs (update_by sc_id (sc_id sc) f scs) (append_row m mvs)"
proof -
  have only: "x = sc" if "x \<in> set scs" "sc_id x = sc_id sc" for x
    using that sc inv distinct_key_inj [of sc_id scs x sc] by (simp add: scan_tables_def)
  have id: "mv_scanEventRawId m = sc_id sc" using ag f by (simp add: agrees_def)
  have "\<exists>y \<in> set (update_by sc_id (sc_id sc) f scs). agrees y x" if "x \<in> set (append_row m mvs)" for x
  proof (cases "x = m")
    case True
    then show ?thesis using sc ag by (auto simp: set_update_by intro!: bexI [of _ "f sc"])
  next
    case False
    then have x: "x \<in> set mvs" using that by simp
    then obtain y where "y \<in> set scs" "agrees y x" using inv by (auto simp: scan_tables_def)
    then show ?thesis using free x by (auto simp: set_update_by agrees_def intro!: bexI [of _ y])
  qed
  moreover have "single_entry evs (append_row m mvs)"
    using inv entry by (intro single_entry_add) (auto simp: scan_tables_def)
  moreover have "\<exists>x \<in> set (append_row m mvs). mv_scanEventRawId x = sc_id y"
    if "y \<in> set (update_by sc_id (sc_id sc) f scs)" "sc_status y = SC_PROCESSED" for y
    using that inv id f by (auto simp: set_update_by scan_tables_def)
  moreover have "\<exists>k < Suc n. sc_id y = cuid c k" if "y \<in> set (update_by sc_id (sc_id sc) f scs)" for y
    using that inv f(1) by (auto simp: set_update_by scan_tables_def) (metis less_SucI)+
  ultimately show ?thesis
    using inv free id f by (auto simp: scan_tables_def map_update_by)
qed

section \<open>The operations\<close>

abbreviation keeps_inv :: "env \<Rightarrow> (store, 'a) act \<Rightarrow> store \<Rightarrow> bool" where
  "keeps_inv c m s \<equiv> within (keeps (scan_inv c)) m s"

lemma keeps_invI: "(scan_inv c s \<Longrightarrow> scan_inv c (snd (m s))) \<Longrightarrow> keeps_inv c m s"
  by (simp add: within_def keeps_def)

lemma keeps_touch: "keeps_inv c (touchActivity c d x) s"
proof (rule keeps_invI)
  assume "scan_inv c s"
  then show "scan_inv c (snd (touchActivity c d x s))"
    by (simp add: touchActivity_def modify_def scan_inv_def)
qed

lemma keeps_update_offline: "keeps_inv c (update_offline_scan i f) s"
  by (rule keeps_invI) (auto simp: update_offline_scan_def act_simps split: option.splits)

lemma keeps_create_offline: "keeps_inv c (create_offline_scan c row) s"
  using scan_inv_id
  by (intro keeps_invI)
    (auto simp: create_offline_scan_def bindA_def new_id_def gets_def throw_def modify_def ret_def)

lemma keeps_pending_reference: "keeps_inv c (createPendingOfflineReferenceScanFromOnlineScan c dto t p r) s"
  unfolding createPendingOfflineReferenceScanFromOnlineScan_def
  by (intro keeps.within_rules keeps_create_offline)

lemma keeps_pending_offline: "keeps_inv c (createPendingOfflineScanFromOnlineScan c dto v) s"
  unfolding createPendingOfflineScanFromOnlineScan_def Let_def
  by (intro keeps.within_rules keeps_create_offline)

lemma keeps_create_scan:
  assumes "id_law c" and "\<And>i. sc_id (row i) = i" and "\<And>i. sc_status (row i) \<noteq> SC_PROCESSED"
  shows "keeps_inv c (create_scan c row) s"
proof (rule keeps_invI)
  assume inv: "scan_inv c s"
  let ?r = "row (cuid c (next_id s))"
  show "scan_inv c (snd (create_scan c row s))"
  proof (cases "find_scan_by_op (sc_operationId ?r) s")
    case None
    then have "sc_operationId ?r \<notin> sc_operationId ` set (scans s)"
      by (simp add: find_scan_by_op_def lookup_by_None)
    then have "scan_tables c (Suc (next_id s)) (events s) (append_row ?r (scans s)) (movements s)"
      using inv assms by (intro tables_add_scan) (auto simp: scan_inv_def)
    then show ?thesis using None
      by (simp add: create_scan_def bindA_def new_id_def gets_def modify_def ret_def scan_inv_def find_scan_by_op_def)
  next
    case (Some x)
    then show ?thesis using scan_inv_id [OF inv]
      by (simp add: create_scan_def bindA_def new_id_def gets_def throw_def find_scan_by_op_def)
  qed
qed

lemma keeps_invalid: "id_law c \<Longrightarrow> keeps_inv c (createInvalidScan c dto reason p q r) s"
  unfolding createInvalidScan_def by (rule keeps_create_scan) simp_all

lemma keeps_update_scan:
  assumes "movement_of_scan i s = None"
    and "\<And>x. sc_id (f x) = sc_id x" "\<And>x. sc_operationId (f x) = sc_operationId x"
      "\<And>x. sc_status (f x) \<noteq> SC_PROCESSED"
  shows "keeps_inv c (update_scan i f) s"
proof (rule keeps_invI)
  assume inv: "scan_inv c s"
  have "scan_tables c (next_id s) (events s) (update_by sc_id i f (scans s)) (movements s)"
    using inv assms by (intro tables_update_scan) (auto simp: scan_inv_def no_movement)
  with inv show "scan_inv c (snd (update_scan i f s))"
    by (auto simp: update_scan_def act_simps scan_inv_def split: option.splits)
qed

lemma keeps_update_invalid:
  "movement_of_scan i s = None \<Longrightarrow> keeps_inv c (updateInvalidRawScan c i reason p q r) s"
  unfolding updateInvalidRawScan_def by (rule keeps_update_scan) simp_all

lemma keeps_mark_failed:
  "movement_of_scan i s = None \<Longrightarrow> keeps_inv c (update_scan i (mark_failed c res reason)) s"
  by (rule keeps_update_scan) (simp_all add: mark_failed_def)

text \<open>The decision leaves room for the movement.\<close>

definition entry_ok :: "store \<Rightarrow> id \<Rightarrow> id \<Rightarrow> movement_type \<Rightarrow> movement_result \<Rightarrow> bool" where
  "entry_ok s eventId registrationId type result = (type = MV_ENTRY \<and> result = ALLOWED \<longrightarrow>
     (\<forall>e \<in> set (events s). ev_id e = eventId \<longrightarrow> ev_allowReEntry e \<or>
        \<not> exists_row (has_entered (ev_id e) registrationId) (movements s)))"

lemma scan_reason_entry:
  assumes "ensureEventCanBeModified eventId s = Inr event" and "scan_inv c s"
  shows "entry_ok s eventId rid type (reason_result (scan_reason event cp a rid type s))"
proof (unfold entry_ok_def, intro impI ballI)
  fix e assume r: "type = MV_ENTRY \<and> reason_result (scan_reason event cp a rid type s) = ALLOWED"
    and e: "e \<in> set (events s)" "ev_id e = eventId"
  have "event \<in> set (events s)" "ev_id event = eventId"
    using assms(1) by (auto simp: ensureEventCanBeModified_Inr dest: find_in(2))
  then have "e = event"
    using e assms(2) distinct_key_inj [of ev_id "events s" e event] by (simp add: scan_inv_def scan_tables_def)
  with r show "ev_allowReEntry e \<or> \<not> exists_row (has_entered (ev_id e) rid) (movements s)"
    by (auto simp: scan_reason_def reason_result_def getReentryDenial_def getCheckpointAccessDenial_def Let_def
          split: option.splits if_splits json.splits)
qed

lemma keeps_create_processed:
  assumes law: "id_law c" and ok: "entry_ok s (dto_eventId dto) (rg_id r) (dto_type dto) result"
  shows "keeps_inv c (createProcessedScanAndMovement c dto q r p result reason) s"
proof (rule keeps_invI)
  assume inv: "scan_inv c s"
  let ?sc = "\<lparr>sc_id = cuid c (next_id s), sc_operationId = dto_operationId dto,
        sc_eventId = dto_eventId dto, sc_deviceId = dto_deviceId dto,
        sc_staffSessionId = dto_staffSessionId dto, sc_checkpointId = dto_checkpointId dto,
        sc_registrationId = Some (rg_id r), sc_qrTokenId = Some (qr_id q), sc_qrPayload = JObj p,
        sc_qrRaw = Some (dto_qrToken dto), sc_type = dto_type dto, sc_status = SC_PROCESSED,
        sc_result = Some result, sc_reason = Some reason, sc_scannedAtDevice = dto_scannedAt dto,
        sc_processedAt = Some (now c), sc_payload = json_or_null (dto_payload dto)\<rparr>"
  let ?m = "\<lparr>mv_id = cuid c (Suc (next_id s)), mv_eventId = dto_eventId dto,
        mv_registrationId = rg_id r, mv_qrTokenId = Some (qr_id q), mv_scanEventRawId = sc_id ?sc,
        mv_deviceId = dto_deviceId dto, mv_staffSessionId = dto_staffSessionId dto,
        mv_checkpointId = dto_checkpointId dto, mv_type = dto_type dto, mv_result = result,
        mv_reason = Some reason, mv_occurredAt = dto_scannedAt dto\<rparr>"
  show "scan_inv c (snd (createProcessedScanAndMovement c dto q r p result reason s))"
  proof (cases "find_scan_by_op (dto_operationId dto) s = None")
    case True
    then have fresh: "dto_operationId dto \<notin> sc_operationId ` set (scans s)"
      by (simp add: find_scan_by_op_def lookup_by_None)
    have ag: "agrees ?sc ?m" by (simp add: agrees_def)
    have "entry_allowed (events s) (movements s) ?m" using ok by (simp add: entry_ok_def entry_allowed_def)
    then have new: "scan_tables c (Suc (Suc (next_id s))) (events s) (append_row ?sc (scans s))
        (append_row ?m (movements s))"
      using inv fresh ag by (intro tables_add_movement [OF _ law]) (simp_all add: scan_inv_def)
    have "mv_scanEventRawId x \<noteq> cuid c (next_id s)" if x: "x \<in> set (movements s)" for x
    proof -
      obtain y where "y \<in> set (scans s)" "agrees y x" using x inv by (auto simp: scan_inv_def scan_tables_def)
      then show ?thesis using inv new_scan_id [OF _ law, of "next_id s" "events s" "scans s" "movements s" y]
        by (simp add: scan_inv_def agrees_def)
    qed
    then have "lookup_by mv_scanEventRawId (cuid c (next_id s)) (movements s) = None"
      by (simp add: lookup_by_def find_row_None)
    then show ?thesis using True new
      by (simp add: createProcessedScanAndMovement_def transaction_def create_scan_def create_movement_def
            bindA_def new_id_def gets_def modify_def ret_def find_scan_by_op_def movement_of_scan_def scan_inv_def)
  next
    case False
    then show ?thesis using inv
      by (simp add: createProcessedScanAndMovement_def transaction_def create_scan_def
            bindA_def new_id_def gets_def throw_def find_scan_by_op_def)
  qed
qed

lemma keeps_update_processed:
  assumes ok: "entry_ok s (sc_eventId sc) (rg_id r) (sc_type sc) result"
    and sc: "sc \<in> set (scans s)" and free: "movement_of_scan (sc_id sc) s = None"
  shows "keeps_inv c (updateRawScanAndCreateMovement c sc q r p result reason) s"
proof (rule keeps_invI)
  assume inv: "scan_inv c s"
  let ?f = "\<lambda>x. x\<lparr>sc_registrationId := Some (rg_id r),
        sc_qrTokenId := Some (qr_id q), sc_qrPayload := JObj p, sc_status := SC_PROCESSED,
        sc_result := Some result, sc_reason := Some reason, sc_processedAt := Some (now c)\<rparr>"
  let ?m = "\<lparr>mv_id = cuid c (next_id s), mv_eventId = sc_eventId sc, mv_registrationId = rg_id r,
        mv_qrTokenId = Some (qr_id q), mv_scanEventRawId = sc_id sc, mv_deviceId = sc_deviceId sc,
        mv_staffSessionId = sc_staffSessionId sc, mv_checkpointId = sc_checkpointId sc,
        mv_type = sc_type sc, mv_result = result, mv_reason = Some reason,
        mv_occurredAt = sc_scannedAtDevice sc\<rparr>"
  have found: "find_scan (sc_id sc) s = Some sc"
    using sc inv find_row_unique [of sc_id "scans s" sc]
    by (simp add: find_scan_def lookup_by_def scan_inv_def scan_tables_def)
  have ag: "agrees (?f sc) ?m" by (simp add: agrees_def)
  have entry: "entry_allowed (events s) (movements s) ?m" using ok by (simp add: entry_ok_def entry_allowed_def)
  have "scan_tables c (Suc (next_id s)) (events s) (update_by sc_id (sc_id sc) ?f (scans s))
      (append_row ?m (movements s))"
    using inv free
    by (intro tables_update_movement [where f = ?f and sc = sc, OF _ sc _ _ _ ag entry])
      (simp_all add: scan_inv_def no_movement)
  then show "scan_inv c (snd (updateRawScanAndCreateMovement c sc q r p result reason s))"
    using found free
    by (simp add: updateRawScanAndCreateMovement_def transaction_def update_scan_def create_movement_def
          bindA_def new_id_def gets_def modify_def ret_def movement_of_scan_def scan_inv_def)
qed

lemma within_bind_split:
  "within R (bindA m (\<lambda>x. f (fst x) (snd x))) s \<Longrightarrow> within R (bindA m (\<lambda>(a, b). f a b)) s"
  by (simp add: case_prod_beta')

theorem keeps_ingestNew:
  assumes "id_law c" and "scan_inv c s"
  shows "keeps_inv c (ingestNew c dto) s"
  unfolding ingestNew_def Let_def
proof (intro keeps.within_bind_reads)
  fix event device session cp ctx
  assume ev: "ensureEventCanBeModified (dto_eventId dto) s = Inr event"
  let ?touch = "touchActivity c (dv_id device) (map_option ss_id session)"
  show "keeps_inv c
     (case ctx of
       ValidQr q r a payload \<Rightarrow>
         bindA (gets (scan_reason event cp a (rg_id r) (dto_type dto))) (\<lambda>reason.
         bindA (createProcessedScanAndMovement c dto q r payload (reason_result reason) reason)
           (\<lambda>(sc, m). bindA ?touch (\<lambda>_. ret (Decided (reason_result reason = ALLOWED) reason sc m))))
     | InvalidQr why payload qrTokenId registrationId \<Rightarrow>
         bindA (createInvalidScan c dto (toScanDenialReason why) payload qrTokenId registrationId) (\<lambda>sc.
         bindA ?touch (\<lambda>_. ret (Refused (toScanDenialReason why) sc)))
     | PendingOffline verified \<Rightarrow>
         bindA (createPendingOfflineScanFromOnlineScan c dto verified) (\<lambda>os.
         bindA ?touch (\<lambda>_. ret (AdmittedProvisionally (os_id os)
           (str_field (vq_payload verified) ''offlineQrToken''))))
     | PendingReference tok payload registrationId \<Rightarrow>
         bindA (createPendingOfflineReferenceScanFromOnlineScan c dto tok payload registrationId)
           (\<lambda>os. bindA ?touch (\<lambda>_. ret (WaitingForSync (os_id os) tok)))) s"
  proof (cases ctx)
    case (ValidQr q r a payload)
    have "keeps_inv c (createProcessedScanAndMovement c dto q r payload
        (reason_result (scan_reason event cp a (rg_id r) (dto_type dto) s))
        (scan_reason event cp a (rg_id r) (dto_type dto) s)) s"
      using scan_reason_entry [OF ev assms(2)] by (intro keeps_create_processed assms(1))
    then show ?thesis unfolding ValidQr qr_context.case
      by (intro keeps.within_bind_gets within_bind_split keeps.within_bind keeps_touch keeps.within_ret)
  qed (simp_all, (intro keeps.within_bind keeps_invalid keeps_pending_offline keeps_pending_reference
         keeps_touch keeps.within_ret assms(1))+)
qed

lemma find_scan_in: "find_scan i s = Some sc \<Longrightarrow> sc \<in> set (scans s) \<and> sc_id sc = i"
  "find_scan_by_op j s = Some sc \<Longrightarrow> sc \<in> set (scans s) \<and> sc_operationId sc = j"
  by (auto simp: find_scan_def find_scan_by_op_def dest: lookup_by_Some)

theorem keeps_ingest:
  assumes "id_law c" and "scan_inv c s"
  shows "keeps_inv c (ingest c dto) s"
  unfolding ingest_def
proof (intro keeps.within_bind_gets, cases "find_scan_by_op (dto_operationId dto) s")
  case None
  then show "keeps_inv c (case find_scan_by_op (dto_operationId dto) s of None \<Rightarrow> ingestNew c dto
    | Some sc \<Rightarrow> bindA (gets (movement_of_scan (sc_id sc))) (\<lambda>m.
        if retryable_reference sc m
        then bindA (modify (\<lambda>s. s\<lparr>scans := delete_rows (\<lambda>x. sc_id x = sc_id sc) (scans s)\<rparr>))
               (\<lambda>_. ingestNew c dto)
        else ret (replay_answer sc m))) s"
    using keeps_ingestNew [OF assms] by simp
next
  case (Some sc)
  have "keeps_inv c (bindA (modify (\<lambda>s. s\<lparr>scans := delete_rows (\<lambda>x. sc_id x = sc_id sc) (scans s)\<rparr>))
      (\<lambda>_. ingestNew c dto)) s" if "movement_of_scan (sc_id sc) s = None"
  proof -
    have "scan_tables c (next_id s) (events s) (delete_rows (\<lambda>x. sc_id x = sc_id sc) (scans s)) (movements s)"
      using assms(2) that by (intro tables_delete_scan) (simp_all add: scan_inv_def no_movement)
    then have "scan_inv c (s\<lparr>scans := delete_rows (\<lambda>x. sc_id x = sc_id sc) (scans s)\<rparr>)"
      by (simp add: scan_inv_def)
    from keeps_ingestNew [OF assms(1) this] this show ?thesis
      by (simp add: within_def keeps_def bindA_modify)
  qed
  then show "keeps_inv c (case find_scan_by_op (dto_operationId dto) s of None \<Rightarrow> ingestNew c dto
    | Some sc \<Rightarrow> bindA (gets (movement_of_scan (sc_id sc))) (\<lambda>m.
        if retryable_reference sc m
        then bindA (modify (\<lambda>s. s\<lparr>scans := delete_rows (\<lambda>x. sc_id x = sc_id sc) (scans s)\<rparr>))
               (\<lambda>_. ingestNew c dto)
        else ret (replay_answer sc m))) s"
    unfolding Some option.case
    by (intro keeps.within_bind_gets keeps.within_if keeps.within_ret) (auto simp: retryable_reference_def)
qed

theorem keeps_ingestFast: "id_law c \<Longrightarrow> keeps_inv c (ingestFast c dto) s"
  unfolding ingestFast_def
  by (intro keeps.within_bind_gets keeps.within_option keeps.within_ret keeps.within_bind keeps.within_if
        keeps_create_scan keeps.within_modify) (simp_all add: keeps_def)

text \<open>The pending offline scan that is written first leaves scans and movements alone.\<close>

abbreviation scan_part :: "store \<Rightarrow> scan_event list \<times> movement list" where
  "scan_part s \<equiv> (scans s, movements s)"

lemma same_create_offline: "within (same scan_part) (create_offline_scan c row) s"
  by (simp add: within_def same_def create_offline_scan_def bindA_def new_id_def gets_def throw_def modify_def
        ret_def)

lemma same_pending:
  "within (same scan_part) (createPendingOfflineReferenceScanFromOnlineScan c dto t p r) s"
  "within (same scan_part) (createPendingOfflineScanFromOnlineScan c dto v) s"
  unfolding createPendingOfflineReferenceScanFromOnlineScan_def createPendingOfflineScanFromOnlineScan_def Let_def
  by (intro same.within_rules same_create_offline)+

lemma movement_of_scan_same: "same scan_part s t \<Longrightarrow> movement_of_scan i t = movement_of_scan i s"
  by (simp add: same_def movement_of_scan_def)

text \<open>After the pending row, the scan is marked and the devices touched.\<close>

lemma keeps_mark_after:
  assumes "keeps_inv c m s" and "within (same scan_part) m s" and "movement_of_scan i s = None"
  shows "keeps_inv c (bindA m (\<lambda>_. bindA (update_scan i (mark_failed c res reason)) (\<lambda>u.
    bindA (touchActivity c d x) (\<lambda>_. ret (k u))))) s"
proof (rule keeps.within_bind [OF assms(1)])
  fix a t assume "m s = (Inr a, t)"
  then have "movement_of_scan i t = None"
    using movement_of_scan_same [OF same.within_result [OF assms(2)]] assms(3) by simp
  then show "keeps_inv c (bindA (update_scan i (mark_failed c res reason)) (\<lambda>u.
    bindA (touchActivity c d x) (\<lambda>_. ret (k u)))) t"
    by (intro keeps.within_bind keeps_mark_failed keeps_touch keeps.within_ret)
qed

theorem keeps_processPending:
  assumes "id_law c" and "scan_inv c s" and "sc \<in> set (scans s)" and "movement_of_scan (sc_id sc) s = None"
  shows "keeps_inv c (processPendingScan c sc) s"
  unfolding processPendingScan_def Let_def
proof (intro keeps.within_bind_reads)
  fix event device session cp ctx
  assume ev: "ensureEventCanBeModified (sc_eventId sc) s = Inr event"
  let ?touch = "touchActivity c (dv_id device) (map_option ss_id session)"
  show "keeps_inv c (case ctx of
      ValidQr q r a payload \<Rightarrow>
        bindA (gets (scan_reason event cp a (rg_id r) (sc_type sc))) (\<lambda>reason.
        bindA (updateRawScanAndCreateMovement c sc q r payload (reason_result reason) reason)
          (\<lambda>(updated, m). bindA ?touch (\<lambda>_.
            ret (RawDecided (reason_result reason = ALLOWED) reason updated m))))
    | InvalidQr why payload qrTokenId registrationId \<Rightarrow>
        bindA (updateInvalidRawScan c (sc_id sc) (toScanDenialReason why) payload qrTokenId registrationId)
          (\<lambda>updated. bindA ?touch (\<lambda>_. ret (RawRefused (toScanDenialReason why) updated)))
    | PendingOffline verified \<Rightarrow>
        bindA (createPendingOfflineScanFromOnlineScan c (dto_of_scan sc) verified) (\<lambda>_.
        bindA (update_scan (sc_id sc) (mark_failed c WARNING ''OFFLINE_QR_PENDING_SYNC'')) (\<lambda>updated.
        bindA ?touch (\<lambda>_. ret (RawProvisional updated))))
    | PendingReference offlineQrToken payload registrationId \<Rightarrow>
        bindA (createPendingOfflineReferenceScanFromOnlineScan c (dto_of_scan sc) offlineQrToken payload
                 registrationId) (\<lambda>_.
        bindA (update_scan (sc_id sc) (mark_failed c WARNING ''OFFLINE_REGISTRATION_NOT_SYNCED'')) (\<lambda>updated.
        bindA ?touch (\<lambda>_. ret (RawWaiting updated))))) s"
  proof (cases ctx)
    case (ValidQr q r a payload)
    have "keeps_inv c (updateRawScanAndCreateMovement c sc q r payload
        (reason_result (scan_reason event cp a (rg_id r) (sc_type sc) s))
        (scan_reason event cp a (rg_id r) (sc_type sc) s)) s"
      using scan_reason_entry [OF ev assms(2)] by (intro keeps_update_processed assms(3,4))
    then show ?thesis unfolding ValidQr qr_context.case
      by (intro keeps.within_bind_gets within_bind_split keeps.within_bind keeps_touch keeps.within_ret)
  next
    case (InvalidQr why payload qi ri)
    then show ?thesis using assms(4)
      by (simp, intro keeps.within_bind keeps_update_invalid keeps_touch keeps.within_ret)
  next
    case (PendingOffline v)
    then show ?thesis by (simp, intro keeps_mark_after keeps_pending_offline same_pending assms(4))
  next
    case (PendingReference t p r)
    then show ?thesis by (simp, intro keeps_mark_after keeps_pending_reference same_pending assms(4))
  qed
qed

text \<open>When \<open>processPendingScan\<close> throws, no scan and no movement has been written.\<close>

lemma bind_touch_fail:
  "bindA m (\<lambda>x. bindA (touchActivity c d y) (\<lambda>_. ret (k x))) s = (Inl e, t) \<Longrightarrow> m s = (Inl e, t)"
  by (auto elim!: bindA_InlE simp: touchActivity_def modify_def ret_def)

lemma bind_touch_fail_pair:
  "bindA m (\<lambda>(a, b). bindA (touchActivity c d y) (\<lambda>_. ret (k a b))) s = (Inl e, t) \<Longrightarrow> m s = (Inl e, t)"
  using bind_touch_fail [of m c d y "\<lambda>(a, b). k a b" s e t] by (simp add: case_prod_beta')

lemma transaction_fail: "transaction m s = (Inl e, t) \<Longrightarrow> t = s"
  by (auto simp: transaction_def split: prod.splits sum.splits)

lemma update_scan_fail: "update_scan i f s = (Inl e, t) \<Longrightarrow> t = s"
  by (auto simp: update_scan_def act_simps split: option.splits)

lemma pending_fail:
  assumes "within (same scan_part) m s"
    and "bindA m (\<lambda>_. bindA (update_scan i f) (\<lambda>u. bindA (touchActivity c d x) (\<lambda>_. ret (k u)))) s = (Inl e, t)"
  shows "same scan_part s t"
  using assms(2)
proof (rule bindA_InlE)
  assume "m s = (Inl e, t)"
  then show ?thesis using same.within_result [OF assms(1)] by blast
next
  fix a u assume m: "m s = (Inr a, u)"
    and "bindA (update_scan i f) (\<lambda>u. bindA (touchActivity c d x) (\<lambda>_. ret (k u))) u = (Inl e, t)"
  then have "t = u" using bind_touch_fail update_scan_fail by blast
  with m show ?thesis using same.within_result [OF assms(1)] by blast
qed

lemma processPending_fail:
  assumes "processPendingScan c sc s = (Inl e, t)"
  shows "same scan_part s t"
proof -
  have s: "same scan_part u u" for u by (rule same.rel_refl)
  show ?thesis
    using assms unfolding processPendingScan_def Let_def bindA_reads
    by (auto split: sum.splits qr_context.splits simp: s bindA_gets updateInvalidRawScan_def
          updateRawScanAndCreateMovement_def
        dest!: bind_touch_fail_pair transaction_fail
        intro: pending_fail [OF same_pending(1)] pending_fail [OF same_pending(2)])
      (auto dest!: bind_touch_fail update_scan_fail simp: s)
qed

theorem keeps_processRawScan:
  assumes "id_law c" and "scan_inv c s"
  shows "keeps_inv c (processRawScan c i) s"
proof -
  have "keeps_inv c (catch (processPendingScan c sc) (\<lambda>error.
      bindA (update_scan (sc_id sc) (mark_failed c DENIED (err_message error))) (\<lambda>u. ret (RawFailed u)))) s"
    if sc: "find_scan i s = Some sc" "sc_status sc = SC_PENDING" for sc
  proof -
    have in_s: "sc \<in> set (scans s)" using find_scan_in(1) [OF sc(1)] by simp
    have free: "movement_of_scan (sc_id sc) s = None"
    proof (rule ccontr)
      assume "movement_of_scan (sc_id sc) s \<noteq> None"
      then obtain m where m: "m \<in> set (movements s)" "mv_scanEventRawId m = sc_id sc"
        by (auto simp: movement_of_scan_def dest: lookup_by_Some)
      then obtain y where "y \<in> set (scans s)" "agrees y m" using assms(2) by (auto simp: scan_inv_def scan_tables_def)
      with m in_s assms(2) have "y = sc" "sc_status y = SC_PROCESSED"
        using distinct_key_inj [of sc_id "scans s" y sc] by (auto simp: agrees_def scan_inv_def scan_tables_def)
      with sc(2) show False by simp
    qed
    show ?thesis
    proof (rule keeps.within_catch [OF keeps_processPending [OF assms in_s free]])
      fix e t assume "processPendingScan c sc s = (Inl e, t)"
      then have "movement_of_scan (sc_id sc) t = None"
        using free movement_of_scan_same processPending_fail by metis
      then show "keeps_inv c (bindA (update_scan (sc_id sc) (mark_failed c DENIED (err_message e)))
          (\<lambda>u. ret (RawFailed u))) t"
        by (intro keeps.within_bind keeps_mark_failed keeps.within_ret)
    qed
  qed
  then show ?thesis
    unfolding processRawScan_def
    by (intro keeps.within_bind_gets keeps.within_option keeps.within_if keeps.within_ret) auto
qed

section \<open>Offline scans\<close>

text \<open>
  The decision on an offline scan looks at the event and type of the offline row, the movement is
  written with those of the raw scan of the same operation id when there is one. So the invariant
  needs that an operation id is not used for two different scans.
\<close>

definition coherent :: "scan_event list \<Rightarrow> offline_scan list \<Rightarrow> bool" where
  "coherent scs oss = (\<forall>os \<in> set oss. \<forall>sc \<in> set scs. sc_operationId sc = os_operationId os \<longrightarrow>
     sc_eventId sc = os_eventId os \<and> sc_type sc = os_movementType os)"

definition offline_inv :: "env \<Rightarrow> store \<Rightarrow> bool" where
  "offline_inv c s = (scan_inv c s \<and> distinct (map os_operationId (offlineScans s)) \<and>
     coherent (scans s) (offlineScans s))"

abbreviation keeps_off :: "env \<Rightarrow> (store, 'a) act \<Rightarrow> store \<Rightarrow> bool" where
  "keeps_off c m s \<equiv> within (keeps (offline_inv c)) m s"

lemma keeps_offI: "(offline_inv c s \<Longrightarrow> offline_inv c (snd (m s))) \<Longrightarrow> keeps_off c m s"
  by (simp add: within_def keeps_def)

text \<open>An operation that keeps the scan invariant and the offline rows keeps both, if the scans it
  leaves are coherent.\<close>

lemma keeps_off_touch: "keeps_off c (touchActivity c' d x) s"
  by (rule keeps_offI) (simp add: offline_inv_def touchActivity_def modify_def scan_inv_def)

lemma keeps_off_update:
  assumes "\<And>x. os_operationId (f x) = os_operationId x" "\<And>x. os_eventId (f x) = os_eventId x"
    "\<And>x. os_movementType (f x) = os_movementType x"
  shows "keeps_off c (update_offline_scan i f) s"
proof (rule keeps_offI)
  assume inv: "offline_inv c s"
  have "coherent (scans s) (update_by os_id i f (offlineScans s))"
    using inv assms by (auto simp: offline_inv_def coherent_def set_update_by)
  with inv assms show "offline_inv c (snd (update_offline_scan i f s))"
    by (auto simp: update_offline_scan_def act_simps offline_inv_def map_update_by split: option.splits)
qed

lemma keeps_off_create:
  assumes "\<And>i. coherent (scans s) (append_row (row i) (offlineScans s))"
  shows "keeps_off c (create_offline_scan c row) s"
proof (rule keeps_offI)
  assume inv: "offline_inv c s"
  then have "scan_inv c (s\<lparr>next_id := Suc (next_id s)\<rparr>)" using scan_inv_id by (simp add: offline_inv_def)
  with inv assms show "offline_inv c (snd (create_offline_scan c row s))"
    by (auto simp: create_offline_scan_def bindA_def new_id_def gets_def throw_def modify_def ret_def
          offline_inv_def find_offline_scan_by_op_def lookup_by_None)
qed

lemma update_processed_rows:
  "\<exists>f. (\<forall>x. sc_operationId (f x) = sc_operationId x \<and> sc_eventId (f x) = sc_eventId x \<and> sc_type (f x) = sc_type x) \<and>
    scans (snd (updateRawScanAndCreateMovement c sc q r p result reason s)) = update_by sc_id (sc_id sc) f (scans s) \<and>
    offlineScans (snd (updateRawScanAndCreateMovement c sc q r p result reason s)) = offlineScans s \<or>
    snd (updateRawScanAndCreateMovement c sc q r p result reason s) = s"
proof -
  let ?f = "\<lambda>x. x\<lparr>sc_registrationId := Some (rg_id r),
        sc_qrTokenId := Some (qr_id q), sc_qrPayload := JObj p, sc_status := SC_PROCESSED,
        sc_result := Some result, sc_reason := Some reason, sc_processedAt := Some (now c)\<rparr>"
  show ?thesis
    by (rule exI [of _ ?f])
      (simp add: updateRawScanAndCreateMovement_def transaction_def update_scan_def create_movement_def
        bindA_def new_id_def gets_def modify_def ret_def throw_def split: option.splits prod.splits sum.splits)
qed

lemma create_processed_rows:
  "(\<exists>row. sc_operationId row = dto_operationId dto \<and> sc_eventId row = dto_eventId dto \<and> sc_type row = dto_type dto \<and>
    scans (snd (createProcessedScanAndMovement c dto q r p result reason s)) = append_row row (scans s) \<and>
    offlineScans (snd (createProcessedScanAndMovement c dto q r p result reason s)) = offlineScans s) \<or>
    snd (createProcessedScanAndMovement c dto q r p result reason s) = s"
proof (rule disjCI)
  let ?sc = "\<lparr>sc_id = cuid c (next_id s), sc_operationId = dto_operationId dto,
        sc_eventId = dto_eventId dto, sc_deviceId = dto_deviceId dto,
        sc_staffSessionId = dto_staffSessionId dto, sc_checkpointId = dto_checkpointId dto,
        sc_registrationId = Some (rg_id r), sc_qrTokenId = Some (qr_id q), sc_qrPayload = JObj p,
        sc_qrRaw = Some (dto_qrToken dto), sc_type = dto_type dto, sc_status = SC_PROCESSED,
        sc_result = Some result, sc_reason = Some reason, sc_scannedAtDevice = dto_scannedAt dto,
        sc_processedAt = Some (now c), sc_payload = json_or_null (dto_payload dto)\<rparr>"
  assume "snd (createProcessedScanAndMovement c dto q r p result reason s) \<noteq> s"
  then show "\<exists>row. sc_operationId row = dto_operationId dto \<and> sc_eventId row = dto_eventId dto \<and>
      sc_type row = dto_type dto \<and>
      scans (snd (createProcessedScanAndMovement c dto q r p result reason s)) = append_row row (scans s) \<and>
      offlineScans (snd (createProcessedScanAndMovement c dto q r p result reason s)) = offlineScans s"
    by (intro exI [of _ ?sc])
      (auto simp: createProcessedScanAndMovement_def transaction_def create_scan_def create_movement_def
        bindA_def new_id_def gets_def modify_def ret_def throw_def split: option.splits prod.splits sum.splits if_splits)
qed

lemma keeps_off_processed:
  assumes "id_law c" and "entry_ok s (os_eventId os) (rg_id r) (os_movementType os) result"
    and "os \<in> set (offlineScans s)"
  shows "keeps_off c (createProcessedScanAndMovement c (dto_of_offline os) q r p result reason) s"
proof (rule keeps_offI)
  assume inv: "offline_inv c s"
  let ?t = "snd (createProcessedScanAndMovement c (dto_of_offline os) q r p result reason s)"
  have "scan_inv c ?t"
    using keeps_create_processed [of c s "dto_of_offline os" r result q p reason] assms inv
    by (simp add: dto_of_offline_def within_def keeps_def offline_inv_def)
  moreover have "coherent (scans ?t) (offlineScans ?t) \<and> distinct (map os_operationId (offlineScans ?t))"
    using create_processed_rows [of "dto_of_offline os" c q r p result reason s]
  proof
    assume "\<exists>row. sc_operationId row = dto_operationId (dto_of_offline os) \<and>
      sc_eventId row = dto_eventId (dto_of_offline os) \<and> sc_type row = dto_type (dto_of_offline os) \<and>
      scans ?t = append_row row (scans s) \<and> offlineScans ?t = offlineScans s"
    then obtain row where row: "sc_operationId row = os_operationId os" "sc_eventId row = os_eventId os"
        "sc_type row = os_movementType os" "scans ?t = append_row row (scans s)" "offlineScans ?t = offlineScans s"
      by (auto simp: dto_of_offline_def)
    have "x = os" if "x \<in> set (offlineScans s)" "os_operationId x = os_operationId os" for x
      using that assms(3) inv distinct_key_inj [of os_operationId "offlineScans s" x os] by (simp add: offline_inv_def)
    with row inv show ?thesis by (auto simp: offline_inv_def coherent_def)
  next
    assume "?t = s"
    with inv show ?thesis by (simp add: offline_inv_def)
  qed
  ultimately show "offline_inv c ?t" by (simp add: offline_inv_def)
qed

lemma keeps_off_update_processed:
  assumes "entry_ok s (sc_eventId sc) (rg_id r) (sc_type sc) result"
    and "sc \<in> set (scans s)" and "movement_of_scan (sc_id sc) s = None"
  shows "keeps_off c (updateRawScanAndCreateMovement c sc q r p result reason) s"
proof (rule keeps_offI)
  assume inv: "offline_inv c s"
  let ?t = "snd (updateRawScanAndCreateMovement c sc q r p result reason s)"
  have "scan_inv c ?t"
    using keeps_update_processed [OF assms] inv by (simp add: within_def keeps_def offline_inv_def)
  moreover have "coherent (scans ?t) (offlineScans ?t) \<and> distinct (map os_operationId (offlineScans ?t))"
    using update_processed_rows [of c sc q r p result reason s] inv
    by (auto simp: offline_inv_def coherent_def set_update_by)
  ultimately show "offline_inv c ?t" by (simp add: offline_inv_def)
qed

lemma find_offline_in: "find_offline_scan i s = Some os \<Longrightarrow> os \<in> set (offlineScans s) \<and> os_id os = i"
  by (auto simp: find_offline_scan_def dest: lookup_by_Some)

lemma keeps_off_decide:
  assumes law: "id_law c" and inv: "offline_inv c s" and os: "os \<in> set (offlineScans s)"
    and raw: "\<And>sc. raw = Some sc \<Longrightarrow> sc \<in> set (scans s) \<and> sc_operationId sc = os_operationId os \<and>
        movement_of_scan (sc_id sc) s = None"
  shows "keeps_off c (decideOfflineScan c os raw q r a payload) s"
proof -
  have main: "keeps_off c (case raw of
        Some sc \<Rightarrow> updateRawScanAndCreateMovement c sc q r payload (reason_result reason) reason
      | None \<Rightarrow> createProcessedScanAndMovement c (dto_of_offline os) q r payload (reason_result reason) reason) s"
    if "ensureEventCanBeModified (os_eventId os) s = Inr event"
      and "reason = scan_reason event cp a (rg_id r) (os_movementType os) s" for event cp reason
  proof -
    have e: "entry_ok s (os_eventId os) (rg_id r) (os_movementType os) (reason_result reason)"
      using inv that by (auto simp: offline_inv_def intro: scan_reason_entry)
    show ?thesis
    proof (cases raw)
      case None
      then show ?thesis using keeps_off_processed [OF law e os] by simp
    next
      case (Some sc)
      then have "sc_eventId sc = os_eventId os" "sc_type sc = os_movementType os"
        using raw inv os by (auto simp: offline_inv_def coherent_def)
      then show ?thesis using Some keeps_off_update_processed e raw by simp
    qed
  qed
  show ?thesis
    unfolding decideOfflineScan_def Let_def
    by (intro keeps.within_bind_reads keeps.within_bind_gets within_bind_split keeps.within_bind
          keeps_off_touch keeps.within_ret keeps_off_update main refl) simp_all
qed

lemma keeps_off_process:
  assumes law: "id_law c" and inv: "offline_inv c s"
  shows "keeps_off c (processOfflineScanOperation c i) s"
proof -
  have pending: "keeps_off c (bindA (reads (getCanonicalContextForOfflineScan os)) (\<lambda>qrContext. case qrContext of
          None \<Rightarrow> ret (OffPending os)
        | Some (q, r, a, payload) \<Rightarrow> decideOfflineScan c os (find_scan_by_op (os_operationId os) s) q r a payload)) s"
    if os: "find_offline_scan i s = Some os"
      and free: "Option.bind (find_scan_by_op (os_operationId os) s) (\<lambda>sc. movement_of_scan (sc_id sc) s) = None" for os
  proof (intro keeps.within_bind_reads keeps.within_option keeps.within_ret)
    fix x and y :: "qr_token \<times> registration \<times> attendee_type \<times> fields"
    obtain q r a payload where y: "y = (q, r, a, payload)" by (cases y) auto
    show "keeps_off c (case y of (q, r, a, payload) \<Rightarrow>
        decideOfflineScan c os (find_scan_by_op (os_operationId os) s) q r a payload) s"
      unfolding y prod.case
      by (rule keeps_off_decide [OF law inv])
        (use os free find_offline_in find_scan_in(2) in \<open>auto simp: bind_eq_None_conv\<close>)
  qed
  have "keeps_off c (case (find_scan_by_op (os_operationId os) s,
          Option.bind (find_scan_by_op (os_operationId os) s) (\<lambda>sc. movement_of_scan (sc_id sc) s)) of
        (Some sc, Some m) \<Rightarrow>
          bindA (update_offline_scan (os_id os) (\<lambda>x. x\<lparr>os_status := OS_PROCESSED,
            os_scanEventRawId := Some (sc_id sc), os_movementId := Some (mv_id m),
            os_registrationId := sc_registrationId sc, os_syncedAt := Some (now c)\<rparr>))
            (\<lambda>updated. ret (OffDuplicate updated))
      | _ \<Rightarrow> bindA (reads (getCanonicalContextForOfflineScan os)) (\<lambda>qrContext. case qrContext of
            None \<Rightarrow> ret (OffPending os)
          | Some (q, r, a, payload) \<Rightarrow>
              decideOfflineScan c os (find_scan_by_op (os_operationId os) s) q r a payload)) s"
    if os: "find_offline_scan i s = Some os" for os
  proof (cases "Option.bind (find_scan_by_op (os_operationId os) s) (\<lambda>sc. movement_of_scan (sc_id sc) s)")
    case None
    show ?thesis
    proof (cases "find_scan_by_op (os_operationId os) s")
      case none: None
      show ?thesis using pending [OF os None] unfolding none prod.case option.case .
    next
      case (Some sc)
      show ?thesis using pending [OF os None] unfolding None unfolding Some prod.case option.case .
    qed
  next
    case (Some m)
    then obtain sc where "find_scan_by_op (os_operationId os) s = Some sc" by (cases "find_scan_by_op (os_operationId os) s") auto
    with Some show ?thesis
      by simp (intro keeps.within_bind keeps_off_update keeps.within_ret; simp)
  qed
  then show ?thesis
    unfolding processOfflineScanOperation_def
    by (intro keeps.within_bind_gets keeps.within_option keeps.within_throw keeps.within_if keeps.within_ret)
qed

lemma keeps_reconcile_one:
  assumes "id_law c" and "offline_inv c s"
  shows "keeps_off c (reconcileOne c rid os) s"
proof -
  have "keeps_off c (bindA (update_offline_scan (os_id os) (\<lambda>x. x\<lparr>os_status := OS_LINKED,
      os_registrationId := Some rid\<rparr>)) (\<lambda>_. processOfflineScanOperation c (os_id os))) s"
  proof (rule keeps.within_bind)
    show "keeps_off c (update_offline_scan (os_id os) (\<lambda>x. x\<lparr>os_status := OS_LINKED,
      os_registrationId := Some rid\<rparr>)) s" by (rule keeps_off_update) simp_all
    fix a t assume "keeps (offline_inv c) s t"
    then show "keeps_off c (processOfflineScanOperation c (os_id os)) t"
      using assms by (intro keeps_off_process) (simp_all add: keeps_def)
  qed
  then show ?thesis
    unfolding reconcileOne_def
  proof (rule keeps.within_catch)
    fix e t
    show "keeps_off c (bindA (update_offline_scan (os_id os) (\<lambda>x. x\<lparr>os_status := OS_FAILED,
        os_conflictCode := Some ''OFFLINE_RECONCILIATION_FAILED'',
        os_conflictMessage := Some (err_message e)\<rparr>)) (\<lambda>failed. ret (OffFailed failed))) t"
      by (intro keeps.within_bind keeps_off_update keeps.within_ret) simp_all
  qed
qed

text \<open>A loop over operations that each keep an invariant which holds keeps it.\<close>

lemma keeps_forA:
  assumes "\<And>x s. x \<in> set xs \<Longrightarrow> P s \<Longrightarrow> within (keeps P) (f x) s" and "P s"
  shows "within (keeps P) (forA xs f) s"
  using assms
proof (induction xs arbitrary: s)
  case Nil
  then show ?case by (simp add: keeps.within_ret)
next
  case (Cons x xs)
  have "within (keeps P) (bindA (f x) (\<lambda>a. bindA (forA xs f) (\<lambda>as. ret (a # as)))) s"
  proof (rule keeps.within_bind)
    show "within (keeps P) (f x) s" using Cons.prems by simp
    fix a t assume "keeps P s t"
    then have "P t" using Cons.prems by (simp add: keeps_def)
    then show "within (keeps P) (bindA (forA xs f) (\<lambda>as. ret (a # as))) t"
      using Cons.IH Cons.prems by (intro keeps.within_bind keeps.within_ret) simp_all
  qed
  then show ?case by simp
qed

theorem keeps_reconcile:
  assumes "id_law c" and "offline_inv c s"
  shows "keeps_off c (reconcileOfflineRegistration c e tok opid rid) s"
  unfolding reconcileOfflineRegistration_def
  by (intro keeps.within_bind_gets keeps_forA keeps_reconcile_one assms)

theorem keeps_ingestOffline:
  assumes law: "id_law c" and inv: "offline_inv c s"
    and fresh: "\<forall>sc \<in> set (scans s). sc_operationId sc = oi_operationId input \<longrightarrow>
      sc_eventId sc = oi_eventId input \<and> sc_type sc = oi_movementType input"
  shows "keeps_off c (ingestOfflineScan c input) s"
proof -
  have new: "keeps_off c (newOfflineScan c input v tok mapping) s" for v tok mapping
  proof -
    have "coherent (scans s) (offlineScans s)" using inv by (simp add: offline_inv_def)
    then show ?thesis
      unfolding newOfflineScan_def Let_def
      by (intro keeps.within_bind keeps_off_create keeps.within_if keeps.within_ret keeps_off_process law)
        (use fresh inv in \<open>auto simp: coherent_def keeps_def\<close>)
  qed
  have again: "keeps_off c (repeatedOfflineScan c input v mapping os) s" for v mapping os
    unfolding repeatedOfflineScan_def Let_def
    by (intro keeps.within_if keeps.within_bind keeps_off_update keeps.within_ret keeps_off_process law)
      (use inv in \<open>simp_all add: keeps_def\<close>)
  show ?thesis
    unfolding ingestOfflineScan_def Let_def
    by (intro keeps.within_bind_reads keeps.within_if keeps.within_throw keeps.within_bind_gets
          keeps.within_option new again)
qed

end
