(* ===== verification/ScanHistory.thy ===== *)
theory ScanHistory
  imports ScanInv
begin

text \<open>
  Histories of scans: any sequence of the operations of the scans service, at any times, with
  any outcomes. The invariant of \<open>ScanInv\<close> holds in every store that such a history reaches,
  so an event without re-entry admits every registration at most once.
\<close>

section \<open>Which rows an operation adds\<close>

text \<open>Every scan and offline scan of \<open>t\<close> stands for one of \<open>s\<close>, or is of the operation at hand.\<close>

definition scan_key :: "scan_event \<Rightarrow> string \<times> id \<times> movement_type" where
  "scan_key x = (sc_operationId x, sc_eventId x, sc_type x)"

definition off_key :: "offline_scan \<Rightarrow> string \<times> id \<times> movement_type" where
  "off_key x = (os_operationId x, os_eventId x, os_movementType x)"

definition rows_from :: "string \<Rightarrow> id \<Rightarrow> movement_type \<Rightarrow> store \<Rightarrow> store \<Rightarrow> bool" where
  "rows_from opid e y s t =
    (scan_key ` set (scans t) \<subseteq> insert (opid, e, y) (scan_key ` set (scans s)) \<and>
     off_key ` set (offlineScans t) \<subseteq> insert (opid, e, y) (off_key ` set (offlineScans s)))"

lemma insert_chain: "A \<subseteq> insert k B \<Longrightarrow> B \<subseteq> insert k C \<Longrightarrow> A \<subseteq> insert k C"
  by blast

interpretation rows_from: store_rel "rows_from opid e y" for opid :: string and e :: id and y :: movement_type
proof
  show "rows_from opid e y s s" for s unfolding rows_from_def by (intro conjI subset_insertI)
  show "rows_from opid e y s t \<Longrightarrow> rows_from opid e y t u \<Longrightarrow> rows_from opid e y s u" for s t u
    unfolding rows_from_def using insert_chain by meson
qed

text \<open>The operation id is not in use for a scan of another event or type.\<close>

definition fits :: "string \<Rightarrow> id \<Rightarrow> movement_type \<Rightarrow> store \<Rightarrow> bool" where
  "fits opid e y s =
    ((\<forall>sc \<in> set (scans s). sc_operationId sc = opid \<longrightarrow> sc_eventId sc = e \<and> sc_type sc = y) \<and>
     (\<forall>os \<in> set (offlineScans s). os_operationId os = opid \<longrightarrow> os_eventId os = e \<and> os_movementType os = y))"

lemma coherent_rows_from:
  assumes r: "rows_from opid e y s t" and f: "fits opid e y s" and co: "coherent (scans s) (offlineScans s)"
  shows "coherent (scans t) (offlineScans t)"
proof (unfold coherent_def, intro ballI impI)
  fix os sc assume os: "os \<in> set (offlineScans t)" and sc: "sc \<in> set (scans t)" and eq: "sc_operationId sc = os_operationId os"
  have "scan_key sc = (opid, e, y) \<or> (\<exists>x \<in> set (scans s). scan_key sc = scan_key x)"
    using r sc by (auto simp: rows_from_def)
  moreover have "off_key os = (opid, e, y) \<or> (\<exists>z \<in> set (offlineScans s). off_key os = off_key z)"
    using r os by (auto simp: rows_from_def)
  ultimately show "sc_eventId sc = os_eventId os \<and> sc_type sc = os_movementType os"
    using eq f co
    by (elim disjE bexE) (simp_all add: fits_def coherent_def scan_key_def off_key_def)
qed

section \<open>The online operations\<close>

lemma from_touch: "within (rows_from opid e y) (touchActivity c d x) s"
  by (auto simp: within_def rows_from_def touchActivity_def modify_def)

lemma from_create_scan:
  assumes "\<And>i. (sc_operationId (row i), sc_eventId (row i), sc_type (row i)) = (opid, e, y)"
  shows "within (rows_from opid e y) (create_scan c row) s"
  using assms by (auto simp: within_def rows_from_def scan_key_def off_key_def create_scan_def bindA_def new_id_def gets_def throw_def
    modify_def ret_def)

lemma from_create_offline:
  assumes "\<And>i. (os_operationId (row i), os_eventId (row i), os_movementType (row i)) = (opid, e, y)"
  shows "within (rows_from opid e y) (create_offline_scan c row) s"
  using assms by (auto simp: within_def rows_from_def scan_key_def off_key_def create_offline_scan_def bindA_def new_id_def gets_def
    throw_def modify_def ret_def)

lemma from_create_movement: "within (rows_from opid e y) (create_movement c row) s"
  by (auto simp: within_def rows_from_def scan_key_def off_key_def create_movement_def bindA_def new_id_def gets_def
    throw_def modify_def ret_def)

lemma from_update_scan:
  assumes "\<And>x. sc_operationId (f x) = sc_operationId x" "\<And>x. sc_eventId (f x) = sc_eventId x"
    "\<And>x. sc_type (f x) = sc_type x"
  shows "within (rows_from opid e y) (update_scan i f) s"
  using assms
  by (auto simp: within_def rows_from_def scan_key_def off_key_def update_scan_def act_simps set_update_by split: option.splits)

lemma from_delete: "within (rows_from opid e y) (modify (\<lambda>s. s\<lparr>scans := delete_rows p (scans s)\<rparr>)) s"
  by (auto simp: within_def rows_from_def scan_key_def off_key_def modify_def set_delete_rows)

lemma from_pending:
  "within (rows_from (dto_operationId dto) (dto_eventId dto) (dto_type dto))
     (createPendingOfflineReferenceScanFromOnlineScan c dto t p r) s"
  "within (rows_from (dto_operationId dto) (dto_eventId dto) (dto_type dto))
     (createPendingOfflineScanFromOnlineScan c dto v) s"
  unfolding createPendingOfflineReferenceScanFromOnlineScan_def createPendingOfflineScanFromOnlineScan_def Let_def
  by (intro rows_from.within_rules from_create_offline; simp)+

lemma from_create_processed:
  "within (rows_from (dto_operationId dto) (dto_eventId dto) (dto_type dto))
     (createProcessedScanAndMovement c dto q r p result reason) s"
  unfolding createProcessedScanAndMovement_def
  by (intro rows_from.within_transaction rows_from.within_bind from_create_scan from_create_movement
        rows_from.within_ret) simp

lemma from_update_processed:
  "within (rows_from opid e y) (updateRawScanAndCreateMovement c sc q r p result reason) s"
  unfolding updateRawScanAndCreateMovement_def
  by (intro rows_from.within_transaction rows_from.within_bind from_update_scan from_create_movement
        rows_from.within_ret) simp_all

lemma from_ingestNew:
  "within (rows_from (dto_operationId dto) (dto_eventId dto) (dto_type dto)) (ingestNew c dto) s"
  unfolding ingestNew_def Let_def
  by (intro rows_from.within_bind_reads)
    (auto split: qr_context.splits simp: createInvalidScan_def
      intro!: rows_from.within_bind_gets rows_from.within_bind rows_from.within_ret from_touch from_pending
        from_create_processed from_create_scan)

lemma from_ingest:
  "within (rows_from (dto_operationId dto) (dto_eventId dto) (dto_type dto)) (ingest c dto) s"
  unfolding ingest_def
  by (intro rows_from.within_bind_gets rows_from.within_option rows_from.within_if rows_from.within_bind
        rows_from.within_ret from_ingestNew from_delete)

lemma from_ingestFast:
  "within (rows_from (dto_operationId dto) (dto_eventId dto) (dto_type dto)) (ingestFast c dto) s"
  unfolding ingestFast_def
  by (intro rows_from.within_bind_gets rows_from.within_option rows_from.within_if rows_from.within_bind
        rows_from.within_ret from_create_scan rows_from.within_modify)
    (auto simp: rows_from_def scan_key_def off_key_def add_job_def)

lemma from_processPending:
  "within (rows_from (sc_operationId sc) (sc_eventId sc) (sc_type sc)) (processPendingScan c sc) s"
proof -
  have p: "within (rows_from (sc_operationId sc) (sc_eventId sc) (sc_type sc))
      (createPendingOfflineReferenceScanFromOnlineScan c (dto_of_scan sc) t p r) s"
    "within (rows_from (sc_operationId sc) (sc_eventId sc) (sc_type sc))
      (createPendingOfflineScanFromOnlineScan c (dto_of_scan sc) v) s" for t p r v s
    using from_pending [of "dto_of_scan sc"] by (simp_all add: dto_of_scan_def)
  show ?thesis
    unfolding processPendingScan_def Let_def
    by (intro rows_from.within_bind_reads)
      (auto split: qr_context.splits simp: updateInvalidRawScan_def mark_failed_def
        intro!: rows_from.within_bind_gets rows_from.within_bind rows_from.within_ret from_touch p
          from_update_processed from_update_scan)
qed

lemma from_processRaw:
  assumes "find_scan i s = Some sc"
  shows "within (rows_from (sc_operationId sc) (sc_eventId sc) (sc_type sc)) (processRawScan c i) s"
  unfolding processRawScan_def
  by (rule rows_from.within_bind_gets)
    (simp add: assms rows_from.within_ret,
     intro impI rows_from.within_catch from_processPending rows_from.within_bind from_update_scan rows_from.within_ret;
     simp add: mark_failed_def)

text \<open>Operation ids of offline scans stay unique.\<close>

abbreviation keeps_ops :: "(store, 'a) act \<Rightarrow> store \<Rightarrow> bool" where
  "keeps_ops m s \<equiv> within (keeps (\<lambda>s. distinct (map os_operationId (offlineScans s)))) m s"

lemma ops_create_offline: "keeps_ops (create_offline_scan c row) s"
  by (auto simp: within_def keeps_def create_offline_scan_def bindA_def new_id_def gets_def throw_def modify_def
    ret_def find_offline_scan_by_op_def lookup_by_None)

lemma ops_create_scan: "keeps_ops (create_scan c row) s"
  by (auto simp: within_def keeps_def create_scan_def bindA_def new_id_def gets_def throw_def modify_def ret_def)

lemma ops_create_movement: "keeps_ops (create_movement c row) s"
  by (auto simp: within_def keeps_def create_movement_def bindA_def new_id_def gets_def throw_def modify_def ret_def)

lemma ops_update_scan: "keeps_ops (update_scan i f) s"
  by (auto simp: within_def keeps_def update_scan_def act_simps split: option.splits)

lemma ops_touch: "keeps_ops (touchActivity c d x) s"
  by (simp add: within_def keeps_def touchActivity_def modify_def)

lemma ops_pending:
  "keeps_ops (createPendingOfflineReferenceScanFromOnlineScan c dto t p r) s"
  "keeps_ops (createPendingOfflineScanFromOnlineScan c dto v) s"
  unfolding createPendingOfflineReferenceScanFromOnlineScan_def createPendingOfflineScanFromOnlineScan_def Let_def
  by (intro keeps.within_rules ops_create_offline)+

lemma ops_processed:
  "keeps_ops (createProcessedScanAndMovement c dto q r p result reason) s"
  "keeps_ops (updateRawScanAndCreateMovement c sc q r p result reason) s"
  unfolding createProcessedScanAndMovement_def updateRawScanAndCreateMovement_def
  by (intro keeps.within_transaction keeps.within_bind ops_create_scan ops_update_scan ops_create_movement
        keeps.within_ret)+

lemma ops_ingest: "keeps_ops (ingest c dto) s"
proof -
  have "keeps_ops (ingestNew c dto) t" for t
    unfolding ingestNew_def Let_def
    by (intro keeps.within_bind_reads)
      (auto split: qr_context.splits simp: createInvalidScan_def
        intro!: keeps.within_bind_gets keeps.within_bind keeps.within_ret ops_touch ops_pending ops_processed
          ops_create_scan)
  then show ?thesis
    unfolding ingest_def
    by (intro keeps.within_bind_gets keeps.within_option keeps.within_if keeps.within_bind keeps.within_ret
          keeps.within_modify) (simp_all add: keeps_def)
qed

lemma ops_ingestFast: "keeps_ops (ingestFast c dto) s"
  unfolding ingestFast_def
  by (intro keeps.within_bind_gets keeps.within_option keeps.within_if keeps.within_bind keeps.within_ret
        keeps.within_modify ops_create_scan) (simp_all add: keeps_def add_job_def)

lemma ops_processRaw: "keeps_ops (processRawScan c i) s"
proof -
  have "keeps_ops (processPendingScan c sc) t" for sc t
    unfolding processPendingScan_def Let_def
    by (intro keeps.within_bind_reads)
      (auto split: qr_context.splits simp: updateInvalidRawScan_def
        intro!: keeps.within_bind_gets keeps.within_bind keeps.within_ret ops_touch ops_pending ops_processed
          ops_update_scan)
  then show ?thesis
    unfolding processRawScan_def
    by (intro keeps.within_bind_gets keeps.within_option keeps.within_if keeps.within_bind keeps.within_ret
          keeps.within_catch ops_update_scan)
qed

section \<open>Histories\<close>

datatype scan_op =
    OnlineScan scan_dto
  | FastScan scan_dto
  | WorkRawScan id
  | OfflineScan offline_input
  | ReconcileScans id string string id

definition run_op :: "env \<Rightarrow> scan_op \<Rightarrow> store \<Rightarrow> store" where
  "run_op c o' s = (case o' of
     OnlineScan dto \<Rightarrow> snd (ingest c dto s)
   | FastScan dto \<Rightarrow> snd (ingestFast c dto s)
   | WorkRawScan i \<Rightarrow> snd (processRawScan c i s)
   | OfflineScan input \<Rightarrow> snd (ingestOfflineScan c input s)
   | ReconcileScans e tok opid rid \<Rightarrow> snd (reconcileOfflineRegistration c e tok opid rid s))"

text \<open>The client does not reuse an operation id for a scan of another event or type.\<close>

definition op_fits :: "scan_op \<Rightarrow> store \<Rightarrow> bool" where
  "op_fits o' s = (case o' of
     OnlineScan dto \<Rightarrow> fits (dto_operationId dto) (dto_eventId dto) (dto_type dto) s
   | FastScan dto \<Rightarrow> fits (dto_operationId dto) (dto_eventId dto) (dto_type dto) s
   | WorkRawScan i \<Rightarrow> True
   | OfflineScan input \<Rightarrow> fits (oi_operationId input) (oi_eventId input) (oi_movementType input) s
   | ReconcileScans e tok opid rid \<Rightarrow> True)"

text \<open>Steps at any time of the same server.\<close>

inductive scan_reach :: "env \<Rightarrow> store \<Rightarrow> store \<Rightarrow> bool" for c :: env and s0 :: store where
  start: "scan_reach c s0 s0"
| step: "scan_reach c s0 s \<Longrightarrow> op_fits o' s \<Longrightarrow> scan_reach c s0 (run_op (c\<lparr>now := n\<rparr>) o' s)"

inductive_cases scan_reachE: "scan_reach c s0 s"

lemma offline_inv_now [simp]: "offline_inv (c\<lparr>now := n\<rparr>) = offline_inv c"
  by (simp add: fun_eq_iff offline_inv_def scan_inv_def scan_tables_def)

lemma id_law_now [simp]: "id_law (c\<lparr>now := n\<rparr>) = id_law c"
  by (simp add: id_law_def)

lemma keeps_off_online:
  assumes "offline_inv c s" and "within (keeps (scan_inv c)) m s" and "keeps_ops m s"
    and "within (rows_from opid e y) m s" and "fits opid e y s"
  shows "offline_inv c (snd (m s))"
  using assms coherent_rows_from [of opid e y s "snd (m s)"]
  by (simp add: offline_inv_def within_def keeps_def)

lemma fits_scan:
  assumes "offline_inv c s" and "sc \<in> set (scans s)"
  shows "fits (sc_operationId sc) (sc_eventId sc) (sc_type sc) s"
proof -
  have "x = sc" if "x \<in> set (scans s)" "sc_operationId x = sc_operationId sc" for x
    using that assms distinct_key_inj [of sc_operationId "scans s" x sc]
    by (simp add: offline_inv_def scan_inv_def scan_tables_def)
  with assms show ?thesis by (auto simp: fits_def offline_inv_def coherent_def)
qed

lemma run_op_keeps:
  assumes law: "id_law c" and inv: "offline_inv c s" and fits: "op_fits o' s"
  shows "offline_inv c (run_op c o' s)"
proof (cases o')
  case (OnlineScan dto)
  then show ?thesis
    using keeps_off_online [OF inv keeps_ingest [OF law] ops_ingest from_ingest] fits inv
    by (simp add: run_op_def op_fits_def offline_inv_def)
next
  case (FastScan dto)
  then show ?thesis
    using keeps_off_online [OF inv keeps_ingestFast [OF law] ops_ingestFast from_ingestFast] fits
    by (simp add: run_op_def op_fits_def)
next
  case (WorkRawScan i)
  have scan: "scan_inv c s" using inv by (simp add: offline_inv_def)
  show ?thesis
  proof (cases "find_scan i s")
    case None
    then show ?thesis using inv WorkRawScan by (simp add: run_op_def processRawScan_def act_simps)
  next
    case (Some sc)
    then have "sc \<in> set (scans s)" using find_scan_in(1) by blast
    from keeps_off_online [OF inv keeps_processRawScan [OF law scan] ops_processRaw from_processRaw [OF Some]
        fits_scan [OF inv this]] WorkRawScan
    show ?thesis by (simp add: run_op_def)
  qed
next
  case (OfflineScan input)
  then show ?thesis
    using keeps_ingestOffline [OF law inv, of input] fits inv
    by (simp add: run_op_def op_fits_def fits_def within_def keeps_def)
next
  case (ReconcileScans e tok opid rid)
  then show ?thesis
    using keeps_reconcile [OF law inv] inv by (simp add: run_op_def within_def keeps_def)
qed

lemma scan_reach_inv:
  assumes "scan_reach c s0 s" and "id_law c" and "offline_inv c s0"
  shows "offline_inv c s"
  using assms(1)
proof induction
  case start
  show ?case by (rule assms(3))
next
  case (step s o' n)
  have "offline_inv (c\<lparr>now := n\<rparr>) (run_op (c\<lparr>now := n\<rparr>) o' s)"
    using assms(2) step by (intro run_op_keeps) simp_all
  then show ?case by simp
qed

section \<open>Properties\<close>

text \<open>Scans and movements stay consistent whatever the online entry points do, on every branch and every
  exception, including the worker's: operation ids are unique, no scan has two movements, a scan is
  \<open>PROCESSED\<close> exactly when it has a movement, with the same decision, registration, event and type,
  and an event without re-entry has at most one admitted entry of a registration.\<close>

theorem online_scans_keep_inv:
  assumes "id_law c" and "scan_inv c s"
  shows "scan_inv c (snd (ingest c dto s)) \<and> scan_inv c (snd (ingestFast c dto s)) \<and>
    scan_inv c (snd (processRawScan c i s))"
  using keeps_ingest [OF assms] keeps_ingestFast [OF assms(1)] keeps_processRawScan [OF assms] assms(2)
  by (simp add: within_def keeps_def)

lemma empty_scan_inv: "scan_inv sample_env sample_regs" "offline_inv sample_env sample_regs"
  by (simp_all add: offline_inv_def scan_inv_def scan_tables_def single_entry_def coherent_def sample_regs_def
        empty_store_def count_rows_def)

definition sample_dto :: scan_dto where
  "sample_dto = \<lparr>dto_operationId = ''op1'', dto_eventId = ''e1'', dto_deviceId = ''d1'',
     dto_staffSessionId = None, dto_checkpointId = Some ''p1'', dto_qrToken = ''Q2.QRT_1.x'',
     dto_type = MV_ENTRY, dto_scannedAt = 900, dto_payload = None\<rparr>"

lemma online_scans_keep_inv_witness:
  "scan_inv sample_env (snd (ingest sample_env sample_dto sample_regs)) \<and>
   scan_inv sample_env (snd (ingestFast sample_env sample_dto sample_regs)) \<and>
   scan_inv sample_env (snd (processRawScan sample_env ''c0'' sample_regs))"
  by (rule online_scans_keep_inv [OF sample_laws(1) empty_scan_inv(1)])

text \<open>C1: However many scans arrive, online, stored and processed by the worker, recorded offline and
  reconciled, repeated or refused, in any order and at any times: an event that does not allow
  re-entry admits a registration at most once, provided operations run one after the other and an
  operation id stands for one scan.\<close>

theorem admitted_at_most_once:
  assumes "id_law c" and "offline_inv c s0" and "scan_reach c s0 s"
    and "e \<in> set (events s)" and "\<not> ev_allowReEntry e"
  shows "count_rows (has_entered (ev_id e) r) (movements s) \<le> 1"
  using scan_reach_inv [OF assms(3,1,2)] assms(4,5)
  by (simp add: offline_inv_def scan_inv_def scan_tables_def single_entry_def)

lemma admitted_at_most_once_witness:
  "count_rows (has_entered ''e1'' ''r1'')
     (movements (run_op (sample_env\<lparr>now := 900\<rparr>) (OnlineScan sample_dto) sample_regs)) \<le> 1"
proof -
  let ?c = "sample_env\<lparr>now := 900\<rparr>"
  let ?t = "run_op ?c (OnlineScan sample_dto) sample_regs"
  have "op_fits (OnlineScan sample_dto) sample_regs"
    by (simp add: op_fits_def fits_def sample_regs_def empty_store_def)
  then have "scan_reach sample_env sample_regs ?t" by (intro scan_reach.intros)
  moreover have "sample_event \<in> set (events ?t)" by code_simp
  moreover have "\<not> ev_allowReEntry sample_event" by (simp add: sample_event_def)
  ultimately have "count_rows (has_entered (ev_id sample_event) ''r1'') (movements ?t) \<le> 1"
    by (rule admitted_at_most_once [OF sample_laws(1) empty_scan_inv(2)])
  then show ?thesis by (simp add: sample_event_def)
qed

end
