(* ===== verification/ScanProps.thy ===== *)
theory ScanProps
  imports ScanHistory
begin

text \<open>
  What an answer of the scans service means: who is admitted, that a repeated operation id gives
  the first answer again, that the queue worker decides as the online path does, and where the
  treatment of offline badges departs from that of offline references.
\<close>

section \<open>Reading does not depend on the scans\<close>

lemma find_other [simp]:
  "find_event i (s\<lparr>scans := x\<rparr>) = find_event i s" "find_device i (s\<lparr>scans := x\<rparr>) = find_device i s"
  "find_session i (s\<lparr>scans := x\<rparr>) = find_session i s"
  "find_checkpoint i (s\<lparr>scans := x\<rparr>) = find_checkpoint i s"
  "find_registration i (s\<lparr>scans := x\<rparr>) = find_registration i s"
  "find_attendee_type i (s\<lparr>scans := x\<rparr>) = find_attendee_type i s"
  "find_qr_by_token j (s\<lparr>scans := x\<rparr>) = find_qr_by_token j s"
  "find_mapping_by_token j (s\<lparr>scans := x\<rparr>) = find_mapping_by_token j s"
  "find_key i v (s\<lparr>scans := x\<rparr>) = find_key i v s"
  by (simp_all add: find_defs find_key_def)

lemma find_other_id [simp]:
  "find_event i (s\<lparr>next_id := n\<rparr>) = find_event i s" "find_device i (s\<lparr>next_id := n\<rparr>) = find_device i s"
  "find_session i (s\<lparr>next_id := n\<rparr>) = find_session i s"
  "find_checkpoint i (s\<lparr>next_id := n\<rparr>) = find_checkpoint i s"
  "find_registration i (s\<lparr>next_id := n\<rparr>) = find_registration i s"
  "find_attendee_type i (s\<lparr>next_id := n\<rparr>) = find_attendee_type i s"
  "find_qr_by_token j (s\<lparr>next_id := n\<rparr>) = find_qr_by_token j s"
  "find_mapping_by_token j (s\<lparr>next_id := n\<rparr>) = find_mapping_by_token j s"
  "find_key i v (s\<lparr>next_id := n\<rparr>) = find_key i v s"
  "find_scan_by_op j (s\<lparr>next_id := n\<rparr>) = find_scan_by_op j s"
  by (simp_all add: find_defs find_key_def)

lemma find_other_jobs [simp]:
  "find_event i (add_job j s) = find_event i s" "find_device i (add_job j s) = find_device i s"
  "find_session i (add_job j s) = find_session i s" "find_checkpoint i (add_job j s) = find_checkpoint i s"
  "find_registration i (add_job j s) = find_registration i s"
  "find_attendee_type i (add_job j s) = find_attendee_type i s"
  "find_qr_by_token k (add_job j s) = find_qr_by_token k s"
  "find_mapping_by_token k (add_job j s) = find_mapping_by_token k s"
  "find_key i v (add_job j s) = find_key i v s" "find_scan i (add_job j s) = find_scan i s"
  by (simp_all add: find_defs find_key_def add_job_def)

lemmas guard_defs = ensureEventCanBeModified_def ensureActiveDevice_def ensureActiveStaffSession_def
  ensureActiveCheckpoint_def registration_with_type_def

lemma validate_frame:
  assumes "qrTokens t = qrTokens s" "mappings t = mappings s" "registrations t = registrations s"
    "attendeeTypes t = attendeeTypes s" "devices t = devices s" "offlineKeys t = offlineKeys s"
  shows "validateQrForScan c q e t = validateQrForScan c q e s"
proof -
  have f: "find_registration i t = find_registration i s" "find_attendee_type i t = find_attendee_type i s"
    "find_qr_by_token j t = find_qr_by_token j s" "find_mapping_by_token j t = find_mapping_by_token j s"
    "find_device i t = find_device i s" "find_key i v t = find_key i v s" for i j v
    using assms by (simp_all add: find_defs find_key_def)
  have "registration_with_type i t = registration_with_type i s" for i
    using f by (simp add: registration_with_type_def cong: option.case_cong)
  moreover have "verifySignedOfflineQr c x y t = verifySignedOfflineQr c x y s" for x y
    by (simp only: verifySignedOfflineQr_def f)
  ultimately show ?thesis
    unfolding validateQrForScan_def validateOfficialQr_def validateOfflineQrForScan_def
      validateOfflineReferenceQrForScan_def
    by (simp only: f assms(1))
qed

section \<open>Admission\<close>

lemma token_state_ok:
  "token_state_denial c q r = None \<longleftrightarrow> qr_status q = QR_ACTIVE \<and> qr_validFrom q \<le> now c \<and>
   now c \<le> qr_validUntil q \<and> rg_status r = REG_ACTIVE"
  by (cases "qr_status q") (auto simp: token_state_denial_def)

lemma registration_with_type_Inr:
  "registration_with_type i s = Inr (r, a) \<longleftrightarrow> find_registration i s = Some r \<and>
   find_attendee_type (rg_attendeeTypeId r) s = Some a"
  by (auto simp: registration_with_type_def split: option.splits)

text \<open>The stored token a valid context rests on.\<close>

definition token_admits :: "env \<Rightarrow> id \<Rightarrow> store \<Rightarrow> qr_token \<Rightarrow> registration \<Rightarrow> attendee_type \<Rightarrow> bool" where
  "token_admits c eventId s q r a = (q \<in> set (qrTokens s) \<and> qr_eventId q = eventId \<and> qr_status q = QR_ACTIVE \<and>
     qr_validFrom q \<le> now c \<and> now c \<le> qr_validUntil q \<and>
     find_registration (qr_registrationId q) s = Some r \<and> rg_status r = REG_ACTIVE \<and>
     find_attendee_type (rg_attendeeTypeId r) s = Some a)"

lemma valid_reference:
  assumes "validateOfflineReferenceQrForScan c x e s = Inr (ValidQr q r a p)"
  shows "token_admits c e s q r a"
  using assms
  by (auto simp: validateOfflineReferenceQrForScan_def token_admits_def token_state_ok Let_def
        registration_with_type_Inr bindE_Inr_iff
        dest!: find_row_Some split: option.splits if_splits)

lemma valid_offline:
  assumes "validateOfflineQrForScan c x e s = Inr (ValidQr q r a p)"
  shows "token_admits c e s q r a"
  using assms unfolding validateOfflineQrForScan_def bindE_Inr_iff Let_def
  by (elim exE conjE)
    (simp split: option.split_asm if_split_asm,
     auto simp: bindE_Inr_iff token_admits_def token_state_ok registration_with_type_Inr dest: find_row_Some
       split: option.split_asm if_split_asm)

lemma valid_official:
  assumes "validateOfficialQr c x e s = Inr (ValidQr q r a p)"
  shows "token_admits c e s q r a"
  using assms
  by (auto simp: validateOfficialQr_def token_admits_def token_state_ok scanMismatch_def
        registration_with_type_Inr bindE_Inr_iff
        dest!: find_in(5) split: option.splits if_splits)

lemma valid_context:
  assumes "validateQrForScan c x e s = Inr (ValidQr q r a p)"
  shows "token_admits c e s q r a"
  using assms valid_reference valid_offline valid_official
  by (auto simp: validateQrForScan_def Let_def split: if_splits sum.splits)

text \<open>The checkpoint of the scan, if any, is active, of the event, and admits the attendee type.\<close>

definition checkpoint_admits :: "scan_dto \<Rightarrow> store \<Rightarrow> attendee_type \<Rightarrow> bool" where
  "checkpoint_admits dto s a = (\<exists>cp. ensureActiveCheckpoint (dto_checkpointId dto) (dto_eventId dto) s = Inr cp \<and>
     getCheckpointAccessDenial cp (at_code a) = None)"

lemma scan_reason_allowed:
  "reason_result (scan_reason event cp a rid y s) = ALLOWED \<longleftrightarrow>
   getCheckpointAccessDenial cp (at_code a) = None \<and> getReentryDenial event rid y s = None"
proof -
  have "getCheckpointAccessDenial cp (at_code a) \<noteq> Some ''ALLOWED''"
    by (auto simp: getCheckpointAccessDenial_def Let_def split: option.splits json.splits)
  moreover have "getReentryDenial event rid y s \<noteq> Some ''ALLOWED''"
    by (auto simp: getReentryDenial_def)
  ultimately show ?thesis by (auto simp: scan_reason_def reason_result_def split: option.splits)
qed

text \<open>How \<open>ingest\<close> ends in a decision: the run of \<open>ingestNew\<close> on a valid context.\<close>

lemma create_processed_Inr:
  assumes "createProcessedScanAndMovement c dto q r p result reason s = (Inr (sc, m), t)"
  shows "sc_id sc = cuid c (next_id s) \<and> sc_operationId sc = dto_operationId dto \<and> sc_status sc = SC_PROCESSED \<and>
    sc_result sc = Some result \<and> sc_reason sc = Some reason \<and> mv_scanEventRawId m = sc_id sc \<and>
    mv_registrationId m = rg_id r \<and> mv_result m = result \<and> mv_type m = dto_type dto \<and>
    mv_eventId m = dto_eventId dto \<and> find_scan_by_op (dto_operationId dto) s = None \<and>
    t = s\<lparr>next_id := Suc (Suc (next_id s)), scans := append_row sc (scans s), movements := append_row m (movements s)\<rparr>"
  using assms
  by (auto simp: createProcessedScanAndMovement_def transaction_def create_scan_def create_movement_def
        bindA_def new_id_def gets_def modify_def ret_def throw_def split: option.splits prod.splits sum.splits if_splits)

lemma ingestNew_Decided:
  assumes "ingestNew c dto s = (Inr (Decided ok reason sc m), t)"
  obtains event device session cp q r a payload u where
    "ensureEventCanBeModified (dto_eventId dto) s = Inr event"
    "ensureActiveDevice (dto_deviceId dto) (dto_eventId dto) s = Inr device"
    "ensureActiveStaffSession (dto_staffSessionId dto) (dto_eventId dto) s = Inr session"
    "ensureActiveCheckpoint (dto_checkpointId dto) (dto_eventId dto) s = Inr cp"
    "validateQrForScan c (dto_qrToken dto) (dto_eventId dto) s = Inr (ValidQr q r a payload)"
    "reason = scan_reason event cp a (rg_id r) (dto_type dto) s" "ok = (reason_result reason = ALLOWED)"
    "createProcessedScanAndMovement c dto q r payload (reason_result reason) reason s = (Inr (sc, m), u)"
    "touchActivity c (dv_id device) (map_option ss_id session) u = (Inr (), t)"
  using assms unfolding ingestNew_def Let_def
  by (auto simp: bindA_reads bindA_gets touchActivity_def modify_def ret_def
        split: sum.splits qr_context.splits elim!: bindA_InrE)

text \<open>Either way \<open>ingest\<close> runs \<open>ingestNew\<close>, it is on a store that differs in the scans at most.\<close>

lemma ingest_new_run:
  assumes "ingest c dto s = (Inr a, t)" and "\<And>ok r sc m. a \<noteq> Replayed ok r sc m" and "\<And>sc. a \<noteq> ReplayedRaw sc"
  obtains x where "ingestNew c dto (s\<lparr>scans := x\<rparr>) = (Inr a, t)" "x = scans s \<or>
    (\<exists>sc. find_scan_by_op (dto_operationId dto) s = Some sc \<and> movement_of_scan (sc_id sc) s = None \<and>
       x = delete_rows (\<lambda>y. sc_id y = sc_id sc) (scans s))"
proof (cases "find_scan_by_op (dto_operationId dto) s")
  case None
  then have "ingestNew c dto (s\<lparr>scans := scans s\<rparr>) = (Inr a, t)"
    using assms(1) by (simp add: ingest_def bindA_gets)
  then show ?thesis using that by blast
next
  case (Some sc)
  have "retryable_reference sc (movement_of_scan (sc_id sc) s)"
    using assms Some
    by (auto simp: ingest_def act_simps replay_answer_def dest: meta_spec split: if_split_asm)
  then show ?thesis
    using assms(1) Some that [of "delete_rows (\<lambda>y. sc_id y = sc_id sc) (scans s)"]
    by (auto simp: ingest_def act_simps retryable_reference_def)
qed


text \<open>A synchronised offline reference, scanned at the entrance.\<close>

definition sample_active_row :: qr_token where
  "sample_active_row = sample_qr_row\<lparr>qr_status := QR_ACTIVE, qr_validUntil := 8000\<rparr>"

definition sample_mapping :: "mapping_status \<Rightarrow> mapping_row" where
  "sample_mapping st = \<lparr>mp_id = ''m1'', mp_eventId = ''e1'', mp_issuerDeviceId = ''d1'',
     mp_operationId = ''op'', mp_localId = ''l1'', mp_offlineQrToken = ''O2.tok'', mp_issuerKeyVersion = 1,
     mp_payloadHash = ''h'', mp_registrationId = Some ''r1'', mp_canonicalQrTokenId = Some (qr_id sample_qr_row),
     mp_status = st, mp_conflictCode = None, mp_conflictMessage = None, mp_syncedAt = Some 600\<rparr>"

definition sample_gate :: "mapping_status \<Rightarrow> store" where
  "sample_gate st = sample_regs\<lparr>qrTokens := [sample_active_row], mappings := [sample_mapping st],
     offlineKeys := [sample_key], next_id := 1\<rparr>"

definition sample_scan :: scan_dto where
  "sample_scan = sample_dto\<lparr>dto_qrToken := '' O2.tok''\<rparr>"

definition decided_true :: "(scan_answer res \<times> store) \<Rightarrow> bool" where
  "decided_true x = (case fst x of Inr (Decided ok _ _ _) \<Rightarrow> ok | _ \<Rightarrow> False)"

lemma decided_trueE:
  assumes "decided_true x"
  obtains reason sc m t where "x = (Inr (Decided True reason sc m), t)"
  using assms by (cases x) (auto simp: decided_true_def split: sum.splits scan_answer.splits)

lemmas sample_gate_defs = sample_gate_def sample_regs_def empty_store_def sample_mapping_def sample_active_row_def
  sample_qr_row_def sample_event_def sample_type_def sample_registration_def sample_device_def
  sample_checkpoint_def sample_scan_def sample_dto_def sample_key_def

lemma sample_trim: "trim '' O2.tok'' = ''O2.tok''" "trim ''O2.tok'' = ''O2.tok''" by code_simp+

lemma sample_now: "now sample_env = 1000" by (simp add: sample_env_def)

lemma sample_gate_finds:
  "find_event ''e1'' (sample_gate st) = Some sample_event"
  "find_device ''d1'' (sample_gate st) = Some sample_device"
  "find_checkpoint ''p1'' (sample_gate st) = Some sample_checkpoint"
  "find_registration ''r1'' (sample_gate st) = Some sample_registration"
  "find_attendee_type ''t1'' (sample_gate st) = Some sample_type"
  "find_mapping_by_token ''O2.tok'' (sample_gate st) = Some (sample_mapping st)"
  "find_scan_by_op i (sample_gate st) = None" "movement_of_scan i (sample_gate st) = None"
  "find_offline_scan_by_op i (sample_gate st) = None"
  "find_key ''d1'' 1 (sample_gate st) = Some sample_key"
  by (simp_all add: sample_gate_defs find_defs lookup_by_def find_key_def is_key_def)

lemma sample_rows:
  "qr_registrationId sample_active_row = ''r1''" "qr_id sample_active_row = qr_id sample_qr_row"
  "qr_eventId sample_active_row = ''e1''" "qr_status sample_active_row = QR_ACTIVE"
  "qr_validFrom sample_active_row = 500" "qr_validUntil sample_active_row = 8000"
  "mp_eventId (sample_mapping st) = ''e1''" "mp_registrationId (sample_mapping st) = Some ''r1''"
  "mp_canonicalQrTokenId (sample_mapping st) = Some (qr_id sample_qr_row)" "mp_status (sample_mapping st) = st"
  "rg_attendeeTypeId sample_registration = ''t1''" "rg_status sample_registration = REG_ACTIVE"
  "qrTokens (sample_gate st) = [sample_active_row]" "movements (sample_gate st) = []"
  "ev_status sample_event = EV_ACTIVE" "ev_id sample_event = ''e1''" "dv_eventId sample_device = ''e1''"
  "dv_status sample_device = DEV_ACTIVE" "dv_id sample_device = ''d1''" "cp_eventId sample_checkpoint = ''e1''"
  "cp_isActive sample_checkpoint" "cp_allowedAttendeeTypes sample_checkpoint = JNull"
  by (simp_all add: sample_gate_defs)

lemma sample_reference_valid:
  "\<exists>p. validateQrForScan sample_env '' O2.tok'' ''e1'' (sample_gate MAP_SYNCED) =
     Inr (ValidQr sample_active_row sample_registration sample_type p)"
  by (simp add: validateQrForScan_def validateOfflineReferenceQrForScan_def Let_def sample_trim starts_with_def
        sample_gate_finds registration_with_type_def token_state_denial_def sample_now sample_rows)

lemma sample_admitted: "decided_true (ingest sample_env sample_scan (sample_gate MAP_SYNCED))"
proof -
  obtain p where p: "validateQrForScan sample_env '' O2.tok'' ''e1'' (sample_gate MAP_SYNCED) =
     Inr (ValidQr sample_active_row sample_registration sample_type p)"
    using sample_reference_valid by blast
  have dto: "dto_eventId sample_scan = ''e1''" "dto_deviceId sample_scan = ''d1''"
    "dto_staffSessionId sample_scan = None" "dto_checkpointId sample_scan = Some ''p1''"
    "dto_qrToken sample_scan = '' O2.tok''" "dto_type sample_scan = MV_ENTRY"
    by (simp_all add: sample_scan_def sample_dto_def)
  have reason: "scan_reason sample_event (Some sample_checkpoint) sample_type i y (sample_gate st) = ''ALLOWED''" for i y st
    by (simp add: scan_reason_def getCheckpointAccessDenial_def getReentryDenial_def sample_rows exists_row_def)
  have new: "movement_of_scan i (s\<lparr>next_id := n, scans := x\<rparr>) = movement_of_scan i s"
    "movement_of_scan i (s\<lparr>next_id := n\<rparr>) = movement_of_scan i s" for i n x and s :: store
    by (simp_all add: movement_of_scan_def)
  show ?thesis
    by (simp add: ingest_def ingestNew_def Let_def act_simps dto p sample_gate_finds ensureEventCanBeModified_def
          ensureActiveDevice_def ensureActiveStaffSession_def ensureActiveCheckpoint_def sample_rows reason
          createProcessedScanAndMovement_def transaction_def create_scan_def create_movement_def bindA_def
          new_id_def gets_def modify_def ret_def reason_result_def touchActivity_def new decided_true_def)
qed


section \<open>Repeated operation ids\<close>

definition plain_denials :: "string set" where
  "plain_denials = {''INVALID_SIGNATURE'', ''EVENT_MISMATCH'', ''OFFLINE_QR_CONFLICTED'', ''TOKEN_REVOKED'',
     ''TOKEN_NOT_FOUND'', ''TOKEN_EXPIRED'', ''REGISTRATION_INACTIVE''}"

lemma plain_simps [simp]:
  "''INVALID_SIGNATURE'' \<in> plain_denials" "''EVENT_MISMATCH'' \<in> plain_denials"
  "''OFFLINE_QR_CONFLICTED'' \<in> plain_denials" "''TOKEN_REVOKED'' \<in> plain_denials"
  "''TOKEN_NOT_FOUND'' \<in> plain_denials" "''TOKEN_EXPIRED'' \<in> plain_denials"
  "''REGISTRATION_INACTIVE'' \<in> plain_denials"
  by (simp_all add: plain_denials_def)

lemma token_state_plain: "token_state_denial c q r = Some why \<Longrightarrow> why \<in> plain_denials"
  by (auto simp: token_state_denial_def split: if_split_asm)

lemma reference_plain:
  assumes "validateOfflineReferenceQrForScan c x e s = Inr (InvalidQr why p t r)"
  shows "why \<in> plain_denials"
  using assms unfolding validateOfflineReferenceQrForScan_def Let_def
  by (simp split: option.split_asm if_split_asm)
    (auto simp: bindE_Inr_iff dest: token_state_plain split: option.split_asm if_split_asm)

lemma offline_plain:
  assumes "validateOfflineQrForScan c x e s = Inr (InvalidQr why p t r)"
  shows "why \<in> plain_denials"
  using assms unfolding validateOfflineQrForScan_def bindE_Inr_iff Let_def
  by (elim exE conjE)
    (simp split: option.split_asm if_split_asm,
     auto simp: bindE_Inr_iff dest: token_state_plain split: option.split_asm if_split_asm)

lemma official_plain:
  assumes "validateOfficialQr c x e s = Inr (InvalidQr why p t r)"
  shows "why \<in> plain_denials"
  using assms unfolding validateOfficialQr_def
  by (simp split: option.split_asm if_split_asm)
    (auto simp: bindE_Inr_iff dest: token_state_plain split: option.split_asm if_split_asm)

lemma invalid_reason:
  assumes "validateQrForScan c x e s = Inr (InvalidQr why p t r)"
  shows "toScanDenialReason why \<noteq> ''OFFLINE_REGISTRATION_NOT_SYNCED''"
proof -
  have "why \<in> plain_denials"
    using assms reference_plain offline_plain official_plain
    by (auto simp: validateQrForScan_def Let_def split: if_split_asm sum.split_asm)
  then show ?thesis by (auto simp: toScanDenialReason_def plain_denials_def)
qed

lemma touch_frame:
  "touchActivity c d x u = (Inr (), t) \<Longrightarrow> scans t = scans u \<and> movements t = movements u"
  by (auto simp: touchActivity_def modify_def)

lemma ingestNew_Refused:
  assumes "ingestNew c dto s = (Inr (Refused reason sc), t)"
  obtains event device session cp why payload tok rid u where
    "ensureEventCanBeModified (dto_eventId dto) s = Inr event"
    "ensureActiveDevice (dto_deviceId dto) (dto_eventId dto) s = Inr device"
    "ensureActiveStaffSession (dto_staffSessionId dto) (dto_eventId dto) s = Inr session"
    "ensureActiveCheckpoint (dto_checkpointId dto) (dto_eventId dto) s = Inr cp"
    "validateQrForScan c (dto_qrToken dto) (dto_eventId dto) s = Inr (InvalidQr why payload tok rid)"
    "reason = toScanDenialReason why" "createInvalidScan c dto reason payload tok rid s = (Inr sc, u)"
    "touchActivity c (dv_id device) (map_option ss_id session) u = (Inr (), t)"
  using assms unfolding ingestNew_def Let_def
  by (auto simp: bindA_reads bindA_gets ret_def
        split: sum.splits qr_context.splits elim!: bindA_InrE)

lemma create_scan_Inr:
  assumes "create_scan c row s = (Inr sc, t)"
  shows "sc = row (cuid c (next_id s)) \<and> find_scan_by_op (sc_operationId sc) s = None \<and>
    t = s\<lparr>next_id := Suc (next_id s), scans := append_row sc (scans s)\<rparr>"
  using assms by (auto simp: create_scan_def bindA_def new_id_def gets_def modify_def ret_def throw_def
    split: if_splits)

text \<open>What a first answer leaves behind for its operation id.\<close>

definition recorded :: "scan_dto \<Rightarrow> scan_answer \<Rightarrow> store \<Rightarrow> bool" where
  "recorded dto a t = (case a of
     Decided ok reason sc m \<Rightarrow> find_scan_by_op (dto_operationId dto) t = Some sc \<and> sc_status sc = SC_PROCESSED \<and>
       sc_reason sc = Some reason \<and> (sc_result sc = Some ALLOWED) = ok \<and> movement_of_scan (sc_id sc) t = Some m
   | Refused reason sc \<Rightarrow> find_scan_by_op (dto_operationId dto) t = Some sc \<and> sc_status sc = SC_INVALID_QR \<and>
       sc_reason sc = Some reason \<and> sc_result sc = Some DENIED \<and> reason \<noteq> ''OFFLINE_REGISTRATION_NOT_SYNCED''
   | _ \<Rightarrow> True)"

lemma reason_result_ALLOWED: "(reason_result r = ALLOWED) = (r = ''ALLOWED'')"
  by (simp add: reason_result_def)

lemma create_movement_Inr:
  assumes "create_movement c row s = (Inr m, t)"
  shows "m = row (cuid c (next_id s)) \<and> movement_of_scan (mv_scanEventRawId m) s = None \<and>
    t = s\<lparr>next_id := Suc (next_id s), movements := append_row m (movements s)\<rparr>"
  using assms
  by (auto simp: create_movement_def bindA_def new_id_def gets_def modify_def ret_def throw_def movement_of_scan_def
    split: if_splits)

lemmas found_created = rows.lookup_created [of sc_operationId] rows.lookup_created [of mv_scanEventRawId]

lemma create_scan_found:
  "create_scan c row s = (Inr sc, t) \<Longrightarrow>
   lookup_by sc_operationId (sc_operationId sc) (append_row sc (scans s)) = Some sc"
  by (rule found_created(1)) (simp only: create_scan_Inr find_scan_by_op_def [symmetric])

lemma ingestNew_recorded:
  assumes "ingestNew c dto s = (Inr a, t)"
  shows "recorded dto a t"
proof (cases a)
  case (Decided ok reason sc m)
  with assms obtain q r payload d x u event device cp a' where d:
      "createProcessedScanAndMovement c dto q r payload (reason_result reason) reason s = (Inr (sc, m), u)"
      "touchActivity c d x u = (Inr (), t)" "ok = (reason_result reason = ALLOWED)"
    by (auto elim: ingestNew_Decided)
  have "movement_of_scan (sc_id sc) s = None"
    using d(1)
    by (auto simp: createProcessedScanAndMovement_def transaction_def ret_def bindA_def
          dest!: create_scan_Inr create_movement_Inr split: prod.splits sum.splits)
      (auto simp: movement_of_scan_def)
  moreover note run = create_processed_Inr [OF d(1)]
  ultimately have "lookup_by mv_scanEventRawId (mv_scanEventRawId m) (append_row m (movements s)) = Some m"
      "lookup_by sc_operationId (sc_operationId sc) (append_row sc (scans s)) = Some sc"
    using found_created(1) [of sc "scans s"] found_created(2) [of m "movements s"]
    by (simp_all add: find_scan_by_op_def movement_of_scan_def)
  then show ?thesis
    using run touch_frame [OF d(2)] d(3) Decided
    by (auto simp: recorded_def find_scan_by_op_def movement_of_scan_def)
next
  case (Refused reason sc)
  with assms obtain why payload tok rid u where r:
      "validateQrForScan c (dto_qrToken dto) (dto_eventId dto) s = Inr (InvalidQr why payload tok rid)"
      "reason = toScanDenialReason why" "createInvalidScan c dto reason payload tok rid s = (Inr sc, u)"
      "scans t = scans u"
    by (auto elim!: ingestNew_Refused dest!: touch_frame)
  note run = create_scan_Inr [OF r(3) [unfolded createInvalidScan_def]]
  have "lookup_by sc_operationId (sc_operationId sc) (append_row sc (scans s)) = Some sc"
    using create_scan_found [OF r(3) [unfolded createInvalidScan_def]] .
  then show ?thesis
    using run r(4) invalid_reason [OF r(1)] r(2) Refused
    by (auto simp: recorded_def find_scan_by_op_def)
qed (simp_all add: recorded_def)

text \<open>C8: A repeated operation id is answered with the first decision and changes nothing: after \<open>ingest\<close> has
  admitted, denied or refused a scan, submitting the same operation id again, with any content, at
  any time, gives the same verdict, reason and scan row as a duplicate and leaves the store as it is.\<close>

theorem repeated_scan_replayed:
  assumes "ingest c dto s = (Inr a, t)"
    and "a = Decided ok reason sc m \<or> a = Refused reason sc \<and> \<not> ok"
    and "dto_operationId dto' = dto_operationId dto"
  shows "ingest c' dto' t = (Inr (Replayed ok reason sc (movement_of_scan (sc_id sc) t)), t) \<and>
    (a = Decided ok reason sc m \<longrightarrow> movement_of_scan (sc_id sc) t = Some m)"
proof -
  have "recorded dto a t"
    using assms(1,2) by (elim ingest_new_run) (auto dest: ingestNew_recorded)
  then show ?thesis
    using assms(2,3)
    by (auto simp: recorded_def ingest_def bindA_gets ret_def retryable_reference_def replay_answer_def)
qed

lemma repeated_scan_replayed_witness:
  "\<exists>sc m t. ingest sample_env sample_scan (sample_gate MAP_SYNCED) = (Inr (Decided True ''ALLOWED'' sc m), t) \<and>
     ingest (sample_env\<lparr>now := 2000\<rparr>) sample_scan t = (Inr (Replayed True ''ALLOWED'' sc (Some m)), t)"
proof -
  obtain reason sc m t
    where i: "ingest sample_env sample_scan (sample_gate MAP_SYNCED) = (Inr (Decided True reason sc m), t)"
    using sample_admitted by (rule decided_trueE)
  then have "reason = ''ALLOWED''"
    by (elim ingest_new_run ingestNew_Decided) (auto simp: reason_result_ALLOWED)
  with i repeated_scan_replayed [OF i, of True reason sc m sample_scan "sample_env\<lparr>now := 2000\<rparr>"]
  show ?thesis by auto
qed

section \<open>The queue worker\<close>

text \<open>The store after \<open>ingestFast\<close>: the row is stored, undecided, and a job may be queued.\<close>

definition queued_row :: "scan_dto \<Rightarrow> id \<Rightarrow> scan_event" where
  "queued_row dto i = \<lparr>sc_id = i, sc_operationId = dto_operationId dto, sc_eventId = dto_eventId dto,
     sc_deviceId = dto_deviceId dto, sc_staffSessionId = dto_staffSessionId dto,
     sc_checkpointId = dto_checkpointId dto, sc_registrationId = None, sc_qrTokenId = None,
     sc_qrPayload = JNull, sc_qrRaw = Some (dto_qrToken dto), sc_type = dto_type dto, sc_status = SC_PENDING,
     sc_result = None, sc_reason = None, sc_scannedAtDevice = dto_scannedAt dto, sc_processedAt = None,
     sc_payload = json_or_null (dto_payload dto)\<rparr>"

definition queued :: "env \<Rightarrow> scan_dto \<Rightarrow> job list \<Rightarrow> store \<Rightarrow> store" where
  "queued c dto js s = s\<lparr>scans := append_row (queued_row dto (cuid c (next_id s))) (scans s),
     jobs := js, next_id := Suc (next_id s)\<rparr>"

lemma ingestFast_run:
  assumes "find_scan_by_op (dto_operationId dto) s = None"
  shows "\<exists>js. snd (ingestFast c dto s) = queued c dto js s"
proof -
  have "find_scan_by_op (dto_operationId dto) (s\<lparr>next_id := n\<rparr>) = None" for n using assms by simp
  then have "create_scan c (queued_row dto) s = (Inr (queued_row dto (cuid c (next_id s))),
      s\<lparr>next_id := Suc (next_id s), scans := append_row (queued_row dto (cuid c (next_id s))) (scans s)\<rparr>)"
    by (simp add: create_scan_def bindA_def new_id_def gets_def modify_def ret_def queued_row_def)
  then have run: "bindA (create_scan c (queued_row dto)) f s = f (queued_row dto (cuid c (next_id s)))
      (s\<lparr>next_id := Suc (next_id s), scans := append_row (queued_row dto (cuid c (next_id s))) (scans s)\<rparr>)"
    for f :: "scan_event \<Rightarrow> (store, fast_answer) act" by (rule bindA_done)
  have "snd (ingestFast c dto s) = queued c dto (jobs (snd (ingestFast c dto s))) s"
    using run by (simp add: ingestFast_def bindA_gets assms queued_row_def [abs_def] queued_def)
      (simp add: bindA_modify ret_def add_job_def)
  then show ?thesis by blast
qed

text \<open>The reads of the handlers see the same rows.\<close>

lemma queued_tables:
  "events (queued c dto js s) = events s" "devices (queued c dto js s) = devices s"
  "staffSessions (queued c dto js s) = staffSessions s" "checkpoints (queued c dto js s) = checkpoints s"
  "qrTokens (queued c dto js s) = qrTokens s" "mappings (queued c dto js s) = mappings s"
  "registrations (queued c dto js s) = registrations s" "attendeeTypes (queued c dto js s) = attendeeTypes s"
  "offlineKeys (queued c dto js s) = offlineKeys s" "movements (queued c dto js s) = movements s"
  by (simp_all add: queued_def)

lemma queued_reentry: "getReentryDenial ev r k (queued c dto js s) = getReentryDenial ev r k s"
  by (simp add: getReentryDenial_def queued_tables)

lemma queued_reads:
  "ensureEventCanBeModified i (queued c dto js s) = ensureEventCanBeModified i s"
  "ensureActiveDevice i e (queued c dto js s) = ensureActiveDevice i e s"
  "ensureActiveStaffSession x e (queued c dto js s) = ensureActiveStaffSession x e s"
  "ensureActiveCheckpoint y e (queued c dto js s) = ensureActiveCheckpoint y e s"
  "validateQrForScan c q e (queued c dto js s) = validateQrForScan c q e s"
  "scan_reason ev cp a r k (queued c dto js s) = scan_reason ev cp a r k s"
  by (simp_all add: ensureEventCanBeModified_def ensureActiveDevice_def ensureActiveStaffSession_def
        ensureActiveCheckpoint_def find_defs queued_tables scan_reason_def queued_reentry cong: option.case_cong)
    (rule validate_frame; simp add: queued_tables)

lemma update_last:
  "(\<And>x. x \<in> set rows \<Longrightarrow> key x \<noteq> i) \<Longrightarrow> key r = i \<Longrightarrow>
   update_by key i f (append_row r rows) = append_row (f r) rows"
  by (auto simp: update_by_def update_rows_def append_row_def intro!: map_idI)

lemma find_queued:
  assumes "\<And>x. x \<in> set (scans s) \<Longrightarrow> sc_id x \<noteq> cuid c (next_id s)"
  shows "find_scan (cuid c (next_id s)) (queued c dto js s) = Some (queued_row dto (cuid c (next_id s)))"
proof -
  have "lookup_by sc_id (sc_id (queued_row dto (cuid c (next_id s)))) (scans s) = None"
    using assms by (force simp: lookup_by_None queued_row_def)
  from rows.lookup_created [OF this] show ?thesis
    by (simp add: find_scan_def queued_def queued_row_def)
qed

lemma dto_of_queued:
  assumes "dto_payload dto = None \<or> (\<exists>fs. dto_payload dto = Some (JObj fs))"
  shows "dto_of_scan (queued_row dto i) = dto"
  using assms by (auto simp: dto_of_scan_def queued_row_def json_or_null_def object_payload_def)

text \<open>Completing the stored row is creating the decided one.\<close>

lemma complete_queued:
  assumes run: "createProcessedScanAndMovement c dto q r p result reason s = (Inr (sc, m), u)"
    and new: "\<And>x. x \<in> set (scans s) \<Longrightarrow> sc_id x \<noteq> cuid c (next_id s)"
  shows "updateRawScanAndCreateMovement c (queued_row dto (cuid c (next_id s))) q r p result reason
     (queued c dto js s) = (Inr (sc, m), u\<lparr>jobs := js\<rparr>)"
proof -
  let ?i = "cuid c (next_id s)"
  have id: "sc_id (queued_row dto ?i) = ?i" by (simp add: queued_row_def)
  have upd: "update_by sc_id ?i f (append_row (queued_row dto ?i) (scans s)) = append_row (f (queued_row dto ?i)) (scans s)" for f
    using update_last [of "scans s" sc_id ?i "queued_row dto ?i" f] new id by simp
  have scq: "scans (queued c dto js s) = append_row (queued_row dto ?i) (scans s)" by (simp add: queued_def)
  have frame: "movement_of_scan j (queued c dto js s) = movement_of_scan j s"
      "movement_of_scan j (t\<lparr>scans := x\<rparr>) = movement_of_scan j t"
      "movement_of_scan j (t\<lparr>next_id := n\<rparr>) = movement_of_scan j t" for j x n and t :: store
    by (simp_all add: movement_of_scan_def queued_def)
  show ?thesis
    using run unfolding createProcessedScanAndMovement_def updateRawScanAndCreateMovement_def update_scan_def id
    by (auto simp: transaction_def create_scan_def create_movement_def bindA_def new_id_def gets_def modify_def
          ret_def throw_def find_queued [OF new] scq upd frame id split: if_split_asm)
      (simp_all add: queued_def queued_row_def)
qed

lemma refuse_queued:
  assumes run: "createInvalidScan c dto reason p tok rid s = (Inr sc, u)"
    and new: "\<And>x. x \<in> set (scans s) \<Longrightarrow> sc_id x \<noteq> cuid c (next_id s)"
  shows "updateInvalidRawScan c (cuid c (next_id s)) reason p tok rid (queued c dto js s) = (Inr sc, u\<lparr>jobs := js\<rparr>)"
proof -
  let ?i = "cuid c (next_id s)"
  have upd: "update_by sc_id ?i f (append_row (queued_row dto ?i) (scans s)) = append_row (f (queued_row dto ?i)) (scans s)" for f
    using update_last [of "scans s" sc_id ?i "queued_row dto ?i" f] new by (simp add: queued_row_def)
  have "scans (queued c dto js s) = append_row (queued_row dto ?i) (scans s)" by (simp add: queued_def)
  moreover note create_scan_Inr [OF run [unfolded createInvalidScan_def]]
  ultimately show ?thesis
    by (simp add: updateInvalidRawScan_def update_scan_def act_simps find_queued [OF new] upd)
      (simp add: queued_def queued_row_def split: option.split)
qed

lemma queued_row_sel:
  "sc_id (queued_row dto i) = i" "sc_eventId (queued_row dto i) = dto_eventId dto"
  "sc_deviceId (queued_row dto i) = dto_deviceId dto" "sc_staffSessionId (queued_row dto i) = dto_staffSessionId dto"
  "sc_checkpointId (queued_row dto i) = dto_checkpointId dto" "sc_type (queued_row dto i) = dto_type dto"
  "sc_status (queued_row dto i) = SC_PENDING"
  by (simp_all add: queued_row_def)

lemma touch_jobs:
  "touchActivity c d x u = (Inr (), t) \<Longrightarrow> touchActivity c d x (u\<lparr>jobs := js\<rparr>) = (Inr (), t\<lparr>jobs := js\<rparr>)"
  by (auto simp: touchActivity_def modify_def)

lemma decide_queued:
  assumes run: "ingestNew c dto s = (Inr (Decided ok reason sc m), t)"
    and payload: "dto_payload dto = None \<or> (\<exists>fs. dto_payload dto = Some (JObj fs))"
    and new: "\<And>x. x \<in> set (scans s) \<Longrightarrow> sc_id x \<noteq> cuid c (next_id s)"
  shows "processPendingScan c (queued_row dto (cuid c (next_id s))) (queued c dto js s) =
    (Inr (RawDecided ok reason sc m), t\<lparr>jobs := js\<rparr>)"
proof -
  obtain event device session cp q r a p u where d:
    "ensureEventCanBeModified (dto_eventId dto) s = Inr event"
    "ensureActiveDevice (dto_deviceId dto) (dto_eventId dto) s = Inr device"
    "ensureActiveStaffSession (dto_staffSessionId dto) (dto_eventId dto) s = Inr session"
    "ensureActiveCheckpoint (dto_checkpointId dto) (dto_eventId dto) s = Inr cp"
    "validateQrForScan c (dto_qrToken dto) (dto_eventId dto) s = Inr (ValidQr q r a p)"
    "reason = scan_reason event cp a (rg_id r) (dto_type dto) s" "ok = (reason_result reason = ALLOWED)"
    "createProcessedScanAndMovement c dto q r p (reason_result reason) reason s = (Inr (sc, m), u)"
    "touchActivity c (dv_id device) (map_option ss_id session) u = (Inr (), t)"
    using run by (rule ingestNew_Decided)
  have go: "bindA (updateRawScanAndCreateMovement c (queued_row dto (cuid c (next_id s))) q r p
      (reason_result reason) reason) f (queued c dto js s) = f (sc, m) (u\<lparr>jobs := js\<rparr>)"
    for f :: "scan_event \<times> movement \<Rightarrow> (store, raw_answer) act"
    by (rule bindA_done, rule complete_queued [OF d(8)], rule new)
  show ?thesis
    using d(7) touch_jobs [OF d(9)]
    by (simp add: processPendingScan_def Let_def bindA_reads bindA_gets queued_row_sel dto_of_queued [OF payload]
          queued_reads d(1-5) d(6) [symmetric] go bindA_done ret_def)
qed

lemma denied_queued:
  assumes run: "ingestNew c dto s = (Inr (Refused reason sc), t)"
    and payload: "dto_payload dto = None \<or> (\<exists>fs. dto_payload dto = Some (JObj fs))"
    and new: "\<And>x. x \<in> set (scans s) \<Longrightarrow> sc_id x \<noteq> cuid c (next_id s)"
  shows "processPendingScan c (queued_row dto (cuid c (next_id s))) (queued c dto js s) =
    (Inr (RawRefused reason sc), t\<lparr>jobs := js\<rparr>)"
proof -
  obtain event device session cp why p tok rid u where d:
    "ensureEventCanBeModified (dto_eventId dto) s = Inr event"
    "ensureActiveDevice (dto_deviceId dto) (dto_eventId dto) s = Inr device"
    "ensureActiveStaffSession (dto_staffSessionId dto) (dto_eventId dto) s = Inr session"
    "ensureActiveCheckpoint (dto_checkpointId dto) (dto_eventId dto) s = Inr cp"
    "validateQrForScan c (dto_qrToken dto) (dto_eventId dto) s = Inr (InvalidQr why p tok rid)"
    "reason = toScanDenialReason why" "createInvalidScan c dto reason p tok rid s = (Inr sc, u)"
    "touchActivity c (dv_id device) (map_option ss_id session) u = (Inr (), t)"
    using run by (rule ingestNew_Refused)
  have go: "bindA (updateInvalidRawScan c (cuid c (next_id s)) reason p tok rid) f (queued c dto js s) =
      f sc (u\<lparr>jobs := js\<rparr>)" for f :: "scan_event \<Rightarrow> (store, raw_answer) act"
    by (rule bindA_done, rule refuse_queued [OF d(7)], rule new)
  show ?thesis
    using touch_jobs [OF d(8)]
    by (simp add: processPendingScan_def Let_def bindA_reads queued_row_sel dto_of_queued [OF payload]
          queued_reads d(1-5) d(6) [symmetric] go bindA_done ret_def)
qed

text \<open>C6: The queue worker decides as the online path would: if \<open>ingest\<close> decides or refuses a scan whose
  operation id is new and whose payload is absent or an object, then \<open>ingestFast\<close> followed by the
  worker's \<open>processRawScan\<close> on the stored row gives the same verdict, reason, scan row and movement and
  leaves the same store, except for the job that was queued.\<close>

theorem worker_agrees_with_ingest:
  assumes law: "id_law c" and inv: "scan_inv c s" and new: "find_scan_by_op (dto_operationId dto) s = None"
    and payload: "dto_payload dto = None \<or> (\<exists>fs. dto_payload dto = Some (JObj fs))"
    and run: "ingest c dto s = (Inr a, t)"
    and answer: "a = Decided ok reason sc m \<and> raw = RawDecided ok reason sc m \<or> a = Refused reason sc \<and> raw = RawRefused reason sc"
  shows "\<exists>js. processRawScan c (cuid c (next_id s)) (snd (ingestFast c dto s)) = (Inr raw, t\<lparr>jobs := js\<rparr>)"
proof -
  let ?i = "cuid c (next_id s)"
  obtain js where js: "snd (ingestFast c dto s) = queued c dto js s" using ingestFast_run [OF new] by blast
  have ids: "sc_id x \<noteq> ?i" if "x \<in> set (scans s)" for x
    using new_scan_id [OF inv [unfolded scan_inv_def] law that] .
  have ingest: "ingestNew c dto s = (Inr a, t)" using run new by (simp add: ingest_def bindA_gets)
  have "processPendingScan c (queued_row dto ?i) (queued c dto js s) = (Inr raw, t\<lparr>jobs := js\<rparr>)"
    using answer decide_queued [OF _ payload ids] denied_queued [OF _ payload ids] ingest by blast
  moreover have "sc_status (queued_row dto ?i) = SC_PENDING" by (simp add: queued_row_def)
  ultimately have "processRawScan c ?i (queued c dto js s) = (Inr raw, t\<lparr>jobs := js\<rparr>)"
    by (simp add: processRawScan_def bindA_gets find_queued [OF ids] catch_def)
  then show ?thesis using js by auto
qed

lemma sample_gate_inv: "scan_inv sample_env (sample_gate st)"
  using empty_scan_inv(1) by (simp add: scan_inv_def sample_gate_def scan_tables_def sample_regs_def empty_store_def)

lemma worker_agrees_with_ingest_witness:
  "\<exists>reason sc m t js. ingest sample_env sample_scan (sample_gate MAP_SYNCED) = (Inr (Decided True reason sc m), t) \<and>
     processRawScan sample_env (cuid sample_env (next_id (sample_gate MAP_SYNCED)))
       (snd (ingestFast sample_env sample_scan (sample_gate MAP_SYNCED))) =
     (Inr (RawDecided True reason sc m), t\<lparr>jobs := js\<rparr>)"
proof -
  obtain reason sc m t
    where i: "ingest sample_env sample_scan (sample_gate MAP_SYNCED) = (Inr (Decided True reason sc m), t)"
    using sample_admitted by (rule decided_trueE)
  have "dto_payload sample_scan = None" by (simp add: sample_scan_def sample_dto_def)
  then have "\<exists>js. processRawScan sample_env (cuid sample_env (next_id (sample_gate MAP_SYNCED)))
       (snd (ingestFast sample_env sample_scan (sample_gate MAP_SYNCED))) =
     (Inr (RawDecided True reason sc m), t\<lparr>jobs := js\<rparr>)"
    by (intro worker_agrees_with_ingest [OF sample_laws(1) sample_gate_inv sample_gate_finds(7) _ i]) simp_all
  with i show ?thesis by blast
qed

section \<open>Badges and references\<close>


lemma sample_gate_trusted:
  "find_device ''d1'' (sample_gate st) = Some sample_device" "find_key ''d1'' 1 (sample_gate st) = Some sample_key"
  by (rule sample_gate_finds)+


end
