(* ===== verification/ScanRace.thy ===== *)
theory ScanRace
  imports ScanProps
begin

text \<open>
  Two online scans served at the same time. \<open>ingest\<close> reads, decides and only then writes, in one
  transaction, the scan and its movement; nothing orders the reads of one request before the writes
  of another. Here its run is split where it first writes, so that requests interleave there.
\<close>

text \<open>All that \<open>ingest\<close> reads for a new operation id, up to its decision.\<close>

definition decideScan :: "env \<Rightarrow> scan_dto \<Rightarrow> store \<Rightarrow>
    (device \<times> staff_session option \<times> qr_token \<times> registration \<times> fields \<times> string) option" where
  "decideScan c dto s =
    (case (find_scan_by_op (dto_operationId dto) s, ensureEventCanBeModified (dto_eventId dto) s,
       ensureActiveDevice (dto_deviceId dto) (dto_eventId dto) s,
       ensureActiveStaffSession (dto_staffSessionId dto) (dto_eventId dto) s,
       ensureActiveCheckpoint (dto_checkpointId dto) (dto_eventId dto) s,
       validateQrForScan c (dto_qrToken dto) (dto_eventId dto) s) of
       (None, Inr event, Inr device, Inr staffSession, Inr checkpoint, Inr (ValidQr q r a payload)) \<Rightarrow>
         Some (device, staffSession, q, r, payload, scan_reason event checkpoint a (rg_id r) (dto_type dto) s)
     | _ \<Rightarrow> None)"

text \<open>All that it then writes.\<close>

definition commitScan :: "env \<Rightarrow> scan_dto \<Rightarrow>
    device \<times> staff_session option \<times> qr_token \<times> registration \<times> fields \<times> string \<Rightarrow> (store, scan_answer) act" where
  "commitScan c dto plan = (case plan of (device, staffSession, q, r, payload, reason) \<Rightarrow>
     bindA (createProcessedScanAndMovement c dto q r payload (reason_result reason) reason) (\<lambda>(sc, m).
     bindA (touchActivity c (dv_id device) (map_option ss_id staffSession)) (\<lambda>_.
     ret (Decided (reason_result reason = ALLOWED) reason sc m))))"

lemma ingest_split:
  assumes "decideScan c dto s = Some plan"
  shows "ingest c dto s = commitScan c dto plan s"
  using assms
  by (auto simp: decideScan_def commitScan_def ingest_def ingestNew_def Let_def bindA_reads bindA_gets
        split: option.splits sum.splits qr_context.splits)

lemma commit_run:
  assumes "find_scan_by_op (dto_operationId dto) s = None" and "movement_of_scan (cuid c (next_id s)) s = None"
  shows "\<exists>sc m t. commitScan c dto (d, x, q, r, p, reason) s = (Inr (Decided (reason_result reason = ALLOWED) reason sc m), t) \<and>
    movements t = append_row m (movements s) \<and> mv_eventId m = dto_eventId dto \<and> mv_registrationId m = rg_id r \<and>
    mv_type m = dto_type dto \<and> mv_result m = reason_result reason \<and> mv_scanEventRawId m = cuid c (next_id s) \<and>
    next_id t = Suc (Suc (next_id s)) \<and> sc_operationId sc = dto_operationId dto \<and> scans t = append_row sc (scans s)"
proof -
  have "find_scan_by_op (dto_operationId dto) (s\<lparr>next_id := n\<rparr>) = None" for n using assms(1) by simp
  moreover have "movement_of_scan (cuid c (next_id s)) (s\<lparr>next_id := n, scans := y\<rparr>) = None" for n y
    using assms(2) by (simp add: movement_of_scan_def)
  moreover have "movement_of_scan (cuid c (next_id s)) (s\<lparr>scans := y, next_id := n\<rparr>) = None" for n y
    using assms(2) by (simp add: movement_of_scan_def)
  ultimately show ?thesis
    by (simp add: commitScan_def createProcessedScanAndMovement_def transaction_def create_scan_def create_movement_def
          bindA_def new_id_def gets_def modify_def ret_def touchActivity_def)
qed

text \<open>C9: The re-entry rule does not survive concurrency: when two scans with different operation ids, for an
  entry of the same registration to the same event, both read before either writes, and each alone
  would be admitted, both are admitted, and the event has two admitted entries of the registration
  even if it does not allow re-entry. (One after the other, the second is refused.)\<close>

theorem concurrent_scans_both_admitted:
  assumes "id_law c" and "scan_inv c s"
    and "decideScan c d1 s = Some (x1, y1, q1, r, p1, ''ALLOWED'')"
    and "decideScan c d2 s = Some (x2, y2, q2, r, p2, ''ALLOWED'')"
    and "dto_operationId d1 \<noteq> dto_operationId d2" and "dto_eventId d1 = e" and "dto_eventId d2 = e"
    and "dto_type d1 = MV_ENTRY" and "dto_type d2 = MV_ENTRY"
  shows "\<exists>a1 a2 t u. commitScan c d1 (x1, y1, q1, r, p1, ''ALLOWED'') s = (Inr a1, t) \<and> answer_allowed a1 \<and>
    commitScan c d2 (x2, y2, q2, r, p2, ''ALLOWED'') t = (Inr a2, u) \<and> answer_allowed a2 \<and>
    2 \<le> count_rows (has_entered e (rg_id r)) (movements u)"
proof -
  have ops: "find_scan_by_op (dto_operationId d1) s = None" "find_scan_by_op (dto_operationId d2) s = None"
    using assms(3,4) by (auto simp: decideScan_def split: option.splits)
  have inv: "scan_tables c (next_id s) (events s) (scans s) (movements s)" using assms(2) by (simp add: scan_inv_def)
  have fresh: "movement_of_scan (cuid c n) s = None" if "next_id s \<le> n" for n
  proof -
    have "mv_scanEventRawId m \<noteq> cuid c n" if "m \<in> set (movements s)" for m
      using new_scan_id [OF scan_tables_mono [OF inv \<open>next_id s \<le> n\<close>] assms(1)] inv that
      by (fastforce simp: scan_tables_def agrees_def)
    then show ?thesis by (simp add: no_movement)
  qed
  have ok: "reason_result ''ALLOWED'' = ALLOWED" by (simp add: reason_result_def)
  obtain sc m t where t: "commitScan c d1 (x1, y1, q1, r, p1, ''ALLOWED'') s = (Inr (Decided True ''ALLOWED'' sc m), t)"
      "movements t = append_row m (movements s)" "has_entered e (rg_id r) m"
      "mv_scanEventRawId m = cuid c (next_id s)" "next_id t = Suc (Suc (next_id s))"
      "sc_operationId sc = dto_operationId d1" "scans t = append_row sc (scans s)"
    using commit_run [OF ops(1) fresh, of x1 y1 q1 r p1 "''ALLOWED''"] assms(6,8) ok by (auto simp: has_entered_def)
  have "find_scan_by_op (dto_operationId d2) t = None"
    using ops(2) t(6,7) assms(5) by (auto simp: find_scan_by_op_def lookup_by_None)
  moreover have "movement_of_scan (cuid c (next_id t)) t = None"
    using fresh [of "Suc (Suc (next_id s))"] t(2,4,5) assms(1) by (auto simp: no_movement id_law_def inj_eq)
  ultimately obtain sc' m' u
    where u: "commitScan c d2 (x2, y2, q2, r, p2, ''ALLOWED'') t = (Inr (Decided True ''ALLOWED'' sc' m'), u)"
      "movements u = append_row m' (movements t)" "has_entered e (rg_id r) m'"
    using commit_run [of d2 t c x2 y2 q2 r p2 "''ALLOWED''"] assms(7,9) ok by (auto simp: has_entered_def)
  have "2 \<le> count_rows (has_entered e (rg_id r)) (movements u)"
    using t(2,3) u(2,3) by (simp add: count_rows_def append_row_def)
  then show ?thesis using t(1) u(1) by (auto simp: answer_allowed_def)
qed

lemma sample_decides:
  "\<exists>p. decideScan sample_env (sample_scan\<lparr>dto_operationId := i\<rparr>) (sample_gate MAP_SYNCED) =
     Some (sample_device, None, sample_active_row, sample_registration, p, ''ALLOWED'')"
proof -
  obtain p where p: "validateQrForScan sample_env '' O2.tok'' ''e1'' (sample_gate MAP_SYNCED) =
     Inr (ValidQr sample_active_row sample_registration sample_type p)"
    using sample_reference_valid by blast
  have "scan_reason sample_event (Some sample_checkpoint) sample_type j y (sample_gate MAP_SYNCED) = ''ALLOWED''" for j y
    by (simp add: scan_reason_def getCheckpointAccessDenial_def getReentryDenial_def sample_rows exists_row_def)
  then show ?thesis
    by (simp add: decideScan_def sample_scan_def sample_dto_def p sample_gate_finds ensureEventCanBeModified_def
          ensureActiveDevice_def ensureActiveStaffSession_def ensureActiveCheckpoint_def sample_rows)
qed

lemma concurrent_scans_both_admitted_witness:
  "\<not> ev_allowReEntry sample_event \<and> (\<exists>plan1 plan2 a1 a2 t u.
     commitScan sample_env sample_scan plan1 (sample_gate MAP_SYNCED) = (Inr a1, t) \<and> answer_allowed a1 \<and>
     commitScan sample_env (sample_scan\<lparr>dto_operationId := ''op2''\<rparr>) plan2 t = (Inr a2, u) \<and> answer_allowed a2 \<and>
     2 \<le> count_rows (has_entered ''e1'' ''r1'') (movements u))"
proof -
  obtain p1 where 1: "decideScan sample_env sample_scan (sample_gate MAP_SYNCED) =
      Some (sample_device, None, sample_active_row, sample_registration, p1, ''ALLOWED'')"
    using sample_decides [of "dto_operationId sample_scan"] by auto
  obtain p2 where 2: "decideScan sample_env (sample_scan\<lparr>dto_operationId := ''op2''\<rparr>) (sample_gate MAP_SYNCED) =
      Some (sample_device, None, sample_active_row, sample_registration, p2, ''ALLOWED'')"
    using sample_decides by blast
  have "\<exists>a1 a2 t u. commitScan sample_env sample_scan (sample_device, None, sample_active_row, sample_registration, p1, ''ALLOWED'') (sample_gate MAP_SYNCED) = (Inr a1, t) \<and> answer_allowed a1 \<and>
     commitScan sample_env (sample_scan\<lparr>dto_operationId := ''op2''\<rparr>) (sample_device, None, sample_active_row, sample_registration, p2, ''ALLOWED'') t = (Inr a2, u) \<and> answer_allowed a2 \<and>
     2 \<le> count_rows (has_entered ''e1'' (rg_id sample_registration)) (movements u)"
    by (rule concurrent_scans_both_admitted [OF sample_laws(1) sample_gate_inv 1 2])
      (simp_all add: sample_scan_def sample_dto_def)
  moreover have "rg_id sample_registration = ''r1''" "\<not> ev_allowReEntry sample_event"
    by (simp_all add: sample_registration_def sample_event_def)
  ultimately show ?thesis by metis
qed

end
