(* ===== verification/Registrations.thy ===== *)
theory Registrations
  imports ScanInv
begin

text \<open>
  \<open>src/modules/registrations/registrations.service.ts\<close>: registering, changing and removing attendees.
  Input is normalised, checked for duplicates after the event's strategy and against the event's
  custom fields, and the unique columns of the database have the last word. The paginated list is
  left out; the answers are the rows.
\<close>

section \<open>Normalisation\<close>

record create_dto =
  cd_eventId :: id
  cd_attendeeTypeId :: id
  cd_fullName :: string
  cd_phone :: "string option" \<comment> \<open>required on the public path, may be null on import\<close>
  cd_email :: "string option"
  cd_companyName :: "string option"
  cd_jobTitle :: "string option"
  cd_externalId :: "string option"
  cd_customFields :: "fields option"
  cd_notes :: "string option"
  cd_source :: "reg_source option"

definition normalizeRequiredString :: "string option \<Rightarrow> string \<Rightarrow> string res" where
  "normalizeRequiredString v field = (case v of
     None \<Rightarrow> Inl (BadRequest (field @ '' is required''))
   | Some s \<Rightarrow> if blank s then Inl (BadRequest (field @ '' is required'')) else Inr (trim s))"

definition normalizeOptionalPhoneToNull :: "string option \<Rightarrow> string option res" where
  "normalizeOptionalPhoneToNull v = (case v of
     None \<Rightarrow> Inr None
   | Some s \<Rightarrow>
       if blank s then Inr None
       else if 50 < length (trim s) then Inl (BadRequest ''phone is too long'')
       else Inr (Some (trim s)))"

definition normalizeOptionalString :: "string option \<Rightarrow> string option" where
  "normalizeOptionalString v = (case v of None \<Rightarrow> None | Some s \<Rightarrow> if blank s then None else Some (trim s))"

text \<open>\<open>/^[^\s@]+@[^\s@]+\.[^\s@]+$/\<close>: one \<open>@\<close>, and a dot with something on both sides after it.\<close>

definition email_ok :: "string \<Rightarrow> bool" where
  "email_ok s = (\<not> list_ex is_space s \<and> (case split_on CHR ''@'' s of
     [l, d] \<Rightarrow> l \<noteq> [] \<and> CHR ''.'' \<in> set (butlast (tl d)) | _ \<Rightarrow> False))"

definition normalizeOptionalStringToNull :: "string option \<Rightarrow> string option res" where
  "normalizeOptionalStringToNull v = (case v of
     None \<Rightarrow> Inr None
   | Some s \<Rightarrow>
       if blank s then Inr None
       else if \<not> email_ok (trim s) then Inl (BadRequest ''email must be a valid email'')
       else Inr (Some (trim s)))"

text \<open>The fields that both normalisations treat alike.\<close>

definition normal_rest :: "create_dto \<Rightarrow> string \<Rightarrow> string option \<Rightarrow> string option \<Rightarrow> reg_source \<Rightarrow> create_dto" where
  "normal_rest dto fullName phone email source = dto\<lparr>cd_fullName := fullName, cd_phone := phone,
     cd_email := email, cd_companyName := normalizeOptionalString (cd_companyName dto),
     cd_jobTitle := normalizeOptionalString (cd_jobTitle dto),
     cd_externalId := normalizeOptionalString (cd_externalId dto),
     cd_notes := normalizeOptionalString (cd_notes dto),
     cd_source := (case cd_source dto of None \<Rightarrow> Some source | Some x \<Rightarrow> Some x)\<rparr>"

definition normalizeCreateDto :: "create_dto \<Rightarrow> create_dto res" where
  "normalizeCreateDto dto =
    bindE (normalizeRequiredString (Some (cd_fullName dto)) ''fullName'') (\<lambda>fullName.
    bindE (normalizeRequiredString (cd_phone dto) ''phone'') (\<lambda>phone.
    bindE (normalizeOptionalStringToNull (cd_email dto)) (\<lambda>email.
    Inr (normal_rest dto fullName (Some phone) email SRC_ADMIN))))"

definition normalizeImportCreateDto :: "create_dto \<Rightarrow> create_dto res" where
  "normalizeImportCreateDto dto =
    bindE (normalizeRequiredString (Some (cd_fullName dto)) ''fullName'') (\<lambda>fullName.
    bindE (normalizeOptionalPhoneToNull (cd_phone dto)) (\<lambda>phone.
    bindE (normalizeOptionalStringToNull (cd_email dto)) (\<lambda>email.
    Inr (normal_rest dto fullName phone email SRC_EXCEL_IMPORT))))"

record update_dto =
  ud_attendeeTypeId :: "id option"
  ud_fullName :: "string option"
  ud_phone :: "string option"
  ud_email :: "string option option" \<comment> \<open>\<open>undefined\<close>, or null, or a text\<close>
  ud_companyName :: "string option"
  ud_jobTitle :: "string option"
  ud_externalId :: "string option"
  ud_customFields :: "fields option"
  ud_notes :: "string option"

definition when_given :: "'a option \<Rightarrow> ('a \<Rightarrow> 'b res) \<Rightarrow> 'b option res" where
  "when_given v f = (case v of None \<Rightarrow> Inr None | Some a \<Rightarrow> bindE (f a) (\<lambda>b. Inr (Some b)))"

definition normalizeUpdateDto :: "update_dto \<Rightarrow> update_dto res" where
  "normalizeUpdateDto dto =
    bindE (when_given (ud_fullName dto) (\<lambda>s. normalizeRequiredString (Some s) ''fullName'')) (\<lambda>fullName.
    bindE (when_given (ud_phone dto) (\<lambda>s. normalizeRequiredString (Some s) ''phone'')) (\<lambda>phone.
    bindE (when_given (ud_email dto) normalizeOptionalStringToNull) (\<lambda>email.
    Inr (dto\<lparr>ud_fullName := fullName, ud_phone := phone, ud_email := email,
      ud_companyName := normalizeOptionalString (ud_companyName dto),
      ud_jobTitle := normalizeOptionalString (ud_jobTitle dto),
      ud_externalId := normalizeOptionalString (ud_externalId dto),
      ud_notes := normalizeOptionalString (ud_notes dto)\<rparr>))))"

section \<open>Guards\<close>

definition ensureAttendeeTypeCanBeUsed :: "id \<Rightarrow> id \<Rightarrow> store \<Rightarrow> attendee_type res" where
  "ensureAttendeeTypeCanBeUsed attendeeTypeId eventId s = (case find_attendee_type attendeeTypeId s of
     None \<Rightarrow> Inl (NotFound ''Attendee type not found'')
   | Some a \<Rightarrow>
       if at_eventId a \<noteq> eventId then Inl (BadRequest ''Attendee type must belong to the same event'')
       else if \<not> at_isActive a then Inl (BadRequest ''Attendee type must be active'')
       else Inr a)"

text \<open>The \<open>OR\<close> of the duplicate query: an alternative for each column that the strategy names and the
  registration has. No alternative, no query.\<close>

definition duplicateChecks :: "string \<Rightarrow> string option \<Rightarrow> string option \<Rightarrow> string option \<Rightarrow>
    (registration \<Rightarrow> bool) list" where
  "duplicateChecks strategy phone email externalId =
    (if strategy \<in> {''PHONE'', ''PHONE_OR_EMAIL''} \<and> truthy phone then [\<lambda>r. rg_phone r = phone] else []) @
    (if strategy \<in> {''EMAIL'', ''PHONE_OR_EMAIL''} \<and> truthy email then [\<lambda>r. rg_email r = email] else []) @
    (if strategy = ''EXTERNAL_ID'' \<and> truthy externalId then [\<lambda>r. rg_externalId r = externalId] else [])"

definition ensureDuplicateAllowed :: "event_row \<Rightarrow> id \<Rightarrow> string option \<Rightarrow> string option \<Rightarrow> string option \<Rightarrow>
    id option \<Rightarrow> store \<Rightarrow> unit res" where
  "ensureDuplicateAllowed event eventId phone email externalId excludeId s =
    (let strategy = to_upper (ev_duplicateStrategy event);
         checks = duplicateChecks strategy phone email externalId in
     if strategy = ''NONE'' \<or> checks = [] then Inr ()
     else guard (\<not> exists_row (\<lambda>r. rg_eventId r = eventId \<and> list_ex (\<lambda>p. p r) checks \<and>
            (truthy excludeId \<longrightarrow> Some (rg_id r) \<noteq> excludeId)) (registrations s))
          (Conflict ''Duplicate registration for this event''))"

section \<open>Custom fields\<close>

definition isEmpty :: "json option \<Rightarrow> bool" where
  "isEmpty v = (v \<in> {None, Some JNull, Some (JStr []), Some (JArr [])})"

definition getOptionValues :: "json \<Rightarrow> string list" where
  "getOptionValues options = (case options of
     JArr vs \<Rightarrow> List.map_filter (\<lambda>v. case v of
         JObj fs \<Rightarrow> map_option js_String (obj_get fs ''value'')
       | JStr t \<Rightarrow> Some t
       | _ \<Rightarrow> None) vs
   | _ \<Rightarrow> [])"

definition validateSelectValue :: "reg_field \<Rightarrow> json \<Rightarrow> unit res" where
  "validateSelectValue field v = guard (js_String v \<in> set (getOptionValues (rf_options field)))
     (BadRequest (rf_key field @ '' has an invalid option''))"

fun all_select :: "reg_field \<Rightarrow> json list \<Rightarrow> unit res" where
  "all_select field [] = Inr ()"
| "all_select field (v # vs) = bindE (validateSelectValue field v) (\<lambda>_. all_select field vs)"

definition validateCustomFieldValue :: "env \<Rightarrow> reg_field \<Rightarrow> json \<Rightarrow> unit res" where
  "validateCustomFieldValue c field v = (case rf_type field of
     F_EMAIL \<Rightarrow> guard (case v of JStr s \<Rightarrow> email_ok s | _ \<Rightarrow> False)
       (BadRequest (rf_key field @ '' must be a valid email''))
   | F_PHONE \<Rightarrow> guard (case v of JStr s \<Rightarrow> \<not> blank s | _ \<Rightarrow> False)
       (BadRequest (rf_key field @ '' must be a valid phone''))
   | F_NUMBER \<Rightarrow> guard (case v of JInt _ \<Rightarrow> True | JFloat _ \<Rightarrow> True | _ \<Rightarrow> False)
       (BadRequest (rf_key field @ '' must be a number''))
   | F_BOOLEAN \<Rightarrow> guard (case v of JBool _ \<Rightarrow> True | _ \<Rightarrow> False)
       (BadRequest (rf_key field @ '' must be a boolean''))
   | F_DATE \<Rightarrow> guard (case v of JStr s \<Rightarrow> parse_date c s \<noteq> None | _ \<Rightarrow> False)
       (BadRequest (rf_key field @ '' must be a valid date''))
   | F_SELECT \<Rightarrow> validateSelectValue field v
   | F_MULTI_SELECT \<Rightarrow> (case v of
       JArr vs \<Rightarrow> all_select field vs
     | _ \<Rightarrow> Inl (BadRequest (rf_key field @ '' must be an array'')))
   | _ \<Rightarrow> Inr ())"

definition applies_to :: "id \<Rightarrow> id \<Rightarrow> reg_field \<Rightarrow> bool" where
  "applies_to eventId attendeeTypeId f = (rf_eventId f = eventId \<and> rf_isActive f \<and>
     (rf_attendeeTypeId f = None \<or> rf_attendeeTypeId f = Some attendeeTypeId))"

fun known_keys :: "reg_field list \<Rightarrow> string list \<Rightarrow> unit res" where
  "known_keys declared [] = Inr ()"
| "known_keys declared (k # ks) =
    (if k \<notin> rf_key ` set declared then Inl (BadRequest (''Unknown custom field: '' @ k)) else known_keys declared ks)"

fun each_field :: "env \<Rightarrow> fields \<Rightarrow> reg_field list \<Rightarrow> unit res" where
  "each_field c customFields [] = Inr ()"
| "each_field c customFields (f # fs) =
    (let v = obj_get customFields (rf_key f) in
     if rf_isRequired f \<and> isEmpty v then Inl (BadRequest (rf_key f @ '' is required''))
     else if isEmpty v then each_field c customFields fs
     else bindE (validateCustomFieldValue c f (the v)) (\<lambda>_. each_field c customFields fs))"

definition validateCustomFields :: "env \<Rightarrow> id \<Rightarrow> id \<Rightarrow> fields \<Rightarrow> reg_field list option \<Rightarrow> store \<Rightarrow> unit res" where
  "validateCustomFields c eventId attendeeTypeId customFields preloadedFields s =
    (let declared = filter (applies_to eventId attendeeTypeId)
           (case preloadedFields of Some fs \<Rightarrow> fs | None \<Rightarrow> regFields s) in
     bindE (known_keys declared (map fst customFields)) (\<lambda>_. each_field c customFields declared))"

definition toRecord :: "json \<Rightarrow> fields" where
  "toRecord v = (case v of JObj fs \<Rightarrow> fs | _ \<Rightarrow> [])"

section \<open>Writes\<close>

text \<open>The unique columns: the public id, and within an event phone, email and external id, where not null.\<close>

definition same_value :: "'a option \<Rightarrow> 'a option \<Rightarrow> bool" where
  "same_value x y = (x \<noteq> None \<and> x = y)"

definition collides :: "registration \<Rightarrow> registration \<Rightarrow> bool" where
  "collides r x = (rg_publicId r = rg_publicId x \<or> rg_eventId r = rg_eventId x \<and>
     (same_value (rg_phone r) (rg_phone x) \<or> same_value (rg_email r) (rg_email x) \<or>
      same_value (rg_externalId r) (rg_externalId x)))"

fun generatePublicId_loop :: "nat \<Rightarrow> env \<Rightarrow> (store, string) act" where
  "generatePublicId_loop 0 c = throw (Conflict ''Could not generate unique registration ID'')"
| "generatePublicId_loop (Suc n) c =
    bindA (draw (random_hex c)) (\<lambda>h.
    bindA (gets (lookup_by rg_publicId (''REG_'' @ h) \<circ> registrations)) (\<lambda>found.
    if found = None then ret (''REG_'' @ h) else generatePublicId_loop n c))"

definition generatePublicId :: "env \<Rightarrow> (store, string) act" where
  "generatePublicId = generatePublicId_loop 5"

definition throwConflictForUniqueConstraint :: "err \<Rightarrow> err" where
  "throwConflictForUniqueConstraint e =
    (if e = UniqueViolation then Conflict ''Duplicate registration for this event'' else e)"

definition create_registration :: "env \<Rightarrow> (id \<Rightarrow> registration) \<Rightarrow> (store, registration) act" where
  "create_registration c row = bindA (new_id c) (\<lambda>i.
     bindA (gets (\<lambda>s. find_attendee_type (rg_attendeeTypeId (row i)) s)) (\<lambda>fk.
     bindA (gets (exists_row (collides (row i)) \<circ> registrations)) (\<lambda>taken.
     if taken then throw UniqueViolation
     else if fk = None then throw (OtherError ''Foreign key constraint failed'')
     else bindA (modify (\<lambda>s. s\<lparr>registrations := append_row (row i) (registrations s)\<rparr>)) (\<lambda>_. ret (row i)))))"

definition registration_row :: "env \<Rightarrow> create_dto \<Rightarrow> string \<Rightarrow> id \<Rightarrow> registration" where
  "registration_row c dto publicId i = \<lparr>rg_id = i, rg_publicId = publicId, rg_eventId = cd_eventId dto,
     rg_attendeeTypeId = cd_attendeeTypeId dto, rg_status = REG_ACTIVE,
     rg_source = (case cd_source dto of Some x \<Rightarrow> x | None \<Rightarrow> SRC_ADMIN), rg_fullName = cd_fullName dto,
     rg_phone = cd_phone dto, rg_email = cd_email dto, rg_companyName = cd_companyName dto,
     rg_jobTitle = cd_jobTitle dto, rg_externalId = cd_externalId dto,
     rg_customFields = json_or_null (map_option JObj (cd_customFields dto)), rg_notes = cd_notes dto,
     rg_registeredAt = now c, rg_syncedAt = None, rg_createdAt = now c, rg_updatedAt = now c\<rparr>"

definition createRegistrationOrThrowConflict :: "env \<Rightarrow> create_dto \<Rightarrow> (store, registration) act" where
  "createRegistrationOrThrowConflict c dto =
    catch (bindA (generatePublicId c) (\<lambda>publicId. create_registration c (registration_row c dto publicId)))
      (\<lambda>e. throw (throwConflictForUniqueConstraint e))"

definition enqueueRegistrationPipeline :: "env \<Rightarrow> id \<Rightarrow> id \<Rightarrow> reg_source \<Rightarrow> bool \<Rightarrow> (store, unit) act" where
  "enqueueRegistrationPipeline c registrationId eventId source skipDigitalTicket =
    (if pipeline_enabled c \<and> queue_up c
     then modify (add_job (RegistrationCreated registrationId eventId source skipDigitalTicket))
     else ret ())"

section \<open>Operations\<close>

record create_options =
  op_event :: "event_row option"
  op_attendeeTypeIds :: "id list"
  op_registrationFields :: "reg_field list option"
  op_enqueuePipeline :: bool \<comment> \<open>not \<open>false\<close>\<close>
  op_skipDigitalTicket :: bool

definition no_options :: create_options where
  "no_options = \<lparr>op_event = None, op_attendeeTypeIds = [], op_registrationFields = None,
     op_enqueuePipeline = True, op_skipDigitalTicket = False\<rparr>"

definition createNormalized :: "env \<Rightarrow> create_dto \<Rightarrow> create_options \<Rightarrow> (store, registration) act" where
  "createNormalized c dto options =
    bindA (reads (\<lambda>s. case op_event options of Some e \<Rightarrow> Inr e
        | None \<Rightarrow> ensureEventCanBeModified (cd_eventId dto) s)) (\<lambda>event.
    if ev_id event \<noteq> cd_eventId dto then throw (BadRequest ''Event validation context mismatch'')
    else
      bindA (reads (\<lambda>s. if cd_attendeeTypeId dto \<in> set (op_attendeeTypeIds options) then Inr ()
        else bindE (ensureAttendeeTypeCanBeUsed (cd_attendeeTypeId dto) (cd_eventId dto) s) (\<lambda>_. Inr ()))) (\<lambda>_.
      bindA (reads (ensureDuplicateAllowed event (cd_eventId dto) (cd_phone dto) (cd_email dto)
        (cd_externalId dto) None)) (\<lambda>_.
      bindA (reads (validateCustomFields c (cd_eventId dto) (cd_attendeeTypeId dto)
        (case cd_customFields dto of None \<Rightarrow> [] | Some fs \<Rightarrow> fs) (op_registrationFields options))) (\<lambda>_.
      bindA (createRegistrationOrThrowConflict c dto) (\<lambda>registration.
      bindA (if op_enqueuePipeline options
        then enqueueRegistrationPipeline c (rg_id registration) (rg_eventId registration)
          (rg_source registration) (op_skipDigitalTicket options) else ret ()) (\<lambda>_.
      ret registration))))))"

definition create :: "env \<Rightarrow> create_dto \<Rightarrow> (store, registration) act" where
  "create c createRegistrationDto =
    bindA (reads (\<lambda>_. normalizeCreateDto createRegistrationDto)) (\<lambda>dto. createNormalized c dto no_options)"

definition createFromImport :: "env \<Rightarrow> create_dto \<Rightarrow> create_options \<Rightarrow> (store, registration) act" where
  "createFromImport c input options =
    bindA (reads (\<lambda>_. normalizeImportCreateDto input)) (\<lambda>dto. createNormalized c dto options)"

definition findRegistrationOrThrow :: "id \<Rightarrow> store \<Rightarrow> registration res" where
  "findRegistrationOrThrow i s = (case find_registration i s of
     None \<Rightarrow> Inl (NotFound ''Registration not found'') | Some r \<Rightarrow> Inr r)"

definition given :: "'a option \<Rightarrow> 'a \<Rightarrow> 'a" where
  "given v old = (case v of None \<Rightarrow> old | Some new \<Rightarrow> new)"

definition changed :: "update_dto \<Rightarrow> id \<Rightarrow> registration \<Rightarrow> registration" where
  "changed dto attendeeTypeId r = r\<lparr>rg_attendeeTypeId := attendeeTypeId,
     rg_fullName := given (ud_fullName dto) (rg_fullName r),
     rg_phone := given (map_option Some (ud_phone dto)) (rg_phone r),
     rg_email := given (ud_email dto) (rg_email r),
     rg_companyName := given (map_option Some (ud_companyName dto)) (rg_companyName r),
     rg_jobTitle := given (map_option Some (ud_jobTitle dto)) (rg_jobTitle r),
     rg_externalId := given (map_option Some (ud_externalId dto)) (rg_externalId r),
     rg_customFields := given (map_option JObj (ud_customFields dto)) (rg_customFields r),
     rg_notes := given (map_option Some (ud_notes dto)) (rg_notes r)\<rparr>"

text \<open>\<open>update\<close> by id, with the unique columns checked against the other rows; it stamps \<open>updatedAt\<close>.\<close>

definition update_registration :: "env \<Rightarrow> id \<Rightarrow> (registration \<Rightarrow> registration) \<Rightarrow> (store, registration) act" where
  "update_registration c i g =
    (let f = (\<lambda>r. (g r)\<lparr>rg_updatedAt := now c\<rparr>) in
    bindA (gets (find_registration i)) (\<lambda>found. case found of
      None \<Rightarrow> throw (OtherError ''Record to update not found'')
    | Some r \<Rightarrow>
        bindA (gets (exists_row (\<lambda>x. rg_id x \<noteq> i \<and> collides (f r) x) \<circ> registrations)) (\<lambda>taken.
        bindA (gets (find_attendee_type (rg_attendeeTypeId (f r)))) (\<lambda>fk.
        if taken then throw UniqueViolation
        else if fk = None then throw (OtherError ''Foreign key constraint failed'')
        else bindA (modify (\<lambda>s. s\<lparr>registrations := update_by rg_id i f (registrations s)\<rparr>)) (\<lambda>_. ret (f r))))))"

definition update :: "env \<Rightarrow> id \<Rightarrow> update_dto \<Rightarrow> (store, registration) act" where
  "update c i updateRegistrationDto =
    bindA (reads (\<lambda>_. normalizeUpdateDto updateRegistrationDto)) (\<lambda>dto.
    bindA (reads (findRegistrationOrThrow i)) (\<lambda>r.
    bindA (reads (ensureEventCanBeModified (rg_eventId r))) (\<lambda>event.
    let attendeeTypeId = given (ud_attendeeTypeId dto) (rg_attendeeTypeId r); next = changed dto attendeeTypeId r in
    bindA (reads (\<lambda>s. if truthy (ud_attendeeTypeId dto)
      then bindE (ensureAttendeeTypeCanBeUsed attendeeTypeId (rg_eventId r) s) (\<lambda>_. Inr ()) else Inr ())) (\<lambda>_.
    bindA (reads (ensureDuplicateAllowed event (rg_eventId r) (rg_phone next) (rg_email next)
      (rg_externalId next) (Some i))) (\<lambda>_.
    bindA (reads (validateCustomFields c (rg_eventId r) attendeeTypeId
      (given (ud_customFields dto) (toRecord (rg_customFields r))) None)) (\<lambda>_.
    catch (update_registration c i (changed dto attendeeTypeId))
      (\<lambda>e. throw (throwConflictForUniqueConstraint e))))))))"

definition setStatus :: "env \<Rightarrow> id \<Rightarrow> reg_status \<Rightarrow> (store, registration) act" where
  "setStatus c i status =
    bindA (reads (findRegistrationOrThrow i)) (\<lambda>r.
    bindA (reads (ensureEventCanBeModified (rg_eventId r))) (\<lambda>_.
    update_registration c i (\<lambda>x. x\<lparr>rg_status := status\<rparr>)))"

definition cancel :: "env \<Rightarrow> id \<Rightarrow> (store, registration) act" where
  "cancel c i = setStatus c i REG_CANCELLED"

definition block_registration :: "env \<Rightarrow> id \<Rightarrow> (store, registration) act" where
  "block_registration c i = setStatus c i REG_BLOCKED"

definition activate :: "env \<Rightarrow> id \<Rightarrow> (store, registration) act" where
  "activate c i = setStatus c i REG_ACTIVE"

text \<open>\<open>deletedRelations\<close>, in the order of the transaction.\<close>

record deleted_relations =
  del_offlineScans :: nat
  del_offlineMappings :: nat
  del_digitalTicketImages :: nat
  del_notificationLogs :: nat
  del_importRows :: nat
  del_movements :: nat
  del_rawScans :: nat
  del_qrTokens :: nat

definition relations_of :: "id \<Rightarrow> store \<Rightarrow> deleted_relations" where
  "relations_of i s = \<lparr>del_offlineScans = count_rows (\<lambda>x. os_registrationId x = Some i) (offlineScans s),
     del_offlineMappings = count_rows (\<lambda>x. mp_registrationId x = Some i) (mappings s),
     del_digitalTicketImages = count_rows (\<lambda>x. ti_registrationId x = i) (ticketImages s),
     del_notificationLogs = count_rows (\<lambda>x. nl_registrationId x = Some i) (notificationLogs s),
     del_importRows = count_rows (\<lambda>x. iw_registrationId x = Some i) (importRows s),
     del_movements = count_rows (\<lambda>x. mv_registrationId x = i) (movements s),
     del_rawScans = count_rows (\<lambda>x. sc_registrationId x = Some i) (scans s),
     del_qrTokens = count_rows (\<lambda>x. qr_registrationId x = i) (qrTokens s)\<rparr>"

definition delete_registration :: "id \<Rightarrow> store \<Rightarrow> store" where
  "delete_registration i s = s\<lparr>offlineScans := delete_rows (\<lambda>x. os_registrationId x = Some i) (offlineScans s),
     mappings := delete_rows (\<lambda>x. mp_registrationId x = Some i) (mappings s),
     ticketImages := delete_rows (\<lambda>x. ti_registrationId x = i) (ticketImages s),
     notificationLogs := delete_rows (\<lambda>x. nl_registrationId x = Some i) (notificationLogs s),
     importRows := delete_rows (\<lambda>x. iw_registrationId x = Some i) (importRows s),
     movements := delete_rows (\<lambda>x. mv_registrationId x = i) (movements s),
     scans := delete_rows (\<lambda>x. sc_registrationId x = Some i) (scans s),
     qrTokens := delete_rows (\<lambda>x. qr_registrationId x = i) (qrTokens s),
     registrations := delete_rows (\<lambda>x. rg_id x = i) (registrations s)\<rparr>"

definition remove :: "id \<Rightarrow> (store, string \<times> deleted_relations) act" where
  "remove i =
    bindA (reads (findRegistrationOrThrow i)) (\<lambda>r.
    bindA (reads (ensureEventCanBeModified (rg_eventId r))) (\<lambda>_.
    bindA (gets (relations_of i)) (\<lambda>counts.
    bindA (modify (delete_registration i)) (\<lambda>_. ret (rg_publicId r, counts)))))"

section \<open>The invariant\<close>

definition reg_rows :: "env \<Rightarrow> nat \<Rightarrow> registration list \<Rightarrow> bool" where
  "reg_rows c n rs = (distinct (map rg_id rs) \<and> (\<forall>r \<in> set rs. \<exists>k < n. rg_id r = cuid c k) \<and>
     (\<forall>r \<in> set rs. \<forall>x \<in> set rs. rg_id r \<noteq> rg_id x \<longrightarrow> \<not> collides r x))"

definition reg_inv :: "env \<Rightarrow> store \<Rightarrow> bool" where
  "reg_inv c s = reg_rows c (next_id s) (registrations s)"

lemma collides_sym: "collides r x = collides x r"
proof -
  have "same_value y z = same_value z y" for y z :: "string option" by (auto simp: same_value_def)
  then show ?thesis unfolding collides_def by metis
qed

lemma reg_rows_mono: "reg_rows c n rs \<Longrightarrow> n \<le> m \<Longrightarrow> reg_rows c m rs"
  unfolding reg_rows_def by (meson order_less_le_trans)

lemma reg_rows_add:
  assumes "reg_rows c n rs" and "id_law c" and "rg_id r = cuid c n" and "\<not> exists_row (collides r) rs"
  shows "reg_rows c (Suc n) (append_row r rs)"
proof -
  have "rg_id x \<noteq> cuid c n" if "x \<in> set rs" for x
    using assms(1,2) that by (auto simp: reg_rows_def id_law_def inj_eq)
  moreover have "\<not> collides r x \<and> \<not> collides x r" if "x \<in> set rs" for x
    using assms(4) that collides_sym [of x r] by (simp add: exists_row_iff)
  ultimately show ?thesis
    using assms(1,3) unfolding reg_rows_def set_append_row map_append_row
    by (auto simp: less_Suc_eq)
qed

lemma reg_rows_update:
  assumes "reg_rows c n rs" and "r \<in> set rs" and "rg_id r = i" and "\<And>x. rg_id (f x) = rg_id x"
    and "\<not> exists_row (\<lambda>x. rg_id x \<noteq> i \<and> collides (f r) x) rs"
  shows "reg_rows c n (update_by rg_id i f rs)"
proof -
  have only: "x = r" if "x \<in> set rs" "rg_id x = i" for x
    using that assms(1-3) distinct_key_inj [of rg_id rs x r] by (simp add: reg_rows_def)
  have "\<not> collides a b" if a: "a \<in> set (update_by rg_id i f rs)" and b: "b \<in> set (update_by rg_id i f rs)" and ne: "rg_id a \<noteq> rg_id b" for a b
  proof -
    obtain x where x: "x \<in> set rs" "a = (if rg_id x = i then f x else x)" using a by (auto simp: set_update_by)
    obtain y where y: "y \<in> set rs" "b = (if rg_id y = i then f y else y)" using b by (auto simp: set_update_by)
    have neq: "rg_id x \<noteq> rg_id y" using ne x y assms(4) by (auto split: if_splits)
    consider "rg_id x = i" "rg_id y \<noteq> i" | "rg_id x \<noteq> i" "rg_id y = i" | "rg_id x \<noteq> i" "rg_id y \<noteq> i" using neq by blast
    then show ?thesis
    proof cases
      case 1
      then show ?thesis using x y only [OF x(1)] assms(5) by (auto simp: exists_row_iff)
    next
      case 2
      then show ?thesis using x y only [OF y(1)] assms(5) collides_sym [of a b] by (auto simp: exists_row_iff)
    next
      case 3
      then show ?thesis using x y neq assms(1) by (simp add: reg_rows_def)
    qed
  qed
  moreover have "map rg_id (update_by rg_id i f rs) = map rg_id rs" using assms(4) by (rule map_update_by)
  moreover have "\<exists>k < n. rg_id a = cuid c k" if "a \<in> set (update_by rg_id i f rs)" for a
    using that assms(1,4) by (auto simp: set_update_by reg_rows_def)
  ultimately show ?thesis using assms(1) by (simp add: reg_rows_def)
qed

lemma reg_rows_delete: "reg_rows c n rs \<Longrightarrow> reg_rows c n (delete_rows p rs)"
  by (auto simp: reg_rows_def distinct_map_delete_rows set_delete_rows)

section \<open>Every operation keeps it\<close>

lemma reg_inv_frame [simp]:
  "reg_inv c (s\<lparr>next_rand := n\<rparr>) = reg_inv c s" "reg_inv c (add_job j s) = reg_inv c s"
  by (simp_all add: reg_inv_def add_job_def)

lemma reg_inv_id: "reg_inv c s \<Longrightarrow> reg_inv c (s\<lparr>next_id := Suc (next_id s)\<rparr>)"
  using reg_rows_mono by (simp add: reg_inv_def)

lemma keeps_draw: "within (keeps (reg_inv c)) (draw g) s"
  by (simp add: within_def keeps_def draw_def)

lemma keeps_publicId: "within (keeps (reg_inv c)) (generatePublicId c) s"
proof -
  have "within (keeps (reg_inv c)) (generatePublicId_loop n c) s" for n s
    by (induction n arbitrary: s)
      (auto simp: keeps.within_throw intro!: keeps.within_bind keeps.within_bind_gets keeps_draw keeps.within_ret)
  then show ?thesis by (simp add: generatePublicId_def)
qed

lemma keeps_create_registration:
  assumes "id_law c" and "\<And>i. rg_id (row i) = i"
  shows "within (keeps (reg_inv c)) (create_registration c row) s"
  using assms reg_rows_add [of c "next_id s" "registrations s" "row (cuid c (next_id s))"]
  by (auto simp: within_def keeps_def create_registration_def bindA_def new_id_def gets_def throw_def modify_def
        ret_def reg_inv_id reg_inv_def intro: reg_rows_mono)

lemma keeps_createOrThrow:
  assumes "id_law c"
  shows "within (keeps (reg_inv c)) (createRegistrationOrThrowConflict c dto) s"
  unfolding createRegistrationOrThrowConflict_def
  by (intro keeps.within_catch keeps.within_bind keeps_publicId keeps_create_registration assms keeps.within_throw)
    (simp add: registration_row_def)

lemma keeps_enqueue: "within (keeps (reg_inv c)) (enqueueRegistrationPipeline c i e src b) s"
  unfolding enqueueRegistrationPipeline_def by (intro keeps.within_rules) (simp_all add: keeps_def)

lemma keeps_createNormalized:
  assumes "id_law c"
  shows "within (keeps (reg_inv c)) (createNormalized c dto options) s"
  unfolding createNormalized_def
  by (intro keeps.within_rules keeps.within_bind keeps_createOrThrow assms keeps_enqueue)

lemma keeps_update_registration:
  assumes "\<And>x. rg_id (f x) = rg_id x"
  shows "within (keeps (reg_inv c)) (update_registration e i f) s"
  using reg_rows_update [of c "next_id s" "registrations s" _ i "\<lambda>r. (f r)\<lparr>rg_updatedAt := now e\<rparr>"] assms
  by (auto simp: within_def keeps_def update_registration_def Let_def act_simps reg_inv_def find_registration_def
        split: option.splits dest!: lookup_by_Some)

lemma keeps_setStatus: "within (keeps (reg_inv c)) (setStatus e i st) s"
  unfolding setStatus_def by (intro keeps.within_rules keeps_update_registration) simp_all

lemma keeps_update: "within (keeps (reg_inv c)) (update c i dto) s"
  unfolding update_def Let_def
  by (intro keeps.within_rules keeps_update_registration) (simp_all add: changed_def)

lemma keeps_remove: "within (keeps (reg_inv c)) (remove i) s"
  unfolding remove_def
  by (intro keeps.within_rules keeps.within_bind) (auto simp: keeps_def reg_inv_def delete_registration_def reg_rows_delete)


lemma sample_reg_inv: "reg_inv sample_env (sample_regs\<lparr>registrations := []\<rparr>)"
  by (simp add: reg_inv_def reg_rows_def)

definition sample_create :: create_dto where
  "sample_create = \<lparr>cd_eventId = ''e1'', cd_attendeeTypeId = ''t1'', cd_fullName = '' Ann '', cd_phone = Some ''123'',
     cd_email = None, cd_companyName = Some '' '', cd_jobTitle = None, cd_externalId = None,
     cd_customFields = None, cd_notes = None, cd_source = None\<rparr>"

definition sample_update :: update_dto where
  "sample_update = \<lparr>ud_attendeeTypeId = None, ud_fullName = None, ud_phone = Some ''5'', ud_email = Some None,
     ud_companyName = None, ud_jobTitle = None, ud_externalId = None, ud_customFields = None, ud_notes = None\<rparr>"


section \<open>What a created registration is\<close>

lemma generatePublicId_Inr:
  assumes "generatePublicId c s = (Inr p, t)"
  shows "\<exists>m. t = s\<lparr>next_rand := m\<rparr> \<and> starts_with ''REG_'' p"
proof -
  have "generatePublicId_loop n c u = (Inr p, t) \<Longrightarrow> \<exists>m. t = u\<lparr>next_rand := m\<rparr> \<and> starts_with ''REG_'' p" for n u
  proof (induction n arbitrary: u)
    case 0
    then show ?case by (simp add: act_simps)
  next
    case (Suc n)
    then show ?case
      by (auto simp: bindA_def draw_def gets_def ret_def starts_with_def split: if_splits) fastforce
  qed
  then show ?thesis using assms by (simp add: generatePublicId_def)
qed

lemma create_registration_Inr:
  assumes "create_registration c row s = (Inr r, t)"
  shows "r = row (cuid c (next_id s)) \<and> \<not> exists_row (collides r) (registrations s) \<and>
    t = s\<lparr>next_id := Suc (next_id s), registrations := append_row r (registrations s)\<rparr>"
  using assms by (auto simp: create_registration_def bindA_def new_id_def gets_def modify_def ret_def throw_def
    split: if_splits)

lemma createOrThrow_Inr:
  assumes "createRegistrationOrThrowConflict c dto s = (Inr r, t)"
  shows "\<exists>p m. r = registration_row c dto p (cuid c (next_id s)) \<and> \<not> exists_row (collides r) (registrations s) \<and>
    t = s\<lparr>next_rand := m, next_id := Suc (next_id s), registrations := append_row r (registrations s)\<rparr>"
  using assms
  by (auto simp: createRegistrationOrThrowConflict_def catch_def throw_def bindA_def
        split: prod.splits sum.splits dest!: generatePublicId_Inr create_registration_Inr)

lemma createNormalized_Inr:
  assumes "createNormalized c dto options s = (Inr r, t)" and "op_event options = None" and "op_attendeeTypeIds options = []"
  obtains event a u where "ensureEventCanBeModified (cd_eventId dto) s = Inr event"
    "ensureAttendeeTypeCanBeUsed (cd_attendeeTypeId dto) (cd_eventId dto) s = Inr a"
    "ensureDuplicateAllowed event (cd_eventId dto) (cd_phone dto) (cd_email dto) (cd_externalId dto) None s = Inr ()"
    "validateCustomFields c (cd_eventId dto) (cd_attendeeTypeId dto) (case cd_customFields dto of None \<Rightarrow> [] | Some fs \<Rightarrow> fs)
       (op_registrationFields options) s = Inr ()"
    "createRegistrationOrThrowConflict c dto s = (Inr r, u)"
    "t = (if op_enqueuePipeline options \<and> pipeline_enabled c \<and> queue_up c
       then add_job (RegistrationCreated (rg_id r) (rg_eventId r) (rg_source r) (op_skipDigitalTicket options)) u else u)"
  using assms unfolding createNormalized_def enqueueRegistrationPipeline_def
  by (auto simp: bindA_reads bindE_def throw_def ret_def bindA_modify modify_def
        split: sum.splits if_splits elim!: bindA_InrE)

section \<open>Custom fields\<close>

text \<open>What a value of each type of field looks like.\<close>

fun value_fits :: "env \<Rightarrow> reg_field \<Rightarrow> field_type \<Rightarrow> json \<Rightarrow> bool" where
  "value_fits c f F_EMAIL v = (\<exists>s. v = JStr s \<and> email_ok s)"
| "value_fits c f F_PHONE v = (\<exists>s. v = JStr s \<and> \<not> blank s)"
| "value_fits c f F_NUMBER v = ((\<exists>i. v = JInt i) \<or> (\<exists>x. v = JFloat x))"
| "value_fits c f F_BOOLEAN v = (\<exists>b. v = JBool b)"
| "value_fits c f F_DATE v = (\<exists>s. v = JStr s \<and> parse_date c s \<noteq> None)"
| "value_fits c f F_SELECT v = (js_String v \<in> set (getOptionValues (rf_options f)))"
| "value_fits c f F_MULTI_SELECT v =
    (\<exists>vs. v = JArr vs \<and> js_String ` set vs \<subseteq> set (getOptionValues (rf_options f)))"
| "value_fits c f _ v = True"

lemma all_select_Inr:
  "all_select f vs = Inr () \<longleftrightarrow> js_String ` set vs \<subseteq> set (getOptionValues (rf_options f))"
  by (induction vs) (auto simp: bindE_Inr_iff validateSelectValue_def)

lemma value_Inr: "validateCustomFieldValue c f v = Inr () \<longleftrightarrow> value_fits c f (rf_type f) v"
  by (cases "rf_type f"; cases v)
    (auto simp: validateCustomFieldValue_def validateSelectValue_def all_select_Inr)

lemma known_keys_Inr: "known_keys declared ks = Inr () \<longleftrightarrow> set ks \<subseteq> rf_key ` set declared"
  by (induction ks) auto

lemma each_field_Inr:
  "each_field c fs declared = Inr () \<longleftrightarrow> (\<forall>f \<in> set declared.
     if isEmpty (obj_get fs (rf_key f)) then \<not> rf_isRequired f
     else value_fits c f (rf_type f) (the (obj_get fs (rf_key f))))"
  by (induction declared) (auto simp: Let_def bindE_Inr_iff value_Inr)

text \<open>C12: Custom fields are accepted exactly when every key names an active field of the event for everyone or for
  the attendee type, every required one of those fields has a value, and every value that is there is
  of its field's type, an option of a selection included.\<close>

theorem custom_fields_accepted:
  "validateCustomFields c e a fs None s = Inr () \<longleftrightarrow>
   (let declared = {f \<in> set (regFields s). rf_eventId f = e \<and> rf_isActive f \<and> rf_attendeeTypeId f \<in> {None, Some a}} in
    fst ` set fs \<subseteq> rf_key ` declared \<and>
    (\<forall>f \<in> declared. if isEmpty (obj_get fs (rf_key f)) then \<not> rf_isRequired f
       else value_fits c f (rf_type f) (the (obj_get fs (rf_key f)))))"
proof -
  have "set (filter (applies_to e a) (regFields s)) =
      {f \<in> set (regFields s). rf_eventId f = e \<and> rf_isActive f \<and> rf_attendeeTypeId f \<in> {None, Some a}}"
    by (auto simp: applies_to_def)
  moreover have "validateCustomFields c e a fs None s = Inr () \<longleftrightarrow>
      known_keys (filter (applies_to e a) (regFields s)) (map fst fs) = Inr () \<and>
      each_field c fs (filter (applies_to e a) (regFields s)) = Inr ()"
    unfolding validateCustomFields_def Let_def bindE_Inr_iff by auto
  ultimately show ?thesis by (simp only: known_keys_Inr each_field_Inr set_map Let_def)
qed

definition sample_field :: reg_field where
  "sample_field = \<lparr>rf_id = ''f1'', rf_eventId = ''e1'', rf_attendeeTypeId = None, rf_key = ''size'', rf_labelAr = [],
     rf_labelEn = None, rf_type = F_SELECT, rf_isRequired = True,
     rf_options = JArr [JObj [(''value'', JStr ''M'')], JStr ''L''], rf_isActive = True, rf_isUnique = False,
     rf_validation = JNull, rf_sortOrder = 0, rf_placeholderAr = None,
     rf_placeholderEn = None, rf_helpTextAr = None, rf_helpTextEn = None, rf_createdAt = 0\<rparr>"

lemma custom_fields_accepted_witness:
  "validateCustomFields sample_env ''e1'' ''t1'' [(''size'', JStr ''M'')] None (sample_regs\<lparr>regFields := [sample_field]\<rparr>) = Inr ()
   \<and> validateCustomFields sample_env ''e1'' ''t1'' [] None (sample_regs\<lparr>regFields := [sample_field]\<rparr>) \<noteq> Inr ()"
proof -
  have one: "{f \<in> set (regFields (sample_regs\<lparr>regFields := [sample_field]\<rparr>)). rf_eventId f = ''e1'' \<and> rf_isActive f \<and>
      rf_attendeeTypeId f \<in> {None, Some ''t1''}} = {sample_field}"
    by (auto simp: sample_field_def)
  have field: "rf_key sample_field = ''size''" "rf_isRequired sample_field" "rf_type sample_field = F_SELECT"
      "getOptionValues (rf_options sample_field) = [''M'', ''L'']"
    by (simp_all add: sample_field_def getOptionValues_def List.map_filter_def obj_get_def)
  show ?thesis unfolding custom_fields_accepted one Let_def by (simp add: field isEmpty_def obj_get_def)
qed

section \<open>Email addresses\<close>

lemma split_two_iff: "split_on d s = [l, r] \<longleftrightarrow> s = l @ d # r \<and> d \<notin> set l \<and> d \<notin> set r"
  by (auto simp: split_on_two)

lemma dot_inside: "CHR ''.'' \<in> set (butlast (tl d)) \<longleftrightarrow> (\<exists>a b. d = a @ CHR ''.'' # b \<and> a \<noteq> [] \<and> b \<noteq> [])"
proof
  assume dot: "CHR ''.'' \<in> set (butlast (tl d))"
  then obtain x xs where d: "d = x # xs" by (cases d) auto
  obtain p q where pq: "butlast xs = p @ CHR ''.'' # q" using dot d by (auto simp: in_set_conv_decomp)
  have "xs \<noteq> []" using pq by auto
  then have "xs = p @ CHR ''.'' # q @ [last xs]" using append_butlast_last_id [of xs] pq by simp
  then have "d = (x # p) @ CHR ''.'' # (q @ [last xs])" using d by simp
  then show "\<exists>a b. d = a @ CHR ''.'' # b \<and> a \<noteq> [] \<and> b \<noteq> []" by blast
next
  assume "\<exists>a b. d = a @ CHR ''.'' # b \<and> a \<noteq> [] \<and> b \<noteq> []"
  then obtain a b where "d = a @ CHR ''.'' # b" "a \<noteq> []" "b \<noteq> []" by blast
  then show "CHR ''.'' \<in> set (butlast (tl d))"
    by (cases a) (auto simp: butlast_append)
qed

text \<open>The test for email addresses is the regular expression of the code: a text passes exactly when it is a
  local part, an at sign, and a domain with a dot inside, where no part is empty or contains white
  space or another at sign.\<close>

theorem email_ok_iff:
  "email_ok s \<longleftrightarrow> (\<exists>l a b. s = l @ CHR ''@'' # a @ CHR ''.'' # b \<and> l \<noteq> [] \<and> a \<noteq> [] \<and> b \<noteq> [] \<and>
     (\<forall>x \<in> set l \<union> set a \<union> set b. \<not> is_space x \<and> x \<noteq> CHR ''@''))"
proof
  assume ok: "email_ok s"
  then obtain l d where ld: "split_on CHR ''@'' s = [l, d]" "l \<noteq> []" "CHR ''.'' \<in> set (butlast (tl d))"
    by (auto simp: email_ok_def split: list.splits)
  then obtain a b where d: "d = a @ CHR ''.'' # b" "a \<noteq> []" "b \<noteq> []" by (auto simp: dot_inside)
  have s: "s = l @ CHR ''@'' # a @ CHR ''.'' # b" "CHR ''@'' \<notin> set l \<union> set a \<union> set b"
    using ld(1) by (auto simp: split_two_iff d(1))
  have "\<forall>x \<in> set s. \<not> is_space x" using ok by (simp add: email_ok_def list_ex_iff)
  then have parts: "\<forall>x \<in> set l \<union> set a \<union> set b. \<not> is_space x \<and> x \<noteq> CHR ''@''"
    using s by auto
  show "\<exists>l a b. s = l @ CHR ''@'' # a @ CHR ''.'' # b \<and> l \<noteq> [] \<and> a \<noteq> [] \<and> b \<noteq> [] \<and>
     (\<forall>x \<in> set l \<union> set a \<union> set b. \<not> is_space x \<and> x \<noteq> CHR ''@'')"
    by (rule exI [of _ l], rule exI [of _ a], rule exI [of _ b]) (intro conjI s(1) ld(2) d(2,3) parts)
next
  assume "\<exists>l a b. s = l @ CHR ''@'' # a @ CHR ''.'' # b \<and> l \<noteq> [] \<and> a \<noteq> [] \<and> b \<noteq> [] \<and>
     (\<forall>x \<in> set l \<union> set a \<union> set b. \<not> is_space x \<and> x \<noteq> CHR ''@'')"
  then obtain l a b where s: "s = l @ CHR ''@'' # a @ CHR ''.'' # b" "l \<noteq> []" "a \<noteq> []" "b \<noteq> []"
      "\<forall>x \<in> set l \<union> set a \<union> set b. \<not> is_space x \<and> x \<noteq> CHR ''@''"
    by (elim exE conjE) (rule that)
  have "split_on CHR ''@'' s = [l, a @ CHR ''.'' # b]" using s by (auto simp: split_two_iff)
  moreover have "\<not> list_ex is_space s" using s by (auto simp: list_ex_iff is_space_def)
  moreover have "CHR ''.'' \<in> set (butlast (tl (a @ CHR ''.'' # b)))" using s(3,4) unfolding dot_inside by blast
  ultimately show "email_ok s" using s(2) by (simp add: email_ok_def)
qed

lemma email_ok_iff_witness: "email_ok ''ann@mail.org''"
  unfolding email_ok_iff
  by (rule exI [of _ "''ann''"], rule exI [of _ "''mail''"], rule exI [of _ "''org''"]) (simp add: is_space_def)

section \<open>Creation and removal\<close>

lemma normalizeCreate_Inr:
  "normalizeCreateDto dto = Inr d \<longleftrightarrow> \<not> blank (cd_fullName dto) \<and> (\<exists>p e. cd_phone dto = Some p \<and> \<not> blank p \<and>
     normalizeOptionalStringToNull (cd_email dto) = Inr e \<and>
     d = normal_rest dto (trim (cd_fullName dto)) (Some (trim p)) e SRC_ADMIN)"
  by (auto simp: normalizeCreateDto_def normalizeRequiredString_def bindE_Inr_iff split: option.splits if_splits)

lemma normal_email: "normalizeOptionalStringToNull v = Inr (Some e) \<Longrightarrow> email_ok e"
  by (auto simp: normalizeOptionalStringToNull_def split: option.splits if_splits)

lemma created_row:
  assumes "create c dto s = (Inr r, t)"
  shows "rg_eventId r = cd_eventId dto \<and> (\<forall>p. cd_phone dto = Some p \<longrightarrow> rg_phone r = Some (trim p)) \<and>
    \<not> exists_row (collides r) (registrations s)"
proof -
  obtain d where d: "normalizeCreateDto dto = Inr d" "createNormalized c d no_options s = (Inr r, t)"
    using assms by (auto simp: create_def bindA_reads split: sum.splits)
  obtain u where "createRegistrationOrThrowConflict c d s = (Inr r, u)"
    by (rule createNormalized_Inr [OF d(2)]) (simp_all add: no_options_def)
  then show ?thesis using d(1) by (auto simp: normalizeCreate_Inr normal_rest_def registration_row_def dest!: createOrThrow_Inr)
qed

text \<open>What \<open>create\<close> registers has passed every check: the event exists and is not archived, the attendee type is
  an active one of it, name and phone are given and stored trimmed, a stored email is well formed, the
  custom fields are accepted, no other registration collides, and the new row, \<open>ACTIVE\<close>, is the only
  change to the table; the pipeline job is queued exactly if the pipeline is on and the queue is up.\<close>

theorem created_registration_checked:
  assumes "create c dto s = (Inr r, t)"
  shows "\<exists>event a p. find_event (cd_eventId dto) s = Some event \<and> ev_status event \<noteq> EV_ARCHIVED \<and>
    find_attendee_type (cd_attendeeTypeId dto) s = Some a \<and> at_eventId a = cd_eventId dto \<and> at_isActive a \<and>
    rg_eventId r = cd_eventId dto \<and> rg_attendeeTypeId r = cd_attendeeTypeId dto \<and> rg_status r = REG_ACTIVE \<and>
    \<not> blank (cd_fullName dto) \<and> rg_fullName r = trim (cd_fullName dto) \<and>
    cd_phone dto = Some p \<and> \<not> blank p \<and> rg_phone r = Some (trim p) \<and> (\<forall>e. rg_email r = Some e \<longrightarrow> email_ok e) \<and>
    validateCustomFields c (cd_eventId dto) (cd_attendeeTypeId dto)
      (case cd_customFields dto of None \<Rightarrow> [] | Some fs \<Rightarrow> fs) None s = Inr () \<and>
    \<not> exists_row (collides r) (registrations s) \<and> registrations t = registrations s @ [r] \<and>
    jobs t = jobs s @ (if pipeline_enabled c \<and> queue_up c
      then [RegistrationCreated (rg_id r) (rg_eventId r) (rg_source r) False] else [])"
proof -
  obtain d where n: "normalizeCreateDto dto = Inr d" and run: "createNormalized c d no_options s = (Inr r, t)"
    using assms by (auto simp: create_def bindA_reads split: sum.splits)
  obtain p e where d: "\<not> blank (cd_fullName dto)" "cd_phone dto = Some p" "\<not> blank p"
      "normalizeOptionalStringToNull (cd_email dto) = Inr e" "d = normal_rest dto (trim (cd_fullName dto)) (Some (trim p)) e SRC_ADMIN"
    using n by (auto simp: normalizeCreate_Inr)
  have f: "cd_eventId d = cd_eventId dto" "cd_attendeeTypeId d = cd_attendeeTypeId dto" "cd_customFields d = cd_customFields dto"
      "cd_fullName d = trim (cd_fullName dto)" "cd_phone d = Some (trim p)" "cd_email d = e"
    by (simp_all add: d(5) normal_rest_def)
  obtain event a u where g: "ensureEventCanBeModified (cd_eventId d) s = Inr event"
      "ensureAttendeeTypeCanBeUsed (cd_attendeeTypeId d) (cd_eventId d) s = Inr a"
      "validateCustomFields c (cd_eventId d) (cd_attendeeTypeId d) (case cd_customFields d of None \<Rightarrow> [] | Some fs \<Rightarrow> fs)
         (op_registrationFields no_options) s = Inr ()"
      "createRegistrationOrThrowConflict c d s = (Inr r, u)"
      "t = (if op_enqueuePipeline no_options \<and> pipeline_enabled c \<and> queue_up c
         then add_job (RegistrationCreated (rg_id r) (rg_eventId r) (rg_source r) (op_skipDigitalTicket no_options)) u else u)"
    by (rule createNormalized_Inr [OF run]) (simp_all add: no_options_def)
  have r: "rg_eventId r = cd_eventId d" "rg_attendeeTypeId r = cd_attendeeTypeId d" "rg_status r = REG_ACTIVE"
      "rg_fullName r = cd_fullName d" "rg_phone r = cd_phone d" "rg_email r = cd_email d"
      "\<not> exists_row (collides r) (registrations s)" "registrations u = registrations s @ [r]" "jobs u = jobs s"
    using createOrThrow_Inr [OF g(4)] by (auto simp: registration_row_def append_row_def)
  have "email_ok x" if "rg_email r = Some x" for x using that r(6) f(6) d(4) normal_email by simp
  then show ?thesis
    using g r f d(1-3)
    by (auto simp: no_options_def add_job_def ensureEventCanBeModified_Inr ensureAttendeeTypeCanBeUsed_def
          split: option.splits if_splits)
qed

lemma createOrThrow_empty:
  assumes "registrations s = []" and "find_attendee_type (cd_attendeeTypeId dto) s \<noteq> None"
  shows "\<exists>r t. createRegistrationOrThrowConflict c dto s = (Inr r, t)"
proof -
  have "find_attendee_type i (s\<lparr>next_rand := n, next_id := k\<rparr>) = find_attendee_type i s" for i n k
    by (simp add: find_attendee_type_def)
  moreover have "generatePublicId c s = (Inr (''REG_'' @ random_hex c (next_rand s)), s\<lparr>next_rand := Suc (next_rand s)\<rparr>)"
    using assms(1) by (simp add: generatePublicId_def numeral_eq_Suc bindA_def draw_def gets_def ret_def lookup_by_def)
  moreover obtain a where "find_attendee_type (cd_attendeeTypeId dto) s = Some a" using assms(2) by blast
  ultimately show ?thesis
    using assms(1)
    by (simp add: createRegistrationOrThrowConflict_def catch_def bindA_def create_registration_def new_id_def gets_def
          exists_row_def registration_row_def modify_def ret_def)
qed

definition sample_open :: store where
  "sample_open = sample_regs\<lparr>registrations := []\<rparr>"

definition sample_normal :: create_dto where
  "sample_normal = sample_create\<lparr>cd_fullName := ''Ann'', cd_companyName := None, cd_source := Some SRC_ADMIN\<rparr>"

lemma sample_created: "is_Inr (fst (create sample_env sample_create sample_open))"
proof -
  have trims: "trim '' Ann '' = ''Ann''" "trim ''123'' = ''123''" "trim '' '' = []" by code_simp+
  have n: "normalizeCreateDto sample_create = Inr sample_normal"
    by (simp add: normalizeCreateDto_def sample_create_def sample_normal_def normalizeRequiredString_def blank_def trims
          normalizeOptionalStringToNull_def normalizeOptionalString_def normal_rest_def)
  have up: "to_upper ''REJECT'' = ''REJECT''" by code_simp
  have f: "cd_eventId sample_normal = ''e1''" "cd_attendeeTypeId sample_normal = ''t1''" "cd_customFields sample_normal = None"
    by (simp_all add: sample_normal_def sample_create_def)
  have e: "ensureEventCanBeModified ''e1'' sample_open = Inr sample_event" "ev_id sample_event = ''e1''"
      "ensureAttendeeTypeCanBeUsed ''t1'' ''e1'' sample_open = Inr sample_type"
      "ensureDuplicateAllowed sample_event ''e1'' ph em ex None sample_open = Inr ()"
      "validateCustomFields sample_env ''e1'' ''t1'' [] None sample_open = Inr ()"
      "registrations sample_open = []" "find_attendee_type ''t1'' sample_open \<noteq> None" for ph em ex
    by (simp_all add: sample_open_def sample_regs_def empty_store_def find_defs lookup_by_def sample_event_def sample_type_def
          ensureEventCanBeModified_def ensureAttendeeTypeCanBeUsed_def ensureDuplicateAllowed_def up duplicateChecks_def
          validateCustomFields_def Let_def exists_row_def)
  obtain r t where "createRegistrationOrThrowConflict sample_env sample_normal sample_open = (Inr r, t)"
    using createOrThrow_empty [of sample_open sample_normal sample_env] e f by auto
  then show ?thesis
    by (simp add: create_def bindA_reads n createNormalized_def no_options_def f e bindA_done enqueueRegistrationPipeline_def
          bindA_modify ret_def)
qed

lemma created_registration_checked_witness:
  "\<exists>r t. create sample_env sample_create sample_open = (Inr r, t) \<and> registrations t = [r]"
proof -
  obtain r t where run: "create sample_env sample_create sample_open = (Inr r, t)" using run_Inr [OF sample_created] by blast
  moreover have "registrations sample_open = []" by (simp add: sample_open_def)
  ultimately show ?thesis using created_registration_checked [OF run] by auto
qed

lemma publicId_frame: "within (same registrations) (generatePublicId c) s"
proof -
  have "within (same registrations) (draw g) s" for g s by (simp add: within_def same_def draw_def)
  then have "within (same registrations) (generatePublicId_loop n c) s" for n s
    by (induction n arbitrary: s)
      (auto simp: same.within_throw intro!: same.within_bind same.within_bind_gets same.within_ret)
  then show ?thesis by (simp add: generatePublicId_def)
qed

lemma createOrThrow_Inl:
  assumes "createRegistrationOrThrowConflict c dto s = (Inl e, t)"
  shows "registrations t = registrations s"
  using assms publicId_frame [of c s]
  by (auto simp: createRegistrationOrThrowConflict_def catch_def throw_def within_def same_def create_registration_def
        new_id_def gets_def modify_def ret_def bindA_def split: prod.splits sum.splits if_splits)

lemma create_Inl:
  assumes "create c dto s = (Inl e, t)"
  shows "registrations t = registrations s"
  using assms unfolding create_def createNormalized_def enqueueRegistrationPipeline_def
  by (auto simp: bindA_reads throw_def ret_def modify_def dest: createOrThrow_Inl
        split: sum.splits if_splits elim!: bindA_InlE)

text \<open>The duplicate strategy of an event can only tighten what the database enforces: whatever it is, also with
  \<open>NONE\<close>, which the code reads as no check, registering a phone that the event already has is refused,
  and nothing is registered.\<close>

theorem duplicate_phone_refused:
  assumes "x \<in> set (registrations s)" and "rg_eventId x = cd_eventId dto" and "rg_phone x = Some (trim p)"
    and "cd_phone dto = Some p"
  shows "\<exists>e t. create c dto s = (Inl e, t) \<and> registrations t = registrations s"
proof (cases "create c dto s")
  case (Pair res t)
  show ?thesis
  proof (cases res)
    case (Inl e)
    then show ?thesis using Pair create_Inl by auto
  next
    case (Inr r)
    then have "rg_eventId r = cd_eventId dto" "rg_phone r = Some (trim p)" "\<not> exists_row (collides r) (registrations s)"
      using created_row [of c dto s r t] Pair assms(4) by auto
    then have False using assms(1-3) by (auto simp: exists_row_iff collides_def same_value_def)
    then show ?thesis ..
  qed
qed

definition sample_none :: store where
  "sample_none = sample_regs\<lparr>events := [sample_event\<lparr>ev_duplicateStrategy := ''NONE''\<rparr>],
     registrations := [sample_registration\<lparr>rg_phone := Some ''123''\<rparr>]\<rparr>"

lemma duplicate_phone_refused_witness:
  "\<exists>e t. create sample_env sample_create sample_none = (Inl e, t) \<and> registrations t = registrations sample_none"
proof -
  have "trim ''123'' = ''123''" by code_simp
  then show ?thesis
    by (intro duplicate_phone_refused [of "sample_registration\<lparr>rg_phone := Some ''123''\<rparr>" _ _ "''123''"])
      (simp_all add: sample_none_def sample_registration_def sample_create_def)
qed

section \<open>Removal\<close>

text \<open>No row of any table refers to the registration.\<close>

definition unreferenced :: "id \<Rightarrow> store \<Rightarrow> bool" where
  "unreferenced i s = (find_registration i s = None \<and> (\<forall>x \<in> set (qrTokens s). qr_registrationId x \<noteq> i) \<and>
     (\<forall>x \<in> set (scans s). sc_registrationId x \<noteq> Some i) \<and> (\<forall>x \<in> set (movements s). mv_registrationId x \<noteq> i) \<and>
     (\<forall>x \<in> set (offlineScans s). os_registrationId x \<noteq> Some i) \<and>
     (\<forall>x \<in> set (mappings s). mp_registrationId x \<noteq> Some i) \<and>
     (\<forall>x \<in> set (importRows s). iw_registrationId x \<noteq> Some i) \<and>
     (\<forall>x \<in> set (ticketImages s). ti_registrationId x \<noteq> i) \<and>
     (\<forall>x \<in> set (notificationLogs s). nl_registrationId x \<noteq> Some i))"

lemma length_delete_rows: "length (delete_rows p rows) + count_rows p rows = length rows"
  using sum_length_filter_compl [of p rows] by (simp add: delete_rows_def count_rows_def)

lemma count_delete_rows: "count_rows q (delete_rows p rows) \<le> count_rows q rows"
  by (induction rows) (simp_all add: delete_rows_def count_rows_def)

lemma delete_scan_inv:
  assumes "scan_inv c s"
  shows "scan_inv c (delete_registration i s)"
proof -
  let ?scs = "scans s" and ?mvs = "movements s"
  have inv: "scan_tables c (next_id s) (events s) ?scs ?mvs" using assms by (simp add: scan_inv_def)
  have backed: "\<exists>sc \<in> set ?scs. agrees sc m" if "m \<in> set ?mvs" for m using inv that by (simp add: scan_tables_def)
  have moved: "\<exists>m \<in> set ?mvs. mv_scanEventRawId m = sc_id sc" if "sc \<in> set ?scs" "sc_status sc = SC_PROCESSED" for sc
    using inv that by (simp add: scan_tables_def)
  have uniq: "distinct (map sc_id ?scs)" using inv by (simp add: scan_tables_def)
  have agree: "sc_registrationId sc = Some (mv_registrationId m)"
    if "m \<in> set ?mvs" "sc \<in> set ?scs" "mv_scanEventRawId m = sc_id sc" for m sc
  proof -
    obtain sc' where "sc' \<in> set ?scs" "agrees sc' m" using backed [OF \<open>m \<in> set ?mvs\<close>] by blast
    then show ?thesis using that distinct_key_inj [OF uniq, of sc sc'] by (simp add: agrees_def)
  qed
  have "\<exists>sc \<in> set (delete_rows (\<lambda>x. sc_registrationId x = Some i) ?scs). agrees sc m"
    if "m \<in> set (delete_rows (\<lambda>x. mv_registrationId x = i) ?mvs)" for m
  proof -
    from that have m: "m \<in> set ?mvs" "mv_registrationId m \<noteq> i" by (auto simp: set_delete_rows)
    then obtain sc where "sc \<in> set ?scs" "agrees sc m" using backed by blast
    then show ?thesis using m(2) by (auto simp: set_delete_rows agrees_def)
  qed
  moreover have "\<exists>m \<in> set (delete_rows (\<lambda>x. mv_registrationId x = i) ?mvs). mv_scanEventRawId m = sc_id sc"
    if "sc \<in> set (delete_rows (\<lambda>x. sc_registrationId x = Some i) ?scs)" "sc_status sc = SC_PROCESSED" for sc
  proof -
    from that have sc: "sc \<in> set ?scs" "sc_registrationId sc \<noteq> Some i" by (auto simp: set_delete_rows)
    then obtain m where "m \<in> set ?mvs" "mv_scanEventRawId m = sc_id sc" using moved \<open>sc_status sc = SC_PROCESSED\<close> by blast
    then show ?thesis using agree sc by (auto simp: set_delete_rows)
  qed
  moreover have "single_entry (events s) (delete_rows (\<lambda>x. mv_registrationId x = i) ?mvs)"
    using inv count_delete_rows unfolding scan_tables_def single_entry_def by (meson order_trans)
  moreover have "\<forall>sc \<in> set (delete_rows (\<lambda>x. sc_registrationId x = Some i) ?scs). \<exists>k < next_id s. sc_id sc = cuid c k"
    using inv by (simp add: scan_tables_def set_delete_rows)
  ultimately show ?thesis
    using inv unfolding scan_inv_def scan_tables_def by (simp add: delete_registration_def distinct_map_delete_rows)
qed



end
