(* ===== verification/Sync.thy ===== *)
theory Sync
  imports Registrations "HOL-Library.Product_Lexorder"
begin

text \<open>
  \<open>src/modules/sync/sync.service.ts\<close>: the batches of operations that a device recorded without a
  connection. A batch is stored, its operations run in the order of their types, registrations
  first, each result is stored with its operation, and an operation id that was submitted before is
  answered from the stored result, or tried again when its failure was temporary.

  An operation runs on the store and the map from the device's local registration ids to the
  registrations of the batch. \<open>ser\<close> is the client library's conversion of an answer to the JSON column
  \<open>output\<close>. A scan whose type or date is no movement type or date is refused before it runs;
  in the code the database client refuses it when the row is written.
\<close>

section \<open>Data\<close>

record op_dto =
  od_operationId :: string
  od_type :: sync_type
  od_payload :: fields

record batch_dto =
  bd_batchId :: string
  bd_eventId :: id
  bd_deviceId :: id
  bd_staffSessionId :: "id option"
  bd_operations :: "op_dto list"

type_synonym locals = "string \<Rightarrow> (id \<times> string) option"
type_synonym 'a sync = "(store \<times> locals, 'a) act"

definition db :: "(store, 'a) act \<Rightarrow> 'a sync" where
  "db m = (\<lambda>(s, l). case m s of (r, t) \<Rightarrow> (r, (t, l)))"

definition set_local :: "string \<Rightarrow> registration \<Rightarrow> unit sync" where
  "set_local k r = modify (\<lambda>(s, l). (s, l(k \<mapsto> (rg_id r, rg_publicId r))))"

text \<open>What \<open>runOfflineRegistration\<close> answers; \<open>registrationId\<close> and \<open>publicId\<close> are those of the registration.\<close>

record offline_registration =
  or_status :: string
  or_registration :: registration
  or_operationId :: string
  or_localId :: string
  or_offlineQrToken :: string
  or_signedOfflineQr :: "string option"
  or_canonicalQrTokenId :: "id option"
  or_canonicalQrToken :: string
  or_canonicalSignedQrToken :: string

datatype op_output =
    OutRegistration offline_registration
  | OutOffline offline_answer
  | OutQr qr_response
  | OutScan scan_answer

record op_result =
  re_operationId :: string
  re_status :: sync_status
  re_output :: "json option"
  re_errorCode :: "string option"
  re_errorMessage :: "string option"
  re_retryable :: "bool option"
  re_retried :: bool

section \<open>Errors\<close>

text \<open>The body of an exception that is built from a message: always an object.\<close>

definition getResponse :: "err \<Rightarrow> json" where
  "getResponse e = (case e of
     BadRequest m \<Rightarrow> JObj [(''message'', JStr m), (''error'', JStr ''Bad Request''), (''statusCode'', JInt 400)]
   | NotFound m \<Rightarrow> JObj [(''message'', JStr m), (''error'', JStr ''Not Found''), (''statusCode'', JInt 404)]
   | Conflict m \<Rightarrow> JObj [(''message'', JStr m), (''error'', JStr ''Conflict''), (''statusCode'', JInt 409)]
   | Forbidden m \<Rightarrow> JObj [(''message'', JStr m), (''error'', JStr ''Forbidden''), (''statusCode'', JInt 403)]
   | Unauthorized m \<Rightarrow> JObj [(''message'', JStr m), (''error'', JStr ''Unauthorized''), (''statusCode'', JInt 401)]
   | _ \<Rightarrow> JNull)"

fun joined :: "json list \<Rightarrow> string" where
  "joined [] = []"
| "joined (JStr s # vs) = (let rest = joined vs in if rest = [] then s else s @ '', '' @ rest)"
| "joined (_ # vs) = joined vs"

definition message_of :: "json option \<Rightarrow> string \<Rightarrow> string" where
  "message_of v otherwise = (case v of Some (JArr vs) \<Rightarrow> joined vs | Some (JStr m) \<Rightarrow> m | _ \<Rightarrow> otherwise)"

definition getConflictErrorCode :: "string \<Rightarrow> string" where
  "getConflictErrorCode message =
    (if message = ''OFFLINE_REGISTRATION_CONFLICT'' then ''OFFLINE_REGISTRATION_CONFLICT''
     else if sublist ''Duplicate registration'' message \<or> sublist ''unique'' message then ''DUPLICATE_REGISTRATION''
     else ''SYNC_OPERATION_CONFLICT'')"

definition getHttpExceptionMessage :: "err \<Rightarrow> string" where
  "getHttpExceptionMessage e = (case getResponse e of
     JStr m \<Rightarrow> m
   | JObj rec \<Rightarrow> message_of (obj_get rec ''message'') (err_message e)
   | _ \<Rightarrow> err_message e)"

record classified =
  er_code :: string
  er_message :: string
  er_retryable :: bool

definition classifySyncOperationError :: "err \<Rightarrow> classified" where
  "classifySyncOperationError e = (case e of
     Conflict m \<Rightarrow> (case getResponse e of
         JStr response \<Rightarrow> \<lparr>er_code = getConflictErrorCode response, er_message = response, er_retryable = False\<rparr>
       | JObj rec \<Rightarrow>
           \<lparr>er_code = (case obj_get rec ''code'' of Some (JStr code) \<Rightarrow> code
              | _ \<Rightarrow> (case obj_get rec ''errorCode'' of Some (JStr code) \<Rightarrow> code | _ \<Rightarrow> ''DUPLICATE_REGISTRATION'')),
            er_message = message_of (obj_get rec ''message'') m, er_retryable = False\<rparr>
       | _ \<Rightarrow> \<lparr>er_code = ''DUPLICATE_REGISTRATION'',
            er_message = (if m = [] then ''Duplicate registration for this event'' else m), er_retryable = False\<rparr>)
   | BadRequest _ \<Rightarrow>
       \<lparr>er_code = ''INVALID_OFFLINE_REGISTRATION'', er_message = getHttpExceptionMessage e, er_retryable = False\<rparr>
   | NotFound _ \<Rightarrow> \<lparr>er_code = ''OFFLINE_REGISTRATION_RESOURCE_NOT_FOUND'',
       er_message = getHttpExceptionMessage e, er_retryable = False\<rparr>
   | _ \<Rightarrow> \<lparr>er_code = ''OPERATION_FAILED'', er_message = err_message e, er_retryable = True\<rparr>)"

definition permanent_codes :: "string list" where
  "permanent_codes = [''DUPLICATE_REGISTRATION'', ''INVALID_OFFLINE_REGISTRATION'',
     ''OFFLINE_REGISTRATION_RESOURCE_NOT_FOUND'', ''OFFLINE_REGISTRATION_CONFLICT'']"

definition retryable_codes :: "string list" where
  "retryable_codes = [''OPERATION_FAILED'', ''OFFLINE_REGISTRATION_FAILED'',
     ''OFFLINE_REGISTRATION_RETRYABLE_FAILURE'', ''PREVIOUS_OPERATION_FAILED'',
     ''PREVIOUS_OPERATION_NOT_COMPLETED'', ''OFFLINE_OPERATION_RESULT_MISSING'',
     ''CANONICAL_REGISTRATION_ID_MISSING'']"

definition canRetryFailedOfflineOperation :: "sync_op \<Rightarrow> bool" where
  "canRetryFailedOfflineOperation operation =
    (so_type operation = OFFLINE_REGISTRATION \<and>
     (case so_errorCode operation of
        None \<Rightarrow> True
      | Some text \<Rightarrow>
          (let errorCode = to_upper (trim text) in
           errorCode = [] \<or>
           errorCode \<notin> set permanent_codes \<and>
           (errorCode \<in> set retryable_codes \<or> starts_with ''HTTP_5'' errorCode \<or>
            starts_with ''NETWORK_'' errorCode \<or> starts_with ''UNKNOWN_'' errorCode))))"

section \<open>Reading a payload\<close>

definition getString :: "fields \<Rightarrow> string \<Rightarrow> string res" where
  "getString payload key = (case obj_get payload key of
     Some (JStr s) \<Rightarrow> if blank s then Inl (BadRequest (key @ '' is required'')) else Inr s
   | _ \<Rightarrow> Inl (BadRequest (key @ '' is required'')))"

definition getOptionalString :: "fields \<Rightarrow> string \<Rightarrow> string option" where
  "getOptionalString payload key = (case obj_get payload key of
     Some (JStr s) \<Rightarrow> if blank s then None else Some (trim s)
   | _ \<Rightarrow> None)"

definition getOptionalRecord :: "fields \<Rightarrow> string \<Rightarrow> fields option" where
  "getOptionalRecord payload key = (case obj_get payload key of Some (JObj fs) \<Rightarrow> Some fs | _ \<Rightarrow> None)"

definition stored_record :: "json \<Rightarrow> fields res" where
  "stored_record v = (case v of JObj fs \<Rightarrow> Inr fs | _ \<Rightarrow> Inl (BadRequest ''Stored sync operation input is invalid''))"

definition resolveLocalRegistrationId :: "fields \<Rightarrow> id sync" where
  "resolveLocalRegistrationId payload =
    bindA (reads (\<lambda>_. getString payload ''localRegistrationId'')) (\<lambda>k.
    bindA (gets (\<lambda>(s, l). l k)) (\<lambda>found. case found of
      None \<Rightarrow> throw (BadRequest ''Local registration was not found in batch'')
    | Some (i, publicId) \<Rightarrow> ret i))"

text \<open>The text of a movement type.\<close>

definition movement_of_text :: "string \<Rightarrow> movement_type res" where
  "movement_of_text t = (case map_of [(''ENTRY'', MV_ENTRY), (''EXIT'', MV_EXIT), (''CHECKPOINT'', MV_CHECKPOINT),
       (''BOOTH_VISIT'', MV_BOOTH_VISIT), (''SESSION_ATTENDANCE'', MV_SESSION_ATTENDANCE),
       (''VIP_ACCESS'', MV_VIP_ACCESS)] t of
     Some y \<Rightarrow> Inr y | None \<Rightarrow> Inl (OtherError ''Invalid value for argument type''))"

definition date_of_text :: "env \<Rightarrow> string \<Rightarrow> time res" where
  "date_of_text c t = (case parse_date c t of
     Some d \<Rightarrow> Inr d | None \<Rightarrow> Inl (OtherError ''Invalid value for argument scannedAtDevice''))"

section \<open>Order\<close>

fun type_rank :: "sync_type \<Rightarrow> nat" where
  "type_rank OFFLINE_REGISTRATION = 0"
| "type_rank OFFLINE_SCAN = 1"
| "type_rank QR_GENERATION = 2"
| "type_rank SCAN_EVENT = 3"

instantiation sync_type :: linorder
begin

definition less_eq_sync_type :: "sync_type \<Rightarrow> sync_type \<Rightarrow> bool" where
  "less_eq_sync_type a b = (type_rank a \<le> type_rank b)"

definition less_sync_type :: "sync_type \<Rightarrow> sync_type \<Rightarrow> bool" where
  "less_sync_type a b = (type_rank a < type_rank b)"

instance
proof
  show "a = b" if "a \<le> b" "b \<le> a" for a b :: sync_type
    using that by (cases a; cases b) (simp_all add: less_eq_sync_type_def)
qed (auto simp: less_eq_sync_type_def less_sync_type_def)

end

definition sortOperations :: "op_dto list \<Rightarrow> op_dto list" where
  "sortOperations operations =
     map snd (sort_key (\<lambda>(index, operation). (od_type operation, index)) (List.enumerate 0 operations))"

section \<open>Writes\<close>

text \<open>\<open>update\<close> by id on the three tables; \<open>upsert\<close> of a mapping with the unique columns.\<close>

definition update_mapping :: "id \<Rightarrow> (mapping_row \<Rightarrow> mapping_row) \<Rightarrow> (store, unit) act" where
  "update_mapping i f = bindA (gets (lookup_by mp_id i \<circ> mappings)) (\<lambda>found.
     if found = None then throw (OtherError ''Record to update not found'')
     else modify (\<lambda>s. s\<lparr>mappings := update_by mp_id i f (mappings s)\<rparr>))"

definition update_op :: "id \<Rightarrow> (sync_op \<Rightarrow> sync_op) \<Rightarrow> (store, unit) act" where
  "update_op i f = bindA (gets (lookup_by so_id i \<circ> syncOps)) (\<lambda>found.
     if found = None then throw (OtherError ''Record to update not found'')
     else modify (\<lambda>s. s\<lparr>syncOps := update_by so_id i f (syncOps s)\<rparr>))"

definition update_batch :: "id \<Rightarrow> (sync_batch \<Rightarrow> sync_batch) \<Rightarrow> (store, sync_batch) act" where
  "update_batch i f = bindA (gets (lookup_by sb_id i \<circ> syncBatches)) (\<lambda>found. case found of
     None \<Rightarrow> throw (OtherError ''Record to update not found'')
   | Some b \<Rightarrow> bindA (modify (\<lambda>s. s\<lparr>syncBatches := update_by sb_id i f (syncBatches s)\<rparr>)) (\<lambda>_. ret (f b)))"

definition same_operation :: "id \<Rightarrow> id \<Rightarrow> string \<Rightarrow> mapping_row \<Rightarrow> bool" where
  "same_operation issuerDeviceId eventId operationId m = (mp_issuerDeviceId m = issuerDeviceId \<and>
     mp_eventId m = eventId \<and> mp_operationId m = operationId)"

definition same_local :: "id \<Rightarrow> id \<Rightarrow> string \<Rightarrow> mapping_row \<Rightarrow> bool" where
  "same_local issuerDeviceId eventId localId m = (mp_issuerDeviceId m = issuerDeviceId \<and>
     mp_eventId m = eventId \<and> mp_localId m = localId)"

definition mapping_clash :: "mapping_row \<Rightarrow> mapping_row \<Rightarrow> bool" where
  "mapping_clash m x = (mp_offlineQrToken m = mp_offlineQrToken x \<or>
     same_operation (mp_issuerDeviceId m) (mp_eventId m) (mp_operationId m) x \<or>
     same_local (mp_issuerDeviceId m) (mp_eventId m) (mp_localId m) x)"

definition upsert_mapping :: "env \<Rightarrow> (id \<Rightarrow> mapping_row) \<Rightarrow> id \<Rightarrow> id \<Rightarrow> string \<Rightarrow> (store, mapping_row) act" where
  "upsert_mapping c row issuerDeviceId eventId operationId =
    bindA (gets (find_row (same_operation issuerDeviceId eventId operationId) \<circ> mappings)) (\<lambda>found. case found of
      Some m \<Rightarrow> ret m
    | None \<Rightarrow>
        bindA (new_id c) (\<lambda>i.
        bindA (gets (exists_row (mapping_clash (row i)) \<circ> mappings)) (\<lambda>taken.
        if taken then throw UniqueViolation
        else bindA (modify (\<lambda>s. s\<lparr>mappings := append_row (row i) (mappings s)\<rparr>)) (\<lambda>_. ret (row i)))))"

definition findExistingOfflineMapping :: "id \<Rightarrow> id \<Rightarrow> string \<Rightarrow> string \<Rightarrow> string \<Rightarrow> store \<Rightarrow> mapping_row option" where
  "findExistingOfflineMapping eventId issuerDeviceId operationId localId offlineQrToken s =
    find_row (\<lambda>m. mp_eventId m = eventId \<and>
      (same_operation issuerDeviceId eventId operationId m \<or> same_local issuerDeviceId eventId localId m \<or>
       mp_offlineQrToken m = offlineQrToken)) (mappings s)"

section \<open>Offline registrations\<close>

text \<open>A member of the badge that is set must be repeated in the payload.\<close>

fun json_truthy :: "json option \<Rightarrow> bool" where
  "json_truthy None = False"
| "json_truthy (Some JNull) = False"
| "json_truthy (Some (JBool b)) = b"
| "json_truthy (Some (JInt i)) = (i \<noteq> 0)"
| "json_truthy (Some (JStr t)) = (t \<noteq> [])"
| "json_truthy (Some _) = True"

fun matches_badge :: "fields \<Rightarrow> fields \<Rightarrow> string list \<Rightarrow> unit res" where
  "matches_badge payload badge [] = Inr ()"
| "matches_badge payload badge (field # rest) =
    (if json_truthy (obj_get badge field) then
       bindE (getString payload field) (\<lambda>v.
         if obj_get badge field \<noteq> Some (JStr v)
         then Inl (BadRequest (''Offline registration '' @ field @ '' does not match signed QR''))
         else matches_badge payload badge rest)
     else matches_badge payload badge rest)"

definition assertOfflineRegistrationPayloadMatchesQr :: "fields \<Rightarrow> fields \<Rightarrow> unit res" where
  "assertOfflineRegistrationPayloadMatchesQr payload badge = matches_badge payload badge
     [''eventId'', ''offlineRegistrationOperationId'', ''offlineRegistrationId'', ''offlineQrToken'',
      ''attendeeTypeId'']"

definition enqueueOfflineReconciliation :: "env \<Rightarrow> id \<Rightarrow> string \<Rightarrow> string \<Rightarrow> id \<Rightarrow> (store, unit) act" where
  "enqueueOfflineReconciliation c eventId offlineQrToken operationId registrationId =
    (if queue_up c then modify (add_job (OfflineReconcile eventId offlineQrToken operationId registrationId))
     else bindA (reconcileOfflineRegistration c eventId offlineQrToken operationId registrationId) (\<lambda>_. ret ()))"

text \<open>The identity that a submission names, and its verified badge.\<close>

record submission =
  sm_signedOfflineQr :: string
  sm_verified :: verified_qr
  sm_operationId :: string
  sm_localId :: string
  sm_offlineQrToken :: string

definition read_submission :: "env \<Rightarrow> batch_dto \<Rightarrow> fields \<Rightarrow> store \<Rightarrow> submission res" where
  "read_submission c batch payload s =
    bindE (getString payload ''signedOfflineQr'') (\<lambda>signedOfflineQr.
    bindE (verifySignedOfflineQr c signedOfflineQr (Some (bd_eventId batch)) s) (\<lambda>verified.
    if str_field (vq_payload verified) ''issuerDeviceId'' \<noteq> bd_deviceId batch
    then Inl (BadRequest ''Offline registration issuer must match authenticated device'')
    else
      bindE (getString payload ''offlineRegistrationOperationId'') (\<lambda>operationId.
      bindE (getString payload ''offlineRegistrationId'') (\<lambda>localId.
      bindE (getString payload ''offlineQrToken'') (\<lambda>offlineQrToken.
      bindE (assertOfflineRegistrationPayloadMatchesQr payload (vq_payload verified)) (\<lambda>_.
      Inr \<lparr>sm_signedOfflineQr = signedOfflineQr, sm_verified = verified, sm_operationId = operationId,
           sm_localId = localId, sm_offlineQrToken = offlineQrToken\<rparr>))))))"

definition new_mapping :: "batch_dto \<Rightarrow> submission \<Rightarrow> id \<Rightarrow> mapping_row" where
  "new_mapping batch sm i = \<lparr>mp_id = i, mp_eventId = bd_eventId batch, mp_issuerDeviceId = bd_deviceId batch,
     mp_operationId = sm_operationId sm, mp_localId = sm_localId sm, mp_offlineQrToken = sm_offlineQrToken sm,
     mp_issuerKeyVersion = int_field (vq_payload (sm_verified sm)) ''issuerKeyVersion'',
     mp_payloadHash = vq_payloadHash (sm_verified sm), mp_registrationId = None, mp_canonicalQrTokenId = None,
     mp_status = MAP_PENDING, mp_conflictCode = None, mp_conflictMessage = None, mp_syncedAt = None\<rparr>"

definition conflicted :: "mapping_row \<Rightarrow> mapping_row" where
  "conflicted m = m\<lparr>mp_status := MAP_CONFLICTED, mp_conflictCode := Some ''OFFLINE_REGISTRATION_CONFLICT'',
     mp_conflictMessage := Some (''Same offline registration identity was submitted '' @
       ''with a different payload'')\<rparr>"

text \<open>\<open>customFields ?? {}\<close> in the answer.\<close>

definition shown :: "registration \<Rightarrow> registration" where
  "shown r = (if rg_customFields r = JNull then r\<lparr>rg_customFields := JObj []\<rparr> else r)"

definition registration_answer :: "string \<Rightarrow> registration \<Rightarrow> submission \<Rightarrow> bool \<Rightarrow> id option \<Rightarrow> qr_response \<Rightarrow> op_output" where
  "registration_answer status r sm withBadge canonicalQrTokenId qr = OutRegistration
     \<lparr>or_status = status, or_registration = shown r, or_operationId = sm_operationId sm,
      or_localId = sm_localId sm, or_offlineQrToken = sm_offlineQrToken sm,
      or_signedOfflineQr = (if withBadge then Some (sm_signedOfflineQr sm) else None),
      or_canonicalQrTokenId = canonicalQrTokenId, or_canonicalQrToken = fr_compactQrToken qr,
      or_canonicalSignedQrToken = fr_qrToken qr\<rparr>"

text \<open>The submission names a registration that was synchronised before.\<close>

definition alreadySynced :: "env \<Rightarrow> submission \<Rightarrow> mapping_row \<Rightarrow> registration \<Rightarrow> op_output sync" where
  "alreadySynced c sm m r =
    bindA (set_local (sm_localId sm) r) (\<lambda>_.
    bindA (db (generate c (rg_id r))) (\<lambda>canonicalQr.
    ret (registration_answer ''ALREADY_SYNCED'' r sm False (mp_canonicalQrTokenId m) canonicalQr)))"

text \<open>The end that a created and a recovered registration share: token, mapping, local id, waiting scans.\<close>

definition linkRegistration :: "env \<Rightarrow> batch_dto \<Rightarrow> submission \<Rightarrow> mapping_row \<Rightarrow> bool \<Rightarrow> registration \<Rightarrow> op_output sync" where
  "linkRegistration c batch sm m recovered r =
    bindA (db (generate c (rg_id r))) (\<lambda>canonicalQr.
    bindA (db (gets (\<lambda>s. Option.bind (str_of (case fr_payload canonicalQr of
        JObj fs \<Rightarrow> obj_get fs ''tokenId'' | _ \<Rightarrow> None)) (\<lambda>t. find_qr_by_token t s)))) (\<lambda>canonicalQrToken.
    bindA (db (update_mapping (mp_id m) (\<lambda>x. x\<lparr>mp_registrationId := Some (rg_id r),
      mp_canonicalQrTokenId := (case canonicalQrToken of Some q \<Rightarrow> Some (qr_id q) | None \<Rightarrow> mp_canonicalQrTokenId x),
      mp_status := MAP_SYNCED,
      mp_conflictCode := (if recovered then None else mp_conflictCode x),
      mp_conflictMessage := (if recovered then None else mp_conflictMessage x),
      mp_syncedAt := Some (now c)\<rparr>))) (\<lambda>_.
    bindA (set_local (sm_localId sm) r) (\<lambda>_.
    bindA (db (enqueueOfflineReconciliation c (bd_eventId batch) (sm_offlineQrToken sm) (sm_operationId sm) (rg_id r))) (\<lambda>_.
    ret (registration_answer (if recovered then ''RECOVERED_EXISTING'' else ''CREATED'') r sm True
      (map_option qr_id canonicalQrToken) canonicalQr))))))"

definition offline_create_dto :: "batch_dto \<Rightarrow> fields \<Rightarrow> create_dto res" where
  "offline_create_dto batch payload =
    bindE (getString payload ''attendeeTypeId'') (\<lambda>attendeeTypeId.
    bindE (getString payload ''fullName'') (\<lambda>fullName.
    bindE (getString payload ''phone'') (\<lambda>phone.
    Inr \<lparr>cd_eventId = bd_eventId batch, cd_attendeeTypeId = attendeeTypeId, cd_fullName = fullName,
         cd_phone = Some phone, cd_email = getOptionalString payload ''email'',
         cd_companyName = getOptionalString payload ''companyName'',
         cd_jobTitle = getOptionalString payload ''jobTitle'',
         cd_externalId = getOptionalString payload ''externalId'',
         cd_customFields = getOptionalRecord payload ''customFields'',
         cd_notes = getOptionalString payload ''notes'', cd_source = Some SRC_OFFLINE_DEVICE\<rparr>)))"

definition permanent_failure :: "err \<Rightarrow> bool" where
  "permanent_failure e = (case e of Conflict _ \<Rightarrow> True | BadRequest _ \<Rightarrow> True | NotFound _ \<Rightarrow> True | _ \<Rightarrow> False)"

definition failed_mapping :: "err \<Rightarrow> mapping_row \<Rightarrow> mapping_row" where
  "failed_mapping e m = m\<lparr>
     mp_status := (if permanent_failure e then MAP_CONFLICTED else MAP_PENDING),
     mp_conflictCode := Some (case e of Conflict _ \<Rightarrow> ''DUPLICATE_REGISTRATION''
       | _ \<Rightarrow> if permanent_failure e then ''INVALID_OFFLINE_REGISTRATION'' else ''OFFLINE_REGISTRATION_RETRYABLE_FAILURE''),
     mp_conflictMessage := Some (err_message e)\<rparr>"

definition registerOffline :: "env \<Rightarrow> batch_dto \<Rightarrow> fields \<Rightarrow> mapping_row \<Rightarrow> (store, registration) act" where
  "registerOffline c batch payload m =
    catch (bindA (reads (\<lambda>_. offline_create_dto batch payload)) (create c))
      (\<lambda>error. bindA (update_mapping (mp_id m) (failed_mapping error)) (\<lambda>_. throw error))"

definition same_external :: "batch_dto \<Rightarrow> string \<Rightarrow> registration \<Rightarrow> bool" where
  "same_external batch externalId r = (rg_eventId r = bd_eventId batch \<and> rg_externalId r = Some externalId)"

definition syncRegistration :: "env \<Rightarrow> batch_dto \<Rightarrow> fields \<Rightarrow> submission \<Rightarrow> op_output sync" where
  "syncRegistration c batch payload sm =
    bindA (db (upsert_mapping c (new_mapping batch sm) (bd_deviceId batch) (bd_eventId batch) (sm_operationId sm))) (\<lambda>m.
    let operationExternalId = (case getOptionalString payload ''externalId'' of Some x \<Rightarrow> x | None \<Rightarrow> sm_operationId sm) in
    bindA (db (gets (find_row (same_external batch operationExternalId) \<circ> registrations))) (\<lambda>partial. case partial of
      Some r \<Rightarrow> linkRegistration c batch sm m True r
    | None \<Rightarrow> bindA (db (registerOffline c batch payload m)) (linkRegistration c batch sm m False)))"

definition runOfflineRegistration :: "env \<Rightarrow> op_dto \<Rightarrow> batch_dto \<Rightarrow> op_output sync" where
  "runOfflineRegistration c operationDto batch =
    (let payload = od_payload operationDto in
     bindA (db (reads (read_submission c batch payload))) (\<lambda>sm.
     bindA (db (gets (findExistingOfflineMapping (bd_eventId batch) (bd_deviceId batch) (sm_operationId sm)
       (sm_localId sm) (sm_offlineQrToken sm)))) (\<lambda>existing. case existing of
       None \<Rightarrow> syncRegistration c batch payload sm
     | Some m \<Rightarrow>
         if mp_offlineQrToken m \<noteq> sm_offlineQrToken sm \<or> mp_payloadHash m \<noteq> vq_payloadHash (sm_verified sm)
         then bindA (db (update_mapping (mp_id m) conflicted)) (\<lambda>_. throw (Conflict ''OFFLINE_REGISTRATION_CONFLICT''))
         else
           bindA (db (gets (\<lambda>s. if truthy (mp_registrationId m) then find_registration (the (mp_registrationId m)) s
             else None))) (\<lambda>registration. case registration of
             Some r \<Rightarrow> alreadySynced c sm m r
           | None \<Rightarrow> syncRegistration c batch payload sm))))"

section \<open>Operations\<close>

definition offline_scan_input :: "env \<Rightarrow> op_dto \<Rightarrow> batch_dto \<Rightarrow> offline_input res" where
  "offline_scan_input c operationDto batch =
    (let payload = od_payload operationDto in
     bindE (getString payload ''checkpointId'') (\<lambda>checkpointId.
     bindE (getString payload ''signedOfflineQr'') (\<lambda>signedOfflineQr.
     bindE (bindE (getString payload ''movementType'') movement_of_text) (\<lambda>movementType.
     bindE (bindE (getString payload ''scannedAtDevice'') (date_of_text c)) (\<lambda>scannedAt.
     Inr \<lparr>oi_operationId = od_operationId operationDto, oi_eventId = bd_eventId batch,
          oi_scannerDeviceId = bd_deviceId batch, oi_staffSessionId = bd_staffSessionId batch,
          oi_checkpointId = checkpointId, oi_signedOfflineQr = signedOfflineQr,
          oi_offlineQrToken = getOptionalString payload ''offlineQrToken'',
          oi_regOperationId = getOptionalString payload ''offlineRegistrationOperationId'',
          oi_movementType = movementType, oi_scannedAt = scannedAt,
          oi_localResult = getOptionalString payload ''localResult''\<rparr>)))))"

definition runOfflineScan :: "env \<Rightarrow> op_dto \<Rightarrow> batch_dto \<Rightarrow> (store, offline_answer) act" where
  "runOfflineScan c operationDto batch =
    bindA (reads (\<lambda>_. offline_scan_input c operationDto batch)) (ingestOfflineScan c)"

definition scan_input :: "env \<Rightarrow> op_dto \<Rightarrow> batch_dto \<Rightarrow> scan_dto res" where
  "scan_input c operationDto batch =
    (let payload = od_payload operationDto in
     bindE (getString payload ''qrToken'') (\<lambda>qrToken.
     bindE (bindE (getString payload ''type'') movement_of_text) (\<lambda>type.
     bindE (bindE (getString payload ''scannedAtDevice'') (date_of_text c)) (\<lambda>scannedAt.
     Inr \<lparr>dto_operationId = od_operationId operationDto, dto_eventId = bd_eventId batch,
          dto_deviceId = bd_deviceId batch, dto_staffSessionId = bd_staffSessionId batch,
          dto_checkpointId = getOptionalString payload ''checkpointId'', dto_qrToken = qrToken,
          dto_type = type, dto_scannedAt = scannedAt,
          dto_payload = map_option JObj (getOptionalRecord payload ''payload'')\<rparr>))))"

definition runOperation :: "env \<Rightarrow> op_dto \<Rightarrow> batch_dto \<Rightarrow> op_output sync" where
  "runOperation c operationDto batch = (case od_type operationDto of
     OFFLINE_REGISTRATION \<Rightarrow> runOfflineRegistration c operationDto batch
   | OFFLINE_SCAN \<Rightarrow> bindA (db (runOfflineScan c operationDto batch)) (\<lambda>a. ret (OutOffline a))
   | QR_GENERATION \<Rightarrow>
       bindA (case getOptionalString (od_payload operationDto) ''registrationId'' of
           Some i \<Rightarrow> ret i | None \<Rightarrow> resolveLocalRegistrationId (od_payload operationDto)) (\<lambda>registrationId.
       bindA (db (generate c registrationId)) (\<lambda>a. ret (OutQr a)))
   | SCAN_EVENT \<Rightarrow>
       bindA (db (bindA (reads (\<lambda>_. scan_input c operationDto batch)) (ingest c))) (\<lambda>a. ret (OutScan a)))"

definition op_done :: "env \<Rightarrow> json \<Rightarrow> sync_op \<Rightarrow> sync_op" where
  "op_done c output x = x\<lparr>so_status := OP_PROCESSED, so_output := output, so_errorCode := None,
     so_errorMessage := None, so_processedAt := Some (now c)\<rparr>"

definition op_failed :: "env \<Rightarrow> classified \<Rightarrow> sync_op \<Rightarrow> sync_op" where
  "op_failed c er x = x\<lparr>so_status := OP_FAILED, so_errorCode := Some (er_code er),
     so_errorMessage := Some (er_message er), so_processedAt := Some (now c)\<rparr>"

definition failed_result :: "string \<Rightarrow> string \<Rightarrow> string \<Rightarrow> bool option \<Rightarrow> op_result" where
  "failed_result operationId code message retryable = \<lparr>re_operationId = operationId, re_status = OP_FAILED,
     re_output = None, re_errorCode = Some code, re_errorMessage = Some message, re_retryable = retryable,
     re_retried = False\<rparr>"

definition output_result :: "string \<Rightarrow> sync_status \<Rightarrow> json \<Rightarrow> op_result" where
  "output_result operationId status output = \<lparr>re_operationId = operationId, re_status = status,
     re_output = Some output, re_errorCode = None, re_errorMessage = None, re_retryable = None, re_retried = False\<rparr>"

definition processOperation :: "env \<Rightarrow> (op_output \<Rightarrow> json) \<Rightarrow> sync_op \<Rightarrow> op_dto \<Rightarrow> batch_dto \<Rightarrow> op_result sync" where
  "processOperation c ser operation operationDto batch =
    catch
      (bindA (runOperation c operationDto batch) (\<lambda>output.
       bindA (db (update_op (so_id operation) (op_done c (ser output)))) (\<lambda>_.
       ret (output_result (so_operationId operation) OP_PROCESSED (ser output)))))
      (\<lambda>error. let er = classifySyncOperationError error in
       bindA (db (update_op (so_id operation) (op_failed c er))) (\<lambda>_.
       ret (failed_result (so_operationId operation) (er_code er) (er_message er) (Some (er_retryable er)))))"

section \<open>Batches\<close>

text \<open>Taking over a failed operation: \<open>updateMany\<close> where it is still \<open>FAILED\<close>, and the number of rows.\<close>

definition claim_op :: "id \<Rightarrow> nat sync" where
  "claim_op i =
    (let failed = (\<lambda>x. so_id x = i \<and> so_status x = OP_FAILED) in
     bindA (db (gets (count_rows failed \<circ> syncOps))) (\<lambda>count.
     bindA (db (modify (\<lambda>s. s\<lparr>syncOps := update_rows failed (\<lambda>x. x\<lparr>so_status := OP_PENDING,
       so_errorCode := None, so_errorMessage := None, so_processedAt := None\<rparr>) (syncOps s)\<rparr>))) (\<lambda>_.
     ret count)))"

text \<open>An operation id that was received before, with the row read at the start of the batch.\<close>

definition previous_failure :: "sync_op \<Rightarrow> op_result" where
  "previous_failure old = failed_result (so_operationId old)
     (case so_errorCode old of Some code \<Rightarrow> code | None \<Rightarrow> ''PREVIOUS_OPERATION_FAILED'')
     (case so_errorMessage old of Some m \<Rightarrow> m | None \<Rightarrow> ''The previous operation attempt failed'')
     (Some (canRetryFailedOfflineOperation old))"

definition retryOperation :: "env \<Rightarrow> (op_output \<Rightarrow> json) \<Rightarrow> sync_op \<Rightarrow> batch_dto \<Rightarrow> op_result sync" where
  "retryOperation c ser old batch =
    bindA (reads (\<lambda>_. stored_record (so_input old))) (\<lambda>payload.
    bindA (processOperation c ser old
        \<lparr>od_operationId = so_operationId old, od_type = so_type old, od_payload = payload\<rparr> batch) (\<lambda>result.
    ret (result\<lparr>re_retried := True\<rparr>)))"

definition answerDuplicate :: "env \<Rightarrow> (op_output \<Rightarrow> json) \<Rightarrow> sync_op \<Rightarrow> batch_dto \<Rightarrow> op_result sync" where
  "answerDuplicate c ser old batch =
    (if so_status old = OP_PROCESSED \<or> so_status old = OP_DUPLICATE
     then ret (output_result (so_operationId old) OP_DUPLICATE (so_output old))
     else if so_status old = OP_FAILED then
       (if canRetryFailedOfflineOperation old
        then bindA (claim_op (so_id old)) (\<lambda>claimed.
          if claimed = 1 then retryOperation c ser old batch else ret (previous_failure old))
        else ret (previous_failure old))
     else ret (failed_result (so_operationId old) ''PREVIOUS_OPERATION_NOT_COMPLETED''
       ''The previous operation has not completed processing yet'' None))"

definition processOne :: "env \<Rightarrow> (op_output \<Rightarrow> json) \<Rightarrow> batch_dto \<Rightarrow> string set \<Rightarrow> sync_op list \<Rightarrow> sync_op list \<Rightarrow>
    op_dto \<Rightarrow> op_result list sync" where
  "processOne c ser batch duplicates existing created operationDto =
    (if od_operationId operationDto \<in> duplicates then
       (case lookup_by so_operationId (od_operationId operationDto) existing of
          None \<Rightarrow> ret [failed_result (od_operationId operationDto) ''DUPLICATE_OPERATION_RESULT_NOT_FOUND''
            ''The operation was previously received but its result could not be found'' None]
        | Some old \<Rightarrow> bindA (answerDuplicate c ser old batch) (\<lambda>r. ret [r]))
     else (case lookup_by so_operationId (od_operationId operationDto) created of
          None \<Rightarrow> ret []
        | Some operation \<Rightarrow> bindA (processOperation c ser operation operationDto batch) (\<lambda>r. ret [r])))"

definition getBatchStatus :: "nat \<Rightarrow> nat \<Rightarrow> nat \<Rightarrow> batch_status" where
  "getBatchStatus processedCount failedCount duplicateCount =
    (if 0 < failedCount then
       (if processedCount = 0 \<and> duplicateCount = 0 then BT_FAILED else BT_PARTIAL_FAILED)
     else if processedCount = 0 \<and> 0 < duplicateCount then BT_DUPLICATE
     else BT_COMPLETED)"

definition with_status :: "sync_status \<Rightarrow> op_result list \<Rightarrow> nat" where
  "with_status st results = count_rows (\<lambda>r. re_status r = st) results"

text \<open>The column \<open>result\<close>: the counts and the results, without the members that are undefined.\<close>

definition status_text :: "sync_status \<Rightarrow> string" where
  "status_text st = (case st of OP_PENDING \<Rightarrow> ''PENDING'' | OP_PROCESSED \<Rightarrow> ''PROCESSED''
     | OP_FAILED \<Rightarrow> ''FAILED'' | OP_DUPLICATE \<Rightarrow> ''DUPLICATE'' | OP_SKIPPED \<Rightarrow> ''SKIPPED'')"

definition member :: "string \<Rightarrow> json option \<Rightarrow> fields" where
  "member k v = (case v of None \<Rightarrow> [] | Some x \<Rightarrow> [(k, x)])"

definition result_json :: "op_result \<Rightarrow> json" where
  "result_json r = JObj ([(''operationId'', JStr (re_operationId r)), (''status'', JStr (status_text (re_status r)))] @
     member ''output'' (re_output r) @ member ''errorCode'' (map_option JStr (re_errorCode r)) @
     member ''errorMessage'' (map_option JStr (re_errorMessage r)) @
     member ''retryable'' (map_option JBool (re_retryable r)) @
     (if re_retried r then [(''retried'', JBool True)] else []))"

definition batch_result :: "op_result list \<Rightarrow> json" where
  "batch_result results = JObj [(''processedCount'', JInt (int (with_status OP_PROCESSED results))),
     (''failedCount'', JInt (int (with_status OP_FAILED results))),
     (''duplicateCount'', JInt (int (with_status OP_DUPLICATE results))),
     (''operations'', JArr (map result_json results))]"

definition finish_batch :: "env \<Rightarrow> op_result list \<Rightarrow> sync_batch \<Rightarrow> sync_batch" where
  "finish_batch c results b =
    (let p = with_status OP_PROCESSED results; f = with_status OP_FAILED results; d = with_status OP_DUPLICATE results
     in b\<lparr>sb_status := getBatchStatus p f d, sb_processedCount := p, sb_failedCount := f, sb_duplicateCount := d,
          sb_processedAt := Some (now c), sb_result := batch_result results\<rparr>)"

definition processBatch :: "env \<Rightarrow> (op_output \<Rightarrow> json) \<Rightarrow> id \<Rightarrow> batch_dto \<Rightarrow> string set \<Rightarrow> (store, sync_batch) act" where
  "processBatch c ser batchId dto duplicates =
    bindA (update_batch batchId (\<lambda>b. b\<lparr>sb_status := BT_PROCESSING\<rparr>)) (\<lambda>_.
    bindA (gets (filter (\<lambda>x. so_syncBatchId x = batchId) \<circ> syncOps)) (\<lambda>created.
    bindA (gets (filter (\<lambda>x. so_operationId x \<in> duplicates) \<circ> syncOps)) (\<lambda>existing.
    bindA (\<lambda>s. case forA (sortOperations (bd_operations dto)) (processOne c ser dto duplicates existing created) (s, \<lambda>_. None) of
        (r, (t, l)) \<Rightarrow> (r, t)) (\<lambda>results.
    update_batch batchId (finish_batch c (concat results))))))"

definition findDuplicateOperationIds :: "string list \<Rightarrow> store \<Rightarrow> string set" where
  "findDuplicateOperationIds operationIds s =
     set (map so_operationId (filter (\<lambda>x. so_operationId x \<in> set operationIds) (syncOps s)))"

definition type_text :: "sync_type \<Rightarrow> string" where
  "type_text y = (case y of OFFLINE_REGISTRATION \<Rightarrow> ''OFFLINE_REGISTRATION'' | OFFLINE_SCAN \<Rightarrow> ''OFFLINE_SCAN''
     | QR_GENERATION \<Rightarrow> ''QR_GENERATION'' | SCAN_EVENT \<Rightarrow> ''SCAN_EVENT'')"

definition batch_json :: "batch_dto \<Rightarrow> json" where
  "batch_json dto = JObj ([(''batchId'', JStr (bd_batchId dto)), (''eventId'', JStr (bd_eventId dto)),
     (''deviceId'', JStr (bd_deviceId dto))] @ member ''staffSessionId'' (map_option JStr (bd_staffSessionId dto)) @
     [(''operations'', JArr (map (\<lambda>o'. JObj [(''operationId'', JStr (od_operationId o')),
        (''type'', JStr (type_text (od_type o'))), (''payload'', JObj (od_payload o'))]) (bd_operations dto)))])"

definition create_op :: "env \<Rightarrow> id \<Rightarrow> op_dto \<Rightarrow> (store, sync_op) act" where
  "create_op c batchId o' = bindA (new_id c) (\<lambda>i.
     bindA (gets (lookup_by so_operationId (od_operationId o') \<circ> syncOps)) (\<lambda>taken.
     if taken \<noteq> None then throw UniqueViolation
     else
       let row = \<lparr>so_id = i, so_syncBatchId = batchId, so_operationId = od_operationId o', so_type = od_type o',
         so_status = OP_PENDING, so_input = JObj (od_payload o'), so_output = JNull, so_errorCode = None,
         so_errorMessage = None, so_processedAt = None, so_createdAt = now c\<rparr> in
       bindA (modify (\<lambda>s. s\<lparr>syncOps := append_row row (syncOps s)\<rparr>)) (\<lambda>_. ret row)))"

definition received_batch :: "batch_dto \<Rightarrow> nat \<Rightarrow> id \<Rightarrow> sync_batch" where
  "received_batch dto duplicateCount i = \<lparr>sb_id = i, sb_batchId = bd_batchId dto, sb_eventId = bd_eventId dto,
     sb_deviceId = bd_deviceId dto, sb_staffSessionId = bd_staffSessionId dto, sb_status = BT_RECEIVED,
     sb_totalOperations = length (bd_operations dto), sb_processedCount = 0, sb_failedCount = 0,
     sb_duplicateCount = duplicateCount, sb_processedAt = None, sb_payload = batch_json dto, sb_result = JNull\<rparr>"

definition create_batch_row :: "env \<Rightarrow> (id \<Rightarrow> sync_batch) \<Rightarrow> (store, sync_batch) act" where
  "create_batch_row c row = bindA (new_id c) (\<lambda>i.
     bindA (gets (lookup_by sb_batchId (sb_batchId (row i)) \<circ> syncBatches)) (\<lambda>taken.
     if taken \<noteq> None then throw UniqueViolation
     else bindA (modify (\<lambda>s. s\<lparr>syncBatches := append_row (row i) (syncBatches s)\<rparr>)) (\<lambda>_. ret (row i))))"

definition create_batch :: "env \<Rightarrow> batch_dto \<Rightarrow> string set \<Rightarrow> (store, sync_batch) act" where
  "create_batch c dto duplicates = transaction (
     bindA (create_batch_row c (received_batch dto (card duplicates))) (\<lambda>b.
     bindA (forA (filter (\<lambda>o'. od_operationId o' \<notin> duplicates) (bd_operations dto)) (create_op c (sb_id b))) (\<lambda>_.
     ret b)))"

definition submitBatch :: "env \<Rightarrow> (op_output \<Rightarrow> json) \<Rightarrow> batch_dto \<Rightarrow> (store, bool \<times> sync_batch) act" where
  "submitBatch c ser dto =
    bindA (gets (lookup_by sb_batchId (bd_batchId dto) \<circ> syncBatches)) (\<lambda>existingBatch. case existingBatch of
      Some b \<Rightarrow> ret (True, b)
    | None \<Rightarrow>
        bindA (reads (ensureEventCanBeModified (bd_eventId dto))) (\<lambda>_.
        bindA (reads (ensureActiveDevice (bd_deviceId dto) (bd_eventId dto))) (\<lambda>_.
        bindA (reads (ensureActiveStaffSession (bd_staffSessionId dto) (bd_eventId dto))) (\<lambda>_.
        bindA (gets (findDuplicateOperationIds (map od_operationId (bd_operations dto)))) (\<lambda>duplicates.
        bindA (create_batch c dto duplicates) (\<lambda>batch.
        bindA (processBatch c ser (sb_id batch) dto duplicates) (\<lambda>b. ret (False, b))))))))"

definition sync_batch_by_id :: "id \<Rightarrow> store \<Rightarrow> (sync_batch \<times> sync_op list) res" where
  "sync_batch_by_id i s = (case lookup_by sb_id i (syncBatches s) of
     None \<Rightarrow> Inl (NotFound ''Sync batch not found'')
   | Some b \<Rightarrow> Inr (b, sort_key so_createdAt (filter (\<lambda>x. so_syncBatchId x = i) (syncOps s))))"

section \<open>Recovery\<close>

record recover_input =
  rv_eventId :: "id option"
  rv_deviceId :: "id option"
  rv_limit :: "int option"
  rv_dryRun :: bool

datatype recovered = Recovered op_result | AlreadyClaimed string

datatype recovery =
    DryRun nat "(sync_op \<times> sync_batch) list" nat \<comment> \<open>scanned, recoverable, permanent\<close>
  | Recovery nat nat nat nat nat "recovered list" \<comment> \<open>scanned, attempted, processed, failed, permanent\<close>

definition failed_registrations :: "recover_input \<Rightarrow> store \<Rightarrow> (sync_op \<times> sync_batch) list" where
  "failed_registrations input s =
    (let limit = nat (min 1000 (max 1 (case rv_limit input of Some n \<Rightarrow> n | None \<Rightarrow> 250)));
         with_batch = List.map_filter (\<lambda>x. map_option (Pair x) (lookup_by sb_id (so_syncBatchId x) (syncBatches s)))
           (sort_key so_createdAt (syncOps s));
         wanted = (\<lambda>(x, b). so_type x = OFFLINE_REGISTRATION \<and> so_status x = OP_FAILED \<and>
           (truthy (rv_eventId input) \<longrightarrow> Some (sb_eventId b) = rv_eventId input) \<and>
           (truthy (rv_deviceId input) \<longrightarrow> Some (sb_deviceId b) = rv_deviceId input))
     in take limit (filter wanted with_batch))"

definition recoverOne :: "env \<Rightarrow> (op_output \<Rightarrow> json) \<Rightarrow> sync_op \<times> sync_batch \<Rightarrow> (store, recovered) act" where
  "recoverOne c ser = (\<lambda>(operation, b) s. case
    bindA (claim_op (so_id operation)) (\<lambda>claimed.
    if claimed \<noteq> 1 then ret (AlreadyClaimed (so_operationId operation))
    else
      bindA (reads (\<lambda>_. stored_record (so_input operation))) (\<lambda>payload.
      let dto = \<lparr>od_operationId = so_operationId operation, od_type = so_type operation, od_payload = payload\<rparr> in
      bindA (processOperation c ser operation dto
        \<lparr>bd_batchId = sb_batchId b, bd_eventId = sb_eventId b, bd_deviceId = sb_deviceId b,
         bd_staffSessionId = sb_staffSessionId b, bd_operations = [dto]\<rparr>) (\<lambda>result. ret (Recovered result))))
      (s, \<lambda>_. None) of (r, (t, l)) \<Rightarrow> (r, t))"

definition recovered_with :: "sync_status \<Rightarrow> recovered list \<Rightarrow> nat" where
  "recovered_with st results = count_rows (\<lambda>r. case r of Recovered x \<Rightarrow> re_status x = st | _ \<Rightarrow> False) results"

definition recoverFailedOfflineRegistrations ::
    "env \<Rightarrow> (op_output \<Rightarrow> json) \<Rightarrow> recover_input \<Rightarrow> (store, recovery) act" where
  "recoverFailedOfflineRegistrations c ser input =
    bindA (gets (failed_registrations input)) (\<lambda>failedOperations.
    let recoverable = filter (canRetryFailedOfflineOperation \<circ> fst) failedOperations;
        permanent = length failedOperations - length recoverable in
    if rv_dryRun input then ret (DryRun (length failedOperations) recoverable permanent)
    else
      bindA (forA recoverable (recoverOne c ser)) (\<lambda>results.
      ret (Recovery (length failedOperations) (length recoverable) (recovered_with OP_PROCESSED results)
        (recovered_with OP_FAILED results) permanent results)))"

end
