(* ===== verification/SyncInv.thy ===== *)
theory SyncInv
  imports Sync "HOL-Library.Multiset"
begin

text \<open>
  The order in which the operations of a batch run, and what a batch leaves of the tables: the invariant
  of the tables of the sync service and of the registrations, and, as a locale, any relation that the
  writes of the operations stay within.
\<close>

section \<open>Order\<close>

definition of_type :: "sync_type \<Rightarrow> op_dto list \<Rightarrow> op_dto list" where
  "of_type y = filter (\<lambda>o'. od_type o' = y)"

lemma enumerated_filter: "map snd (filter (\<lambda>(i, x). P x) (List.enumerate n xs)) = filter P xs"
  by (induction xs arbitrary: n) auto

lemma enumerated_sorted: "sorted (map (\<lambda>(i, x). (k, i)) (filter p (List.enumerate n xs)))"
proof -
  have "sorted (map fst (filter p (List.enumerate n xs)))"
    by (rule sorted_filter) (simp add: map_fst_enumerate)
  then show ?thesis by (simp add: sorted_wrt_map case_prod_beta less_eq_prod_def)
qed

lemma chunk_sorted:
  "sorted (map (\<lambda>(i, x). (od_type x, i)) (filter (\<lambda>(i, x). od_type x = y) (List.enumerate n xs)))"
proof -
  have "map (\<lambda>(i, x). (od_type x, i)) (filter (\<lambda>(i, x). od_type x = y) (List.enumerate n xs)) =
      map (\<lambda>(i, x). (y, i)) (filter (\<lambda>(i, x). od_type x = y) (List.enumerate n xs))"
    by (rule map_cong) auto
  then show ?thesis by (simp only: enumerated_sorted)
qed

lemma mset_by_type:
  "mset xs = mset (filter (\<lambda>(i, x). od_type x = OFFLINE_REGISTRATION) xs @ filter (\<lambda>(i, x). od_type x = OFFLINE_SCAN) xs @
     filter (\<lambda>(i, x). od_type x = QR_GENERATION) xs @ filter (\<lambda>(i, x). od_type x = SCAN_EVENT) xs)"
proof (induction xs)
  case (Cons z zs)
  obtain i x where "z = (i, x)" by (cases z)
  then show ?case using Cons by (cases "od_type x") simp_all
qed simp

text \<open>The operations of a batch run grouped by type, registrations first, then offline scans, token
  requests and online scans, so that whatever refers to a registration of the batch runs after it, and
  within a type in the order the device sent them; none is lost, added or repeated.\<close>

theorem operations_in_order:
  "sortOperations ops = of_type OFFLINE_REGISTRATION ops @ of_type OFFLINE_SCAN ops @
     of_type QR_GENERATION ops @ of_type SCAN_EVENT ops"
proof -
  let ?xs = "List.enumerate 0 ops" and ?f = "\<lambda>(i, x). (od_type x, i)"
  let ?part = "\<lambda>y. filter (\<lambda>(i, x). od_type x = y) ?xs"
  let ?ys = "?part OFFLINE_REGISTRATION @ ?part OFFLINE_SCAN @ ?part QR_GENERATION @ ?part SCAN_EVENT"
  have "sort_key ?f ?xs = ?ys"
  proof (rule properties_for_sort_key)
    show "mset ?ys = mset ?xs" by (rule mset_by_type [symmetric])
    have part: "filter (\<lambda>p. ?f z = ?f p) (?part y) = (if od_type (snd z) = y then filter (\<lambda>p. ?f z = ?f p) ?xs else [])" for y z
      by (cases z) (auto simp: filter_empty_conv intro!: filter_cong)
    show "filter (\<lambda>p. ?f z = ?f p) ?ys = filter (\<lambda>p. ?f z = ?f p) ?xs" if "z \<in> set ?ys" for z
      by (cases "od_type (snd z)") (simp_all only: filter_append part, simp_all)
    show "sorted (map ?f ?ys)"
      using chunk_sorted [of _ 0 ops] by (auto simp: sorted_append less_eq_sync_type_def less_sync_type_def)
  qed
  then show ?thesis by (simp add: sortOperations_def of_type_def enumerated_filter)
qed

lemma sortOperations_mset [simp]: "mset (sortOperations ops) = mset ops"
proof -
  have "mset (sortOperations ops) = image_mset snd (mset (List.enumerate 0 ops))" by (simp add: sortOperations_def)
  also have "\<dots> = mset (map snd (List.enumerate 0 ops))" by (simp only: mset_map)
  also have "\<dots> = mset ops" by (simp only: map_snd_enumerate)
  finally show ?thesis .
qed

section \<open>What the operations of other services leave alone\<close>

definition side :: "store \<Rightarrow> store \<Rightarrow> bool" where
  "side s t = (registrations t = registrations s \<and> mappings t = mappings s \<and> syncBatches t = syncBatches s \<and>
     syncOps t = syncOps s \<and> next_id s \<le> next_id t)"

interpretation side: store_rel side
  by unfold_locales (auto simp: side_def)

lemma side_writes:
  "within side (touchActivity c d x) s" "within side (create_scan c sc) s" "within side (create_movement c mv) s"
  "within side (create_offline_scan c os) s" "within side (update_scan i f) s" "within side (update_offline_scan i g) s"
  "within side (modify (\<lambda>s. s\<lparr>scans := h s\<rparr>)) s" "within side (draw r) s"
  by (auto simp: within_def side_def touchActivity_def create_scan_def create_movement_def create_offline_scan_def
        update_scan_def update_offline_scan_def draw_def bindA_def new_id_def gets_def throw_def modify_def ret_def
        split: option.splits)

lemma side_pending:
  "within side (createPendingOfflineReferenceScanFromOnlineScan c dto t p r) s"
  "within side (createPendingOfflineScanFromOnlineScan c dto v) s"
  unfolding createPendingOfflineReferenceScanFromOnlineScan_def createPendingOfflineScanFromOnlineScan_def Let_def
  by (intro side.within_rules side_writes)+

lemma side_processed:
  "within side (createProcessedScanAndMovement c dto q r p result reason) s"
  "within side (updateRawScanAndCreateMovement c sc q r p result reason) s"
  unfolding createProcessedScanAndMovement_def updateRawScanAndCreateMovement_def
  by (intro side.within_rules side.within_bind side_writes)+

lemma side_ingest: "within side (ingest c dto) s"
proof -
  have "within side (ingestNew c dto) s" for s
    unfolding ingestNew_def Let_def
    by (intro side.within_bind_reads)
      (auto split: qr_context.splits simp: createInvalidScan_def
        intro!: side.within_bind_gets side.within_bind side.within_ret side_writes side_pending side_processed)
  then show ?thesis
    unfolding ingest_def
    by (intro side.within_bind_gets side.within_option side.within_if side.within_bind side.within_ret side_writes)
qed

lemma side_process: "within side (processOfflineScanOperation c i) s"
proof -
  have "within side (decideOfflineScan c os raw q r a p) s" for os raw q r a p s
    unfolding decideOfflineScan_def Let_def
    by (intro side.within_bind_reads side.within_bind_gets side.within_bind)
      (auto split: option.splits intro!: side.within_bind side.within_ret side_writes side_processed)
  then show ?thesis
    unfolding processOfflineScanOperation_def
    by (intro side.within_bind_gets side.within_option side.within_throw side.within_if side.within_ret)
      (auto split: option.splits intro!: side.within_bind side.within_bind_reads side.within_ret side_writes)
qed

lemma side_reconcile: "within side (reconcileOfflineRegistration c e tok opid rid) s"
  unfolding reconcileOfflineRegistration_def reconcileOne_def
  by (intro side.within_rules side.within_bind side_writes side_process)

lemma side_ingestOffline: "within side (ingestOfflineScan c input) s"
proof -
  have "within side (newOfflineScan c input v tok mapping) s" "within side (repeatedOfflineScan c input v mapping os) s"
    for v tok mapping os s
    unfolding newOfflineScan_def repeatedOfflineScan_def Let_def
    by (intro side.within_rules side.within_bind side_writes side_process)+
  then show ?thesis
    unfolding ingestOfflineScan_def Let_def by (intro side.within_rules)
qed

lemma side_generate: "within side (generate c i) s"
proof -
  have loop: "within side (generateTokenId_loop n c) s" for n s
    by (induction n arbitrary: s)
      (auto simp: Let_def intro!: side.within_throw side.within_bind side.within_bind_gets side.within_ret side_writes)
  have "within side (create_qr_row c a b t p g f u) s" for a b t p g f u s
    unfolding create_qr_row_def Let_def
    by (auto simp: within_def side_def bindA_def new_id_def gets_def throw_def modify_def ret_def)
  then have "within side (createOrRefreshQrToken c a b t p g f u ex) s" for a b t p g f u ex s
    unfolding createOrRefreshQrToken_def Let_def
    by (intro side.within_rules side.within_bind) (auto simp: side_def)
  then show ?thesis
    unfolding generate_def issueQrToken_def generateTokenId_def Let_def
    by (auto split: prod.splits intro!: side.within_rules side.within_bind side_writes loop)
qed

section \<open>The invariant of the tables\<close>

text \<open>Row ids are distinct and were generated before.\<close>

definition fresh_ids :: "env \<Rightarrow> nat \<Rightarrow> id list \<Rightarrow> bool" where
  "fresh_ids c n ids = (distinct ids \<and> (\<forall>i \<in> set ids. \<exists>k < n. i = cuid c k))"

lemma fresh_ids_mono: "fresh_ids c n ids \<Longrightarrow> n \<le> m \<Longrightarrow> fresh_ids c m ids"
  unfolding fresh_ids_def by (meson order_less_le_trans)

lemma fresh_ids_add: "fresh_ids c n ids \<Longrightarrow> id_law c \<Longrightarrow> fresh_ids c (Suc n) (ids @ [cuid c n])"
  by (auto simp: fresh_ids_def id_law_def inj_eq less_Suc_eq)

lemma fresh_id_new: "fresh_ids c n ids \<Longrightarrow> id_law c \<Longrightarrow> cuid c n \<notin> set ids"
  by (auto simp: fresh_ids_def id_law_def inj_eq)

definition sync_tables :: "env \<Rightarrow> nat \<Rightarrow> mapping_row list \<Rightarrow> sync_batch list \<Rightarrow> sync_op list \<Rightarrow> bool" where
  "sync_tables c n ms bs xs = (fresh_ids c n (map mp_id ms) \<and> fresh_ids c n (map sb_id bs) \<and> fresh_ids c n (map so_id xs) \<and>
     distinct (map sb_batchId bs) \<and> distinct (map so_operationId xs) \<and>
     (\<forall>m \<in> set ms. \<forall>x \<in> set ms. mp_id m \<noteq> mp_id x \<longrightarrow> \<not> mapping_clash m x))"

definition sync_inv :: "env \<Rightarrow> store \<Rightarrow> bool" where
  "sync_inv c s = (reg_inv c s \<and> sync_tables c (next_id s) (mappings s) (syncBatches s) (syncOps s))"

lemma sync_tables_mono: "sync_tables c n ms bs xs \<Longrightarrow> n \<le> m \<Longrightarrow> sync_tables c m ms bs xs"
  unfolding sync_tables_def using fresh_ids_mono by blast

lemma clash_sym: "mapping_clash m x = mapping_clash x m"
  unfolding mapping_clash_def same_operation_def same_local_def by metis

abbreviation keeps_sync :: "env \<Rightarrow> (store, 'a) act \<Rightarrow> store \<Rightarrow> bool" where
  "keeps_sync c m s \<equiv> within (keeps (sync_inv c)) m s"

text \<open>What the other services do, and what a registration adds.\<close>

lemma side_keeps: "within side m s \<Longrightarrow> keeps_sync c m s"
  unfolding within_def keeps_def sync_inv_def side_def reg_inv_def
  using reg_rows_mono sync_tables_mono by metis

lemmas keeps_others = side_keeps [OF side_generate] side_keeps [OF side_reconcile] side_keeps [OF side_ingest]
  side_keeps [OF side_ingestOffline]

definition tables :: "store \<Rightarrow> mapping_row list \<times> sync_batch list \<times> sync_op list" where
  "tables s = (mappings s, syncBatches s, syncOps s)"

definition grows :: "store \<Rightarrow> store \<Rightarrow> bool" where
  "grows s t = (tables t = tables s \<and> next_id s \<le> next_id t)"

interpretation grows: store_rel grows
  by unfold_locales (auto simp: grows_def)

lemma grows_writes: "within grows (draw r) s" "within grows (create_registration c row) s"
    "within grows (enqueueRegistrationPipeline c i e src b) s"
  by (auto simp: within_def grows_def tables_def draw_def create_registration_def enqueueRegistrationPipeline_def
        bindA_def new_id_def gets_def throw_def modify_def ret_def add_job_def)

lemma grows_create: "within grows (create c dto) s"
proof -
  have "within grows (generatePublicId_loop n c) s" for n s
    by (induction n arbitrary: s)
      (auto simp: grows.within_throw intro!: grows.within_bind grows.within_bind_gets grows.within_ret grows_writes)
  then show ?thesis
    unfolding create_def createNormalized_def createRegistrationOrThrowConflict_def generatePublicId_def
    by (intro grows.within_rules grows.within_bind grows_writes)
qed

lemma keeps_create_action:
  assumes "id_law c"
  shows "keeps_sync c (create c dto) s"
proof -
  have "within (keeps (reg_inv c)) (create c dto) s"
    unfolding create_def by (intro keeps.within_bind_reads keeps_createNormalized assms)
  then show ?thesis
    using grows_create [of c dto s] sync_tables_mono
    by (auto simp: within_def keeps_def sync_inv_def grows_def tables_def)
qed

lemma created_in_table: "create c dto s = (Inr r, t) \<Longrightarrow> r \<in> set (registrations t)"
  by (auto simp: create_def bindA_reads no_options_def enqueueRegistrationPipeline_def modify_def ret_def add_job_def
        split: sum.splits if_splits elim!: createNormalized_Inr dest!: createOrThrow_Inr)

section \<open>The writes of the sync service\<close>

lemma reg_inv_tables [simp]:
  "reg_inv c (s\<lparr>mappings := ms\<rparr>) = reg_inv c s" "reg_inv c (s\<lparr>syncBatches := bs\<rparr>) = reg_inv c s"
  "reg_inv c (s\<lparr>syncOps := xs\<rparr>) = reg_inv c s"
  by (simp_all add: reg_inv_def)

lemma keeps_update_mapping:
  assumes "\<And>x. mp_id (f x) = mp_id x" and "\<And>x y. mapping_clash (f x) y = mapping_clash x y"
  shows "keeps_sync c (update_mapping i f) s"
proof -
  have c: "mapping_clash x (f y) = mapping_clash x y" for x y using assms(2) clash_sym by metis
  show ?thesis
    by (auto simp: within_def keeps_def update_mapping_def act_simps sync_inv_def sync_tables_def map_update_by assms c set_update_by)
qed

lemma keeps_update_batch:
  assumes "\<And>x. sb_id (f x) = sb_id x" and "\<And>x. sb_batchId (f x) = sb_batchId x"
  shows "keeps_sync c (update_batch i f) s"
  using assms
  by (auto simp: within_def keeps_def update_batch_def act_simps sync_inv_def sync_tables_def map_update_by split: option.splits)

lemma sync_inv_id: "sync_inv c s \<Longrightarrow> sync_inv c (s\<lparr>next_id := Suc (next_id s)\<rparr>)"
  using sync_tables_mono [of c "next_id s" _ _ _ "Suc (next_id s)"] reg_inv_id by (simp add: sync_inv_def)

lemma keeps_upsert:
  assumes "id_law c" and "\<And>i. mp_id (row i) = i"
  shows "keeps_sync c (upsert_mapping c row d e o') s"
proof -
  let ?m = "row (cuid c (next_id s))"
  have "sync_tables c (Suc (next_id s)) (append_row ?m (mappings s)) (syncBatches s) (syncOps s)"
    if "sync_inv c s" "\<not> exists_row (mapping_clash ?m) (mappings s)"
  proof -
    have "sync_tables c (next_id s) (mappings s) (syncBatches s) (syncOps s)" using that(1) by (simp add: sync_inv_def)
    moreover have "\<not> mapping_clash ?m x \<and> \<not> mapping_clash x ?m" if "x \<in> set (mappings s)" for x
      using that \<open>\<not> exists_row _ _\<close> clash_sym by (auto simp: exists_row_iff)
    ultimately show ?thesis
      using assms fresh_ids_mono [of c "next_id s" _ "Suc (next_id s)"]
      by (auto simp: sync_tables_def intro: fresh_ids_add)
  qed
  then show ?thesis
    using sync_inv_id [of c s]
    by (auto simp: within_def keeps_def upsert_mapping_def bindA_gets bindA_def new_id_def gets_def throw_def modify_def
          ret_def sync_inv_def reg_inv_def split: option.splits)
qed

lemma keeps_create_op:
  assumes "id_law c"
  shows "keeps_sync c (create_op c b o') s"
  using assms fresh_ids_mono [of c "next_id s" _ "Suc (next_id s)"] reg_rows_mono [of c "next_id s" _ "Suc (next_id s)"]
  by (auto simp: within_def keeps_def create_op_def Let_def bindA_def new_id_def gets_def throw_def modify_def ret_def
        sync_inv_def reg_inv_def sync_tables_def fresh_ids_add lookup_by_None)

lemma keeps_create_batch_row:
  assumes "id_law c" and "\<And>i. sb_id (row i) = i"
  shows "keeps_sync c (create_batch_row c row) s"
  using assms fresh_ids_mono [of c "next_id s" _ "Suc (next_id s)"] reg_rows_mono [of c "next_id s" _ "Suc (next_id s)"]
  by (auto simp: within_def keeps_def create_batch_row_def bindA_def new_id_def gets_def throw_def modify_def ret_def
        sync_inv_def reg_inv_def sync_tables_def fresh_ids_add lookup_by_None)

lemma keeps_create_batch:
  assumes "id_law c"
  shows "keeps_sync c (create_batch c dto ds) s"
  unfolding create_batch_def
  by (intro keeps.within_rules keeps.within_bind keeps_create_batch_row keeps_create_op assms)
    (simp add: received_batch_def)

section \<open>A run, operation by operation\<close>

text \<open>What an operation of a batch writes: rows of the other services, registrations, mappings, the local ids,
  and the state of the operation itself. A relation that every such write stays within is one that every
  operation, and so a batch, stays within.\<close>

definition op_key :: "sync_op \<Rightarrow> id \<times> id \<times> string \<times> sync_type \<times> json" where
  "op_key x = (so_id x, so_syncBatchId x, so_operationId x, so_type x, so_input x)"

definition on_store :: "(store \<Rightarrow> store \<Rightarrow> bool) \<Rightarrow> store \<times> locals \<Rightarrow> store \<times> locals \<Rightarrow> bool" where
  "on_store R x y = R (fst x) (fst y)"

lemma db_within: "within R m (fst x) \<Longrightarrow> within (on_store R) (db m) x"
  by (auto simp: within_def on_store_def db_def split: prod.splits)

locale sync_run = store_rel R for R :: "store \<Rightarrow> store \<Rightarrow> bool" +
  fixes c :: env
  assumes others: "side s t \<Longrightarrow> R s t"
    and registers: "within R (create c dto) s"
    and maps: "(\<And>x. mp_id (f x) = mp_id x) \<Longrightarrow> (\<And>x y. mapping_clash (f x) y = mapping_clash x y) \<Longrightarrow>
      within R (update_mapping i f) s"
    and adds_mapping: "(\<And>i. mp_id (row i) = i) \<Longrightarrow> within R (upsert_mapping c row d e opid) s"
    and updates_op: "(\<And>x. op_key (g x) = op_key x) \<Longrightarrow> within R (update_op i g) s"
    and claims_op: "(\<And>x. op_key (g x) = op_key x) \<Longrightarrow> R s (s\<lparr>syncOps := update_rows p g (syncOps s)\<rparr>)"

sublocale sync_run \<subseteq> pair: store_rel "on_store R"
  by unfold_locales (auto simp: on_store_def rel_refl intro: rel_trans)

context sync_run
begin

lemma within_others: "within R (generate c i) s" "within R (reconcileOfflineRegistration c e tok opid rid) s"
    "within R (ingest c sdto) s" "within R (ingestOfflineScan c input) s" "within R (modify (add_job j)) s"
  using side_generate side_reconcile side_ingest side_ingestOffline
  by (auto simp: within_def modify_def add_job_def side_def intro!: others)

lemma within_set_local: "within (on_store R) (set_local k r) x"
  by (auto simp: within_def on_store_def set_local_def modify_def rel_refl split: prod.splits)

lemma within_link: "within (on_store R) (linkRegistration c batch sm m b r) x"
  unfolding linkRegistration_def enqueueOfflineReconciliation_def
  by (intro pair.within_bind pair.within_ret within_set_local db_within within_if within_bind within_ret within_gets within_others maps)
    (simp_all add: mapping_clash_def same_operation_def same_local_def)

lemma within_registration: "within (on_store R) (runOfflineRegistration c o' batch) x"
proof -
  have reg: "within R (registerOffline c batch payload m) s" for payload m s
    unfolding registerOffline_def
    by (intro within_catch within_bind_reads within_bind registers within_throw maps)
      (simp_all add: failed_mapping_def mapping_clash_def same_operation_def same_local_def)
  have sync: "within (on_store R) (syncRegistration c batch payload sm) x" for payload sm x
    unfolding syncRegistration_def Let_def
    by (intro pair.within_bind pair.within_option within_link db_within adds_mapping reg within_gets)
      (simp add: new_mapping_def)
  show ?thesis
    unfolding runOfflineRegistration_def alreadySynced_def Let_def
    by (intro pair.within_bind pair.within_option pair.within_if pair.within_throw pair.within_ret sync db_within
          within_reads within_gets within_set_local within_others maps)
      (simp_all add: conflicted_def mapping_clash_def same_operation_def same_local_def)
qed

lemma within_run: "within (on_store R) (runOperation c o' batch) x"
proof -
  have loc: "within (on_store R) (resolveLocalRegistrationId payload) x" for payload x
    unfolding resolveLocalRegistrationId_def
    by (intro pair.within_rules) (auto split: option.splits intro: pair.within_throw pair.within_ret)
  show ?thesis
    unfolding runOperation_def runOfflineScan_def
    by (cases "od_type o'")
      (auto split: option.splits intro!: pair.within_bind db_within pair.within_ret within_registration loc
        within_bind_reads within_others)
qed

lemma within_processOperation: "within (on_store R) (processOperation c ser op o' batch) x"
  unfolding processOperation_def Let_def
  by (intro pair.within_catch pair.within_bind pair.within_ret within_run db_within updates_op)
    (simp_all add: op_done_def op_failed_def op_key_def)

lemma within_claim: "within (on_store R) (claim_op i) x"
  unfolding claim_op_def Let_def
  by (intro pair.within_bind pair.within_ret db_within within_gets within_modify claims_op) (simp add: op_key_def)

lemma within_processOne: "within (on_store R) (processOne c ser batch ds existing created o') x"
  unfolding processOne_def answerDuplicate_def retryOperation_def
  by (intro pair.within_option pair.within_if pair.within_bind pair.within_bind_reads pair.within_ret
        within_processOperation within_claim)

lemma within_pair: "within (on_store R) m (s, l) \<Longrightarrow> within R (\<lambda>s. case m (s, l) of (r, (t, l')) \<Rightarrow> (r, t)) s"
  by (auto simp: within_def on_store_def split: prod.splits)

lemma within_operations:
  "within R (\<lambda>s. case forA ops (processOne c ser batch ds existing created) (s, l) of (r, (t, l')) \<Rightarrow> (r, t)) s"
  by (intro within_pair pair.within_forA within_processOne)

lemma within_recoverOne: "within R (recoverOne c ser y) s"
  unfolding recoverOne_def split_beta Let_def
  by (rule within_pair [unfolded split_beta])
    (intro pair.within_bind pair.within_if pair.within_bind_reads pair.within_ret within_claim within_processOperation)

end

text \<open>Two such relations: keeping the invariant, and leaving the batches and the identity of the operations alone.\<close>

lemma keeps_update_op: "(\<And>x. op_key (f x) = op_key x) \<Longrightarrow> keeps_sync c (update_op i f) s"
  by (auto simp: within_def keeps_def update_op_def act_simps sync_inv_def sync_tables_def map_update_by op_key_def)

definition sync_ok :: "env \<Rightarrow> store \<Rightarrow> bool" where
  "sync_ok c s = (id_law c \<and> sync_inv c s)"

lemma keeps_ok: "(id_law c \<Longrightarrow> keeps_sync c m s) \<Longrightarrow> within (keeps (sync_ok c)) m s"
  by (auto simp: within_def keeps_def sync_ok_def)

interpretation ok_run: sync_run "keeps (sync_ok c)" c for c :: env
proof
  show "keeps (sync_ok c) s t" if "side s t" for s t
    using side_keeps [of "\<lambda>_. (Inr (), t)" s c] that by (simp add: within_def keeps_def sync_ok_def)
  show "within (keeps (sync_ok c)) (create c dto) s" for dto s by (intro keeps_ok keeps_create_action)
  show "within (keeps (sync_ok c)) (update_mapping i f) s"
    if "\<And>x. mp_id (f x) = mp_id x" "\<And>x y. mapping_clash (f x) y = mapping_clash x y" for i f s
    by (intro keeps_ok keeps_update_mapping that)
  show "within (keeps (sync_ok c)) (upsert_mapping c row d e opid) s" if "\<And>i. mp_id (row i) = i" for row d e opid s
    by (intro keeps_ok keeps_upsert that)
  show "within (keeps (sync_ok c)) (update_op i g) s" if "\<And>x. op_key (g x) = op_key x" for i g s
    by (intro keeps_ok keeps_update_op that)
  show "keeps (sync_ok c) s (s\<lparr>syncOps := update_rows p g (syncOps s)\<rparr>)" if "\<And>x. op_key (g x) = op_key x" for p g s
    using that by (simp add: keeps_def sync_ok_def sync_inv_def sync_tables_def map_update_rows op_key_def)
qed

definition batch_part :: "store \<Rightarrow> sync_batch list \<times> (id \<times> id \<times> string \<times> sync_type \<times> json) list" where
  "batch_part s = (syncBatches s, map op_key (syncOps s))"

interpretation batch_run: sync_run "same batch_part" c for c :: env
proof
  show "same batch_part s t" if "side s t" for s t
    using that by (simp add: same_def batch_part_def side_def)
  show "within (same batch_part) (create c dto) s" for dto s
    using grows_create [of c dto s] by (simp add: within_def same_def batch_part_def grows_def tables_def)
qed (auto simp: within_def same_def batch_part_def update_mapping_def upsert_mapping_def update_op_def bindA_def
      gets_def new_id_def throw_def modify_def ret_def map_update_by map_update_rows split: option.splits)

text \<open>Whatever a device sends, and however its operations fail, the tables of the sync service stay sound:
  batch ids, operation ids and row ids are unique, an offline registration has one mapping by its
  operation, by its local id and by its badge token, and registrations stay distinct.\<close>

theorem sync_keeps_tables:
  assumes "id_law c" and "sync_inv c s"
  shows "sync_inv c (snd (submitBatch c ser dto s)) \<and> sync_inv c (snd (recoverFailedOfflineRegistrations c ser input s))"
proof -
  have "within (keeps (sync_ok c)) (processBatch c ser i dto ds) s" for i ds s
    unfolding processBatch_def
    by (intro keeps.within_bind keeps_ok keeps_update_batch keeps.within_gets ok_run.within_operations)
      (simp_all add: finish_batch_def Let_def)
  then have "within (keeps (sync_ok c)) (submitBatch c ser dto) s"
    unfolding submitBatch_def
    by (intro keeps.within_rules keeps.within_bind keeps_ok [OF keeps_create_batch])
  moreover have "within (keeps (sync_ok c)) (recoverFailedOfflineRegistrations c ser input) s"
    unfolding recoverFailedOfflineRegistrations_def Let_def
    by (intro keeps.within_rules keeps.within_bind ok_run.within_recoverOne)
  ultimately show ?thesis using assms by (simp add: within_def keeps_def sync_ok_def)
qed

end
