(* ===== verification/SyncProps.thy ===== *)
theory SyncProps
  imports SyncInv
begin

text \<open>
  What the batches of \<open>Sync\<close> promise to the device: an answer to every operation, the stored batch when a
  batch is sent again, the stored result when an operation is sent again.
\<close>

section \<open>One operation\<close>

lemma forA_results:
  "forA xs f s = (Inr rs, t) \<Longrightarrow> list_all2 (\<lambda>x r. \<exists>u v. f x u = (Inr r, v)) xs rs"
proof (induction xs arbitrary: s rs t)
  case Nil
  then show ?case by (simp add: ret_def)
next
  case (Cons x xs)
  then obtain a u as where "f x s = (Inr a, u)" "forA xs f u = (Inr as, t)" "rs = a # as"
    by (auto simp: ret_def elim!: bindA_InrE)
  then show ?case using Cons.IH by auto
qed

lemma list_all2_mem_mono:
  "list_all2 P xs ys \<Longrightarrow> (\<And>x y. x \<in> set xs \<Longrightarrow> P x y \<Longrightarrow> Q x y) \<Longrightarrow> list_all2 Q xs ys"
  by (induction rule: list_all2_induct) auto

definition answers :: "string \<Rightarrow> op_result \<Rightarrow> bool" where
  "answers operationId r = (re_operationId r = operationId \<and> re_status r \<in> {OP_PROCESSED, OP_FAILED, OP_DUPLICATE})"

lemma result_simps [simp]:
  "answers i (failed_result j code m b) \<longleftrightarrow> j = i" "answers i (output_result j st v) \<longleftrightarrow> j = i \<and> st \<in> {OP_PROCESSED, OP_FAILED, OP_DUPLICATE}"
  by (auto simp: answers_def failed_result_def output_result_def)

lemma processOperation_answers:
  "processOperation c ser op o' batch x = (Inr r, y) \<Longrightarrow> answers (so_operationId op) r"
  by (auto simp: processOperation_def Let_def catch_def bindA_def ret_def split: prod.splits sum.splits)

lemma answerDuplicate_answers:
  "answerDuplicate c ser old batch x = (Inr r, y) \<Longrightarrow> answers (so_operationId old) r"
  by (auto simp: answerDuplicate_def retryOperation_def previous_failure_def ret_def bindA_reads split: if_splits sum.splits
        elim!: bindA_InrE dest!: processOperation_answers)
    (auto simp: answers_def)

lemma processOne_answers:
  assumes "processOne c ser batch ds existing created o' x = (Inr rs, y)"
    and "od_operationId o' \<notin> ds \<Longrightarrow> od_operationId o' \<in> so_operationId ` set created"
  shows "\<exists>r. rs = [r] \<and> answers (od_operationId o') r"
proof -
  have key: "so_operationId z = od_operationId o'" if "lookup_by so_operationId (od_operationId o') ys = Some z" for ys z
    using that lookup_by_Some by metis
  show ?thesis
    using assms
    by (auto simp: processOne_def ret_def lookup_by_None split: if_splits option.splits elim!: bindA_InrE
          dest!: key processOperation_answers answerDuplicate_answers)
qed

section \<open>Creating a batch\<close>

lemma create_op_Inr:
  assumes "create_op c b o' s = (Inr x, t)"
  shows "so_operationId x = od_operationId o' \<and> so_syncBatchId x = b \<and> syncOps t = append_row x (syncOps s) \<and>
    syncBatches t = syncBatches s"
  using assms by (auto simp: create_op_def Let_def bindA_def new_id_def gets_def throw_def modify_def ret_def split: if_splits)

lemma create_ops_Inr:
  "forA os (create_op c b) s = (Inr xs, t) \<Longrightarrow> syncOps t = syncOps s @ xs \<and> map so_operationId xs = map od_operationId os \<and>
    (\<forall>x \<in> set xs. so_syncBatchId x = b) \<and> syncBatches t = syncBatches s"
proof (induction os arbitrary: s xs t)
  case Nil
  then show ?case by (simp add: ret_def)
next
  case (Cons o' os)
  then obtain a u as where "create_op c b o' s = (Inr a, u)" "forA os (create_op c b) u = (Inr as, t)" "xs = a # as"
    by (auto simp: ret_def elim!: bindA_InrE)
  then show ?case using Cons.IH create_op_Inr by (fastforce simp: append_row_def)
qed

lemma create_batch_Inr:
  assumes "create_batch c dto ds s = (Inr b, t)"
  obtains xs where "b = received_batch dto (card ds) (cuid c (next_id s))" "syncBatches t = syncBatches s @ [b]"
    "syncOps t = syncOps s @ xs" "\<forall>x \<in> set xs. so_syncBatchId x = sb_id b"
    "map so_operationId xs = filter (\<lambda>i. i \<notin> ds) (map od_operationId (bd_operations dto))"
proof -
  let ?row = "received_batch dto (card ds)" and ?os = "filter (\<lambda>o'. od_operationId o' \<notin> ds) (bd_operations dto)"
  obtain u xs where r: "create_batch_row c ?row s = (Inr b, u)" "forA ?os (create_op c (sb_id b)) u = (Inr xs, t)"
    using assms by (auto simp: create_batch_def transaction_def bindA_def ret_def split: prod.splits sum.splits)
  then have "b = ?row (cuid c (next_id s))" "syncBatches u = syncBatches s @ [b]" "syncOps u = syncOps s"
    by (auto simp: create_batch_row_def bindA_def new_id_def gets_def throw_def modify_def ret_def append_row_def split: if_splits)
  then show thesis using create_ops_Inr [OF r(2)] by (intro that [of xs]) (auto simp: filter_map comp_def)
qed

section \<open>A batch\<close>

lemma update_batch_Inr:
  assumes "update_batch i f s = (Inr b, t)"
  obtains b0 where "lookup_by sb_id i (syncBatches s) = Some b0" "b = f b0" "t = s\<lparr>syncBatches := update_by sb_id i f (syncBatches s)\<rparr>"
  using assms by (auto simp: update_batch_def act_simps split: option.splits)

text \<open>A new batch that is answered: how it was stored, ran and was closed.\<close>

lemma submitBatch_new:
  assumes run: "submitBatch c ser dto s = (Inr (False, b), t)"
  obtains b0 b1 xs results u where
    "b0 = received_batch dto (card (findDuplicateOperationIds (map od_operationId (bd_operations dto)) s)) (cuid c (next_id s))"
    "b = finish_batch c (concat results) b1" "lookup_by sb_id (sb_id b0) (syncBatches u) = Some b1"
    "t = u\<lparr>syncBatches := update_by sb_id (sb_id b0) (finish_batch c (concat results)) (syncBatches u)\<rparr>"
    "syncBatches u = update_by sb_id (sb_id b0) (\<lambda>b. b\<lparr>sb_status := BT_PROCESSING\<rparr>) (syncBatches s @ [b0])"
    "map re_operationId (concat results) = map od_operationId (sortOperations (bd_operations dto))"
    "\<forall>r \<in> set (concat results). re_status r \<in> {OP_PROCESSED, OP_FAILED, OP_DUPLICATE}"
    "lookup_by sb_batchId (bd_batchId dto) (syncBatches s) = None"
proof -
  let ?ds = "findDuplicateOperationIds (map od_operationId (bd_operations dto)) s"
  obtain b0 s1 where new: "create_batch c dto ?ds s = (Inr b0, s1)" "lookup_by sb_batchId (bd_batchId dto) (syncBatches s) = None"
      and pb: "processBatch c ser (sb_id b0) dto ?ds s1 = (Inr b, t)"
    using run by (auto simp: submitBatch_def bindA_gets bindA_reads ret_def split: option.splits sum.splits elim!: bindA_InrE)
  obtain xs where b0: "b0 = received_batch dto (card ?ds) (cuid c (next_id s))" "syncBatches s1 = syncBatches s @ [b0]"
      "syncOps s1 = syncOps s @ xs" "\<forall>x \<in> set xs. so_syncBatchId x = sb_id b0"
      "map so_operationId xs = filter (\<lambda>i. i \<notin> ?ds) (map od_operationId (bd_operations dto))"
    using create_batch_Inr [OF new(1)] by metis
  obtain bp s2 where first: "update_batch (sb_id b0) (\<lambda>b. b\<lparr>sb_status := BT_PROCESSING\<rparr>) s1 = (Inr bp, s2)"
    and rest: "bindA (\<lambda>s. case forA (sortOperations (bd_operations dto)) (processOne c ser dto ?ds
          (filter (\<lambda>x. so_operationId x \<in> ?ds) (syncOps s2)) (filter (\<lambda>x. so_syncBatchId x = sb_id b0) (syncOps s2))) (s, \<lambda>_. None) of
        (r, (t, l)) \<Rightarrow> (r, t)) (\<lambda>results. update_batch (sb_id b0) (finish_batch c (concat results))) s2 = (Inr b, t)"
    using pb unfolding processBatch_def by (rule bindA_InrE) (simp add: bindA_gets)
  let ?created = "filter (\<lambda>x. so_syncBatchId x = sb_id b0) (syncOps s2)"
  let ?existing = "filter (\<lambda>x. so_operationId x \<in> ?ds) (syncOps s2)"
  have s2: "syncOps s2 = syncOps s1" "syncBatches s2 = update_by sb_id (sb_id b0) (\<lambda>b. b\<lparr>sb_status := BT_PROCESSING\<rparr>) (syncBatches s1)"
    by (rule update_batch_Inr [OF first]; simp)+
  obtain results u l where ops: "forA (sortOperations (bd_operations dto)) (processOne c ser dto ?ds ?existing ?created) (s2, \<lambda>_. None) = (Inr results, (u, l))"
    and last: "update_batch (sb_id b0) (finish_batch c (concat results)) u = (Inr b, t)"
    using rest by (auto elim!: bindA_InrE split: prod.splits)
  have "same batch_part s2 u"
    using batch_run.within_operations [of "sortOperations (bd_operations dto)" c ser dto ?ds ?existing ?created "\<lambda>_. None" s2] ops
    by (simp add: within_def)
  then have u: "syncBatches u = syncBatches s2" by (simp add: same_def batch_part_def)
  have mem: "od_operationId o' \<in> so_operationId ` set ?created" if "o' \<in> set (bd_operations dto)" "od_operationId o' \<notin> ?ds" for o'
  proof -
    have "od_operationId o' \<in> set (map so_operationId xs)" using that b0(5) by simp
    then show ?thesis using s2(1) b0(3,4) by auto
  qed
  have set: "set (sortOperations (bd_operations dto)) = set (bd_operations dto)" by (rule mset_eq_setD) simp
  have "list_all2 (\<lambda>o' rs. \<exists>r. rs = [r] \<and> answers (od_operationId o') r) (sortOperations (bd_operations dto)) results"
    using forA_results [OF ops] by (rule list_all2_mem_mono) (use set mem processOne_answers in blast)
  then have "map re_operationId (concat results) = map od_operationId (sortOperations (bd_operations dto)) \<and>
      (\<forall>r \<in> set (concat results). re_status r \<in> {OP_PROCESSED, OP_FAILED, OP_DUPLICATE})"
    by (induction rule: list_all2_induct) (auto simp: answers_def)
  moreover obtain b1 where "lookup_by sb_id (sb_id b0) (syncBatches u) = Some b1" "b = finish_batch c (concat results) b1"
      "t = u\<lparr>syncBatches := update_by sb_id (sb_id b0) (finish_batch c (concat results)) (syncBatches u)\<rparr>"
    using update_batch_Inr [OF last] by metis
  ultimately show thesis using b0 s2 u new(2) by (intro that [of b0 results b1 u]) auto
qed

lemma count_rows_zero: "count_rows p xs = 0 \<longleftrightarrow> (\<forall>x \<in> set xs. \<not> p x)"
  by (simp add: count_rows_def filter_empty_conv)

lemma statuses_partition:
  "\<forall>r \<in> set rs. re_status r \<in> {OP_PROCESSED, OP_FAILED, OP_DUPLICATE} \<Longrightarrow>
   with_status OP_PROCESSED rs + with_status OP_FAILED rs + with_status OP_DUPLICATE rs = length rs"
  by (induction rs) (auto simp: with_status_def count_rows_def)

definition batch_verdict :: "op_result list \<Rightarrow> batch_status \<Rightarrow> bool" where
  "batch_verdict rs st =
    ((st = BT_FAILED) = (rs \<noteq> [] \<and> (\<forall>r \<in> set rs. re_status r = OP_FAILED)) \<and>
     (st = BT_DUPLICATE) = (rs \<noteq> [] \<and> (\<forall>r \<in> set rs. re_status r = OP_DUPLICATE)) \<and>
     (st = BT_COMPLETED) = ((\<forall>r \<in> set rs. re_status r \<noteq> OP_FAILED) \<and> (rs = [] \<or> (\<exists>r \<in> set rs. re_status r = OP_PROCESSED))) \<and>
     st \<in> {BT_COMPLETED, BT_FAILED, BT_DUPLICATE, BT_PARTIAL_FAILED})"

lemma getBatchStatus_verdict:
  assumes "\<forall>r \<in> set rs. re_status r \<in> {OP_PROCESSED, OP_FAILED, OP_DUPLICATE}"
  shows "batch_verdict rs (getBatchStatus (with_status OP_PROCESSED rs) (with_status OP_FAILED rs) (with_status OP_DUPLICATE rs))"
proof -
  have zero: "with_status st rs = 0 \<longleftrightarrow> (\<forall>r \<in> set rs. re_status r \<noteq> st)" for st
    by (simp add: with_status_def count_rows_zero)
  let ?p = "\<exists>r \<in> set rs. re_status r = OP_PROCESSED" and ?f = "\<exists>r \<in> set rs. re_status r = OP_FAILED"
  let ?d = "\<exists>r \<in> set rs. re_status r = OP_DUPLICATE"
  have st: "0 < with_status OP_FAILED rs \<longleftrightarrow> ?f" "0 < with_status OP_DUPLICATE rs \<longleftrightarrow> ?d"
      "with_status OP_PROCESSED rs = 0 \<longleftrightarrow> \<not> ?p" "with_status OP_DUPLICATE rs = 0 \<longleftrightarrow> \<not> ?d"
    using zero neq0_conv by blast+
  have any: "rs \<noteq> [] \<longleftrightarrow> ?p \<or> ?f \<or> ?d" using assms by (cases rs) auto
  have all: "(\<forall>r \<in> set rs. re_status r = OP_FAILED) \<longleftrightarrow> \<not> ?p \<and> \<not> ?d" "(\<forall>r \<in> set rs. re_status r = OP_DUPLICATE) \<longleftrightarrow> \<not> ?p \<and> \<not> ?f"
      "(\<forall>r \<in> set rs. re_status r \<noteq> OP_FAILED) \<longleftrightarrow> \<not> ?f"
    using assms by fastforce+
  have "rs = [] \<longleftrightarrow> \<not> (?p \<or> ?f \<or> ?d)" using any by blast
  then show ?thesis
    unfolding batch_verdict_def getBatchStatus_def st all by (cases ?p; cases ?f; cases ?d) simp_all
qed

text \<open>C14: A batch that is processed answers every operation, in the order in which they ran: one result for each,
  with its operation id and \<open>PROCESSED\<close>, \<open>FAILED\<close> or \<open>DUPLICATE\<close>, stored with the batch; the three counts
  add up to the number of operations, and the status of the batch is \<open>FAILED\<close> exactly if everything failed,
  \<open>DUPLICATE\<close> if everything was a repeat, \<open>COMPLETED\<close> if nothing failed and something ran, and
  \<open>PARTIAL_FAILED\<close> otherwise.\<close>

theorem every_operation_answered:
  assumes "submitBatch c ser dto s = (Inr (False, b), t)"
  shows "\<exists>results. sb_result b = batch_result results \<and>
    map re_operationId results = map od_operationId (sortOperations (bd_operations dto)) \<and>
    sb_processedCount b + sb_failedCount b + sb_duplicateCount b = length (bd_operations dto) \<and>
    sb_processedCount b = with_status OP_PROCESSED results \<and> sb_failedCount b = with_status OP_FAILED results \<and>
    batch_verdict results (sb_status b)"
proof -
  obtain b1 results where r: "b = finish_batch c (concat results) b1"
      "map re_operationId (concat results) = map od_operationId (sortOperations (bd_operations dto))"
      "\<forall>r \<in> set (concat results). re_status r \<in> {OP_PROCESSED, OP_FAILED, OP_DUPLICATE}"
    using submitBatch_new [OF assms] by metis
  have "length (concat results) = length (bd_operations dto)"
    using arg_cong [OF r(2), of length] mset_eq_length [OF sortOperations_mset] by simp
  then show ?thesis
    using r getBatchStatus_verdict [OF r(3)] statuses_partition [OF r(3)]
    by (intro exI [of _ "concat results"]) (auto simp: finish_batch_def Let_def)
qed

text \<open>A batch id is processed once: when a batch has been answered, sending its id again, whatever the
  message now contains and whatever has become of the event, device or session, answers with the stored
  batch, its status, counts and results, and changes nothing.\<close>

theorem batch_processed_once:
  assumes "id_law c" and "sync_inv c s" and "submitBatch c ser dto s = (Inr (False, b), t)"
    and "bd_batchId again = bd_batchId dto"
  shows "submitBatch c' ser' again t = (Inr (True, b), t) \<and> sb_batchId b = bd_batchId dto"
proof -
  obtain b0 b1 results u where r:
      "b0 = received_batch dto (card (findDuplicateOperationIds (map od_operationId (bd_operations dto)) s)) (cuid c (next_id s))"
      "b = finish_batch c (concat results) b1" "lookup_by sb_id (sb_id b0) (syncBatches u) = Some b1"
      "t = u\<lparr>syncBatches := update_by sb_id (sb_id b0) (finish_batch c (concat results)) (syncBatches u)\<rparr>"
      "syncBatches u = update_by sb_id (sb_id b0) (\<lambda>b. b\<lparr>sb_status := BT_PROCESSING\<rparr>) (syncBatches s @ [b0])"
      "lookup_by sb_batchId (bd_batchId dto) (syncBatches s) = None"
    by (rule submitBatch_new [OF assms(3)]) blast
  have new: "sb_id x \<noteq> sb_id b0" if "x \<in> set (syncBatches s)" for x
    using assms(1,2) that fresh_id_new [of c "next_id s" "map sb_id (syncBatches s)"]
    by (auto simp: sync_inv_def sync_tables_def r(1) received_batch_def image_iff)
  then have upd: "update_by sb_id (sb_id b0) f (syncBatches s @ [y]) = syncBatches s @ [f y]" if "sb_id y = sb_id b0" for f y
    using that by (auto simp: update_by_def update_rows_def intro!: map_idI)
  let ?b1 = "b0\<lparr>sb_status := BT_PROCESSING\<rparr>"
  have u: "syncBatches u = syncBatches s @ [?b1]" by (simp add: r(5) upd)
  have none: "find_row (\<lambda>x. sb_id x = sb_id b0) (syncBatches s) = None" using new by (simp add: find_row_None)
  have "b1 = ?b1" using r(3) by (simp add: u lookup_by_def find_row_append none)
  moreover have "syncBatches t = syncBatches s @ [finish_batch c (concat results) ?b1]" by (simp add: r(4) u upd)
  moreover have "sb_batchId b0 = bd_batchId dto" by (simp add: r(1) received_batch_def)
  ultimately show ?thesis
    using r(2,6) assms(4)
    by (simp add: submitBatch_def bindA_gets ret_def lookup_by_def find_row_append finish_batch_def Let_def)
qed

section \<open>Operations that were received before\<close>

lemma forA_pure: "(\<And>x. x \<in> set xs \<Longrightarrow> f x s = (Inr (g x), s)) \<Longrightarrow> forA xs f s = (Inr (map g xs), s)"
  by (induction xs) (simp_all add: ret_def bindA_def)

lemma find_row_filter: "(\<And>x. p x \<Longrightarrow> q x) \<Longrightarrow> find_row p (filter q xs) = find_row p xs"
  by (induction xs) auto

text \<open>What is known of an operation that is not to be tried again.\<close>

definition settled :: "sync_op \<Rightarrow> bool" where
  "settled old = (so_status old = OP_FAILED \<longrightarrow> \<not> canRetryFailedOfflineOperation old)"

definition stored_answer :: "sync_op \<Rightarrow> op_result" where
  "stored_answer old = (if so_status old \<in> {OP_PROCESSED, OP_DUPLICATE}
     then output_result (so_operationId old) OP_DUPLICATE (so_output old)
     else if so_status old = OP_FAILED then previous_failure old
     else failed_result (so_operationId old) ''PREVIOUS_OPERATION_NOT_COMPLETED''
       ''The previous operation has not completed processing yet'' None)"

lemma settled_answer: "settled old \<Longrightarrow> answerDuplicate c ser old batch x = (Inr (stored_answer old), x)"
  by (auto simp: settled_def answerDuplicate_def stored_answer_def ret_def)

lemma duplicate_known: "lookup_by so_operationId (od_operationId o') (syncOps s) = Some old \<Longrightarrow> o' \<in> set os \<Longrightarrow>
  od_operationId o' \<in> findDuplicateOperationIds (map od_operationId os) s"
  by (force simp: findDuplicateOperationIds_def dest!: lookup_by_Some)

lemma replay_one:
  assumes "\<exists>old. lookup_by so_operationId (od_operationId o') (syncOps s) = Some old \<and> settled old" and "o' \<in> set os"
  shows "processOne c ser dto (findDuplicateOperationIds (map od_operationId os) s)
      (filter (\<lambda>x. so_operationId x \<in> findDuplicateOperationIds (map od_operationId os) s) (syncOps s)) created o' x =
    (Inr [stored_answer (the (lookup_by so_operationId (od_operationId o') (syncOps s)))], x)"
proof -
  obtain old where old: "lookup_by so_operationId (od_operationId o') (syncOps s) = Some old" "settled old" using assms(1) by blast
  note dup = duplicate_known [OF old(1) assms(2)]
  have "lookup_by so_operationId (od_operationId o') (filter (\<lambda>x. so_operationId x \<in> findDuplicateOperationIds (map od_operationId os) s)
      (syncOps s)) = lookup_by so_operationId (od_operationId o') (syncOps s)"
    unfolding lookup_by_def using dup by (intro find_row_filter) simp
  then show ?thesis using old dup by (simp add: processOne_def settled_answer bindA_done ret_def)
qed

text \<open>C15: An operation id is executed once: a new batch whose operations were all received before, and either
  succeeded or failed for good, runs nothing. The batch is recorded, each operation is answered from its
  row, a success with its original output as \<open>DUPLICATE\<close>, a failure with its original code and message,
  and no other table changes.\<close>

theorem settled_operations_replayed:
  assumes "sync_inv c s" and "id_law c" and "lookup_by sb_batchId (bd_batchId dto) (syncBatches s) = None"
    and guards: "ensureEventCanBeModified (bd_eventId dto) s = Inr e" "ensureActiveDevice (bd_deviceId dto) (bd_eventId dto) s = Inr d"
      "ensureActiveStaffSession (bd_staffSessionId dto) (bd_eventId dto) s = Inr ss"
    and known: "\<And>o'. o' \<in> set (bd_operations dto) \<Longrightarrow>
      \<exists>old. lookup_by so_operationId (od_operationId o') (syncOps s) = Some old \<and> settled old"
  shows "\<exists>b. submitBatch c ser dto s =
      (Inr (False, b), s\<lparr>syncBatches := syncBatches s @ [b], next_id := Suc (next_id s)\<rparr>) \<and>
    sb_result b = batch_result (map (\<lambda>o'. stored_answer (the (lookup_by so_operationId (od_operationId o') (syncOps s))))
      (sortOperations (bd_operations dto)))"
proof -
  let ?ds = "findDuplicateOperationIds (map od_operationId (bd_operations dto)) s"
  let ?i = "cuid c (next_id s)" and ?b = "received_batch dto (card ?ds) (cuid c (next_id s))"
  let ?s1 = "s\<lparr>syncBatches := syncBatches s @ [?b], next_id := Suc (next_id s)\<rparr>"
  have dup: "od_operationId o' \<in> ?ds" if "o' \<in> set (bd_operations dto)" for o'
    using known [OF that] duplicate_known that by blast
  then have "filter (\<lambda>o'. od_operationId o' \<notin> ?ds) (bd_operations dto) = []" by (simp add: filter_empty_conv)
  moreover have "sb_batchId ?b = bd_batchId dto" "sb_id ?b = ?i" by (simp_all add: received_batch_def)
  ultimately have new: "create_batch c dto ?ds s = (Inr ?b, ?s1)"
    using assms(3)
    by (simp add: create_batch_def create_batch_row_def transaction_def bindA_def new_id_def gets_def modify_def ret_def append_row_def)
  have "sb_id x \<noteq> ?i" if "x \<in> set (syncBatches s)" for x
    using assms(1,2) that fresh_id_new [of c "next_id s" "map sb_id (syncBatches s)"]
    by (auto simp: sync_inv_def sync_tables_def image_iff)
  then have tab: "update_by sb_id ?i f (syncBatches s @ [y]) = syncBatches s @ [f y]" "lookup_by sb_id ?i (syncBatches s @ [y]) = Some y"
    if "sb_id y = ?i" for f y
    using that by (auto simp: update_by_def update_rows_def lookup_by_def find_row_append intro!: map_idI split: option.splits dest!: find_row_Some)
  let ?s2 = "?s1\<lparr>syncBatches := syncBatches s @ [?b\<lparr>sb_status := BT_PROCESSING\<rparr>]\<rparr>"
  let ?existing = "filter (\<lambda>x. so_operationId x \<in> ?ds) (syncOps s)"
  let ?g = "\<lambda>o'. [stored_answer (the (lookup_by so_operationId (od_operationId o') (syncOps s)))]"
  let ?f = "processOne c ser dto ?ds ?existing (filter (\<lambda>x. so_syncBatchId x = ?i) (syncOps s))"
  have one: "?f o' x = (Inr (?g o'), x)" if "o' \<in> set (bd_operations dto)" for o' x
    using replay_one [OF known] that by blast
  have "set (sortOperations (bd_operations dto)) = set (bd_operations dto)" by (rule mset_eq_setD) simp
  then have all: "forA (sortOperations (bd_operations dto)) ?f (?s2, \<lambda>_. None) =
      (Inr (map ?g (sortOperations (bd_operations dto))), (?s2, \<lambda>_. None))"
    by (intro forA_pure one) simp
  let ?rs = "map (\<lambda>o'. stored_answer (the (lookup_by so_operationId (od_operationId o') (syncOps s)))) (sortOperations (bd_operations dto))"
  let ?fin = "finish_batch c ?rs (?b\<lparr>sb_status := BT_PROCESSING\<rparr>)"
  have "concat (map ?g xs) = map (\<lambda>o'. stored_answer (the (lookup_by so_operationId (od_operationId o') (syncOps s)))) xs" for xs
    by (induction xs) simp_all
  then have "processBatch c ser ?i dto ?ds ?s1 = (Inr ?fin, ?s2\<lparr>syncBatches := syncBatches s @ [?fin]\<rparr>)"
    using all tab by (simp add: processBatch_def update_batch_def bindA_def gets_def modify_def ret_def received_batch_def)
  then have "submitBatch c ser dto s = (Inr (False, ?fin), s\<lparr>syncBatches := syncBatches s @ [?fin], next_id := Suc (next_id s)\<rparr>)"
    using assms(3) guards new
    by (simp add: submitBatch_def bindA_gets bindA_reads bindA_done ret_def received_batch_def)
  then show ?thesis by (intro exI [of _ ?fin]) (simp add: finish_batch_def Let_def)
qed

end
