(* ===== verification/SyncOffline.thy ===== *)
theory SyncOffline
  imports SyncProps
begin

text \<open>
  Offline registrations over several submissions: one that was synchronised is recognised for good, one
  that was interrupted after its registration was stored is not, and which failures may be tried again.
\<close>

section \<open>Which failures are tried again\<close>

text \<open>The codes of failed operations and the decision to try one again fit together: an error is recorded
  under one of four codes, any conflict as \<open>DUPLICATE_REGISTRATION\<close>, with the message of the error, and
  the recorded operation may be tried again exactly if it is an offline registration and the error is
  not permanent, as the answer to the device says.\<close>

theorem failures_classified:
  "er_code (classifySyncOperationError e) = (case e of Conflict _ \<Rightarrow> ''DUPLICATE_REGISTRATION''
      | BadRequest _ \<Rightarrow> ''INVALID_OFFLINE_REGISTRATION'' | NotFound _ \<Rightarrow> ''OFFLINE_REGISTRATION_RESOURCE_NOT_FOUND''
      | _ \<Rightarrow> ''OPERATION_FAILED'') \<and>
   er_message (classifySyncOperationError e) = err_message e \<and>
   er_retryable (classifySyncOperationError e) = (\<not> permanent_failure e) \<and>
   canRetryFailedOfflineOperation (op_failed c (classifySyncOperationError e) x) =
     (so_type x = OFFLINE_REGISTRATION \<and> \<not> permanent_failure e)"
proof -
  have cl: "er_code (classifySyncOperationError e) = (case e of Conflict _ \<Rightarrow> ''DUPLICATE_REGISTRATION''
      | BadRequest _ \<Rightarrow> ''INVALID_OFFLINE_REGISTRATION'' | NotFound _ \<Rightarrow> ''OFFLINE_REGISTRATION_RESOURCE_NOT_FOUND''
      | _ \<Rightarrow> ''OPERATION_FAILED'')"
    "er_message (classifySyncOperationError e) = err_message e"
    "er_retryable (classifySyncOperationError e) = (\<not> permanent_failure e)"
    by (cases e; simp add: classifySyncOperationError_def getResponse_def obj_get_def message_of_def
          getHttpExceptionMessage_def err_message_def permanent_failure_def)+
  have code: "to_upper (trim ''DUPLICATE_REGISTRATION'') = ''DUPLICATE_REGISTRATION''"
    "to_upper (trim ''INVALID_OFFLINE_REGISTRATION'') = ''INVALID_OFFLINE_REGISTRATION''"
    "to_upper (trim ''OFFLINE_REGISTRATION_RESOURCE_NOT_FOUND'') = ''OFFLINE_REGISTRATION_RESOURCE_NOT_FOUND''"
    "to_upper (trim ''OPERATION_FAILED'') = ''OPERATION_FAILED''"
    by code_simp+
  have "canRetryFailedOfflineOperation (op_failed c (classifySyncOperationError e) x) =
     (so_type x = OFFLINE_REGISTRATION \<and> \<not> permanent_failure e)"
    unfolding canRetryFailedOfflineOperation_def op_failed_def
    by (simp add: cl(1)) (cases e; simp add: Let_def code permanent_failure_def permanent_codes_def retryable_codes_def)
  with cl show ?thesis by blast
qed

section \<open>A registration that was synchronised\<close>

lemma upsert_new:
  assumes "upsert_mapping c row d e opid s = (Inr m, t)" and "find_row (same_operation d e opid) (mappings s) = None"
  shows "m = row (cuid c (next_id s)) \<and> mappings t = mappings s @ [m] \<and> registrations t = registrations s"
  using assms
  by (auto simp: upsert_mapping_def bindA_gets bindA_def new_id_def gets_def throw_def modify_def ret_def append_row_def
        split: if_splits)

lemma registerOffline_Inr:
  assumes "registerOffline c batch payload m s = (Inr r, t)"
  obtains dto where "offline_create_dto batch payload = Inr dto" "create c dto s = (Inr r, t)"
  using assms by (auto simp: registerOffline_def catch_def reads_def bindA_def throw_def split: prod.splits sum.splits)

text \<open>The rows behind an answer that linked a registration.\<close>

definition linked :: "mapping_row \<Rightarrow> registration \<Rightarrow> mapping_row \<Rightarrow> bool" where
  "linked m r x = (mp_id x = mp_id m \<and> mp_eventId x = mp_eventId m \<and> mp_issuerDeviceId x = mp_issuerDeviceId m \<and>
     mp_operationId x = mp_operationId m \<and> mp_localId x = mp_localId m \<and> mp_offlineQrToken x = mp_offlineQrToken m \<and>
     mp_payloadHash x = mp_payloadHash m \<and> mp_registrationId x = Some (rg_id r))"

lemma db_Inr: "db m (s, l) = (Inr a, (t, l')) \<longleftrightarrow> m s = (Inr a, t) \<and> l' = l"
  by (auto simp: db_def split: prod.splits)

lemma db_bind_Inr:
  assumes "bindA (db m) f (s, l) = (Inr b, y)"
  obtains a t where "m s = (Inr a, t)" "f a (t, l) = (Inr b, y)"
  using assms by (auto simp: bindA_def db_def split: prod.splits sum.splits)

lemma db_gets [simp]: "bindA (db (gets g)) f (s, l) = f (g s) (s, l)"
  by (simp add: bindA_def db_def gets_def)

lemma side_result: "within side m s \<Longrightarrow> m s = (res, t) \<Longrightarrow> side s t"
  by (rule side.within_result)

lemma link_Inr:
  assumes run: "linkRegistration c batch sm m b r (s, l) = (Inr out, (t, l'))"
  shows "\<exists>f qr q. (\<forall>x. linked x r (f x)) \<and> mappings t = update_by mp_id (mp_id m) f (mappings s) \<and>
    registrations t = registrations s \<and> out = registration_answer (if b then ''RECOVERED_EXISTING'' else ''CREATED'') r sm True q qr"
proof -
  obtain qr q s1 s2 s3 f where steps: "generate c (rg_id r) s = (Inr qr, s1)"
      "update_mapping (mp_id m) f s1 = (Inr (), s2)" "\<forall>x. linked x r (f x)"
      "enqueueOfflineReconciliation c (bd_eventId batch) (sm_offlineQrToken sm) (sm_operationId sm) (rg_id r) s2 = (Inr (), t)"
      "out = registration_answer (if b then ''RECOVERED_EXISTING'' else ''CREATED'') r sm True q qr"
    using run unfolding linkRegistration_def
    by (fastforce simp: db_Inr ret_def set_local_def modify_def gets_def linked_def elim!: bindA_InrE)
  have "side s s1" using side_result [OF side_generate steps(1)] .
  moreover have "within side (enqueueOfflineReconciliation c (bd_eventId batch) (sm_offlineQrToken sm) (sm_operationId sm) (rg_id r)) s2"
    unfolding enqueueOfflineReconciliation_def
    by (intro side.within_if side.within_modify side.within_bind side.within_ret side_reconcile) (simp add: side_def add_job_def)
  then have "side s2 t" using side_result steps(4) by blast
  moreover have "mappings s2 = update_by mp_id (mp_id m) f (mappings s1)" "registrations s2 = registrations s1"
    using steps(2) by (auto simp: update_mapping_def act_simps split: if_splits)
  ultimately show ?thesis
    using steps(3,5) by (intro exI [of _ f] exI [of _ qr] exI [of _ q]) (simp add: side_def)
qed

lemma syncRegistration_first:
  assumes "id_law c" and "sync_inv c s" and none: "find_row (same_operation (bd_deviceId batch) (bd_eventId batch) (sm_operationId sm)) (mappings s) = None"
    and run: "syncRegistration c batch payload sm (s, l) = (Inr out, (t, l'))"
  obtains r x status q qr i where "mappings t = mappings s @ [x]" "linked (new_mapping batch sm i) r x"
    "r \<in> set (registrations t)" "out = registration_answer status r sm True q qr"
proof -
  let ?i = "cuid c (next_id s)"
  let ?m = "new_mapping batch sm ?i"
  obtain m s1 where m: "upsert_mapping c (new_mapping batch sm) (bd_deviceId batch) (bd_eventId batch) (sm_operationId sm) s = (Inr m, s1)"
    and rest: "(case find_row (same_external batch (case getOptionalString payload ''externalId'' of Some x \<Rightarrow> x | None \<Rightarrow> sm_operationId sm)) (registrations s1) of
        Some r \<Rightarrow> linkRegistration c batch sm m True r
      | None \<Rightarrow> bindA (db (registerOffline c batch payload m)) (linkRegistration c batch sm m False)) (s1, l) = (Inr out, (t, l'))"
    using run unfolding syncRegistration_def Let_def by (rule db_bind_Inr) simp
  have up: "m = ?m" "mappings s1 = mappings s @ [?m]" using upsert_new [OF m none] by auto
  obtain b r s2 where link: "linkRegistration c batch sm ?m b r (s2, l) = (Inr out, (t, l'))" "mappings s2 = mappings s1" "r \<in> set (registrations s2)"
  proof (cases "find_row (same_external batch (case getOptionalString payload ''externalId'' of Some x \<Rightarrow> x | None \<Rightarrow> sm_operationId sm)) (registrations s1)")
    case None
    then obtain r s2 where "registerOffline c batch payload ?m s1 = (Inr r, s2)" "linkRegistration c batch sm ?m False r (s2, l) = (Inr out, (t, l'))"
      using rest up(1) by (auto elim: db_bind_Inr)
    moreover from this obtain dto where "create c dto s1 = (Inr r, s2)" using registerOffline_Inr by blast
    moreover from this have "grows s1 s2" using grows.within_result [OF grows_create] by blast
    moreover have "r \<in> set (registrations s2)" using created_in_table [OF \<open>create c dto s1 = (Inr r, s2)\<close>] .
    ultimately show ?thesis using that by (simp add: grows_def tables_def)
  next
    case (Some r)
    then show ?thesis using rest that [of True r s1] up(1) find_row_Some [OF Some] by simp
  qed
  obtain f qr q where l: "\<forall>x. linked x r (f x)" "mappings t = update_by mp_id ?i f (mappings s2)" "registrations t = registrations s2"
      "out = registration_answer (if b then ''RECOVERED_EXISTING'' else ''CREATED'') r sm True q qr"
    using link_Inr [OF link(1)] by (auto simp: new_mapping_def)
  have "mp_id x \<noteq> ?i" if "x \<in> set (mappings s)" for x
    using assms(1,2) that fresh_id_new [of c "next_id s" "map mp_id (mappings s)"]
    by (auto simp: sync_inv_def sync_tables_def image_iff)
  then have "mappings t = mappings s @ [f ?m]"
    unfolding l(2) link(2) up(2) by (auto simp: update_by_def update_rows_def new_mapping_def intro!: map_idI)
  then show thesis using that l link(3) by metis
qed


section \<open>A registration that was interrupted\<close>

lemma create_Inr:
  assumes "create c dto s = (Inr r, u)"
  obtains d event a p where "normalizeCreateDto dto = Inr d" "ensureEventCanBeModified (cd_eventId d) s = Inr event"
    "ensureAttendeeTypeCanBeUsed (cd_attendeeTypeId d) (cd_eventId d) s = Inr a"
    "validateCustomFields c (cd_eventId d) (cd_attendeeTypeId d) (case cd_customFields d of None \<Rightarrow> [] | Some fs \<Rightarrow> fs) None s = Inr ()"
    "r = registration_row c d p (cuid c (next_id s))" "registrations u = registrations s @ [r]" "events u = events s"
    "attendeeTypes u = attendeeTypes s" "regFields u = regFields s" "tables u = tables s"
    "devices u = devices s" "offlineKeys u = offlineKeys s"
proof -
  obtain d where d: "normalizeCreateDto dto = Inr d" "createNormalized c d no_options s = (Inr r, u)"
    using assms by (auto simp: create_def bindA_reads split: sum.splits)
  show thesis
    by (rule createNormalized_Inr [OF d(2)], simp add: no_options_def, simp add: no_options_def)
      (use d(1) in \<open>auto simp: no_options_def add_job_def tables_def append_row_def dest!: createOrThrow_Inr intro: that\<close>)
qed

lemma publicId_Inl: "generatePublicId c s = (Inl e, t) \<Longrightarrow> \<exists>m. e = Conflict m"
proof -
  have "generatePublicId_loop n c s = (Inl e, t) \<Longrightarrow> \<exists>m. e = Conflict m" for n s
    by (induction n arbitrary: s) (auto simp: throw_def bindA_def draw_def gets_def ret_def split: if_splits)
  then show "generatePublicId c s = (Inl e, t) \<Longrightarrow> \<exists>m. e = Conflict m" by (simp add: generatePublicId_def)
qed

lemma createOrThrow_taken:
  assumes "r \<in> set (registrations u)" and "rg_eventId r = cd_eventId d" and "rg_phone r = cd_phone d" and "cd_phone d \<noteq> None"
  shows "\<exists>m v. createRegistrationOrThrowConflict c d u = (Inl (Conflict m), v)"
proof (cases "generatePublicId c u")
  case (Pair res w)
  show ?thesis
  proof (cases res)
    case (Inl e)
    then obtain m where "e = Conflict m" using publicId_Inl Pair by blast
    then show ?thesis
      using Pair Inl by (simp add: createRegistrationOrThrowConflict_def catch_def bindA_fail throw_def throwConflictForUniqueConstraint_def)
  next
    case (Inr p)
    then obtain k where "w = u\<lparr>next_rand := k\<rparr>" using generatePublicId_Inr [of c u p w] Pair by blast
    moreover have "exists_row (collides (registration_row c d p i)) (registrations u)" for i
      using assms by (auto simp: exists_row_iff collides_def same_value_def registration_row_def intro!: bexI [of _ r])
    ultimately show ?thesis
      using Pair Inr
      by (simp add: createRegistrationOrThrowConflict_def catch_def bindA_done create_registration_def)
        (simp add: bindA_def new_id_def gets_def throw_def throwConflictForUniqueConstraint_def)
  qed
qed

lemma create_again:
  assumes "create c dto s = (Inr r, u)"
  shows "\<exists>m v. create (c\<lparr>now := n\<rparr>) dto u = (Inl (Conflict m), v)"
proof -
  obtain d event a p where d: "normalizeCreateDto dto = Inr d" "ensureEventCanBeModified (cd_eventId d) s = Inr event"
    "ensureAttendeeTypeCanBeUsed (cd_attendeeTypeId d) (cd_eventId d) s = Inr a"
    "validateCustomFields c (cd_eventId d) (cd_attendeeTypeId d) (case cd_customFields d of None \<Rightarrow> [] | Some fs \<Rightarrow> fs) None s = Inr ()"
    "r = registration_row c d p (cuid c (next_id s))" "registrations u = registrations s @ [r]" "events u = events s"
    "attendeeTypes u = attendeeTypes s" "regFields u = regFields s"
    by (rule create_Inr [OF assms]) blast
  have "validateCustomFieldValue (c\<lparr>now := n\<rparr>) f v = validateCustomFieldValue c f v" for f v
    by (cases "rf_type f"; cases v) (simp_all add: validateCustomFieldValue_def)
  then have each: "each_field (c\<lparr>now := n\<rparr>) fs fields = each_field c fs fields" for fs fields
    by (induction fields) (simp_all add: Let_def)
  have guards: "ensureEventCanBeModified (cd_eventId d) u = Inr event" "ev_id event = cd_eventId d"
    "ensureAttendeeTypeCanBeUsed (cd_attendeeTypeId d) (cd_eventId d) u = Inr a"
    "validateCustomFields (c\<lparr>now := n\<rparr>) (cd_eventId d) (cd_attendeeTypeId d) (case cd_customFields d of None \<Rightarrow> [] | Some fs \<Rightarrow> fs) None u = Inr ()"
    using d(2-4,7-9)
    by (auto simp: ensureEventCanBeModified_def ensureAttendeeTypeCanBeUsed_def validateCustomFields_def each find_defs
          split: option.splits if_splits dest: lookup_by_Some)
  have "cd_phone d \<noteq> None" using d(1) by (auto simp: normalizeCreate_Inr normal_rest_def)
  then obtain m v where taken: "createRegistrationOrThrowConflict (c\<lparr>now := n\<rparr>) d u = (Inl (Conflict m), v)"
    using createOrThrow_taken [of r u d "c\<lparr>now := n\<rparr>"] d(5,6) by (auto simp: registration_row_def)
  have "ensureDuplicateAllowed event (cd_eventId d) (cd_phone d) (cd_email d) (cd_externalId d) None u = Inr () \<or>
      ensureDuplicateAllowed event (cd_eventId d) (cd_phone d) (cd_email d) (cd_externalId d) None u = Inl (Conflict ''Duplicate registration for this event'')"
    by (simp add: ensureDuplicateAllowed_def Let_def guard_def)
  then show ?thesis
    using guards taken by (elim disjE) (simp_all add: create_def bindA_reads d(1) createNormalized_def no_options_def bindA_fail)
qed

text \<open>C17: An offline registration that was interrupted after its registration was stored, before its token and
  mapping were, is lost to its device: the recovery searches the operation id among the external ids,
  where it was not stored, so the next submission collides with the registration of the first. It is
  answered as a permanent conflict, \<open>DUPLICATE_REGISTRATION\<close>, and its mapping becomes \<open>CONFLICTED\<close>.\<close>

theorem interrupted_registration_refused:
  assumes "getOptionalString (od_payload o') ''externalId'' = None"
    and dto: "offline_create_dto batch (od_payload o') = Inr dto" and crash: "create c dto s = (Inr r, u)"
    and sm: "read_submission (c\<lparr>now := n\<rparr>) batch (od_payload o') u = Inr sm"
    and m: "findExistingOfflineMapping (bd_eventId batch) (bd_deviceId batch) (sm_operationId sm) (sm_localId sm) (sm_offlineQrToken sm) s = Some m"
      "find_row (same_operation (bd_deviceId batch) (bd_eventId batch) (sm_operationId sm)) (mappings s) = Some m"
      "lookup_by mp_id (mp_id m) (mappings s) = Some m" "mp_registrationId m = None"
      "mp_offlineQrToken m = sm_offlineQrToken sm" "mp_payloadHash m = vq_payloadHash (sm_verified sm)"
    and fresh: "\<not> exists_row (same_external batch (sm_operationId sm)) (registrations s)"
  shows "\<exists>msg v. runOfflineRegistration (c\<lparr>now := n\<rparr>) o' batch (u, l) = (Inl (Conflict msg), (v, l)) \<and>
    registrations v = registrations s @ [r] \<and> lookup_by mp_id (mp_id m) (mappings v) = Some (failed_mapping (Conflict msg) m) \<and>
    er_code (classifySyncOperationError (Conflict msg)) = ''DUPLICATE_REGISTRATION'' \<and>
    \<not> er_retryable (classifySyncOperationError (Conflict msg))"
proof -
  let ?c = "c\<lparr>now := n\<rparr>"
  obtain d p where d: "normalizeCreateDto dto = Inr d" "r = registration_row c d p (cuid c (next_id s))"
      "registrations u = registrations s @ [r]" "tables u = tables s"
    by (rule create_Inr [OF crash]) blast
  have maps: "mappings u = mappings s" using d(4) by (simp add: tables_def)
  have "cd_externalId dto = None" using dto assms(1) by (auto simp: offline_create_dto_def bindE_Inr_iff)
  then have "rg_externalId r = None"
    using d(1,2) by (auto simp: normalizeCreate_Inr normal_rest_def normalizeOptionalString_def registration_row_def)
  then have none: "find_row (same_external batch (sm_operationId sm)) (registrations u) = None"
    using fresh unfolding find_row_None d(3) by (auto simp: exists_row_iff same_external_def)
  obtain msg v where again: "create ?c dto u = (Inl (Conflict msg), v)" using create_again [OF crash] by blast
  then have v: "registrations v = registrations u" "mappings v = mappings u"
    using create_Inl grows.within_result [OF grows_create again] by (simp_all add: grows_def tables_def)
  let ?v = "v\<lparr>mappings := update_by mp_id (mp_id m) (failed_mapping (Conflict msg)) (mappings v)\<rparr>"
  have found: "lookup_by mp_id (mp_id m) (mappings v) = Some m" using m(3) v maps by simp
  then have reg: "registerOffline ?c batch (od_payload o') m u = (Inl (Conflict msg), ?v)"
    using dto again
    by (simp add: registerOffline_def catch_def bindA_reads update_mapping_def bindA_gets bindA_modify throw_def)
      (simp add: bindA_def gets_def modify_def throw_def)
  have ex: "findExistingOfflineMapping (bd_eventId batch) (bd_deviceId batch) (sm_operationId sm) (sm_localId sm) (sm_offlineQrToken sm) u = Some m"
    using m(1) by (simp add: findExistingOfflineMapping_def maps)
  have "runOfflineRegistration ?c o' batch (u, l) = syncRegistration ?c batch (od_payload o') sm (u, l)"
    using sm ex m(4-6) by (simp add: runOfflineRegistration_def Let_def db_def bindA_def reads_def gets_def)
  also have "\<dots> = bindA (db (registerOffline ?c batch (od_payload o') m)) (linkRegistration ?c batch sm m False) (u, l)"
    using m(2) none assms(1)
    by (simp add: syncRegistration_def Let_def upsert_mapping_def maps) (simp add: bindA_def db_def gets_def ret_def maps none)
  also have "\<dots> = (Inl (Conflict msg), (?v, l))" by (simp add: bindA_def db_def reg)
  finally have run: "runOfflineRegistration ?c o' batch (u, l) = (Inl (Conflict msg), (?v, l))" .
  have "lookup_by mp_id (mp_id m) (mappings ?v) = Some (failed_mapping (Conflict msg) m)"
    using found rows.lookup_updated [of mp_id "failed_mapping (Conflict msg)" "mp_id m" "mappings v" m]
    by (simp add: failed_mapping_def)
  moreover have "er_code (classifySyncOperationError (Conflict msg)) = ''DUPLICATE_REGISTRATION''"
      "\<not> er_retryable (classifySyncOperationError (Conflict msg))"
    by (simp_all add: classifySyncOperationError_def getResponse_def obj_get_def)
  ultimately show ?thesis using run v(1) d(3) by auto
qed

end
