(* ===== verification/SyncSample.thy ===== *)
theory SyncSample
  imports SyncOffline
begin

text \<open>The theorems on synchronisation at a concrete store, with a device that submits one operation.\<close>

section \<open>The store\<close>

definition sync_registration :: registration where
  "sync_registration = sample_registration\<lparr>rg_id := ''c0'', rg_externalId := Some ''o''\<rparr>"

definition sync_qr :: qr_token where
  "sync_qr = sample_qr_row\<lparr>qr_registrationId := ''c0'', qr_status := QR_ACTIVE\<rparr>"

definition sync_store :: store where
  "sync_store = sample_regs\<lparr>registrations := [sync_registration], qrTokens := [sync_qr], offlineKeys := [sample_key], next_id := 1\<rparr>"

lemma sync_cuid: "cuid sample_env 0 = ''c0''" "cuid sample_env k \<noteq> []"
  by code_simp (simp add: sample_env_def)

lemma sync_store_inv: "sync_inv sample_env sync_store"
  using sync_cuid(1)
  by (auto simp: sync_inv_def reg_inv_def reg_rows_def sync_tables_def fresh_ids_def sync_store_def sample_regs_def
        empty_store_def sync_registration_def)

text \<open>The token of the registration exists, so that \<open>generate\<close> gives it wherever these tables are the same.\<close>

definition sync_same :: "store \<Rightarrow> bool" where
  "sync_same s = (registrations s = [sync_registration] \<and> qrTokens s = [sync_qr] \<and> events s = [sample_event] \<and>
     attendeeTypes s = [sample_type])"

definition sync_response :: qr_response where
  "sync_response = (case formatQrToken sample_env sync_qr of Inr f \<Rightarrow> f)"

lemma sync_generate:
  assumes "sync_same s"
  shows "generate (sample_env\<lparr>now := n\<rparr>) ''c0'' s = (Inr sync_response, s)" "generate sample_env ''c0'' s = (Inr sync_response, s)"
proof -
  have "id_text (qr_tokenId sync_qr)" using sample_revoked_ok(5) by (simp add: sync_qr_def)
  then have f: "formatQrToken sample_env sync_qr = Inr sync_response"
    using format_ok [of sync_qr sample_env] by (simp add: sync_response_def)
  have "find_qr_by_registration ''c0'' s = Some sync_qr" "qr_status sync_qr = QR_ACTIVE"
      "findRegistrationWithRelations ''c0'' s = Inr (sync_registration, sample_event, sample_type)"
      "ev_status sample_event \<noteq> EV_ARCHIVED"
    using assms by (simp_all add: sync_same_def find_defs lookup_by_def findRegistrationWithRelations_def sync_qr_def
        sync_registration_def sample_registration_def sample_event_def sample_type_def)
  from generate_active [OF this] f
  show "generate (sample_env\<lparr>now := n\<rparr>) ''c0'' s = (Inr sync_response, s)" "generate sample_env ''c0'' s = (Inr sync_response, s)"
    by simp_all
qed

section \<open>A batch with one operation\<close>

definition sync_op_dto :: op_dto where
  "sync_op_dto = \<lparr>od_operationId = ''g'', od_type = QR_GENERATION, od_payload = [(''registrationId'', JStr ''c0'')]\<rparr>"

definition sync_batch_dto :: batch_dto where
  "sync_batch_dto = \<lparr>bd_batchId = ''b'', bd_eventId = ''e1'', bd_deviceId = ''d1'', bd_staffSessionId = None,
     bd_operations = [sync_op_dto]\<rparr>"

lemma sync_guards:
  "ensureEventCanBeModified ''e1'' sync_store = Inr sample_event"
  "ensureActiveDevice ''d1'' ''e1'' sync_store = Inr sample_device"
  "ensureActiveStaffSession None ''e1'' sync_store = Inr None"
  "lookup_by sb_batchId ''b'' (syncBatches sync_store) = None"
  by (simp_all add: ensureEventCanBeModified_def ensureActiveDevice_def ensureActiveStaffSession_def find_defs lookup_by_def
        sync_store_def sample_regs_def empty_store_def sample_event_def sample_device_def)

lemma sync_submitted:
  "\<exists>b t. submitBatch sample_env ser sync_batch_dto sync_store = (Inr (False, b), t)"
proof -
  have get: "getOptionalString [(''registrationId'', JStr ''c0'')] ''registrationId'' = Some ''c0''" by code_simp
  have run: "runOperation sample_env sync_op_dto batch (s, l) = (Inr (OutQr sync_response), (s, l))" if "sync_same s" for s l batch
    using sync_generate(2) [OF that] by (simp add: runOperation_def sync_op_dto_def get bindA_def db_def ret_def)
  have none: "findDuplicateOperationIds [''g''] sync_store = {}"
    by (simp add: findDuplicateOperationIds_def sync_store_def sample_regs_def empty_store_def)
  let ?b = "received_batch sync_batch_dto 0 (cuid sample_env (Suc 0))"
  let ?o = "\<lparr>so_id = cuid sample_env (Suc (Suc 0)), so_syncBatchId = cuid sample_env (Suc 0), so_operationId = ''g'', so_type = QR_GENERATION,
         so_status = OP_PENDING, so_input = JObj [(''registrationId'', JStr ''c0'')], so_output = JNull, so_errorCode = None,
         so_errorMessage = None, so_processedAt = None, so_createdAt = 1000\<rparr>"
  let ?s1 = "sync_store\<lparr>syncBatches := [?b], syncOps := [?o], next_id := Suc (Suc (Suc 0))\<rparr>"
  have e: "syncBatches sync_store = []" "syncOps sync_store = []" "next_id sync_store = Suc 0" "now sample_env = 1000"
    by (simp_all add: sync_store_def sample_regs_def empty_store_def sample_env_def)
  have d: "bd_operations sync_batch_dto = [sync_op_dto]" "bd_batchId sync_batch_dto = ''b''" "bd_eventId sync_batch_dto = ''e1''"
      "bd_deviceId sync_batch_dto = ''d1''" "bd_staffSessionId sync_batch_dto = None" "od_operationId sync_op_dto = ''g''"
      "od_type sync_op_dto = QR_GENERATION" "od_payload sync_op_dto = [(''registrationId'', JStr ''c0'')]"
    by (simp_all add: sync_batch_dto_def sync_op_dto_def)
  have b: "sb_id ?b = cuid sample_env (Suc 0)" "sb_batchId ?b = ''b''" by (simp_all add: received_batch_def d)
  have new: "create_batch sample_env sync_batch_dto {} sync_store = (Inr ?b, ?s1)"
    by (simp add: create_batch_def create_batch_row_def create_op_def transaction_def bindA_def new_id_def gets_def modify_def
          ret_def append_row_def e d b lookup_by_def Let_def)
  have same: "sync_same (?s1\<lparr>syncBatches := bs\<rparr>)" for bs
    by (simp add: sync_same_def sync_store_def sample_regs_def empty_store_def)
  have "processBatch sample_env ser (cuid sample_env (Suc 0)) sync_batch_dto {} ?s1 = (Inr b, t) \<Longrightarrow> ?thesis" for b t
    using new none sync_guards
    by (simp add: submitBatch_def d bindA_gets bindA_reads) (simp add: bindA_def b ret_def)
  moreover have "\<exists>b t. processBatch sample_env ser (cuid sample_env (Suc 0)) sync_batch_dto {} ?s1 = (Inr b, t)"
    using run [OF same]
    by (simp add: processBatch_def update_batch_def bindA_gets bindA_modify lookup_by_def b d sortOperations_def)
      (simp add: processOne_def processOperation_def bindA_def ret_def modify_def gets_def db_def catch_def lookup_by_def d
        update_op_def update_by_def update_rows_def b)
  ultimately show ?thesis by blast
qed

lemma sync_keeps_tables_witness:
  "sync_inv sample_env (snd (submitBatch sample_env (\<lambda>_. JNull) sync_batch_dto sync_store)) \<and>
   sync_inv sample_env (snd (recoverFailedOfflineRegistrations sample_env (\<lambda>_. JNull)
     \<lparr>rv_eventId = None, rv_deviceId = None, rv_limit = None, rv_dryRun = False\<rparr> sync_store))"
  by (rule sync_keeps_tables [OF sample_laws(1) sync_store_inv])

lemma every_operation_answered_witness:
  "\<exists>b t. submitBatch sample_env (\<lambda>_. JNull) sync_batch_dto sync_store = (Inr (False, b), t) \<and>
     sb_processedCount b + sb_failedCount b + sb_duplicateCount b = 1"
proof -
  obtain b t where run: "submitBatch sample_env (\<lambda>_. JNull) sync_batch_dto sync_store = (Inr (False, b), t)"
    using sync_submitted by blast
  have "length (bd_operations sync_batch_dto) = 1" by (simp add: sync_batch_dto_def)
  then show ?thesis using every_operation_answered [OF run] run by auto
qed

lemma batch_processed_once_witness:
  "\<exists>b t. submitBatch sample_env (\<lambda>_. JNull) sync_batch_dto sync_store = (Inr (False, b), t) \<and>
     submitBatch sample_env (\<lambda>_. JNull) (sync_batch_dto\<lparr>bd_operations := []\<rparr>) t = (Inr (True, b), t)"
proof -
  obtain b t where run: "submitBatch sample_env (\<lambda>_. JNull) sync_batch_dto sync_store = (Inr (False, b), t)"
    using sync_submitted by blast
  from batch_processed_once [OF sample_laws(1) sync_store_inv run] run show ?thesis by simp
qed

text \<open>The operation was executed in an earlier batch.\<close>

definition sync_done :: sync_op where
  "sync_done = \<lparr>so_id = ''c0'', so_syncBatchId = ''b0'', so_operationId = ''g'', so_type = QR_GENERATION,
     so_status = OP_PROCESSED, so_input = JObj [], so_output = JStr ''done'', so_errorCode = None,
     so_errorMessage = None, so_processedAt = Some 900, so_createdAt = 900\<rparr>"

lemma settled_operations_replayed_witness:
  "\<exists>b t. submitBatch sample_env (\<lambda>_. JNull) sync_batch_dto (sync_store\<lparr>syncOps := [sync_done]\<rparr>) = (Inr (False, b), t) \<and>
     sb_result b = batch_result [output_result ''g'' OP_DUPLICATE (JStr ''done'')]"
proof -
  let ?s = "sync_store\<lparr>syncOps := [sync_done]\<rparr>"
  have inv: "sync_inv sample_env ?s"
    using sync_store_inv sync_cuid(1)
    by (auto simp: sync_inv_def reg_inv_def sync_tables_def fresh_ids_def sync_store_def sync_done_def)
  have guards: "lookup_by sb_batchId (bd_batchId sync_batch_dto) (syncBatches ?s) = None"
      "ensureEventCanBeModified (bd_eventId sync_batch_dto) ?s = Inr sample_event"
      "ensureActiveDevice (bd_deviceId sync_batch_dto) (bd_eventId sync_batch_dto) ?s = Inr sample_device"
      "ensureActiveStaffSession (bd_staffSessionId sync_batch_dto) (bd_eventId sync_batch_dto) ?s = Inr None"
    using sync_guards
    by (simp_all add: sync_batch_dto_def ensureEventCanBeModified_def ensureActiveDevice_def ensureActiveStaffSession_def find_defs)
  have one: "bd_operations sync_batch_dto = [sync_op_dto]" "od_operationId sync_op_dto = ''g''" by (simp_all add: sync_batch_dto_def sync_op_dto_def)
  have found: "lookup_by so_operationId ''g'' (syncOps ?s) = Some sync_done" "settled sync_done"
      "stored_answer sync_done = output_result ''g'' OP_DUPLICATE (JStr ''done'')"
    by (simp_all add: lookup_by_def sync_done_def settled_def stored_answer_def)
  from settled_operations_replayed [OF inv sample_laws(1) guards, of "\<lambda>_. JNull"] one found
  show ?thesis by (auto simp: sortOperations_def)
qed

section \<open>An offline registration\<close>

definition sync_badge :: string where
  "sync_badge = (let b = compact_badge ''e1'' ''d1'' 1 ''o'' ''t'' ''t1'' 1 2 in badge_text b (''PK'' @ encode_json b))"

definition sync_payload :: fields where
  "sync_payload = [(''signedOfflineQr'', JStr sync_badge), (''offlineRegistrationOperationId'', JStr ''o''),
     (''offlineRegistrationId'', JStr ''l''), (''offlineQrToken'', JStr ''t''), (''eventId'', JStr ''e1''),
     (''attendeeTypeId'', JStr ''t1''), (''fullName'', JStr ''Ann''), (''phone'', JStr ''123'')]"

definition sync_register :: op_dto where
  "sync_register = \<lparr>od_operationId = ''o'', od_type = OFFLINE_REGISTRATION, od_payload = sync_payload\<rparr>"

definition trusts :: "store \<Rightarrow> bool" where
  "trusts s = (devices s = [sample_device] \<and> offlineKeys s = [sample_key])"

lemma sync_badge_checked:
  "\<exists>v. (\<forall>s. trusts s \<longrightarrow> verifySignedOfflineQr sample_env sync_badge (Some ''e1'') s = Inr v) \<and>
    vq_payload v = compact_fields sample_env ''e1'' ''d1'' 1 ''o'' ''t'' ''t1'' 1 2"
proof -
  have "\<exists>v. verifySignedOfflineQr sample_env sync_badge (Some ''e1'') sync_store = Inr v \<and>
      vq_payload v = compact_fields sample_env ''e1'' ''d1'' 1 ''o'' ''t'' ''t1'' 1 2"
    unfolding sync_badge_def Let_def
  proof (rule badge_accepted)
    show "find_device ''d1'' sync_store = Some sample_device" "find_key ''d1'' 1 sync_store = Some sample_key"
      by (simp_all add: sync_store_def sample_regs_def find_defs lookup_by_def sample_device_def find_key_def is_key_def sample_key_def)
    show "list_all (\<lambda>t. \<not> blank t) [''e1'', ''d1'', ''o'', ''t'', ''t1'']" by code_simp
  qed (simp_all add: sample_device_def sample_key_def key_covers_def sample_env_def valid_time_def
         sample_laws [unfolded sample_env_def])
  then obtain v where v: "verifySignedOfflineQr sample_env sync_badge (Some ''e1'') sync_store = Inr v"
      "vq_payload v = compact_fields sample_env ''e1'' ''d1'' 1 ''o'' ''t'' ''t1'' 1 2" by blast
  have "verifySignedOfflineQr sample_env sync_badge (Some ''e1'') s = Inr v" if "trusts s" for s
  proof -
    have "find_device i s = find_device i sync_store" "find_key i w s = find_key i w sync_store" for i w
      using that by (simp_all add: trusts_def find_device_def find_key_def sync_store_def sample_regs_def)
    then show ?thesis using v(1) unfolding verifyOffline_Inr by simp
  qed
  then show ?thesis using v(2) by blast
qed

lemma blank_spaces: "blank s \<Longrightarrow> x \<in> set s \<Longrightarrow> is_space x"
proof -
  assume b: "blank s" and x: "x \<in> set s"
  have "trim_left s = []"
  proof (rule ccontr)
    assume ne: "trim_left s \<noteq> []"
    then have "\<not> is_space (hd (trim_left s))" unfolding trim_left_def by (rule hd_dropWhile)
    moreover have "\<forall>y \<in> set (rev (trim_left s)). is_space y"
      using b by (simp add: blank_def trim_def trim_left_def)
    ultimately show False using ne by simp
  qed
  then show "is_space x" using x by (simp add: trim_left_def)
qed

lemma sync_badge_text: "\<not> blank sync_badge"
proof -
  have "CHR ''.'' \<in> set sync_badge" by (simp add: sync_badge_def badge_text_def Let_def)
  then show ?thesis using blank_spaces [of sync_badge "CHR ''.''"] by (auto simp: is_space_def)
qed

definition sync_submission :: submission where
  "sync_submission = (case read_submission sample_env sync_batch_dto sync_payload sync_store of Inr sm \<Rightarrow> sm)"

lemma sync_submission:
  "\<And>s. trusts s \<Longrightarrow> read_submission sample_env sync_batch_dto sync_payload s = Inr sync_submission"
  "sm_operationId sync_submission = ''o''" "sm_localId sync_submission = ''l''" "sm_offlineQrToken sync_submission = ''t''"
proof -
  obtain v where v: "\<And>s. trusts s \<Longrightarrow> verifySignedOfflineQr sample_env sync_badge (Some ''e1'') s = Inr v"
    "vq_payload v = compact_fields sample_env ''e1'' ''d1'' 1 ''o'' ''t'' ''t1'' 1 2"
    using sync_badge_checked by metis
  have "\<not> blank ''o''" "\<not> blank ''l''" "\<not> blank ''t''" "\<not> blank ''e1''" "\<not> blank ''t1''" by code_simp+
  then have get: "getString sync_payload ''signedOfflineQr'' = Inr sync_badge"
      "getString sync_payload ''offlineRegistrationOperationId'' = Inr ''o''" "getString sync_payload ''offlineRegistrationId'' = Inr ''l''"
      "getString sync_payload ''offlineQrToken'' = Inr ''t''" "getString sync_payload ''eventId'' = Inr ''e1''"
      "getString sync_payload ''attendeeTypeId'' = Inr ''t1''"
    using sync_badge_text by (simp_all add: getString_def sync_payload_def obj_get_def)
  let ?sm = "\<lparr>sm_signedOfflineQr = sync_badge, sm_verified = v, sm_operationId = ''o'', sm_localId = ''l'', sm_offlineQrToken = ''t''\<rparr>"
  have "assertOfflineRegistrationPayloadMatchesQr sync_payload (vq_payload v) = Inr ()"
    by (simp add: assertOfflineRegistrationPayloadMatchesQr_def v(2) compact_fields_def obj_get_def get)
  moreover have "str_field (vq_payload v) ''issuerDeviceId'' = ''d1''"
    by (simp add: v(2) compact_fields_def str_field_def obj_get_def str_of_def)
  ultimately have r: "read_submission sample_env sync_batch_dto sync_payload s = Inr ?sm" if "trusts s" for s
    using v(1) [OF that] by (simp add: read_submission_def get sync_batch_dto_def)
  have "trusts sync_store" by (simp add: trusts_def sync_store_def sample_regs_def)
  then have sm: "sync_submission = ?sm" using r by (simp add: sync_submission_def)
  show "\<And>s. trusts s \<Longrightarrow> read_submission sample_env sync_batch_dto sync_payload s = Inr sync_submission"
    "sm_operationId sync_submission = ''o''" "sm_localId sync_submission = ''l''" "sm_offlineQrToken sync_submission = ''t''"
    unfolding sm by (rule r) simp_all
qed

lemma sync_first_run:
  "\<exists>out t l. runOfflineRegistration sample_env sync_register sync_batch_dto (sync_store, \<lambda>_. None) = (Inr (OutRegistration out), (t, l)) \<and>
     trusts t"
proof -
  let ?m = "new_mapping sync_batch_dto sync_submission (cuid sample_env (Suc 0))"
  let ?s1 = "sync_store\<lparr>next_id := Suc (Suc 0), mappings := [?m]\<rparr>"
  have same: "sync_same ?s1" "sync_same (?s1\<lparr>mappings := ms\<rparr>)" for ms
    by (simp_all add: sync_same_def sync_store_def sample_regs_def empty_store_def)
  have e: "mappings sync_store = []" "next_id sync_store = Suc 0" "registrations sync_store = [sync_registration]" "jobs sync_store = []"
      "trusts sync_store" "queue_up sample_env" "rg_id sync_registration = ''c0''"
    by (simp_all add: sync_store_def sample_regs_def empty_store_def trusts_def sample_env_def sync_registration_def)
  have ext: "getOptionalString sync_payload ''externalId'' = None" by (simp add: getOptionalString_def sync_payload_def obj_get_def)
  have found: "same_external sync_batch_dto ''o'' sync_registration"
    by (simp add: same_external_def sync_batch_dto_def sync_registration_def sample_registration_def)
  have up: "upsert_mapping sample_env (new_mapping sync_batch_dto sync_submission) d ev opid sync_store = (Inr ?m, ?s1)" for d ev opid
    by (simp add: upsert_mapping_def bindA_def new_id_def gets_def modify_def ret_def e exists_row_def append_row_def)
  have "\<exists>out t l. linkRegistration sample_env sync_batch_dto sync_submission ?m True sync_registration (?s1, \<lambda>_. None) =
      (Inr (OutRegistration out), (t, l)) \<and> trusts t"
    using sync_generate(2) [OF same(1)] e(5,6)
    by (simp add: linkRegistration_def bindA_def db_def e gets_def update_mapping_def lookup_by_def modify_def set_local_def
          enqueueOfflineReconciliation_def ret_def registration_answer_def trusts_def add_job_def)
  then show ?thesis
    using sync_submission(1) [OF e(5)] up
    by (simp add: runOfflineRegistration_def sync_register_def syncRegistration_def ext sync_submission(2) Let_def
          bindA_def db_def reads_def gets_def e findExistingOfflineMapping_def found)
qed


text \<open>The server stops after the registration was stored: its mapping is still pending.\<close>

definition sync_pending :: mapping_row where
  "sync_pending = new_mapping sync_batch_dto sync_submission ''c0''"

definition sync_crash :: store where
  "sync_crash = sync_store\<lparr>registrations := [], qrTokens := [], mappings := [sync_pending]\<rparr>"

lemma sync_crash_created:
  "\<exists>dto r u. offline_create_dto sync_batch_dto sync_payload = Inr dto \<and> create sample_env dto sync_crash = (Inr r, u)"
proof -
  have nb: "\<not> blank ''t1''" "\<not> blank ''Ann''" "\<not> blank ''123''" "trim ''Ann'' = ''Ann''" "trim ''123'' = ''123''"
    and up: "to_upper ''REJECT'' = ''REJECT''" by code_simp+
  let ?dto = "\<lparr>cd_eventId = ''e1'', cd_attendeeTypeId = ''t1'', cd_fullName = ''Ann'', cd_phone = Some ''123'', cd_email = None,
     cd_companyName = None, cd_jobTitle = None, cd_externalId = None, cd_customFields = None, cd_notes = None,
     cd_source = Some SRC_OFFLINE_DEVICE\<rparr>"
  have dto: "offline_create_dto sync_batch_dto sync_payload = Inr ?dto"
    by (simp add: offline_create_dto_def getString_def getOptionalString_def getOptionalRecord_def sync_payload_def obj_get_def
          nb sync_batch_dto_def)
  have n: "normalizeCreateDto ?dto = Inr ?dto"
    by (simp add: normalizeCreateDto_def normalizeRequiredString_def normalizeOptionalStringToNull_def nb normal_rest_def
          normalizeOptionalString_def)
  have e: "ensureEventCanBeModified ''e1'' sync_crash = Inr sample_event" "ev_id sample_event = ''e1''"
      "ensureAttendeeTypeCanBeUsed ''t1'' ''e1'' sync_crash = Inr sample_type"
      "ensureDuplicateAllowed sample_event ''e1'' ph em ex None sync_crash = Inr ()"
      "validateCustomFields sample_env ''e1'' ''t1'' [] None sync_crash = Inr ()"
      "registrations sync_crash = []" "find_attendee_type ''t1'' sync_crash \<noteq> None" for ph em ex
    by (simp_all add: sync_crash_def sync_store_def sample_regs_def empty_store_def find_defs lookup_by_def sample_event_def
          sample_type_def ensureEventCanBeModified_def ensureAttendeeTypeCanBeUsed_def ensureDuplicateAllowed_def up
          duplicateChecks_def validateCustomFields_def Let_def exists_row_def)
  obtain r t where "createRegistrationOrThrowConflict sample_env ?dto sync_crash = (Inr r, t)"
    using createOrThrow_empty [of sync_crash ?dto sample_env] e by auto
  then have "\<exists>r u. create sample_env ?dto sync_crash = (Inr r, u)"
    by (simp add: create_def bindA_reads n createNormalized_def no_options_def e bindA_done enqueueRegistrationPipeline_def
          bindA_modify ret_def)
  with dto show ?thesis by blast
qed

lemma interrupted_registration_refused_witness:
  "\<exists>dto r u msg v. create sample_env dto sync_crash = (Inr r, u) \<and>
     runOfflineRegistration sample_env sync_register sync_batch_dto (u, \<lambda>_. None) = (Inl (Conflict msg), (v, \<lambda>_. None)) \<and>
     map_option mp_status (lookup_by mp_id ''c0'' (mappings v)) = Some MAP_CONFLICTED"
proof -
  obtain dto r u where c: "offline_create_dto sync_batch_dto sync_payload = Inr dto" "create sample_env dto sync_crash = (Inr r, u)"
    using sync_crash_created by blast
  have "trusts sync_crash" by (simp add: trusts_def sync_crash_def sync_store_def sample_regs_def)
  then have "trusts u" by (auto simp: trusts_def intro: create_Inr [OF c(2)])
  have p: "od_payload sync_register = sync_payload" by (simp add: sync_register_def)
  have now: "sample_env\<lparr>now := 1000\<rparr> = sample_env" by (simp add: sample_env_def)
  have ext: "getOptionalString (od_payload sync_register) ''externalId'' = None"
    by (simp add: p getOptionalString_def sync_payload_def obj_get_def)
  have m: "mp_id sync_pending = ''c0''" "same_operation ''d1'' ''e1'' ''o'' sync_pending" "mp_eventId sync_pending = ''e1''"
      "mp_registrationId sync_pending = None" "mp_offlineQrToken sync_pending = sm_offlineQrToken sync_submission"
      "mp_payloadHash sync_pending = vq_payloadHash (sm_verified sync_submission)"
      "bd_deviceId sync_batch_dto = ''d1''" "bd_eventId sync_batch_dto = ''e1''"
    by (simp_all add: sync_pending_def new_mapping_def same_operation_def sync_submission(2) sync_batch_dto_def)
  have t: "mappings sync_crash = [sync_pending]" "registrations sync_crash = []" by (simp_all add: sync_crash_def)
  have sub: "read_submission (sample_env\<lparr>now := 1000\<rparr>) sync_batch_dto (od_payload sync_register) u = Inr sync_submission"
    unfolding now p by (rule sync_submission(1)) fact
  obtain msg v where r: "runOfflineRegistration sample_env sync_register sync_batch_dto (u, \<lambda>_. None) = (Inl (Conflict msg), (v, \<lambda>_. None))"
      "lookup_by mp_id ''c0'' (mappings v) = Some (failed_mapping (Conflict msg) sync_pending)"
    using interrupted_registration_refused [OF ext c(1) [folded p] c(2) sub, of sync_pending "\<lambda>_. None", unfolded now]
    by (auto simp: findExistingOfflineMapping_def t m sync_submission(2) lookup_by_def exists_row_def)
  have "map_option mp_status (lookup_by mp_id ''c0'' (mappings v)) = Some MAP_CONFLICTED"
    using r(2) by (simp add: failed_mapping_def permanent_failure_def)
  with c(2) r(1) show ?thesis by blast
qed

end
