(* ===== verification/Pagination.thy ===== *)
theory Pagination
  imports Prelude "HOL-Library.Product_Lexorder"
begin

text \<open>
  \<open>src/common/utils/pagination.util.ts\<close> and the query the list operations of the services share: a
  condition, an order, \<open>skip\<close> and \<open>take\<close>, and the count of all rows under the condition. Rows that
  the order does not separate come in insertion order; the database may return them in any order.
\<close>

record page_query =
  pg_page :: "int option"
  pg_limit :: "int option"

definition normalizePagination :: "page_query \<Rightarrow> int \<times> int \<times> int" where
  "normalizePagination query =
    (let page = max (case pg_page query of None \<Rightarrow> 1 | Some p \<Rightarrow> p) 1;
         limit = min (max (case pg_limit query of None \<Rightarrow> 20 | Some l \<Rightarrow> l) 1) 100
     in (page, limit, (page - 1) * limit))"

record 'a paginated =
  pd_items :: "'a list"
  pd_total :: int
  pd_page :: int
  pd_limit :: int
  pd_pages :: int

text \<open>\<open>Math.ceil(total / limit)\<close>.\<close>

definition createPaginatedResponse :: "'a list \<Rightarrow> int \<Rightarrow> int \<Rightarrow> int \<Rightarrow> 'a paginated" where
  "createPaginatedResponse items totalRows page limit = \<lparr>pd_items = items, pd_total = totalRows,
     pd_page = page, pd_limit = limit, pd_pages = - ((- totalRows) div limit)\<rparr>"

definition find_page :: "('r \<Rightarrow> bool) \<Rightarrow> ('r \<Rightarrow> 'k::linorder) \<Rightarrow> page_query \<Rightarrow> 'r list \<Rightarrow> 'r paginated" where
  "find_page cond order query rows =
    (case normalizePagination query of (page, limit, skip) \<Rightarrow>
       createPaginatedResponse
         (take (nat limit) (drop (nat skip) (sort_key order (filter cond rows))))
         (int (count_rows cond rows)) page limit)"

text \<open>\<open>...(value ? { column: value } : {})\<close>.\<close>

definition if_given :: "string option \<Rightarrow> (string \<Rightarrow> bool) \<Rightarrow> bool" where
  "if_given v p = (case v of None \<Rightarrow> True | Some x \<Rightarrow> x = [] \<or> p x)"

lemma normalized:
  assumes "normalizePagination query = (page, limit, skip)"
  shows "1 \<le> page" "1 \<le> limit" "limit \<le> 100" "skip = (page - 1) * limit"
  using assms by (auto simp: normalizePagination_def Let_def split: option.splits)

lemma normalize_page:
  "normalizePagination \<lparr>pg_page = Some (1 + int k), pg_limit = l\<rparr> =
   (1 + int k, fst (snd (normalizePagination \<lparr>pg_page = None, pg_limit = l\<rparr>)),
    int k * fst (snd (normalizePagination \<lparr>pg_page = None, pg_limit = l\<rparr>)))"
  by (simp add: normalizePagination_def Let_def)

text \<open>Cutting a list into pieces of \<open>l\<close> elements.\<close>

lemma pieces: "concat (map (\<lambda>k. take l (drop (k * l) xs)) [0..<n]) = take (n * l) xs"
proof (induction n)
  case 0
  then show ?case by simp
next
  case (Suc n)
  then show ?case using take_add [of "n * l" l xs] by (simp add: add.commute)
qed

lemma ceiling_div:
  fixes n limit :: int
  assumes "1 \<le> limit"
  shows "n \<le> - ((- n) div limit) * limit" "(- ((- n) div limit) - 1) * limit < n"
proof -
  have "(- n) div limit * limit \<le> - n"
    using assms by (simp add: minus_mod_eq_div_mult [symmetric])
  then show "n \<le> - ((- n) div limit) * limit" by linarith
  have "- n < (- n) div limit * limit + limit"
    using assms pos_mod_bound [of limit "- n"] by (simp add: minus_mod_eq_div_mult [symmetric])
  then show "(- ((- n) div limit) - 1) * limit < n" by (simp add: algebra_simps)
qed

definition page_at :: "('r \<Rightarrow> bool) \<Rightarrow> ('r \<Rightarrow> 'k::linorder) \<Rightarrow> int option \<Rightarrow> 'r list \<Rightarrow> nat \<Rightarrow> 'r paginated" where
  "page_at cond order limit rows k = find_page cond order \<lparr>pg_page = Some (1 + int k), pg_limit = limit\<rparr> rows"



end
