(* ===== verification/Requests.thy ===== *)
theory Requests
  imports Schema Pagination
begin

text \<open>
  What the services share that create, change and list rows on request: the properties a request leaves
  out, the rows it names, the searches of the lists and the errors of the database client.

  In a change, \<open>None\<close> is a property that the request leaves out; for a nullable column \<open>Some None\<close> is null.
  Null for a required column, which the database client refuses, is left out. \<open>contains\<close>, an argument of
  the searches, is the database's comparison.
\<close>

definition or_kept :: "'a option \<Rightarrow> 'a \<Rightarrow> 'a" where
  "or_kept v old = (case v of None \<Rightarrow> old | Some x \<Rightarrow> x)"

text \<open>\<open>dto.column ?? row.column\<close> for a nullable column.\<close>

definition or_stored :: "'a option option \<Rightarrow> 'a option \<Rightarrow> 'a option" where
  "or_stored v old = (case v of Some (Some x) \<Rightarrow> Some x | _ \<Rightarrow> old)"

lemma or_kept_simps [simp]: "or_kept None old = old" "or_kept (Some x) old = x"
  and or_stored_simps [simp]: "or_stored (Some (Some y)) z = Some y" "or_stored None z = z"
    "or_stored (Some None) z = z"
  by (simp_all add: or_kept_def or_stored_def)

definition found :: "string \<Rightarrow> 'a option \<Rightarrow> 'a res" where
  "found what r = (case r of None \<Rightarrow> Inl (NotFound (what @ '' not found'')) | Some a \<Rightarrow> Inr a)"

lemma found_Inr [simp]: "found what r = Inr a \<longleftrightarrow> r = Some a"
  by (cases r) (auto simp: found_def)

definition foreign_key :: err where
  "foreign_key = OtherError ''Foreign key constraint failed''"

definition refers :: "('a \<Rightarrow> 'b option) \<Rightarrow> 'a option \<Rightarrow> bool" where
  "refers look r = (case r of None \<Rightarrow> True | Some i \<Rightarrow> look i \<noteq> None)"

text \<open>A nullable column under \<open>contains\<close>.\<close>

definition column_contains :: "(string \<Rightarrow> string \<Rightarrow> bool) \<Rightarrow> string \<Rightarrow> string option \<Rightarrow> bool" where
  "column_contains contains x v = (case v of None \<Rightarrow> False | Some t \<Rightarrow> contains t x)"

end
