(* ===== verification/ZoneTree.thy ===== *)
theory ZoneTree
  imports Prelude
begin

text \<open>
  \<open>collectZoneSubtree\<close> of \<open>src/common/utils/location-cascade.util.ts\<close>: the zones under some
  roots, level by level, for a list of zones given by their ids and the ids of their parents. The
  parents may form cycles. \<open>in_subtree\<close> is the specification, the zones reachable from the roots.
\<close>

section \<open>The traversal\<close>

type_synonym zone_node = "string \<times> string option"

text \<open>The body of the first loop, which adds a zone to the children of its parent.\<close>

fun link_child :: "zone_node \<Rightarrow> (string \<rightharpoonup> string list) \<Rightarrow> (string \<rightharpoonup> string list)" where
  "link_child (i, p) m = (case p of None \<Rightarrow> m
     | Some q \<Rightarrow> if q = [] then m else m(q \<mapsto> (case m q of None \<Rightarrow> [] | Some is \<Rightarrow> is) @ [i]))"

definition childrenByParent :: "zone_node list \<Rightarrow> (string \<rightharpoonup> string list)" where
  "childrenByParent zones = fold link_child zones Map.empty"

definition children :: "zone_node list \<Rightarrow> string \<Rightarrow> string list" where
  "children zones p = (case childrenByParent zones p of None \<Rightarrow> [] | Some is \<Rightarrow> is)"

text \<open>\<open>[...new Set(ids)]\<close> keeps the first occurrence of each id.\<close>

definition unique_ids :: "string list \<Rightarrow> string list" where
  "unique_ids ids = rev (remdups (rev ids))"

lemma children_snoc:
  "children (zones @ [(i, p)]) q = children zones q @ (if p = Some q \<and> q \<noteq> [] then [i] else [])"
  by (auto simp: children_def childrenByParent_def split: option.splits)

lemma children_iff:
  "children zones p = (if p = [] then [] else map fst (filter (\<lambda>z. snd z = Some p) zones))"
proof (induction zones rule: rev_induct)
  case Nil
  then show ?case by (simp add: children_def childrenByParent_def)
next
  case (snoc z zones)
  then show ?case by (cases z) (auto simp: children_snoc)
qed

lemma set_children: "i \<in> set (children zones p) \<longleftrightarrow> (i, Some p) \<in> set zones \<and> p \<noteq> []"
  by (force simp: children_iff)

lemma children_zone: "i \<in> set (children zones p) \<Longrightarrow> i \<in> fst ` set zones"
  by (force simp: set_children)

function zone_levels :: "zone_node list \<Rightarrow> string set \<Rightarrow> string list \<Rightarrow> string list list" where
  "zone_levels zones visited currentLevel =
    (let level = filter (\<lambda>i. i \<notin> visited) currentLevel in
     if level = [] then []
     else level # zone_levels zones (visited \<union> set level) (concat (map (children zones) level)))"
  by pat_completeness auto

termination
proof (relation "measure (\<lambda>(zones, visited, current). card ((set current \<union> fst ` set zones) - visited))")
  fix zones :: "zone_node list" and visited and current level :: "string list"
  assume level: "level = filter (\<lambda>i. i \<notin> visited) current" and some: "level \<noteq> []"
  from some have i: "hd level \<in> set level" by simp
  have "(set (concat (map (children zones) level)) \<union> fst ` set zones) - (visited \<union> set level)
      \<subset> (set current \<union> fst ` set zones) - visited"
    using i level by (auto dest: children_zone)
  then show "((zones, visited \<union> set level, concat (map (children zones) level)), (zones, visited, current))
      \<in> measure (\<lambda>(zones, visited, current). card ((set current \<union> fst ` set zones) - visited))"
    by (simp add: psubset_card_mono)
qed simp

declare zone_levels.simps [simp del]

definition collectZoneSubtree :: "zone_node list \<Rightarrow> string list \<Rightarrow> string list list" where
  "collectZoneSubtree zones rootIds = zone_levels zones {} (unique_ids rootIds)"

section \<open>The zones it collects\<close>

inductive in_subtree :: "zone_node list \<Rightarrow> string set \<Rightarrow> string \<Rightarrow> bool" for zones roots where
  root: "i \<in> roots \<Longrightarrow> in_subtree zones roots i"
| child: "in_subtree zones roots p \<Longrightarrow> (i, Some p) \<in> set zones \<Longrightarrow> p \<noteq> [] \<Longrightarrow> in_subtree zones roots i"

lemma zone_levels_sound:
  "(\<And>i. i \<in> set current \<Longrightarrow> in_subtree zones roots i) \<Longrightarrow>
   i \<in> set (concat (zone_levels zones visited current)) \<Longrightarrow> in_subtree zones roots i"
proof (induction zones visited current rule: zone_levels.induct)
  case (1 zones visited current)
  let ?level = "filter (\<lambda>i. i \<notin> visited) current"
  have next_level: "in_subtree zones roots j" if "j \<in> set (concat (map (children zones) ?level))" for j
    using that 1(2) by (auto simp: set_children intro: in_subtree.child)
  show ?case
  proof (cases "?level = []")
    case True
    then show ?thesis using 1(3) by (simp add: zone_levels.simps Let_def)
  next
    case False
    then have "i \<in> set ?level \<or> i \<in> set (concat (zone_levels zones (visited \<union> set ?level)
        (concat (map (children zones) ?level))))"
      using 1(3) by (subst (asm) zone_levels.simps) (auto simp: Let_def)
    then show ?thesis using 1(1) [OF refl False next_level] 1(2) by auto
  qed
qed

text \<open>At every moment the children of a visited zone are visited or in the current level.\<close>

lemma zone_levels_closed:
  assumes "\<And>p i. p \<in> visited \<Longrightarrow> i \<in> set (children zones p) \<Longrightarrow> i \<in> visited \<union> set current"
  defines "W \<equiv> visited \<union> set (concat (zone_levels zones visited current))"
  shows "visited \<union> set current \<subseteq> W \<and> (\<forall>p \<in> W. set (children zones p) \<subseteq> W)"
  unfolding W_def using assms(1)
proof (induction zones visited current rule: zone_levels.induct)
  case (1 zones visited current)
  let ?level = "filter (\<lambda>i. i \<notin> visited) current"
  show ?case
  proof (cases "?level = []")
    case True
    then have "set current \<subseteq> visited" by (auto simp: filter_empty_conv)
    then show ?thesis using True 1(2) by (subst (1 2 3) zone_levels.simps) auto
  next
    case False
    have step: "zone_levels zones visited current = ?level # zone_levels zones (visited \<union> set ?level)
        (concat (map (children zones) ?level))"
      using False by (subst zone_levels.simps) (simp add: Let_def)
    have "i \<in> (visited \<union> set ?level) \<union> set (concat (map (children zones) ?level))"
      if "p \<in> visited \<union> set ?level" and "i \<in> set (children zones p)" for p i
      using that 1(2) [of p i] by auto
    from 1(1) [OF refl False this] show ?thesis
      unfolding step concat.simps set_append Un_assoc [symmetric] by auto
  qed
qed

lemma zone_levels_distinct:
  assumes "distinct (map fst zones)" and "distinct current"
  shows "distinct (concat (zone_levels zones visited current)) \<and>
    set (concat (zone_levels zones visited current)) \<inter> visited = {}"
  using assms
proof (induction zones visited current rule: zone_levels.induct)
  case (1 zones visited current)
  let ?level = "filter (\<lambda>i. i \<notin> visited) current"
  have siblings: "distinct (children zones p)" for p
    using 1(2) by (simp add: children_iff distinct_map_filter)
  have one_parent: "p = q" if "i \<in> set (children zones p)" and "i \<in> set (children zones q)" for i p q
    using that 1(2) by (auto simp: set_children dest: eq_key_imp_eq_value)
  have "distinct (concat (map (children zones) ps))" if "distinct ps" for ps
    using that by (induction ps) (auto simp: siblings dest: one_parent)
  then have "distinct (concat (map (children zones) ?level))" using 1(3) by simp
  note IH = 1(1) [OF refl _ 1(2) this]
  show ?case
  proof (cases "?level = []")
    case True
    then show ?thesis by (subst (1 2) zone_levels.simps) simp
  next
    case False
    have step: "zone_levels zones visited current = ?level # zone_levels zones (visited \<union> set ?level)
        (concat (map (children zones) ?level))"
      using False by (subst zone_levels.simps) (simp add: Let_def)
    show ?thesis using IH [OF False] 1(3) by (auto simp: step)
  qed
qed

lemma set_unique_ids [simp]: "set (unique_ids ids) = set ids"
  and distinct_unique_ids [simp]: "distinct (unique_ids ids)"
  by (simp_all add: unique_ids_def)

lemma collected_iff:
  "set (concat (collectZoneSubtree zones rootIds)) = {i. in_subtree zones (set rootIds) i}"
proof
  show "set (concat (collectZoneSubtree zones rootIds)) \<subseteq> {i. in_subtree zones (set rootIds) i}"
    unfolding collectZoneSubtree_def
    using zone_levels_sound [of "unique_ids rootIds" zones "set rootIds"] by (auto intro: in_subtree.root)
  let ?W = "set (concat (collectZoneSubtree zones rootIds))"
  have "set rootIds \<subseteq> ?W \<and> (\<forall>p \<in> ?W. set (children zones p) \<subseteq> ?W)"
    using zone_levels_closed [of "{}" zones "unique_ids rootIds"]
    by (simp add: collectZoneSubtree_def)
  then have roots: "set rootIds \<subseteq> ?W" and closed: "\<And>p i. p \<in> ?W \<Longrightarrow> i \<in> set (children zones p) \<Longrightarrow> i \<in> ?W"
    by blast+
  have "i \<in> ?W" if "in_subtree zones (set rootIds) i" for i
    using that
  proof induction
    case (root i)
    then show ?case using roots by blast
  next
    case (child p i)
    have "i \<in> set (children zones p)" unfolding set_children using child.hyps by blast
    with child.IH show ?case by (rule closed)
  qed
  then show "{i. in_subtree zones (set rootIds) i} \<subseteq> ?W" by auto
qed

lemma collected_distinct:
  "distinct (map fst zones) \<Longrightarrow> distinct (concat (collectZoneSubtree zones rootIds))"
  by (simp add: collectZoneSubtree_def zone_levels_distinct)

text \<open>C20: for any list of zones, cycles of parents included, \<open>collectZoneSubtree\<close> ends and its
  levels hold exactly the zones that are a root or have a chain of parents up to a root, each of
  them once.\<close>

theorem subtree_is_the_reachable_zones:
  assumes "distinct (map fst zones)"
  shows "set (concat (collectZoneSubtree zones rootIds)) = {i. in_subtree zones (set rootIds) i} \<and>
    distinct (concat (collectZoneSubtree zones rootIds)) \<and> [] \<notin> set (collectZoneSubtree zones rootIds)"
proof -
  have "[] \<notin> set (zone_levels zs v cur)" for zs v cur
    by (induction zs v cur rule: zone_levels.induct) (subst zone_levels.simps, auto simp: Let_def)
  then show ?thesis
    using collected_iff [of zones rootIds] collected_distinct [OF assms, of rootIds]
    unfolding collectZoneSubtree_def by blast
qed

text \<open>The first example of \<open>location-cascade.util.spec.ts\<close>, with a cycle of two zones added.\<close>

definition sample_tree :: "zone_node list" where
  "sample_tree = [(''root'', None), (''child-a'', Some ''root''), (''child-b'', Some ''root''),
     (''grandchild'', Some ''child-a''), (''x'', Some ''y''), (''y'', Some ''x'')]"

theorem subtree_is_the_reachable_zones_witness:
  "collectZoneSubtree sample_tree [''root''] = [[''root''], [''child-a'', ''child-b''], [''grandchild'']] \<and>
   collectZoneSubtree sample_tree [''x''] = [[''x''], [''y'']] \<and>
   {i. in_subtree sample_tree {''x''} i} = {''x'', ''y''}"
proof -
  have trees: "collectZoneSubtree sample_tree [''root''] = [[''root''], [''child-a'', ''child-b''], [''grandchild'']]"
    "collectZoneSubtree sample_tree [''x''] = [[''x''], [''y'']]" "distinct (map fst sample_tree)"
    by code_simp+
  then show ?thesis
    using subtree_is_the_reachable_zones [of sample_tree "[''x'']"] by auto
qed

end
