(* ===== verification/Locations.thy ===== *)
theory Locations
  imports Requests ZoneTree
begin

text \<open>
  Where an event takes place: \<open>src/modules/venues/venues.service.ts\<close>,
  \<open>src/modules/zones/zones.service.ts\<close>, \<open>src/modules/checkpoints/checkpoints.service.ts\<close> and the
  removal of the rows under a checkpoint in \<open>src/common/utils/location-cascade.util.ts\<close>.

  A write of the database client also meets the constraints of the schema: the unique event and code
  of a zone and of a checkpoint, and the foreign keys. A deleted row is refused while a row with a
  required reference to it remains, and optional references to it become null. The column
  \<open>checkpointId\<close> of a sync batch is never written, so the conditions on it select nothing.

  In a change, \<open>None\<close> is a property the request leaves out; for a nullable column \<open>Some None\<close> is null.
  Null for a required column, which the database client refuses, is left out. \<open>contains\<close>, an argument
  of the searches, is the database's comparison.
\<close>

section \<open>Requests\<close>

record venue_dto =
  vd_eventId :: id
  vd_nameAr :: string
  vd_nameEn :: "string option"
  vd_addressAr :: "string option"
  vd_addressEn :: "string option"
  vd_city :: "string option"
  vd_country :: "string option"

record venue_change =
  vu_eventId :: "id option"
  vu_nameAr :: "string option"
  vu_nameEn :: "string option option"
  vu_addressAr :: "string option option"
  vu_addressEn :: "string option option"
  vu_city :: "string option option"
  vu_country :: "string option option"

record zone_dto =
  zd_eventId :: id
  zd_venueId :: "id option"
  zd_parentId :: "id option"
  zd_nameAr :: string
  zd_nameEn :: "string option"
  zd_code :: "string option"
  zd_sortOrder :: int

record zone_change =
  zu_eventId :: "id option"
  zu_venueId :: "id option option"
  zu_parentId :: "id option option"
  zu_nameAr :: "string option"
  zu_nameEn :: "string option option"
  zu_code :: "string option option"
  zu_sortOrder :: "int option"

record checkpoint_dto =
  kd_eventId :: id
  kd_venueId :: "id option"
  kd_zoneId :: "id option"
  kd_type :: checkpoint_type
  kd_nameAr :: string
  kd_nameEn :: "string option"
  kd_code :: string
  kd_allowedAttendeeTypes :: "string list option"
  kd_isActive :: bool
  kd_sortOrder :: int

record checkpoint_change =
  ku_eventId :: "id option"
  ku_venueId :: "id option option"
  ku_zoneId :: "id option option"
  ku_type :: "checkpoint_type option"
  ku_nameAr :: "string option"
  ku_nameEn :: "string option option"
  ku_code :: "string option"
  ku_allowedAttendeeTypes :: "string list option"
  ku_isActive :: "bool option"
  ku_sortOrder :: "int option"

section \<open>Lookups and guards\<close>

definition find_venue :: "id \<Rightarrow> store \<Rightarrow> venue option" where
  "find_venue i s = lookup_by vn_id i (venues s)"

definition find_zone :: "id \<Rightarrow> store \<Rightarrow> zone option" where
  "find_zone i s = lookup_by zn_id i (zones s)"

definition ensureVenueBelongsToEvent :: "id option \<Rightarrow> id \<Rightarrow> store \<Rightarrow> unit res" where
  "ensureVenueBelongsToEvent venueId eventId s = (case venueId of
     None \<Rightarrow> Inr ()
   | Some i \<Rightarrow>
       if i = [] then Inr ()
       else bindE (found ''Venue'' (find_venue i s)) (\<lambda>venue.
         guard (vn_eventId venue = eventId) (BadRequest ''Venue must belong to the same event'')))"

definition ensureZoneBelongsToEvent :: "id option \<Rightarrow> id \<Rightarrow> store \<Rightarrow> unit res" where
  "ensureZoneBelongsToEvent zoneId eventId s = (case zoneId of
     None \<Rightarrow> Inr ()
   | Some i \<Rightarrow>
       if i = [] then Inr ()
       else bindE (found ''Zone'' (find_zone i s)) (\<lambda>zone.
         guard (zn_eventId zone = eventId) (BadRequest ''Zone must belong to the same event'')))"

definition ensureParentBelongsToEvent :: "id option \<Rightarrow> id \<Rightarrow> id option \<Rightarrow> store \<Rightarrow> unit res" where
  "ensureParentBelongsToEvent parentId eventId currentZoneId s = (case parentId of
     None \<Rightarrow> Inr ()
   | Some i \<Rightarrow>
       if i = [] then Inr ()
       else bindE (found ''Parent zone'' (find_zone i s)) (\<lambda>parent.
         bindE (guard (zn_eventId parent = eventId) (BadRequest ''Parent zone must belong to the same event''))
           (\<lambda>_. guard (Some (zn_id parent) \<noteq> currentZoneId) (BadRequest ''Zone cannot be its own parent''))))"

definition ensureZoneCodeIsUnique :: "id \<Rightarrow> string option \<Rightarrow> id option \<Rightarrow> store \<Rightarrow> unit res" where
  "ensureZoneCodeIsUnique eventId code excludeId s =
    (if \<not> truthy code then Inr ()
     else guard (\<not> exists_row (\<lambda>z. zn_eventId z = eventId \<and> zn_code z = code \<and>
            (truthy excludeId \<longrightarrow> Some (zn_id z) \<noteq> excludeId)) (zones s))
          (Conflict ''Zone code already exists for this event''))"

definition ensureCheckpointCodeIsUnique :: "id \<Rightarrow> string \<Rightarrow> id option \<Rightarrow> store \<Rightarrow> unit res" where
  "ensureCheckpointCodeIsUnique eventId code excludeId s =
    (if code = [] then Inr ()
     else guard (\<not> exists_row (\<lambda>k. cp_eventId k = eventId \<and> cp_code k = code \<and>
            (truthy excludeId \<longrightarrow> Some (cp_id k) \<noteq> excludeId)) (checkpoints s))
          (Conflict ''Checkpoint code already exists for this event''))"

definition ensureVenueCanMove :: "id \<Rightarrow> store \<Rightarrow> unit res" where
  "ensureVenueCanMove i s =
    guard (\<not> (0 < count_rows (\<lambda>z. zn_venueId z = Some i) (zones s) \<or>
           0 < count_rows (\<lambda>k. cp_venueId k = Some i) (checkpoints s)))
      (BadRequest ''Cannot move venue to another event while it has related zones or checkpoints'')"

definition ensureZoneCanMove :: "id \<Rightarrow> store \<Rightarrow> unit res" where
  "ensureZoneCanMove i s =
    guard (\<not> (0 < count_rows (\<lambda>z. zn_parentId z = Some i) (zones s) \<or>
           0 < count_rows (\<lambda>k. cp_zoneId k = Some i) (checkpoints s)))
      (BadRequest ''Cannot move zone to another event while it has child zones or checkpoints'')"

section \<open>Constraints of the schema\<close>

definition zone_constraints :: "zone \<Rightarrow> store \<Rightarrow> unit res" where
  "zone_constraints z s =
    (if zn_code z \<noteq> None \<and> exists_row (\<lambda>x. zn_id x \<noteq> zn_id z \<and> zn_eventId x = zn_eventId z \<and>
          zn_code x = zn_code z) (zones s) then Inl UniqueViolation
     else guard (find_event (zn_eventId z) s \<noteq> None \<and> refers (\<lambda>i. find_venue i s) (zn_venueId z) \<and>
          refers (\<lambda>i. find_zone i s) (zn_parentId z)) foreign_key)"

definition checkpoint_constraints :: "checkpoint \<Rightarrow> store \<Rightarrow> unit res" where
  "checkpoint_constraints k s =
    (if exists_row (\<lambda>x. cp_id x \<noteq> cp_id k \<and> cp_eventId x = cp_eventId k \<and> cp_code x = cp_code k)
          (checkpoints s) then Inl UniqueViolation
     else guard (find_event (cp_eventId k) s \<noteq> None \<and> refers (\<lambda>i. find_venue i s) (cp_venueId k) \<and>
          refers (\<lambda>i. find_zone i s) (cp_zoneId k)) foreign_key)"

text \<open>An optional reference to a deleted row becomes null.\<close>

definition nullify :: "id set \<Rightarrow> id option \<Rightarrow> id option" where
  "nullify gone r = (case r of None \<Rightarrow> None | Some i \<Rightarrow> if i \<in> gone then None else Some i)"

lemma nullify_simps [simp]: "nullify gone None = None"
  "nullify gone (Some i) = (if i \<in> gone then None else Some i)"
  by (simp_all add: nullify_def)

definition selected :: "('r \<Rightarrow> id) \<Rightarrow> ('r \<Rightarrow> bool) \<Rightarrow> 'r list \<Rightarrow> id set" where
  "selected key p rows = set (map key (filter p rows))"

definition delete_movements :: "(movement \<Rightarrow> bool) \<Rightarrow> (store, unit) act" where
  "delete_movements p = modify (\<lambda>s. let gone = selected mv_id p (movements s) in
     s\<lparr>movements := delete_rows p (movements s),
       offlineScans := map (\<lambda>x. x\<lparr>os_movementId := nullify gone (os_movementId x)\<rparr>) (offlineScans s)\<rparr>)"

definition delete_scans :: "(scan_event \<Rightarrow> bool) \<Rightarrow> (store, unit) act" where
  "delete_scans p = bindA (gets (\<lambda>s. selected sc_id p (scans s))) (\<lambda>gone.
     bindA (reads (\<lambda>s. guard (\<not> exists_row (\<lambda>m. mv_scanEventRawId m \<in> gone) (movements s)) foreign_key)) (\<lambda>_.
     modify (\<lambda>s. s\<lparr>scans := delete_rows p (scans s),
       offlineScans := map (\<lambda>x. x\<lparr>os_scanEventRawId := nullify gone (os_scanEventRawId x)\<rparr>) (offlineScans s)\<rparr>)))"

definition delete_sync_ops :: "(sync_op \<Rightarrow> bool) \<Rightarrow> (store, unit) act" where
  "delete_sync_ops p = modify (\<lambda>s. s\<lparr>syncOps := delete_rows p (syncOps s)\<rparr>)"

definition delete_batches :: "(sync_batch \<Rightarrow> bool) \<Rightarrow> (store, unit) act" where
  "delete_batches p = bindA (gets (\<lambda>s. selected sb_id p (syncBatches s))) (\<lambda>gone.
     bindA (reads (\<lambda>s. guard (\<not> exists_row (\<lambda>x. so_syncBatchId x \<in> gone) (syncOps s)) foreign_key)) (\<lambda>_.
     modify (\<lambda>s. s\<lparr>syncBatches := delete_rows p (syncBatches s)\<rparr>)))"

definition delete_sessions :: "(staff_session \<Rightarrow> bool) \<Rightarrow> (store, unit) act" where
  "delete_sessions p = modify (\<lambda>s. let gone = selected ss_id p (staffSessions s) in
     s\<lparr>staffSessions := delete_rows p (staffSessions s),
       scans := map (\<lambda>x. x\<lparr>sc_staffSessionId := nullify gone (sc_staffSessionId x)\<rparr>) (scans s),
       movements := map (\<lambda>x. x\<lparr>mv_staffSessionId := nullify gone (mv_staffSessionId x)\<rparr>) (movements s),
       syncBatches := map (\<lambda>x. x\<lparr>sb_staffSessionId := nullify gone (sb_staffSessionId x)\<rparr>) (syncBatches s),
       offlineScans := map (\<lambda>x. x\<lparr>os_staffSessionId := nullify gone (os_staffSessionId x)\<rparr>) (offlineScans s)\<rparr>)"

definition delete_assignments :: "(staff_assignment \<Rightarrow> bool) \<Rightarrow> (store, unit) act" where
  "delete_assignments p = modify (\<lambda>s. s\<lparr>staffAssignments := delete_rows p (staffAssignments s)\<rparr>)"

text \<open>Staff sessions and offline scans refuse the deletion of their checkpoint.\<close>

definition delete_checkpoints :: "(checkpoint \<Rightarrow> bool) \<Rightarrow> (store, nat) act" where
  "delete_checkpoints p = bindA (gets (\<lambda>s. selected cp_id p (checkpoints s))) (\<lambda>gone.
     bindA (gets (\<lambda>s. count_rows p (checkpoints s))) (\<lambda>n.
     bindA (reads (\<lambda>s. guard (\<not> exists_row (\<lambda>x. ss_checkpointId x \<in> gone) (staffSessions s) \<and>
         \<not> exists_row (\<lambda>x. os_checkpointId x \<in> gone) (offlineScans s)) foreign_key)) (\<lambda>_.
     bindA (modify (\<lambda>s. s\<lparr>checkpoints := delete_rows p (checkpoints s),
       staffAssignments := map (\<lambda>x. x\<lparr>sa_checkpointId := nullify gone (sa_checkpointId x)\<rparr>) (staffAssignments s),
       scans := map (\<lambda>x. x\<lparr>sc_checkpointId := nullify gone (sc_checkpointId x)\<rparr>) (scans s),
       movements := map (\<lambda>x. x\<lparr>mv_checkpointId := nullify gone (mv_checkpointId x)\<rparr>) (movements s)\<rparr>)) (\<lambda>_.
     ret n))))"

definition delete_zones :: "(zone \<Rightarrow> bool) \<Rightarrow> (store, unit) act" where
  "delete_zones p = modify (\<lambda>s. let gone = selected zn_id p (zones s) in
     s\<lparr>zones := map (\<lambda>x. x\<lparr>zn_parentId := nullify gone (zn_parentId x)\<rparr>) (delete_rows p (zones s)),
       checkpoints := map (\<lambda>x. x\<lparr>cp_zoneId := nullify gone (cp_zoneId x)\<rparr>) (checkpoints s)\<rparr>)"

definition delete_venues :: "(venue \<Rightarrow> bool) \<Rightarrow> (store, unit) act" where
  "delete_venues p = modify (\<lambda>s. let gone = selected vn_id p (venues s) in
     s\<lparr>venues := delete_rows p (venues s),
       zones := map (\<lambda>x. x\<lparr>zn_venueId := nullify gone (zn_venueId x)\<rparr>) (zones s),
       checkpoints := map (\<lambda>x. x\<lparr>cp_venueId := nullify gone (cp_venueId x)\<rparr>) (checkpoints s)\<rparr>)"

section \<open>The rows under a checkpoint\<close>

definition at_checkpoints :: "id list \<Rightarrow> id list \<Rightarrow> id option \<Rightarrow> id option \<Rightarrow> bool" where
  "at_checkpoints checkpointIds staffSessionIds checkpointId sessionId =
    ((case checkpointId of None \<Rightarrow> False | Some i \<Rightarrow> i \<in> set checkpointIds) \<or>
     (case sessionId of None \<Rightarrow> False | Some i \<Rightarrow> i \<in> set staffSessionIds))"

definition deleteCheckpointDependencies :: "id list \<Rightarrow> (store, unit) act" where
  "deleteCheckpointDependencies checkpointIds =
    (if checkpointIds = [] then ret ()
     else bindA (gets (\<lambda>s. map ss_id (filter (\<lambda>x. ss_checkpointId x \<in> set checkpointIds) (staffSessions s))))
       (\<lambda>staffSessionIds.
     bindA (gets (\<lambda>s. map sb_id (filter (\<lambda>x. at_checkpoints checkpointIds staffSessionIds None (sb_staffSessionId x))
          (syncBatches s)))) (\<lambda>syncBatchIds.
     bindA (delete_movements (\<lambda>x. at_checkpoints checkpointIds staffSessionIds (mv_checkpointId x) (mv_staffSessionId x))) (\<lambda>_.
     bindA (delete_scans (\<lambda>x. at_checkpoints checkpointIds staffSessionIds (sc_checkpointId x) (sc_staffSessionId x))) (\<lambda>_.
     bindA (if syncBatchIds = [] then ret ()
            else bindA (delete_sync_ops (\<lambda>x. so_syncBatchId x \<in> set syncBatchIds)) (\<lambda>_.
              delete_batches (\<lambda>x. sb_id x \<in> set syncBatchIds))) (\<lambda>_.
     bindA (if staffSessionIds = [] then ret ()
            else delete_sessions (\<lambda>x. ss_id x \<in> set staffSessionIds)) (\<lambda>_.
     delete_assignments (\<lambda>x. case sa_checkpointId x of None \<Rightarrow> False | Some i \<Rightarrow> i \<in> set checkpointIds))))))))"

section \<open>Venues\<close>

definition createVenue :: "env \<Rightarrow> venue_dto \<Rightarrow> (store, venue) act" where
  "createVenue c dto =
    bindA (reads (ensureEventCanBeModified (vd_eventId dto))) (\<lambda>_.
    bindA (new_id c) (\<lambda>i.
    let v = \<lparr>vn_id = i, vn_eventId = vd_eventId dto, vn_nameAr = vd_nameAr dto, vn_nameEn = vd_nameEn dto,
          vn_addressAr = vd_addressAr dto, vn_addressEn = vd_addressEn dto, vn_city = vd_city dto,
          vn_country = vd_country dto, vn_createdAt = now c\<rparr> in
    bindA (modify (\<lambda>s. s\<lparr>venues := append_row v (venues s)\<rparr>)) (\<lambda>_. ret v)))"

definition findAllVenues :: "(string \<Rightarrow> string \<Rightarrow> bool) \<Rightarrow> id option \<Rightarrow> string option \<Rightarrow> page_query \<Rightarrow>
    store \<Rightarrow> venue paginated" where
  "findAllVenues contains eventId search query s =
    find_page (\<lambda>v. if_given eventId (\<lambda>e. vn_eventId v = e) \<and>
        if_given search (\<lambda>x. contains (vn_nameAr v) x \<or> column_contains contains x (vn_nameEn v) \<or>
          column_contains contains x (vn_city v) \<or> column_contains contains x (vn_country v)))
      (\<lambda>v. - vn_createdAt v) query (venues s)"

definition findOneVenue :: "id \<Rightarrow> store \<Rightarrow> venue res" where
  "findOneVenue i s = found ''Venue'' (find_venue i s)"

definition changed_venue :: "venue_change \<Rightarrow> venue \<Rightarrow> venue" where
  "changed_venue dto v = v\<lparr>vn_eventId := or_kept (vu_eventId dto) (vn_eventId v),
     vn_nameAr := or_kept (vu_nameAr dto) (vn_nameAr v), vn_nameEn := or_kept (vu_nameEn dto) (vn_nameEn v),
     vn_addressAr := or_kept (vu_addressAr dto) (vn_addressAr v),
     vn_addressEn := or_kept (vu_addressEn dto) (vn_addressEn v),
     vn_city := or_kept (vu_city dto) (vn_city v), vn_country := or_kept (vu_country dto) (vn_country v)\<rparr>"

definition updateVenue :: "id \<Rightarrow> venue_change \<Rightarrow> (store, venue) act" where
  "updateVenue i dto =
    bindA (reads (findOneVenue i)) (\<lambda>venue.
    bindA (reads (ensureEventCanBeModified (vn_eventId venue))) (\<lambda>_.
    let nextEventId = or_kept (vu_eventId dto) (vn_eventId venue) in
    bindA (if nextEventId \<noteq> vn_eventId venue
           then bindA (reads (ensureEventCanBeModified nextEventId)) (\<lambda>_. reads (ensureVenueCanMove i))
           else ret ()) (\<lambda>_.
    bindA (modify (\<lambda>s. s\<lparr>venues := update_by vn_id i (changed_venue dto) (venues s)\<rparr>)) (\<lambda>_.
    ret (changed_venue dto venue)))))"

text \<open>The zones of an event as the cascade reads them.\<close>

definition zone_nodes :: "id \<Rightarrow> store \<Rightarrow> zone_node list" where
  "zone_nodes eventId s =
    map (\<lambda>z. (zn_id z, zn_parentId z)) (filter (\<lambda>z. zn_eventId z = eventId) (zones s))"

record removed =
  rm_checkpoints :: nat
  rm_zones :: nat

definition removeVenue :: "id \<Rightarrow> (store, removed) act" where
  "removeVenue i =
    bindA (reads (findOneVenue i)) (\<lambda>venue.
    bindA (reads (ensureEventCanBeModified (vn_eventId venue))) (\<lambda>_.
    transaction (
    bindA (gets (\<lambda>s. map zn_id (filter (\<lambda>z. zn_eventId z = vn_eventId venue \<and> zn_venueId z = Some i) (zones s))))
      (\<lambda>rootIds.
    bindA (gets (\<lambda>s. collectZoneSubtree (zone_nodes (vn_eventId venue) s) rootIds)) (\<lambda>zoneLevels.
    let zoneIds = concat zoneLevels in
    bindA (gets (\<lambda>s. map cp_id (filter (\<lambda>k. cp_venueId k = Some i \<or>
        (case cp_zoneId k of None \<Rightarrow> False | Some z \<Rightarrow> z \<in> set zoneIds)) (checkpoints s)))) (\<lambda>checkpointIds.
    bindA (deleteCheckpointDependencies checkpointIds) (\<lambda>_.
    bindA (delete_checkpoints (\<lambda>k. cp_id k \<in> set checkpointIds)) (\<lambda>n.
    bindA (forA (rev zoneLevels) (\<lambda>level. delete_zones (\<lambda>z. zn_id z \<in> set level))) (\<lambda>_.
    bindA (delete_venues (\<lambda>v. vn_id v = i)) (\<lambda>_.
    ret \<lparr>rm_checkpoints = n, rm_zones = length zoneIds\<rparr>))))))))))"

section \<open>Zones\<close>

definition createZone :: "env \<Rightarrow> zone_dto \<Rightarrow> (store, zone) act" where
  "createZone c dto =
    bindA (reads (ensureEventCanBeModified (zd_eventId dto))) (\<lambda>_.
    bindA (reads (ensureVenueBelongsToEvent (zd_venueId dto) (zd_eventId dto))) (\<lambda>_.
    bindA (reads (ensureParentBelongsToEvent (zd_parentId dto) (zd_eventId dto) None)) (\<lambda>_.
    bindA (reads (ensureZoneCodeIsUnique (zd_eventId dto) (zd_code dto) None)) (\<lambda>_.
    bindA (new_id c) (\<lambda>i.
    let z = \<lparr>zn_id = i, zn_eventId = zd_eventId dto, zn_venueId = zd_venueId dto, zn_parentId = zd_parentId dto,
          zn_nameAr = zd_nameAr dto, zn_nameEn = zd_nameEn dto, zn_code = zd_code dto,
          zn_sortOrder = zd_sortOrder dto, zn_createdAt = now c\<rparr> in
    bindA (reads (zone_constraints z)) (\<lambda>_.
    bindA (modify (\<lambda>s. s\<lparr>zones := append_row z (zones s)\<rparr>)) (\<lambda>_. ret z)))))))"

definition findAllZones :: "(string \<Rightarrow> string \<Rightarrow> bool) \<Rightarrow> id option \<Rightarrow> id option \<Rightarrow> id option \<Rightarrow> string option \<Rightarrow>
    page_query \<Rightarrow> store \<Rightarrow> zone paginated" where
  "findAllZones contains eventId venueId parentId search query s =
    find_page (\<lambda>z. if_given eventId (\<lambda>e. zn_eventId z = e) \<and>
        if_given venueId (\<lambda>v. zn_venueId z = Some v) \<and> if_given parentId (\<lambda>p. zn_parentId z = Some p) \<and>
        if_given search (\<lambda>x. contains (zn_nameAr z) x \<or> column_contains contains x (zn_nameEn z) \<or>
          column_contains contains x (zn_code z)))
      (\<lambda>z. (zn_sortOrder z, - zn_createdAt z)) query (zones s)"

definition findOneZone :: "id \<Rightarrow> store \<Rightarrow> zone res" where
  "findOneZone i s = found ''Zone'' (find_zone i s)"

definition changed_zone :: "zone_change \<Rightarrow> zone \<Rightarrow> zone" where
  "changed_zone dto z = z\<lparr>zn_eventId := or_kept (zu_eventId dto) (zn_eventId z),
     zn_venueId := or_kept (zu_venueId dto) (zn_venueId z), zn_parentId := or_kept (zu_parentId dto) (zn_parentId z),
     zn_nameAr := or_kept (zu_nameAr dto) (zn_nameAr z), zn_nameEn := or_kept (zu_nameEn dto) (zn_nameEn z),
     zn_code := or_kept (zu_code dto) (zn_code z), zn_sortOrder := or_kept (zu_sortOrder dto) (zn_sortOrder z)\<rparr>"

definition updateZone :: "id \<Rightarrow> zone_change \<Rightarrow> (store, zone) act" where
  "updateZone i dto =
    bindA (reads (findOneZone i)) (\<lambda>zone.
    bindA (reads (ensureEventCanBeModified (zn_eventId zone))) (\<lambda>_.
    let nextEventId = or_kept (zu_eventId dto) (zn_eventId zone) in
    bindA (if nextEventId \<noteq> zn_eventId zone
           then bindA (reads (ensureEventCanBeModified nextEventId)) (\<lambda>_. reads (ensureZoneCanMove i))
           else ret ()) (\<lambda>_.
    if zu_parentId dto = Some (Some i) then throw (BadRequest ''Zone cannot be its own parent'')
    else
    bindA (reads (ensureVenueBelongsToEvent (or_stored (zu_venueId dto) (zn_venueId zone)) nextEventId)) (\<lambda>_.
    bindA (reads (ensureParentBelongsToEvent (or_stored (zu_parentId dto) (zn_parentId zone)) nextEventId (Some i))) (\<lambda>_.
    bindA (reads (ensureZoneCodeIsUnique nextEventId (or_stored (zu_code dto) (zn_code zone)) (Some i))) (\<lambda>_.
    bindA (reads (zone_constraints (changed_zone dto zone))) (\<lambda>_.
    bindA (modify (\<lambda>s. s\<lparr>zones := update_by zn_id i (changed_zone dto) (zones s)\<rparr>)) (\<lambda>_.
    ret (changed_zone dto zone)))))))))"

definition removeZone :: "id \<Rightarrow> (store, removed) act" where
  "removeZone i =
    bindA (reads (findOneZone i)) (\<lambda>zone.
    bindA (reads (ensureEventCanBeModified (zn_eventId zone))) (\<lambda>_.
    transaction (
    bindA (gets (\<lambda>s. collectZoneSubtree (zone_nodes (zn_eventId zone) s) [i])) (\<lambda>zoneLevels.
    let zoneIds = concat zoneLevels in
    bindA (gets (\<lambda>s. map cp_id (filter (\<lambda>k. case cp_zoneId k of None \<Rightarrow> False | Some z \<Rightarrow> z \<in> set zoneIds)
        (checkpoints s)))) (\<lambda>checkpointIds.
    bindA (deleteCheckpointDependencies checkpointIds) (\<lambda>_.
    bindA (delete_checkpoints (\<lambda>k. cp_id k \<in> set checkpointIds)) (\<lambda>n.
    bindA (forA (rev zoneLevels) (\<lambda>level. delete_zones (\<lambda>z. zn_id z \<in> set level))) (\<lambda>_.
    ret \<lparr>rm_checkpoints = n, rm_zones = length zoneIds - 1\<rparr>))))))))"

section \<open>Checkpoints\<close>

definition attendee_types_json :: "string list option \<Rightarrow> json" where
  "attendee_types_json v = (case v of None \<Rightarrow> JNull | Some xs \<Rightarrow> JArr (map JStr xs))"

definition createCheckpoint :: "env \<Rightarrow> checkpoint_dto \<Rightarrow> (store, checkpoint) act" where
  "createCheckpoint c dto =
    bindA (reads (ensureEventCanBeModified (kd_eventId dto))) (\<lambda>_.
    bindA (reads (ensureVenueBelongsToEvent (kd_venueId dto) (kd_eventId dto))) (\<lambda>_.
    bindA (reads (ensureZoneBelongsToEvent (kd_zoneId dto) (kd_eventId dto))) (\<lambda>_.
    bindA (reads (ensureCheckpointCodeIsUnique (kd_eventId dto) (kd_code dto) None)) (\<lambda>_.
    bindA (new_id c) (\<lambda>i.
    let k = \<lparr>cp_id = i, cp_eventId = kd_eventId dto, cp_venueId = kd_venueId dto, cp_zoneId = kd_zoneId dto,
          cp_nameAr = kd_nameAr dto, cp_nameEn = kd_nameEn dto, cp_code = kd_code dto, cp_type = kd_type dto,
          cp_allowedAttendeeTypes = attendee_types_json (kd_allowedAttendeeTypes dto),
          cp_isActive = kd_isActive dto, cp_sortOrder = kd_sortOrder dto, cp_createdAt = now c\<rparr> in
    bindA (reads (checkpoint_constraints k)) (\<lambda>_.
    bindA (modify (\<lambda>s. s\<lparr>checkpoints := append_row k (checkpoints s)\<rparr>)) (\<lambda>_. ret k)))))))"

definition findAllCheckpoints :: "(string \<Rightarrow> string \<Rightarrow> bool) \<Rightarrow> id option \<Rightarrow> id option \<Rightarrow> id option \<Rightarrow>
    checkpoint_type option \<Rightarrow> bool option \<Rightarrow> string option \<Rightarrow> page_query \<Rightarrow> store \<Rightarrow> checkpoint paginated" where
  "findAllCheckpoints contains eventId venueId zoneId type isActive search query s =
    find_page (\<lambda>k. if_given eventId (\<lambda>e. cp_eventId k = e) \<and>
        if_given venueId (\<lambda>v. cp_venueId k = Some v) \<and> if_given zoneId (\<lambda>z. cp_zoneId k = Some z) \<and>
        (case type of None \<Rightarrow> True | Some t \<Rightarrow> cp_type k = t) \<and>
        (case isActive of None \<Rightarrow> True | Some b \<Rightarrow> cp_isActive k = b) \<and>
        if_given search (\<lambda>x. contains (cp_nameAr k) x \<or> column_contains contains x (cp_nameEn k) \<or>
          contains (cp_code k) x))
      (\<lambda>k. (cp_sortOrder k, - cp_createdAt k)) query (checkpoints s)"

definition findOneCheckpoint :: "id \<Rightarrow> store \<Rightarrow> checkpoint res" where
  "findOneCheckpoint i s = found ''Checkpoint'' (find_checkpoint i s)"

definition changed_checkpoint :: "checkpoint_change \<Rightarrow> checkpoint \<Rightarrow> checkpoint" where
  "changed_checkpoint dto k = k\<lparr>cp_eventId := or_kept (ku_eventId dto) (cp_eventId k),
     cp_venueId := or_kept (ku_venueId dto) (cp_venueId k), cp_zoneId := or_kept (ku_zoneId dto) (cp_zoneId k),
     cp_type := or_kept (ku_type dto) (cp_type k), cp_nameAr := or_kept (ku_nameAr dto) (cp_nameAr k),
     cp_nameEn := or_kept (ku_nameEn dto) (cp_nameEn k), cp_code := or_kept (ku_code dto) (cp_code k),
     cp_allowedAttendeeTypes := (case ku_allowedAttendeeTypes dto of None \<Rightarrow> cp_allowedAttendeeTypes k
        | Some xs \<Rightarrow> JArr (map JStr xs)),
     cp_isActive := or_kept (ku_isActive dto) (cp_isActive k), cp_sortOrder := or_kept (ku_sortOrder dto) (cp_sortOrder k)\<rparr>"

definition updateCheckpoint :: "id \<Rightarrow> checkpoint_change \<Rightarrow> (store, checkpoint) act" where
  "updateCheckpoint i dto =
    bindA (reads (findOneCheckpoint i)) (\<lambda>checkpoint.
    bindA (reads (ensureEventCanBeModified (cp_eventId checkpoint))) (\<lambda>_.
    let nextEventId = or_kept (ku_eventId dto) (cp_eventId checkpoint) in
    bindA (if nextEventId \<noteq> cp_eventId checkpoint
           then bindA (reads (ensureEventCanBeModified nextEventId)) (\<lambda>_. ret ()) else ret ()) (\<lambda>_.
    bindA (reads (ensureVenueBelongsToEvent (or_stored (ku_venueId dto) (cp_venueId checkpoint)) nextEventId)) (\<lambda>_.
    bindA (reads (ensureZoneBelongsToEvent (or_stored (ku_zoneId dto) (cp_zoneId checkpoint)) nextEventId)) (\<lambda>_.
    bindA (reads (ensureCheckpointCodeIsUnique nextEventId (or_kept (ku_code dto) (cp_code checkpoint)) (Some i))) (\<lambda>_.
    bindA (reads (checkpoint_constraints (changed_checkpoint dto checkpoint))) (\<lambda>_.
    bindA (modify (\<lambda>s. s\<lparr>checkpoints := update_by cp_id i (changed_checkpoint dto) (checkpoints s)\<rparr>)) (\<lambda>_.
    ret (changed_checkpoint dto checkpoint)))))))))"

definition checkpoint_in_use :: "id \<Rightarrow> store \<Rightarrow> bool" where
  "checkpoint_in_use i s =
    (0 < count_rows (\<lambda>m. mv_checkpointId m = Some i) (movements s) \<or>
     0 < count_rows (\<lambda>x. sc_checkpointId x = Some i) (scans s) \<or>
     0 < count_rows (\<lambda>x. ss_checkpointId x = i) (staffSessions s) \<or>
     0 < count_rows (\<lambda>x. sa_checkpointId x = Some i) (staffAssignments s))"

definition removeCheckpoint :: "id \<Rightarrow> (store, id) act" where
  "removeCheckpoint i =
    bindA (reads (findOneCheckpoint i)) (\<lambda>checkpoint.
    bindA (reads (ensureEventCanBeModified (cp_eventId checkpoint))) (\<lambda>_.
    bindA (reads (\<lambda>s. guard (\<not> checkpoint_in_use i s) (Conflict (''Cannot delete checkpoint while scan history, '' @
        ''sessions, assignments, or sync batches reference it'')))) (\<lambda>_.
    bindA (delete_checkpoints (\<lambda>k. cp_id k = i)) (\<lambda>_.
    ret (cp_eventId checkpoint)))))"

end
