(* ===== verification/LocationsInv.thy ===== *)
theory LocationsInv
  imports Locations
begin

text \<open>
  The invariant of the venue, zone and checkpoint tables, kept by every operation: generated ids,
  and every reference among these rows points to an existing row of the same event.
\<close>

section \<open>References\<close>

definition points_to :: "('r \<Rightarrow> id) \<Rightarrow> ('r \<Rightarrow> id) \<Rightarrow> 'r list \<Rightarrow> id option \<Rightarrow> id \<Rightarrow> bool" where
  "points_to key ev rows r e = (case r of None \<Rightarrow> True | Some i \<Rightarrow> \<exists>w \<in> set rows. key w = i \<and> ev w = e)"

lemma points_to_None [simp]: "points_to key ev rows None e"
  by (simp add: points_to_def)

lemma points_to_Some: "points_to key ev rows (Some i) e \<longleftrightarrow> (\<exists>w \<in> set rows. key w = i \<and> ev w = e)"
  by (simp add: points_to_def)

lemma points_to_kept:
  assumes "points_to key ev rows r e"
    and "\<And>w. w \<in> set rows \<Longrightarrow> r = Some (key w) \<Longrightarrow> key w \<notin> gone \<Longrightarrow> \<exists>w' \<in> set rows'. key w' = key w \<and> ev w' = ev w"
  shows "points_to key ev rows' (nullify gone r) e"
  using assms by (cases r) (force simp: points_to_def)+

lemmas points_to_same = points_to_kept [where gone = "{}" and r = r for r, unfolded nullify_def, simplified]

lemma points_to_grow: "points_to key ev rows r e \<Longrightarrow> set rows \<subseteq> set rows' \<Longrightarrow> points_to key ev rows' r e"
  by (auto simp: points_to_def split: option.splits)

lemma points_to_update:
  assumes "points_to key ev rows r e" and "\<And>w. key (f w) = key w"
    and "\<And>w. w \<in> set rows \<Longrightarrow> r = Some (key w) \<Longrightarrow> key w = i \<Longrightarrow> ev (f w) = ev w"
  shows "points_to key ev (update_by key i f rows) r e"
proof (cases r)
  case (Some j)
  then obtain w where w: "w \<in> set rows" "key w = j" "ev w = e" using assms(1) by (auto simp: points_to_Some)
  let ?w = "if key w = i then f w else w"
  have "?w \<in> set (update_by key i f rows)" using w by (auto simp: set_update_by)
  moreover have "key ?w = j" "ev ?w = e" using w assms(2,3) Some by auto
  ultimately show ?thesis using Some by (auto simp: points_to_Some)
qed simp

definition generated :: "env \<Rightarrow> nat \<Rightarrow> id list \<Rightarrow> bool" where
  "generated c n ids = (distinct ids \<and> (\<forall>i \<in> set ids. \<exists>k < n. i = cuid c k))"

lemma generated_add: "id_law c \<Longrightarrow> generated c n ids \<Longrightarrow> generated c (Suc n) (ids @ [cuid c n])"
  unfolding generated_def id_law_def
  by (metis (mono_tags) UnE distinct.simps distinct_append empty_iff empty_set inj_eq insert_iff less_SucI lessI
      less_irrefl list.simps(15) set_append disjoint_insert(1) inf_bot_right)

lemma generated_later: "generated c n ids \<Longrightarrow> generated c (Suc n) ids"
  by (force simp: generated_def less_Suc_eq)

lemma generated_fewer: "generated c n (map f rows) \<Longrightarrow> generated c n (map f (delete_rows p rows))"
  by (auto simp: generated_def distinct_map_delete_rows set_delete_rows)

definition loc_ok :: "env \<Rightarrow> nat \<Rightarrow> venue list \<Rightarrow> zone list \<Rightarrow> checkpoint list \<Rightarrow> bool" where
  "loc_ok c n vs zs ks =
    (generated c n (map vn_id vs) \<and> generated c n (map zn_id zs) \<and> generated c n (map cp_id ks) \<and>
     (\<forall>z \<in> set zs. points_to vn_id vn_eventId vs (zn_venueId z) (zn_eventId z) \<and>
        points_to zn_id zn_eventId zs (zn_parentId z) (zn_eventId z) \<and> zn_parentId z \<noteq> Some (zn_id z)) \<and>
     (\<forall>k \<in> set ks. points_to vn_id vn_eventId vs (cp_venueId k) (cp_eventId k) \<and>
        points_to zn_id zn_eventId zs (cp_zoneId k) (cp_eventId k)))"

text \<open>The law of the id generator: ids do not repeat and are not empty.\<close>

definition ids_law :: "env \<Rightarrow> bool" where
  "ids_law c = (id_law c \<and> (\<forall>n. cuid c n \<noteq> []))"

definition location_inv :: "env \<Rightarrow> store \<Rightarrow> bool" where
  "location_inv c s = (ids_law c \<longrightarrow> loc_ok c (next_id s) (venues s) (zones s) (checkpoints s))"

section \<open>Adding a row\<close>

lemma loc_ok_add_venue:
  assumes "loc_ok c n vs zs ks" and "id_law c" and "vn_id v = cuid c n"
  shows "loc_ok c (Suc n) (append_row v vs) zs ks"
  using assms by (auto simp: loc_ok_def generated_add generated_later elim!: points_to_grow)

lemma loc_ok_add_zone:
  assumes "loc_ok c n vs zs ks" and "id_law c" and "zn_id z = cuid c n"
    and "points_to vn_id vn_eventId vs (zn_venueId z) (zn_eventId z)"
    and "points_to zn_id zn_eventId zs (zn_parentId z) (zn_eventId z)"
  shows "loc_ok c (Suc n) vs (append_row z zs) ks"
proof -
  have "zn_parentId z \<noteq> Some (zn_id z)"
    using assms by (force simp: loc_ok_def points_to_def generated_def id_law_def dest: injD)
  then show ?thesis
    using assms by (auto simp: loc_ok_def generated_add generated_later elim!: points_to_grow)
qed

lemma loc_ok_add_checkpoint:
  assumes "loc_ok c n vs zs ks" and "id_law c" and "cp_id k = cuid c n"
    and "points_to vn_id vn_eventId vs (cp_venueId k) (cp_eventId k)"
    and "points_to zn_id zn_eventId zs (cp_zoneId k) (cp_eventId k)"
  shows "loc_ok c (Suc n) vs zs (append_row k ks)"
  using assms by (auto simp: loc_ok_def generated_add generated_later)

section \<open>Changing a row\<close>

lemma loc_ok_update_venue:
  assumes "loc_ok c n vs zs ks" and f: "\<And>v. vn_id (f v) = vn_id v"
    and move: "(\<forall>v \<in> set vs. vn_id v = i \<longrightarrow> vn_eventId (f v) = vn_eventId v) \<or>
      (\<forall>z \<in> set zs. zn_venueId z \<noteq> Some i) \<and> (\<forall>k \<in> set ks. cp_venueId k \<noteq> Some i)"
  shows "loc_ok c n (update_by vn_id i f vs) zs ks"
  using assms by (auto simp: loc_ok_def map_update_by intro!: points_to_update)

lemma loc_ok_update_zone:
  assumes ok: "loc_ok c n vs zs ks" and f: "\<And>z. zn_id (f z) = zn_id z"
    and move: "(\<forall>z \<in> set zs. zn_id z = i \<longrightarrow> zn_eventId (f z) = zn_eventId z) \<or>
      (\<forall>z \<in> set zs. zn_parentId z \<noteq> Some i) \<and> (\<forall>k \<in> set ks. cp_zoneId k \<noteq> Some i)"
    and new: "\<And>z. z \<in> set zs \<Longrightarrow> zn_id z = i \<Longrightarrow> points_to vn_id vn_eventId vs (zn_venueId (f z)) (zn_eventId (f z)) \<and>
      points_to zn_id zn_eventId zs (zn_parentId (f z)) (zn_eventId (f z)) \<and> zn_parentId (f z) \<noteq> Some i"
  shows "loc_ok c n vs (update_by zn_id i f zs) ks"
proof -
  have parent: "points_to zn_id zn_eventId (update_by zn_id i f zs) r e"
    if "points_to zn_id zn_eventId zs r e" and "r \<noteq> Some i \<or> (\<forall>z \<in> set zs. zn_id z = i \<longrightarrow> zn_eventId (f z) = zn_eventId z)" for r e
    using that by (intro points_to_update f) auto
  have "points_to zn_id zn_eventId (update_by zn_id i f zs) (zn_parentId z) (zn_eventId z)"
    "points_to vn_id vn_eventId vs (zn_venueId z) (zn_eventId z)" "zn_parentId z \<noteq> Some (zn_id z)"
    if z: "z \<in> set (update_by zn_id i f zs)" for z
    using z ok new move by (auto simp: set_update_by loc_ok_def f intro!: parent)
  moreover have "points_to zn_id zn_eventId (update_by zn_id i f zs) (cp_zoneId k) (cp_eventId k)"
    if "k \<in> set ks" for k using that ok move by (intro parent) (auto simp: loc_ok_def)
  ultimately show ?thesis using ok f by (simp add: loc_ok_def map_update_by)
qed

lemma loc_ok_update_checkpoint:
  assumes "loc_ok c n vs zs ks" and "\<And>k. cp_id (f k) = cp_id k"
    and "\<And>k. k \<in> set ks \<Longrightarrow> cp_id k = i \<Longrightarrow> points_to vn_id vn_eventId vs (cp_venueId (f k)) (cp_eventId (f k)) \<and>
      points_to zn_id zn_eventId zs (cp_zoneId (f k)) (cp_eventId (f k))"
  shows "loc_ok c n vs zs (update_by cp_id i f ks)"
  using assms by (auto simp: loc_ok_def map_update_by set_update_by)

section \<open>Deleting rows\<close>

lemma selected_iff: "i \<in> selected key p rows \<longleftrightarrow> (\<exists>r \<in> set rows. p r \<and> key r = i)"
  by (auto simp: selected_def)

lemma loc_ok_delete_checkpoints: "loc_ok c n vs zs ks \<Longrightarrow> loc_ok c n vs zs (delete_rows p ks)"
  by (auto simp: loc_ok_def generated_fewer set_delete_rows)

lemma loc_ok_delete_venues:
  fixes p
  assumes "loc_ok c n vs zs ks"
  defines "gone \<equiv> selected vn_id p vs"
  shows "loc_ok c n (delete_rows p vs) (map (\<lambda>x. x\<lparr>zn_venueId := nullify gone (zn_venueId x)\<rparr>) zs)
     (map (\<lambda>x. x\<lparr>cp_venueId := nullify gone (cp_venueId x)\<rparr>) ks)"
proof -
  have left: "points_to vn_id vn_eventId (delete_rows p vs) (nullify gone r) e"
    if "points_to vn_id vn_eventId vs r e" for r e
    using that by (rule points_to_kept) (auto simp: set_delete_rows gone_def selected_iff)
  have zones: "points_to zn_id zn_eventId (map (\<lambda>x. x\<lparr>zn_venueId := nullify gone (zn_venueId x)\<rparr>) zs) r e"
    if "points_to zn_id zn_eventId zs r e" for r e
    using that by (force simp: points_to_def split: option.splits)
  show ?thesis
    using assms(1) by (auto simp: loc_ok_def generated_fewer comp_def intro!: left zones)
qed

lemma loc_ok_delete_zones:
  fixes p
  assumes "loc_ok c n vs zs ks"
  defines "gone \<equiv> selected zn_id p zs"
  shows "loc_ok c n vs (map (\<lambda>x. x\<lparr>zn_parentId := nullify gone (zn_parentId x)\<rparr>) (delete_rows p zs))
     (map (\<lambda>x. x\<lparr>cp_zoneId := nullify gone (cp_zoneId x)\<rparr>) ks)"
proof -
  have left: "points_to zn_id zn_eventId (map (\<lambda>x. x\<lparr>zn_parentId := nullify gone (zn_parentId x)\<rparr>) (delete_rows p zs))
      (nullify gone r) e" if "points_to zn_id zn_eventId zs r e" for r e
    using that by (rule points_to_kept) (force simp: set_delete_rows gone_def selected_iff)
  have "generated c n (map zn_id (delete_rows p zs))"
    using assms(1) by (simp add: loc_ok_def generated_fewer)
  moreover have "nullify gone r = Some i \<Longrightarrow> r = Some i" for r i by (cases r) (auto split: if_splits)
  ultimately show ?thesis
    using assms(1) by (auto simp: loc_ok_def comp_def set_delete_rows intro!: left)
qed

section \<open>Every operation keeps the invariant\<close>

lemma ensureZoneBelongsToEvent_Inr:
  "ensureZoneBelongsToEvent r e s = Inr u \<longleftrightarrow> (case r of None \<Rightarrow> True | Some i \<Rightarrow> i = [] \<or>
     (\<exists>z. find_zone i s = Some z \<and> zn_eventId z = e))"
  by (auto simp: ensureZoneBelongsToEvent_def bindE_Inr_iff split: option.splits)

lemma ensureVenueBelongsToEvent_Inr:
  "ensureVenueBelongsToEvent r e s = Inr u \<longleftrightarrow> (case r of None \<Rightarrow> True | Some i \<Rightarrow> i = [] \<or>
     (\<exists>v. find_venue i s = Some v \<and> vn_eventId v = e))"
  by (auto simp: ensureVenueBelongsToEvent_def bindE_Inr_iff split: option.splits)

lemma ensureParentBelongsToEvent_Inr:
  "ensureParentBelongsToEvent r e self s = Inr u \<longleftrightarrow> (case r of None \<Rightarrow> True | Some i \<Rightarrow> i = [] \<or>
     (\<exists>z. find_zone i s = Some z \<and> zn_eventId z = e \<and> Some (zn_id z) \<noteq> self))"
  by (auto simp: ensureParentBelongsToEvent_def bindE_Inr_iff split: option.splits)

lemma zone_constraints_Inr:
  "zone_constraints z s = Inr u \<longleftrightarrow> \<not> (zn_code z \<noteq> None \<and> exists_row (\<lambda>x. zn_id x \<noteq> zn_id z \<and>
      zn_eventId x = zn_eventId z \<and> zn_code x = zn_code z) (zones s)) \<and> find_event (zn_eventId z) s \<noteq> None \<and>
    refers (\<lambda>i. find_venue i s) (zn_venueId z) \<and> refers (\<lambda>i. find_zone i s) (zn_parentId z)"
  by (simp add: zone_constraints_def)

lemma checkpoint_constraints_Inr:
  "checkpoint_constraints k s = Inr u \<longleftrightarrow> \<not> exists_row (\<lambda>x. cp_id x \<noteq> cp_id k \<and>
      cp_eventId x = cp_eventId k \<and> cp_code x = cp_code k) (checkpoints s) \<and> find_event (cp_eventId k) s \<noteq> None \<and>
    refers (\<lambda>i. find_venue i s) (cp_venueId k) \<and> refers (\<lambda>i. find_zone i s) (cp_zoneId k)"
  by (simp add: checkpoint_constraints_def)

lemmas guards_Inr = ensureZoneBelongsToEvent_Inr ensureVenueBelongsToEvent_Inr ensureParentBelongsToEvent_Inr
  zone_constraints_Inr checkpoint_constraints_Inr

lemma find_zone_Some: "find_zone i s = Some z \<Longrightarrow> z \<in> set (zones s) \<and> zn_id z = i"
  and find_venue_Some: "find_venue i s = Some v \<Longrightarrow> v \<in> set (venues s) \<and> vn_id v = i"
  by (auto simp: find_zone_def find_venue_def dest: lookup_by_Some)

lemma generated_not_empty: "ids_law c \<Longrightarrow> generated c n ids \<Longrightarrow> [] \<notin> set ids"
  by (metis generated_def ids_law_def)

lemma no_empty_id:
  assumes "ids_law c" and "loc_ok c n (venues s) (zones s) (checkpoints s)"
  shows "find_zone [] s = None" "find_venue [] s = None"
  using assms generated_not_empty [OF assms(1)] unfolding find_zone_def find_venue_def lookup_by_None loc_ok_def
  by (metis set_map)+

lemma checked_venue:
  assumes "ids_law c" and "loc_ok c n (venues s) (zones s) (checkpoints s)"
    and "ensureVenueBelongsToEvent r e s = Inr u" and "refers (\<lambda>i. find_venue i s) r"
  shows "points_to vn_id vn_eventId (venues s) r e"
  using assms no_empty_id [OF assms(1,2)]
  by (cases r) (auto simp: ensureVenueBelongsToEvent_Inr refers_def points_to_Some dest: find_venue_Some)

lemma checked_zone:
  assumes "ids_law c" and "loc_ok c n (venues s) (zones s) (checkpoints s)"
    and "ensureZoneBelongsToEvent r e s = Inr u" and "refers (\<lambda>i. find_zone i s) r"
  shows "points_to zn_id zn_eventId (zones s) r e"
  using assms no_empty_id [OF assms(1,2)]
  by (cases r) (auto simp: ensureZoneBelongsToEvent_Inr refers_def points_to_Some dest: find_zone_Some)

lemma checked_parent:
  assumes "ids_law c" and "loc_ok c n (venues s) (zones s) (checkpoints s)"
    and "ensureParentBelongsToEvent r e self s = Inr u" and "refers (\<lambda>i. find_zone i s) r"
  shows "points_to zn_id zn_eventId (zones s) r e \<and> (self \<noteq> None \<longrightarrow> r \<noteq> self)"
  using assms no_empty_id [OF assms(1,2)]
  by (cases r) (auto simp: ensureParentBelongsToEvent_Inr refers_def points_to_Some dest: find_zone_Some)

lemma bind_new_id: "bindA (new_id c) f s = f (cuid c (next_id s)) (s\<lparr>next_id := Suc (next_id s)\<rparr>)"
  by (simp add: bindA_def new_id_def)

lemma createVenue_keeps: "within (keeps (location_inv c)) (createVenue c dto) s"
  by (auto simp: within_def keeps_def location_inv_def createVenue_def act_simps bind_new_id Let_def ids_law_def
      intro!: loc_ok_add_venue split: sum.splits)

lemma loc_ok_later: "loc_ok c n vs zs ks \<Longrightarrow> loc_ok c (Suc n) vs zs ks"
  by (simp add: loc_ok_def generated_later)

lemma createZone_keeps: "within (keeps (location_inv c)) (createZone c dto) s"
  unfolding within_def keeps_def location_inv_def
proof (intro impI)
  assume ids: "ids_law c" and inv: "ids_law c \<longrightarrow> loc_ok c (next_id s) (venues s) (zones s) (checkpoints s)"
  then have ok: "loc_ok c (next_id s) (venues s) (zones s) (checkpoints s)" by simp
  show "loc_ok c (next_id (snd (createZone c dto s))) (venues (snd (createZone c dto s)))
      (zones (snd (createZone c dto s))) (checkpoints (snd (createZone c dto s)))"
    using ok ids loc_ok_later [OF ok] checked_venue [OF ids ok] checked_parent [OF ids ok]
    by (auto simp: createZone_def act_simps bind_new_id Let_def zone_constraints_Inr ids_law_def find_venue_def
        find_zone_def intro!: loc_ok_add_zone split: sum.splits)
qed

lemma createCheckpoint_keeps: "within (keeps (location_inv c)) (createCheckpoint c dto) s"
  unfolding within_def keeps_def location_inv_def
proof (intro impI)
  assume ids: "ids_law c" and inv: "ids_law c \<longrightarrow> loc_ok c (next_id s) (venues s) (zones s) (checkpoints s)"
  then have ok: "loc_ok c (next_id s) (venues s) (zones s) (checkpoints s)" by simp
  show "loc_ok c (next_id (snd (createCheckpoint c dto s))) (venues (snd (createCheckpoint c dto s)))
      (zones (snd (createCheckpoint c dto s))) (checkpoints (snd (createCheckpoint c dto s)))"
    using ok ids loc_ok_later [OF ok] checked_venue [OF ids ok] checked_zone [OF ids ok]
    by (auto simp: createCheckpoint_def act_simps bind_new_id Let_def checkpoint_constraints_Inr ids_law_def find_venue_def
        find_zone_def intro!: loc_ok_add_checkpoint split: sum.splits)
qed

lemma updateVenue_keeps: "within (keeps (location_inv c)) (updateVenue i dto) s"
  unfolding within_def keeps_def location_inv_def
proof (intro impI)
  assume ids: "ids_law c" and inv: "ids_law c \<longrightarrow> loc_ok c (next_id s) (venues s) (zones s) (checkpoints s)"
  then have ok: "loc_ok c (next_id s) (venues s) (zones s) (checkpoints s)" by simp
  have same_id: "vn_id (changed_venue dto v) = vn_id v" for v by (simp add: changed_venue_def)
  have unused: "(\<forall>z \<in> set (zones s). zn_venueId z \<noteq> Some i) \<and> (\<forall>k \<in> set (checkpoints s). cp_venueId k \<noteq> Some i)"
    if "ensureVenueCanMove i s = Inr u" for u
    using that by (simp add: ensureVenueCanMove_def count_rows_def filter_empty_conv)
  have stays: "\<forall>v \<in> set (venues s). vn_id v = i \<longrightarrow> vn_eventId (changed_venue dto v) = vn_eventId v"
    if "find_venue i s = Some v" and "or_kept (vu_eventId dto) (vn_eventId v) = vn_eventId v" for v
  proof -
    have "distinct (map vn_id (venues s))" using ok by (simp add: loc_ok_def generated_def)
    then have "w = v" if "w \<in> set (venues s)" "vn_id w = i" for w
      using that \<open>find_venue i s = Some v\<close> by (metis find_venue_Some distinct_key_inj)
    then show ?thesis using that by (auto simp: changed_venue_def)
  qed
  show "loc_ok c (next_id (snd (updateVenue i dto s))) (venues (snd (updateVenue i dto s)))
      (zones (snd (updateVenue i dto s))) (checkpoints (snd (updateVenue i dto s)))"
  proof (cases "findOneVenue i s")
    case (Inr v)
    then have v: "find_venue i s = Some v" by (simp add: findOneVenue_def)
    show ?thesis
    proof (cases "or_kept (vu_eventId dto) (vn_eventId v) = vn_eventId v")
      case True
      then show ?thesis using Inr ok loc_ok_update_venue [OF ok same_id disjI1, OF stays [OF v True]]
        by (simp add: updateVenue_def act_simps Let_def split: sum.splits)
    next
      case False
      then show ?thesis using Inr ok loc_ok_update_venue [OF ok same_id disjI2, OF unused]
        by (simp add: updateVenue_def act_simps Let_def bindA_assoc split: sum.splits)
    qed
  qed (use ok in \<open>simp add: updateVenue_def act_simps\<close>)
qed

lemma or_stored_given: "v \<noteq> Some None \<Longrightarrow> or_stored v old = or_kept v old"
  by (auto simp: or_stored_def or_kept_def split: option.splits)

lemma same_zone:
  assumes "loc_ok c n vs (zones s) ks" and "find_zone i s = Some z" and "x \<in> set (zones s)" and "zn_id x = i"
  shows "x = z"
  using assms by (metis distinct_key_inj find_zone_Some generated_def loc_ok_def)

lemma zone_write_keeps:
  assumes z: "find_zone i s = Some z"
    and move: "or_kept (zu_eventId dto) (zn_eventId z) = zn_eventId z \<or> ensureZoneCanMove i s = Inr ()"
    and venue_ok: "ensureVenueBelongsToEvent (or_stored (zu_venueId dto) (zn_venueId z)) (or_kept (zu_eventId dto) (zn_eventId z)) s = Inr ()"
    and parent_ok: "ensureParentBelongsToEvent (or_stored (zu_parentId dto) (zn_parentId z)) (or_kept (zu_eventId dto) (zn_eventId z)) (Some i) s = Inr ()"
    and db_ok: "zone_constraints (changed_zone dto z) s = Inr ()"
  shows "keeps (location_inv c) s (s\<lparr>zones := update_by zn_id i (changed_zone dto) (zones s)\<rparr>)"
  unfolding keeps_def location_inv_def
proof (intro impI)
  assume ids: "ids_law c" and inv: "ids_law c \<longrightarrow> loc_ok c (next_id s) (venues s) (zones s) (checkpoints s)"
  then have ok: "loc_ok c (next_id s) (venues s) (zones s) (checkpoints s)" by simp
    let ?e = "or_kept (zu_eventId dto) (zn_eventId z)"
    have refs: "refers (\<lambda>i. find_venue i s) (or_kept (zu_venueId dto) (zn_venueId z))"
        "refers (\<lambda>i. find_zone i s) (or_kept (zu_parentId dto) (zn_parentId z))"
      using db_ok by (simp_all add: zone_constraints_Inr changed_zone_def)
    have venue: "points_to vn_id vn_eventId (venues s) (or_kept (zu_venueId dto) (zn_venueId z)) ?e"
      using checked_venue [OF ids ok venue_ok] refs(1)
      by (cases "zu_venueId dto = Some None") (simp_all add: or_stored_given)
    have parent: "points_to zn_id zn_eventId (zones s) (or_kept (zu_parentId dto) (zn_parentId z)) ?e \<and>
        or_kept (zu_parentId dto) (zn_parentId z) \<noteq> Some i"
      using checked_parent [OF ids ok parent_ok] refs(2)
      by (cases "zu_parentId dto = Some None") (simp_all add: or_stored_given)
    have only: "x = z" if "x \<in> set (zones s)" "zn_id x = i" for x using same_zone [OF ok z] that by blast
    have "loc_ok c (next_id s) (venues s) (update_by zn_id i (changed_zone dto) (zones s)) (checkpoints s)"
    proof (rule loc_ok_update_zone [OF ok])
      show "zn_id (changed_zone dto x) = zn_id x" for x by (simp add: changed_zone_def)
      show "(\<forall>x \<in> set (zones s). zn_id x = i \<longrightarrow> zn_eventId (changed_zone dto x) = zn_eventId x) \<or>
          (\<forall>x \<in> set (zones s). zn_parentId x \<noteq> Some i) \<and> (\<forall>k \<in> set (checkpoints s). cp_zoneId k \<noteq> Some i)"
        using move only by (auto simp: ensureZoneCanMove_def count_rows_def filter_empty_conv changed_zone_def)
      show "points_to vn_id vn_eventId (venues s) (zn_venueId (changed_zone dto x)) (zn_eventId (changed_zone dto x)) \<and>
          points_to zn_id zn_eventId (zones s) (zn_parentId (changed_zone dto x)) (zn_eventId (changed_zone dto x)) \<and>
          zn_parentId (changed_zone dto x) \<noteq> Some i" if "x \<in> set (zones s)" "zn_id x = i" for x
        using venue parent only [OF that] by (simp add: changed_zone_def)
    qed
  then show "loc_ok c (next_id (s\<lparr>zones := update_by zn_id i (changed_zone dto) (zones s)\<rparr>))
      (venues (s\<lparr>zones := update_by zn_id i (changed_zone dto) (zones s)\<rparr>))
      (zones (s\<lparr>zones := update_by zn_id i (changed_zone dto) (zones s)\<rparr>))
      (checkpoints (s\<lparr>zones := update_by zn_id i (changed_zone dto) (zones s)\<rparr>))" by simp
qed

lemma updateZone_keeps: "within (keeps (location_inv c)) (updateZone i dto) s"
  unfolding updateZone_def Let_def
proof (rule keeps.within_bind_reads, rule keeps.within_bind_reads, rule keeps.within_bind)
  fix z e
  assume z: "findOneZone i s = Inr z"
  let ?move = "if or_kept (zu_eventId dto) (zn_eventId z) \<noteq> zn_eventId z
    then bindA (reads (ensureEventCanBeModified (or_kept (zu_eventId dto) (zn_eventId z)))) (\<lambda>_. reads (ensureZoneCanMove i))
    else ret ()"
  show "within (keeps (location_inv c)) ?move s" by (auto intro!: keeps.within_rules)
  fix u t
  assume "?move s = (Inr u, t)"
  then have t: "t = s" and move: "or_kept (zu_eventId dto) (zn_eventId z) = zn_eventId z \<or> ensureZoneCanMove i s = Inr ()"
    by (auto simp: act_simps split: if_splits sum.splits)
  show "within (keeps (location_inv c)) (if zu_parentId dto = Some (Some i) then throw (BadRequest ''Zone cannot be its own parent'')
    else
    bindA (reads (ensureVenueBelongsToEvent (or_stored (zu_venueId dto) (zn_venueId z)) (or_kept (zu_eventId dto) (zn_eventId z)))) (\<lambda>_.
    bindA (reads (ensureParentBelongsToEvent (or_stored (zu_parentId dto) (zn_parentId z)) (or_kept (zu_eventId dto) (zn_eventId z)) (Some i))) (\<lambda>_.
    bindA (reads (ensureZoneCodeIsUnique (or_kept (zu_eventId dto) (zn_eventId z)) (or_stored (zu_code dto) (zn_code z)) (Some i))) (\<lambda>_.
    bindA (reads (zone_constraints (changed_zone dto z))) (\<lambda>_.
    bindA (modify (\<lambda>s. s\<lparr>zones := update_by zn_id i (changed_zone dto) (zones s)\<rparr>)) (\<lambda>_.
    ret (changed_zone dto z))))))) t"
    unfolding t using z move
    by (auto simp: findOneZone_def intro!: keeps.within_rules keeps.within_bind [OF keeps.within_modify] zone_write_keeps [of i s z])
qed

lemma checkpoint_write_keeps:
  assumes k: "find_checkpoint i s = Some k"
    and venue_ok: "ensureVenueBelongsToEvent (or_stored (ku_venueId dto) (cp_venueId k)) (or_kept (ku_eventId dto) (cp_eventId k)) s = Inr ()"
    and zone_ok: "ensureZoneBelongsToEvent (or_stored (ku_zoneId dto) (cp_zoneId k)) (or_kept (ku_eventId dto) (cp_eventId k)) s = Inr ()"
    and db_ok: "checkpoint_constraints (changed_checkpoint dto k) s = Inr ()"
  shows "keeps (location_inv c) s (s\<lparr>checkpoints := update_by cp_id i (changed_checkpoint dto) (checkpoints s)\<rparr>)"
  unfolding keeps_def location_inv_def
proof (intro impI)
  assume ids: "ids_law c" and inv: "ids_law c \<longrightarrow> loc_ok c (next_id s) (venues s) (zones s) (checkpoints s)"
  then have ok: "loc_ok c (next_id s) (venues s) (zones s) (checkpoints s)" by simp
    let ?e = "or_kept (ku_eventId dto) (cp_eventId k)"
    have refs: "refers (\<lambda>i. find_venue i s) (or_kept (ku_venueId dto) (cp_venueId k))"
        "refers (\<lambda>i. find_zone i s) (or_kept (ku_zoneId dto) (cp_zoneId k))"
      using db_ok by (simp_all add: checkpoint_constraints_Inr changed_checkpoint_def)
    have venue: "points_to vn_id vn_eventId (venues s) (or_kept (ku_venueId dto) (cp_venueId k)) ?e"
      using checked_venue [OF ids ok venue_ok] refs(1)
      by (cases "ku_venueId dto = Some None") (simp_all add: or_stored_given)
    have zone: "points_to zn_id zn_eventId (zones s) (or_kept (ku_zoneId dto) (cp_zoneId k)) ?e"
      using checked_zone [OF ids ok zone_ok] refs(2)
      by (cases "ku_zoneId dto = Some None") (simp_all add: or_stored_given)
    have only: "x = k" if "x \<in> set (checkpoints s)" "cp_id x = i" for x
    proof -
      have "distinct (map cp_id (checkpoints s))" using ok by (simp add: loc_ok_def generated_def)
      moreover have "k \<in> set (checkpoints s)" "cp_id k = i" using k lookup_by_Some [of cp_id i "checkpoints s" k]
        by (auto simp: find_checkpoint_def)
      ultimately show ?thesis using that by (metis distinct_key_inj)
    qed
    have "loc_ok c (next_id s) (venues s) (zones s) (update_by cp_id i (changed_checkpoint dto) (checkpoints s))"
    proof (rule loc_ok_update_checkpoint [OF ok])
      show "cp_id (changed_checkpoint dto x) = cp_id x" for x by (simp add: changed_checkpoint_def)
      show "points_to vn_id vn_eventId (venues s) (cp_venueId (changed_checkpoint dto x)) (cp_eventId (changed_checkpoint dto x)) \<and>
          points_to zn_id zn_eventId (zones s) (cp_zoneId (changed_checkpoint dto x)) (cp_eventId (changed_checkpoint dto x))"
        if "x \<in> set (checkpoints s)" "cp_id x = i" for x
        using venue zone only [OF that] by (simp add: changed_checkpoint_def)
    qed
  then show "loc_ok c (next_id (s\<lparr>checkpoints := update_by cp_id i (changed_checkpoint dto) (checkpoints s)\<rparr>))
      (venues (s\<lparr>checkpoints := update_by cp_id i (changed_checkpoint dto) (checkpoints s)\<rparr>))
      (zones (s\<lparr>checkpoints := update_by cp_id i (changed_checkpoint dto) (checkpoints s)\<rparr>))
      (checkpoints (s\<lparr>checkpoints := update_by cp_id i (changed_checkpoint dto) (checkpoints s)\<rparr>))" by simp
qed

lemma updateCheckpoint_keeps: "within (keeps (location_inv c)) (updateCheckpoint i dto) s"
  unfolding updateCheckpoint_def Let_def
proof (rule keeps.within_bind_reads, rule keeps.within_bind_reads, rule keeps.within_bind)
  fix k e
  assume k: "findOneCheckpoint i s = Inr k"
  let ?move = "if or_kept (ku_eventId dto) (cp_eventId k) \<noteq> cp_eventId k
    then bindA (reads (ensureEventCanBeModified (or_kept (ku_eventId dto) (cp_eventId k)))) (\<lambda>_. ret ()) else ret ()"
  show "within (keeps (location_inv c)) ?move s" by (auto intro!: keeps.within_rules)
  fix u t
  assume "?move s = (Inr u, t)"
  then have t: "t = s" by (auto simp: act_simps split: if_splits sum.splits)
  show "within (keeps (location_inv c)) (
    bindA (reads (ensureVenueBelongsToEvent (or_stored (ku_venueId dto) (cp_venueId k)) (or_kept (ku_eventId dto) (cp_eventId k)))) (\<lambda>_.
    bindA (reads (ensureZoneBelongsToEvent (or_stored (ku_zoneId dto) (cp_zoneId k)) (or_kept (ku_eventId dto) (cp_eventId k)))) (\<lambda>_.
    bindA (reads (ensureCheckpointCodeIsUnique (or_kept (ku_eventId dto) (cp_eventId k)) (or_kept (ku_code dto) (cp_code k)) (Some i))) (\<lambda>_.
    bindA (reads (checkpoint_constraints (changed_checkpoint dto k))) (\<lambda>_.
    bindA (modify (\<lambda>s. s\<lparr>checkpoints := update_by cp_id i (changed_checkpoint dto) (checkpoints s)\<rparr>)) (\<lambda>_.
    ret (changed_checkpoint dto k))))))) t"
    unfolding t using k
    by (auto simp: findOneCheckpoint_def intro!: keeps.within_rules keeps.within_bind [OF keeps.within_modify]
      checkpoint_write_keeps [of i s k])
qed

text \<open>The removals: what they do to other tables leaves the invariant alone.\<close>

definition location_tables :: "store \<Rightarrow> nat \<times> venue list \<times> zone list \<times> checkpoint list" where
  "location_tables s = (next_id s, venues s, zones s, checkpoints s)"

lemma same_tables_keeps: "same location_tables s t \<Longrightarrow> keeps (location_inv c) s t"
  by (simp add: same_def keeps_def location_inv_def location_tables_def)

lemma deleteCheckpointDependencies_same: "within (same location_tables) (deleteCheckpointDependencies ids) s"
  unfolding deleteCheckpointDependencies_def delete_movements_def delete_scans_def delete_sync_ops_def
    delete_batches_def delete_sessions_def delete_assignments_def
  by (intro same.within_if same.within_ret same.within_bind same.within_gets same.within_reads same.within_modify)
    (simp_all add: same_def location_tables_def Let_def)

lemma deleteCheckpointDependencies_keeps: "within (keeps (location_inv c)) (deleteCheckpointDependencies ids) s"
  using deleteCheckpointDependencies_same [of ids s] same_tables_keeps by (auto simp: within_def)

lemma delete_checkpoints_keeps: "within (keeps (location_inv c)) (delete_checkpoints p) s"
  unfolding delete_checkpoints_def
  by (intro keeps.within_bind_gets keeps.within_bind_reads keeps.within_bind [OF keeps.within_modify] keeps.within_ret)
    (simp add: keeps_def location_inv_def loc_ok_delete_checkpoints)

lemma delete_zones_keeps: "within (keeps (location_inv c)) (delete_zones p) s"
  unfolding delete_zones_def
  by (intro keeps.within_modify) (simp add: keeps_def location_inv_def Let_def loc_ok_delete_zones)

lemma delete_venues_keeps: "within (keeps (location_inv c)) (delete_venues p) s"
  unfolding delete_venues_def
  by (intro keeps.within_modify) (simp add: keeps_def location_inv_def Let_def loc_ok_delete_venues)

lemmas removals_keep = keeps.within_bind_reads keeps.within_transaction keeps.within_bind_gets
  keeps.within_bind [OF deleteCheckpointDependencies_keeps] keeps.within_bind [OF delete_checkpoints_keeps]
  keeps.within_bind [OF keeps.within_forA] keeps.within_bind [OF delete_venues_keeps] keeps.within_ret delete_zones_keeps

lemma removeZone_keeps: "within (keeps (location_inv c)) (removeZone i) s"
  unfolding removeZone_def Let_def by (intro removals_keep)

lemma removeVenue_keeps: "within (keeps (location_inv c)) (removeVenue i) s"
  unfolding removeVenue_def Let_def by (intro removals_keep)

lemma removeCheckpoint_keeps: "within (keeps (location_inv c)) (removeCheckpoint i) s"
  unfolding removeCheckpoint_def Let_def by (intro removals_keep)

section \<open>Histories\<close>

datatype location_request =
    Create_venue venue_dto | Update_venue id venue_change | Remove_venue id
  | Create_zone zone_dto | Update_zone id zone_change | Remove_zone id
  | Create_checkpoint checkpoint_dto | Update_checkpoint id checkpoint_change | Remove_checkpoint id

fun serve_location :: "env \<Rightarrow> location_request \<Rightarrow> store \<Rightarrow> store" where
  "serve_location c (Create_venue dto) s = snd (createVenue c dto s)"
| "serve_location c (Update_venue i dto) s = snd (updateVenue i dto s)"
| "serve_location c (Remove_venue i) s = snd (removeVenue i s)"
| "serve_location c (Create_zone dto) s = snd (createZone c dto s)"
| "serve_location c (Update_zone i dto) s = snd (updateZone i dto s)"
| "serve_location c (Remove_zone i) s = snd (removeZone i s)"
| "serve_location c (Create_checkpoint dto) s = snd (createCheckpoint c dto s)"
| "serve_location c (Update_checkpoint i dto) s = snd (updateCheckpoint i dto s)"
| "serve_location c (Remove_checkpoint i) s = snd (removeCheckpoint i s)"

lemmas operations_keep = createVenue_keeps updateVenue_keeps removeVenue_keeps createZone_keeps updateZone_keeps
  removeZone_keeps createCheckpoint_keeps updateCheckpoint_keeps removeCheckpoint_keeps

lemma serve_location_keeps: "location_inv c s \<Longrightarrow> location_inv c (serve_location c r s)"
  using operations_keep [unfolded within_def keeps_def] by (cases r) (simp_all only: serve_location.simps)

text \<open>C19: after any sequence of requests to the venue, zone and checkpoint services, refused ones
  included, every venue, parent zone and zone that a row of the three tables refers to exists and is of
  the same event, and no zone is its own parent.\<close>

theorem references_stay_in_the_event:
  assumes "ids_law c" and "location_inv c s" and "t = fold (serve_location c) requests s"
  shows "(\<forall>z \<in> set (zones t). zn_parentId z \<noteq> Some (zn_id z) \<and>
      (\<forall>i. zn_parentId z = Some i \<longrightarrow> (\<exists>p. find_zone i t = Some p \<and> zn_eventId p = zn_eventId z)) \<and>
      (\<forall>i. zn_venueId z = Some i \<longrightarrow> (\<exists>v. find_venue i t = Some v \<and> vn_eventId v = zn_eventId z))) \<and>
    (\<forall>k \<in> set (checkpoints t).
      (\<forall>i. cp_zoneId k = Some i \<longrightarrow> (\<exists>z. find_zone i t = Some z \<and> zn_eventId z = cp_eventId k)) \<and>
      (\<forall>i. cp_venueId k = Some i \<longrightarrow> (\<exists>v. find_venue i t = Some v \<and> vn_eventId v = cp_eventId k)))"
proof -
  have "location_inv c t" unfolding assms(3) using assms(2)
    by (induction requests arbitrary: s) (auto intro: serve_location_keeps)
  then have ok: "loc_ok c (next_id t) (venues t) (zones t) (checkpoints t)"
    using assms(1) by (simp add: location_inv_def)
  then have keys: "distinct (map zn_id (zones t))" "distinct (map vn_id (venues t))"
    by (simp_all add: loc_ok_def generated_def)
  have zone: "\<exists>p. find_zone i t = Some p \<and> zn_eventId p = e" if "points_to zn_id zn_eventId (zones t) (Some i) e" for i e
    using that find_row_unique [OF keys(1)] by (auto simp: points_to_Some find_zone_def lookup_by_def)
  have venue: "\<exists>p. find_venue i t = Some p \<and> vn_eventId p = e" if "points_to vn_id vn_eventId (venues t) (Some i) e" for i e
    using that find_row_unique [OF keys(2)] by (auto simp: points_to_Some find_venue_def lookup_by_def)
  show ?thesis using ok zone venue unfolding loc_ok_def by metis
qed

end
