(* ===== verification/LocationsProps.thy ===== *)
theory LocationsProps
  imports LocationsInv Sample
begin

text \<open>
  What the removal of a zone or of a venue does, when it is refused, and what the changes of zones let
  through.
\<close>

section \<open>The rows under the checkpoints\<close>

definition kept_by_cascade ::
    "store \<Rightarrow> (nat \<times> venue list \<times> zone list \<times> checkpoint list) \<times> id list \<times> registration list \<times> event_row list" where
  "kept_by_cascade s = (location_tables s, map os_checkpointId (offlineScans s), registrations s, events s)"

lemma deleteCheckpointDependencies_frame: "within (same kept_by_cascade) (deleteCheckpointDependencies ids) s"
  unfolding deleteCheckpointDependencies_def delete_movements_def delete_scans_def delete_sync_ops_def
    delete_batches_def delete_sessions_def delete_assignments_def
  by (intro same.within_if same.within_ret same.within_bind same.within_gets same.within_reads same.within_modify)
    (simp_all add: same_def kept_by_cascade_def location_tables_def Let_def comp_def)

lemma deleteCheckpointDependencies_error:
  "deleteCheckpointDependencies ids s = (Inl e, t) \<Longrightarrow> e = foreign_key"
  unfolding deleteCheckpointDependencies_def delete_movements_def delete_scans_def delete_sync_ops_def
    delete_batches_def delete_sessions_def delete_assignments_def
  by (auto simp: act_simps bindA_assoc guard_def split: if_splits)

lemma selected_ids: "selected key (\<lambda>r. key r \<in> X) rows = X \<inter> key ` set rows"
  by (auto simp: selected_iff)

lemma delete_batches_run:
  "bindA (delete_sync_ops (\<lambda>x. so_syncBatchId x \<in> X)) (\<lambda>_. delete_batches (\<lambda>x. sb_id x \<in> X)) s =
   (Inr (), s\<lparr>syncOps := delete_rows (\<lambda>x. so_syncBatchId x \<in> X) (syncOps s),
      syncBatches := delete_rows (\<lambda>x. sb_id x \<in> X) (syncBatches s)\<rparr>)"
proof -
  have no: "\<not> exists_row (\<lambda>x. so_syncBatchId x \<in> X \<inter> sb_id ` set (syncBatches s)) (delete_rows (\<lambda>x. so_syncBatchId x \<in> X) (syncOps s))"
    by (auto simp: exists_row_iff set_delete_rows)
  show ?thesis
    unfolding delete_sync_ops_def delete_batches_def bindA_modify bindA_gets bindA_reads
    by (simp add: selected_ids no modify_def del: Int_iff)
qed

lemma delete_sessions_run:
  "\<exists>t. delete_sessions p s = (Inr (), t) \<and> staffSessions t = delete_rows p (staffSessions s)"
  by (simp add: delete_sessions_def modify_def Let_def)

text \<open>A movement is at the checkpoint and in the session of its scan.\<close>

definition movements_agree :: "store \<Rightarrow> bool" where
  "movements_agree s = (\<forall>m \<in> set (movements s). \<forall>sc \<in> set (scans s). mv_scanEventRawId m = sc_id sc \<longrightarrow>
     mv_checkpointId m = sc_checkpointId sc \<and> mv_staffSessionId m = sc_staffSessionId sc)"

lemma deleteCheckpointDependencies_runs:
  assumes "movements_agree s"
  shows "\<exists>t. deleteCheckpointDependencies ids s = (Inr (), t) \<and>
    (\<forall>x \<in> set (staffSessions t). ss_checkpointId x \<notin> set ids)"
proof (cases "ids = []")
  case True
  then show ?thesis by (simp add: deleteCheckpointDependencies_def act_simps)
next
  case False
  let ?sess = "map ss_id (filter (\<lambda>x. ss_checkpointId x \<in> set ids) (staffSessions s))"
  let ?P = "at_checkpoints ids ?sess"
  have scans_free: "\<not> exists_row (\<lambda>m. mv_scanEventRawId m \<in> selected sc_id (\<lambda>x. ?P (sc_checkpointId x) (sc_staffSessionId x)) (scans s))
      (delete_rows (\<lambda>x. ?P (mv_checkpointId x) (mv_staffSessionId x)) (movements s))"
    using assms by (fastforce simp: exists_row_iff set_delete_rows selected_iff movements_agree_def)
  let ?batches = "map sb_id (filter (\<lambda>x. ?P None (sb_staffSessionId x)) (syncBatches s))"
  obtain s1 where s1: "delete_movements (\<lambda>x. ?P (mv_checkpointId x) (mv_staffSessionId x)) s = (Inr (), s1)"
      "scans s1 = scans s" "staffSessions s1 = staffSessions s"
      "movements s1 = delete_rows (\<lambda>x. ?P (mv_checkpointId x) (mv_staffSessionId x)) (movements s)"
    by (simp add: delete_movements_def modify_def Let_def)
  obtain s2 where s2: "delete_scans (\<lambda>x. ?P (sc_checkpointId x) (sc_staffSessionId x)) s1 = (Inr (), s2)"
      "staffSessions s2 = staffSessions s"
    using scans_free by (simp add: delete_scans_def act_simps s1)
  obtain s3 where s3: "(if ?batches = [] then ret () else bindA (delete_sync_ops (\<lambda>x. so_syncBatchId x \<in> set ?batches)) (\<lambda>_.
      delete_batches (\<lambda>x. sb_id x \<in> set ?batches))) s2 = (Inr (), s3)" "staffSessions s3 = staffSessions s"
    using s2(2) by (cases "?batches = []") (simp_all add: ret_def delete_batches_run del: set_map)
  obtain s4 where s4: "(if ?sess = [] then ret () else delete_sessions (\<lambda>x. ss_id x \<in> set ?sess)) s3 = (Inr (), s4)"
      "\<forall>x \<in> set (staffSessions s4). ss_checkpointId x \<notin> set ids"
  proof (cases "?sess = []")
    case True
    have free: "\<forall>x \<in> set (staffSessions s3). ss_checkpointId x \<notin> set ids"
      using True unfolding s3(2) map_is_Nil_conv filter_empty_conv by blast
    show thesis by (rule that [OF _ free]) (simp only: if_P [OF True] ret_def)
  next
    case False
    have "\<forall>x \<in> set (delete_rows (\<lambda>x. ss_id x \<in> set ?sess) (staffSessions s)). ss_checkpointId x \<notin> set ids"
      by (auto simp: set_delete_rows)
    moreover obtain t where "delete_sessions (\<lambda>x. ss_id x \<in> set ?sess) s3 = (Inr (), t)"
        "staffSessions t = delete_rows (\<lambda>x. ss_id x \<in> set ?sess) (staffSessions s)"
      using delete_sessions_run s3(2) by metis
    ultimately show thesis by (intro that [of t]) (simp_all only: if_not_P [OF False])
  qed
  have "deleteCheckpointDependencies ids s =
      delete_assignments (\<lambda>x. case sa_checkpointId x of None \<Rightarrow> False | Some i \<Rightarrow> i \<in> set ids) s4"
    unfolding deleteCheckpointDependencies_def if_not_P [OF False] bindA_gets
    by (subst bindA_done, rule s1(1), subst bindA_done, rule s2(1), subst bindA_done, rule s3(1),
      subst bindA_done, rule s4(1), rule refl)
  with s4(2) show ?thesis by (simp add: delete_assignments_def modify_def)
qed

section \<open>The zones\<close>

definition drop_zones :: "id set \<Rightarrow> store \<Rightarrow> store" where
  "drop_zones X s = (let gone = selected zn_id (\<lambda>z. zn_id z \<in> X) (zones s) in
     s\<lparr>zones := map (\<lambda>x. x\<lparr>zn_parentId := nullify gone (zn_parentId x)\<rparr>) (delete_rows (\<lambda>z. zn_id z \<in> X) (zones s)),
       checkpoints := map (\<lambda>x. x\<lparr>cp_zoneId := nullify gone (cp_zoneId x)\<rparr>) (checkpoints s)\<rparr>)"

lemma nullify_twice: "nullify B (nullify A r) = nullify (A \<union> B) r"
  by (cases r) auto

lemma drop_zones_twice: "drop_zones Y (drop_zones X s) = drop_zones (X \<union> Y) s"
proof -
  have rows: "delete_rows (\<lambda>z. zn_id z \<in> Y) (map (\<lambda>x. x\<lparr>zn_parentId := g (zn_parentId x)\<rparr>) (delete_rows (\<lambda>z. zn_id z \<in> X) zs)) =
      map (\<lambda>x. x\<lparr>zn_parentId := g (zn_parentId x)\<rparr>) (delete_rows (\<lambda>z. zn_id z \<in> X \<union> Y) zs)" for g zs
    by (induction zs) (auto simp: delete_rows_def)
  have ids: "zn_id ` set (map (\<lambda>x. x\<lparr>zn_parentId := g (zn_parentId x)\<rparr>) (delete_rows (\<lambda>z. zn_id z \<in> X) zs)) =
      zn_id ` set zs - X" for g zs
    by (auto simp: set_delete_rows image_image)
  have "X \<inter> I \<union> Y \<inter> (I - X) = (X \<union> Y) \<inter> I" for I :: "id set" by blast
  then show ?thesis
    unfolding drop_zones_def Let_def selected_ids by (simp add: rows ids nullify_twice comp_def del: set_map)
qed

lemma drop_no_zones: "drop_zones {} s = s"
  by (simp add: drop_zones_def delete_rows_def selected_def nullify_def map_idI cong: option.case_cong split: option.splits)

lemma delete_level: "delete_zones (\<lambda>z. zn_id z \<in> set level) s = (Inr (), drop_zones (set level) s)"
  by (simp add: delete_zones_def modify_def drop_zones_def)

lemma delete_levels:
  "\<exists>us. forA levels (\<lambda>level. delete_zones (\<lambda>z. zn_id z \<in> set level)) s = (Inr us, drop_zones (set (concat levels)) s)"
proof (induction levels arbitrary: s)
  case Nil
  then show ?case by (simp add: drop_no_zones act_simps)
next
  case (Cons level levels)
  obtain us where "forA levels (\<lambda>level. delete_zones (\<lambda>z. zn_id z \<in> set level)) (drop_zones (set level) s) =
      (Inr us, drop_zones (set (concat levels)) (drop_zones (set level) s))"
    using Cons.IH by blast
  then have "forA (level # levels) (\<lambda>level. delete_zones (\<lambda>z. zn_id z \<in> set level)) s =
      (Inr (() # us), drop_zones (set (concat (level # levels))) s)"
    by (simp only: forA.simps bindA_done [OF delete_level] bindA_done)
      (simp add: ret_def drop_zones_twice)
  then show ?case by blast
qed

section \<open>Removing a zone\<close>

definition zone_subtree :: "zone \<Rightarrow> store \<Rightarrow> id set" where
  "zone_subtree zone s = {i. in_subtree (zone_nodes (zn_eventId zone) s) {zn_id zone} i}"

definition in_zones :: "id set \<Rightarrow> checkpoint \<Rightarrow> bool" where
  "in_zones X k = (case cp_zoneId k of None \<Rightarrow> False | Some z \<Rightarrow> z \<in> X)"

text \<open>The steps of both removals once the levels of zones and the checkpoints are known.\<close>

lemma cascade_runs:
  assumes "movements_agree s"
    and ids: "ids = map cp_id (filter p (checkpoints s))" and "distinct (map cp_id (checkpoints s))"
    and free: "\<forall>x \<in> set (offlineScans s). os_checkpointId x \<notin> set ids"
  shows "\<exists>t. bindA (deleteCheckpointDependencies ids) (\<lambda>_. bindA (delete_checkpoints (\<lambda>k. cp_id k \<in> set ids)) (\<lambda>n.
      bindA (forA (rev levels) (\<lambda>level. delete_zones (\<lambda>z. zn_id z \<in> set level))) (\<lambda>_. f n))) s =
    f (length ids) (drop_zones (set (concat levels)) t) \<and> zones t = zones s \<and> venues t = venues s \<and>
    checkpoints t = delete_rows p (checkpoints s) \<and> registrations t = registrations s"
proof -
  obtain t1 where t1: "deleteCheckpointDependencies ids s = (Inr (), t1)"
      "\<forall>x \<in> set (staffSessions t1). ss_checkpointId x \<notin> set ids"
    using deleteCheckpointDependencies_runs [OF assms(1)] by blast
  have "same kept_by_cascade s t1"
    using same.within_result [OF deleteCheckpointDependencies_frame t1(1)] .
  then have frame: "zones t1 = zones s" "venues t1 = venues s" "checkpoints t1 = checkpoints s"
      "registrations t1 = registrations s" "set (map os_checkpointId (offlineScans t1)) = set (map os_checkpointId (offlineScans s))"
    by (simp_all only: same_def kept_by_cascade_def location_tables_def prod.inject)
  have rows: "cp_id k \<in> set ids \<longleftrightarrow> p k" if "k \<in> set (checkpoints s)" for k
    using that assms(3) ids by (auto dest: distinct_key_inj)
  then have same_rows: "filter (\<lambda>k. cp_id k \<in> set ids) (checkpoints s) = filter p (checkpoints s)"
    "delete_rows (\<lambda>k. cp_id k \<in> set ids) (checkpoints s) = delete_rows p (checkpoints s)"
    by (auto simp: delete_rows_def cong: filter_cong)
  have cnt: "count_rows (\<lambda>k. cp_id k \<in> set ids) (checkpoints s) = length ids"
    unfolding count_rows_def same_rows by (simp add: ids)
  have gone: "selected cp_id (\<lambda>k. cp_id k \<in> set ids) (checkpoints s) \<subseteq> set ids"
    by (auto simp: selected_iff)
  have refs: "\<not> exists_row (\<lambda>x. ss_checkpointId x \<in> selected cp_id (\<lambda>k. cp_id k \<in> set ids) (checkpoints s)) (staffSessions t1)"
    "\<not> exists_row (\<lambda>x. os_checkpointId x \<in> selected cp_id (\<lambda>k. cp_id k \<in> set ids) (checkpoints s)) (offlineScans t1)"
  proof -
    show "\<not> exists_row (\<lambda>x. ss_checkpointId x \<in> selected cp_id (\<lambda>k. cp_id k \<in> set ids) (checkpoints s)) (staffSessions t1)"
      using gone t1(2) unfolding exists_row_iff by blast
    have "os_checkpointId x \<notin> set ids" if "x \<in> set (offlineScans t1)" for x
    proof -
      have "os_checkpointId x \<in> set (map os_checkpointId (offlineScans t1))" using that by simp
      then show ?thesis unfolding frame(5) using free by auto
    qed
    then show "\<not> exists_row (\<lambda>x. os_checkpointId x \<in> selected cp_id (\<lambda>k. cp_id k \<in> set ids) (checkpoints s)) (offlineScans t1)"
      using gone unfolding exists_row_iff by blast
  qed
  obtain t where t: "delete_checkpoints (\<lambda>k. cp_id k \<in> set ids) t1 = (Inr (length ids), t)"
      "checkpoints t = delete_rows p (checkpoints s)" "zones t = zones s" "venues t = venues s"
      "registrations t = registrations s"
    using refs by (simp add: delete_checkpoints_def act_simps frame cnt same_rows(2))
  obtain us where us: "forA (rev levels) (\<lambda>level. delete_zones (\<lambda>z. zn_id z \<in> set level)) t =
      (Inr us, drop_zones (set (concat (rev levels))) t)"
    using delete_levels by blast
  show ?thesis
    apply (intro exI [of _ t] conjI)
    apply (subst bindA_done, rule t1(1), subst bindA_done, rule t(1), subst bindA_done, rule us)
    using t by simp_all
qed

lemma subtree_in_event:
  assumes "find_zone i s = Some zone" and "j \<in> zone_subtree zone s"
  shows "\<exists>w \<in> set (zones s). zn_id w = j \<and> zn_eventId w = zn_eventId zone"
  using assms(2) unfolding zone_subtree_def mem_Collect_eq
proof cases
  case root
  then show ?thesis using find_zone_Some [OF assms(1)] by auto
next
  case (child p)
  then show ?thesis by (auto simp: zone_nodes_def)
qed

lemma subtree_closed:
  assumes ids: "ids_law c" and ok: "loc_ok c (next_id s) (venues s) (zones s) (checkpoints s)"
    and zone: "find_zone i s = Some zone"
    and z: "z \<in> set (zones s)" "zn_parentId z = Some p" "p \<in> zone_subtree zone s"
  shows "zn_id z \<in> zone_subtree zone s"
proof -
  obtain w where w: "w \<in> set (zones s)" "zn_id w = p" "zn_eventId w = zn_eventId zone"
    using subtree_in_event [OF zone z(3)] by blast
  have "points_to zn_id zn_eventId (zones s) (zn_parentId z) (zn_eventId z)"
    using ok z(1) unfolding loc_ok_def by blast
  then obtain w' where w': "w' \<in> set (zones s)" "zn_id w' = p" "zn_eventId w' = zn_eventId z"
    unfolding z(2) points_to_Some by blast
  have "distinct (map zn_id (zones s))" using ok by (simp add: loc_ok_def generated_def)
  then have "w = w'" using w w' by (metis distinct_key_inj)
  then have "(zn_id z, Some p) \<in> set (zone_nodes (zn_eventId zone) s)"
    using w w' z by (auto simp: zone_nodes_def rev_image_eqI)
  moreover have "p \<noteq> []" using no_empty_id(1) [OF ids ok] w unfolding find_zone_def lookup_by_None by (metis imageI)
  ultimately show ?thesis using z(3) unfolding zone_subtree_def by (auto intro: in_subtree.child)
qed

lemma collected_zones:
  assumes "find_zone i s = Some zone"
  shows "set (concat (collectZoneSubtree (zone_nodes (zn_eventId zone) s) [i])) = zone_subtree zone s"
  using find_zone_Some [OF assms] by (simp only: collected_iff zone_subtree_def) simp

lemma kept_rows_unlinked:
  assumes ids: "ids_law c" and ok: "loc_ok c (next_id s) (venues s) (zones s) (checkpoints s)"
    and zone: "find_zone i s = Some zone" and t: "zones t = zones s"
    and k: "checkpoints t = delete_rows (in_zones (zone_subtree zone s)) (checkpoints s)"
  shows "zones (drop_zones (zone_subtree zone s) t) = delete_rows (\<lambda>z. zn_id z \<in> zone_subtree zone s) (zones s)"
    "checkpoints (drop_zones (zone_subtree zone s) t) = checkpoints t"
proof -
  let ?X = "zone_subtree zone s"
  have "nullify (?X \<inter> I) (zn_parentId z) = zn_parentId z" if "z \<in> set (zones s)" "zn_id z \<notin> ?X" for z I
    using subtree_closed [OF ids ok zone that(1)] that(2) by (cases "zn_parentId z") auto
  then show "zones (drop_zones ?X t) = delete_rows (\<lambda>z. zn_id z \<in> ?X) (zones s)"
    by (auto simp: drop_zones_def Let_def selected_ids t set_delete_rows intro!: map_idI)
  have "nullify (?X \<inter> I) (cp_zoneId x) = cp_zoneId x" if "\<not> in_zones ?X x" for x I
    using that by (auto simp: in_zones_def nullify_def split: option.splits)
  then show "checkpoints (drop_zones ?X t) = checkpoints t"
    by (auto simp: drop_zones_def Let_def selected_ids k set_delete_rows intro!: map_idI)
qed


section \<open>Removals that are refused\<close>

lemma cascade_refused:
  assumes ids: "ids = map cp_id (filter p (checkpoints s))"
    and off: "x \<in> set (offlineScans s)" "os_checkpointId x \<in> set ids"
  shows "\<exists>t. bindA (deleteCheckpointDependencies ids) (\<lambda>_. bindA (delete_checkpoints (\<lambda>k. cp_id k \<in> set ids)) f) s =
    (Inl foreign_key, t)"
proof (cases "deleteCheckpointDependencies ids s")
  case (Pair r t)
  show ?thesis
  proof (cases r)
    case (Inl e)
    then have "deleteCheckpointDependencies ids s = (Inl foreign_key, t)"
      using Pair deleteCheckpointDependencies_error by metis
    then show ?thesis by (blast intro: bindA_fail)
  next
    case (Inr u)
    have "same kept_by_cascade s t"
      using same.within_result [OF deleteCheckpointDependencies_frame Pair] .
    then have frame: "checkpoints t = checkpoints s"
        "set (map os_checkpointId (offlineScans t)) = set (map os_checkpointId (offlineScans s))"
      by (simp_all only: same_def kept_by_cascade_def location_tables_def prod.inject)
    have "os_checkpointId x \<in> set (map os_checkpointId (offlineScans t))"
      unfolding frame(2) using off(1) by simp
    moreover have "os_checkpointId x \<in> selected cp_id (\<lambda>k. cp_id k \<in> set ids) (checkpoints t)"
      using off(2) by (auto simp: selected_ids frame(1) ids)
    ultimately have used: "exists_row (\<lambda>x. os_checkpointId x \<in> selected cp_id (\<lambda>k. cp_id k \<in> set ids) (checkpoints t))
        (offlineScans t)"
      by (auto simp: exists_row_iff)
    have "bindA (delete_checkpoints (\<lambda>k. cp_id k \<in> set ids)) f t = (Inl foreign_key, t)"
      unfolding delete_checkpoints_def by (simp add: bindA_assoc bindA_gets bindA_reads used)
    then show ?thesis using Pair Inr by (simp add: bindA_def)
  qed
qed

text \<open>A zone cannot be removed once an offline scan was recorded at a checkpoint of its subtree:
  the cascade deletes the scans, movements, batches and sessions of the checkpoint but not its offline
  scan operations, whose required reference refuses the deletion, and the transaction restores
  everything.\<close>

theorem zone_removal_refused:
  assumes zone: "find_zone i s = Some zone" and event: "ensureEventCanBeModified (zn_eventId zone) s = Inr e"
    and k: "k \<in> set (checkpoints s)" "in_zones (zone_subtree zone s) k"
    and off: "x \<in> set (offlineScans s)" "os_checkpointId x = cp_id k"
  shows "removeZone i s = (Inl foreign_key, s)"
proof -
  let ?X = "zone_subtree zone s" and ?levels = "collectZoneSubtree (zone_nodes (zn_eventId zone) s) [i]"
  let ?ids = "map cp_id (filter (in_zones ?X) (checkpoints s))"
  have X: "set (concat ?levels) = ?X" using collected_zones [OF zone] .
  have "os_checkpointId x \<in> set ?ids" using k off(2) by simp
  then show ?thesis
    using zone event cascade_refused [OF refl off(1), of "in_zones ?X"
      "\<lambda>n. bindA (forA (rev ?levels) (\<lambda>level. delete_zones (\<lambda>z. zn_id z \<in> set level)))
        (\<lambda>_. ret \<lparr>rm_checkpoints = n, rm_zones = length (concat ?levels) - 1\<rparr>)"]
    by (auto simp: removeZone_def findOneZone_def bindA_reads found_def transaction_def bindA_gets Let_def X
      simp flip: in_zones_def simp del: set_concat set_map)
qed

section \<open>Examples\<close>

text \<open>Two zones, the second inside the first, and a checkpoint in the second.\<close>

definition zone_row :: "id \<Rightarrow> id option \<Rightarrow> zone" where
  "zone_row i p = \<lparr>zn_id = i, zn_eventId = ''e1'', zn_venueId = None, zn_parentId = p, zn_nameAr = i,
     zn_nameEn = None, zn_code = None, zn_sortOrder = 0, zn_createdAt = 0\<rparr>"

definition sample_site :: store where
  "sample_site = empty_store\<lparr>events := [sample_event], next_id := 3,
     zones := [zone_row ''c0'' None, zone_row ''c1'' (Some ''c0'')],
     checkpoints := [sample_checkpoint\<lparr>cp_id := ''c2'', cp_zoneId := Some ''c1''\<rparr>]\<rparr>"

definition reparent :: "id \<Rightarrow> zone_change" where
  "reparent p = \<lparr>zu_eventId = None, zu_venueId = None, zu_parentId = Some (Some p), zu_nameAr = None,
     zu_nameEn = None, zu_code = None, zu_sortOrder = None\<rparr>"

lemma sample_ids: "ids_law sample_env" "cuid sample_env 0 = ''c0''" "cuid sample_env 1 = ''c1''" "cuid sample_env 2 = ''c2''"
proof -
  show "ids_law sample_env" using sample_laws(1) by (simp add: ids_law_def sample_env_def)
  have "nat_text 0 = ''0''" "nat_text 1 = ''1''" "nat_text 2 = ''2''" by code_simp+
  then show "cuid sample_env 0 = ''c0''" "cuid sample_env 1 = ''c1''" "cuid sample_env 2 = ''c2''"
    by (simp_all add: sample_env_def)
qed

lemma sample_site_inv: "location_inv sample_env sample_site"
proof -
  have gen: "generated sample_env 3 [''c0'', ''c1'']" "generated sample_env 3 [''c2'']" "generated sample_env 3 []"
    using sample_ids unfolding generated_def by (auto intro: exI [of _ 0] exI [of _ 1] exI [of _ 2])
  then show ?thesis
    by (simp add: location_inv_def loc_ok_def sample_site_def zone_row_def points_to_def sample_checkpoint_def empty_store_def)
qed

lemma sample_site_rows:
  "find_zone ''c0'' sample_site = Some (zone_row ''c0'' None)" "movements_agree sample_site"
  "ensureEventCanBeModified ''e1'' sample_site = Inr sample_event" "offlineScans sample_site = []"
  "zone_subtree (zone_row ''c0'' None) sample_site = {''c0'', ''c1''}"
proof -
  show zone: "find_zone ''c0'' sample_site = Some (zone_row ''c0'' None)"
    by (simp add: find_zone_def lookup_by_def sample_site_def zone_row_def)
  show "movements_agree sample_site" "offlineScans sample_site = []"
    by (simp_all add: movements_agree_def sample_site_def empty_store_def)
  show "ensureEventCanBeModified ''e1'' sample_site = Inr sample_event"
    by (simp add: ensureEventCanBeModified_def find_event_def lookup_by_def sample_site_def sample_event_def)
  have "collectZoneSubtree [(''c0'', None), (''c1'', Some ''c0'')] [''c0''] = [[''c0''], [''c1'']]" by code_simp
  then show "zone_subtree (zone_row ''c0'' None) sample_site = {''c0'', ''c1''}"
    using collected_zones [OF zone] by (auto simp: zone_nodes_def sample_site_def zone_row_def)
qed


definition sample_offline_scan :: offline_scan where
  "sample_offline_scan = \<lparr>os_id = ''o1'', os_operationId = ''op1'', os_eventId = ''e1'', os_scannerDeviceId = ''d1'',
     os_checkpointId = ''c2'', os_staffSessionId = None, os_offlineQrToken = ''tok'', os_regOperationId = None,
     os_issuerDeviceId = None, os_issuerKeyVersion = None, os_scannedAtDevice = 0, os_movementType = MV_ENTRY,
     os_localResult = None, os_qrPayload = JNull, os_qrPayloadHash = None, os_status = OS_PENDING_LINK,
     os_registrationId = None, os_movementId = None, os_scanEventRawId = None, os_conflictCode = None,
     os_conflictMessage = None, os_syncedAt = None\<rparr>"

definition scanned_site :: store where
  "scanned_site = sample_site\<lparr>offlineScans := [sample_offline_scan]\<rparr>"

theorem zone_removal_refused_witness:
  "removeZone ''c0'' scanned_site = (Inl foreign_key, scanned_site)"
proof (rule zone_removal_refused)
  show "find_zone ''c0'' scanned_site = Some (zone_row ''c0'' None)"
    using sample_site_rows(1) by (simp add: scanned_site_def find_zone_def)
  show "ensureEventCanBeModified (zn_eventId (zone_row ''c0'' None)) scanned_site = Inr sample_event"
    using sample_site_rows(3) by (simp add: scanned_site_def ensureEventCanBeModified_def find_event_def zone_row_def)
  have "zone_subtree (zone_row ''c0'' None) scanned_site = {''c0'', ''c1''}"
    using sample_site_rows(5) by (simp add: zone_subtree_def zone_nodes_def scanned_site_def)
  then show "in_zones (zone_subtree (zone_row ''c0'' None) scanned_site) (hd (checkpoints scanned_site))"
    by (simp add: in_zones_def scanned_site_def sample_site_def)
  show "hd (checkpoints scanned_site) \<in> set (checkpoints scanned_site)"
    and "sample_offline_scan \<in> set (offlineScans scanned_site)"
    and "os_checkpointId sample_offline_scan = cp_id (hd (checkpoints scanned_site))"
    by (simp_all add: scanned_site_def sample_site_def sample_offline_scan_def)
qed

text \<open>A zone may be put under its own descendant: only the zone itself is refused as parent. The
  removal of either zone of the cycle then removes both.\<close>

theorem zone_cycle_accepted:
  "snd (updateZone ''c0'' (reparent ''c1'') sample_site) =
     sample_site\<lparr>zones := [zone_row ''c0'' (Some ''c1''), zone_row ''c1'' (Some ''c0'')]\<rparr> \<and>
   collectZoneSubtree [(''c0'', Some ''c1''), (''c1'', Some ''c0'')] [''c1''] = [[''c1''], [''c0'']]"
proof
  show "snd (updateZone ''c0'' (reparent ''c1'') sample_site) =
     sample_site\<lparr>zones := [zone_row ''c0'' (Some ''c1''), zone_row ''c1'' (Some ''c0'')]\<rparr>"
    by (simp add: updateZone_def findOneZone_def found_def act_simps Let_def sample_site_rows(1,3) reparent_def
      zone_row_def ensureVenueBelongsToEvent_def ensureParentBelongsToEvent_def ensureZoneCodeIsUnique_def
      zone_constraints_def changed_zone_def refers_def find_zone_def lookup_by_def sample_site_def update_by_def
      update_rows_def find_event_def sample_event_def ensureEventCanBeModified_def)
  show "collectZoneSubtree [(''c0'', Some ''c1''), (''c1'', Some ''c0'')] [''c1''] = [[''c1''], [''c0'']]"
    by code_simp
qed

theorem references_stay_in_the_event_witness:
  "\<exists>p. find_zone ''c1'' (fold (serve_location sample_env) [Update_zone ''c0'' (reparent ''c1'')] sample_site) = Some p \<and>
     zn_eventId p = ''e1''"
proof -
  let ?t = "fold (serve_location sample_env) [Update_zone ''c0'' (reparent ''c1'')] sample_site"
  have "zone_row ''c0'' (Some ''c1'') \<in> set (zones ?t)" using zone_cycle_accepted by simp
  moreover have "zn_parentId (zone_row ''c0'' (Some ''c1'')) = Some ''c1''" "zn_eventId (zone_row ''c0'' (Some ''c1'')) = ''e1''"
    by (simp_all add: zone_row_def)
  ultimately show ?thesis
    using references_stay_in_the_event [OF sample_ids(1) sample_site_inv refl, of "[Update_zone ''c0'' (reparent ''c1'')]"]
    by metis
qed

end
