(* ===== verification/ImportFile.thy ===== *)
theory ImportFile
  imports Registrations
begin

text \<open>
  The reading of an uploaded file in \<open>src/modules/imports/imports.service.ts\<close>: the choice of the
  header row, the headers and rows, the mapping of headers to the columns of a registration that is
  suggested or given, its checks, and the warnings of the preview. The readers of CSV files and of
  workbooks are libraries, arguments here (\<open>readers\<close>), as are the names of spreadsheet columns, the
  letters and digits of Unicode and \<open>Number(text)\<close>. The texts of the warnings are left out.

  A header is normalised by code points, which \<open>points\<close> reads from the UTF-8 bytes of a string and
  \<open>utf8\<close> writes. Scores are exact where the code adds two floating point quotients.
\<close>

section \<open>Code points\<close>

definition utf8_char :: "nat \<Rightarrow> nat list" where
  "utf8_char p =
    (if p < 128 then [p]
     else if p < 2048 then [192 + p div 64, 128 + p mod 64]
     else if p < 65536 then [224 + p div 4096, 128 + p div 64 mod 64, 128 + p mod 64]
     else [240 + p div 262144, 128 + p div 4096 mod 64, 128 + p div 64 mod 64, 128 + p mod 64])"

definition utf8 :: "nat list \<Rightarrow> string" where
  "utf8 ps = map char_of (concat (map utf8_char ps))"

definition tail_bits :: "nat list \<Rightarrow> nat \<Rightarrow> nat" where
  "tail_bits bs n = fold (\<lambda>b v. v * 64 + b mod 64) (take n bs) 0"

function points_of_bytes :: "nat list \<Rightarrow> nat list" where
  "points_of_bytes [] = []"
| "points_of_bytes (a # bs) =
    (if a < 192 then a # points_of_bytes bs
     else if a < 224 then ((a - 192) * 64 + tail_bits bs 1) # points_of_bytes (drop 1 bs)
     else if a < 240 then ((a - 224) * 4096 + tail_bits bs 2) # points_of_bytes (drop 2 bs)
     else ((a - 240) * 262144 + tail_bits bs 3) # points_of_bytes (drop 3 bs))"
  by pat_completeness auto

termination by (relation "measure length") auto

definition points :: "string \<Rightarrow> nat list" where
  "points s = points_of_bytes (map of_char s)"

text \<open>\<open>s.length\<close>, in UTF-16 units.\<close>

definition utf16_length :: "string \<Rightarrow> nat" where
  "utf16_length s = sum_list (map (\<lambda>p. if p < 65536 then 1 else 2) (points s))"

section \<open>Headers\<close>

text \<open>The Arabic vowel signs are dropped, and the forms of alef, final yeh and teh marbuta unified.\<close>

definition is_vowel_sign :: "nat \<Rightarrow> bool" where
  "is_vowel_sign p = (0x64B \<le> p \<and> p \<le> 0x65F \<or> p = 0x670)"

definition plain_letter :: "nat \<Rightarrow> nat" where
  "plain_letter p = (if p \<in> {0x623, 0x625, 0x622} then 0x627 else if p = 0x649 then 0x64A
     else if p = 0x629 then 0x647 else p)"

text \<open>Each run of other characters becomes one underscore.\<close>

fun underscores :: "(nat \<Rightarrow> bool) \<Rightarrow> bool \<Rightarrow> nat list \<Rightarrow> nat list" where
  "underscores keep in_run [] = []"
| "underscores keep in_run (p # ps) =
    (if keep p then p # underscores keep False ps
     else if in_run then underscores keep True ps
     else 95 # underscores keep True ps)"

definition strip_underscores :: "nat list \<Rightarrow> nat list" where
  "strip_underscores ps = rev (dropWhile (\<lambda>p. p = 95) (rev (dropWhile (\<lambda>p. p = 95) ps)))"

definition normalizeHeader :: "(nat \<Rightarrow> bool) \<Rightarrow> string \<Rightarrow> string" where
  "normalizeHeader letter_or_digit header =
    utf8 (strip_underscores (underscores letter_or_digit False
      (map plain_letter (filter (\<lambda>p. \<not> is_vowel_sign p) (points (to_lower (trim header)))))))"

definition text_includes :: "string \<Rightarrow> string \<Rightarrow> bool" where
  "text_includes s t = list_ex (\<lambda>u. starts_with t u) (suffixes s)"

section \<open>Cells\<close>

text \<open>A value that a reader puts into a cell; null and \<open>undefined\<close> are \<open>Cell JNull\<close>.\<close>

datatype cell = Cell json | DateCell time

fun isBlank :: "cell \<Rightarrow> bool" where
  "isBlank (Cell JNull) = True"
| "isBlank (Cell (JStr s)) = blank s"
| "isBlank _ = False"

fun toDisplayString :: "env \<Rightarrow> cell \<Rightarrow> string" where
  "toDisplayString c (Cell JNull) = []"
| "toDisplayString c (DateCell t) = iso_date c t"
| "toDisplayString c (Cell v) = trim (js_String v)"

text \<open>What the JSON column stores of it.\<close>

fun cell_json :: "env \<Rightarrow> cell \<Rightarrow> json" where
  "cell_json c (Cell v) = v"
| "cell_json c (DateCell t) = JStr (iso_date c t)"

definition isMatrixRowEmpty :: "cell list \<Rightarrow> bool" where
  "isMatrixRowEmpty row = list_all isBlank row"

text \<open>\<open>row[i] ?? ''\<close>.\<close>

definition cell_at :: "cell list \<Rightarrow> nat \<Rightarrow> cell" where
  "cell_at row i = (if i < length row \<and> row ! i \<noteq> Cell JNull then row ! i else Cell (JStr []))"

section \<open>Files\<close>

record readers =
  rd_csv :: "string \<Rightarrow> char \<Rightarrow> cell list list res" \<comment> \<open>text and delimiter\<close>
  rd_workbook :: "string \<Rightarrow> (string \<times> cell list list) list res" \<comment> \<open>the sheets in order\<close>
  rd_column :: "nat \<Rightarrow> string" \<comment> \<open>\<open>XLSX.utils.encode_col\<close>\<close>
  rd_letter_or_digit :: "nat \<Rightarrow> bool" \<comment> \<open>\<open>/[\p{L}\p{N}]/u\<close> by code point\<close>
  rd_number :: "string \<Rightarrow> json option" \<comment> \<open>\<open>Number(text)\<close>, \<open>None\<close> when it is not finite\<close>

record upload =
  up_filename :: string
  up_buffer :: string
  up_mimetype :: "string option"
  up_size :: int

record parser_options =
  po_sheetName :: "string option"
  po_headerRow :: "int option"
  po_dataStartRow :: "int option"

record parsed_row =
  pr_rowNumber :: nat
  pr_data :: "(string \<times> cell) list"

record import_header =
  ih_key :: string
  ih_label :: string
  ih_columnIndex :: nat
  ih_columnLetter :: string
  ih_sampleValues :: "string list"

record parsed_file =
  pf_sheets :: "string list"
  pf_selectedSheetName :: string
  pf_detectedHeaderRow :: int
  pf_headerRow :: int
  pf_dataStartRow :: int
  pf_headers :: "import_header list"
  pf_rows :: "parsed_row list"

definition ends_with :: "string \<Rightarrow> string \<Rightarrow> bool" where
  "ends_with t s = suffix t s"

definition strip_cr :: "string \<Rightarrow> string" where
  "strip_cr l = (if l \<noteq> [] \<and> last l = CHR 0x0D then butlast l else l)"

definition text_lines :: "string \<Rightarrow> string list" where
  "text_lines s = (let ls = split_on CHR 0x0A s in map strip_cr (butlast ls) @ [last ls])"

definition detectCsvDelimiter :: "string \<Rightarrow> char" where
  "detectCsvDelimiter csvText =
    (let bom = map char_of [0xEF, 0xBB, 0xBF :: nat];
         body = (if starts_with bom csvText then drop 3 csvText else csvText);
         sampleLine = (case find_row (\<lambda>l. \<not> blank l) (text_lines body) of None \<Rightarrow> [] | Some l \<Rightarrow> l)
     in fold (\<lambda>candidate best. if count_list sampleLine best < count_list sampleLine candidate then candidate else best)
          [CHR '','', CHR '';'', CHR 0x09] CHR '','')"

definition readWorkbook :: "readers \<Rightarrow> upload \<Rightarrow> (string \<times> cell list list) list res" where
  "readWorkbook rd file =
    (let lowerName = to_lower (up_filename file) in
     if ends_with ''.csv'' lowerName
     then bindE (rd_csv rd (up_buffer file) (detectCsvDelimiter (up_buffer file))) (\<lambda>m. Inr [(''CSV'', m)])
     else if ends_with ''.xlsx'' lowerName \<or> ends_with ''.xls'' lowerName then rd_workbook rd (up_buffer file)
     else Inl (BadRequest ''Unsupported import file''))"

definition getAllKnownHeaderAliases :: "readers \<Rightarrow> string set" where
  "getAllKnownHeaderAliases rd = normalizeHeader (rd_letter_or_digit rd) ` set
    [''full_name'', ''full name'', ''name'', ''visitor name'', (utf8 [0x627, 0x644, 0x627, 0x633, 0x645]), (utf8 [0x627, 0x644, 0x627, 0x633, 0x645, 0x20, 0x627, 0x644, 0x643, 0x627, 0x645, 0x644]), (utf8 [0x627, 0x633, 0x645, 0x20, 0x627, 0x644, 0x632, 0x627, 0x626, 0x631]),
     ''phone'', ''mobile'', ''whatsapp'', (utf8 [0x631, 0x642, 0x645, 0x20, 0x627, 0x644, 0x647, 0x627, 0x62A, 0x641]), (utf8 [0x627, 0x644, 0x647, 0x627, 0x62A, 0x641]), ''email'', ''mail'', (utf8 [0x627, 0x644, 0x628, 0x631, 0x64A, 0x62F, 0x20, 0x627, 0x644, 0x625, 0x644, 0x643, 0x62A, 0x631, 0x648, 0x646, 0x64A]),
     ''company'', ''company name'', (utf8 [0x627, 0x633, 0x645, 0x20, 0x627, 0x644, 0x634, 0x631, 0x643, 0x629]), ''job title'', ''position'', (utf8 [0x627, 0x644, 0x645, 0x633, 0x645, 0x649, 0x20, 0x627, 0x644, 0x648, 0x638, 0x64A, 0x641, 0x64A]),
     ''external id'', ''serial'', (utf8 [0x631, 0x642, 0x645, 0x20, 0x62A, 0x633, 0x644, 0x633, 0x644, 0x64A]), ''attendee type'', (utf8 [0x646, 0x648, 0x639, 0x20, 0x627, 0x644, 0x62D, 0x636, 0x648, 0x631]), ''notes'', (utf8 [0x645, 0x644, 0x627, 0x62D, 0x638, 0x627, 0x62A])]"

text \<open>The score of a row, \<open>None\<close> for a row without values.\<close>

definition header_score :: "env \<Rightarrow> readers \<Rightarrow> cell list \<Rightarrow> int option" where
  "header_score c rd row =
    (let values = filter (\<lambda>v. v \<noteq> []) (map (toDisplayString c) row);
         normalizedValues = map (normalizeHeader (rd_letter_or_digit rd)) values;
         knownMatches = length (filter (\<lambda>v. v \<in> getAllKnownHeaderAliases rd) normalizedValues);
         distinctValues = length (remdups normalizedValues)
     in if values = [] then None
        else Some (int knownMatches * 25 + int (length values) * 2 + int distinctValues
          - (if length values = 1 then 20 else 0) - (if list_ex (\<lambda>v. 80 < utf16_length v) values then 8 else 0)))"

fun best_header_row :: "env \<Rightarrow> readers \<Rightarrow> cell list list \<Rightarrow> nat \<Rightarrow> int option \<Rightarrow> int \<Rightarrow> int" where
  "best_header_row c rd [] index bestScore bestRow = bestRow"
| "best_header_row c rd (row # rows) index bestScore bestRow =
    (case header_score c rd row of
       None \<Rightarrow> best_header_row c rd rows (Suc index) bestScore bestRow
     | Some score \<Rightarrow>
         if (case bestScore of None \<Rightarrow> True | Some best \<Rightarrow> best < score)
         then best_header_row c rd rows (Suc index) (Some score) (int index + 1)
         else best_header_row c rd rows (Suc index) bestScore bestRow)"

definition detectHeaderRow :: "env \<Rightarrow> readers \<Rightarrow> cell list list \<Rightarrow> int" where
  "detectHeaderRow c rd matrix = best_header_row c rd (take 40 matrix) 0 None 1"

text \<open>\<open>buildHeaders\<close>: a label that was used before gets a number.\<close>

definition header_label :: "env \<Rightarrow> readers \<Rightarrow> cell list \<Rightarrow> nat \<Rightarrow> string" where
  "header_label c rd values index =
    (let rawLabel = (if index < length values then toDisplayString c (values ! index) else [])
     in if rawLabel = [] then ''Column '' @ rd_column rd index else rawLabel)"

definition header_key :: "string \<Rightarrow> nat \<Rightarrow> string" where
  "header_key label count = (if count = 1 then label else label @ ''__'' @ nat_text count)"

fun build_headers :: "readers \<Rightarrow> string list \<Rightarrow> nat \<Rightarrow> (string \<Rightarrow> nat) \<Rightarrow> import_header list" where
  "build_headers rd [] index usedKeys = []"
| "build_headers rd (label # labels) index usedKeys =
    (let count = usedKeys label + 1 in
     \<lparr>ih_key = header_key label count, ih_label = label, ih_columnIndex = index,
      ih_columnLetter = rd_column rd index, ih_sampleValues = []\<rparr>
     # build_headers rd labels (Suc index) (usedKeys(label := count)))"

definition buildHeaders :: "env \<Rightarrow> readers \<Rightarrow> cell list \<Rightarrow> nat \<Rightarrow> import_header list" where
  "buildHeaders c rd values columnCount =
    build_headers rd (map (header_label c rd values) [0..<columnCount]) 0 (\<lambda>_. 0)"

text \<open>Assigning to a key of an object: an earlier key keeps its place.\<close>

fun put_key :: "string \<Rightarrow> 'v \<Rightarrow> (string \<times> 'v) list \<Rightarrow> (string \<times> 'v) list" where
  "put_key k v [] = [(k, v)]"
| "put_key k v ((k', v') # fs) = (if k' = k then (k, v) # fs else (k', v') # put_key k v fs)"

definition row_data :: "import_header list \<Rightarrow> cell list \<Rightarrow> (string \<times> cell) list" where
  "row_data headers row = fold (\<lambda>h. put_key (ih_key h) (cell_at row (ih_columnIndex h))) headers []"

definition cell_of :: "(string \<times> cell) list \<Rightarrow> string \<Rightarrow> cell" where
  "cell_of data k = (case map_of data k of None \<Rightarrow> Cell JNull | Some v \<Rightarrow> v)"

definition parse_rows :: "import_header list \<Rightarrow> cell list list \<Rightarrow> nat \<Rightarrow> parsed_row list" where
  "parse_rows headers matrix first =
    List.map_filter (\<lambda>index. if isMatrixRowEmpty (matrix ! index) then None
      else Some \<lparr>pr_rowNumber = index + 1, pr_data = row_data headers (matrix ! index)\<rparr>) [first..<length matrix]"

definition sample_values :: "env \<Rightarrow> parsed_row list \<Rightarrow> import_header \<Rightarrow> import_header" where
  "sample_values c rows h = h\<lparr>ih_sampleValues :=
     take 5 (filter (\<lambda>v. v \<noteq> []) (map (\<lambda>r. toDisplayString c (cell_of (pr_data r) (ih_key h))) rows))\<rparr>"

definition parseFile :: "env \<Rightarrow> readers \<Rightarrow> upload \<Rightarrow> parser_options \<Rightarrow> parsed_file res" where
  "parseFile c rd file parser =
    (if 20 * 1024 * 1024 < up_size file then Inl (BadRequest ''File is too large'')
     else
     bindE (readWorkbook rd file) (\<lambda>workbook.
     let named = (case po_sheetName parser of None \<Rightarrow> [] | Some n \<Rightarrow> trim n);
         selected = (if named \<noteq> [] then named else case workbook of [] \<Rightarrow> [] | (n, _) # _ \<Rightarrow> n) in
     case map_of workbook selected of
       None \<Rightarrow> Inl (BadRequest ''Selected sheet was not found'')
     | Some matrix \<Rightarrow>
         if selected = [] then Inl (BadRequest ''Selected sheet was not found'')
         else if matrix = [] then Inl (BadRequest ''Selected sheet is empty'')
         else
         let detected = detectHeaderRow c rd matrix;
             headerRow = (case po_headerRow parser of None \<Rightarrow> detected | Some r \<Rightarrow> r);
             dataStartRow = (case po_dataStartRow parser of None \<Rightarrow> headerRow + 1 | Some r \<Rightarrow> r) in
         if headerRow < 1 \<or> int (length matrix) < headerRow then Inl (BadRequest ''headerRow is invalid'')
         else if dataStartRow \<le> headerRow \<or> int (length matrix) + 1 < dataStartRow
         then Inl (BadRequest ''dataStartRow is invalid'')
         else
         let headerValues = matrix ! nat (headerRow - 1);
             dataMatrix = drop (nat (dataStartRow - 1)) matrix;
             columnCount = fold max (map length (take 100 dataMatrix)) (length headerValues);
             baseHeaders = buildHeaders c rd headerValues columnCount;
             rows = parse_rows baseHeaders matrix (nat (dataStartRow - 1)) in
         Inr \<lparr>pf_sheets = map fst workbook, pf_selectedSheetName = selected, pf_detectedHeaderRow = detected,
           pf_headerRow = headerRow, pf_dataStartRow = dataStartRow,
           pf_headers = map (sample_values c rows) baseHeaders, pf_rows = rows\<rparr>))"

end
