(* ===== verification/ImportMapping.thy ===== *)
theory ImportMapping
  imports ImportFile
begin

text \<open>
  The mapping of the headers of an imported file to the columns of a registration, in
  \<open>src/modules/imports/imports.service.ts\<close>: suggested from the headers, or given with the request,
  normalised and checked against the file, and the warnings of the preview.
\<close>

section \<open>Mappings\<close>

record import_mapping =
  im_fullName :: "string option"
  im_phone :: "string option"
  im_email :: "string option"
  im_companyName :: "string option"
  im_jobTitle :: "string option"
  im_externalId :: "string option"
  im_notes :: "string option"
  im_attendeeTypeCode :: "string option"
  im_customFields :: "(string \<times> string) list"

text \<open>\<open>normalizeMapping\<close> reads a value of unknown shape: the request's, or the options of a stored job.\<close>

definition normalizeValue :: "json option \<Rightarrow> string option" where
  "normalizeValue v = (case v of Some (JStr s) \<Rightarrow> if blank s then None else Some (trim s) | _ \<Rightarrow> None)"

definition custom_entry :: "string \<times> json \<Rightarrow> (string \<times> string) option" where
  "custom_entry e = (case e of (k, v) \<Rightarrow>
     (case normalizeValue (Some v) of None \<Rightarrow> None | Some h \<Rightarrow> if trim k = [] then None else Some (trim k, h)))"

definition from_entries :: "(string \<times> 'v) list \<Rightarrow> (string \<times> 'v) list" where
  "from_entries es = fold (\<lambda>(k, v). put_key k v) es []"

definition normalizeMapping :: "fields \<Rightarrow> import_mapping" where
  "normalizeMapping mapping =
    (let get = (\<lambda>k. normalizeValue (obj_get mapping k));
         custom = (case obj_get mapping ''customFields'' of Some v \<Rightarrow> toRecord v | None \<Rightarrow> []) in
     \<lparr>im_fullName = get ''fullName'', im_phone = get ''phone'', im_email = get ''email'',
      im_companyName = get ''companyName'', im_jobTitle = get ''jobTitle'', im_externalId = get ''externalId'',
      im_notes = get ''notes'', im_attendeeTypeCode = get ''attendeeTypeCode'',
      im_customFields = from_entries (List.map_filter custom_entry custom)\<rparr>)"

text \<open>A mapping as an object; \<open>undefined\<close> members are not stored.\<close>

definition text_member :: "string \<Rightarrow> string option \<Rightarrow> fields" where
  "text_member k v = (case v of None \<Rightarrow> [] | Some s \<Rightarrow> [(k, JStr s)])"

definition mapping_fields :: "import_mapping \<Rightarrow> fields" where
  "mapping_fields m = text_member ''fullName'' (im_fullName m) @ text_member ''phone'' (im_phone m) @
     text_member ''email'' (im_email m) @ text_member ''companyName'' (im_companyName m) @
     text_member ''jobTitle'' (im_jobTitle m) @ text_member ''externalId'' (im_externalId m) @
     text_member ''notes'' (im_notes m) @ text_member ''attendeeTypeCode'' (im_attendeeTypeCode m) @
     [(''customFields'', JObj (map (\<lambda>(k, v). (k, JStr v)) (im_customFields m)))]"

section \<open>The suggested mapping\<close>

definition normal_aliases :: "readers \<Rightarrow> string list \<Rightarrow> string list" where
  "normal_aliases rd aliases = map (normalizeHeader (rd_letter_or_digit rd)) (filter (\<lambda>a. a \<noteq> []) aliases)"

definition loosely_matches :: "string \<Rightarrow> string \<Rightarrow> bool" where
  "loosely_matches header alias = (text_includes header alias \<or> 4 \<le> utf16_length alias \<and> text_includes alias header)"

definition findHeaderFromHeaders :: "readers \<Rightarrow> import_header list \<Rightarrow> string list \<Rightarrow> string list \<Rightarrow> string option" where
  "findHeaderFromHeaders rd headers aliases usedHeaders =
    (let normalizedAliases = normal_aliases rd aliases;
         label = (\<lambda>h. normalizeHeader (rd_letter_or_digit rd) (ih_label h)) in
     case find_row (\<lambda>h. ih_key h \<notin> set usedHeaders \<and> label h \<in> set normalizedAliases) headers of
       Some h \<Rightarrow> Some (ih_key h)
     | None \<Rightarrow> map_option ih_key (find_row (\<lambda>h. ih_key h \<notin> set usedHeaders \<and>
         list_ex (loosely_matches (label h)) normalizedAliases) headers))"

text \<open>The score of a column that may hold a running number, as a pair of numerator and denominator.\<close>

definition sequence_score :: "env \<Rightarrow> readers \<Rightarrow> parsed_row list \<Rightarrow> import_header \<Rightarrow> (nat \<times> nat) option" where
  "sequence_score c rd rows h =
    (let values = filter (\<lambda>v. v \<noteq> []) (map (\<lambda>r. toDisplayString c (cell_of (pr_data r) (ih_key h))) (take 100 rows));
         numericCount = length (filter (\<lambda>v. rd_number rd v \<noteq> None) values);
         uniqueCount = length (remdups values)
     in if length values < min 5 (length rows) then None else Some (numericCount + uniqueCount, length values))"

fun sequential_header :: "env \<Rightarrow> readers \<Rightarrow> parsed_row list \<Rightarrow> string list \<Rightarrow> import_header list \<Rightarrow>
    nat \<times> nat \<Rightarrow> string option \<Rightarrow> string option" where
  "sequential_header c rd rows used [] best bestHeader = bestHeader"
| "sequential_header c rd rows used (h # hs) (bn, bd) bestHeader =
    (if ih_key h \<in> set used then sequential_header c rd rows used hs (bn, bd) bestHeader
     else (case sequence_score c rd rows h of
       None \<Rightarrow> sequential_header c rd rows used hs (bn, bd) bestHeader
     | Some (n, d) \<Rightarrow>
         if 18 * d < 10 * n \<and> bn * d < n * bd
         then sequential_header c rd rows used hs (n, d) (Some (ih_key h))
         else sequential_header c rd rows used hs (bn, bd) bestHeader))"

definition findSequentialIdentifierHeader :: "env \<Rightarrow> readers \<Rightarrow> import_header list \<Rightarrow> parsed_row list \<Rightarrow>
    string list \<Rightarrow> string option" where
  "findSequentialIdentifierHeader c rd headers rows usedHeaders =
    sequential_header c rd rows usedHeaders headers (0, 1) None"

text \<open>\<open>pick\<close>: the header found, if any, is used up.\<close>

definition pick :: "readers \<Rightarrow> import_header list \<Rightarrow> string list \<Rightarrow> string list \<Rightarrow> string option \<times> string list" where
  "pick rd headers aliases used =
    (case findHeaderFromHeaders rd headers aliases used of
       None \<Rightarrow> (None, used)
     | Some h \<Rightarrow> if h = [] then (Some h, used) else (Some h, used @ [h]))"

fun suggest_fields :: "readers \<Rightarrow> import_header list \<Rightarrow> reg_field list \<Rightarrow> string list \<Rightarrow> (string \<times> string) list \<Rightarrow>
    (string \<times> string) list" where
  "suggest_fields rd headers [] used custom = custom"
| "suggest_fields rd headers (f # fs) used custom =
    (case pick rd headers [rf_key f, rf_labelAr f, case rf_labelEn f of None \<Rightarrow> [] | Some l \<Rightarrow> l] used of
       (None, used') \<Rightarrow> suggest_fields rd headers fs used' custom
     | (Some h, used') \<Rightarrow>
         suggest_fields rd headers fs used' (if h = [] then custom else put_key (rf_key f) h custom))"

definition suggestMapping :: "env \<Rightarrow> readers \<Rightarrow> import_header list \<Rightarrow> parsed_row list \<Rightarrow> reg_field list \<Rightarrow> import_mapping" where
  "suggestMapping c rd headers rows registrationFields =
    (let (fullName, u1) = pick rd headers [''full_name'', ''full name'', ''name'', ''visitor name'', ''attendee name'',
           (utf8 [0x627, 0x644, 0x627, 0x633, 0x645]), (utf8 [0x627, 0x644, 0x627, 0x633, 0x645, 0x20, 0x627, 0x644, 0x643, 0x627, 0x645, 0x644]), (utf8 [0x627, 0x633, 0x645, 0x20, 0x627, 0x644, 0x632, 0x627, 0x626, 0x631])] [];
         (phone, u2) = pick rd headers [''phone'', ''mobile'', ''whatsapp'', ''phone number'', (utf8 [0x631, 0x642, 0x645, 0x20, 0x627, 0x644, 0x647, 0x627, 0x62A, 0x641]),
           (utf8 [0x627, 0x644, 0x647, 0x627, 0x62A, 0x641]), (utf8 [0x627, 0x644, 0x645, 0x648, 0x628, 0x627, 0x64A, 0x644])] u1;
         (email, u3) = pick rd headers [''email'', ''mail'', ''email address'', (utf8 [0x627, 0x644, 0x628, 0x631, 0x64A, 0x62F, 0x20, 0x627, 0x644, 0x625, 0x644, 0x643, 0x62A, 0x631, 0x648, 0x646, 0x64A]),
           (utf8 [0x627, 0x644, 0x628, 0x631, 0x64A, 0x62F, 0x20, 0x627, 0x644, 0x627, 0x644, 0x643, 0x62A, 0x631, 0x648, 0x646, 0x64A])] u2;
         (companyName, u4) = pick rd headers [''company'', ''company_name'', ''company name'', ''organization'',
           (utf8 [0x627, 0x633, 0x645, 0x20, 0x627, 0x644, 0x634, 0x631, 0x643, 0x629]), (utf8 [0x627, 0x644, 0x634, 0x631, 0x643, 0x629]), (utf8 [0x627, 0x644, 0x62C, 0x647, 0x629])] u3;
         (jobTitle, u5) = pick rd headers [''job_title'', ''job title'', ''position'', ''title'', ''occupation'',
           (utf8 [0x627, 0x644, 0x645, 0x633, 0x645, 0x649, 0x20, 0x627, 0x644, 0x648, 0x638, 0x64A, 0x641, 0x64A]), (utf8 [0x627, 0x644, 0x645, 0x646, 0x635, 0x628]), (utf8 [0x627, 0x644, 0x648, 0x638, 0x64A, 0x641, 0x629])] u4;
         (externalId, u6) = pick rd headers [''external_id'', ''external id'', ''registration id'', ''serial'',
           ''serial number'', (utf8 [0x631, 0x642, 0x645, 0x20, 0x62A, 0x633, 0x644, 0x633, 0x644, 0x64A]), (utf8 [0x627, 0x644, 0x645, 0x639, 0x631, 0x641, 0x20, 0x627, 0x644, 0x62E, 0x627, 0x631, 0x62C, 0x64A])] u5;
         (notes, u7) = pick rd headers [''notes'', ''note'', ''remarks'', (utf8 [0x645, 0x644, 0x627, 0x62D, 0x638, 0x627, 0x62A]), (utf8 [0x645, 0x644, 0x627, 0x62D, 0x638, 0x629])] u6;
         (attendeeTypeCode, u8) = pick rd headers [''attendee_type_code'', ''attendee type code'', ''type code'',
           (utf8 [0x643, 0x648, 0x62F, 0x20, 0x646, 0x648, 0x639, 0x20, 0x627, 0x644, 0x62D, 0x636, 0x648, 0x631])] u7;
         (externalId', u9) = (if truthy externalId then (externalId, u8)
           else (case findSequentialIdentifierHeader c rd headers rows u8 of
               None \<Rightarrow> (externalId, u8)
             | Some h \<Rightarrow> if h = [] then (externalId, u8) else (Some h, u8 @ [h])))
     in normalizeMapping (mapping_fields \<lparr>im_fullName = fullName, im_phone = phone, im_email = email,
       im_companyName = companyName, im_jobTitle = jobTitle, im_externalId = externalId', im_notes = notes,
       im_attendeeTypeCode = attendeeTypeCode,
       im_customFields = suggest_fields rd headers registrationFields u9 []\<rparr>))"

section \<open>Checks\<close>

definition mapped_headers :: "import_mapping \<Rightarrow> string list" where
  "mapped_headers m = filter (\<lambda>h. h \<noteq> []) (List.map_filter (\<lambda>v. v)
     [im_fullName m, im_phone m, im_email m, im_companyName m, im_jobTitle m, im_externalId m, im_notes m,
      im_attendeeTypeCode m] @ map snd (im_customFields m))"

fun require_all :: "('a \<Rightarrow> err option) \<Rightarrow> 'a list \<Rightarrow> unit res" where
  "require_all problem [] = Inr ()"
| "require_all problem (x # xs) = (case problem x of Some e \<Rightarrow> Inl e | None \<Rightarrow> require_all problem xs)"

definition validateMapping :: "import_mapping \<Rightarrow> import_header list \<Rightarrow> reg_field list \<Rightarrow> id option \<Rightarrow> unit res" where
  "validateMapping mapping headers registrationFields attendeeTypeId =
    bindE (guard (truthy (im_fullName mapping)) (BadRequest ''mapping.fullName is required'')) (\<lambda>_.
    bindE (guard (truthy attendeeTypeId \<or> truthy (im_attendeeTypeCode mapping))
      (BadRequest ''attendeeTypeId or mapping.attendeeTypeCode is required'')) (\<lambda>_.
    bindE (require_all (\<lambda>h. if h \<in> ih_key ` set headers then None
        else Some (BadRequest (''Mapped column was not found in the file: '' @ h))) (mapped_headers mapping)) (\<lambda>_.
    bindE (if truthy attendeeTypeId
        then require_all (\<lambda>f. if rf_isRequired f \<and> \<not> truthy (map_of (im_customFields mapping) (rf_key f))
          then Some (BadRequest (''Required custom field mapping is missing: '' @ rf_key f)) else None) registrationFields
        else Inr ()) (\<lambda>_.
    require_all (\<lambda>k. if k \<in> rf_key ` set registrationFields then None
        else Some (BadRequest (''Unknown custom field: '' @ k))) (map fst (im_customFields mapping))))))"

section \<open>Warnings of the preview\<close>

datatype severity = SEV_INFO | SEV_WARNING | SEV_ERROR

record preview_warning =
  pw_code :: string
  pw_severity :: severity
  pw_rowNumbers :: "nat list"

text \<open>The rows whose value of one column occurred before, with the row of its first occurrence.\<close>

fun repeated_rows :: "(string \<times> nat) list \<Rightarrow> (string \<Rightarrow> nat option) \<Rightarrow> nat list \<Rightarrow> nat list" where
  "repeated_rows [] seen duplicateRows = duplicateRows"
| "repeated_rows ((value, rowNumber) # rest) seen duplicateRows =
    (if value = [] then repeated_rows rest seen duplicateRows
     else let normalized = to_lower (trim value) in
     (case seen normalized of
       Some firstRow \<Rightarrow> repeated_rows rest seen (List.insert rowNumber (List.insert firstRow duplicateRows))
     | None \<Rightarrow> repeated_rows rest (seen(normalized \<mapsto> rowNumber)) duplicateRows))"

definition column_values :: "env \<Rightarrow> string \<Rightarrow> parsed_row list \<Rightarrow> (string \<times> nat) list" where
  "column_values c h rows = map (\<lambda>r. (toDisplayString c (cell_of (pr_data r) h), pr_rowNumber r)) rows"

definition findDuplicateIdentifiersInFile :: "env \<Rightarrow> parsed_row list \<Rightarrow> import_mapping \<Rightarrow> preview_warning list" where
  "findDuplicateIdentifiersInFile c rows mapping =
    List.map_filter (\<lambda>(code, header).
      if \<not> truthy header then None
      else let duplicateRows = repeated_rows (column_values c (the header) rows) (\<lambda>_. None) [] in
        if duplicateRows = [] then None
        else Some \<lparr>pw_code = code, pw_severity = SEV_WARNING, pw_rowNumbers = take 50 (rev duplicateRows)\<rparr>)
    [(''DUPLICATE_PHONE'', im_phone mapping), (''DUPLICATE_EMAIL'', im_email mapping),
     (''DUPLICATE_EXTERNALID'', im_externalId mapping)]"

definition words_of :: "string \<Rightarrow> string list" where
  "words_of s = filter (\<lambda>w. w \<noteq> []) (split_on CHR '' '' (map (\<lambda>ch. if is_space ch then CHR '' '' else ch) s))"

definition jobHints :: "string list" where
  "jobHints = [''manager'', ''director'', ''engineer'', ''doctor'', ''sales'', ''marketing'', ''owner'', ''ceo'',
     (utf8 [0x645, 0x62F, 0x64A, 0x631]), (utf8 [0x645, 0x647, 0x646, 0x62F, 0x633]), (utf8 [0x62F, 0x643, 0x62A, 0x648, 0x631]), (utf8 [0x637, 0x628, 0x64A, 0x628]), (utf8 [0x645, 0x628, 0x64A, 0x639, 0x627, 0x62A]), (utf8 [0x62A, 0x633, 0x648, 0x64A, 0x642]), (utf8 [0x645, 0x62D, 0x627, 0x633, 0x628]), (utf8 [0x645, 0x633, 0x624, 0x648, 0x644]), (utf8 [0x645, 0x646, 0x633, 0x642]), (utf8 [0x631, 0x626, 0x64A, 0x633]), (utf8 [0x645, 0x648, 0x638, 0x641])]"

definition looks_swapped :: "env \<Rightarrow> string \<Rightarrow> string \<Rightarrow> parsed_row \<Rightarrow> bool" where
  "looks_swapped c nameHeader jobHeader row =
    (let name = toDisplayString c (cell_of (pr_data row) nameHeader);
         jobTitle = toDisplayString c (cell_of (pr_data row) jobHeader) in
     name \<noteq> [] \<and> jobTitle \<noteq> [] \<and> list_ex (text_includes (to_lower name)) jobHints \<and>
     \<not> list_ex (text_includes (to_lower jobTitle)) jobHints \<and> 2 \<le> length (words_of jobTitle))"

definition findPotentialNameJobSwaps :: "env \<Rightarrow> parsed_row list \<Rightarrow> import_mapping \<Rightarrow> nat list" where
  "findPotentialNameJobSwaps c rows mapping =
    (if \<not> truthy (im_fullName mapping) \<or> \<not> truthy (im_jobTitle mapping) then []
     else map pr_rowNumber (filter (looks_swapped c (the (im_fullName mapping)) (the (im_jobTitle mapping))) rows))"

text \<open>\<open>/__\d+$/\<close>.\<close>

definition numbered_key :: "string \<Rightarrow> bool" where
  "numbered_key k = (let digits = takeWhile is_digit (rev k); rest = dropWhile is_digit (rev k) in
     digits \<noteq> [] \<and> starts_with ''__'' rest)"

definition warning :: "bool \<Rightarrow> string \<Rightarrow> severity \<Rightarrow> preview_warning list" where
  "warning b code sev = (if b then [\<lparr>pw_code = code, pw_severity = sev, pw_rowNumbers = []\<rparr>] else [])"

definition buildPreviewWarnings :: "env \<Rightarrow> parsed_file \<Rightarrow> import_mapping \<Rightarrow> reg_field list \<Rightarrow> id option \<Rightarrow>
    preview_warning list" where
  "buildPreviewWarnings c parsed suggested registrationFields attendeeTypeId =
    (let applicable = filter (\<lambda>f. rf_attendeeTypeId f = None \<or> \<not> truthy attendeeTypeId \<or>
           rf_attendeeTypeId f = attendeeTypeId) registrationFields;
         suspicious = findPotentialNameJobSwaps c (pf_rows parsed) suggested in
     warning (pf_rows parsed = []) ''NO_DATA_ROWS'' SEV_ERROR @
     warning (\<not> truthy (im_fullName suggested)) ''FULL_NAME_NOT_DETECTED'' SEV_ERROR @
     warning (\<not> truthy (im_phone suggested)) ''PHONE_NOT_DETECTED'' SEV_INFO @
     concat (map (\<lambda>f. warning (rf_isRequired f \<and> \<not> truthy (map_of (im_customFields suggested) (rf_key f)))
       ''REQUIRED_CUSTOM_FIELD_UNMAPPED'' SEV_WARNING) applicable) @
     warning (list_ex (\<lambda>h. numbered_key (ih_key h)) (pf_headers parsed)) ''DUPLICATE_HEADERS_RENAMED'' SEV_WARNING @
     (if suspicious = [] then [] else [\<lparr>pw_code = ''POSSIBLE_NAME_JOB_SWAP'', pw_severity = SEV_WARNING,
        pw_rowNumbers = take 50 suspicious\<rparr>]) @
     findDuplicateIdentifiersInFile c (pf_rows parsed) suggested)"

end
