(* ===== verification/Imports.thy ===== *)
theory Imports
  imports ImportMapping Pagination
begin

text \<open>
  The import jobs of \<open>src/modules/imports/imports.service.ts\<close>: a job with one stored row per row of the
  file, the reading of a row as a registration, what happens to it when the event already has the
  attendee, and the loop that processes the pending rows and the final counts.

  Processing reads the rows back from the JSON column, so a cell is a JSON value there. An \<open>async\<close> call
  that is returned without \<open>await\<close> runs after the enclosing \<open>try\<close> is left: \<open>processImportRow\<close> hands the
  treatment of an existing registration over to its end (\<open>HandOver\<close>), outside \<open>catch\<close>. The wait for the
  WhatsApp queue between chunks changes no table and is modelled on its own.
\<close>

section \<open>Jobs\<close>

datatype duplicate_strategy = SKIP | FAIL_ROW | UPDATE_EXISTING

record import_command =
  ic_file :: upload
  ic_eventId :: id
  ic_attendeeTypeId :: "id option"
  ic_generateQr :: bool
  ic_source :: reg_source
  ic_duplicateStrategy :: duplicate_strategy
  ic_externalIdPrefix :: "string option"
  ic_mapping :: "fields option"
  ic_parser :: parser_options
  ic_uploadedByUserId :: "id option"

record import_config =
  cf_queueEnabled :: bool
  cf_enqueueBatchSize :: nat
  cf_queueError :: string \<comment> \<open>the message of the queue client\<close>
  cf_accepts :: "nat \<Rightarrow> bool" \<comment> \<open>whether the database accepts the n-th chunk of rows\<close>

definition strategy_name :: "duplicate_strategy \<Rightarrow> string" where
  "strategy_name d = (case d of SKIP \<Rightarrow> ''SKIP'' | FAIL_ROW \<Rightarrow> ''FAIL'' | UPDATE_EXISTING \<Rightarrow> ''UPDATE_EXISTING'')"

definition parseDuplicateStrategy :: "json option \<Rightarrow> duplicate_strategy" where
  "parseDuplicateStrategy v =
    (if v = Some (JStr ''FAIL'') then FAIL_ROW
     else if v = Some (JStr ''UPDATE_EXISTING'') then UPDATE_EXISTING else SKIP)"

definition source_names :: "(string \<times> reg_source) list" where
  "source_names = [(''ONLINE'', SRC_ONLINE), (''ONSITE'', SRC_ONSITE), (''EXCEL_IMPORT'', SRC_EXCEL_IMPORT),
     (''OFFLINE_DEVICE'', SRC_OFFLINE_DEVICE), (''ADMIN'', SRC_ADMIN), (''PUBLIC'', SRC_PUBLIC)]"

definition source_name :: "reg_source \<Rightarrow> string" where
  "source_name x = (case x of SRC_ONLINE \<Rightarrow> ''ONLINE'' | SRC_ONSITE \<Rightarrow> ''ONSITE'' | SRC_EXCEL_IMPORT \<Rightarrow> ''EXCEL_IMPORT''
     | SRC_OFFLINE_DEVICE \<Rightarrow> ''OFFLINE_DEVICE'' | SRC_ADMIN \<Rightarrow> ''ADMIN'' | SRC_PUBLIC \<Rightarrow> ''PUBLIC'')"

definition text_or_null :: "string option \<Rightarrow> json" where
  "text_or_null v = (case v of None \<Rightarrow> JNull | Some s \<Rightarrow> JStr s)"

definition job_options :: "import_command \<Rightarrow> import_mapping \<Rightarrow> parsed_file \<Rightarrow> json" where
  "job_options command mapping parsed = JObj [(''generateQr'', JBool (ic_generateQr command)),
     (''source'', JStr (source_name (ic_source command))),
     (''duplicateStrategy'', JStr (strategy_name (ic_duplicateStrategy command))),
     (''externalIdPrefix'', text_or_null (ic_externalIdPrefix command)),
     (''mapping'', JObj (mapping_fields mapping)),
     (''parser'', JObj [(''sheetName'', JStr (pf_selectedSheetName parsed)),
        (''headerRow'', JInt (pf_headerRow parsed)), (''dataStartRow'', JInt (pf_dataStartRow parsed))])]"

function chunks_of :: "nat \<Rightarrow> 'a list \<Rightarrow> 'a list list" where
  "chunks_of n xs = (if xs = [] \<or> n = 0 then [] else take n xs # chunks_of n (drop n xs))"
  by pat_completeness auto

termination by (relation "measure (\<lambda>(n, xs). length xs)") auto

declare chunks_of.simps [simp del]

definition job_row :: "env \<Rightarrow> id \<Rightarrow> parsed_row \<Rightarrow> id \<Rightarrow> import_row" where
  "job_row c jobId r i = \<lparr>iw_id = i, iw_importJobId = jobId, iw_rowNumber = pr_rowNumber r, iw_status = RW_PENDING,
     iw_rawData = map (\<lambda>(k, v). (k, cell_json c v)) (pr_data r), iw_normalizedData = JNull, iw_registrationId = None,
     iw_errorCode = None, iw_errorMessage = None, iw_processedAt = None\<rparr>"

definition insert_row :: "env \<Rightarrow> id \<Rightarrow> parsed_row \<Rightarrow> (store, unit) act" where
  "insert_row c jobId r = bindA (new_id c) (\<lambda>i.
     modify (\<lambda>s. s\<lparr>importRows := append_row (job_row c jobId r i) (importRows s)\<rparr>))"

text \<open>\<open>createMany\<close> for one chunk, then the next.\<close>

fun insert_chunks :: "env \<Rightarrow> import_config \<Rightarrow> id \<Rightarrow> nat \<Rightarrow> parsed_row list list \<Rightarrow> (store, unit) act" where
  "insert_chunks c cfg jobId k [] = ret ()"
| "insert_chunks c cfg jobId k (chunk # chunks) =
    (if \<not> cf_accepts cfg k then throw (OtherError ''Database error'')
     else bindA (forA chunk (insert_row c jobId)) (\<lambda>_. insert_chunks c cfg jobId (Suc k) chunks))"

definition new_job :: "env \<Rightarrow> import_command \<Rightarrow> import_mapping \<Rightarrow> parsed_file \<Rightarrow> id \<Rightarrow> import_job" where
  "new_job c command mapping parsed i = \<lparr>ij_id = i, ij_eventId = ic_eventId command,
     ij_attendeeTypeId = ic_attendeeTypeId command, ij_uploadedByUserId = ic_uploadedByUserId command,
     ij_fileName = up_filename (ic_file command), ij_fileMimeType = up_mimetype (ic_file command),
     ij_fileSizeBytes = up_size (ic_file command), ij_status = IM_PENDING, ij_totalRows = length (pf_rows parsed),
     ij_processedRows = 0, ij_successRows = 0, ij_failedRows = 0, ij_duplicateRows = 0,
     ij_options = job_options command mapping parsed, ij_summary = JNull, ij_startedAt = None,
     ij_completedAt = None, ij_createdAt = now c\<rparr>"

definition createJob :: "env \<Rightarrow> import_config \<Rightarrow> import_command \<Rightarrow> import_mapping \<Rightarrow> parsed_file \<Rightarrow> (store, import_job) act" where
  "createJob c cfg command mapping parsed =
    bindA (new_id c) (\<lambda>i.
    let job = new_job c command mapping parsed i in
    bindA (modify (\<lambda>s. s\<lparr>importJobs := append_row job (importJobs s)\<rparr>)) (\<lambda>_.
    catch (bindA (insert_chunks c cfg i 0 (chunks_of 500 (pf_rows parsed))) (\<lambda>_. ret job))
      (\<lambda>e. bindA (modify (\<lambda>s. s\<lparr>importRows := delete_rows (\<lambda>r. iw_importJobId r = i) (importRows s)\<rparr>)) (\<lambda>_.
            bindA (modify (\<lambda>s. s\<lparr>importJobs := delete_rows (\<lambda>j. ij_id j = i) (importJobs s)\<rparr>)) (\<lambda>_.
            throw e)))))"

definition findRegistrationFieldsForImport :: "id \<Rightarrow> id option \<Rightarrow> store \<Rightarrow> reg_field list" where
  "findRegistrationFieldsForImport eventId attendeeTypeId s =
    filter (\<lambda>f. rf_eventId f = eventId \<and> rf_isActive f \<and>
      (truthy attendeeTypeId \<longrightarrow> rf_attendeeTypeId f = None \<or> rf_attendeeTypeId f = attendeeTypeId)) (regFields s)"

definition checked_attendee_type :: "id option \<Rightarrow> id \<Rightarrow> store \<Rightarrow> unit res" where
  "checked_attendee_type attendeeTypeId eventId s =
    (if truthy attendeeTypeId
     then bindE (ensureAttendeeTypeCanBeUsed (the attendeeTypeId) eventId s) (\<lambda>_. Inr ()) else Inr ())"

definition createImportJobFromFile :: "env \<Rightarrow> readers \<Rightarrow> import_config \<Rightarrow> import_command \<Rightarrow> (store, import_job) act" where
  "createImportJobFromFile c rd cfg command =
    bindA (reads (ensureEventCanBeModified (ic_eventId command))) (\<lambda>_.
    bindA (reads (checked_attendee_type (ic_attendeeTypeId command) (ic_eventId command))) (\<lambda>_.
    bindA (reads (\<lambda>_. parseFile c rd (ic_file command) (ic_parser command))) (\<lambda>parsed.
    if pf_rows parsed = [] then throw (BadRequest ''No data rows were found in the file'')
    else
    bindA (gets (findRegistrationFieldsForImport (ic_eventId command) (ic_attendeeTypeId command))) (\<lambda>registrationFields.
    let mapping = normalizeMapping (case ic_mapping command of Some m \<Rightarrow> m
          | None \<Rightarrow> mapping_fields (suggestMapping c rd (pf_headers parsed) (pf_rows parsed) registrationFields)) in
    bindA (reads (\<lambda>_. validateMapping mapping (pf_headers parsed) registrationFields (ic_attendeeTypeId command))) (\<lambda>_.
    createJob c cfg command mapping parsed)))))"

record preview =
  pv_parsed :: parsed_file
  pv_suggestedMapping :: import_mapping
  pv_previewRows :: "parsed_row list"
  pv_fields :: "reg_field list"
  pv_warnings :: "preview_warning list"

definition previewRegistrations :: "env \<Rightarrow> readers \<Rightarrow> upload \<Rightarrow> id \<Rightarrow> id option \<Rightarrow> parser_options \<Rightarrow> store \<Rightarrow> preview res" where
  "previewRegistrations c rd file eventId attendeeTypeId parser s =
    bindE (ensureEventCanBeModified eventId s) (\<lambda>_.
    bindE (checked_attendee_type attendeeTypeId eventId s) (\<lambda>_.
    bindE (parseFile c rd file parser) (\<lambda>parsed.
    let registrationFields = findRegistrationFieldsForImport eventId attendeeTypeId s;
        suggestedMapping = suggestMapping c rd (pf_headers parsed) (pf_rows parsed) registrationFields in
    Inr \<lparr>pv_parsed = parsed, pv_suggestedMapping = suggestedMapping, pv_previewRows = take 25 (pf_rows parsed),
      pv_fields = registrationFields,
      pv_warnings = buildPreviewWarnings c parsed suggestedMapping registrationFields attendeeTypeId\<rparr>)))"

section \<open>Reading a row\<close>

record import_context =
  cx_event :: event_row
  cx_eventId :: id
  cx_attendeeTypeId :: "id option"
  cx_generateQr :: bool
  cx_source :: "reg_source option" \<comment> \<open>\<open>None\<close> for a text that is no source\<close>
  cx_duplicateStrategy :: duplicate_strategy
  cx_externalIdPrefix :: "string option"
  cx_mapping :: import_mapping
  cx_registrationFields :: "reg_field list"
  cx_attendeeTypes :: "attendee_type list"
  cx_defaultAttendeeTypeId :: "id option"

definition findHeader :: "readers \<Rightarrow> fields \<Rightarrow> string list \<Rightarrow> string option" where
  "findHeader rd rawData candidates =
    find_row (\<lambda>h. normalizeHeader (rd_letter_or_digit rd) h \<in> set (normal_aliases rd candidates)) (map fst rawData)"

definition raw_value :: "fields \<Rightarrow> string option \<Rightarrow> json" where
  "raw_value rawData header = (case header of None \<Rightarrow> JNull | Some h \<Rightarrow>
     if h = [] then JNull else (case obj_get rawData h of None \<Rightarrow> JNull | Some v \<Rightarrow> v))"

definition header_or :: "string option \<Rightarrow> string option \<Rightarrow> string option" where
  "header_or mapped otherwise = (case mapped of Some h \<Rightarrow> Some h | None \<Rightarrow> otherwise)"

definition getOptionalMappedValue :: "env \<Rightarrow> readers \<Rightarrow> fields \<Rightarrow> string option \<Rightarrow> string list \<Rightarrow> string option" where
  "getOptionalMappedValue c rd rawData mappedHeader fallbackHeaders =
    (let value = Cell (raw_value rawData (header_or mappedHeader (findHeader rd rawData fallbackHeaders)))
     in if isBlank value then None else Some (trim (toDisplayString c value)))"

definition getMappedValue :: "env \<Rightarrow> readers \<Rightarrow> fields \<Rightarrow> string option \<Rightarrow> string list \<Rightarrow> string \<Rightarrow> string res" where
  "getMappedValue c rd rawData mappedHeader fallbackHeaders field =
    (let value = getOptionalMappedValue c rd rawData mappedHeader fallbackHeaders
     in if truthy value then Inr (the value) else Inl (BadRequest (field @ '' is required'')))"

fun split_points :: "(nat \<Rightarrow> bool) \<Rightarrow> nat list \<Rightarrow> nat list list" where
  "split_points sep [] = [[]]"
| "split_points sep (p # ps) =
    (if sep p then [] # split_points sep ps
     else (case split_points sep ps of [] \<Rightarrow> [[p]] | q # qs \<Rightarrow> (p # q) # qs))"

definition normalizeCustomFieldValue :: "env \<Rightarrow> readers \<Rightarrow> reg_field \<Rightarrow> json \<Rightarrow> json" where
  "normalizeCustomFieldValue c rd field v =
    (let text = toDisplayString c (Cell v) in
     case rf_type field of
       F_NUMBER \<Rightarrow>
         (case rd_number rd (trim (filter (\<lambda>ch. ch \<noteq> CHR '','') text)) of Some n \<Rightarrow> n | None \<Rightarrow> v)
     | F_BOOLEAN \<Rightarrow>
         (let normalized = normalizeHeader (rd_letter_or_digit rd) text in
          if normalized \<in> {''true'', ''1'', ''yes'', ''y'', (utf8 [0x646, 0x639, 0x645])} then JBool True
          else if normalized \<in> {''false'', ''0'', ''no'', ''n'', (utf8 [0x644, 0x627])} then JBool False
          else v)
     | F_MULTI_SELECT \<Rightarrow>
         (case v of JArr vs \<Rightarrow> v
          | _ \<Rightarrow> JArr (map JStr (filter (\<lambda>t. t \<noteq> []) (map (\<lambda>ps. trim (utf8 ps))
                  (split_points (\<lambda>p. p \<in> {44, 59, 124, 0x60C}) (points text))))))
     | _ \<Rightarrow> (case v of JStr s \<Rightarrow> JStr (trim s) | _ \<Rightarrow> v))"

definition attendee_type_by_code :: "attendee_type list \<Rightarrow> string \<Rightarrow> attendee_type option" where
  "attendee_type_by_code types code = find_row (\<lambda>t. to_upper (trim (at_code t)) = code) (rev types)"

definition resolveAttendeeTypeId :: "env \<Rightarrow> readers \<Rightarrow> fields \<Rightarrow> import_context \<Rightarrow> id res" where
  "resolveAttendeeTypeId c rd rawData ctx =
    (let code = getOptionalMappedValue c rd rawData (im_attendeeTypeCode (cx_mapping ctx))
           [''attendee_type_code'', ''attendee type code'', ''attendee type'', ''type code'',
            (utf8 [0x643, 0x648, 0x62F, 0x20, 0x646, 0x648, 0x639, 0x20, 0x627, 0x644, 0x62D, 0x636, 0x648, 0x631]), (utf8 [0x646, 0x648, 0x639, 0x20, 0x627, 0x644, 0x62D, 0x636, 0x648, 0x631])] in
     if truthy code
     then (case attendee_type_by_code (cx_attendeeTypes ctx) (to_upper (trim (the code))) of
             None \<Rightarrow> Inl (BadRequest ''Attendee type code was not found'')
           | Some t \<Rightarrow> Inr (at_id t))
     else if \<not> truthy (cx_defaultAttendeeTypeId ctx)
     then Inl (BadRequest ''Default attendee type was not found'')
     else Inr (the (cx_defaultAttendeeTypeId ctx)))"

definition add_custom_field :: "env \<Rightarrow> readers \<Rightarrow> fields \<Rightarrow> import_mapping \<Rightarrow> reg_field \<Rightarrow> fields \<Rightarrow> fields" where
  "add_custom_field c rd rawData mapping field customFields =
    (let rawValue = raw_value rawData (header_or (map_of (im_customFields mapping) (rf_key field))
           (findHeader rd rawData [rf_key field, rf_labelAr field, case rf_labelEn field of None \<Rightarrow> [] | Some l \<Rightarrow> l]))
     in if isBlank (Cell rawValue) then customFields
        else set_field (rf_key field) (normalizeCustomFieldValue c rd field rawValue) customFields)"

definition normalizeRow :: "env \<Rightarrow> readers \<Rightarrow> fields \<Rightarrow> import_context \<Rightarrow> create_dto res" where
  "normalizeRow c rd rawData ctx =
    (let m = cx_mapping ctx; optional = getOptionalMappedValue c rd rawData in
     bindE (case cx_attendeeTypeId ctx of Some i \<Rightarrow> Inr i | None \<Rightarrow> resolveAttendeeTypeId c rd rawData ctx) (\<lambda>attendeeTypeId.
     let applicableFields = filter (\<lambda>f. rf_attendeeTypeId f = None \<or> rf_attendeeTypeId f = Some attendeeTypeId)
           (cx_registrationFields ctx);
         customFields = fold (add_custom_field c rd rawData m) applicableFields [];
         externalIdValue = optional (im_externalId m) [''external_id'', ''external id'', ''registration id'', ''serial'',
           ''serial number'', (utf8 [0x631, 0x642, 0x645, 0x20, 0x62A, 0x633, 0x644, 0x633, 0x644, 0x64A]), (utf8 [0x627, 0x644, 0x645, 0x639, 0x631, 0x641, 0x20, 0x627, 0x644, 0x62E, 0x627, 0x631, 0x62C, 0x64A])];
         prefix = (case cx_externalIdPrefix ctx of None \<Rightarrow> [] | Some p \<Rightarrow> p) in
     bindE (getMappedValue c rd rawData (im_fullName m) [''full_name'', ''full name'', ''name'', ''visitor name'',
         ''attendee name'', (utf8 [0x627, 0x644, 0x627, 0x633, 0x645]), (utf8 [0x627, 0x644, 0x627, 0x633, 0x645, 0x20, 0x627, 0x644, 0x643, 0x627, 0x645, 0x644]), (utf8 [0x627, 0x633, 0x645, 0x20, 0x627, 0x644, 0x632, 0x627, 0x626, 0x631]), (utf8 [0x627, 0x633, 0x645, 0x20, 0x627, 0x644, 0x62D, 0x636, 0x648, 0x631])] ''fullName'') (\<lambda>fullName.
     Inr \<lparr>cd_eventId = cx_eventId ctx, cd_attendeeTypeId = attendeeTypeId, cd_fullName = fullName,
       cd_phone = optional (im_phone m) [''phone'', ''mobile'', ''whatsapp'', ''phone number'', ''mobile number'',
         (utf8 [0x631, 0x642, 0x645, 0x20, 0x627, 0x644, 0x647, 0x627, 0x62A, 0x641]), (utf8 [0x627, 0x644, 0x647, 0x627, 0x62A, 0x641]), (utf8 [0x627, 0x644, 0x645, 0x648, 0x628, 0x627, 0x64A, 0x644]), (utf8 [0x648, 0x627, 0x62A, 0x633, 0x627, 0x628])],
       cd_email = optional (im_email m) [''email'', ''mail'', ''email address'', (utf8 [0x627, 0x644, 0x628, 0x631, 0x64A, 0x62F, 0x20, 0x627, 0x644, 0x625, 0x644, 0x643, 0x62A, 0x631, 0x648, 0x646, 0x64A]), (utf8 [0x627, 0x644, 0x628, 0x631, 0x64A, 0x62F, 0x20, 0x627, 0x644, 0x627, 0x644, 0x643, 0x62A, 0x631, 0x648, 0x646, 0x64A])],
       cd_companyName = optional (im_companyName m) [''company'', ''company_name'', ''company name'', ''organization'',
         (utf8 [0x627, 0x633, 0x645, 0x20, 0x627, 0x644, 0x634, 0x631, 0x643, 0x629]), (utf8 [0x627, 0x644, 0x634, 0x631, 0x643, 0x629]), (utf8 [0x627, 0x644, 0x62C, 0x647, 0x629])],
       cd_jobTitle = optional (im_jobTitle m) [''job_title'', ''job title'', ''position'', ''title'', ''occupation'',
         (utf8 [0x627, 0x644, 0x645, 0x633, 0x645, 0x649, 0x20, 0x627, 0x644, 0x648, 0x638, 0x64A, 0x641, 0x64A]), (utf8 [0x627, 0x644, 0x645, 0x646, 0x635, 0x628]), (utf8 [0x627, 0x644, 0x648, 0x638, 0x64A, 0x641, 0x629])],
       cd_externalId = (if truthy externalIdValue then Some (prefix @ the externalIdValue) else None),
       cd_customFields = Some customFields,
       cd_notes = optional (im_notes m) [''notes'', ''note'', ''remarks'', (utf8 [0x645, 0x644, 0x627, 0x62D, 0x638, 0x627, 0x62A]), (utf8 [0x645, 0x644, 0x627, 0x62D, 0x638, 0x629])],
       cd_source = None\<rparr>)))"

end
