(* ===== verification/ImportRuns.thy ===== *)
theory ImportRuns
  imports Imports
begin

text \<open>
  The processing of import jobs, \<open>processImportJob\<close> and \<open>processImportRow\<close> of
  \<open>src/modules/imports/imports.service.ts\<close>, with the calls into the registrations service, and the
  entry \<open>importRegistrations\<close>.

  The loop over the pending rows takes fuel; \<open>processImportJob\<close> gives it one more round than there are
  pending rows, which is enough because every round that returns leaves fewer.
\<close>

section \<open>Existing registrations\<close>

definition identifier_checks :: "create_dto \<Rightarrow> (registration \<Rightarrow> bool) list" where
  "identifier_checks d =
    (if truthy (cd_externalId d) then [\<lambda>r. rg_externalId r = cd_externalId d] else []) @
    (if truthy (cd_phone d) then [\<lambda>r. rg_phone r = cd_phone d] else []) @
    (if truthy (cd_email d) then [\<lambda>r. rg_email r = cd_email d] else [])"

definition findExistingRegistration :: "create_dto \<Rightarrow> store \<Rightarrow> registration option res" where
  "findExistingRegistration d s =
    (let checks = identifier_checks d;
         matches = take 3 (filter (\<lambda>r. rg_eventId r = cd_eventId d \<and> list_ex (\<lambda>p. p r) checks) (registrations s)) in
     if checks = [] then Inr None
     else if 1 < length (remdups (map rg_id matches))
     then Inl (Conflict ''Multiple registrations match the imported identifiers'')
     else Inr (case matches of [] \<Rightarrow> None | r # _ \<Rightarrow> Some r))"

section \<open>Rows\<close>

definition update_row :: "id \<Rightarrow> (import_row \<Rightarrow> import_row) \<Rightarrow> (store, unit) act" where
  "update_row i f = modify (\<lambda>s. s\<lparr>importRows := update_by iw_id i f (importRows s)\<rparr>)"

definition normalized_json :: "create_dto \<Rightarrow> fields \<Rightarrow> json" where
  "normalized_json d output = JObj ([(''eventId'', JStr (cd_eventId d)), (''attendeeTypeId'', JStr (cd_attendeeTypeId d)),
     (''fullName'', JStr (cd_fullName d)), (''phone'', text_or_null (cd_phone d)), (''email'', text_or_null (cd_email d))] @
     text_member ''companyName'' (cd_companyName d) @ text_member ''jobTitle'' (cd_jobTitle d) @
     text_member ''externalId'' (cd_externalId d) @ text_member ''notes'' (cd_notes d) @
     [(''customFields'', JObj (case cd_customFields d of None \<Rightarrow> [] | Some fs \<Rightarrow> fs)), (''output'', JObj output)])"

definition markRowProcessed :: "env \<Rightarrow> id \<Rightarrow> create_dto \<Rightarrow> string \<Rightarrow> registration \<Rightarrow> (store, unit) act" where
  "markRowProcessed c rowId d action r = update_row rowId (\<lambda>w. w\<lparr>iw_status := RW_PROCESSED,
     iw_normalizedData := normalized_json d [(''action'', JStr action), (''registrationId'', JStr (rg_id r)),
       (''publicId'', JStr (rg_publicId r))],
     iw_registrationId := Some (rg_id r), iw_errorCode := None, iw_errorMessage := None,
     iw_processedAt := Some (now c)\<rparr>)"

definition when_truthy :: "string option \<Rightarrow> string option" where
  "when_truthy v = (if truthy v then v else None)"

definition existing_changes :: "create_dto \<Rightarrow> registration \<Rightarrow> update_dto" where
  "existing_changes d existing = \<lparr>ud_attendeeTypeId = Some (cd_attendeeTypeId d), ud_fullName = Some (cd_fullName d),
     ud_phone = when_truthy (cd_phone d), ud_email = map_option Some (when_truthy (cd_email d)),
     ud_companyName = when_truthy (cd_companyName d), ud_jobTitle = when_truthy (cd_jobTitle d),
     ud_externalId = when_truthy (cd_externalId d),
     ud_customFields = Some (fold (\<lambda>(k, v). set_field k v) (case cd_customFields d of None \<Rightarrow> [] | Some fs \<Rightarrow> fs)
       (toRecord (rg_customFields existing))),
     ud_notes = when_truthy (cd_notes d)\<rparr>"

definition handleExistingRegistration :: "env \<Rightarrow> import_row \<Rightarrow> create_dto \<Rightarrow> registration \<Rightarrow> import_context \<Rightarrow>
    (store, row_status) act" where
  "handleExistingRegistration c row d existing ctx = (case cx_duplicateStrategy ctx of
     FAIL_ROW \<Rightarrow> throw (Conflict ''Duplicate registration for this event'')
   | UPDATE_EXISTING \<Rightarrow>
       bindA (Registrations.update c (rg_id existing) (existing_changes d existing)) (\<lambda>updated.
       bindA (markRowProcessed c (iw_id row) d ''UPDATED_EXISTING'' updated) (\<lambda>_. ret RW_PROCESSED))
   | SKIP \<Rightarrow>
       bindA (update_row (iw_id row) (\<lambda>w. w\<lparr>iw_status := RW_DUPLICATE,
         iw_normalizedData := normalized_json d [(''action'', JStr ''SKIPPED_DUPLICATE''),
           (''registrationId'', JStr (rg_id existing))],
         iw_registrationId := Some (rg_id existing), iw_errorCode := Some ''DUPLICATE_REGISTRATION'',
         iw_errorMessage := Some ''Registration already exists for this event'',
         iw_processedAt := Some (now c)\<rparr>)) (\<lambda>_. ret RW_DUPLICATE))"

text \<open>What the \<open>try\<close> block ends with: a status, or the call that is returned without being awaited.\<close>

datatype row_outcome = Settled row_status | HandOver create_dto registration

definition import_create_options :: "import_context \<Rightarrow> create_options" where
  "import_create_options ctx = \<lparr>op_event = Some (cx_event ctx), op_attendeeTypeIds = map at_id (cx_attendeeTypes ctx),
     op_registrationFields = Some (cx_registrationFields ctx), op_enqueuePipeline = cx_generateQr ctx,
     op_skipDigitalTicket = True\<rparr>"

text \<open>A source that is no \<open>RegistrationSource\<close> is refused by the database client when the row is written.\<close>

definition create_imported :: "env \<Rightarrow> create_dto \<Rightarrow> import_context \<Rightarrow> (store, registration) act" where
  "create_imported c d ctx = (case cx_source ctx of
     None \<Rightarrow> throw (OtherError ''Invalid value for argument source'')
   | Some src \<Rightarrow> createFromImport c (d\<lparr>cd_source := Some src\<rparr>) (import_create_options ctx))"

definition is_conflict :: "err \<Rightarrow> bool" where
  "is_conflict e = (case e of Conflict _ \<Rightarrow> True | _ \<Rightarrow> False)"

definition try_row :: "env \<Rightarrow> readers \<Rightarrow> import_row \<Rightarrow> import_context \<Rightarrow> (store, row_outcome) act" where
  "try_row c rd row ctx =
    bindA (reads (\<lambda>_. normalizeRow c rd (iw_rawData row) ctx)) (\<lambda>d.
    bindA (reads (findExistingRegistration d)) (\<lambda>existing.
    case existing of
      Some r \<Rightarrow> ret (HandOver d r)
    | None \<Rightarrow>
        catch (bindA (create_imported c d ctx) (\<lambda>registration.
               bindA (markRowProcessed c (iw_id row) d ''CREATED'' registration) (\<lambda>_. ret (Settled RW_PROCESSED))))
          (\<lambda>error.
            if \<not> is_conflict error then throw error
            else bindA (reads (findExistingRegistration d)) (\<lambda>raced.
              case raced of None \<Rightarrow> throw error | Some r \<Rightarrow> ret (HandOver d r)))))"

definition error_code :: "err \<Rightarrow> string" where
  "error_code e = (case e of BadRequest _ \<Rightarrow> ''VALIDATION_FAILED'' | Conflict _ \<Rightarrow> ''DUPLICATE_REGISTRATION''
     | _ \<Rightarrow> ''ROW_FAILED'')"

definition failed_row :: "env \<Rightarrow> err \<Rightarrow> import_row \<Rightarrow> import_row" where
  "failed_row c e w = w\<lparr>iw_status := RW_FAILED, iw_errorCode := Some (error_code e),
     iw_errorMessage := Some (err_message e), iw_processedAt := Some (now c)\<rparr>"

definition processImportRow :: "env \<Rightarrow> readers \<Rightarrow> import_context \<Rightarrow> import_row \<Rightarrow> (store, row_status) act" where
  "processImportRow c rd ctx row =
    bindA (catch (try_row c rd row ctx)
        (\<lambda>error. bindA (update_row (iw_id row) (failed_row c error)) (\<lambda>_. ret (Settled RW_FAILED))))
      (\<lambda>result. case result of
         Settled status \<Rightarrow> ret status
       | HandOver d existing \<Rightarrow> handleExistingRegistration c row d existing ctx)"

section \<open>Jobs\<close>

definition find_job :: "id \<Rightarrow> store \<Rightarrow> import_job option" where
  "find_job i s = lookup_by ij_id i (importJobs s)"

definition findOneJob :: "id \<Rightarrow> store \<Rightarrow> import_job res" where
  "findOneJob i s = (case find_job i s of None \<Rightarrow> Inl (NotFound ''Import job not found'') | Some j \<Rightarrow> Inr j)"

definition update_job :: "id \<Rightarrow> (import_job \<Rightarrow> import_job) \<Rightarrow> (store, import_job) act" where
  "update_job i f =
    bindA (modify (\<lambda>s. s\<lparr>importJobs := update_by ij_id i f (importJobs s)\<rparr>)) (\<lambda>_. reads (findOneJob i))"

definition in_status :: "id \<Rightarrow> row_status \<Rightarrow> import_row \<Rightarrow> bool" where
  "in_status jobId st w = (iw_importJobId w = jobId \<and> iw_status w = st)"

definition pending_rows :: "id \<Rightarrow> nat \<Rightarrow> store \<Rightarrow> import_row list" where
  "pending_rows jobId n s = take n (sort_key iw_rowNumber (filter (in_status jobId RW_PENDING) (importRows s)))"

definition getJobStatus :: "nat \<Rightarrow> nat \<Rightarrow> nat \<Rightarrow> nat \<Rightarrow> nat \<Rightarrow> import_status" where
  "getJobStatus successRows failedRows duplicateRows skippedRows pendingRows =
    (if 0 < pendingRows then IM_PROCESSING
     else if failedRows = 0 then IM_COMPLETED
     else if successRows = 0 \<and> duplicateRows = 0 \<and> skippedRows = 0 then IM_FAILED
     else IM_PARTIAL_FAILED)"

definition count_status :: "id \<Rightarrow> row_status \<Rightarrow> store \<Rightarrow> nat" where
  "count_status jobId st s = count_rows (in_status jobId st) (importRows s)"

definition finished_job :: "env \<Rightarrow> nat \<Rightarrow> nat \<Rightarrow> nat \<Rightarrow> nat \<Rightarrow> nat \<Rightarrow> import_job \<Rightarrow> import_job" where
  "finished_job c successRows failedRows duplicateRows skippedRows pendingRows j =
    (let processedRows = successRows + failedRows + duplicateRows + skippedRows in
     j\<lparr>ij_status := getJobStatus successRows failedRows duplicateRows skippedRows pendingRows,
       ij_processedRows := processedRows, ij_successRows := successRows, ij_failedRows := failedRows,
       ij_duplicateRows := duplicateRows,
       ij_summary := JObj [(''successRows'', JInt (int successRows)), (''failedRows'', JInt (int failedRows)),
         (''duplicateRows'', JInt (int duplicateRows)), (''skippedRows'', JInt (int skippedRows)),
         (''pendingRows'', JInt (int pendingRows)), (''processedRows'', JInt (int processedRows))],
       ij_completedAt := (if pendingRows = 0 then Some (now c) else None)\<rparr>)"

definition finalizeImportJob :: "env \<Rightarrow> id \<Rightarrow> (store, import_job) act" where
  "finalizeImportJob c jobId =
    bindA (gets (\<lambda>s. \<lambda>st. count_status jobId st s)) (\<lambda>counts.
    update_job jobId (finished_job c (counts RW_PROCESSED) (counts RW_FAILED) (counts RW_DUPLICATE)
      (counts RW_SKIPPED) (counts RW_PENDING)))"

definition import_context_of :: "import_job \<Rightarrow> event_row \<Rightarrow> reg_field list \<Rightarrow> attendee_type list \<Rightarrow> import_context" where
  "import_context_of job event regs types =
    (let options = toRecord (ij_options job) in
     \<lparr>cx_event = event, cx_eventId = ij_eventId job, cx_attendeeTypeId = ij_attendeeTypeId job,
      cx_generateQr = (obj_get options ''generateQr'' \<noteq> Some (JBool False)),
      cx_source = (case str_of (obj_get options ''source'') of None \<Rightarrow> Some SRC_EXCEL_IMPORT
        | Some n \<Rightarrow> map_of source_names n),
      cx_duplicateStrategy = parseDuplicateStrategy (obj_get options ''duplicateStrategy''),
      cx_externalIdPrefix = str_of (obj_get options ''externalIdPrefix''),
      cx_mapping = normalizeMapping (case obj_get options ''mapping'' of None \<Rightarrow> [] | Some v \<Rightarrow> toRecord v),
      cx_registrationFields = regs, cx_attendeeTypes = types,
      cx_defaultAttendeeTypeId = map_option at_id (find_row at_isDefault types)\<rparr>)"

fun process_chunks :: "nat \<Rightarrow> env \<Rightarrow> readers \<Rightarrow> import_context \<Rightarrow> id \<Rightarrow> nat \<Rightarrow> (store, bool) act" where
  "process_chunks 0 c rd ctx jobId chunkSize = ret False"
| "process_chunks (Suc fuel) c rd ctx jobId chunkSize =
    bindA (gets (pending_rows jobId chunkSize)) (\<lambda>rows.
    if rows = [] then ret True
    else bindA (forA rows (processImportRow c rd ctx)) (\<lambda>_. process_chunks fuel c rd ctx jobId chunkSize))"

definition processImportJob :: "env \<Rightarrow> readers \<Rightarrow> import_config \<Rightarrow> id \<Rightarrow> (store, import_job) act" where
  "processImportJob c rd cfg importJobId =
    bindA (reads (findOneJob importJobId)) (\<lambda>job.
    if ij_status job \<in> {IM_COMPLETED, IM_PARTIAL_FAILED, IM_FAILED, IM_CANCELLED} then ret job
    else
    bindA (reads (ensureEventCanBeModified (ij_eventId job))) (\<lambda>event.
    bindA (gets (\<lambda>s. filter (\<lambda>f. rf_eventId f = ij_eventId job \<and> rf_isActive f) (regFields s))) (\<lambda>regs.
    bindA (gets (\<lambda>s. filter (\<lambda>t. at_eventId t = ij_eventId job \<and> at_isActive t) (attendeeTypes s))) (\<lambda>types.
    if types = [] then throw (BadRequest ''No active attendee types were found'')
    else if truthy (ij_attendeeTypeId job) \<and> the (ij_attendeeTypeId job) \<notin> at_id ` set types
    then throw (BadRequest ''Selected attendee type is not active for this event'')
    else
    bindA (update_job importJobId (\<lambda>j. j\<lparr>ij_status := IM_PROCESSING,
      ij_startedAt := (case ij_startedAt job of None \<Rightarrow> Some (now c) | Some t \<Rightarrow> Some t)\<rparr>)) (\<lambda>_.
    bindA (gets (count_status importJobId RW_PENDING)) (\<lambda>pending.
    bindA (process_chunks (Suc pending) c rd (import_context_of job event regs types) importJobId
      (max 50 (cf_enqueueBatchSize cfg))) (\<lambda>done.
    if done then finalizeImportJob c importJobId else throw (OtherError ''still running''))))))))"

definition importRegistrations :: "env \<Rightarrow> readers \<Rightarrow> import_config \<Rightarrow> import_command \<Rightarrow> (store, import_job \<times> bool) act" where
  "importRegistrations c rd cfg command =
    bindA (createImportJobFromFile c rd cfg command) (\<lambda>job.
    if \<not> cf_queueEnabled cfg then bindA (processImportJob c rd cfg (ij_id job)) (\<lambda>j. ret (j, False))
    else if queue_up c then bindA (modify (add_job (ImportProcess (ij_id job)))) (\<lambda>_. ret (job, True))
    else bindA (update_job (ij_id job) (\<lambda>j. j\<lparr>ij_status := IM_FAILED, ij_completedAt := Some (now c),
        ij_summary := JObj [(''queueError'', JStr (cf_queueError cfg))]\<rparr>)) (\<lambda>j. ret (j, False)))"

definition findAllJobs :: "id option \<Rightarrow> id option \<Rightarrow> import_status option \<Rightarrow> page_query \<Rightarrow> store \<Rightarrow> import_job paginated" where
  "findAllJobs eventId attendeeTypeId status query s =
    find_page (\<lambda>j. if_given eventId (\<lambda>e. ij_eventId j = e) \<and>
        if_given attendeeTypeId (\<lambda>t. ij_attendeeTypeId j = Some t) \<and>
        (case status of None \<Rightarrow> True | Some st \<Rightarrow> ij_status j = st))
      (\<lambda>j. - ij_createdAt j) query (importJobs s)"

definition findRows :: "id \<Rightarrow> row_status option \<Rightarrow> page_query \<Rightarrow> store \<Rightarrow> import_row paginated res" where
  "findRows jobId status query s = bindE (findOneJob jobId s) (\<lambda>_. Inr (
    find_page (\<lambda>w. iw_importJobId w = jobId \<and> (case status of None \<Rightarrow> True | Some st \<Rightarrow> iw_status w = st))
      iw_rowNumber query (importRows s)))"

section \<open>Backpressure\<close>

text \<open>The depths of the WhatsApp queue in the order they are read; the rest of them when the wait ends,
  \<open>None\<close> when it is still waiting after the last.\<close>

fun until_resumed :: "nat \<Rightarrow> nat \<Rightarrow> nat list \<Rightarrow> nat list option" where
  "until_resumed resumeThreshold depth depths =
    (if depth \<le> resumeThreshold then Some depths
     else (case depths of [] \<Rightarrow> None | d # ds \<Rightarrow> until_resumed resumeThreshold d ds))"

fun waitForWhatsAppBackpressure :: "bool \<Rightarrow> nat \<Rightarrow> nat \<Rightarrow> nat list \<Rightarrow> nat list option" where
  "waitForWhatsAppBackpressure enabled maxWaiting resumeThreshold depths =
    (if \<not> enabled then Some depths
     else (case depths of
         [] \<Rightarrow> None
       | depth # rest \<Rightarrow> if depth < maxWaiting then Some rest else until_resumed resumeThreshold depth rest))"

end
