(* ===== verification/ImportSteps.thy ===== *)
theory ImportSteps
  imports ImportRuns
begin

text \<open>
  What processing does to the rows of the import jobs: the registrations service leaves them alone, a row
  that is settled leaves every other row as it was, and the loop needs no more rounds than there are
  pending rows.
\<close>

section \<open>The registrations service leaves the import tables alone\<close>

definition imports_of :: "store \<Rightarrow> import_row list \<times> import_job list" where
  "imports_of s = (importRows s, importJobs s)"

abbreviation leaves_imports :: "(store, 'a) act \<Rightarrow> store \<Rightarrow> bool" where
  "leaves_imports \<equiv> within (same imports_of)"

lemma leaves_draw: "leaves_imports (draw g) s"
  by (simp add: within_def same_def draw_def imports_of_def)

lemma leaves_new_id: "leaves_imports (new_id c) s"
  by (simp add: within_def same_def new_id_def imports_of_def)

lemma leaves_publicId: "leaves_imports (generatePublicId c) s"
proof -
  have "leaves_imports (generatePublicId_loop n c) s" for n s
    by (induction n arbitrary: s)
      (auto simp: same.within_throw intro!: same.within_bind same.within_bind_gets leaves_draw same.within_ret)
  then show ?thesis by (simp add: generatePublicId_def)
qed

lemma leaves_create_registration: "leaves_imports (create_registration c row) s"
  unfolding create_registration_def
  by (intro same.within_bind leaves_new_id same.within_rules) (simp_all add: same_def imports_of_def)

lemma leaves_createOrThrow: "leaves_imports (createRegistrationOrThrowConflict c dto) s"
  unfolding createRegistrationOrThrowConflict_def
  by (intro same.within_catch same.within_bind leaves_publicId leaves_create_registration same.within_throw)

lemma leaves_enqueue: "leaves_imports (enqueueRegistrationPipeline c i e src b) s"
  unfolding enqueueRegistrationPipeline_def
  by (intro same.within_rules) (simp_all add: same_def imports_of_def add_job_def)

lemma leaves_createNormalized: "leaves_imports (createNormalized c dto options) s"
  unfolding createNormalized_def
  by (intro same.within_rules same.within_bind leaves_createOrThrow leaves_enqueue)

lemma leaves_update_registration: "leaves_imports (update_registration c i f) s"
  unfolding update_registration_def Let_def
  by (intro same.within_bind_gets same.within_option same.within_throw same.within_if same.within_bind
      same.within_modify same.within_ret) (simp_all add: same_def imports_of_def)

lemma leaves_update: "leaves_imports (Registrations.update c i dto) s"
  unfolding Registrations.update_def Let_def by (intro same.within_rules leaves_update_registration)

lemma leaves_create_imported: "leaves_imports (create_imported c d ctx) s"
  unfolding create_imported_def createFromImport_def
  by (intro same.within_option same.within_throw same.within_bind_reads leaves_createNormalized)

section \<open>Settling one row\<close>

text \<open>\<open>settles i s t\<close>: the row \<open>i\<close> may have been settled, everything else of the import tables is as before.\<close>

definition settle_row :: "id \<Rightarrow> import_row \<Rightarrow> import_row \<Rightarrow> bool" where
  "settle_row i w w' = (iw_id w' = iw_id w \<and> iw_importJobId w' = iw_importJobId w \<and> iw_rowNumber w' = iw_rowNumber w \<and>
     iw_rawData w' = iw_rawData w \<and> (w' = w \<or> iw_id w = i \<and> iw_status w' \<in> {RW_PROCESSED, RW_FAILED, RW_DUPLICATE}))"

definition settles :: "id \<Rightarrow> store \<Rightarrow> store \<Rightarrow> bool" where
  "settles i s t = (importJobs t = importJobs s \<and> list_all2 (settle_row i) (importRows s) (importRows t))"

interpretation settles: store_rel "settles i" for i
proof unfold_locales
  show "settles i s s" for s by (simp add: settles_def settle_row_def list_all2_refl)
  have tr: "settle_row i a b \<Longrightarrow> settle_row i b d \<Longrightarrow> settle_row i a d" for a b d
    by (auto simp: settle_row_def)
  show "settles i s u" if "settles i s t" "settles i t u" for s t u
    using that by (auto simp: settles_def intro: list_all2_trans [OF tr])
qed

lemma leaves_settles: "leaves_imports m s \<Longrightarrow> within (settles i) m s"
  using settles.rel_refl by (auto simp: within_def same_def imports_of_def settles_def)

definition settling :: "(import_row \<Rightarrow> import_row) \<Rightarrow> bool" where
  "settling f = (\<forall>w. iw_id (f w) = iw_id w \<and> iw_importJobId (f w) = iw_importJobId w \<and>
     iw_rowNumber (f w) = iw_rowNumber w \<and> iw_rawData (f w) = iw_rawData w \<and>
     iw_status (f w) \<in> {RW_PROCESSED, RW_FAILED, RW_DUPLICATE})"

lemma update_row_settles: "settling f \<Longrightarrow> within (settles i) (update_row i f) s"
  by (auto simp: within_def update_row_def modify_def settles_def settling_def settle_row_def update_by_def
      update_rows_def list_all2_map2 intro!: list_all2_refl)

lemma settling_failed: "settling (failed_row c e)"
  by (simp add: settling_def failed_row_def)

lemma markRow_settles: "within (settles (iw_id w)) (markRowProcessed c (iw_id w) d a r) s"
  unfolding markRowProcessed_def by (intro update_row_settles) (simp add: settling_def)

lemma handleExisting_settles: "within (settles (iw_id w)) (handleExistingRegistration c w d r ctx) s"
proof -
  have st: "settling (\<lambda>w. w\<lparr>iw_status := RW_DUPLICATE, iw_normalizedData := j, iw_registrationId := x, iw_errorCode := y,
      iw_errorMessage := z, iw_processedAt := v\<rparr>)" for j x y z v
    by (simp add: settling_def)
  have up: "within (settles (iw_id w)) (Registrations.update c i dto) t" for i dto t
    by (rule leaves_settles [OF leaves_update])
  show ?thesis
    unfolding handleExistingRegistration_def
    by (cases "cx_duplicateStrategy ctx")
      (simp_all, intro settles.within_bind settles.within_ret update_row_settles st, rule settles.within_throw,
        intro settles.within_bind settles.within_ret markRow_settles up)
qed

lemma try_row_settles: "within (settles (iw_id w)) (try_row c rd w ctx) s"
  unfolding try_row_def
  by (intro settles.within_bind_reads settles.within_option settles.within_ret settles.within_catch settles.within_bind
      leaves_settles leaves_create_imported markRow_settles settles.within_if settles.within_throw)

lemma processImportRow_settles: "within (settles (iw_id w)) (processImportRow c rd ctx w) s"
proof -
  have "within (settles (iw_id w)) (case r of Settled st \<Rightarrow> ret st
      | HandOver d e \<Rightarrow> handleExistingRegistration c w d e ctx) t" for r t
    by (cases r) (auto intro: settles.within_ret handleExisting_settles)
  then show ?thesis
    unfolding processImportRow_def
    by (intro settles.within_bind settles.within_catch try_row_settles update_row_settles settling_failed settles.within_ret)
qed

section \<open>A row that is returned is settled\<close>

definition settled_statuses :: "row_status set" where
  "settled_statuses = {RW_PROCESSED, RW_FAILED, RW_DUPLICATE}"

definition row_is :: "id \<Rightarrow> row_status \<Rightarrow> store \<Rightarrow> bool" where
  "row_is i st s = (\<forall>w \<in> set (importRows s). iw_id w = i \<longrightarrow> iw_status w = st)"

lemma update_row_is:
  assumes "\<And>w. iw_status (f w) = st" and "\<And>w. iw_id (f w) = iw_id w"
  shows "row_is i st (snd (update_row i f s))"
  using assms by (auto simp: row_is_def update_row_def modify_def set_update_by)

lemma bindA_ret_InrD: "bindA m (\<lambda>_. ret b) s = (Inr a, t) \<Longrightarrow> a = b \<and> t = snd (m s)"
  by (auto simp: bindA_def ret_def split: prod.splits sum.splits)

lemma handleExisting_is:
  "handleExistingRegistration c w d r ctx s = (Inr st, t) \<Longrightarrow> row_is (iw_id w) st t \<and> st \<in> settled_statuses"
  unfolding handleExistingRegistration_def markRowProcessed_def settled_statuses_def
  by (auto simp: throw_def split: duplicate_strategy.splits elim!: bindA_InrE dest!: bindA_ret_InrD intro!: update_row_is)

lemma try_row_is:
  "try_row c rd w ctx s = (Inr (Settled st), t) \<Longrightarrow> row_is (iw_id w) st t \<and> st \<in> settled_statuses"
  unfolding try_row_def markRowProcessed_def settled_statuses_def catch_def
  by (auto simp: throw_def ret_def act_simps split: option.splits sum.splits prod.splits if_splits elim!: bindA_InrE
      dest!: bindA_ret_InrD intro!: update_row_is)

lemma processImportRow_is:
  assumes "processImportRow c rd ctx w s = (Inr st, t)"
  shows "row_is (iw_id w) st t \<and> st \<in> settled_statuses"
proof -
  obtain result u where r: "catch (try_row c rd w ctx)
        (\<lambda>error. bindA (update_row (iw_id w) (failed_row c error)) (\<lambda>_. ret (Settled RW_FAILED))) s = (Inr result, u)"
    and q: "(case result of Settled status \<Rightarrow> ret status
       | HandOver d existing \<Rightarrow> handleExistingRegistration c w d existing ctx) u = (Inr st, t)"
    using assms unfolding processImportRow_def by (rule bindA_InrE)
  show ?thesis
  proof (cases result)
    case (HandOver d e)
    then show ?thesis using q handleExisting_is by simp
  next
    case (Settled st')
    then have [simp]: "st' = st" "t = u" using q by (simp_all add: ret_def)
    show ?thesis
    proof (cases "fst (try_row c rd w ctx s)")
      case (Inl e)
      then have "bindA (update_row (iw_id w) (failed_row c e)) (\<lambda>_. ret (Settled RW_FAILED)) (snd (try_row c rd w ctx s)) =
          (Inr result, u)"
        using r by (simp add: catch_def split: prod.splits)
      then show ?thesis
        using Settled by (auto dest!: bindA_ret_InrD intro!: update_row_is simp: failed_row_def settled_statuses_def)
    next
      case (Inr x)
      then show ?thesis using r Settled try_row_is [of c rd w ctx s st u] by (simp add: catch_def split: prod.splits)
    qed
  qed
qed

section \<open>The loop over the pending rows\<close>

text \<open>\<open>advance\<close>: every row is as before or settled.\<close>

definition advance_row :: "import_row \<Rightarrow> import_row \<Rightarrow> bool" where
  "advance_row w w' = (iw_id w' = iw_id w \<and> iw_importJobId w' = iw_importJobId w \<and> iw_rowNumber w' = iw_rowNumber w \<and>
     iw_rawData w' = iw_rawData w \<and> (w' = w \<or> iw_status w' \<in> settled_statuses))"

definition advance :: "store \<Rightarrow> store \<Rightarrow> bool" where
  "advance s t = (importJobs t = importJobs s \<and> list_all2 advance_row (importRows s) (importRows t))"

interpretation advance: store_rel advance
proof unfold_locales
  show "advance s s" for s by (simp add: advance_def advance_row_def list_all2_refl)
  have tr: "advance_row a b \<Longrightarrow> advance_row b d \<Longrightarrow> advance_row a d" for a b d
    by (auto simp: advance_row_def)
  show "advance s u" if "advance s t" "advance t u" for s t u
    using that by (auto simp: advance_def intro: list_all2_trans [OF tr])
qed

lemma settles_advance: "within (settles i) m s \<Longrightarrow> within advance m s"
  by (auto simp: within_def settles_def advance_def settle_row_def advance_row_def settled_statuses_def
      elim: list_all2_mono)

lemma processImportRow_advance: "within advance (processImportRow c rd ctx w) s"
  by (rule settles_advance [OF processImportRow_settles])

definition not_pending :: "id \<Rightarrow> store \<Rightarrow> bool" where
  "not_pending i s = (\<forall>w \<in> set (importRows s). iw_id w = i \<longrightarrow> iw_status w \<noteq> RW_PENDING)"

lemma list_all2_ex: "list_all2 P xs ys \<Longrightarrow> y \<in> set ys \<Longrightarrow> \<exists>x \<in> set xs. P x y"
  by (induction rule: list_all2_induct) auto

lemma not_pending_advance: "not_pending i s \<Longrightarrow> advance s t \<Longrightarrow> not_pending i t"
  by (fastforce simp: not_pending_def advance_def advance_row_def settled_statuses_def dest!: list_all2_ex)

lemma forA_not_pending:
  "forA ws (processImportRow c rd ctx) s = (Inr sts, t) \<Longrightarrow> w \<in> set ws \<Longrightarrow> not_pending (iw_id w) t"
proof (induction ws arbitrary: s sts)
  case Nil
  then show ?case by simp
next
  case (Cons x xs)
  obtain st u sts' where st: "processImportRow c rd ctx x s = (Inr st, u)"
    and sts: "forA xs (processImportRow c rd ctx) u = (Inr sts', t)"
    using Cons.prems(1) by (auto elim!: bindA_InrE simp: ret_def)
  have "not_pending (iw_id x) u"
    using processImportRow_is [OF st] by (auto simp: row_is_def not_pending_def settled_statuses_def)
  moreover have "advance u t"
    using advance.within_result [OF advance.within_forA sts] processImportRow_advance by blast
  ultimately have "not_pending (iw_id x) t" by (rule not_pending_advance)
  then show ?case using Cons.IH [OF sts] Cons.prems(2) by auto
qed

lemma pending_count_mono:
  "list_all2 advance_row xs ys \<Longrightarrow> count_rows (in_status j RW_PENDING) ys \<le> count_rows (in_status j RW_PENDING) xs"
  by (induction rule: list_all2_induct) (auto simp: count_rows_def in_status_def advance_row_def settled_statuses_def)

lemma pending_count_less:
  "list_all2 advance_row xs ys \<Longrightarrow> w \<in> set xs \<Longrightarrow> in_status j RW_PENDING w \<Longrightarrow>
   (\<And>v. v \<in> set ys \<Longrightarrow> iw_id v = iw_id w \<Longrightarrow> iw_status v \<noteq> RW_PENDING) \<Longrightarrow>
   count_rows (in_status j RW_PENDING) ys < count_rows (in_status j RW_PENDING) xs"
proof (induction rule: list_all2_induct)
  case Nil
  then show ?case by simp
next
  case (Cons x xs y ys)
  have le: "count_rows (in_status j RW_PENDING) ys \<le> count_rows (in_status j RW_PENDING) xs"
    by (rule pending_count_mono [OF Cons.hyps(2)])
  have y: "in_status j RW_PENDING y \<Longrightarrow> in_status j RW_PENDING x"
    using Cons.hyps(1) by (auto simp: in_status_def advance_row_def settled_statuses_def)
  show ?case
  proof (cases "w = x")
    case True
    then have "\<not> in_status j RW_PENDING y" using Cons.prems(3) [of y] Cons.hyps(1) by (auto simp: in_status_def advance_row_def)
    then show ?thesis using le True Cons.prems(2) by (simp add: count_rows_def)
  next
    case False
    then have "count_rows (in_status j RW_PENDING) ys < count_rows (in_status j RW_PENDING) xs"
      using Cons.IH Cons.prems by auto
    then show ?thesis using y by (auto simp: count_rows_def)
  qed
qed

lemma pending_rows_in: "set (pending_rows j n s) \<subseteq> {w \<in> set (importRows s). in_status j RW_PENDING w}"
  by (auto simp: pending_rows_def dest: in_set_takeD)

lemma pending_rows_empty: "0 < n \<Longrightarrow> pending_rows j n s = [] \<longleftrightarrow> count_status j RW_PENDING s = 0"
proof -
  assume "0 < n"
  moreover have "sort_key iw_rowNumber (filter (in_status j RW_PENDING) (importRows s)) = [] \<longleftrightarrow>
      filter (in_status j RW_PENDING) (importRows s) = []"
    by (metis length_0_conv length_sort)
  ultimately show ?thesis by (simp add: pending_rows_def count_status_def count_rows_def)
qed

lemma chunk_fewer:
  assumes "forA ws (processImportRow c rd ctx) s = (Inr sts, t)" and "ws = pending_rows j n s" and "ws \<noteq> []"
  shows "count_status j RW_PENDING t < count_status j RW_PENDING s"
proof -
  obtain w where w: "w \<in> set ws" using assms(3) by (cases ws) auto
  have "advance s t"
    using advance.within_result [OF advance.within_forA assms(1)] processImportRow_advance by blast
  moreover have "not_pending (iw_id w) t" by (rule forA_not_pending [OF assms(1) w])
  ultimately show ?thesis
    using w pending_rows_in [of j n s] assms(2) pending_count_less [of "importRows s" "importRows t" w j]
    by (auto simp: count_status_def advance_def not_pending_def)
qed

lemma process_chunks_enough:
  "count_status j RW_PENDING s < fuel \<Longrightarrow> process_chunks fuel c rd ctx j n s = (Inr b, t) \<Longrightarrow> b"
proof (induction fuel arbitrary: s)
  case 0
  then show ?case by simp
next
  case (Suc fuel)
  show ?case
  proof (cases "pending_rows j n s = []")
    case True
    then show ?thesis using Suc.prems(2) by (simp add: act_simps ret_def)
  next
    case False
    then obtain sts u where u: "forA (pending_rows j n s) (processImportRow c rd ctx) s = (Inr sts, u)"
      and r: "process_chunks fuel c rd ctx j n u = (Inr b, t)"
      using Suc.prems(2) by (auto simp: act_simps elim!: bindA_InrE)
    show ?thesis using Suc.IH [OF _ r] chunk_fewer [OF u refl False] Suc.prems(1) by simp
  qed
qed

lemma process_chunks_settled:
  "0 < n \<Longrightarrow> process_chunks fuel c rd ctx j n s = (Inr True, t) \<Longrightarrow> count_status j RW_PENDING t = 0"
proof (induction fuel arbitrary: s)
  case 0
  then show ?case by (simp add: ret_def)
next
  case (Suc fuel)
  then show ?case
    by (cases "pending_rows j n s = []") (auto simp: act_simps ret_def pending_rows_empty elim!: bindA_InrE)
qed

lemma process_chunks_advance: "within advance (process_chunks fuel c rd ctx j n) s"
  by (induction fuel arbitrary: s)
    (auto intro!: advance.within_bind_gets advance.within_bind advance.within_forA advance.within_ret processImportRow_advance)

declare process_chunks.simps [simp del]

end
