(* ===== verification/ImportProps.thy ===== *)
theory ImportProps
  imports ImportSteps
begin

text \<open>
  The properties of the processing of import jobs: it settles every row and counts them when existing
  attendees are skipped, it stays within the state machine of the rows, and it never settles a row of
  an existing attendee under the strategy \<open>FAIL\<close>.
\<close>

section \<open>A job that runs\<close>

text \<open>What \<open>processImportJob\<close> checks before the first row, and the context it goes on with.\<close>

definition active_types :: "id \<Rightarrow> store \<Rightarrow> attendee_type list" where
  "active_types eventId s = filter (\<lambda>t. at_eventId t = eventId \<and> at_isActive t) (attendeeTypes s)"

definition job_context :: "import_job \<Rightarrow> event_row \<Rightarrow> store \<Rightarrow> import_context" where
  "job_context job event s = import_context_of job event
     (filter (\<lambda>f. rf_eventId f = ij_eventId job \<and> rf_isActive f) (regFields s)) (active_types (ij_eventId job) s)"

definition runnable :: "id \<Rightarrow> import_job \<Rightarrow> event_row \<Rightarrow> store \<Rightarrow> bool" where
  "runnable i job event s = (find_job i s = Some job \<and> ij_status job \<in> {IM_PENDING, IM_PROCESSING} \<and>
     ensureEventCanBeModified (ij_eventId job) s = Inr event \<and> active_types (ij_eventId job) s \<noteq> [] \<and>
     (truthy (ij_attendeeTypeId job) \<longrightarrow> the (ij_attendeeTypeId job) \<in> at_id ` set (active_types (ij_eventId job) s)))"

definition started :: "env \<Rightarrow> import_job \<Rightarrow> import_job \<Rightarrow> import_job" where
  "started c job j = j\<lparr>ij_status := IM_PROCESSING,
     ij_startedAt := (case ij_startedAt job of None \<Rightarrow> Some (now c) | Some t \<Rightarrow> Some t)\<rparr>"

definition start_job :: "env \<Rightarrow> id \<Rightarrow> import_job \<Rightarrow> store \<Rightarrow> store" where
  "start_job c i job s = s\<lparr>importJobs := update_by ij_id i (started c job) (importJobs s)\<rparr>"

lemma find_job_updated:
  assumes "find_job i s = Some j" and "\<And>x. ij_id (f x) = ij_id x"
  shows "find_job i (s\<lparr>importJobs := update_by ij_id i f (importJobs s)\<rparr>) = Some (f j)"
  using assms rows.lookup_updated [of ij_id f i "importJobs s" j] by (simp add: find_job_def)

lemma finished_job_id: "ij_id (finished_job c a b d e f j) = ij_id j"
  by (simp add: finished_job_def Let_def)

lemma update_job_runs:
  assumes "find_job i s = Some j" and "\<And>x. ij_id (f x) = ij_id x"
  shows "update_job i f s = (Inr (f j), s\<lparr>importJobs := update_by ij_id i f (importJobs s)\<rparr>)"
  using assms rows.lookup_updated [of ij_id f i "importJobs s" j]
  by (simp add: update_job_def act_simps findOneJob_def find_job_def)

lemma bindA_update_job:
  assumes "find_job i s = Some j" and "\<And>x. ij_id (f x) = ij_id x"
  shows "bindA (update_job i f) g s = g (f j) (s\<lparr>importJobs := update_by ij_id i f (importJobs s)\<rparr>)"
  using update_job_runs [OF assms] by (simp add: bindA_def)

lemma processImportJob_runs:
  assumes "runnable i job event s"
  shows "processImportJob c rd cfg i s =
    bindA (process_chunks (Suc (count_status i RW_PENDING s)) c rd (job_context job event s) i (max 50 (cf_enqueueBatchSize cfg)))
      (\<lambda>done. if done then finalizeImportJob c i else throw (OtherError ''still running'')) (start_job c i job s)"
proof -
  have st: "ij_status job \<notin> {IM_COMPLETED, IM_PARTIAL_FAILED, IM_FAILED, IM_CANCELLED}"
    using assms by (auto simp: runnable_def)
  have id: "ij_id (started c job x) = ij_id x" for x by (simp add: started_def)
  show ?thesis
    using assms st
    unfolding processImportJob_def bindA_reads bindA_gets findOneJob_def runnable_def job_context_def active_types_def
      started_def [symmetric, abs_def]
    by (auto simp: bindA_update_job [OF _ id] bindA_gets count_status_def start_job_def)
qed

lemma finalize_runs:
  assumes "find_job i s = Some j"
  shows "finalizeImportJob c i s = (Inr (finished_job c (count_status i RW_PROCESSED s) (count_status i RW_FAILED s)
      (count_status i RW_DUPLICATE s) (count_status i RW_SKIPPED s) (count_status i RW_PENDING s) j),
    s\<lparr>importJobs := update_by ij_id i (finished_job c (count_status i RW_PROCESSED s) (count_status i RW_FAILED s)
      (count_status i RW_DUPLICATE s) (count_status i RW_SKIPPED s) (count_status i RW_PENDING s)) (importJobs s)\<rparr>)"
  using assms by (simp add: finalizeImportJob_def bindA_gets update_job_runs finished_job_def Let_def)

section \<open>Skipping existing attendees never fails\<close>

lemma bindA_total: "(\<exists>a t. m s = (Inr a, t)) \<Longrightarrow> (\<And>a t. \<exists>b u. f a t = (Inr b, u)) \<Longrightarrow> \<exists>b u. bindA m f s = (Inr b, u)"
  by (auto simp: bindA_def)

lemma update_row_total: "\<exists>t. update_row i f s = (Inr (), t)"
  by (simp add: update_row_def modify_def)

lemma skip_row_returns:
  assumes "cx_duplicateStrategy ctx = SKIP"
  shows "\<exists>st t. processImportRow c rd ctx w s = (Inr st, t)"
  unfolding processImportRow_def
proof (rule bindA_total)
  show "\<exists>a t. catch (try_row c rd w ctx)
      (\<lambda>error. bindA (update_row (iw_id w) (failed_row c error)) (\<lambda>_. ret (Settled RW_FAILED))) s = (Inr a, t)"
    by (cases "try_row c rd w ctx s"; cases "fst (try_row c rd w ctx s)")
      (auto simp: catch_def update_row_def bindA_modify ret_def)
  show "\<exists>b u. (case a of Settled status \<Rightarrow> ret status
      | HandOver d existing \<Rightarrow> handleExistingRegistration c w d existing ctx) t = (Inr b, u)" for a t
    using assms by (cases a) (auto simp: handleExistingRegistration_def ret_def update_row_def bindA_modify)
qed

lemma skip_forA_returns:
  assumes "cx_duplicateStrategy ctx = SKIP"
  shows "\<exists>sts t. forA ws (processImportRow c rd ctx) s = (Inr sts, t)"
proof (induction ws arbitrary: s)
  case Nil
  then show ?case by (simp add: ret_def)
next
  case (Cons w ws)
  obtain st t where "processImportRow c rd ctx w s = (Inr st, t)" using skip_row_returns [OF assms] by blast
  moreover obtain sts u where "forA ws (processImportRow c rd ctx) t = (Inr sts, u)" using Cons by blast
  ultimately show ?case by (simp add: bindA_def ret_def)
qed

lemma skip_chunks_return:
  assumes "cx_duplicateStrategy ctx = SKIP"
  shows "\<exists>b t. process_chunks fuel c rd ctx j n s = (Inr b, t)"
proof (induction fuel arbitrary: s)
  case 0
  then show ?case by (simp add: process_chunks.simps ret_def ex_bool_eq)
next
  case (Suc fuel)
  obtain sts t where r: "forA (pending_rows j n s) (processImportRow c rd ctx) s = (Inr sts, t)"
    using skip_forA_returns [OF assms] by blast
  obtain b u where "process_chunks fuel c rd ctx j n t = (Inr b, u)" using Suc by blast
  then show ?case
    using r unfolding process_chunks.simps bindA_gets
    by (cases "pending_rows j n s = []") (simp_all add: ret_def ex_bool_eq bindA_def)
qed

text \<open>A job whose processing returns has no pending row, and its counts are those of its rows.\<close>

lemma chunks_finish:
  assumes "runnable i job event s"
    and "process_chunks (Suc (count_status i RW_PENDING s)) c rd ctx i (max 50 n) (start_job c i job s) = (Inr b, t)"
  shows "b \<and> count_status i RW_PENDING t = 0 \<and> find_job i t = Some (started c job job) \<and> advance (start_job c i job s) t"
proof -
  have b: b using process_chunks_enough [OF _ assms(2)] by (simp add: count_status_def start_job_def)
  then have z: "count_status i RW_PENDING t = 0" using process_chunks_settled [of "max 50 n"] assms(2) by auto
  have adv: "advance (start_job c i job s) t"
    using advance.within_result [OF process_chunks_advance assms(2)] .
  have "find_job i (start_job c i job s) = Some (started c job job)"
    using assms(1) rows.lookup_updated [of ij_id "started c job" i "importJobs s" job]
    by (simp add: runnable_def find_job_def start_job_def started_def)
  then show ?thesis using b z adv by (simp add: advance_def find_job_def)
qed

definition job_rows :: "id \<Rightarrow> store \<Rightarrow> import_row list" where
  "job_rows i s = filter (\<lambda>w. iw_importJobId w = i) (importRows s)"

lemma count_all: "length (filter (\<lambda>w. iw_importJobId w = i) ws) = length (filter (in_status i RW_PENDING) ws) +
  length (filter (in_status i RW_PROCESSED) ws) + length (filter (in_status i RW_FAILED) ws) +
  length (filter (in_status i RW_DUPLICATE) ws) + length (filter (in_status i RW_SKIPPED) ws)"
proof (induction ws)
  case (Cons w ws)
  then show ?case by (cases "iw_status w") (auto simp: in_status_def)
qed simp

lemma advance_job_rows: "advance s t \<Longrightarrow> map iw_rowNumber (job_rows i t) = map iw_rowNumber (job_rows i s)"
proof -
  have "list_all2 advance_row xs ys \<Longrightarrow> map iw_rowNumber (filter (\<lambda>w. iw_importJobId w = i) ys) =
      map iw_rowNumber (filter (\<lambda>w. iw_importJobId w = i) xs)" for xs ys
    by (induction rule: list_all2_induct) (auto simp: advance_row_def)
  then show "advance s t \<Longrightarrow> ?thesis" by (simp add: advance_def job_rows_def)
qed


section \<open>An existing attendee under \<open>FAIL\<close>\<close>

definition duplicate_error :: err where
  "duplicate_error = Conflict ''Duplicate registration for this event''"

lemma fail_row_escapes:
  assumes "cx_duplicateStrategy ctx = FAIL_ROW" and "normalizeRow c rd (iw_rawData w) ctx = Inr d"
    and "findExistingRegistration d s = Inr (Some r)"
  shows "processImportRow c rd ctx w s = (Inl duplicate_error, s)"
proof -
  have "try_row c rd w ctx s = (Inr (HandOver d r), s)"
    using assms by (simp add: try_row_def act_simps)
  then show ?thesis
    using assms(1) by (simp add: processImportRow_def catch_def bindA_def handleExistingRegistration_def throw_def duplicate_error_def)
qed

lemma start_job_twice: "start_job c i (started c job job) (start_job c i job s) = start_job c i job s"
proof -
  have "started c (started c job job) = started c job"
    by (rule ext) (simp add: started_def split: option.splits)
  moreover have "started c job (started c job x) = started c job x" "ij_id (started c job x) = ij_id x" for x
    by (simp_all add: started_def)
  ultimately show ?thesis by (simp add: start_job_def update_by_def update_rows_def comp_def)
qed

lemma runnable_started:
  assumes "runnable i job event s"
  shows "runnable i (started c job job) event (start_job c i job s)"
proof -
  have "find_job i (start_job c i job s) = Some (started c job job)"
    unfolding start_job_def using assms by (intro find_job_updated) (simp_all add: runnable_def started_def)
  then show ?thesis
    using assms by (simp add: runnable_def start_job_def started_def active_types_def ensureEventCanBeModified_def
        find_event_def)
qed

lemma fail_job_escapes:
  assumes "runnable i job event s" and "cx_duplicateStrategy (job_context job event s) = FAIL_ROW"
    and "pending_rows i (max 50 (cf_enqueueBatchSize cfg)) s = w # ws"
    and "normalizeRow c rd (iw_rawData w) (job_context job event s) = Inr d"
    and "findExistingRegistration d s = Inr (Some r)"
  shows "processImportJob c rd cfg i s = (Inl duplicate_error, start_job c i job s)"
proof -
  have "findExistingRegistration d (start_job c i job s) = Inr (Some r)"
    using assms(5) by (simp add: findExistingRegistration_def start_job_def)
  then have row: "processImportRow c rd (job_context job event s) w (start_job c i job s) = (Inl duplicate_error, start_job c i job s)"
    by (rule fail_row_escapes [OF assms(2,4)])
  have pend: "pending_rows i (max 50 (cf_enqueueBatchSize cfg)) (start_job c i job s) = w # ws"
    using assms(3) by (simp add: pending_rows_def start_job_def)
  have "forA (w # ws) (processImportRow c rd (job_context job event s)) (start_job c i job s) =
      (Inl duplicate_error, start_job c i job s)"
    by (simp add: bindA_def row)
  then have "process_chunks (Suc (count_status i RW_PENDING s)) c rd (job_context job event s) i
      (max 50 (cf_enqueueBatchSize cfg)) (start_job c i job s) = (Inl duplicate_error, start_job c i job s)"
    unfolding process_chunks.simps bindA_gets pend by (simp del: forA.simps add: bindA_fail)
  then show ?thesis unfolding processImportJob_runs [OF assms(1)] by (rule bindA_fail)
qed

text \<open>C23: With the strategy FAIL a row of an attendee that is already registered is never settled: the
  returned promise is not awaited inside the \<open>try\<close>, so the conflict escapes from the row, the whole job rejects
  with it, all rows stay as they were and the job stays PROCESSING; and every retry ends the same way, in the same
  store, so that the rows behind it are never imported.\<close>

theorem fail_import_stuck:
  assumes "runnable i job event s" and "cx_duplicateStrategy (job_context job event s) = FAIL_ROW"
    and "pending_rows i (max 50 (cf_enqueueBatchSize cfg)) s = w # ws"
    and "normalizeRow c rd (iw_rawData w) (job_context job event s) = Inr d"
    and "findExistingRegistration d s = Inr (Some r)"
  shows "let (result, t) = processImportJob c rd cfg i s in
    result = Inl (Conflict ''Duplicate registration for this event'') \<and> importRows t = importRows s \<and>
    map_option ij_status (find_job i t) = Some IM_PROCESSING \<and> processImportJob c rd cfg i t = (result, t)"
proof -
  note started = runnable_started [OF assms(1), of c]
  have ctx: "job_context (started c job job) event (start_job c i job s) = job_context job event s"
    by (simp add: job_context_def import_context_of_def started_def start_job_def active_types_def)
  have again: "processImportJob c rd cfg i (start_job c i job s) =
      (Inl duplicate_error, start_job c i (started c job job) (start_job c i job s))"
  proof (rule fail_job_escapes [OF started])
    show "cx_duplicateStrategy (job_context (started c job job) event (start_job c i job s)) = FAIL_ROW"
      by (simp add: ctx assms(2))
    show "pending_rows i (max 50 (cf_enqueueBatchSize cfg)) (start_job c i job s) = w # ws"
      using assms(3) by (simp add: pending_rows_def start_job_def)
    show "normalizeRow c rd (iw_rawData w) (job_context (started c job job) event (start_job c i job s)) = Inr d"
      by (simp add: ctx assms(4))
    show "findExistingRegistration d (start_job c i job s) = Inr (Some r)"
      using assms(5) by (simp add: findExistingRegistration_def start_job_def)
  qed
  have "map_option ij_status (find_job i (start_job c i job s)) = Some IM_PROCESSING"
    using started by (simp add: runnable_def started_def)
  then show ?thesis
    unfolding fail_job_escapes [OF assms] using again
    by (simp add: start_job_twice duplicate_error_def) (simp add: start_job_def)
qed

section \<open>The state machine of the rows\<close>

type_synonym row_states = "id \<rightharpoonup> row_status"

text \<open>One step settles one pending row of the job.\<close>

inductive row_step :: "id set \<Rightarrow> row_states \<Rightarrow> row_states \<Rightarrow> bool" for job_ids where
  settle: "i \<in> job_ids \<Longrightarrow> m i = Some RW_PENDING \<Longrightarrow> st \<in> settled_statuses \<Longrightarrow> row_step job_ids m (m(i \<mapsto> st))"

inductive_cases row_stepE: "row_step job_ids m m'"

definition row_states_of :: "store \<Rightarrow> row_states" where
  "row_states_of s = map_of (map (\<lambda>w. (iw_id w, iw_status w)) (importRows s))"

definition row_ids :: "id \<Rightarrow> store \<Rightarrow> id set" where
  "row_ids i s = iw_id ` set (job_rows i s)"

lemma settle_row_status:
  "settle_row i w w' \<Longrightarrow> iw_id w' = iw_id w \<and>
    (iw_status w' = iw_status w \<or> iw_id w = i \<and> iw_status w' \<in> settled_statuses)"
  by (auto simp: settle_row_def settled_statuses_def)

lemma list_all2_states:
  assumes "list_all2 (settle_row i) ws vs"
  shows "k \<noteq> i \<Longrightarrow> map_of (map (\<lambda>w. (iw_id w, iw_status w)) vs) k = map_of (map (\<lambda>w. (iw_id w, iw_status w)) ws) k"
  using assms by (induction rule: list_all2_induct) (auto dest: settle_row_status)

lemma list_all2_status:
  assumes "list_all2 (settle_row i) ws vs"
  shows "map_of (map (\<lambda>w. (iw_id w, iw_status w)) vs) i = map_of (map (\<lambda>w. (iw_id w, iw_status w)) ws) i \<or>
    (\<exists>st \<in> settled_statuses. map_of (map (\<lambda>w. (iw_id w, iw_status w)) vs) i = Some st)"
  using assms by (induction rule: list_all2_induct) (auto dest: settle_row_status)

lemma settles_step:
  assumes "settles i s t" and "i \<in> J" and "row_states_of s i = Some RW_PENDING"
  shows "(row_step J)\<^sup>*\<^sup>* (row_states_of s) (row_states_of t)"
proof -
  have l: "list_all2 (settle_row i) (importRows s) (importRows t)" using assms(1) by (simp add: settles_def)
  have up: "row_states_of t = (row_states_of s)(i := row_states_of t i)"
    using list_all2_states [OF l] by (auto simp: row_states_of_def fun_eq_iff)
  consider "row_states_of t i = row_states_of s i" | st where "st \<in> settled_statuses" "row_states_of t i = Some st"
    using list_all2_status [OF l] by (auto simp: row_states_of_def)
  then show ?thesis
  proof cases
    case 1
    then show ?thesis using up by simp
  next
    case 2
    then have "row_step J (row_states_of s) (row_states_of t)"
      using row_step.settle [of i J "row_states_of s" st] assms(2,3) 2(1) up by simp
    then show ?thesis by blast
  qed
qed

lemma states_kept:
  assumes "settles i s t" and "k \<noteq> i"
  shows "row_states_of t k = row_states_of s k"
  using assms list_all2_states [of i "importRows s" "importRows t" k] by (simp add: settles_def row_states_of_def)

lemma forA_steps:
  assumes "distinct (map iw_id ws)" and "\<And>w. w \<in> set ws \<Longrightarrow> iw_id w \<in> J \<and> row_states_of s (iw_id w) = Some RW_PENDING"
  shows "(row_step J)\<^sup>*\<^sup>* (row_states_of s) (row_states_of (snd (forA ws (processImportRow c rd ctx) s)))"
  using assms
proof (induction ws arbitrary: s)
  case Nil
  then show ?case by (simp add: ret_def)
next
  case (Cons w ws)
  obtain x t where r: "processImportRow c rd ctx w s = (x, t)" by (cases "processImportRow c rd ctx w s")
  have st: "settles (iw_id w) s t" using settles.within_result [OF processImportRow_settles r] .
  have one: "(row_step J)\<^sup>*\<^sup>* (row_states_of s) (row_states_of t)"
    by (rule settles_step [OF st]) (use Cons.prems(2) in auto)
  have rest: "iw_id v \<in> J \<and> row_states_of t (iw_id v) = Some RW_PENDING" if "v \<in> set ws" for v
    using Cons.prems states_kept [OF st, of "iw_id v"] that by (force simp: rev_image_eqI)
  have more: "(row_step J)\<^sup>*\<^sup>* (row_states_of t) (row_states_of (snd (forA ws (processImportRow c rd ctx) t)))"
    using Cons.IH [of t] Cons.prems(1) rest by simp
  show ?case
  proof (cases x)
    case (Inl e)
    then show ?thesis using r one by (simp add: bindA_def)
  next
    case (Inr a)
    have "snd (forA (w # ws) (processImportRow c rd ctx) s) = snd (forA ws (processImportRow c rd ctx) t)"
      using r Inr by (auto simp: bindA_def ret_def split: prod.splits sum.splits)
    then show ?thesis using one more by simp
  qed
qed

lemma pending_states:
  assumes "distinct (map iw_id (importRows s))" and "w \<in> set (pending_rows i n s)"
  shows "iw_id w \<in> row_ids i s \<and> row_states_of s (iw_id w) = Some RW_PENDING"
proof -
  have w: "w \<in> set (importRows s)" "in_status i RW_PENDING w" using pending_rows_in [of i n s] assms(2) by auto
  have "(iw_id w, iw_status w) \<in> set (map (\<lambda>w. (iw_id w, iw_status w)) (importRows s))" using w(1) by auto
  then have "row_states_of s (iw_id w) = Some (iw_status w)"
    using assms(1) unfolding row_states_of_def by (intro map_of_is_SomeI) (simp_all add: comp_def)
  then show ?thesis using w by (auto simp: in_status_def row_ids_def job_rows_def)
qed

lemma pending_distinct:
  assumes "distinct (map iw_id (importRows s))"
  shows "distinct (map iw_id (pending_rows i n s))"
proof -
  have "distinct (map iw_id (filter (in_status i RW_PENDING) (importRows s)))"
    using assms by (rule distinct_map_filter)
  then have "distinct (map iw_id (sort_key iw_rowNumber (filter (in_status i RW_PENDING) (importRows s))))"
    by (simp add: distinct_map)
  then show ?thesis unfolding pending_rows_def take_map [symmetric] by (rule distinct_take)
qed

lemma advance_ids:
  assumes "advance s t"
  shows "map iw_id (importRows t) = map iw_id (importRows s) \<and> row_ids i t = row_ids i s"
proof -
  have "list_all2 advance_row xs ys \<Longrightarrow> map iw_id ys = map iw_id xs \<and>
      iw_id ` set (filter (\<lambda>w. iw_importJobId w = i) ys) = iw_id ` set (filter (\<lambda>w. iw_importJobId w = i) xs)" for xs ys
    by (induction rule: list_all2_induct) (simp_all add: advance_row_def)
  then show ?thesis using assms by (simp add: advance_def row_ids_def job_rows_def)
qed

lemma chunks_steps:
  assumes "distinct (map iw_id (importRows s))"
  shows "(row_step (row_ids i s))\<^sup>*\<^sup>* (row_states_of s) (row_states_of (snd (process_chunks fuel c rd ctx i n s)))"
  using assms
proof (induction fuel arbitrary: s)
  case 0
  then show ?case by (simp add: process_chunks.simps ret_def)
next
  case (Suc fuel)
  obtain x t where r: "forA (pending_rows i n s) (processImportRow c rd ctx) s = (x, t)"
    by (cases "forA (pending_rows i n s) (processImportRow c rd ctx) s")
  have one: "(row_step (row_ids i s))\<^sup>*\<^sup>* (row_states_of s) (row_states_of t)"
    using forA_steps [of "pending_rows i n s" "row_ids i s" s c rd ctx] pending_distinct [OF Suc.prems]
      pending_states [OF Suc.prems] r by simp
  have "advance s t"
    using advance.within_result [OF advance.within_forA r] processImportRow_advance by blast
  then have ids: "map iw_id (importRows t) = map iw_id (importRows s)" "row_ids i t = row_ids i s"
    using advance_ids by blast+
  have more: "(row_step (row_ids i s))\<^sup>*\<^sup>* (row_states_of t) (row_states_of (snd (process_chunks fuel c rd ctx i n t)))"
    using Suc.IH [of t] Suc.prems ids by metis
  show ?case
  proof (cases "pending_rows i n s = []")
    case True
    then show ?thesis by (simp add: process_chunks.simps bindA_gets ret_def)
  next
    case False
    then show ?thesis
      using r one more unfolding process_chunks.simps bindA_gets by (cases x) (simp_all add: bindA_def)
  qed
qed

definition rows_and_states :: "store \<Rightarrow> row_states \<times> id list" where
  "rows_and_states s = (row_states_of s, map iw_id (importRows s))"

lemma finalize_states: "row_states_of (snd (finalizeImportJob c i s)) = row_states_of s"
  by (simp add: finalizeImportJob_def update_job_def act_simps row_states_of_def)

text \<open>C24: Processing a job refines the state machine of its rows, in which a pending row of the job becomes
  PROCESSED, FAILED or DUPLICATE once: on every path and exception, with any strategy, it only makes such steps, so
  that a settled row and a row of another job never change their status.\<close>

theorem import_refines_row_machine:
  assumes "distinct (map iw_id (importRows s))"
  shows "(row_step (row_ids i s))\<^sup>*\<^sup>* (row_states_of s) (row_states_of (snd (processImportJob c rd cfg i s)))"
proof (cases "\<exists>job event. runnable i job event s")
  case True
  then obtain job event where run: "runnable i job event s" by blast
  have same: "row_states_of (start_job c i job s) = row_states_of s" "row_ids i (start_job c i job s) = row_ids i s"
    by (simp_all add: start_job_def row_states_of_def row_ids_def job_rows_def)
  let ?chunks = "process_chunks (Suc (count_status i RW_PENDING s)) c rd (job_context job event s) i
      (max 50 (cf_enqueueBatchSize cfg)) (start_job c i job s)"
  have "row_states_of (snd (processImportJob c rd cfg i s)) = row_states_of (snd ?chunks)"
    unfolding processImportJob_runs [OF run]
    by (cases ?chunks) (auto simp: bindA_def throw_def finalize_states split: sum.splits)
  then show ?thesis
    using chunks_steps [of "start_job c i job s" i] assms same by (simp add: start_job_def)
next
  case False
  have "snd (processImportJob c rd cfg i s) = s"
  proof (cases "find_job i s")
    case None
    then show ?thesis by (simp add: processImportJob_def bindA_reads findOneJob_def)
  next
    case (Some job)
    show ?thesis
    proof (cases "ij_status job \<in> {IM_PENDING, IM_PROCESSING}")
      case True
      then show ?thesis
        using False Some unfolding processImportJob_def bindA_reads bindA_gets findOneJob_def runnable_def active_types_def
        by (auto simp: throw_def split: sum.splits)
    next
      case False
      then have "ij_status job \<in> {IM_COMPLETED, IM_PARTIAL_FAILED, IM_FAILED, IM_CANCELLED}" by (cases "ij_status job") auto
      then show ?thesis using Some unfolding processImportJob_def bindA_reads findOneJob_def by (auto simp: ret_def)
    qed
  qed
  then show ?thesis by simp
qed

section \<open>The registrations\<close>

lemma keeps_reg_rows: "within (keeps (reg_inv c)) (update_row i f) s" "within (keeps (reg_inv c)) (update_job i g) s"
  by (auto simp: within_def keeps_def update_row_def update_job_def act_simps reg_inv_def)

lemma keeps_row:
  assumes "id_law c"
  shows "within (keeps (reg_inv c)) (processImportRow c rd ctx w) s"
proof -
  have h: "within (keeps (reg_inv c)) (handleExistingRegistration c w d r ctx) t" for d r t
    unfolding handleExistingRegistration_def markRowProcessed_def
    by (cases "cx_duplicateStrategy ctx")
      (simp_all, (intro keeps.within_bind keeps.within_ret keeps.within_throw keeps_update keeps_reg_rows)+)
  have cr: "within (keeps (reg_inv c)) (create_imported c d ctx) t" for d t
    unfolding create_imported_def createFromImport_def
    by (intro keeps.within_option keeps.within_throw keeps.within_bind_reads keeps_createNormalized assms)
  have t: "within (keeps (reg_inv c)) (try_row c rd w ctx) s"
    unfolding try_row_def markRowProcessed_def
    by (intro keeps.within_bind_reads keeps.within_option keeps.within_ret keeps.within_catch keeps.within_bind cr
        keeps_reg_rows keeps.within_if keeps.within_throw)
  have o: "within (keeps (reg_inv c)) (case x of Settled status \<Rightarrow> ret status
      | HandOver d existing \<Rightarrow> handleExistingRegistration c w d existing ctx) u" for x u
    by (cases x) (auto intro: keeps.within_ret h)
  show ?thesis
    unfolding processImportRow_def by (intro keeps.within_bind keeps.within_catch t keeps_reg_rows keeps.within_ret o)
qed

lemma keeps_chunks:
  assumes "id_law c"
  shows "within (keeps (reg_inv c)) (process_chunks fuel c rd ctx i n) s"
proof (induction fuel arbitrary: s)
  case 0
  then show ?case by (simp add: process_chunks.simps keeps.within_ret)
next
  case (Suc fuel)
  then show ?case
    unfolding process_chunks.simps
    by (intro keeps.within_bind_gets keeps.within_if keeps.within_ret keeps.within_bind keeps.within_forA keeps_row assms)
qed

text \<open>Processing an import job keeps the registrations distinct: with any file, strategy and outcome, no two
  registrations of an event share a phone, an email or an external id, and no two a public id or a row id.\<close>

theorem import_keeps_registrations_distinct:
  assumes "id_law c" and "reg_inv c s"
  shows "reg_inv c (snd (processImportJob c rd cfg i s))"
proof -
  have "within (keeps (reg_inv c)) (processImportJob c rd cfg i) s"
    unfolding processImportJob_def finalizeImportJob_def
    by (intro keeps.within_bind_reads keeps.within_if keeps.within_ret keeps.within_bind_gets keeps.within_throw
        keeps.within_bind keeps_chunks assms(1) keeps_reg_rows)
  then show ?thesis using assms(2) by (simp add: within_def keeps_def)
qed

section \<open>Samples\<close>

definition sample_readers :: readers where
  "sample_readers = \<lparr>rd_csv = (\<lambda>_ _. Inr []), rd_workbook = (\<lambda>_. Inr []), rd_column = nat_text,
     rd_letter_or_digit = (\<lambda>p. 48 \<le> p \<and> p \<le> 57 \<or> 97 \<le> p \<and> p \<le> 122 \<or> 0x600 \<le> p), rd_number = (\<lambda>_. None)\<rparr>"

definition sample_config :: import_config where
  "sample_config = \<lparr>cf_queueEnabled = True, cf_enqueueBatchSize = 100, cf_queueError = [], cf_accepts = (\<lambda>_. True)\<rparr>"

definition sample_job :: "string \<Rightarrow> import_job" where
  "sample_job strategy = \<lparr>ij_id = ''j1'', ij_eventId = ''e1'', ij_attendeeTypeId = Some ''t1'', ij_uploadedByUserId = None,
     ij_fileName = ''a.csv'', ij_fileMimeType = None, ij_fileSizeBytes = 10, ij_status = IM_PENDING, ij_totalRows = 1,
     ij_processedRows = 0, ij_successRows = 0, ij_failedRows = 0, ij_duplicateRows = 0,
     ij_options = JObj [(''duplicateStrategy'', JStr strategy),
       (''mapping'', JObj [(''fullName'', JStr ''Name''), (''phone'', JStr ''Phone''), (''email'', JStr ''Email''),
         (''companyName'', JStr ''Company''), (''jobTitle'', JStr ''Job''), (''externalId'', JStr ''No''), (''notes'', JStr ''Notes'')])],
     ij_summary = JNull, ij_startedAt = None, ij_completedAt = None, ij_createdAt = 0\<rparr>"

definition sample_row :: import_row where
  "sample_row = \<lparr>iw_id = ''w1'', iw_importJobId = ''j1'', iw_rowNumber = 2, iw_status = RW_PENDING,
     iw_rawData = [(''Name'', JStr ''Bob''), (''Phone'', JStr ''555'')], iw_normalizedData = JNull,
     iw_registrationId = None, iw_errorCode = None, iw_errorMessage = None, iw_processedAt = None\<rparr>"

definition sample_import :: "string \<Rightarrow> store" where
  "sample_import strategy = sample_regs\<lparr>registrations := [sample_registration\<lparr>rg_phone := Some ''555''\<rparr>],
     importJobs := [sample_job strategy], importRows := [sample_row]\<rparr>"

lemmas sample_import_defs = sample_import_def sample_job_def sample_row_def sample_regs_def sample_registration_def
  sample_event_def sample_type_def sample_config_def

lemma sample_runnable: "runnable ''j1'' (sample_job strategy) sample_event (sample_import strategy)"
  by (simp add: runnable_def find_job_def lookup_by_def active_types_def truthy_def sample_import_defs
      ensureEventCanBeModified_def find_event_def)

lemma sample_strategy: "cx_duplicateStrategy (job_context (sample_job ''FAIL'') sample_event (sample_import ''FAIL'')) = FAIL_ROW"
  "cx_duplicateStrategy (job_context (sample_job ''SKIP'') sample_event (sample_import ''SKIP'')) = SKIP"
  by code_simp+

definition sample_row_dto :: create_dto where
  "sample_row_dto = \<lparr>cd_eventId = ''e1'', cd_attendeeTypeId = ''t1'', cd_fullName = ''Bob'', cd_phone = Some ''555'',
     cd_email = None, cd_companyName = None, cd_jobTitle = None, cd_externalId = None, cd_customFields = Some [],
     cd_notes = None, cd_source = None\<rparr>"

lemma mapped_value: "getOptionalMappedValue c rd rawData (Some h) fallbackHeaders =
    (let value = Cell (raw_value rawData (Some h)) in if isBlank value then None else Some (trim (toDisplayString c value)))"
  by (simp add: getOptionalMappedValue_def header_or_def)

lemma sample_context: "cx_mapping (job_context (sample_job ''FAIL'') sample_event (sample_import ''FAIL'')) =
    \<lparr>im_fullName = Some ''Name'', im_phone = Some ''Phone'', im_email = Some ''Email'', im_companyName = Some ''Company'',
     im_jobTitle = Some ''Job'', im_externalId = Some ''No'', im_notes = Some ''Notes'', im_attendeeTypeCode = None,
     im_customFields = []\<rparr>"
  "cx_attendeeTypeId (job_context (sample_job ''FAIL'') sample_event (sample_import ''FAIL'')) = Some ''t1''"
  "cx_registrationFields (job_context (sample_job ''FAIL'') sample_event (sample_import ''FAIL'')) = []"
  "cx_eventId (job_context (sample_job ''FAIL'') sample_event (sample_import ''FAIL'')) = ''e1''"
  by code_simp+

lemma sample_cells: "raw_value (iw_rawData sample_row) (Some ''Name'') = JStr ''Bob''"
  "raw_value (iw_rawData sample_row) (Some ''Phone'') = JStr ''555''" "raw_value (iw_rawData sample_row) (Some ''Email'') = JNull"
  "raw_value (iw_rawData sample_row) (Some ''Company'') = JNull" "raw_value (iw_rawData sample_row) (Some ''Job'') = JNull"
  "raw_value (iw_rawData sample_row) (Some ''No'') = JNull" "raw_value (iw_rawData sample_row) (Some ''Notes'') = JNull"
  "trim ''Bob'' = ''Bob''" "trim ''555'' = ''555''" "blank ''Bob'' = False" "blank ''555'' = False"
  by code_simp+

lemma sample_normalized: "normalizeRow sample_env sample_readers (iw_rawData sample_row)
  (job_context (sample_job ''FAIL'') sample_event (sample_import ''FAIL'')) = Inr sample_row_dto"
  by (simp add: normalizeRow_def getMappedValue_def sample_context sample_cells mapped_value truthy_def sample_row_dto_def Let_def)

lemma sample_existing: "findExistingRegistration sample_row_dto (sample_import ''FAIL'') =
  Inr (Some (sample_registration\<lparr>rg_phone := Some ''555''\<rparr>))"
  by code_simp

lemma sample_pending: "pending_rows ''j1'' (max 50 (cf_enqueueBatchSize sample_config)) (sample_import ''FAIL'') = [sample_row]"
  by (simp add: pending_rows_def in_status_def sample_import_defs)


theorem fail_import_stuck_witness:
  "fst (processImportJob sample_env sample_readers sample_config ''j1'' (sample_import ''FAIL'')) =
    Inl (Conflict ''Duplicate registration for this event'')"
  using fail_import_stuck [OF sample_runnable sample_strategy(1) sample_pending sample_normalized sample_existing]
  by (simp add: Let_def case_prod_beta)

theorem import_refines_row_machine_witness:
  "(row_step {''w1''})\<^sup>*\<^sup>* (row_states_of (sample_import ''SKIP''))
    (row_states_of (snd (processImportJob sample_env sample_readers sample_config ''j1'' (sample_import ''SKIP''))))"
  using import_refines_row_machine [of "sample_import ''SKIP''" "''j1''" sample_env sample_readers sample_config]
  by (simp add: row_ids_def job_rows_def sample_import_def sample_row_def)

theorem import_keeps_registrations_distinct_witness:
  "reg_inv sample_env (snd (processImportJob sample_env sample_readers sample_config ''j1''
    ((sample_import ''SKIP'')\<lparr>registrations := []\<rparr>)))"
  by (rule import_keeps_registrations_distinct [OF sample_laws(1)]) (simp add: reg_inv_def reg_rows_def)

end

