(* ===== verification/ImportFileProps.thy ===== *)
theory ImportFileProps
  imports ImportRuns
begin

text \<open>
  The properties of the import of a file up to its job: the headers, the mapping that is suggested and
  stored, the duplicates that are reported, and the job with its rows.
\<close>

section \<open>The job and its rows\<close>

lemma concat_chunks: "0 < n \<Longrightarrow> concat (chunks_of n xs) = xs"
proof (induction n xs rule: chunks_of.induct)
  case (1 n xs)
  then show ?case by (cases "xs = []") (simp_all add: chunks_of.simps [of n xs] chunks_of.simps [of n "[]"])
qed

definition fresh_row :: "env \<Rightarrow> id \<Rightarrow> parsed_row \<Rightarrow> import_row \<Rightarrow> bool" where
  "fresh_row c jobId r w = (\<exists>i. w = job_row c jobId r i)"

definition adds_rows :: "env \<Rightarrow> id \<Rightarrow> parsed_row list \<Rightarrow> store \<Rightarrow> store \<Rightarrow> bool" where
  "adds_rows c jobId rs s t = (importJobs t = importJobs s \<and>
     (\<exists>ws. importRows t = importRows s @ ws \<and> list_all2 (fresh_row c jobId) rs ws))"

lemma adds_rows_trans: "adds_rows c i rs s t \<Longrightarrow> adds_rows c i qs t u \<Longrightarrow> adds_rows c i (rs @ qs) s u"
  by (fastforce simp: adds_rows_def intro: list_all2_appendI)

lemma add_chunk:
  "\<exists>us t. forA chunk (insert_row c jobId) s
     = (Inr us, t) \<and> adds_rows c jobId chunk s t"
proof (induction chunk arbitrary: s)
  case Nil
  then show ?case by (simp add: ret_def adds_rows_def)
next
  case (Cons r rs)
  let ?t = "s\<lparr>next_id := Suc (next_id s), importRows := append_row (job_row c jobId r (cuid c (next_id s))) (importRows s)\<rparr>"
  have run: "insert_row c jobId r s = (Inr (), ?t)" by (simp add: insert_row_def bindA_def new_id_def modify_def)
  have one: "adds_rows c jobId [r] s ?t" by (auto simp: adds_rows_def append_row_def fresh_row_def)
  obtain us u where "forA rs (insert_row c jobId) ?t
      = (Inr us, u)" and more: "adds_rows c jobId rs ?t u"
    using Cons [of ?t] by blast
  then show ?case using adds_rows_trans [OF one more] by (simp add: bindA_def run ret_def)
qed

lemma insert_chunks_adds:
  "\<exists>rs. adds_rows c jobId rs s (snd (insert_chunks c cfg jobId k chunks s)) \<and>
    (fst (insert_chunks c cfg jobId k chunks s) = Inr () \<longrightarrow> rs = concat chunks)"
proof (induction chunks arbitrary: k s)
  case Nil
  then show ?case by (auto simp: ret_def adds_rows_def)
next
  case (Cons chunk chunks)
  obtain us t where t: "forA chunk (insert_row c jobId) s
      = (Inr us, t)" "adds_rows c jobId chunk s t"
    using add_chunk by blast
  obtain rs where rs: "adds_rows c jobId rs t (snd (insert_chunks c cfg jobId (Suc k) chunks t))"
    "fst (insert_chunks c cfg jobId (Suc k) chunks t) = Inr () \<longrightarrow> rs = concat chunks"
    using Cons by blast
  show ?case
  proof (cases "cf_accepts cfg k")
    case True
    then have "insert_chunks c cfg jobId k (chunk # chunks) s = insert_chunks c cfg jobId (Suc k) chunks t"
      using t(1) by (simp add: bindA_def)
    then show ?thesis using adds_rows_trans [OF t(2) rs(1)] rs(2) by auto
  next
    case False
    then show ?thesis by (intro exI [of _ "[]"]) (simp add: throw_def adds_rows_def)
  qed
qed

definition all_or_nothing :: "env \<Rightarrow> import_command \<Rightarrow> parsed_file option \<Rightarrow> store \<Rightarrow> import_job res \<times> store \<Rightarrow> bool" where
  "all_or_nothing c command parsed s out = (case out of
     (Inl e, t) \<Rightarrow> importJobs t = importJobs s \<and> importRows t = importRows s
   | (Inr job, t) \<Rightarrow> importJobs t = importJobs s @ [job] \<and> ij_status job = IM_PENDING \<and>
       ij_eventId job = ic_eventId command \<and>
       (\<exists>p ws. parsed = Some p \<and> importRows t = importRows s @ ws \<and> ij_totalRows job = length ws \<and>
         list_all2 (fresh_row c (ij_id job)) (pf_rows p) ws))"

lemma createJob_all_or_nothing:
  assumes "list_all (\<lambda>w. iw_importJobId w \<noteq> cuid c (next_id s)) (importRows s)"
    and "list_all (\<lambda>j. ij_id j \<noteq> cuid c (next_id s)) (importJobs s)"
  shows "all_or_nothing c command (Some parsed) s (createJob c cfg command mapping parsed s)"
proof -
  let ?i = "cuid c (next_id s)" and ?job = "new_job c command mapping parsed (cuid c (next_id s))"
  let ?s = "s\<lparr>next_id := Suc (next_id s), importJobs := append_row ?job (importJobs s)\<rparr>"
  let ?run = "insert_chunks c cfg ?i 0 (chunks_of 500 (pf_rows parsed)) ?s"
  obtain x t where run: "?run = (x, t)" by (cases ?run)
  obtain rs where rs: "adds_rows c ?i rs ?s t" "x = Inr () \<longrightarrow> rs = pf_rows parsed"
    using insert_chunks_adds [of c ?i ?s cfg 0 "chunks_of 500 (pf_rows parsed)"] run by (auto simp: concat_chunks)
  then obtain ws where ws: "importRows t = importRows s @ ws" "list_all2 (fresh_row c ?i) rs ws"
      "importJobs t = importJobs s @ [?job]"
    by (auto simp: adds_rows_def append_row_def)
  have eq: "createJob c cfg command mapping parsed s = (case x of
      Inl e \<Rightarrow> (Inl e, t\<lparr>importRows := delete_rows (\<lambda>r. iw_importJobId r = ?i) (importRows t),
        importJobs := delete_rows (\<lambda>j. ij_id j = ?i) (importJobs t)\<rparr>)
    | Inr _ \<Rightarrow> (Inr ?job, t))"
    using run by (simp add: createJob_def bindA_def new_id_def modify_def catch_def throw_def ret_def Let_def split: sum.splits)
  have "list_all (\<lambda>w. iw_importJobId w = ?i) ws"
    using ws(2) by (auto simp: list_all2_conv_all_nth list_all_length fresh_row_def job_row_def)
  then have gone: "delete_rows (\<lambda>r. iw_importJobId r = ?i) (importRows s @ ws) = importRows s"
      "delete_rows (\<lambda>j. ij_id j = ?i) (importJobs s @ [?job]) = importJobs s"
    using assms by (simp_all add: delete_rows_def list_all_iff filter_id_conv new_job_def)
  have job: "ij_id ?job = ?i" "ij_status ?job = IM_PENDING" "ij_eventId ?job = ic_eventId command"
      "ij_totalRows ?job = length (pf_rows parsed)" by (simp_all add: new_job_def)
  show ?thesis
  proof (cases x)
    case (Inl e)
    then show ?thesis by (simp add: eq all_or_nothing_def ws gone)
  next
    case (Inr u)
    then show ?thesis using rs(2) ws job list_all2_lengthD [OF ws(2)] by (simp add: eq all_or_nothing_def)
  qed
qed

text \<open>An import is stored completely or not at all: when the request is answered with a job, the file was
  readable, one job row was added with the number of rows of the file, and behind it one pending row for every data
  row, in order, with its number and cells; and when it throws, at a check, in the reader or because the database
  refused any of the chunks, the job and all rows are gone again.\<close>

theorem import_job_stored_completely:
  assumes "list_all (\<lambda>w. iw_importJobId w \<noteq> cuid c (next_id s)) (importRows s)"
    and "list_all (\<lambda>j. ij_id j \<noteq> cuid c (next_id s)) (importJobs s)"
  shows "case createImportJobFromFile c rd cfg command s of
      (Inl e, t) \<Rightarrow> importJobs t = importJobs s \<and> importRows t = importRows s
    | (Inr job, t) \<Rightarrow> importJobs t = importJobs s @ [job] \<and> ij_status job = IM_PENDING \<and>
        ij_eventId job = ic_eventId command \<and>
        (\<exists>parsed ws. parseFile c rd (ic_file command) (ic_parser command) = Inr parsed \<and>
          importRows t = importRows s @ ws \<and> ij_totalRows job = length ws \<and> ws \<noteq> [] \<and>
          list_all2 (\<lambda>r w. iw_importJobId w = ij_id job \<and> iw_status w = RW_PENDING \<and> iw_rowNumber w = pr_rowNumber r \<and>
            iw_rawData w = map (\<lambda>(k, v). (k, cell_json c v)) (pr_data r)) (pf_rows parsed) ws)"
proof -
  have created: "all_or_nothing c command (Some parsed) s (createJob c cfg command mapping parsed s)" for mapping parsed
    by (rule createJob_all_or_nothing [OF assms])
  have rows: "list_all2 (fresh_row c i) rs ws \<Longrightarrow> list_all2 (\<lambda>r w. iw_importJobId w = i \<and> iw_status w = RW_PENDING \<and>
      iw_rowNumber w = pr_rowNumber r \<and> iw_rawData w = map (\<lambda>(k, v). (k, cell_json c v)) (pr_data r)) rs ws" for i rs ws
    by (erule list_all2_mono) (auto simp: fresh_row_def job_row_def)
  show ?thesis
  proof (cases "\<exists>e. createImportJobFromFile c rd cfg command s = (Inl e, s)")
    case True
    then show ?thesis by auto
  next
    case False
    then obtain parsed mapping where p: "parseFile c rd (ic_file command) (ic_parser command) = Inr parsed" "pf_rows parsed \<noteq> []"
      "createImportJobFromFile c rd cfg command s = createJob c cfg command mapping parsed s"
      unfolding createImportJobFromFile_def bindA_reads bindA_gets Let_def
      by (auto simp: throw_def split: sum.splits if_splits)
    show ?thesis
      using created [of parsed mapping] p rows unfolding all_or_nothing_def
      by (auto split: prod.splits sum.splits dest: list_all2_lengthD)
  qed
qed

section \<open>Mappings\<close>

lemma put_key_keys: "map fst (put_key k v es) = (if k \<in> fst ` set es then map fst es else map fst es @ [k])"
  by (induction k v es rule: put_key.induct) auto

lemma put_key_values: "set (map snd (put_key k v es)) \<subseteq> insert v (set (map snd es))"
  by (induction k v es rule: put_key.induct) auto

lemma put_key_set: "set (put_key k v es) \<subseteq> insert (k, v) (set es)"
  by (induction k v es rule: put_key.induct) auto

lemma distinct_put_key: "distinct (map fst es) \<Longrightarrow> distinct (map fst (put_key k v es))"
  by (auto simp: put_key_keys)

lemma distinct_put_value:
  "distinct (map snd es) \<Longrightarrow> v \<notin> set (map snd es) \<Longrightarrow> distinct (map snd (put_key k v es))"
proof (induction k v es rule: put_key.induct)
  case (2 k v k' v' fs)
  then show ?case using put_key_values [of k v fs] by auto
qed simp

lemma put_key_new: "k \<notin> fst ` set es \<Longrightarrow> put_key k v es = es @ [(k, v)]"
  by (induction k v es rule: put_key.induct) auto

lemma from_entries_snoc: "from_entries (es @ [(k, v)]) = put_key k v (from_entries es)"
  by (simp add: from_entries_def)

lemma from_entries_Nil: "from_entries [] = []"
  by (simp add: from_entries_def)

lemma from_entries_keys: "distinct (map fst (from_entries es)) \<and> set (from_entries es) \<subseteq> set es"
proof (induction es rule: rev_induct)
  case Nil
  then show ?case by (simp add: from_entries_Nil)
next
  case (snoc e es)
  then show ?case
    using put_key_set [of "fst e" "snd e" "from_entries es"] distinct_put_key [of "from_entries es"]
    by (cases e) (auto simp: from_entries_snoc)
qed

lemma from_entries_values: "distinct (map snd es) \<Longrightarrow> distinct (map snd (from_entries es))"
proof (induction es rule: rev_induct)
  case Nil
  then show ?case by (simp add: from_entries_Nil)
next
  case (snoc e es)
  have "snd e \<notin> set (map snd (from_entries es))" using snoc.prems from_entries_keys [of es] by fastforce
  then show ?case using snoc distinct_put_value [of "from_entries es"] by (cases e) (simp add: from_entries_snoc)
qed

lemma from_entries_id: "distinct (map fst es) \<Longrightarrow> from_entries es = es"
proof (induction es rule: rev_induct)
  case Nil
  then show ?case by (simp add: from_entries_Nil)
next
  case (snoc e es)
  then show ?case by (cases e) (auto simp: from_entries_snoc put_key_new)
qed

text \<open>A mapping in normal form: trimmed headers that are not blank, and keys like that without repetitions.\<close>

definition normal_text :: "string \<Rightarrow> bool" where
  "normal_text h = (h \<noteq> [] \<and> trim h = h)"

definition normal_mapping :: "import_mapping \<Rightarrow> bool" where
  "normal_mapping m = (list_all (\<lambda>v. case v of None \<Rightarrow> True | Some h \<Rightarrow> normal_text h)
      [im_fullName m, im_phone m, im_email m, im_companyName m, im_jobTitle m, im_externalId m, im_notes m,
       im_attendeeTypeCode m] \<and>
     list_all (\<lambda>(k, h). normal_text k \<and> normal_text h) (im_customFields m) \<and> distinct (map fst (im_customFields m)))"

lemma normalizeValue_normal: "normalizeValue v = Some h \<Longrightarrow> normal_text h"
  by (auto simp: normalizeValue_def normal_text_def blank_def split: option.splits json.splits if_splits)

lemma normalizeValue_id: "normal_text h \<Longrightarrow> normalizeValue (Some (JStr h)) = Some h"
  by (simp add: normalizeValue_def normal_text_def blank_def)

lemma custom_entry_normal: "custom_entry e = Some (k, h) \<Longrightarrow> normal_text k \<and> normal_text h"
  by (auto simp: custom_entry_def normal_text_def dest!: normalizeValue_normal split: prod.splits option.splits if_splits)

lemma normalizeMapping_normal: "normal_mapping (normalizeMapping fs)"
proof -
  have v: "case normalizeValue v of None \<Rightarrow> True | Some h \<Rightarrow> normal_text h" for v
    using normalizeValue_normal by (auto split: option.splits)
  have "set (from_entries (List.map_filter custom_entry es)) \<subseteq> {(k, h). normal_text k \<and> normal_text h}" for es
  proof -
    have "set (List.map_filter custom_entry es) \<subseteq> {(k, h). normal_text k \<and> normal_text h}"
      using custom_entry_normal by (force simp: List.map_filter_def)
    then show ?thesis using from_entries_keys by blast
  qed
  then show ?thesis
    using from_entries_keys by (fastforce simp: normal_mapping_def normalizeMapping_def Let_def v list_all_iff)
qed

lemma map_filter_all: "list_all (\<lambda>e. f (g e) = Some e) es \<Longrightarrow> List.map_filter f (map g es) = es"
  by (induction es) (simp_all add: List.map_filter_def)

lemma map_of_text_member: "map_of (text_member k v) j = (if j = k then map_option JStr v else None)"
  by (simp add: text_member_def split: option.splits)

lemma mapping_fields_get:
  "obj_get (mapping_fields m) ''fullName'' = map_option JStr (im_fullName m)"
  "obj_get (mapping_fields m) ''phone'' = map_option JStr (im_phone m)"
  "obj_get (mapping_fields m) ''email'' = map_option JStr (im_email m)"
  "obj_get (mapping_fields m) ''companyName'' = map_option JStr (im_companyName m)"
  "obj_get (mapping_fields m) ''jobTitle'' = map_option JStr (im_jobTitle m)"
  "obj_get (mapping_fields m) ''externalId'' = map_option JStr (im_externalId m)"
  "obj_get (mapping_fields m) ''notes'' = map_option JStr (im_notes m)"
  "obj_get (mapping_fields m) ''attendeeTypeCode'' = map_option JStr (im_attendeeTypeCode m)"
  "obj_get (mapping_fields m) ''customFields'' = Some (JObj (map (\<lambda>(k, v). (k, JStr v)) (im_customFields m)))"
  by (simp_all add: mapping_fields_def obj_get_def map_add_def map_of_text_member map_option_case [symmetric] cong: option.case_cong)

lemma custom_entry_id: "normal_text k \<Longrightarrow> normal_text h \<Longrightarrow> custom_entry (k, JStr h) = Some (k, h)"
  by (simp add: custom_entry_def normalizeValue_id) (simp add: normal_text_def)

lemma normal_mapping_fixed:
  assumes "normal_mapping m"
  shows "normalizeMapping (mapping_fields m) = m"
proof -
  have v: "normalizeValue (map_option JStr x) = x" if "case x of None \<Rightarrow> True | Some h \<Rightarrow> normal_text h" for x
    using that normalizeValue_id by (cases x) (simp_all add: normalizeValue_def)
  have "list_all (\<lambda>e. custom_entry ((\<lambda>(k, v). (k, JStr v)) e) = Some e) (im_customFields m)"
    using assms by (auto simp: normal_mapping_def list_all_iff custom_entry_id)
  then have c: "from_entries (List.map_filter custom_entry (map (\<lambda>(k, v). (k, JStr v)) (im_customFields m))) = im_customFields m"
    using assms by (simp add: map_filter_all from_entries_id normal_mapping_def)
  show ?thesis
    using assms v c by (simp add: normal_mapping_def normalizeMapping_def mapping_fields_get Let_def toRecord_def)
qed

lemma source_name_roundtrip: "map_of source_names (source_name x) = Some x"
  by (cases x) (simp_all add: source_names_def source_name_def)

lemma strategy_roundtrip: "parseDuplicateStrategy (Some (JStr (strategy_name d))) = d"
  by (cases d) (simp_all add: parseDuplicateStrategy_def strategy_name_def)

text \<open>C25: What a job is processed with is what was requested: the options are written to a JSON column when the
  job is created and read back when it is processed, and the mapping that was checked, the strategy, the source,
  the prefix and whether QR codes are generated come back unchanged, for every mapping and request.\<close>

theorem job_options_roundtrip:
  "let ctx = import_context_of (new_job c command (normalizeMapping given_mapping) parsed i) event registrationFields types in
    cx_mapping ctx = normalizeMapping given_mapping \<and> cx_duplicateStrategy ctx = ic_duplicateStrategy command \<and>
    cx_source ctx = Some (ic_source command) \<and> cx_externalIdPrefix ctx = ic_externalIdPrefix command \<and>
    cx_generateQr ctx = ic_generateQr command \<and> cx_attendeeTypeId ctx = ic_attendeeTypeId command"
proof -
  have "str_of (Some (text_or_null v)) = v" for v by (cases v) (simp_all add: text_or_null_def str_of_def)
  then show ?thesis
    using normal_mapping_fixed [OF normalizeMapping_normal, of given_mapping]
    by (simp add: Let_def import_context_of_def new_job_def job_options_def toRecord_def obj_get_def strategy_roundtrip
        source_name_roundtrip str_of_def)
qed

section \<open>Headers\<close>

lemma header_key_inj:
  assumes "header_key a m = header_key b n" and "\<not> numbered_key a" and "\<not> numbered_key b"
  shows "a = b \<and> (m = 1 \<longleftrightarrow> n = 1) \<and> (m \<noteq> 1 \<longrightarrow> m = n)"
proof -
  have split: "takeWhile is_digit (rev (a @ ''__'' @ nat_text n)) = rev (nat_text n) \<and>
      dropWhile is_digit (rev (a @ ''__'' @ nat_text n)) = ''__'' @ rev a" for a n
  proof -
    have d: "is_digit x" if "x \<in> set (rev (nat_text n))" for x using nat_text_digits [of n] that by (simp add: list_all_iff)
    have u: "\<not> is_digit CHR ''_''" by (simp add: is_digit_def)
    have "takeWhile is_digit (rev (nat_text n) @ ''__'' @ rev a) = rev (nat_text n)"
      "dropWhile is_digit (rev (nat_text n) @ ''__'' @ rev a) = ''__'' @ rev a"
      using d u by (subst takeWhile_append2 dropWhile_append2, blast, simp)+
    then show ?thesis by simp
  qed
  have num: "numbered_key (a @ ''__'' @ nat_text n)" for a n
    using split [of a n] blank_nat_text [of n] by (auto simp: numbered_key_def Let_def starts_with_def blank_def trim_def)
  show ?thesis
  proof (cases "m = 1 \<or> n = 1")
    case True
    then show ?thesis using assms num [of a m] num [of b n] by (auto simp: header_key_def split: if_splits)
  next
    case False
    then have "a @ ''__'' @ nat_text m = b @ ''__'' @ nat_text n" using assms(1) by (simp add: header_key_def)
    then have "rev (nat_text m) = rev (nat_text n)" "''__'' @ rev a = ''__'' @ rev b"
      using split [of a m] split [of b n] by metis+
    moreover from this(1) have "m = n" using nat_text_inj by (simp add: inj_def)
    ultimately show ?thesis by simp
  qed
qed

lemma build_headers_keys:
  assumes "list_all (\<lambda>l. \<not> numbered_key l) labels"
  shows "distinct (map ih_key (build_headers rd labels i used)) \<and>
    (\<forall>k \<in> set (map ih_key (build_headers rd labels i used)). \<exists>l n. l \<in> set labels \<and> used l < n \<and> k = header_key l n)"
  using assms
proof (induction labels arbitrary: i used)
  case Nil
  then show ?case by simp
next
  case (Cons l ls)
  let ?used = "used(l := used l + 1)"
  have "list_all (\<lambda>l. \<not> numbered_key l) ls" using Cons.prems by simp
  note IH = Cons.IH [OF this, of "Suc i" ?used]
  have ih: "distinct (map ih_key (build_headers rd ls (Suc i) ?used))"
    "\<forall>k \<in> set (map ih_key (build_headers rd ls (Suc i) ?used)). \<exists>a n. a \<in> set ls \<and> ?used a < n \<and> k = header_key a n"
    by (rule IH [THEN conjunct1], rule IH [THEN conjunct2])
  have "header_key l (used l + 1) \<notin> set (map ih_key (build_headers rd ls (Suc i) ?used))"
  proof
    assume "header_key l (used l + 1) \<in> set (map ih_key (build_headers rd ls (Suc i) ?used))"
    then obtain a n where a: "a \<in> set ls" "?used a < n" "header_key l (used l + 1) = header_key a n" using ih(2) by blast
    then have "\<not> numbered_key a" "\<not> numbered_key l" using Cons.prems by (auto simp: list_all_iff)
    then have "l = a" "used l + 1 = 1 \<longleftrightarrow> n = 1" "used l + 1 \<noteq> 1 \<longrightarrow> used l + 1 = n" using header_key_inj [OF a(3)] by auto
    then show False using a(2) by (cases "used l = 0") auto
  qed
  moreover have "\<exists>a n. a \<in> set (l # ls) \<and> used a < n \<and> k = header_key a n"
    if "k \<in> set (map ih_key (build_headers rd ls (Suc i) ?used))" for k
  proof -
    obtain a n where "a \<in> set ls" "?used a < n" "k = header_key a n" using ih(2) \<open>k \<in> _\<close> by blast
    then show ?thesis by (auto split: if_splits intro!: exI [of _ a] exI [of _ n])
  qed
  ultimately show ?case using ih(1) by (auto simp: Let_def)
qed

text \<open>The columns of a file get distinct keys, however often a label is repeated, and every row has one value
  for every column, provided no label itself ends in two underscores and a number; with such a label two columns can
  get the same key and the earlier one's values are lost.\<close>

theorem header_keys_distinct:
  assumes "list_all (\<lambda>l. \<not> numbered_key l) (map (header_label c rd values) [0..<columnCount])"
  shows "distinct (map ih_key (buildHeaders c rd values columnCount)) \<and>
    length (row_data (buildHeaders c rd values columnCount) row) = columnCount"
proof -
  have d: "distinct (map ih_key (buildHeaders c rd values columnCount))"
    using build_headers_keys [OF assms] by (simp add: buildHeaders_def)
  have len: "length (build_headers rd labels i used) = length labels" for labels i used
    by (induction labels arbitrary: i used) (simp_all add: Let_def)
  have "length (fold (\<lambda>h. put_key (ih_key h) (f h)) hs acc) = length acc + length hs"
    if "distinct (map ih_key hs)" "set (map ih_key hs) \<inter> fst ` set acc = {}" for hs acc and f :: "import_header \<Rightarrow> cell"
    using that by (induction hs arbitrary: acc) (auto simp: put_key_new)
  then show ?thesis using d len by (simp add: row_data_def buildHeaders_def)
qed

section \<open>Repeated identifiers\<close>

definition same_identifier :: "string \<Rightarrow> string \<Rightarrow> bool" where
  "same_identifier v u = (v \<noteq> [] \<and> u \<noteq> [] \<and> to_lower (trim v) = to_lower (trim u))"

definition repeated_in :: "(string \<times> nat) list \<Rightarrow> nat set" where
  "repeated_in ps = {n. \<exists>v u m. (v, n) \<in> set ps \<and> (u, m) \<in> set ps \<and> m \<noteq> n \<and> same_identifier v u}"

definition firsts :: "(string \<times> nat) list \<Rightarrow> (string \<Rightarrow> nat option) \<Rightarrow> bool" where
  "firsts ps seen = ((\<forall>v n. (v, n) \<in> set ps \<longrightarrow> v \<noteq> [] \<longrightarrow> seen (to_lower (trim v)) \<noteq> None) \<and>
     (\<forall>x m. seen x = Some m \<longrightarrow> (\<exists>v. (v, m) \<in> set ps \<and> v \<noteq> [] \<and> to_lower (trim v) = x)))"

lemma firstsD:
  "firsts ps seen \<Longrightarrow> seen x = None \<Longrightarrow> (v, n) \<in> set ps \<Longrightarrow> v \<noteq> [] \<Longrightarrow> to_lower (trim v) \<noteq> x"
  "firsts ps seen \<Longrightarrow> seen x = Some m \<Longrightarrow> \<exists>v. (v, m) \<in> set ps \<and> v \<noteq> [] \<and> to_lower (trim v) = x"
  unfolding firsts_def by blast+

lemma firsts_snoc:
  assumes "firsts ps seen"
  shows "v = [] \<Longrightarrow> firsts (ps @ [(v, n)]) seen"
    and "seen (to_lower (trim v)) = Some m \<Longrightarrow> firsts (ps @ [(v, n)]) seen"
    and "v \<noteq> [] \<Longrightarrow> firsts (ps @ [(v, n)]) (seen(to_lower (trim v) \<mapsto> n))"
  using assms unfolding firsts_def by (simp_all, blast+)

lemma repeated_inI:
  "(v, n) \<in> set ps \<Longrightarrow> (u, m) \<in> set ps \<Longrightarrow> m \<noteq> n \<Longrightarrow> same_identifier v u \<Longrightarrow> n \<in> repeated_in ps"
  by (auto simp: repeated_in_def)

lemma repeated_blank: "repeated_in (ps @ [([], n)]) = repeated_in ps"
  by (auto simp: repeated_in_def same_identifier_def)

lemma repeated_new:
  assumes "firsts ps seen" and "seen (to_lower (trim v)) = None"
  shows "repeated_in (ps @ [(v, n)]) = repeated_in ps"
  using firstsD(1) [OF assms] by (fastforce simp: repeated_in_def same_identifier_def)

lemma repeated_again:
  assumes "firsts ps seen" and "seen (to_lower (trim v)) = Some m" and "v \<noteq> []" and "n \<notin> snd ` set ps"
  shows "repeated_in (ps @ [(v, n)]) = insert n (insert m (repeated_in ps))"
proof -
  obtain f where f: "(f, m) \<in> set ps" "f \<noteq> []" "to_lower (trim f) = to_lower (trim v)" using firstsD(2) [OF assms(1,2)] by blast
  have ne: "k \<noteq> n" if "(u, k) \<in> set ps" for u k using assms(4) that by (force simp: image_iff)
  have new: "n \<in> repeated_in (ps @ [(v, n)])" "m \<in> repeated_in (ps @ [(v, n)])"
    using f assms(3) ne [OF f(1)] repeated_inI [of v n "ps @ [(v, n)]" f m] repeated_inI [of f m "ps @ [(v, n)]" v n]
    by (auto simp: same_identifier_def)
  have old: "k = m \<or> k \<in> repeated_in ps" if "(u, k) \<in> set ps" "same_identifier u v" for u k
    using f that repeated_inI [of u k ps f m] by (auto simp: same_identifier_def)
  have sym: "same_identifier a b = same_identifier b a" for a b by (auto simp: same_identifier_def)
  have "k \<in> insert n (insert m (repeated_in ps))" if k: "k \<in> repeated_in (ps @ [(v, n)])" for k
  proof -
    obtain a b j where ab: "(a, k) \<in> set (ps @ [(v, n)])" "(b, j) \<in> set (ps @ [(v, n)])" "j \<noteq> k" "same_identifier a b"
      using k by (auto simp: repeated_in_def)
    show ?thesis
    proof (cases "k = n \<or> j = n \<and> b = v \<and> (b, j) \<notin> set ps")
      case True
      then show ?thesis using old [of a k] ab by auto
    next
      case False
      then have "(a, k) \<in> set ps" "(b, j) \<in> set ps" using ab by auto
      then show ?thesis using ab by (auto simp: repeated_in_def)
    qed
  qed
  moreover have "repeated_in ps \<subseteq> repeated_in (ps @ [(v, n)])" by (auto simp: repeated_in_def)
  ultimately show ?thesis using new by blast
qed

lemma repeated_rows_found:
  "distinct (map snd (ps @ qs)) \<Longrightarrow> firsts ps seen \<Longrightarrow> set dup = repeated_in ps \<Longrightarrow>
   set (repeated_rows qs seen dup) = repeated_in (ps @ qs)"
proof (induction qs seen dup arbitrary: ps rule: repeated_rows.induct)
  case (1 seen dup)
  then show ?case by simp
next
  case (2 v n rest seen dup)
  have d: "distinct (map snd ((ps @ [(v, n)]) @ rest))" and n: "n \<notin> snd ` set ps" using "2.prems"(1) by auto
  consider "v = []" | m where "v \<noteq> []" "seen (to_lower (trim v)) = Some m" | "v \<noteq> []" "seen (to_lower (trim v)) = None"
    by (cases "v = []"; cases "seen (to_lower (trim v))") auto
  then show ?case
  proof cases
    case 1
    have "set dup = repeated_in (ps @ [(v, n)])" using "2.prems"(3) repeated_blank 1 by simp
    from "2.IH"(1) [OF 1 d firsts_snoc(1) [OF "2.prems"(2) 1] this] show ?thesis using 1 by simp
  next
    case (2 m)
    have "set (List.insert n (List.insert m dup)) = repeated_in (ps @ [(v, n)])"
      using "2.prems"(3) repeated_again [OF "2.prems"(2) 2(2,1) n] by simp
    from "2.IH"(3) [OF 2(1) refl 2(2) d firsts_snoc(2) [OF "2.prems"(2) 2(2)] this] show ?thesis using 2 by (simp add: Let_def)
  next
    case 3
    have "set dup = repeated_in (ps @ [(v, n)])" using "2.prems"(3) repeated_new [OF "2.prems"(2) 3(2)] by simp
    from "2.IH"(2) [OF 3(1) refl 3(2) d firsts_snoc(3) [OF "2.prems"(2) 3(1)] this] show ?thesis using 3 by (simp add: Let_def del: fun_upd_apply)
  qed
qed

text \<open>The rows that the preview reports for an identifying column are exactly those whose value, up to case
  and surrounding space, occurs in another row as well; the scan over the rows with its table of first occurrences
  computes that relation.\<close>

theorem repeated_identifiers_reported:
  assumes "distinct (map pr_rowNumber rows)"
  shows "set (repeated_rows (column_values c h rows) (\<lambda>_. None) []) =
    {pr_rowNumber r | r q. r \<in> set rows \<and> q \<in> set rows \<and> pr_rowNumber q \<noteq> pr_rowNumber r \<and>
       same_identifier (toDisplayString c (cell_of (pr_data r) h)) (toDisplayString c (cell_of (pr_data q) h))}"
proof -
  have "firsts [] (\<lambda>_. None)" by (simp add: firsts_def)
  moreover have "set [] = repeated_in []" by (simp add: repeated_in_def)
  moreover have "distinct (map snd ([] @ column_values c h rows))" using assms by (simp add: column_values_def comp_def)
  ultimately have "set (repeated_rows (column_values c h rows) (\<lambda>_. None) []) = repeated_in (column_values c h rows)"
    using repeated_rows_found [of "[]" "column_values c h rows"] by simp
  then show ?thesis by (auto simp: repeated_in_def column_values_def)
qed

section \<open>The suggested mapping\<close>

definition picked :: "string option \<Rightarrow> string list" where
  "picked v = (case v of None \<Rightarrow> [] | Some h \<Rightarrow> [h])"

lemma picked_simps [simp]: "picked None = []" "picked (Some h) = [h]"
  by (simp_all add: picked_def)

definition of_columns :: "import_header list \<Rightarrow> string list \<Rightarrow> bool" where
  "of_columns headers hs = (distinct hs \<and> set hs \<subseteq> ih_key ` set headers)"

lemma findHeader_column:
  "findHeaderFromHeaders rd headers aliases used = Some h \<Longrightarrow> h \<in> ih_key ` set headers \<and> h \<notin> set used"
  by (auto simp: findHeaderFromHeaders_def Let_def split: option.splits dest!: find_row_Some)

lemma pick_column:
  assumes "pick rd headers aliases used = (v, used')" and "of_columns headers used"
    and "list_all (\<lambda>h. normal_text (ih_key h)) headers"
  shows "used' = used @ picked v \<and> of_columns headers used'"
proof -
  have h: "h \<noteq> []" if "findHeaderFromHeaders rd headers aliases used = Some h" for h
    using findHeader_column [OF that] assms(3) by (auto simp: list_all_iff normal_text_def)
  show ?thesis
  proof (cases "findHeaderFromHeaders rd headers aliases used")
    case None
    then show ?thesis using assms(1,2) by (simp add: pick_def)
  next
    case (Some h')
    then have "v = Some h' \<and> used' = used @ [h']" using assms(1) h by (simp add: pick_def)
    then show ?thesis using assms(2) findHeader_column [OF Some] by (auto simp: of_columns_def)
  qed
qed

lemma sequential_column:
  "sequential_header c rd rows used hs best b = Some h \<Longrightarrow> b = Some h \<or> h \<in> ih_key ` set hs \<and> h \<notin> set used"
proof (induction hs arbitrary: best b)
  case Nil
  then show ?case by simp
next
  case (Cons x hs)
  obtain bn bd where best: "best = (bn, bd)" by (cases best)
  show ?case
  proof (cases "ih_key x \<in> set used \<or> sequence_score c rd rows x = None")
    case True
    then have "sequential_header c rd rows used hs best b = Some h" using Cons.prems best by (auto split: if_splits)
    from Cons.IH [OF this] show ?thesis by auto
  next
    case False
    then obtain n d where "sequence_score c rd rows x = Some (n, d)" by auto
    then have "sequential_header c rd rows used hs (n, d) (Some (ih_key x)) = Some h \<or>
        sequential_header c rd rows used hs best b = Some h"
      using Cons.prems False best by (auto split: if_splits)
    then show ?thesis using Cons.IH False by fastforce
  qed
qed

lemma suggest_fields_columns:
  assumes "of_columns headers used" and "list_all (\<lambda>h. normal_text (ih_key h)) headers"
    and "distinct (map fst custom)" and "of_columns headers (prior @ map snd custom)"
    and "set (prior @ map snd custom) \<subseteq> set used" and "fst ` set custom \<subseteq> keys"
  shows "let r = suggest_fields rd headers fs used custom in
    distinct (map fst r) \<and> of_columns headers (prior @ map snd r) \<and> fst ` set r \<subseteq> keys \<union> rf_key ` set fs"
  using assms
proof (induction fs arbitrary: used custom keys)
  case Nil
  then show ?case by simp
next
  case (Cons f fs)
  let ?al = "[rf_key f, rf_labelAr f, case rf_labelEn f of None \<Rightarrow> [] | Some l \<Rightarrow> l]"
  obtain v used' where p: "pick rd headers ?al used = (v, used')" by (cases "pick rd headers ?al used")
  note col = pick_column [OF p Cons.prems(1,2)]
  show ?case
  proof (cases v)
    case None
    then have "used' = used" using col by simp
    then show ?thesis using p None Cons.IH [OF Cons.prems] by (auto simp: Let_def)
  next
    case (Some h)
    have h: "h \<notin> set used" "h \<in> ih_key ` set headers" using col Some by (auto simp: of_columns_def)
    then have ne: "h \<noteq> []" using Cons.prems(2) by (auto simp: list_all_iff normal_text_def)
    have other: "h \<notin> set (map snd custom)" using Cons.prems(5) h(1) by (metis Un_iff set_append subsetD)
    have dist: "distinct (map snd (put_key (rf_key f) h custom))" "distinct (map fst (put_key (rf_key f) h custom))"
      using Cons.prems(3,4) other by (auto intro!: distinct_put_value distinct_put_key simp: of_columns_def)
    have sub: "set (map snd (put_key (rf_key f) h custom)) \<subseteq> insert h (set (map snd custom))"
      by (rule put_key_values)
    have keys: "fst ` set (put_key (rf_key f) h custom) \<subseteq> insert (rf_key f) keys"
      using image_mono [OF put_key_set [of "rf_key f" h custom], of fst] Cons.prems(6) by auto
    have "set prior \<inter> set (map snd (put_key (rf_key f) h custom)) = {}"
      using Cons.prems(4,5) sub h(1) unfolding of_columns_def set_append distinct_append by blast
    then have "of_columns headers (prior @ map snd (put_key (rf_key f) h custom))"
      using Cons.prems(4) dist(1) sub h(2) unfolding of_columns_def set_append distinct_append by blast
    moreover have "set (prior @ map snd (put_key (rf_key f) h custom)) \<subseteq> set used'"
    proof -
      have "set used' = insert h (set used)" using col Some by auto
      then show ?thesis using Cons.prems(5) sub unfolding set_append by blast
    qed
    ultimately have "let r = suggest_fields rd headers fs used' (put_key (rf_key f) h custom) in
        distinct (map fst r) \<and> of_columns headers (prior @ map snd r) \<and> fst ` set r \<subseteq> insert (rf_key f) keys \<union> rf_key ` set fs"
      using Cons.IH [of used' "put_key (rf_key f) h custom" "insert (rf_key f) keys"] col Cons.prems(2) dist(2) keys by blast
    then show ?thesis using p Some ne by (simp add: Let_def)
  qed
qed

lemma map_filter_picked: "List.map_filter (\<lambda>v. v) (x # xs) = picked x @ List.map_filter (\<lambda>v. v) xs"
  by (cases x) (simp_all add: List.map_filter_def)

definition raw_headers :: "import_mapping \<Rightarrow> string list" where
  "raw_headers m = picked (im_fullName m) @ picked (im_phone m) @ picked (im_email m) @ picked (im_companyName m) @
     picked (im_jobTitle m) @ picked (im_externalId m) @ picked (im_notes m) @ picked (im_attendeeTypeCode m) @
     map snd (im_customFields m)"

lemma mapped_headers_raw: "mapped_headers m = filter (\<lambda>h. h \<noteq> []) (raw_headers m)"
  by (simp only: mapped_headers_def raw_headers_def map_filter_picked) (simp add: List.map_filter_def)

lemma eight_picks:
  assumes "list_all (\<lambda>h. normal_text (ih_key h)) headers"
    and "pick rd headers A1 [] = (a1, u1)" "pick rd headers A2 u1 = (a2, u2)" "pick rd headers A3 u2 = (a3, u3)"
    and "pick rd headers A4 u3 = (a4, u4)" "pick rd headers A5 u4 = (a5, u5)" "pick rd headers A6 u5 = (a6, u6)"
    and "pick rd headers A7 u6 = (a7, u7)" "pick rd headers A8 u7 = (a8, u8)"
  shows "u8 = picked a1 @ picked a2 @ picked a3 @ picked a4 @ picked a5 @ picked a6 @ picked a7 @ picked a8 \<and>
    of_columns headers u8"
proof -
  have o: "of_columns headers []" by (simp add: of_columns_def)
  note 1 = pick_column [OF assms(2) o assms(1)]
  note 2 = pick_column [OF assms(3) conjunct2 [OF 1] assms(1)]
  note 3 = pick_column [OF assms(4) conjunct2 [OF 2] assms(1)]
  note 4 = pick_column [OF assms(5) conjunct2 [OF 3] assms(1)]
  note 5 = pick_column [OF assms(6) conjunct2 [OF 4] assms(1)]
  note 6 = pick_column [OF assms(7) conjunct2 [OF 5] assms(1)]
  note 7 = pick_column [OF assms(8) conjunct2 [OF 6] assms(1)]
  note 8 = pick_column [OF assms(9) conjunct2 [OF 7] assms(1)]
  show ?thesis
    by (rule conjI, simp add: 1 [THEN conjunct1] 2 [THEN conjunct1] 3 [THEN conjunct1] 4 [THEN conjunct1] 5 [THEN conjunct1]
        6 [THEN conjunct1] 7 [THEN conjunct1] 8 [THEN conjunct1]) (rule 8 [THEN conjunct2])
qed

lemma sequential_picks:
  assumes "(if truthy a6 then (a6, u8) else (case findSequentialIdentifierHeader c rd headers rows u8 of
      None \<Rightarrow> (a6, u8) | Some h \<Rightarrow> if h = [] then (a6, u8) else (Some h, u8 @ [h]))) = (e, u9)"
    and "u8 = xs @ picked a6 @ ys" and "of_columns headers u8" and "list_all (\<lambda>h. normal_text (ih_key h)) headers"
  shows "of_columns headers u9 \<and> of_columns headers (xs @ picked e @ ys) \<and> set u9 = set (xs @ picked e @ ys)"
proof (cases "truthy a6")
  case True
  then show ?thesis using assms by auto
next
  case False
  have "picked a6 = []"
  proof (cases a6)
    case (Some h)
    then have "h \<in> ih_key ` set headers" using assms(2,3) by (auto simp: of_columns_def)
    then show ?thesis using False Some assms(4) by (auto simp: truthy_def list_all_iff normal_text_def)
  qed simp
  then have u8: "u8 = xs @ ys" using assms(2) by simp
  show ?thesis
  proof (cases "findSequentialIdentifierHeader c rd headers rows u8")
    case None
    then have "e = a6" "u9 = u8" using assms(1) False by simp_all
    then show ?thesis using assms(2,3) by simp
  next
    case (Some h)
    then have "h \<in> ih_key ` set headers" "h \<notin> set u8"
      using sequential_column [of c rd rows u8 headers "(0, 1)" None h] by (auto simp: findSequentialIdentifierHeader_def)
    then have h: "h \<in> ih_key ` set headers" "h \<notin> set u8" "h \<noteq> []" using assms(4) by (auto simp: list_all_iff normal_text_def)
    then have "e = Some h" "u9 = u8 @ [h]" using assms(1) False Some by simp_all
    then show ?thesis using assms(3) h(1,2) u8 by (auto simp: of_columns_def)
  qed
qed

lemma raw_suggestion:
  assumes "list_all (\<lambda>h. normal_text (ih_key h)) headers"
  shows "\<exists>m. suggestMapping c rd headers rows fs = normalizeMapping (mapping_fields m) \<and> of_columns headers (raw_headers m) \<and>
    distinct (map fst (im_customFields m)) \<and> fst ` set (im_customFields m) \<subseteq> rf_key ` set fs"
  unfolding suggestMapping_def Let_def
  apply (split prod.split, intro allI impI)+
  subgoal premises p for a1 u1 a2 u2 a3 u3 a4 u4 a5 u5 a6 u6 a7 u7 a8 u8 e u9
  proof -
    let ?xs = "picked a1 @ picked a2 @ picked a3 @ picked a4 @ picked a5" and ?ys = "picked a7 @ picked a8"
    have u8: "u8 = ?xs @ picked a6 @ ?ys" "of_columns headers u8" using eight_picks [OF assms p(1-8)] by (simp, blast)
    note u9 = sequential_picks [OF p(9) u8 assms]
    let ?r = "suggest_fields rd headers fs u9 []"
    have r: "distinct (map fst ?r) \<and> of_columns headers ((?xs @ picked e @ ?ys) @ map snd ?r) \<and> fst ` set ?r \<subseteq> rf_key ` set fs"
      using suggest_fields_columns [of headers u9 "[]" "?xs @ picked e @ ?ys" "{}" rd fs] u9 assms by (simp add: Let_def)
    show ?thesis
      by (rule exI, intro conjI, rule refl) (use r in \<open>simp_all add: raw_headers_def\<close>)
  qed
  done

lemma raw_normal:
  assumes "of_columns headers (raw_headers m)" and "list_all (\<lambda>h. normal_text (ih_key h)) headers"
    and "distinct (map fst (im_customFields m))" and "fst ` set (im_customFields m) \<subseteq> rf_key ` set fs"
    and "list_all (\<lambda>f. normal_text (rf_key f)) fs"
  shows "normalizeMapping (mapping_fields m) = m \<and> mapped_headers m = raw_headers m"
proof -
  have h: "normal_text h" if "h \<in> set (raw_headers m)" for h
    using assms(1,2) that by (auto simp: of_columns_def list_all_iff)
  have v: "case x of None \<Rightarrow> True | Some h \<Rightarrow> normal_text h" if "set (picked x) \<subseteq> set (raw_headers m)" for x
    using that h by (cases x) auto
  have "normal_text k \<and> normal_text n" if "(k, n) \<in> set (im_customFields m)" for k n
  proof -
    have "k \<in> rf_key ` set fs" "n \<in> set (raw_headers m)" using assms(4) that by (force simp: raw_headers_def)+
    then show ?thesis using h assms(5) by (auto simp: list_all_iff)
  qed
  then have "normal_mapping m"
    using assms(3) unfolding normal_mapping_def list.pred_inject
    by (intro conjI v TrueI) (auto simp: raw_headers_def list_all_iff)
  moreover have "filter (\<lambda>h. h \<noteq> []) (raw_headers m) = raw_headers m"
    using h by (auto simp: filter_id_conv normal_text_def)
  ultimately show ?thesis by (simp add: normal_mapping_fixed mapped_headers_raw)
qed

lemma require_all_ok: "list_all (\<lambda>x. problem x = None) xs \<Longrightarrow> require_all problem xs = Inr ()"
  by (induction xs) simp_all


section \<open>Samples\<close>

definition sample_reader :: readers where
  "sample_reader = \<lparr>rd_csv = (\<lambda>_ _. Inr []), rd_workbook = (\<lambda>_. Inr []), rd_column = nat_text,
     rd_letter_or_digit = (\<lambda>p. 97 \<le> p \<and> p \<le> 122), rd_number = (\<lambda>_. None)\<rparr>"

definition sample_command :: import_command where
  "sample_command = \<lparr>ic_file = \<lparr>up_filename = ''a.csv'', up_buffer = [], up_mimetype = None, up_size = 1\<rparr>,
     ic_eventId = ''e1'', ic_attendeeTypeId = None, ic_generateQr = True, ic_source = SRC_EXCEL_IMPORT,
     ic_duplicateStrategy = SKIP, ic_externalIdPrefix = None, ic_mapping = None,
     ic_parser = \<lparr>po_sheetName = None, po_headerRow = None, po_dataStartRow = None\<rparr>, ic_uploadedByUserId = None\<rparr>"

definition sample_import_config :: import_config where
  "sample_import_config = \<lparr>cf_queueEnabled = True, cf_enqueueBatchSize = 1, cf_queueError = [], cf_accepts = (\<lambda>_. True)\<rparr>"

theorem import_job_stored_completely_witness:
  "case createImportJobFromFile sample_env sample_reader sample_import_config sample_command empty_store of
    (Inl e, t) \<Rightarrow> importRows t = [] | (Inr job, t) \<Rightarrow> importJobs t = [job]"
  using import_job_stored_completely [where c = sample_env and s = empty_store and rd = sample_reader and
      cfg = sample_import_config and command = sample_command]
  by (auto simp: empty_store_def split: prod.splits sum.splits)

lemma sample_labels: "map (header_label sample_env sample_reader [Cell (JStr ''Name''), Cell (JStr ''Name'')]) [0..<2] = [''Name'', ''Name'']"
  by code_simp

theorem header_keys_distinct_witness:
  "map ih_key (buildHeaders sample_env sample_reader [Cell (JStr ''Name''), Cell (JStr ''Name'')] 2) = [''Name'', ''Name__2''] \<and>
   distinct (map ih_key (buildHeaders sample_env sample_reader [Cell (JStr ''Name''), Cell (JStr ''Name'')] 2))"
proof -
  have "\<not> numbered_key ''Name''" by code_simp
  then have "list_all (\<lambda>l. \<not> numbered_key l) (map (header_label sample_env sample_reader [Cell (JStr ''Name''), Cell (JStr ''Name'')]) [0..<2])"
    by (simp add: sample_labels)
  from header_keys_distinct [OF this] have "distinct (map ih_key (buildHeaders sample_env sample_reader [Cell (JStr ''Name''), Cell (JStr ''Name'')] 2))"
    by simp
  moreover have "map ih_key (buildHeaders sample_env sample_reader [Cell (JStr ''Name''), Cell (JStr ''Name'')] 2) = [''Name'', ''Name__2'']"
    by code_simp
  ultimately show ?thesis by simp
qed

definition sample_rows :: "parsed_row list" where
  "sample_rows = [\<lparr>pr_rowNumber = 2, pr_data = [(''Phone'', Cell (JStr ''5''))]\<rparr>,
     \<lparr>pr_rowNumber = 3, pr_data = [(''Phone'', Cell (JStr ''6''))]\<rparr>, \<lparr>pr_rowNumber = 4, pr_data = [(''Phone'', Cell (JStr ''5''))]\<rparr>]"

theorem repeated_identifiers_reported_witness:
  "2 \<in> set (repeated_rows (column_values sample_env ''Phone'' sample_rows) (\<lambda>_. None) [])"
proof -
  have r: "distinct (map pr_rowNumber sample_rows)" by (simp add: sample_rows_def)
  have v: "toDisplayString sample_env (Cell (JStr ''5'')) = ''5''" by code_simp
  have s: "same_identifier ''5'' ''5''" by (simp add: same_identifier_def)
  show ?thesis
    unfolding repeated_identifiers_reported [OF r]
    by (rule CollectI, rule exI [of _ "sample_rows ! 0"], rule exI [of _ "sample_rows ! 2"])
      (simp add: sample_rows_def cell_of_def v s del: toDisplayString.simps)
qed

definition sample_headers :: "import_header list" where
  "sample_headers = [\<lparr>ih_key = ''name'', ih_label = ''name'', ih_columnIndex = 0, ih_columnLetter = ''A'', ih_sampleValues = []\<rparr>]"


end
