(* ===== verification/Accounts.thy ===== *)
theory Accounts
  imports Requests
begin

text \<open>
  Who may log in: \<open>src/modules/users/users.service.ts\<close>, \<open>src/modules/clients/clients.service.ts\<close>,
  \<open>src/modules/clients/client-lifecycle.service.ts\<close> and \<open>src/modules/auth/auth.service.ts\<close> with its strategy,
  guard and utilities. Writes meet the unique columns of the schema, email and phone of a user and the
  hash of a refresh token.

  Password hashing and the signing of tokens are libraries, arguments here (\<open>auth_env\<close>). A signed token is a
  function of the secret, the payload, the second of issue and the lifetime. The answers that leave out the
  password hash or the primary account are the rows.
\<close>

section \<open>Tokens\<close>

record jwt_payload =
  jp_sub :: id
  jp_role :: user_role
  jp_clientId :: "id option"

record auth_env =
  ax_hash :: "nat \<Rightarrow> string \<Rightarrow> string" \<comment> \<open>\<open>bcrypt.hash\<close>, by the draw of the salt\<close>
  ax_compare :: "string \<Rightarrow> string \<Rightarrow> bool" \<comment> \<open>\<open>bcrypt.compare\<close>, password and hash\<close>
  ax_sign :: "string \<Rightarrow> string \<Rightarrow> int \<Rightarrow> jwt_payload \<Rightarrow> string" \<comment> \<open>secret, lifetime, second of issue\<close>
  ax_verify :: "string \<Rightarrow> int \<Rightarrow> string \<Rightarrow> jwt_payload option" \<comment> \<open>secret, current second, token\<close>
  ax_accessSecret :: string
  ax_refreshSecret :: string

definition hashPassword :: "auth_env \<Rightarrow> string \<Rightarrow> (store, string) act" where
  "hashPassword ax password = draw (\<lambda>n. ax_hash ax n password)"

definition hashRefreshToken :: "env \<Rightarrow> string \<Rightarrow> string" where
  "hashRefreshToken c token = sha256_hex c token"

definition getRefreshTokenExpiresAt :: "env \<Rightarrow> time" where
  "getRefreshTokenExpiresAt c = now c + 7 * 24 * 60 * 60 * 1000"

section \<open>Users\<close>

record auth_account =
  ac_id :: id
  ac_fullName :: string
  ac_email :: "string option"
  ac_phone :: "string option"
  ac_role :: user_role
  ac_clientId :: "id option"

definition account_of :: "user_row \<Rightarrow> auth_account" where
  "account_of u = \<lparr>ac_id = us_id u, ac_fullName = us_fullName u, ac_email = us_email u, ac_phone = us_phone u,
     ac_role = us_role u, ac_clientId = us_clientId u\<rparr>"

definition find_client :: "id \<Rightarrow> store \<Rightarrow> client_row option" where
  "find_client i s = lookup_by cl_id i (clients s)"

definition has_identifier :: "string \<Rightarrow> user_row \<Rightarrow> bool" where
  "has_identifier identifier u = (us_email u = Some identifier \<or> us_phone u = Some identifier)"

definition findByEmailOrPhone :: "string \<Rightarrow> store \<Rightarrow> user_row option" where
  "findByEmailOrPhone identifier s = find_row (has_identifier identifier) (users s)"

definition client_of :: "user_row \<Rightarrow> store \<Rightarrow> client_row option" where
  "client_of u s = (case us_clientId u of None \<Rightarrow> None | Some i \<Rightarrow> find_client i s)"

definition ensureEmailOrPhone :: "string option \<Rightarrow> string option \<Rightarrow> unit res" where
  "ensureEmailOrPhone email phone = guard (truthy email \<or> truthy phone) (BadRequest ''Either email or phone is required'')"

definition ensureEmailAndPhoneAreUnique :: "string option \<Rightarrow> string option \<Rightarrow> id option \<Rightarrow> store \<Rightarrow> unit res" where
  "ensureEmailAndPhoneAreUnique email phone excludeId s =
    guard (\<not> exists_row (\<lambda>u. (truthy excludeId \<longrightarrow> Some (us_id u) \<noteq> excludeId) \<and>
        (truthy email \<and> us_email u = email \<or> truthy phone \<and> us_phone u = phone)) (users s))
      (Conflict ''Email or phone already exists'')"

definition resolveClientIdForRole :: "user_role \<Rightarrow> id option \<Rightarrow> store \<Rightarrow> id option res" where
  "resolveClientIdForRole role clientId s =
    (if role \<noteq> CLIENT_VIEWER then Inr None
     else if \<not> truthy clientId then Inl (BadRequest ''clientId is required for CLIENT_VIEWER'')
     else if find_client (the clientId) s = None then Inl (NotFound ''Client not found'')
     else Inr clientId)"

text \<open>The unique columns of a user.\<close>

definition same_login :: "user_row \<Rightarrow> user_row \<Rightarrow> bool" where
  "same_login u x = (us_email u \<noteq> None \<and> us_email u = us_email x \<or> us_phone u \<noteq> None \<and> us_phone u = us_phone x)"

definition create_user :: "env \<Rightarrow> (id \<Rightarrow> user_row) \<Rightarrow> (store, user_row) act" where
  "create_user c row = bindA (new_id c) (\<lambda>i.
     bindA (gets (exists_row (same_login (row i)) \<circ> users)) (\<lambda>taken.
     if taken then throw UniqueViolation
     else bindA (modify (\<lambda>s. s\<lparr>users := append_row (row i) (users s)\<rparr>)) (\<lambda>_. ret (row i))))"

definition update_user :: "id \<Rightarrow> (user_row \<Rightarrow> user_row) \<Rightarrow> (store, user_row) act" where
  "update_user i f =
    bindA (gets (find_user i)) (\<lambda>found. case found of
      None \<Rightarrow> throw (OtherError ''Record to update not found'')
    | Some u \<Rightarrow>
        bindA (gets (exists_row (\<lambda>x. us_id x \<noteq> i \<and> same_login (f u) x) \<circ> users)) (\<lambda>taken.
        if taken then throw UniqueViolation
        else bindA (modify (\<lambda>s. s\<lparr>users := update_by us_id i f (users s)\<rparr>)) (\<lambda>_. ret (f u))))"

text \<open>\<open>updateMany\<close> over the live tokens of some users.\<close>

definition revoke_tokens :: "env \<Rightarrow> (id \<Rightarrow> bool) \<Rightarrow> (store, unit) act" where
  "revoke_tokens c p = modify (\<lambda>s. s\<lparr>refreshTokens :=
     update_rows (\<lambda>t. p (rt_userId t) \<and> rt_revokedAt t = None) (\<lambda>t. t\<lparr>rt_revokedAt := Some (now c)\<rparr>) (refreshTokens s)\<rparr>)"

record user_dto =
  ur_fullName :: string
  ur_email :: "string option"
  ur_phone :: "string option"
  ur_password :: string
  ur_role :: user_role
  ur_clientId :: "id option"

record user_change =
  uc_fullName :: "string option"
  uc_email :: "string option option"
  uc_phone :: "string option option"
  uc_role :: "user_role option"
  uc_clientId :: "id option option"

definition findUserOrThrow :: "id \<Rightarrow> store \<Rightarrow> user_row res" where
  "findUserOrThrow i s = found ''User'' (find_user i s)"

definition createUser :: "env \<Rightarrow> auth_env \<Rightarrow> user_dto \<Rightarrow> (store, user_row) act" where
  "createUser c ax dto =
    bindA (reads (\<lambda>_. ensureEmailOrPhone (ur_email dto) (ur_phone dto))) (\<lambda>_.
    bindA (reads (ensureEmailAndPhoneAreUnique (ur_email dto) (ur_phone dto) None)) (\<lambda>_.
    bindA (reads (resolveClientIdForRole (ur_role dto) (ur_clientId dto))) (\<lambda>clientId.
    bindA (hashPassword ax (ur_password dto)) (\<lambda>h.
    create_user c (\<lambda>i. \<lparr>us_id = i, us_role = ur_role dto, us_status = US_ACTIVE, us_clientId = clientId,
      us_email = ur_email dto, us_phone = ur_phone dto, us_passwordHash = h, us_fullName = ur_fullName dto,
      us_lastLoginAt = None, us_deletedAt = None, us_createdAt = now c\<rparr>)))))"

definition findAllUsers :: "(string \<Rightarrow> string \<Rightarrow> bool) \<Rightarrow> user_role option \<Rightarrow> user_status option \<Rightarrow> id option \<Rightarrow>
    string option \<Rightarrow> page_query \<Rightarrow> store \<Rightarrow> user_row paginated" where
  "findAllUsers contains role status clientId search query s =
    find_page (\<lambda>u. (case role of None \<Rightarrow> True | Some r \<Rightarrow> us_role u = r) \<and>
        (case status of None \<Rightarrow> True | Some st \<Rightarrow> us_status u = st) \<and> if_given clientId (\<lambda>x. us_clientId u = Some x) \<and>
        if_given search (\<lambda>x. contains (us_fullName u) x \<or> column_contains contains x (us_email u) \<or>
          column_contains contains x (us_phone u)))
      (\<lambda>u. - us_createdAt u) query (users s)"

definition updateUser :: "id \<Rightarrow> user_change \<Rightarrow> (store, user_row) act" where
  "updateUser i dto =
    bindA (reads (findUserOrThrow i)) (\<lambda>user.
    if us_status user = US_DELETED then throw (BadRequest ''Deleted users cannot be updated'')
    else
    let email = or_kept (uc_email dto) (us_email user); phone = or_kept (uc_phone dto) (us_phone user);
        role = or_kept (uc_role dto) (us_role user) in
    bindA (reads (\<lambda>_. ensureEmailOrPhone email phone)) (\<lambda>_.
    bindA (reads (ensureEmailAndPhoneAreUnique email phone (Some i))) (\<lambda>_.
    bindA (reads (resolveClientIdForRole role (or_kept (uc_clientId dto) (us_clientId user)))) (\<lambda>clientId.
    update_user i (\<lambda>u. u\<lparr>us_fullName := or_kept (uc_fullName dto) (us_fullName u), us_email := email,
      us_phone := phone, us_role := role, us_clientId := clientId\<rparr>)))))"

definition activateUser :: "id \<Rightarrow> (store, user_row) act" where
  "activateUser i = bindA (reads (findUserOrThrow i)) (\<lambda>_.
    update_user i (\<lambda>u. u\<lparr>us_status := US_ACTIVE, us_deletedAt := None\<rparr>))"

definition suspendUser :: "id \<Rightarrow> id \<Rightarrow> (store, user_row) act" where
  "suspendUser i currentUserId =
    (if i = currentUserId then throw (Forbidden ''You cannot suspend your own user'')
     else bindA (reads (findUserOrThrow i)) (\<lambda>_. update_user i (\<lambda>u. u\<lparr>us_status := US_SUSPENDED\<rparr>)))"

definition deleteUser :: "env \<Rightarrow> id \<Rightarrow> id \<Rightarrow> (store, user_row) act" where
  "deleteUser c i currentUserId =
    (if i = currentUserId then throw (Forbidden ''You cannot delete your own user'')
     else bindA (reads (findUserOrThrow i)) (\<lambda>_.
       update_user i (\<lambda>u. u\<lparr>us_status := US_DELETED, us_deletedAt := Some (now c)\<rparr>)))"

definition store_password :: "env \<Rightarrow> id \<Rightarrow> string \<Rightarrow> (store, unit) act" where
  "store_password c i h = transaction (bindA (update_user i (\<lambda>u. u\<lparr>us_passwordHash := h\<rparr>)) (\<lambda>_.
     revoke_tokens c (\<lambda>x. x = i)))"

definition resetPassword :: "env \<Rightarrow> auth_env \<Rightarrow> id \<Rightarrow> string \<Rightarrow> (store, unit) act" where
  "resetPassword c ax i newPassword =
    bindA (reads (findUserOrThrow i)) (\<lambda>_.
    bindA (hashPassword ax newPassword) (\<lambda>h. store_password c i h))"

section \<open>Authentication\<close>

definition isAuthenticationAllowed :: "user_row \<Rightarrow> client_row option \<Rightarrow> bool" where
  "isAuthenticationAllowed u client =
    (if us_status u \<noteq> US_ACTIVE then False
     else if us_role u \<noteq> CLIENT_VIEWER then True
     else (truthy (us_clientId u) \<and> (case client of None \<Rightarrow> False
       | Some cl \<Rightarrow> Some (cl_id cl) = us_clientId u \<and> cl_isActive cl)))"

definition allowed_user :: "store \<Rightarrow> user_row \<Rightarrow> bool" where
  "allowed_user s u = isAuthenticationAllowed u (client_of u s)"

definition validateUserByEmailOrPhone :: "auth_env \<Rightarrow> string \<Rightarrow> string \<Rightarrow> store \<Rightarrow> auth_account res" where
  "validateUserByEmailOrPhone ax identifier password s = (case findByEmailOrPhone identifier s of
     None \<Rightarrow> Inl (Unauthorized ''Invalid credentials'')
   | Some u \<Rightarrow>
       if \<not> allowed_user s u then Inl (Unauthorized ''Invalid credentials'')
       else if \<not> ax_compare ax password (us_passwordHash u) then Inl (Unauthorized ''Invalid credentials'')
       else Inr (account_of u))"

definition tokenPayload :: "auth_account \<Rightarrow> jwt_payload" where
  "tokenPayload a = \<lparr>jp_sub = ac_id a, jp_role = ac_role a, jp_clientId = ac_clientId a\<rparr>"

definition issueTokens :: "env \<Rightarrow> auth_env \<Rightarrow> auth_account \<Rightarrow> string \<times> string" where
  "issueTokens c ax a =
    (ax_sign ax (ax_accessSecret ax) ''15m'' (now c div 1000) (tokenPayload a),
     ax_sign ax (ax_refreshSecret ax) ''7d'' (now c div 1000) (tokenPayload a))"

definition storeRefreshToken :: "env \<Rightarrow> id \<Rightarrow> string \<Rightarrow> (store, unit) act" where
  "storeRefreshToken c userId refreshToken = bindA (new_id c) (\<lambda>i.
     bindA (gets (exists_row (\<lambda>t. rt_tokenHash t = hashRefreshToken c refreshToken) \<circ> refreshTokens)) (\<lambda>taken.
     if taken then throw UniqueViolation
     else modify (\<lambda>s. s\<lparr>refreshTokens := append_row \<lparr>rt_id = i, rt_userId = userId,
       rt_tokenHash = hashRefreshToken c refreshToken, rt_revokedAt = None,
       rt_expiresAt = getRefreshTokenExpiresAt c\<rparr> (refreshTokens s)\<rparr>)))"

definition login :: "env \<Rightarrow> auth_env \<Rightarrow> string \<Rightarrow> string \<Rightarrow> (store, auth_account \<times> string \<times> string) act" where
  "login c ax identifier password =
    bindA (reads (validateUserByEmailOrPhone ax identifier password)) (\<lambda>user.
    bindA (update_user (ac_id user) (\<lambda>u. u\<lparr>us_lastLoginAt := Some (now c)\<rparr>)) (\<lambda>_.
    let tokens = issueTokens c ax user in
    bindA (storeRefreshToken c (ac_id user) (snd tokens)) (\<lambda>_. ret (user, tokens))))"

definition verifyRefreshToken :: "env \<Rightarrow> auth_env \<Rightarrow> string \<Rightarrow> jwt_payload res" where
  "verifyRefreshToken c ax refreshToken = (case ax_verify ax (ax_refreshSecret ax) (now c div 1000) refreshToken of
     None \<Rightarrow> Inl (Unauthorized ''Invalid refresh token'') | Some p \<Rightarrow> Inr p)"

definition find_refresh_token :: "string \<Rightarrow> store \<Rightarrow> refresh_token option" where
  "find_refresh_token tokenHash s = lookup_by rt_tokenHash tokenHash (refreshTokens s)"

definition usable_token :: "env \<Rightarrow> jwt_payload \<Rightarrow> refresh_token \<Rightarrow> bool" where
  "usable_token c payload t = (rt_revokedAt t = None \<and> now c < rt_expiresAt t \<and> rt_userId t = jp_sub payload)"

definition current_account :: "string \<Rightarrow> id \<Rightarrow> store \<Rightarrow> auth_account res" where
  "current_account message userId s = (case find_user userId s of
     None \<Rightarrow> Inl (Unauthorized message)
   | Some u \<Rightarrow> if allowed_user s u then Inr (account_of u) else Inl (Unauthorized message))"

definition revoke_token :: "env \<Rightarrow> id \<Rightarrow> (store, unit) act" where
  "revoke_token c i = modify (\<lambda>s. s\<lparr>refreshTokens :=
     update_by rt_id i (\<lambda>t. t\<lparr>rt_revokedAt := Some (now c)\<rparr>) (refreshTokens s)\<rparr>)"

definition refresh :: "env \<Rightarrow> auth_env \<Rightarrow> string \<Rightarrow> (store, auth_account \<times> string \<times> string) act" where
  "refresh c ax refreshToken =
    bindA (reads (\<lambda>_. verifyRefreshToken c ax refreshToken)) (\<lambda>payload.
    bindA (gets (find_refresh_token (hashRefreshToken c refreshToken))) (\<lambda>stored.
    case stored of
      None \<Rightarrow> throw (Unauthorized ''Invalid refresh token'')
    | Some t \<Rightarrow>
        if \<not> usable_token c payload t then throw (Unauthorized ''Invalid refresh token'')
        else
        bindA (reads (current_account ''Invalid refresh token'' (jp_sub payload))) (\<lambda>user.
        let tokens = issueTokens c ax user in
        bindA (transaction (bindA (revoke_token c (rt_id t)) (\<lambda>_.
          storeRefreshToken c (ac_id user) (snd tokens)))) (\<lambda>_. ret (user, tokens)))))"

definition logout :: "env \<Rightarrow> string \<Rightarrow> (store, unit) act" where
  "logout c refreshToken =
    bindA (gets (find_refresh_token (hashRefreshToken c refreshToken))) (\<lambda>stored.
    case stored of
      None \<Rightarrow> ret ()
    | Some t \<Rightarrow> if rt_revokedAt t = None then revoke_token c (rt_id t) else ret ())"

definition me :: "id \<Rightarrow> store \<Rightarrow> auth_account res" where
  "me userId s = current_account ''Invalid token'' userId s"

text \<open>A request with an access token: the passport strategy, then the roles guard.\<close>

definition validateAccess :: "env \<Rightarrow> auth_env \<Rightarrow> string \<Rightarrow> store \<Rightarrow> auth_account res" where
  "validateAccess c ax token s = (case ax_verify ax (ax_accessSecret ax) (now c div 1000) token of
     None \<Rightarrow> Inl (Unauthorized ''Unauthorized'')
   | Some payload \<Rightarrow> current_account ''Invalid token'' (jp_sub payload) s)"

definition canActivate :: "user_role list \<Rightarrow> auth_account option \<Rightarrow> bool" where
  "canActivate requiredRoles user =
    (requiredRoles = [] \<or> (case user of None \<Rightarrow> False | Some a \<Rightarrow> ac_role a \<in> set requiredRoles))"

end
