(* ===== verification/Clients.thy ===== *)
theory Clients
  imports Accounts
begin

text \<open>
  The clients and their primary access accounts, \<open>src/modules/clients/clients.service.ts\<close> and
  \<open>src/modules/clients/client-lifecycle.service.ts\<close>.
\<close>

record client_dto =
  cr_name :: string
  cr_contactName :: "string option"
  cr_contactPhone :: "string option"
  cr_contactEmail :: "string option"
  cr_notes :: "string option"

record client_change =
  cc_name :: "string option"
  cc_contactName :: "string option option"
  cc_contactPhone :: "string option option"
  cc_contactEmail :: "string option option"
  cc_notes :: "string option option"

record access_dto =
  aa_fullName :: "string option"
  aa_email :: string
  aa_phone :: "string option"
  aa_password :: string

record access_change =
  av_fullName :: "string option"
  av_email :: "string option"
  av_phone :: "string option option"

section \<open>Guards\<close>

definition ensureActiveNameIsUnique :: "string \<Rightarrow> id option \<Rightarrow> store \<Rightarrow> unit res" where
  "ensureActiveNameIsUnique name excludeId s =
    guard (\<not> exists_row (\<lambda>k. cl_name k = name \<and> cl_isActive k \<and> (truthy excludeId \<longrightarrow> Some (cl_id k) \<noteq> excludeId)) (clients s))
      (Conflict ''Client name already exists'')"

definition ensureAccessAccountIdentifiersAreUnique :: "string option \<Rightarrow> string option \<Rightarrow> id option \<Rightarrow> store \<Rightarrow> unit res" where
  "ensureAccessAccountIdentifiersAreUnique email phone excludeUserId s =
    bindE (ensureEmailOrPhone email phone) (\<lambda>_.
    guard (\<not> exists_row (\<lambda>u. (truthy excludeUserId \<longrightarrow> Some (us_id u) \<noteq> excludeUserId) \<and>
        (truthy email \<and> us_email u = email \<or> truthy phone \<and> us_phone u = phone)) (users s))
      (Conflict ''Email or phone already exists''))"

definition rethrowKnownUniqueError :: "(store, 'a) act \<Rightarrow> (store, 'a) act" where
  "rethrowKnownUniqueError m = catch m (\<lambda>e. throw (if e = UniqueViolation then Conflict ''Email or phone already exists'' else e))"

text \<open>\<open>a?.trim() || b?.trim() || c.trim()\<close>.\<close>

definition account_name :: "string option \<Rightarrow> string option \<Rightarrow> string \<Rightarrow> string" where
  "account_name fullName contactName name =
    (if truthy (map_option trim fullName) then trim (the fullName)
     else if truthy (map_option trim contactName) then trim (the contactName) else trim name)"

section \<open>Clients\<close>

definition create_client :: "env \<Rightarrow> client_dto \<Rightarrow> (store, client_row) act" where
  "create_client c dto = bindA (new_id c) (\<lambda>i.
     let k = \<lparr>cl_id = i, cl_name = cr_name dto, cl_contactName = cr_contactName dto, cl_contactPhone = cr_contactPhone dto,
           cl_contactEmail = cr_contactEmail dto, cl_notes = cr_notes dto, cl_isActive = True, cl_primaryUserId = None,
           cl_createdAt = now c\<rparr> in
     bindA (modify (\<lambda>s. s\<lparr>clients := append_row k (clients s)\<rparr>)) (\<lambda>_. ret k))"

definition update_client :: "id \<Rightarrow> (client_row \<Rightarrow> client_row) \<Rightarrow> (store, client_row) act" where
  "update_client i f =
    bindA (gets (find_client i)) (\<lambda>found. case found of
      None \<Rightarrow> throw (OtherError ''Record to update not found'')
    | Some k \<Rightarrow> bindA (modify (\<lambda>s. s\<lparr>clients := update_by cl_id i f (clients s)\<rparr>)) (\<lambda>_. ret (f k)))"

definition createClient :: "env \<Rightarrow> client_dto \<Rightarrow> (store, client_row) act" where
  "createClient c dto =
    bindA (reads (ensureActiveNameIsUnique (cr_name dto) None)) (\<lambda>_. create_client c dto)"

definition access_row :: "env \<Rightarrow> id \<Rightarrow> access_dto \<Rightarrow> string \<Rightarrow> string \<Rightarrow> id \<Rightarrow> user_row" where
  "access_row c clientId dto passwordHash fullName i = \<lparr>us_id = i, us_role = CLIENT_VIEWER, us_status = US_ACTIVE,
     us_clientId = Some clientId, us_email = Some (aa_email dto), us_phone = aa_phone dto, us_passwordHash = passwordHash,
     us_fullName = fullName, us_lastLoginAt = None, us_deletedAt = None, us_createdAt = now c\<rparr>"

definition createWithAccessAccount :: "env \<Rightarrow> auth_env \<Rightarrow> client_dto \<Rightarrow> access_dto \<Rightarrow> (store, client_row \<times> user_row) act" where
  "createWithAccessAccount c ax dto account =
    bindA (hashPassword ax (aa_password account)) (\<lambda>passwordHash.
    let fullName = account_name (aa_fullName account) (cr_contactName dto) (cr_name dto) in
    rethrowKnownUniqueError (transaction (
      bindA (reads (ensureActiveNameIsUnique (cr_name dto) None)) (\<lambda>_.
      bindA (reads (ensureAccessAccountIdentifiersAreUnique (Some (aa_email account)) (aa_phone account) None)) (\<lambda>_.
      bindA (create_client c dto) (\<lambda>client.
      bindA (create_user c (access_row c (cl_id client) account passwordHash fullName)) (\<lambda>accessAccount.
      bindA (update_client (cl_id client) (\<lambda>k. k\<lparr>cl_primaryUserId := Some (us_id accessAccount)\<rparr>)) (\<lambda>_.
      ret (client, accessAccount)))))))))"

definition createAccessAccount :: "env \<Rightarrow> auth_env \<Rightarrow> id \<Rightarrow> access_dto \<Rightarrow> (store, client_row \<times> user_row) act" where
  "createAccessAccount c ax clientId dto =
    bindA (hashPassword ax (aa_password dto)) (\<lambda>passwordHash.
    rethrowKnownUniqueError (transaction (
      bindA (reads (\<lambda>s. found ''Client'' (find_client clientId s))) (\<lambda>client.
      if truthy (cl_primaryUserId client) then throw (Conflict ''Client already has a primary access account'')
      else
      bindA (reads (ensureAccessAccountIdentifiersAreUnique (Some (aa_email dto)) (aa_phone dto) None)) (\<lambda>_.
      bindA (create_user c (access_row c clientId dto passwordHash
        (account_name (aa_fullName dto) (cl_contactName client) (cl_name client)))) (\<lambda>accessAccount.
      bindA (gets (\<lambda>s. count_rows (\<lambda>k. cl_id k = clientId \<and> cl_primaryUserId k = None) (clients s))) (\<lambda>linked.
      bindA (modify (\<lambda>s. s\<lparr>clients := update_rows (\<lambda>k. cl_id k = clientId \<and> cl_primaryUserId k = None)
        (\<lambda>k. k\<lparr>cl_primaryUserId := Some (us_id accessAccount)\<rparr>) (clients s)\<rparr>)) (\<lambda>_.
      if linked \<noteq> 1 then throw (Conflict ''Client already has a primary access account'')
      else ret (client, accessAccount))))))))) "

definition findPrimaryAccessAccountOrThrow :: "id \<Rightarrow> store \<Rightarrow> user_row res" where
  "findPrimaryAccessAccountOrThrow clientId s =
    bindE (found ''Client'' (find_client clientId s)) (\<lambda>client.
    case (if truthy (cl_primaryUserId client) then find_user (the (cl_primaryUserId client)) s else None) of
      None \<Rightarrow> Inl (NotFound ''Client access account not found'')
    | Some u \<Rightarrow>
        if us_role u \<noteq> CLIENT_VIEWER \<or> us_clientId u \<noteq> Some (cl_id client)
        then Inl (Conflict ''Client primary access account is invalid'')
        else if us_status u = US_DELETED then Inl (BadRequest ''Client access account is deleted'')
        else Inr u)"

definition getAccessAccount :: "id \<Rightarrow> store \<Rightarrow> user_row res" where
  "getAccessAccount clientId s = findPrimaryAccessAccountOrThrow clientId s"

definition updateAccessAccount :: "env \<Rightarrow> id \<Rightarrow> access_change \<Rightarrow> (store, user_row) act" where
  "updateAccessAccount c clientId dto =
    (if av_fullName dto = None \<and> av_email dto = None \<and> av_phone dto = None
     then throw (BadRequest ''At least one access account field is required'')
     else
     bindA (reads (findPrimaryAccessAccountOrThrow clientId)) (\<lambda>account.
     let nextEmail = or_kept (map_option Some (av_email dto)) (us_email account);
         nextPhone = or_kept (av_phone dto) (us_phone account) in
     bindA (reads (\<lambda>_. ensureEmailOrPhone nextEmail nextPhone)) (\<lambda>_.
     bindA (reads (ensureAccessAccountIdentifiersAreUnique nextEmail nextPhone (Some (us_id account)))) (\<lambda>_.
     rethrowKnownUniqueError (transaction (
       bindA (update_user (us_id account) (\<lambda>u. u\<lparr>us_fullName := or_kept (av_fullName dto) (us_fullName u),
         us_email := nextEmail, us_phone := nextPhone\<rparr>)) (\<lambda>updated.
       bindA (if nextEmail \<noteq> us_email account \<or> nextPhone \<noteq> us_phone account
              then revoke_tokens c (\<lambda>x. x = us_id account) else ret ()) (\<lambda>_. ret updated)))))))) "

definition resetAccessAccountPassword :: "env \<Rightarrow> auth_env \<Rightarrow> id \<Rightarrow> string \<Rightarrow> (store, unit) act" where
  "resetAccessAccountPassword c ax clientId newPassword =
    bindA (reads (findPrimaryAccessAccountOrThrow clientId)) (\<lambda>account.
    bindA (hashPassword ax newPassword) (\<lambda>h. store_password c (us_id account) h))"

definition findAllClients :: "(string \<Rightarrow> string \<Rightarrow> bool) \<Rightarrow> string option \<Rightarrow> page_query \<Rightarrow> store \<Rightarrow> client_row paginated" where
  "findAllClients contains search query s =
    find_page (\<lambda>k. if_given search (\<lambda>x. contains (cl_name k) x \<or> column_contains contains x (cl_contactName k)))
      (\<lambda>k. - cl_createdAt k) query (clients s)"

definition findOneClient :: "id \<Rightarrow> store \<Rightarrow> client_row res" where
  "findOneClient i s = found ''Client'' (find_client i s)"

definition changed_client :: "client_change \<Rightarrow> client_row \<Rightarrow> client_row" where
  "changed_client dto k = k\<lparr>cl_name := or_kept (cc_name dto) (cl_name k),
     cl_contactName := or_kept (cc_contactName dto) (cl_contactName k),
     cl_contactPhone := or_kept (cc_contactPhone dto) (cl_contactPhone k),
     cl_contactEmail := or_kept (cc_contactEmail dto) (cl_contactEmail k),
     cl_notes := or_kept (cc_notes dto) (cl_notes k)\<rparr>"

definition updateClient :: "id \<Rightarrow> client_change \<Rightarrow> (store, client_row) act" where
  "updateClient i dto =
    bindA (reads (findOneClient i)) (\<lambda>_.
    bindA (reads (\<lambda>s. if truthy (cc_name dto) then ensureActiveNameIsUnique (the (cc_name dto)) (Some i) s else Inr ())) (\<lambda>_.
    update_client i (changed_client dto)))"

definition removeClient :: "id \<Rightarrow> (store, client_row) act" where
  "removeClient i = bindA (reads (findOneClient i)) (\<lambda>_. update_client i (\<lambda>k. k\<lparr>cl_isActive := False\<rparr>))"

section \<open>Lifecycle\<close>

definition of_client :: "id \<Rightarrow> store \<Rightarrow> id \<Rightarrow> bool" where
  "of_client i s userId = exists_row (\<lambda>u. us_id u = userId \<and> us_clientId u = Some i) (users s)"

definition setActiveStatus :: "env \<Rightarrow> id \<Rightarrow> bool \<Rightarrow> (store, bool \<times> client_row) act" where
  "setActiveStatus c i isActive =
    bindA (reads (findOneClient i)) (\<lambda>existing.
    if cl_isActive existing = isActive then ret (False, existing)
    else bindA (transaction (
        bindA (update_client i (\<lambda>k. k\<lparr>cl_isActive := isActive\<rparr>)) (\<lambda>updated.
        bindA (if \<not> isActive then bindA (gets (of_client i)) (\<lambda>p. revoke_tokens c p) else ret ()) (\<lambda>_. ret updated))))
      (\<lambda>client. ret (True, client)))"

text \<open>\<open>updateMany\<close> of the users to tombstones.\<close>

definition tombstone :: "env \<Rightarrow> user_row \<Rightarrow> user_row" where
  "tombstone c u = u\<lparr>us_clientId := None, us_status := US_DELETED, us_deletedAt := Some (now c), us_email := None,
     us_phone := None, us_fullName := ''Deleted client account''\<rparr>"

definition delete_client :: "id \<Rightarrow> (store, unit) act" where
  "delete_client i =
    bindA (reads (\<lambda>s. guard (\<not> exists_row (\<lambda>e. ev_clientId e = i) (events s)) foreign_key)) (\<lambda>_.
    modify (\<lambda>s. s\<lparr>clients := delete_rows (\<lambda>k. cl_id k = i) (clients s)\<rparr>))"

definition deletePermanently :: "env \<Rightarrow> id \<Rightarrow> (store, unit) act" where
  "deletePermanently c i =
    bindA (reads (findOneClient i)) (\<lambda>client.
    if cl_isActive client then throw (Conflict ''Deactivate the client before permanent deletion'')
    else
    bindA (gets (\<lambda>s. count_rows (\<lambda>e. ev_clientId e = i) (events s))) (\<lambda>owned.
    if 0 < owned then throw (Conflict ''Client has related events and cannot be permanently deleted. Keep it deactivated to preserve event history.'')
    else catch (transaction (
        bindA (gets (\<lambda>s. map us_id (filter (\<lambda>u. us_clientId u = Some i) (users s)))) (\<lambda>userIds.
        bindA (update_client i (\<lambda>k. k\<lparr>cl_primaryUserId := None\<rparr>)) (\<lambda>_.
        bindA (if userIds = [] then ret ()
               else bindA (revoke_tokens c (\<lambda>x. x \<in> set userIds)) (\<lambda>_.
                 modify (\<lambda>s. s\<lparr>users := update_rows (\<lambda>u. us_id u \<in> set userIds) (tombstone c) (users s)\<rparr>))) (\<lambda>_.
        delete_client i)))))
      (\<lambda>e. throw (if e = foreign_key then Conflict ''Client still has related records and cannot be permanently deleted'' else e))))"

end
