(* ===== verification/AccountsInv.thy ===== *)
theory AccountsInv
  imports Clients
begin

text \<open>
  Histories of requests to the users, clients and authentication services, and what holds throughout them:
  logins stay unique, and a refresh token that has ended stays ended.
\<close>

section \<open>Histories\<close>

datatype account_op =
    CreateUser user_dto
  | UpdateUser id user_change
  | ActivateUser id
  | SuspendUser id id
  | DeleteUser id id
  | ResetPassword id string
  | Login string string
  | Refresh string
  | Logout string
  | CreateClient client_dto
  | CreateWithAccess client_dto access_dto
  | CreateAccess id access_dto
  | UpdateAccess id access_change
  | ResetAccess id string
  | UpdateClient id client_change
  | RemoveClient id
  | SetActive id bool
  | DeletePermanently id

text \<open>The store a request leaves, whether it is answered or refused.\<close>

definition left :: "(store, 'a) act \<Rightarrow> store \<Rightarrow> store" where
  "left m s = snd (m s)"

fun account_step :: "env \<Rightarrow> auth_env \<Rightarrow> account_op \<Rightarrow> store \<Rightarrow> store" where
  "account_step c ax (CreateUser dto) = left (createUser c ax dto)"
| "account_step c ax (UpdateUser i dto) = left (updateUser i dto)"
| "account_step c ax (ActivateUser i) = left (activateUser i)"
| "account_step c ax (SuspendUser i by) = left (suspendUser i by)"
| "account_step c ax (DeleteUser i by) = left (deleteUser c i by)"
| "account_step c ax (ResetPassword i p) = left (resetPassword c ax i p)"
| "account_step c ax (Login n p) = left (login c ax n p)"
| "account_step c ax (Refresh token) = left (refresh c ax token)"
| "account_step c ax (Logout token) = left (logout c token)"
| "account_step c ax (CreateClient dto) = left (createClient c dto)"
| "account_step c ax (CreateWithAccess dto a) = left (createWithAccessAccount c ax dto a)"
| "account_step c ax (CreateAccess i a) = left (createAccessAccount c ax i a)"
| "account_step c ax (UpdateAccess i dto) = left (updateAccessAccount c i dto)"
| "account_step c ax (ResetAccess i p) = left (resetAccessAccountPassword c ax i p)"
| "account_step c ax (UpdateClient i dto) = left (updateClient i dto)"
| "account_step c ax (RemoveClient i) = left (removeClient i)"
| "account_step c ax (SetActive i b) = left (setActiveStatus c i b)"
| "account_step c ax (DeletePermanently i) = left (deletePermanently c i)"

type_synonym account_history = "(env \<times> auth_env \<times> account_op) list"

definition run_accounts :: "account_history \<Rightarrow> store \<Rightarrow> store" where
  "run_accounts history s = fold (\<lambda>(c, ax, op). account_step c ax op) history s"

section \<open>Any relation that the writes respect\<close>

text \<open>
  The services write the users and the refresh tokens through a few operations. A relation that those
  respect, and that ignores clients and generators, is respected by every request.
\<close>

locale account_relation = store_rel R for R :: "store \<Rightarrow> store \<Rightarrow> bool" +
  fixes ok :: "env \<Rightarrow> bool"
  assumes rel_clients: "R s (s\<lparr>clients := k\<rparr>)"
    and rel_draw: "R s (s\<lparr>next_rand := n\<rparr>)"
    and rel_id: "R s (s\<lparr>next_id := Suc (next_id s)\<rparr>)"
    and rel_create_user: "ok c \<Longrightarrow> (\<And>i. us_id (row i) = i) \<Longrightarrow> within R (create_user c row) s"
    and rel_update_user: "(\<And>u. us_id (f u) = us_id u) \<Longrightarrow> within R (update_user i f) s"
    and rel_revoke: "within R (revoke_tokens c p) s"
    and rel_revoke_one: "within R (revoke_token c i) s"
    and rel_store_token: "ok c \<Longrightarrow> within R (storeRefreshToken c userId token) s"
    and rel_tombstones: "within R (modify (\<lambda>s. s\<lparr>users := update_rows q (tombstone c) (users s)\<rparr>)) s"
begin

lemma hashPassword_rel: "within R (hashPassword ax p) s"
  using rel_draw by (simp add: within_def hashPassword_def draw_def)

lemma create_client_rel: "within R (create_client c dto) s"
  using rel_trans [OF rel_id rel_clients]
  by (simp add: within_def create_client_def bindA_def new_id_def modify_def ret_def Let_def)

lemma update_client_rel: "within R (update_client i f) s"
  using rel_clients rel_refl by (auto simp: within_def update_client_def act_simps split: option.splits)

lemma clients_rel: "within R (modify (\<lambda>s. s\<lparr>clients := g s\<rparr>)) s"
  using rel_clients by (simp add: within_def modify_def)

lemma delete_client_rel: "within R (delete_client i) s"
  unfolding delete_client_def by (intro within_bind_reads clients_rel)

lemma store_password_rel: "within R (store_password c i h) s"
  unfolding store_password_def by (intro within_transaction within_bind rel_update_user rel_revoke) simp

lemma rethrow_rel: "within R m s \<Longrightarrow> within R (rethrowKnownUniqueError m) s"
  unfolding rethrowKnownUniqueError_def by (intro within_catch within_throw)

lemma user_requests_rel:
  "ok c \<Longrightarrow> within R (createUser c ax dto) s" "within R (updateUser i ch) s" "within R (activateUser i) s"
  "within R (suspendUser i j) s" "within R (deleteUser c' i j) s" "within R (resetPassword c' ax i p) s"
  unfolding createUser_def updateUser_def activateUser_def suspendUser_def deleteUser_def resetPassword_def Let_def
  by (intro within_bind_reads within_bind hashPassword_rel rel_create_user rel_update_user within_if within_throw
      store_password_rel; simp)+

lemma session_requests_rel:
  assumes "ok c"
  shows "within R (login c ax n p) s" "within R (refresh c ax token) s" "within R (logout c token) s"
  unfolding login_def refresh_def logout_def Let_def
  by (intro within_bind_reads within_bind within_bind_gets rel_update_user rel_store_token within_ret within_option within_if
      within_throw within_transaction rel_revoke_one assms; simp)+

lemma client_requests_rel:
  "within R (createClient c dto) s" "within R (updateClient i ch) s" "within R (removeClient i) s"
  "within R (setActiveStatus c i b) s" "within R (deletePermanently c i) s"
  "within R (updateAccessAccount c i ac) s" "within R (resetAccessAccountPassword c ax i p) s"
proof -
  show "within R (createClient c dto) s" "within R (updateClient i ch) s" "within R (removeClient i) s"
    unfolding createClient_def updateClient_def removeClient_def
    by (intro within_bind_reads create_client_rel update_client_rel)+
  show "within R (setActiveStatus c i b) s"
    unfolding setActiveStatus_def
    by (intro within_bind_reads within_if within_ret within_bind within_transaction update_client_rel within_bind_gets rel_revoke)
  show "within R (deletePermanently c i) s"
    unfolding deletePermanently_def
    by (intro within_bind_reads within_if within_throw within_bind_gets within_catch within_transaction within_bind
        update_client_rel within_ret rel_revoke rel_tombstones delete_client_rel)
  show "within R (updateAccessAccount c i ac) s"
    unfolding updateAccessAccount_def Let_def
    by (intro within_if within_throw within_bind_reads rethrow_rel within_transaction within_bind rel_update_user rel_revoke
        within_ret) simp
  show "within R (resetAccessAccountPassword c ax i p) s"
    unfolding resetAccessAccountPassword_def by (intro within_bind_reads within_bind hashPassword_rel store_password_rel)
qed

lemma access_requests_rel:
  assumes "ok c"
  shows "within R (createWithAccessAccount c ax dto a) s" "within R (createAccessAccount c ax i a) s"
  unfolding createWithAccessAccount_def createAccessAccount_def Let_def
  by (intro within_bind hashPassword_rel rethrow_rel within_transaction within_bind_reads create_client_rel rel_create_user assms
      update_client_rel within_ret within_if within_throw within_bind_gets clients_rel; simp add: access_row_def)+

lemma step_rel: "ok c \<Longrightarrow> R s (account_step c ax op s)"
  using user_requests_rel session_requests_rel client_requests_rel access_requests_rel
  by (cases op) (simp_all add: left_def within_def)

lemma run_rel: "list_all (\<lambda>(c, ax, op). ok c) history \<Longrightarrow> R s (run_accounts history s)"
proof (induction history arbitrary: s)
  case Nil
  then show ?case by (simp add: run_accounts_def rel_refl)
next
  case (Cons x xs)
  obtain c ax op where x: "x = (c, ax, op)" by (cases x)
  then have "R s (account_step c ax op s)" using Cons.prems step_rel by simp
  moreover have "R (account_step c ax op s) (run_accounts xs (account_step c ax op s))"
    using Cons.IH Cons.prems by simp
  ultimately show ?case using x rel_trans by (simp add: run_accounts_def)
qed

end

section \<open>Logins stay unique\<close>

definition user_rows :: "env \<Rightarrow> nat \<Rightarrow> user_row list \<Rightarrow> bool" where
  "user_rows c n us = (distinct (map us_id us) \<and> (\<forall>u \<in> set us. \<exists>k < n. us_id u = cuid c k) \<and>
     (\<forall>u \<in> set us. \<forall>x \<in> set us. us_id u \<noteq> us_id x \<longrightarrow> \<not> same_login u x))"

definition user_inv :: "env \<Rightarrow> store \<Rightarrow> bool" where
  "user_inv c s = user_rows c (next_id s) (users s)"

lemma same_login_sym: "same_login u x = same_login x u"
  unfolding same_login_def by metis

lemma user_rows_mono: "user_rows c n us \<Longrightarrow> n \<le> m \<Longrightarrow> user_rows c m us"
  unfolding user_rows_def by (meson order_less_le_trans)

lemma user_rows_add:
  assumes "user_rows c n us" and "id_law c" and "us_id u = cuid c n" and "\<not> exists_row (same_login u) us"
  shows "user_rows c (Suc n) (append_row u us)"
proof -
  have "us_id x \<noteq> cuid c n" if "x \<in> set us" for x
    using assms(1,2) that by (auto simp: user_rows_def id_law_def inj_eq)
  moreover have "\<not> same_login u x \<and> \<not> same_login x u" if "x \<in> set us" for x
    using assms(4) that same_login_sym [of x u] by (simp add: exists_row_iff)
  ultimately show ?thesis
    using assms(1,3) unfolding user_rows_def set_append_row map_append_row by (auto simp: less_Suc_eq)
qed

lemma user_rows_map:
  assumes "user_rows c n us" and "\<And>u. us_id (f u) = us_id u"
    and "\<And>u x. u \<in> set us \<Longrightarrow> x \<in> set us \<Longrightarrow> us_id u \<noteq> us_id x \<Longrightarrow> \<not> same_login (f u) (f x)"
  shows "user_rows c n (map f us)"
  using assms by (auto simp: user_rows_def comp_def)

lemma user_rows_update:
  assumes "user_rows c n us" and "find_row (\<lambda>u. us_id u = i) us = Some u" and "\<And>x. us_id (f x) = us_id x"
    and "\<not> exists_row (\<lambda>x. us_id x \<noteq> i \<and> same_login (f u) x) us"
  shows "user_rows c n (update_by us_id i f us)"
proof -
  have u: "u \<in> set us" "us_id u = i" using find_row_Some [OF assms(2)] by auto
  have only: "x = u" if "x \<in> set us" "us_id x = i" for x
    using that assms(1) u distinct_key_inj [of us_id us x u] by (simp add: user_rows_def)
  show ?thesis
    unfolding update_by_def update_rows_def
  proof (rule user_rows_map [OF assms(1)])
    fix x y assume xy: "x \<in> set us" "y \<in> set us" "us_id x \<noteq> us_id y"
    show "\<not> same_login (if us_id x = i then f x else x) (if us_id y = i then f y else y)"
      using xy only assms(1,4) same_login_sym [of "f u"] by (auto simp: user_rows_def exists_row_iff)
  qed (simp add: assms(3))
qed

interpretation logins: account_relation "keeps (user_inv c)" "\<lambda>c'. id_law c \<and> cuid c' = cuid c" for c
proof unfold_locales
  show "keeps (user_inv c) s (s\<lparr>clients := k\<rparr>)" "keeps (user_inv c) s (s\<lparr>next_rand := n\<rparr>)" for s k n
    by (simp_all add: keeps_def user_inv_def)
  show "keeps (user_inv c) s (s\<lparr>next_id := Suc (next_id s)\<rparr>)" for s
    using user_rows_mono by (auto simp: keeps_def user_inv_def)
  show "within (keeps (user_inv c)) (create_user c' row) s"
    if "id_law c \<and> cuid c' = cuid c" "\<And>i. us_id (row i) = i" for c' row s
    using that user_rows_add [of c "next_id s" "users s" "row (cuid c (next_id s))"] user_rows_mono [of c "next_id s" "users s" "Suc (next_id s)"]
    by (auto simp: within_def keeps_def create_user_def bindA_def new_id_def gets_def throw_def modify_def ret_def user_inv_def)
  show "within (keeps (user_inv c)) (update_user i f) s" if "\<And>u. us_id (f u) = us_id u" for i f s
    using user_rows_update [of c "next_id s" "users s" i _ f] that
    by (auto simp: within_def keeps_def update_user_def act_simps user_inv_def find_user_def lookup_by_def split: option.splits)
  show "within (keeps (user_inv c)) (revoke_tokens c' p) s" "within (keeps (user_inv c)) (revoke_token c' i) s" for c' p i s
    by (simp_all add: within_def keeps_def revoke_tokens_def revoke_token_def modify_def user_inv_def)
  show "within (keeps (user_inv c)) (storeRefreshToken c' userId token) s" for c' userId token s
    using user_rows_mono [of c "next_id s" "users s" "Suc (next_id s)"]
    by (auto simp: within_def keeps_def storeRefreshToken_def bindA_def new_id_def gets_def throw_def modify_def user_inv_def)
  show "within (keeps (user_inv c)) (modify (\<lambda>s. s\<lparr>users := update_rows p (tombstone c') (users s)\<rparr>)) s" for p c' s
  proof -
    have "user_rows c (next_id s) (update_rows p (tombstone c') (users s))" if "user_rows c (next_id s) (users s)"
      unfolding update_rows_def using that
      by (rule user_rows_map) (use that in \<open>auto simp: tombstone_def same_login_def user_rows_def\<close>)
    then show ?thesis by (simp add: within_def keeps_def modify_def user_inv_def)
  qed
qed

section \<open>A token that has ended stays ended\<close>

definition ended :: "string \<Rightarrow> store \<Rightarrow> bool" where
  "ended h s = ((\<exists>t \<in> set (refreshTokens s). rt_tokenHash t = h) \<and>
     (\<forall>t \<in> set (refreshTokens s). rt_tokenHash t = h \<longrightarrow> rt_revokedAt t \<noteq> None))"

lemma ended_map:
  assumes "ended h s" and "\<And>t. rt_tokenHash (f t) = rt_tokenHash t" and "\<And>t. rt_revokedAt t \<noteq> None \<Longrightarrow> rt_revokedAt (f t) \<noteq> None"
  shows "ended h (s\<lparr>refreshTokens := map f (refreshTokens s)\<rparr>)"
  using assms by (simp add: ended_def)

interpretation ended: account_relation "keeps (ended h)" "\<lambda>c. True" for h
proof unfold_locales
  show "keeps (ended h) s (s\<lparr>clients := k\<rparr>)" "keeps (ended h) s (s\<lparr>next_rand := n\<rparr>)"
    "keeps (ended h) s (s\<lparr>next_id := Suc (next_id s)\<rparr>)" for s k n
    by (simp_all add: keeps_def ended_def)
  show "within (keeps (ended h)) (create_user c row) s" for c row s
    by (auto simp: within_def keeps_def create_user_def bindA_def new_id_def gets_def throw_def modify_def ret_def ended_def)
  show "within (keeps (ended h)) (update_user i f) s" for i f s
    by (auto simp: within_def keeps_def update_user_def act_simps ended_def split: option.splits)
  show "within (keeps (ended h)) (revoke_tokens c p) s" for c p s
    unfolding revoke_tokens_def
    by (auto simp: within_def keeps_def modify_def update_rows_def intro!: ended_map)
  show "within (keeps (ended h)) (revoke_token c i) s" for c i s
    unfolding revoke_token_def
    by (auto simp: within_def keeps_def modify_def update_by_def update_rows_def intro!: ended_map)
  show "within (keeps (ended h)) (storeRefreshToken c userId token) s" for c userId token s
    by (auto simp: within_def keeps_def storeRefreshToken_def bindA_def new_id_def gets_def throw_def modify_def ended_def
        exists_row_iff)
  show "within (keeps (ended h)) (modify (\<lambda>s. s\<lparr>users := update_rows p (tombstone c) (users s)\<rparr>)) s" for p c s
    by (simp add: within_def keeps_def modify_def ended_def)
qed

lemma ended_refused:
  assumes "ended (hashRefreshToken c token) s"
  shows "refresh c ax token s = (Inl (Unauthorized ''Invalid refresh token''), s)"
proof -
  have "rt_revokedAt t \<noteq> None" if "find_refresh_token (hashRefreshToken c token) s = Some t" for t
    using assms lookup_by_Some [of rt_tokenHash _ "refreshTokens s" t] that by (auto simp: find_refresh_token_def ended_def)
  then show ?thesis
    by (auto simp: refresh_def act_simps verifyRefreshToken_def usable_token_def split: option.splits)
qed

lemma ended_for_good:
  assumes "ended (hashRefreshToken c token) s" and "sha256_hex c' = sha256_hex c"
  shows "fst (refresh c' ax token (run_accounts history s)) = Inl (Unauthorized ''Invalid refresh token'')"
proof -
  have "keeps (ended (hashRefreshToken c token)) s (run_accounts history s)"
    by (rule ended.run_rel) (simp add: list_all_iff case_prod_beta)
  then have "ended (hashRefreshToken c' token) (run_accounts history s)"
    using assms by (simp add: keeps_def hashRefreshToken_def)
  then show ?thesis by (simp add: ended_refused)
qed

end
