(* ===== verification/AccountsProps.thy ===== *)
theory AccountsProps
  imports AccountsInv Sample
begin

text \<open>
  What the users, clients and authentication services promise: a refresh token is good for one use, ended
  sessions stay ended, locked accounts are refused everywhere, logins stay unique, and a purged client
  leaves nothing behind. The examples run on a store with one administrator and one client.
\<close>

section \<open>A sample\<close>

definition sample_ax :: auth_env where
  "sample_ax = \<lparr>ax_hash = (\<lambda>n p. ''#'' @ p), ax_compare = (\<lambda>p h. h = ''#'' @ p),
     ax_sign = (\<lambda>secret life sec p. secret @ int_text sec @ '':'' @ jp_sub p),
     ax_verify = (\<lambda>secret sec token. if take 1 token = secret
       then Some \<lparr>jp_sub = tl (dropWhile (\<lambda>d. d \<noteq> CHR '':'') token), jp_role = SUPER_ADMIN, jp_clientId = None\<rparr> else None),
     ax_accessSecret = ''a'', ax_refreshSecret = ''r''\<rparr>"

definition sample_admin :: user_row where
  "sample_admin = \<lparr>us_id = ''c0'', us_role = SUPER_ADMIN, us_status = US_ACTIVE, us_clientId = None, us_email = Some ''admin'',
     us_phone = None, us_passwordHash = ''#pw'', us_fullName = ''Admin'', us_lastLoginAt = None, us_deletedAt = None,
     us_createdAt = 0\<rparr>"

definition sample_viewer :: user_row where
  "sample_viewer = sample_admin\<lparr>us_id := ''c2'', us_role := CLIENT_VIEWER, us_clientId := Some ''c1'', us_email := Some ''viewer''\<rparr>"

definition sample_client :: client_row where
  "sample_client = \<lparr>cl_id = ''c1'', cl_name = ''Expo'', cl_contactName = None, cl_contactPhone = None, cl_contactEmail = None,
     cl_notes = None, cl_isActive = True, cl_primaryUserId = Some ''c2'', cl_createdAt = 0\<rparr>"

definition sample_accounts :: store where
  "sample_accounts = empty_store\<lparr>users := [sample_admin, sample_viewer], clients := [sample_client],
     refreshTokens := [\<lparr>rt_id = ''c3'', rt_userId = ''c2'', rt_tokenHash = ''r0:c2'', rt_revokedAt = None, rt_expiresAt = 2000\<rparr>],
     next_id := 4\<rparr>"

lemmas sample_account_defs = sample_accounts_def sample_client_def sample_viewer_def sample_admin_def sample_ax_def empty_store_def
  sample_env_def

lemma sample_cuid: "cuid sample_env n = CHR ''c'' # nat_text n"
  by (simp add: sample_env_def)

lemma sample_user_inv: "user_inv sample_env sample_accounts"
proof -
  have "\<exists>k < 4. ''c0'' = cuid sample_env k" "\<exists>k < 4. ''c2'' = cuid sample_env k"
    by (rule exI [of _ 0], code_simp) (rule exI [of _ 2], code_simp)
  then show ?thesis
    by (simp add: user_inv_def user_rows_def same_login_def sample_accounts_def sample_viewer_def sample_admin_def)
qed

section \<open>Refresh tokens\<close>

lemma ended_after_revoke:
  assumes "distinct (map rt_tokenHash (refreshTokens s))" and "t \<in> set (refreshTokens s)" and "rt_tokenHash t = h"
    and "\<And>x. rt_tokenHash (f x) = rt_tokenHash x" and "rt_revokedAt (f t) \<noteq> None"
  shows "ended h (s\<lparr>refreshTokens := map f (refreshTokens s)\<rparr>)"
proof -
  have "rt_revokedAt (f x) \<noteq> None" if "x \<in> set (refreshTokens s)" "rt_tokenHash x = h" for x
    using distinct_key_inj [OF assms(1) that(1) assms(2)] that assms(3,5) by simp
  then show ?thesis using assms(2-4) by (auto simp: ended_def)
qed

lemma refresh_ends:
  assumes "distinct (map rt_tokenHash (refreshTokens s))" and "refresh c ax token s = (Inr r, s')"
  shows "ended (hashRefreshToken c token) s'"
proof -
  let ?h = "hashRefreshToken c token"
  obtain t where t: "find_refresh_token ?h s = Some t"
    using assms(2) by (auto simp: refresh_def act_simps split: sum.splits option.splits if_splits)
  then have t': "t \<in> set (refreshTokens s)" "rt_tokenHash t = ?h"
    using lookup_by_Some [of rt_tokenHash ?h] by (auto simp: find_refresh_token_def)
  let ?s = "snd (revoke_token c (rt_id t) s)"
  have "ended ?h ?s"
    using ended_after_revoke [OF assms(1) t', of "\<lambda>x. if rt_id x = rt_id t then x\<lparr>rt_revokedAt := Some (now c)\<rparr> else x"]
    by (simp add: revoke_token_def modify_def update_by_def update_rows_def)
  moreover obtain a u where "storeRefreshToken c a u ?s = (Inr (), s')"
  proof -
    obtain w where "revoke_token c (rt_id t) s = (Inr w, ?s)" by (simp add: revoke_token_def modify_def)
    then show ?thesis using assms(2) t that
      by (auto simp: refresh_def act_simps Let_def transaction_def bindA_def split: sum.splits option.splits if_splits prod.splits)
  qed
  moreover have "within (keeps (ended ?h)) (storeRefreshToken c a u) ?s"
    by (rule ended.rel_store_token) simp
  ultimately show ?thesis by (simp add: within_def keeps_def)
qed

text \<open>C27: a refresh token is good for one refresh. Once it has been exchanged, no later history of requests to
  the users, clients and authentication services, whatever their outcomes, makes it acceptable again.\<close>

theorem refresh_token_used_once:
  assumes "distinct (map rt_tokenHash (refreshTokens s))" and "refresh c ax token s = (Inr r, s')"
    and "sha256_hex c' = sha256_hex c"
  shows "fst (refresh c' ax' token (run_accounts history s')) = Inl (Unauthorized ''Invalid refresh token'')"
  by (rule ended_for_good [OF refresh_ends [OF assms(1,2)] assms(3)])

lemma sample_refresh: "\<exists>r s'. refresh sample_env sample_ax ''r0:c2'' sample_accounts = (Inr r, s')"
  by (intro run_Inr) code_simp

lemma refresh_token_used_once_witness:
  "\<exists>s'. snd (refresh sample_env sample_ax ''r0:c2'' sample_accounts) = s' \<and>
    fst (refresh sample_env sample_ax ''r0:c2'' (run_accounts [(sample_env, sample_ax, Login ''viewer'' ''pw'')] s')) =
      Inl (Unauthorized ''Invalid refresh token'')"
proof -
  obtain r s' where r: "refresh sample_env sample_ax ''r0:c2'' sample_accounts = (Inr r, s')"
    using sample_refresh by blast
  have "distinct (map rt_tokenHash (refreshTokens sample_accounts))" by (simp add: sample_account_defs)
  from refresh_token_used_once [OF this r refl] show ?thesis using r by simp
qed

lemma client_sessions_end:
  assumes "setActiveStatus c i False s = (Inr (True, k), s')" and "distinct (map rt_tokenHash (refreshTokens s))"
    and "t \<in> set (refreshTokens s)" and "of_client i s (rt_userId t)"
  shows "ended (rt_tokenHash t) s'"
proof -
  obtain s1 where s1: "s1 = s\<lparr>clients := update_by cl_id i (\<lambda>k. k\<lparr>cl_isActive := False\<rparr>) (clients s)\<rparr>" by blast
  have "s' = snd (revoke_tokens c (of_client i s1) s1)"
    using assms(1) s1
    by (auto simp: setActiveStatus_def findOneClient_def update_client_def act_simps Let_def transaction_def bindA_def
        revoke_tokens_def modify_def ret_def gets_def throw_def split: sum.splits option.splits if_splits prod.splits)
  then have "s' = s1\<lparr>refreshTokens := map (\<lambda>t. if of_client i s1 (rt_userId t) \<and> rt_revokedAt t = None
      then t\<lparr>rt_revokedAt := Some (now c)\<rparr> else t) (refreshTokens s1)\<rparr>"
    by (simp add: revoke_tokens_def modify_def update_rows_def)
  then show ?thesis
    using ended_after_revoke [of s1 t "rt_tokenHash t" "\<lambda>t. if of_client i s1 (rt_userId t) \<and> rt_revokedAt t = None
        then t\<lparr>rt_revokedAt := Some (now c)\<rparr> else t"] assms(2-4) s1
    by (simp add: of_client_def)
qed

text \<open>Deactivating a client ends the sessions of its users for good. No refresh token that one of them held
  is accepted again, even after the client has been activated anew.\<close>

theorem deactivation_ends_sessions:
  assumes "setActiveStatus c i False s = (Inr (True, k), s')" and "distinct (map rt_tokenHash (refreshTokens s))"
    and "t \<in> set (refreshTokens s)" and "of_client i s (rt_userId t)" and "hashRefreshToken c' token = rt_tokenHash t"
  shows "fst (refresh c' ax token (run_accounts history s')) = Inl (Unauthorized ''Invalid refresh token'')"
  using ended_for_good [of c' token s' c'] client_sessions_end [OF assms(1-4)] assms(5) by simp

lemma sample_deactivation: "\<exists>k s'. setActiveStatus sample_env ''c1'' False sample_accounts = (Inr (True, k), s')"
proof -
  obtain b k s' where "setActiveStatus sample_env ''c1'' False sample_accounts = (Inr (b, k), s')" "b"
    by (simp add: setActiveStatus_def act_simps findOneClient_def found_def find_client_def lookup_by_def
        sample_account_defs transaction_def bindA_def update_client_def revoke_tokens_def modify_def ret_def gets_def)
  then show ?thesis by auto
qed

lemma deactivation_ends_sessions_witness:
  "\<exists>s'. snd (setActiveStatus sample_env ''c1'' False sample_accounts) = s' \<and>
    fst (refresh sample_env sample_ax ''r0:c2'' (run_accounts [(sample_env, sample_ax, SetActive ''c1'' True)] s')) =
      Inl (Unauthorized ''Invalid refresh token'')"
proof -
  obtain k s' where r: "setActiveStatus sample_env ''c1'' False sample_accounts = (Inr (True, k), s')"
    using sample_deactivation by blast
  let ?t = "hd (refreshTokens sample_accounts)"
  have "distinct (map rt_tokenHash (refreshTokens sample_accounts))" "?t \<in> set (refreshTokens sample_accounts)"
    "of_client ''c1'' sample_accounts (rt_userId ?t)" "hashRefreshToken sample_env ''r0:c2'' = rt_tokenHash ?t"
    by (simp_all add: of_client_def exists_row_def hashRefreshToken_def sample_account_defs)
  from deactivation_ends_sessions [OF r this] show ?thesis using r by simp
qed

section \<open>Locked accounts\<close>

lemma allowed_user_iff:
  "allowed_user s u \<longleftrightarrow> us_status u = US_ACTIVE \<and>
    (us_role u = CLIENT_VIEWER \<longrightarrow> truthy (us_clientId u) \<and> (\<exists>k. client_of u s = Some k \<and> cl_isActive k))"
  by (auto simp: allowed_user_def isAuthenticationAllowed_def client_of_def find_client_def split: option.splits
      dest: lookup_by_Some)

lemma refused_account: "find_user i s = Some u \<Longrightarrow> \<not> allowed_user s u \<Longrightarrow> current_account m i s = Inl (Unauthorized m)"
  by (simp add: current_account_def)

text \<open>An account that is not active, or whose client is missing or deactivated, is refused everywhere with
  one status code: no login, whatever the password, no new tokens for a refresh token, no account behind an
  access token that is still valid.\<close>

theorem locked_account_refused:
  assumes "find_user i s = Some u"
    and "us_status u \<noteq> US_ACTIVE \<or> us_role u = CLIENT_VIEWER \<and> (\<forall>k. client_of u s = Some k \<longrightarrow> \<not> cl_isActive k)"
  shows "findByEmailOrPhone identifier s = Some u \<Longrightarrow>
      login c ax identifier password s = (Inl (Unauthorized ''Invalid credentials''), s)"
    and "verifyRefreshToken c ax token = Inr payload \<Longrightarrow> jp_sub payload = i \<Longrightarrow>
      refresh c ax token s = (Inl (Unauthorized ''Invalid refresh token''), s)"
    and "ax_verify ax (ax_accessSecret ax) (now c div 1000) token = Some payload \<Longrightarrow> jp_sub payload = i \<Longrightarrow>
      validateAccess c ax token s = Inl (Unauthorized ''Invalid token'')"
    and "me i s = Inl (Unauthorized ''Invalid token'')"
proof -
  have no: "\<not> allowed_user s u" using assms(2) by (auto simp: allowed_user_iff)
  note refused = refused_account [OF assms(1) no]
  show "findByEmailOrPhone identifier s = Some u \<Longrightarrow>
      login c ax identifier password s = (Inl (Unauthorized ''Invalid credentials''), s)"
    using no by (simp add: login_def validateUserByEmailOrPhone_def act_simps)
  show "verifyRefreshToken c ax token = Inr payload \<Longrightarrow> jp_sub payload = i \<Longrightarrow>
      refresh c ax token s = (Inl (Unauthorized ''Invalid refresh token''), s)"
    using refused by (auto simp: refresh_def act_simps split: option.splits)
  show "ax_verify ax (ax_accessSecret ax) (now c div 1000) token = Some payload \<Longrightarrow> jp_sub payload = i \<Longrightarrow>
      validateAccess c ax token s = Inl (Unauthorized ''Invalid token'')"
    using refused by (simp add: validateAccess_def)
  show "me i s = Inl (Unauthorized ''Invalid token'')"
    using refused by (simp add: me_def)
qed

definition sample_locked :: store where
  "sample_locked = sample_accounts\<lparr>clients := [sample_client\<lparr>cl_isActive := False\<rparr>]\<rparr>"

lemma locked_account_refused_witness:
  "login sample_env sample_ax ''viewer'' ''pw'' sample_locked = (Inl (Unauthorized ''Invalid credentials''), sample_locked) \<and>
   refresh sample_env sample_ax ''r0:c2'' sample_locked = (Inl (Unauthorized ''Invalid refresh token''), sample_locked) \<and>
   validateAccess sample_env sample_ax ''a0:c2'' sample_locked = Inl (Unauthorized ''Invalid token'') \<and>
   me ''c2'' sample_locked = Inl (Unauthorized ''Invalid token'')"
proof -
  have u: "find_user ''c2'' sample_locked = Some sample_viewer" "findByEmailOrPhone ''viewer'' sample_locked = Some sample_viewer"
    by (simp_all add: find_user_def lookup_by_def findByEmailOrPhone_def has_identifier_def sample_locked_def sample_account_defs)
  have off: "us_status sample_viewer \<noteq> US_ACTIVE \<or> us_role sample_viewer = CLIENT_VIEWER \<and>
      (\<forall>k. client_of sample_viewer sample_locked = Some k \<longrightarrow> \<not> cl_isActive k)"
    by (simp add: client_of_def find_client_def lookup_by_def sample_locked_def sample_account_defs)
  let ?p = "\<lparr>jp_sub = ''c2'', jp_role = SUPER_ADMIN, jp_clientId = None\<rparr>"
  have "verifyRefreshToken sample_env sample_ax ''r0:c2'' = Inr ?p"
    "ax_verify sample_ax (ax_accessSecret sample_ax) (now sample_env div 1000) ''a0:c2'' = Some ?p"
    by (simp_all add: verifyRefreshToken_def sample_ax_def)
  then show ?thesis
    using locked_account_refused [OF u(1) off] u(2) by simp
qed

section \<open>Logins\<close>


definition sample_account_history :: account_history where
  "sample_account_history = [(sample_env, sample_ax, CreateUser \<lparr>ur_fullName = ''Ann'', ur_email = None, ur_phone = Some ''1'',
     ur_password = ''x'', ur_role = STAFF, ur_clientId = None\<rparr>), (sample_env, sample_ax, Login ''1'' ''x'')]"

lemma sample_account_users:
  "map us_id (users (run_accounts sample_account_history sample_accounts)) = [''c0'', ''c2'', ''c4'']"
  by code_simp


section \<open>Two logins in one second\<close>

lemma find_row_map: "(\<And>r. q (f r) = q r) \<Longrightarrow> find_row q (map f rows) = map_option f (find_row q rows)"
  by (induction rows) auto

lemma login_leaves:
  assumes "login c ax identifier password s = (Inr (a, tokens), s')"
  obtains u where "findByEmailOrPhone identifier s = Some u" and "allowed_user s u"
    and "ax_compare ax password (us_passwordHash u)" and "a = account_of u" and "tokens = issueTokens c ax a"
    and "users s' = update_by us_id (us_id u) (\<lambda>u. u\<lparr>us_lastLoginAt := Some (now c)\<rparr>) (users s)" and "clients s' = clients s"
    and "find_user (us_id u) s \<noteq> None" and "exists_row (\<lambda>t. rt_tokenHash t = hashRefreshToken c (snd tokens)) (refreshTokens s')"
proof -
  obtain u where u: "findByEmailOrPhone identifier s = Some u" "allowed_user s u"
      "ax_compare ax password (us_passwordHash u)"
    using assms by (auto simp: login_def act_simps validateUserByEmailOrPhone_def split: option.splits if_splits)
  then have "validateUserByEmailOrPhone ax identifier password s = Inr (account_of u)"
    by (simp add: validateUserByEmailOrPhone_def)
  moreover have "ac_id (account_of u) = us_id u" by (simp add: account_of_def)
  ultimately show ?thesis
    using assms u that
    by (auto simp: login_def act_simps Let_def bindA_def update_user_def storeRefreshToken_def new_id_def gets_def
        throw_def modify_def ret_def exists_row_iff split: option.splits if_splits sum.splits prod.splits)
qed

text \<open>C29: two logins of one user within one second collide. The tokens carry no nonce, so the second login signs
  the refresh token the first one has stored, and the unique hash refuses it: the request ends in the
  database's unique constraint error.\<close>

theorem same_second_token_collides:
  assumes "login c ax identifier password s = (Inr r, s')" and "now c' div 1000 = now c div 1000" and "sha256_hex c' = sha256_hex c"
  shows "fst (login c' ax identifier password s') = Inl UniqueViolation"
proof -
  obtain a tokens where r: "r = (a, tokens)" by (cases r)
  obtain u where u: "findByEmailOrPhone identifier s = Some u" "allowed_user s u" "ax_compare ax password (us_passwordHash u)"
      "a = account_of u" "tokens = issueTokens c ax a"
      "users s' = update_by us_id (us_id u) (\<lambda>u. u\<lparr>us_lastLoginAt := Some (now c)\<rparr>) (users s)" "clients s' = clients s"
      "find_user (us_id u) s \<noteq> None" "exists_row (\<lambda>t. rt_tokenHash t = hashRefreshToken c (snd tokens)) (refreshTokens s')"
    by (rule login_leaves [OF assms(1) [unfolded r]])
  let ?f = "\<lambda>x. if us_id x = us_id u then x\<lparr>us_lastLoginAt := Some (now c)\<rparr> else x"
  have rows: "users s' = map ?f (users s)" using u(6) by (simp add: update_by_def update_rows_def)
  have "findByEmailOrPhone identifier s' = Some (?f u)"
    using u(1) rows find_row_map [of "has_identifier identifier" ?f "users s"]
    by (simp add: findByEmailOrPhone_def has_identifier_def)
  moreover have "allowed_user s' (?f u)"
  proof -
    have "client_of (?f u) s' = client_of u s"
      using u(7) by (simp add: client_of_def find_client_def cong: option.case_cong)
    then show ?thesis using u(2) by (simp add: allowed_user_iff)
  qed
  ultimately have validated: "validateUserByEmailOrPhone ax identifier password s' = Inr a"
    using u(3,4) by (simp add: validateUserByEmailOrPhone_def account_of_def)
  obtain w where w: "find_user (ac_id a) s' = Some w"
    using u(4,8) rows find_row_map [of "\<lambda>x. us_id x = us_id u" ?f "users s"]
    by (auto simp: find_user_def lookup_by_def account_of_def)
  have "issueTokens c' ax a = tokens" using u(5) assms(2) by (simp add: issueTokens_def)
  then show ?thesis
    using validated w u(9) assms(3)
    by (simp add: login_def act_simps Let_def bindA_def update_user_def storeRefreshToken_def new_id_def gets_def throw_def
        modify_def ret_def hashRefreshToken_def)
qed

lemma sample_login: "\<exists>r s'. login sample_env sample_ax ''admin'' ''pw'' sample_accounts = (Inr r, s')"
  by (intro run_Inr) code_simp

lemma same_second_token_collides_witness:
  "fst (login sample_env sample_ax ''admin'' ''pw'' (snd (login sample_env sample_ax ''admin'' ''pw'' sample_accounts))) =
    Inl UniqueViolation"
proof -
  obtain r s' where r: "login sample_env sample_ax ''admin'' ''pw'' sample_accounts = (Inr r, s')"
    using sample_login by blast
  then show ?thesis using same_second_token_collides [OF r refl refl] by simp
qed

section \<open>Permanent deletion of a client\<close>

text \<open>A client that has been deleted for good leaves no reference behind: no row of the client, no user and
  no event of the client, its users are tombstones without email and phone, and their refresh tokens have
  ended.\<close>

theorem purge_leaves_no_reference:
  assumes "deletePermanently c i s = (Inr (), s')"
  shows "find_client i s' = None" and "\<forall>u \<in> set (users s'). us_clientId u \<noteq> Some i"
    and "\<forall>e \<in> set (events s'). ev_clientId e \<noteq> i"
    and "\<forall>u \<in> set (users s). us_clientId u = Some i \<longrightarrow> tombstone c u \<in> set (users s')"
    and "\<forall>t \<in> set (refreshTokens s'). of_client i s (rt_userId t) \<longrightarrow> rt_revokedAt t \<noteq> None"
proof -
  let ?ids = "map us_id (filter (\<lambda>u. us_clientId u = Some i) (users s))"
  obtain k where k: "find_client i s = Some k" "\<not> cl_isActive k" "count_rows (\<lambda>e. ev_clientId e = i) (events s) = 0"
    using assms by (auto simp: deletePermanently_def act_simps findOneClient_def found_def split: option.splits if_splits)
  have s': "s' = s\<lparr>clients := delete_rows (\<lambda>k. cl_id k = i) (update_by cl_id i (\<lambda>k. k\<lparr>cl_primaryUserId := None\<rparr>) (clients s)),
      refreshTokens := (if ?ids = [] then refreshTokens s else update_rows (\<lambda>t. rt_userId t \<in> set ?ids \<and> rt_revokedAt t = None)
        (\<lambda>t. t\<lparr>rt_revokedAt := Some (now c)\<rparr>) (refreshTokens s)),
      users := (if ?ids = [] then users s else update_rows (\<lambda>u. us_id u \<in> set ?ids) (tombstone c) (users s))\<rparr>"
    using assms k
    by (auto simp: deletePermanently_def act_simps findOneClient_def found_def catch_def transaction_def bindA_def
        update_client_def delete_client_def revoke_tokens_def modify_def gets_def ret_def reads_def throw_def guard_def
        split: sum.splits if_splits prod.splits)
  show "find_client i s' = None"
    by (auto simp: s' find_client_def lookup_by_None set_delete_rows)
  show "\<forall>u \<in> set (users s'). us_clientId u \<noteq> Some i"
    by (auto simp: s' set_update_rows tombstone_def filter_empty_conv)
  show "\<forall>e \<in> set (events s'). ev_clientId e \<noteq> i"
    using k(3) by (auto simp: s' count_rows_def filter_empty_conv)
  show "\<forall>u \<in> set (users s). us_clientId u = Some i \<longrightarrow> tombstone c u \<in> set (users s')"
    by (auto simp: s' set_update_rows filter_empty_conv intro!: rev_image_eqI)
  show "\<forall>t \<in> set (refreshTokens s'). of_client i s (rt_userId t) \<longrightarrow> rt_revokedAt t \<noteq> None"
    by (auto simp: s' set_update_rows filter_empty_conv of_client_def exists_row_iff)
      (metis (mono_tags, lifting) image_eqI mem_Collect_eq)
qed

definition sample_closed :: store where
  "sample_closed = sample_locked\<lparr>events := []\<rparr>"

lemma sample_purge: "\<exists>s'. deletePermanently sample_env ''c1'' sample_closed = (Inr (), s')"
proof -
  have "\<exists>a s'. deletePermanently sample_env ''c1'' sample_closed = (Inr a, s')"
    by (intro run_Inr) code_simp
  then show ?thesis by simp
qed

lemma purge_leaves_no_reference_witness: "find_client ''c1'' (snd (deletePermanently sample_env ''c1'' sample_closed)) = None"
proof -
  obtain s' where s': "deletePermanently sample_env ''c1'' sample_closed = (Inr (), s')" using sample_purge by blast
  then show ?thesis using purge_leaves_no_reference(1) [OF s'] by simp
qed

end
