(* ===== verification/StaffSessions.thy ===== *)
theory StaffSessions
  imports Sample
begin

text \<open>
  \<open>src/modules/staff-sessions/staff-sessions.service.ts\<close>: a member of staff opens a scanner session on
  the device and at the checkpoint of an active assignment, or takes up the one already open, and
  ends it. A user has at most one \<open>ACTIVE\<close> session, and so has a device within an event.

  The answers are the session rows; the names that the responses join to them are left out.
\<close>

section \<open>Guards\<close>

record auth_user =
  au_id :: id
  au_role :: user_role

record start_dto =
  st_eventId :: id
  st_staffUserId :: "id option"
  st_deviceId :: id
  st_checkpointId :: id
  st_mode :: scan_mode
  st_metadata :: "json option"

definition resolveStaffUserId :: "auth_user \<Rightarrow> id option \<Rightarrow> id res" where
  "resolveStaffUserId currentUser staffUserId = (case au_role currentUser of
     STAFF \<Rightarrow> if truthy staffUserId \<and> staffUserId \<noteq> Some (au_id currentUser)
       then Inl (Forbidden ''STAFF cannot start a session for another user'') else Inr (au_id currentUser)
   | SUPER_ADMIN \<Rightarrow> if \<not> truthy staffUserId then Inl (BadRequest ''staffUserId is required for SUPER_ADMIN'')
       else Inr (the staffUserId)
   | _ \<Rightarrow> Inl (Forbidden ''Only STAFF or SUPER_ADMIN can start sessions''))"

definition ensureStaffUser :: "id \<Rightarrow> store \<Rightarrow> user_row res" where
  "ensureStaffUser userId s = (case find_user userId s of
     None \<Rightarrow> Inl (NotFound ''User not found'')
   | Some u \<Rightarrow>
       if us_role u \<noteq> STAFF then Inl (BadRequest ''User must have STAFF role'')
       else if us_status u \<noteq> US_ACTIVE then Inl (BadRequest ''Staff user must be ACTIVE'')
       else Inr u)"

definition find_assignment :: "id \<Rightarrow> id \<Rightarrow> store \<Rightarrow> staff_assignment option" where
  "find_assignment eventId userId s =
    find_row (\<lambda>a. sa_eventId a = eventId \<and> sa_userId a = userId) (staffAssignments s)"

definition ensureActiveAssignmentBinding :: "id \<Rightarrow> id \<Rightarrow> id \<Rightarrow> id \<Rightarrow> store \<Rightarrow> staff_assignment res" where
  "ensureActiveAssignmentBinding eventId staffUserId deviceId checkpointId s =
    (case find_assignment eventId staffUserId s of
       None \<Rightarrow> Inl (BadRequest ''Staff user must have an active assignment for this event'')
     | Some a \<Rightarrow>
         if \<not> sa_isActive a then Inl (BadRequest ''Staff user must have an active assignment for this event'')
         else if \<not> truthy (sa_deviceId a) then Inl (BadRequest ''Staff assignment does not include a device'')
         else if \<not> truthy (sa_checkpointId a)
         then Inl (BadRequest ''Staff assignment does not include a checkpoint'')
         else if sa_deviceId a \<noteq> Some deviceId
         then Inl (BadRequest ''Session device must match the staff assignment device'')
         else if sa_checkpointId a \<noteq> Some checkpointId
         then Inl (BadRequest ''Session checkpoint must match the staff assignment checkpoint'')
         else Inr a)"

definition ensureActiveCheckpointBelongsToEvent :: "id \<Rightarrow> id \<Rightarrow> store \<Rightarrow> checkpoint res" where
  "ensureActiveCheckpointBelongsToEvent checkpointId eventId s =
    (case find_checkpoint checkpointId s of
       None \<Rightarrow> Inl (NotFound ''Checkpoint not found'')
     | Some cp \<Rightarrow>
         if cp_eventId cp \<noteq> eventId then Inl (BadRequest ''Checkpoint must belong to the same event'')
         else if \<not> cp_isActive cp then Inl (BadRequest ''Checkpoint must be active'')
         else Inr cp)"

fun resolveModeForCheckpoint :: "checkpoint_type \<Rightarrow> scan_mode" where
  "resolveModeForCheckpoint CP_ENTRY = MODE_ENTRY"
| "resolveModeForCheckpoint CP_EXIT = MODE_EXIT"
| "resolveModeForCheckpoint CP_BOOTH = MODE_BOOTH_VISIT"
| "resolveModeForCheckpoint CP_SESSION_ROOM = MODE_SESSION_ATTENDANCE"
| "resolveModeForCheckpoint CP_VIP_AREA = MODE_VIP_ACCESS"
| "resolveModeForCheckpoint _ = MODE_CHECKPOINT"

text \<open>The name of a mode, for the message.\<close>

fun mode_name :: "scan_mode \<Rightarrow> string" where
  "mode_name MODE_ENTRY = ''ENTRY''" | "mode_name MODE_EXIT = ''EXIT''"
| "mode_name MODE_CHECKPOINT = ''CHECKPOINT''" | "mode_name MODE_BOOTH_VISIT = ''BOOTH_VISIT''"
| "mode_name MODE_SESSION_ATTENDANCE = ''SESSION_ATTENDANCE''" | "mode_name MODE_VIP_ACCESS = ''VIP_ACCESS''"

section \<open>Starting\<close>

definition is_active :: "staff_session \<Rightarrow> bool" where
  "is_active x = (ss_status x = SES_ACTIVE)"

text \<open>\<open>updateMany\<close> to \<open>ENDED\<close>.\<close>

definition end_sessions :: "env \<Rightarrow> (staff_session \<Rightarrow> bool) \<Rightarrow> (store, unit) act" where
  "end_sessions c p = modify (\<lambda>s. s\<lparr>staffSessions :=
     update_rows (\<lambda>x. p x \<and> is_active x) (\<lambda>x. x\<lparr>ss_status := SES_ENDED, ss_endedAt := Some (now c)\<rparr>)
       (staffSessions s)\<rparr>)"

definition create_session :: "env \<Rightarrow> (id \<Rightarrow> staff_session) \<Rightarrow> (store, staff_session) act" where
  "create_session c row = bindA (new_id c) (\<lambda>i.
     bindA (modify (\<lambda>s. s\<lparr>staffSessions := append_row (row i) (staffSessions s)\<rparr>)) (\<lambda>_. ret (row i)))"

definition seen_device :: "env \<Rightarrow> id \<Rightarrow> (store, unit) act" where
  "seen_device c deviceId = modify (\<lambda>s. s\<lparr>devices :=
     update_by dv_id deviceId (\<lambda>d. d\<lparr>dv_lastSeenAt := Some (now c)\<rparr>) (devices s)\<rparr>)"

text \<open>The transaction of \<open>start\<close>.\<close>

definition openSession :: "env \<Rightarrow> id \<Rightarrow> scan_mode \<Rightarrow> start_dto \<Rightarrow> (store, staff_session) act" where
  "openSession c staffUserId mode dto = transaction (
     bindA (end_sessions c (\<lambda>x. ss_staffUserId x = staffUserId)) (\<lambda>_.
     bindA (end_sessions c (\<lambda>x. ss_eventId x = st_eventId dto \<and> ss_deviceId x = st_deviceId dto)) (\<lambda>_.
     bindA (create_session c (\<lambda>i. \<lparr>ss_id = i, ss_eventId = st_eventId dto, ss_staffUserId = staffUserId,
       ss_deviceId = st_deviceId dto, ss_checkpointId = st_checkpointId dto, ss_mode = mode,
       ss_status = SES_ACTIVE, ss_startedAt = now c, ss_endedAt = None, ss_lastSeenAt = Some (now c),
       ss_metadata = (case st_metadata dto of None \<Rightarrow> JNull | Some j \<Rightarrow> j)\<rparr>)) (\<lambda>staffSession.
     bindA (seen_device c (st_deviceId dto)) (\<lambda>_. ret staffSession)))))"

definition start :: "env \<Rightarrow> auth_user \<Rightarrow> start_dto \<Rightarrow> (store, staff_session) act" where
  "start c currentUser dto =
    bindA (reads (\<lambda>_. resolveStaffUserId currentUser (st_staffUserId dto))) (\<lambda>staffUserId.
    bindA (reads (ensureEventCanBeModified (st_eventId dto))) (\<lambda>_.
    bindA (reads (ensureStaffUser staffUserId)) (\<lambda>_.
    bindA (reads (ensureActiveDevice (st_deviceId dto) (st_eventId dto))) (\<lambda>device.
    bindA (reads (ensureActiveCheckpointBelongsToEvent (st_checkpointId dto) (st_eventId dto))) (\<lambda>checkpoint.
    bindA (reads (ensureActiveAssignmentBinding (st_eventId dto) staffUserId (dv_id device) (cp_id checkpoint)))
      (\<lambda>_. let expectedMode = resolveModeForCheckpoint (cp_type checkpoint) in
    if st_mode dto \<noteq> expectedMode
    then throw (BadRequest (''Staff session mode must match checkpoint type. Expected '' @ mode_name expectedMode))
    else openSession c staffUserId expectedMode dto))))))"

text \<open>
  \<open>findFirst\<close> with an order: descending, the null last, as the database sorts. Rows that agree on
  the order come in the order of insertion, which the database leaves open.
\<close>

definition latest_assignment :: "id \<Rightarrow> store \<Rightarrow> staff_assignment option" where
  "latest_assignment userId s = find_row (\<lambda>a. sa_userId a = userId \<and> sa_isActive a)
     (sort_key (\<lambda>a. - sa_updatedAt a) (staffAssignments s))"

definition reusable_session :: "id \<Rightarrow> id \<Rightarrow> id \<Rightarrow> id \<Rightarrow> scan_mode \<Rightarrow> staff_session \<Rightarrow> bool" where
  "reusable_session eventId userId deviceId checkpointId mode x =
    (ss_eventId x = eventId \<and> ss_staffUserId x = userId \<and> ss_deviceId x = deviceId \<and>
     ss_checkpointId x = checkpointId \<and> ss_mode x = mode \<and> is_active x \<and> ss_endedAt x = None)"

definition recent_first :: "staff_session list \<Rightarrow> staff_session list" where
  "recent_first rows = sort_key (\<lambda>x. ss_lastSeenAt x = None)
     (sort_key (\<lambda>x. case ss_lastSeenAt x of None \<Rightarrow> 0 | Some t \<Rightarrow> - t) (sort_key (\<lambda>x. - ss_startedAt x) rows))"

text \<open>The sessions that must end when a session is taken up again.\<close>

definition competes :: "id \<Rightarrow> id \<Rightarrow> id \<Rightarrow> id \<Rightarrow> staff_session \<Rightarrow> bool" where
  "competes sessionId userId eventId deviceId x = (ss_id x \<noteq> sessionId \<and>
     (ss_staffUserId x = userId \<or> ss_eventId x = eventId \<and> (blank deviceId \<or> ss_deviceId x = trim deviceId)))"

definition reuseSession :: "env \<Rightarrow> id \<Rightarrow> id \<Rightarrow> id \<Rightarrow> id \<Rightarrow> staff_session \<Rightarrow> (store, staff_session) act" where
  "reuseSession c userId assignmentId eventId deviceId session =
    (let refreshed = (\<lambda>x. x\<lparr>ss_lastSeenAt := Some (now c), ss_metadata :=
       JObj [(''source'', JStr ''START_MY_SESSION_REUSED''), (''assignmentId'', JStr assignmentId)]\<rparr>) in
     transaction (
       bindA (end_sessions c (competes (ss_id session) userId eventId deviceId)) (\<lambda>_.
       bindA (modify (\<lambda>s. s\<lparr>staffSessions := update_by ss_id (ss_id session) refreshed (staffSessions s)\<rparr>)) (\<lambda>_.
       bindA (seen_device c deviceId) (\<lambda>_. ret (refreshed session))))))"

definition startMySession :: "env \<Rightarrow> auth_user \<Rightarrow> (store, staff_session) act" where
  "startMySession c currentUser =
    (if au_role currentUser \<noteq> STAFF then throw (Forbidden ''Only STAFF can start their own scanner session'')
     else
       bindA (reads (ensureStaffUser (au_id currentUser))) (\<lambda>_.
       bindA (gets (latest_assignment (au_id currentUser))) (\<lambda>found. case found of
         None \<Rightarrow> throw (NotFound ''No active staff assignment found'')
       | Some a \<Rightarrow>
           bindA (gets (\<lambda>s. if truthy (sa_checkpointId a) then find_checkpoint (the (sa_checkpointId a)) s else None))
             (\<lambda>checkpoint.
           bindA (gets (\<lambda>s. if truthy (sa_deviceId a) then find_device (the (sa_deviceId a)) s else None))
             (\<lambda>device. case checkpoint of
             None \<Rightarrow> throw (BadRequest ''Active staff assignment must include checkpointId'')
           | Some cp \<Rightarrow> (case device of
               None \<Rightarrow> throw (BadRequest ''Active staff assignment must include deviceId'')
             | Some d \<Rightarrow>
                 if \<not> cp_isActive cp then throw (BadRequest ''Assigned checkpoint must be active'')
                 else if dv_status d \<noteq> DEV_ACTIVE then throw (BadRequest ''Assigned device must be ACTIVE'')
                 else
                   let mode = resolveModeForCheckpoint (cp_type cp);
                       deviceId = the (sa_deviceId a); checkpointId = the (sa_checkpointId a) in
                   bindA (gets (\<lambda>s. find_row (reusable_session (sa_eventId a) (au_id currentUser) deviceId
                     checkpointId mode) (recent_first (staffSessions s)))) (\<lambda>reusable. case reusable of
                     Some session \<Rightarrow>
                       reuseSession c (au_id currentUser) (sa_id a) (sa_eventId a) deviceId session
                   | None \<Rightarrow>
                       start c currentUser \<lparr>st_eventId = sa_eventId a, st_staffUserId = Some (au_id currentUser),
                         st_deviceId = deviceId, st_checkpointId = checkpointId, st_mode = mode,
                         st_metadata = Some (JObj [(''source'', JStr ''START_MY_SESSION''),
                           (''assignmentId'', JStr (sa_id a))])\<rparr>)))))))"

section \<open>Ending\<close>

definition endMySession :: "env \<Rightarrow> auth_user \<Rightarrow> (store, nat) act" where
  "endMySession c currentUser =
    (if au_role currentUser \<noteq> STAFF then throw (Forbidden ''Only STAFF can end their own scanner session'')
     else
       bindA (gets (\<lambda>s. filter (\<lambda>x. ss_staffUserId x = au_id currentUser \<and> is_active x) (staffSessions s)))
         (\<lambda>activeSessions.
       if activeSessions = [] then ret 0
       else
         bindA (gets (\<lambda>s. count_rows (\<lambda>x. ss_id x \<in> ss_id ` set activeSessions \<and> is_active x) (staffSessions s)))
           (\<lambda>count.
         bindA (end_sessions c (\<lambda>x. ss_id x \<in> ss_id ` set activeSessions)) (\<lambda>_. ret count))))"

definition findOne :: "id \<Rightarrow> store \<Rightarrow> staff_session res" where
  "findOne i s = (case find_session i s of None \<Rightarrow> Inl (NotFound ''Staff session not found'') | Some x \<Rightarrow> Inr x)"

definition end_session :: "env \<Rightarrow> id \<Rightarrow> (store, staff_session) act" where
  "end_session c i =
    bindA (reads (findOne i)) (\<lambda>x.
    if ss_status x = SES_ENDED then ret x
    else
      let ended = (\<lambda>y. y\<lparr>ss_status := SES_ENDED, ss_endedAt := Some (now c)\<rparr>) in
      bindA (modify (\<lambda>s. s\<lparr>staffSessions := update_by ss_id i ended (staffSessions s)\<rparr>)) (\<lambda>_. ret (ended x)))"

definition remove_session :: "env \<Rightarrow> id \<Rightarrow> (store, staff_session) act" where
  "remove_session c i = end_session c i"

section \<open>The invariant\<close>

definition same_user :: "id \<Rightarrow> staff_session \<Rightarrow> bool" where
  "same_user u x = (is_active x \<and> ss_staffUserId x = u)"

definition same_device :: "id \<Rightarrow> id \<Rightarrow> staff_session \<Rightarrow> bool" where
  "same_device e d x = (is_active x \<and> ss_eventId x = e \<and> ss_deviceId x = d)"

definition session_rows :: "env \<Rightarrow> nat \<Rightarrow> staff_session list \<Rightarrow> bool" where
  "session_rows c n rows = (distinct (map ss_id rows) \<and> (\<forall>x \<in> set rows. \<exists>k < n. ss_id x = cuid c k) \<and>
     (\<forall>x \<in> set rows. is_active x \<longrightarrow> ss_endedAt x = None) \<and>
     (\<forall>u. count_rows (same_user u) rows \<le> 1) \<and> (\<forall>e d. count_rows (same_device e d) rows \<le> 1))"

definition session_inv :: "env \<Rightarrow> store \<Rightarrow> bool" where
  "session_inv c s = session_rows c (next_id s) (staffSessions s)"

text \<open>Rewriting rows to rows that count no more.\<close>

lemma count_update:
  assumes "\<And>x. x \<in> set rows \<Longrightarrow> p x \<Longrightarrow> q (f x) \<Longrightarrow> q x"
  shows "count_rows q (update_rows p f rows) \<le> count_rows q rows"
  using assms by (induction rows) (fastforce simp: count_rows_def update_rows_def)+

lemma rows_update:
  assumes "session_rows c n rows"
    and "\<And>x. x \<in> set rows \<Longrightarrow> p x \<Longrightarrow> ss_id (f x) = ss_id x \<and> ss_staffUserId (f x) = ss_staffUserId x \<and> ss_eventId (f x) = ss_eventId x \<and>
      ss_deviceId (f x) = ss_deviceId x \<and> (is_active (f x) \<longrightarrow> is_active x \<and> ss_endedAt (f x) = ss_endedAt x)"
  shows "session_rows c n (update_rows p f rows)"
proof -
  have "count_rows (same_user u) (update_rows p f rows) \<le> count_rows (same_user u) rows" for u
    using assms(2) by (intro count_update) (auto simp: same_user_def)
  moreover have "count_rows (same_device e d) (update_rows p f rows) \<le> count_rows (same_device e d) rows" for e d
    using assms(2) by (intro count_update) (auto simp: same_device_def)
  moreover have "map ss_id (update_rows p f rows) = map ss_id rows" using assms(2) by (intro map_update_rows) blast
  moreover have "(\<exists>k < n. ss_id y = cuid c k) \<and> (is_active y \<longrightarrow> ss_endedAt y = None)"
    if "y \<in> set (update_rows p f rows)" for y
  proof -
    from that obtain x where "x \<in> set rows" "y = (if p x then f x else x)" by (auto simp: set_update_rows)
    then show ?thesis using assms by (cases "p x") (simp_all add: session_rows_def)
  qed
  ultimately show ?thesis
    using assms(1) unfolding session_rows_def by (metis le_trans)
qed

definition ended :: "env \<Rightarrow> (staff_session \<Rightarrow> bool) \<Rightarrow> staff_session list \<Rightarrow> staff_session list" where
  "ended c p rows = update_rows (\<lambda>x. p x \<and> is_active x)
     (\<lambda>x. x\<lparr>ss_status := SES_ENDED, ss_endedAt := Some (now c)\<rparr>) rows"

lemma rows_ended: "session_rows c n rows \<Longrightarrow> session_rows c n (ended c p rows)"
  unfolding ended_def by (rule rows_update) (auto simp: is_active_def)

text \<open>Once the sessions with a property have ended, none is active.\<close>

lemma ended_none: "x \<in> set (ended c p rows) \<Longrightarrow> is_active x \<Longrightarrow> \<not> p x \<or> x \<notin> set rows"
  by (auto simp: ended_def set_update_rows is_active_def split: if_split_asm)

lemma ended_active: "x \<in> set (ended c p rows) \<Longrightarrow> is_active x \<Longrightarrow> x \<in> set rows \<and> \<not> p x"
  by (auto simp: ended_def set_update_rows is_active_def split: if_split_asm)

lemma rows_opened:
  assumes "session_rows c n rows" and "id_law c" and "ss_id x = cuid c n" and "ss_endedAt x = None"
    and "\<And>y. y \<in> set rows \<Longrightarrow> is_active y \<Longrightarrow> ss_staffUserId y \<noteq> ss_staffUserId x"
    and "\<And>y. y \<in> set rows \<Longrightarrow> is_active y \<Longrightarrow> ss_eventId y = ss_eventId x \<Longrightarrow> ss_deviceId y \<noteq> ss_deviceId x"
  shows "session_rows c (Suc n) (append_row x rows)"
proof -
  have zero: "count_rows q rows = 0" if "\<And>y. y \<in> set rows \<Longrightarrow> \<not> q y" for q
    using that by (auto simp: count_rows_def filter_empty_conv)
  have "count_rows (same_user u) (append_row x rows) \<le> 1" for u
    using assms(1,5) zero [of "same_user u"]
    by (cases "same_user u x") (auto simp: session_rows_def count_rows_def append_row_def same_user_def)
  moreover have "count_rows (same_device e d) (append_row x rows) \<le> 1" for e d
    using assms(1,6) zero [of "same_device e d"]
    by (cases "same_device e d x") (auto simp: session_rows_def count_rows_def append_row_def same_device_def)
  moreover have "ss_id y \<noteq> cuid c n" if "y \<in> set rows" for y
    using assms(1,2) that by (auto simp: session_rows_def id_law_def inj_eq)
  ultimately show ?thesis
    using assms by (auto simp: session_rows_def less_Suc_eq)
qed

section \<open>Runs\<close>

lemma end_sessions_run: "end_sessions c p s = (Inr (), s\<lparr>staffSessions := ended c p (staffSessions s)\<rparr>)"
  by (simp add: end_sessions_def modify_def ended_def)

definition opened_row :: "env \<Rightarrow> id \<Rightarrow> scan_mode \<Rightarrow> start_dto \<Rightarrow> id \<Rightarrow> staff_session" where
  "opened_row c u mode dto i = \<lparr>ss_id = i, ss_eventId = st_eventId dto, ss_staffUserId = u,
       ss_deviceId = st_deviceId dto, ss_checkpointId = st_checkpointId dto, ss_mode = mode,
       ss_status = SES_ACTIVE, ss_startedAt = now c, ss_endedAt = None, ss_lastSeenAt = Some (now c),
       ss_metadata = (case st_metadata dto of None \<Rightarrow> JNull | Some j \<Rightarrow> j)\<rparr>"

definition cleared :: "env \<Rightarrow> id \<Rightarrow> start_dto \<Rightarrow> staff_session list \<Rightarrow> staff_session list" where
  "cleared c u dto rows = ended c (\<lambda>x. ss_eventId x = st_eventId dto \<and> ss_deviceId x = st_deviceId dto)
     (ended c (\<lambda>x. ss_staffUserId x = u) rows)"

lemma openSession_run:
  "openSession c u mode dto s = (Inr (opened_row c u mode dto (cuid c (next_id s))),
     s\<lparr>staffSessions := append_row (opened_row c u mode dto (cuid c (next_id s))) (cleared c u dto (staffSessions s)),
       devices := update_by dv_id (st_deviceId dto) (\<lambda>d. d\<lparr>dv_lastSeenAt := Some (now c)\<rparr>) (devices s),
       next_id := Suc (next_id s)\<rparr>)"
  by (simp add: openSession_def transaction_def bindA_def end_sessions_run create_session_def new_id_def modify_def
        ret_def seen_device_def opened_row_def cleared_def)

lemma open_keeps:
  assumes "session_inv c s" and "id_law c"
  shows "session_inv c (snd (openSession c u mode dto s))"
proof -
  let ?x = "opened_row c u mode dto (cuid c (next_id s))"
  have "session_rows c (Suc (next_id s)) (append_row ?x (cleared c u dto (staffSessions s)))"
  proof (rule rows_opened)
    show "session_rows c (next_id s) (cleared c u dto (staffSessions s))"
      using assms(1) by (simp add: cleared_def rows_ended session_inv_def)
  qed (use assms(2) in \<open>auto simp: opened_row_def cleared_def dest!: ended_active\<close>)
  then show ?thesis by (simp add: openSession_run session_inv_def)
qed

lemma keeps_open: "id_law c \<Longrightarrow> within (keeps (session_inv c)) (openSession c u mode dto) s"
  using open_keeps by (simp add: within_def keeps_def)

lemma keeps_start: "id_law c \<Longrightarrow> within (keeps (session_inv c)) (start c u dto) s"
  unfolding start_def Let_def by (intro keeps.within_rules keeps_open)

lemma start_Inr:
  assumes "start c u dto s = (Inr x, t)"
  obtains userId event user device cp a where "openSession c userId (st_mode dto) dto s = (Inr x, t)"
      "resolveStaffUserId u (st_staffUserId dto) = Inr userId" "ensureEventCanBeModified (st_eventId dto) s = Inr event"
      "ensureStaffUser userId s = Inr user" "ensureActiveDevice (st_deviceId dto) (st_eventId dto) s = Inr device"
      "ensureActiveCheckpointBelongsToEvent (st_checkpointId dto) (st_eventId dto) s = Inr cp"
      "ensureActiveAssignmentBinding (st_eventId dto) userId (dv_id device) (cp_id cp) s = Inr a"
      "st_mode dto = resolveModeForCheckpoint (cp_type cp)"
  using assms unfolding start_def Let_def
  by (auto simp: bindA_reads throw_def split: sum.splits if_splits)

lemma keeps_reuse: "within (keeps (session_inv c)) (reuseSession c u a e d x) s"
proof -
  have "session_rows c n (update_by ss_id i (\<lambda>x. x\<lparr>ss_lastSeenAt := t, ss_metadata := m\<rparr>) (ended c p rows))"
    if "session_rows c n rows" for n i t m p rows
    unfolding update_by_def by (intro rows_update rows_ended that) (auto simp: is_active_def)
  then show ?thesis
    by (simp add: within_def keeps_def reuseSession_def Let_def transaction_def bindA_def end_sessions_run modify_def
          ret_def seen_device_def session_inv_def)
qed

lemma keeps_startMy: "id_law c \<Longrightarrow> within (keeps (session_inv c)) (startMySession c u) s"
  unfolding startMySession_def Let_def
  by (intro keeps.within_rules keeps_start keeps_reuse impI allI)

lemma keeps_end_sessions: "within (keeps (session_inv c)) (end_sessions c p) s"
  by (simp add: within_def keeps_def end_sessions_run session_inv_def rows_ended)

lemma keeps_endMy: "within (keeps (session_inv c)) (endMySession c u) s"
  unfolding endMySession_def
  by (intro keeps.within_rules keeps.within_bind keeps_end_sessions)

lemma keeps_end: "within (keeps (session_inv c)) (end_session c i) s"
proof -
  have "session_rows c n (update_by ss_id j (\<lambda>y. y\<lparr>ss_status := SES_ENDED, ss_endedAt := t\<rparr>) rows)"
    if "session_rows c n rows" for n j t rows
    unfolding update_by_def by (intro rows_update that) (auto simp: is_active_def)
  then show ?thesis
    unfolding end_session_def Let_def
    by (intro keeps.within_rules keeps.within_bind) (auto simp: keeps_def session_inv_def)
qed

section \<open>Properties\<close>

text \<open>C7: Sessions stay exclusive: whatever \<open>start\<close>, \<open>startMySession\<close>, \<open>endMySession\<close> and \<open>end\<close> do, on every
  branch and exception, no user has two \<open>ACTIVE\<close> sessions, no device has two within an event, an
  \<open>ACTIVE\<close> session has no end, and ids are unique.\<close>

theorem sessions_stay_exclusive:
  assumes "id_law c" and "session_inv c s"
  shows "session_inv c (snd (start c u dto s)) \<and> session_inv c (snd (startMySession c u s)) \<and>
    session_inv c (snd (endMySession c u s)) \<and> session_inv c (snd (end_session c i s))"
  using keeps_start [OF assms(1)] keeps_startMy [OF assms(1)] keeps_endMy keeps_end assms(2)
  by (simp add: within_def keeps_def)

definition sample_staff :: store where
  "sample_staff = sample_regs\<lparr>users := [\<lparr>us_id = ''u1'', us_role = STAFF, us_status = US_ACTIVE,
       us_clientId = None, us_email = Some ''u@x'', us_phone = None, us_passwordHash = ''h'', us_fullName = ''Uma'',
       us_lastLoginAt = None, us_deletedAt = None, us_createdAt = 0\<rparr>],
     staffAssignments := [\<lparr>sa_id = ''as1'', sa_eventId = ''e1'', sa_userId = ''u1'', sa_checkpointId = Some ''p1'',
       sa_deviceId = Some ''d1'', sa_isActive = True, sa_updatedAt = 600, sa_notes = None, sa_createdAt = 0\<rparr>]\<rparr>"

definition sample_user :: auth_user where "sample_user = \<lparr>au_id = ''u1'', au_role = STAFF\<rparr>"

definition sample_start :: start_dto where
  "sample_start = \<lparr>st_eventId = ''e1'', st_staffUserId = None, st_deviceId = ''d1'', st_checkpointId = ''p1'',
     st_mode = MODE_ENTRY, st_metadata = None\<rparr>"

lemma sample_staff_inv: "session_inv sample_env sample_staff"
  by (simp add: session_inv_def session_rows_def sample_staff_def sample_regs_def empty_store_def count_rows_def)

lemma sessions_stay_exclusive_witness:
  "session_inv sample_env (snd (start sample_env sample_user sample_start sample_staff)) \<and>
   session_inv sample_env (snd (startMySession sample_env sample_user sample_staff)) \<and>
   session_inv sample_env (snd (endMySession sample_env sample_user sample_staff)) \<and>
   session_inv sample_env (snd (end_session sample_env ''c0'' sample_staff))"
  by (rule sessions_stay_exclusive [OF sample_laws(1) sample_staff_inv])

lemmas staff_guard_defs = resolveStaffUserId_def ensureStaffUser_def ensureActiveCheckpointBelongsToEvent_def
  ensureActiveAssignmentBinding_def

text \<open>Nobody opens a session that is not theirs to open: when \<open>start\<close> returns a session, the user is an
  active member of staff with an active assignment to exactly that event, device and checkpoint, the
  event is not archived, device and checkpoint are active and of the event, the mode is the one of
  the checkpoint's type, and the session is the only active one of the user and of the device.\<close>

theorem started_session_authorised:
  assumes "start c u dto s = (Inr x, t)"
  shows "\<exists>user a cp. find_user (ss_staffUserId x) s = Some user \<and> us_role user = STAFF \<and> us_status user = US_ACTIVE \<and>
    (au_role u = STAFF \<and> ss_staffUserId x = au_id u \<or> au_role u = SUPER_ADMIN) \<and>
    find_assignment (ss_eventId x) (ss_staffUserId x) s = Some a \<and> sa_isActive a \<and>
    sa_deviceId a = Some (ss_deviceId x) \<and> sa_checkpointId a = Some (ss_checkpointId x) \<and>
    is_Inr (ensureEventCanBeModified (ss_eventId x) s) \<and> is_Inr (ensureActiveDevice (ss_deviceId x) (ss_eventId x) s) \<and>
    find_checkpoint (ss_checkpointId x) s = Some cp \<and> cp_isActive cp \<and> cp_eventId cp = ss_eventId x \<and>
    ss_mode x = resolveModeForCheckpoint (cp_type cp) \<and> is_active x \<and> x \<in> set (staffSessions t) \<and>
    (\<forall>y \<in> set (staffSessions t). is_active y \<longrightarrow> y = x \<or> ss_staffUserId y \<noteq> ss_staffUserId x \<and>
       (ss_eventId y = ss_eventId x \<longrightarrow> ss_deviceId y \<noteq> ss_deviceId x))"
  using assms
proof (rule start_Inr)
  fix userId event user device cp a
  assume g: "openSession c userId (st_mode dto) dto s = (Inr x, t)"
      "resolveStaffUserId u (st_staffUserId dto) = Inr userId" "ensureEventCanBeModified (st_eventId dto) s = Inr event"
      "ensureStaffUser userId s = Inr user" "ensureActiveDevice (st_deviceId dto) (st_eventId dto) s = Inr device"
      "ensureActiveCheckpointBelongsToEvent (st_checkpointId dto) (st_eventId dto) s = Inr cp"
      "ensureActiveAssignmentBinding (st_eventId dto) userId (dv_id device) (cp_id cp) s = Inr a"
      "st_mode dto = resolveModeForCheckpoint (cp_type cp)"
  have x: "x = opened_row c userId (st_mode dto) dto (cuid c (next_id s))"
      "staffSessions t = append_row x (cleared c userId dto (staffSessions s))"
    using g(1) by (auto simp: openSession_run)
  have fields: "ss_staffUserId x = userId" "ss_eventId x = st_eventId dto" "ss_deviceId x = st_deviceId dto"
      "ss_checkpointId x = st_checkpointId dto" "ss_mode x = st_mode dto" "is_active x"
    by (simp_all add: x(1) opened_row_def is_active_def)
  have alone: "y = x \<or> ss_staffUserId y \<noteq> userId \<and> (ss_eventId y = st_eventId dto \<longrightarrow> ss_deviceId y \<noteq> st_deviceId dto)"
    if "y \<in> set (staffSessions t)" "is_active y" for y
    using that x(2) by (auto simp: cleared_def dest!: ended_active)
  have ids: "dv_id device = st_deviceId dto" "cp_id cp = st_checkpointId dto"
    using g(5,6) by (auto simp: ensureActiveDevice_Inr ensureActiveCheckpointBelongsToEvent_def find_defs
      dest: lookup_by_Some split: option.splits if_splits)
  have who: "au_role u = STAFF \<and> userId = au_id u \<or> au_role u = SUPER_ADMIN"
    using g(2) by (auto simp: resolveStaffUserId_def split: user_role.splits if_splits)
  show ?thesis
    using g(3-8) alone who x(2) unfolding fields ids
    by (auto simp: staff_guard_defs fields split: option.splits if_splits)
qed

lemma sample_started: "is_Inr (fst (start sample_env sample_user sample_start sample_staff))"
  by (simp add: start_def bindA_reads staff_guard_defs ensureEventCanBeModified_def ensureActiveDevice_def find_defs
        lookup_by_def find_assignment_def sample_staff_def sample_regs_def empty_store_def sample_user_def
        sample_start_def sample_event_def sample_device_def sample_checkpoint_def openSession_run)

lemma started_session_authorised_witness:
  "\<exists>x t a. start sample_env sample_user sample_start sample_staff = (Inr x, t) \<and>
     find_assignment (ss_eventId x) (ss_staffUserId x) sample_staff = Some a \<and> sa_deviceId a = Some (ss_deviceId x)"
  using run_Inr [OF sample_started] started_session_authorised by metis

section \<open>Taking up a session\<close>

lemma at_most_one:
  assumes "count_rows q rows \<le> 1" and "x \<in> set rows" and "y \<in> set rows" and "q x" and "q y"
  shows "x = y"
proof -
  have "x \<in> set (filter q rows)" "y \<in> set (filter q rows)" using assms by auto
  then show ?thesis using assms(1) by (cases "filter q rows"; cases "tl (filter q rows)") (auto simp: count_rows_def)
qed

lemma set_recent [simp]: "set (recent_first rows) = set rows"
  by (simp add: recent_first_def)

text \<open>What \<open>startMySession\<close> reads besides the sessions.\<close>

definition my_posting :: "id \<Rightarrow> store \<Rightarrow> (staff_assignment \<times> checkpoint \<times> device) option" where
  "my_posting u s = (case latest_assignment u s of None \<Rightarrow> None | Some a \<Rightarrow>
     (case (if truthy (sa_checkpointId a) then find_checkpoint (the (sa_checkpointId a)) s else None,
            if truthy (sa_deviceId a) then find_device (the (sa_deviceId a)) s else None) of
        (Some cp, Some d) \<Rightarrow> if cp_isActive cp \<and> dv_status d = DEV_ACTIVE then Some (a, cp, d) else None
      | _ \<Rightarrow> None))"

definition fitting :: "id \<Rightarrow> staff_assignment \<Rightarrow> checkpoint \<Rightarrow> staff_session \<Rightarrow> bool" where
  "fitting u a cp = reusable_session (sa_eventId a) u (the (sa_deviceId a)) (the (sa_checkpointId a))
     (resolveModeForCheckpoint (cp_type cp))"

definition my_dto :: "id \<Rightarrow> staff_assignment \<Rightarrow> checkpoint \<Rightarrow> start_dto" where
  "my_dto u a cp = \<lparr>st_eventId = sa_eventId a, st_staffUserId = Some u, st_deviceId = the (sa_deviceId a),
     st_checkpointId = the (sa_checkpointId a), st_mode = resolveModeForCheckpoint (cp_type cp),
     st_metadata = Some (JObj [(''source'', JStr ''START_MY_SESSION''), (''assignmentId'', JStr (sa_id a))])\<rparr>"

lemma startMy_Inr:
  assumes "startMySession c u s = (Inr x, t)"
  obtains a cp d user where "au_role u = STAFF" "ensureStaffUser (au_id u) s = Inr user"
    "my_posting (au_id u) s = Some (a, cp, d)"
    "(case find_row (fitting (au_id u) a cp) (recent_first (staffSessions s)) of
        Some y \<Rightarrow> reuseSession c (au_id u) (sa_id a) (sa_eventId a) (the (sa_deviceId a)) y
      | None \<Rightarrow> start c u (my_dto (au_id u) a cp)) s = (Inr x, t)"
  using assms unfolding startMySession_def my_posting_def fitting_def my_dto_def Let_def
  by (auto simp: bindA_reads bindA_gets throw_def split: sum.splits option.splits if_splits)

lemma startMy_step:
  assumes "au_role u = STAFF" and "ensureStaffUser (au_id u) s = Inr user"
    and "my_posting (au_id u) s = Some (a, cp, d)"
    and "find_row (fitting (au_id u) a cp) (recent_first (staffSessions s)) = Some y"
  shows "startMySession c u s = reuseSession c (au_id u) (sa_id a) (sa_eventId a) (the (sa_deviceId a)) y s"
  using assms unfolding startMySession_def my_posting_def fitting_def Let_def
  by (auto simp: bindA_reads bindA_gets split: option.splits if_splits)

definition taken_up :: "env \<Rightarrow> id \<Rightarrow> staff_session \<Rightarrow> staff_session" where
  "taken_up c a x = x\<lparr>ss_lastSeenAt := Some (now c), ss_metadata :=
     JObj [(''source'', JStr ''START_MY_SESSION_REUSED''), (''assignmentId'', JStr a)]\<rparr>"

lemma taken_up_sel:
  "ss_id (taken_up c a x) = ss_id x" "ss_startedAt (taken_up c a x) = ss_startedAt x"
  "is_active (taken_up c a x) = is_active x"
  by (simp_all add: taken_up_def is_active_def)

lemma reuse_run:
  "reuseSession c u a e d y s = (Inr (taken_up c a y), s\<lparr>staffSessions :=
      update_by ss_id (ss_id y) (taken_up c a) (ended c (competes (ss_id y) u e d) (staffSessions s)),
    devices := update_by dv_id d (\<lambda>d. d\<lparr>dv_lastSeenAt := Some (now c)\<rparr>) (devices s)\<rparr>)"
  by (simp add: reuseSession_def Let_def transaction_def bindA_def end_sessions_run modify_def ret_def seen_device_def
        taken_up_def [abs_def])

lemma reuse_kept:
  assumes "y \<in> set rows"
  shows "taken_up c a y \<in> set (update_by ss_id (ss_id y) (taken_up c a) (ended c (competes (ss_id y) u e d) rows))"
proof -
  have "y \<in> set (ended c (competes (ss_id y) u e d) rows)"
    using assms by (auto simp: ended_def set_update_rows competes_def intro!: image_eqI [of _ _ y])
  then show ?thesis by (auto simp: set_update_by)
qed

text \<open>Either way the session is stored and fits the posting, which the run leaves as it is.\<close>

lemma startMy_fits:
  assumes "startMySession c u s = (Inr x, t)"
  obtains a cp d d' user where "au_role u = STAFF" "ensureStaffUser (au_id u) t = Inr user"
    "my_posting (au_id u) t = Some (a, cp, d')" "fitting (au_id u) a cp x" "x \<in> set (staffSessions t)"
  using assms
proof (rule startMy_Inr)
  fix a cp d user
  assume m: "au_role u = STAFF" "ensureStaffUser (au_id u) s = Inr user" "my_posting (au_id u) s = Some (a, cp, d)"
    "(case find_row (fitting (au_id u) a cp) (recent_first (staffSessions s)) of
        Some y \<Rightarrow> reuseSession c (au_id u) (sa_id a) (sa_eventId a) (the (sa_deviceId a)) y
      | None \<Rightarrow> start c u (my_dto (au_id u) a cp)) s = (Inr x, t)"
  define dev where "dev = the (sa_deviceId a)"
  have t: "users t = users s \<and> staffAssignments t = staffAssignments s \<and> checkpoints t = checkpoints s \<and>
      devices t = update_by dv_id dev (\<lambda>d. d\<lparr>dv_lastSeenAt := Some (now c)\<rparr>) (devices s) \<and>
      fitting (au_id u) a cp x \<and> x \<in> set (staffSessions t)"
  proof (cases "find_row (fitting (au_id u) a cp) (recent_first (staffSessions s))")
    case None
    have "start c u (my_dto (au_id u) a cp) s = (Inr x, t)" using m(4) None by simp
    then show ?thesis
      by (elim start_Inr) (auto simp: openSession_run my_dto_def opened_row_def fitting_def reusable_session_def
        is_active_def resolveStaffUserId_def m(1) dev_def)
  next
    case (Some y)
    then have y: "y \<in> set (staffSessions s)" "fitting (au_id u) a cp y" by (auto dest: find_row_Some)
    have "x = taken_up c (sa_id a) y" using m(4) Some by (simp add: reuse_run)
    then have "fitting (au_id u) a cp x"
      using y(2) by (simp add: taken_up_def fitting_def reusable_session_def is_active_def)
    then show ?thesis using m(4) Some reuse_kept [OF y(1)] by (auto simp: reuse_run dev_def)
  qed
  have "find_device i t = map_option (\<lambda>d. if i = dev then d\<lparr>dv_lastSeenAt := Some (now c)\<rparr> else d) (find_device i s)" for i
    using t rows.lookup_update [of dv_id "\<lambda>d. d\<lparr>dv_lastSeenAt := Some (now c)\<rparr>" i dev "devices s"]
    by (auto simp: find_device_def option.map_id0 [unfolded id_def])
  moreover have "find_checkpoint i t = find_checkpoint i s" for i using t by (simp add: find_checkpoint_def)
  moreover have "latest_assignment i t = latest_assignment i s" for i using t by (simp add: latest_assignment_def)
  ultimately have "\<exists>d'. my_posting (au_id u) t = Some (a, cp, d')"
    using m(3) by (auto simp: my_posting_def split: option.splits if_splits)
  moreover have "ensureStaffUser (au_id u) t = Inr user" using m(2) t by (simp add: ensureStaffUser_def find_user_def)
  ultimately show thesis using that m(1) t by blast
qed

text \<open>Opening the scanner again does not replace the session: after \<open>startMySession\<close> has given a session, calling
  it again, at any later time, takes up that very session, with the same id and start, and adds no
  row, so that operations stored on the device under its id stay valid.\<close>

theorem my_session_taken_up:
  assumes "id_law c" and "session_inv c s" and "startMySession c u s = (Inr x, t)"
  shows "\<exists>y w. startMySession (c\<lparr>now := n\<rparr>) u t = (Inr y, w) \<and> ss_id y = ss_id x \<and> ss_startedAt y = ss_startedAt x \<and>
    is_active y \<and> y \<in> set (staffSessions w) \<and> length (staffSessions w) = length (staffSessions t)"
  using assms(3)
proof (rule startMy_fits)
  fix a cp d' user
  assume f: "au_role u = STAFF" "ensureStaffUser (au_id u) t = Inr user" "my_posting (au_id u) t = Some (a, cp, d')"
    "fitting (au_id u) a cp x" "x \<in> set (staffSessions t)"
  have inv: "session_inv c t"
    using keeps_startMy [OF assms(1), of u s] assms(2,3) by (simp add: within_def keeps_def)
  have "find_row (fitting (au_id u) a cp) (recent_first (staffSessions t)) = Some x"
  proof (cases "find_row (fitting (au_id u) a cp) (recent_first (staffSessions t))")
    case None
    then show ?thesis using f(4,5) by (auto simp: find_row_None)
  next
    case (Some y)
    then have "y \<in> set (staffSessions t)" "fitting (au_id u) a cp y" by (auto dest: find_row_Some)
    then have "x = y"
      using inv f(4,5) at_most_one [of "same_user (au_id u)" "staffSessions t" x y]
      by (simp add: session_inv_def session_rows_def same_user_def fitting_def reusable_session_def)
    then show ?thesis using Some by simp
  qed
  then have run: "startMySession (c\<lparr>now := n\<rparr>) u t =
      reuseSession (c\<lparr>now := n\<rparr>) (au_id u) (sa_id a) (sa_eventId a) (the (sa_deviceId a)) x t"
    by (rule startMy_step [OF f(1-3)])
  have "is_active x" using f(4) by (simp add: fitting_def reusable_session_def)
  then show ?thesis
    unfolding run reuse_run using reuse_kept [OF f(5), of "c\<lparr>now := n\<rparr>"]
    by (auto simp: taken_up_sel update_by_def ended_def)
qed

lemma sample_my_started: "is_Inr (fst (startMySession sample_env sample_user sample_staff))"
  by (simp add: startMySession_def start_def Let_def bindA_reads bindA_gets staff_guard_defs ensureEventCanBeModified_def
        ensureActiveDevice_def find_defs lookup_by_def find_assignment_def latest_assignment_def sample_staff_def
        sample_regs_def empty_store_def sample_user_def sample_event_def sample_device_def sample_checkpoint_def
        openSession_run recent_first_def)

lemma my_session_taken_up_witness:
  "\<exists>x t y w. startMySession sample_env sample_user sample_staff = (Inr x, t) \<and>
     startMySession (sample_env\<lparr>now := 2000\<rparr>) sample_user t = (Inr y, w) \<and> ss_id y = ss_id x"
  using run_Inr [OF sample_my_started] my_session_taken_up [OF sample_laws(1) sample_staff_inv] by metis

text \<open>\<open>endMySession\<close> closes everything: it never fails for a member of staff, reports exactly the number of
  sessions that were \<open>ACTIVE\<close>, and leaves none of them \<open>ACTIVE\<close>, while the sessions of others stay as they are.\<close>

theorem my_sessions_ended:
  assumes "au_role u = STAFF" and "distinct (map ss_id (staffSessions s))"
  shows "\<exists>t. endMySession c u s = (Inr (count_rows (same_user (au_id u)) (staffSessions s)), t) \<and>
    count_rows (same_user (au_id u)) (staffSessions t) = 0 \<and>
    (\<forall>y \<in> set (staffSessions s). ss_staffUserId y \<noteq> au_id u \<longrightarrow> y \<in> set (staffSessions t))"
proof -
  let ?rows = "staffSessions s" and ?mine = "filter (same_user (au_id u)) (staffSessions s)"
  have mine: "filter (\<lambda>x. ss_staffUserId x = au_id u \<and> is_active x) ?rows = ?mine"
    by (rule filter_cong) (auto simp: same_user_def)
  have same: "ss_id x \<in> ss_id ` set ?mine \<and> is_active x \<longleftrightarrow> same_user (au_id u) x" if "x \<in> set ?rows" for x
    using that distinct_key_inj [OF assms(2)] by (auto simp: same_user_def)
  show ?thesis
  proof (cases "?mine = []")
    case True
    then have "endMySession c u s = (Inr (count_rows (same_user (au_id u)) ?rows), s)"
      using assms(1) by (simp add: endMySession_def bindA_gets mine ret_def count_rows_def)
    then show ?thesis using True by (simp add: count_rows_def)
  next
    case False
    let ?t = "s\<lparr>staffSessions := ended c (\<lambda>x. ss_id x \<in> ss_id ` set ?mine) ?rows\<rparr>"
    have "count_rows (\<lambda>x. ss_id x \<in> ss_id ` set ?mine \<and> is_active x) ?rows = count_rows (same_user (au_id u)) ?rows"
      using same by (simp add: count_rows_def cong: filter_cong)
    then have "endMySession c u s = (Inr (count_rows (same_user (au_id u)) ?rows), ?t)"
      using assms(1) False
      by (simp only: endMySession_def bindA_gets mine if_False not_True_eq_False simp_thms) (simp add: bindA_def end_sessions_run ret_def)
    moreover have none: "\<not> same_user (au_id u) y" if "y \<in> set (staffSessions ?t)" for y
    proof
      assume y: "same_user (au_id u) y"
      then have "is_active y" by (simp add: same_user_def)
      then have "y \<in> set ?rows" "ss_id y \<notin> ss_id ` set ?mine"
        using that ended_active [of y c "\<lambda>x. ss_id x \<in> ss_id ` set ?mine" ?rows] by simp_all
      then show False using y by auto
    qed
    moreover have "count_rows (same_user (au_id u)) (staffSessions ?t) = 0"
      unfolding count_rows_def length_0_conv filter_empty_conv using none by blast
    moreover have "y \<in> set (staffSessions ?t)" if "y \<in> set ?rows" "ss_staffUserId y \<noteq> au_id u" for y
    proof -
      have "\<not> (ss_id y \<in> ss_id ` set ?mine \<and> is_active y)" using that same [of y] by (simp add: same_user_def)
      then show ?thesis using that(1) by (simp add: ended_def set_update_rows rev_image_eqI)
    qed
    ultimately show ?thesis by blast
  qed
qed

lemma my_sessions_ended_witness:
  "\<exists>t. endMySession sample_env sample_user sample_staff =
      (Inr (count_rows (same_user ''u1'') (staffSessions sample_staff)), t)"
  using my_sessions_ended [of sample_user sample_staff sample_env] sample_staff_inv
  by (auto simp: sample_user_def session_inv_def session_rows_def)

end
