(* ===== verification/StaffAssignments.thy ===== *)
theory StaffAssignments
  imports Requests StaffSessions
begin

text \<open>
  \<open>src/modules/staff-assignments/staff-assignments.service.ts\<close>: which member of staff works at which
  checkpoint with which device. A user has one active assignment; what ends or moves it ends the scanner
  sessions opened under it. The change of an assignment is the service's own input type; the body of the
  request carries only the notes and the activity.
\<close>

section \<open>Operations\<close>

record assignment_dto =
  sd_eventId :: id
  sd_userId :: id
  sd_checkpointId :: id
  sd_deviceId :: id
  sd_notes :: "string option option"

record assignment_change =
  sv_notes :: "string option option"
  sv_isActive :: "bool option"
  sv_checkpointId :: "id option"
  sv_deviceId :: "id option"

definition findAssignment :: "id \<Rightarrow> store \<Rightarrow> staff_assignment res" where
  "findAssignment i s = found ''Staff assignment'' (lookup_by sa_id i (staffAssignments s))"

text \<open>\<open>updateMany\<close> and \<open>update\<close>, which stamp \<open>updatedAt\<close>.\<close>

definition change_assignments :: "env \<Rightarrow> (staff_assignment \<Rightarrow> bool) \<Rightarrow> (staff_assignment \<Rightarrow> staff_assignment) \<Rightarrow> (store, unit) act" where
  "change_assignments c p f = modify (\<lambda>s. s\<lparr>staffAssignments :=
     update_rows p (\<lambda>a. (f a)\<lparr>sa_updatedAt := now c\<rparr>) (staffAssignments s)\<rparr>)"

definition change_assignment :: "env \<Rightarrow> id \<Rightarrow> (staff_assignment \<Rightarrow> staff_assignment) \<Rightarrow> (store, staff_assignment) act" where
  "change_assignment c i f =
    bindA (change_assignments c (\<lambda>a. sa_id a = i) f) (\<lambda>_. reads (findAssignment i))"

definition user_sessions :: "id \<Rightarrow> staff_session \<Rightarrow> bool" where
  "user_sessions userId x = (ss_staffUserId x = userId)"

definition event_sessions :: "id \<Rightarrow> id \<Rightarrow> staff_session \<Rightarrow> bool" where
  "event_sessions eventId userId x = (ss_eventId x = eventId \<and> ss_staffUserId x = userId)"

definition createAssignment :: "env \<Rightarrow> assignment_dto \<Rightarrow> (store, staff_assignment) act" where
  "createAssignment c dto =
    bindA (reads (ensureEventCanBeModified (sd_eventId dto))) (\<lambda>_.
    bindA (reads (ensureStaffUser (sd_userId dto))) (\<lambda>_.
    bindA (reads (ensureActiveCheckpointBelongsToEvent (sd_checkpointId dto) (sd_eventId dto))) (\<lambda>_.
    bindA (reads (ensureActiveDevice (sd_deviceId dto) (sd_eventId dto))) (\<lambda>_.
    transaction (
      bindA (end_sessions c (user_sessions (sd_userId dto))) (\<lambda>_.
      bindA (change_assignments c (\<lambda>a. sa_userId a = sd_userId dto \<and> sa_isActive a) (\<lambda>a. a\<lparr>sa_isActive := False\<rparr>)) (\<lambda>_.
      bindA (gets (find_assignment (sd_eventId dto) (sd_userId dto))) (\<lambda>existing. case existing of
        Some a \<Rightarrow>
          change_assignment c (sa_id a) (\<lambda>a. a\<lparr>sa_checkpointId := Some (sd_checkpointId dto),
            sa_deviceId := Some (sd_deviceId dto), sa_notes := or_kept (sd_notes dto) (sa_notes a), sa_isActive := True\<rparr>)
      | None \<Rightarrow>
          bindA (new_id c) (\<lambda>i.
          let a = \<lparr>sa_id = i, sa_eventId = sd_eventId dto, sa_userId = sd_userId dto,
            sa_checkpointId = Some (sd_checkpointId dto), sa_deviceId = Some (sd_deviceId dto), sa_isActive = True,
            sa_updatedAt = now c, sa_notes = or_kept (sd_notes dto) None, sa_createdAt = now c\<rparr> in
          bindA (modify (\<lambda>s. s\<lparr>staffAssignments := append_row a (staffAssignments s)\<rparr>)) (\<lambda>_. ret a))))))))))"

definition findAllAssignments :: "id option \<Rightarrow> id option \<Rightarrow> bool option \<Rightarrow> page_query \<Rightarrow> store \<Rightarrow> staff_assignment paginated" where
  "findAllAssignments eventId userId isActive query s =
    find_page (\<lambda>a. if_given eventId (\<lambda>e. sa_eventId a = e) \<and> if_given userId (\<lambda>u. sa_userId a = u) \<and>
        (case isActive of None \<Rightarrow> True | Some b \<Rightarrow> sa_isActive a = b))
      (\<lambda>a. - sa_createdAt a) query (staffAssignments s)"

definition findMyActive :: "id \<Rightarrow> store \<Rightarrow> staff_assignment res" where
  "findMyActive userId s =
    (case find_row (\<lambda>a. sa_userId a = userId \<and> sa_isActive a \<and> (case find_user (sa_userId a) s of None \<Rightarrow> False
        | Some u \<Rightarrow> us_role u = STAFF \<and> us_status u = US_ACTIVE)) (sort_key (\<lambda>a. - sa_updatedAt a) (staffAssignments s)) of
       None \<Rightarrow> Inl (NotFound ''No active staff assignment found'')
     | Some a \<Rightarrow>
        (case (if truthy (sa_checkpointId a) then find_checkpoint (the (sa_checkpointId a)) s else None) of
           None \<Rightarrow> Inl (BadRequest ''Active staff assignment must include a checkpoint'')
         | Some cp \<Rightarrow>
            if \<not> cp_isActive cp then Inl (BadRequest ''Assigned checkpoint must be active'')
            else (case (if truthy (sa_deviceId a) then find_device (the (sa_deviceId a)) s else None) of
                None \<Rightarrow> Inl (BadRequest ''Active staff assignment must include a device'')
              | Some d \<Rightarrow> if dv_status d \<noteq> DEV_ACTIVE then Inl (BadRequest ''Assigned device must be ACTIVE'') else Inr a)))"

text \<open>The transactions that \<open>update\<close> and \<open>setActive\<close> share.\<close>

definition take_over :: "env \<Rightarrow> staff_assignment \<Rightarrow> (staff_assignment \<Rightarrow> staff_assignment) \<Rightarrow> (store, staff_assignment) act" where
  "take_over c a f = transaction (
    bindA (end_sessions c (user_sessions (sa_userId a))) (\<lambda>_.
    bindA (change_assignments c (\<lambda>x. sa_userId x = sa_userId a \<and> sa_isActive x \<and> sa_id x \<noteq> sa_id a) (\<lambda>x. x\<lparr>sa_isActive := False\<rparr>)) (\<lambda>_.
    change_assignment c (sa_id a) (\<lambda>x. (f x)\<lparr>sa_isActive := True\<rparr>))))"

definition stand_down :: "env \<Rightarrow> staff_assignment \<Rightarrow> (staff_assignment \<Rightarrow> staff_assignment) \<Rightarrow> (store, staff_assignment) act" where
  "stand_down c a f = transaction (
    bindA (end_sessions c (event_sessions (sa_eventId a) (sa_userId a))) (\<lambda>_. change_assignment c (sa_id a) f))"

definition changed_assignment :: "assignment_change \<Rightarrow> staff_assignment \<Rightarrow> staff_assignment" where
  "changed_assignment dto x = x\<lparr>sa_notes := or_kept (sv_notes dto) (sa_notes x),
     sa_isActive := or_kept (sv_isActive dto) (sa_isActive x),
     sa_checkpointId := or_kept (map_option Some (sv_checkpointId dto)) (sa_checkpointId x),
     sa_deviceId := or_kept (map_option Some (sv_deviceId dto)) (sa_deviceId x)\<rparr>"

definition updateAssignment :: "env \<Rightarrow> id \<Rightarrow> assignment_change \<Rightarrow> (store, staff_assignment) act" where
  "updateAssignment c i dto =
    bindA (reads (findAssignment i)) (\<lambda>a.
    bindA (reads (ensureEventCanBeModified (sa_eventId a))) (\<lambda>_.
    bindA (reads (ensureStaffUser (sa_userId a))) (\<lambda>_.
    let nextCheckpointId = or_kept (map_option Some (sv_checkpointId dto)) (sa_checkpointId a);
        nextDeviceId = or_kept (map_option Some (sv_deviceId dto)) (sa_deviceId a) in
    if \<not> truthy nextCheckpointId then throw (BadRequest ''Active staff assignment must include checkpointId'')
    else if \<not> truthy nextDeviceId then throw (BadRequest ''Active staff assignment must include deviceId'')
    else
    bindA (reads (ensureActiveCheckpointBelongsToEvent (the nextCheckpointId) (sa_eventId a))) (\<lambda>_.
    bindA (reads (ensureActiveDevice (the nextDeviceId) (sa_eventId a))) (\<lambda>_.
    let checkpointChanged = (sv_checkpointId dto \<noteq> None \<and> sv_checkpointId dto \<noteq> sa_checkpointId a);
        deviceChanged = (sv_deviceId dto \<noteq> None \<and> sv_deviceId dto \<noteq> sa_deviceId a) in
    if sv_isActive dto = Some True then take_over c a (changed_assignment dto)
    else if sv_isActive dto = Some False \<or> checkpointChanged \<or> deviceChanged
    then stand_down c a (changed_assignment dto)
    else change_assignment c i (changed_assignment dto))))))"

definition setAssignmentActive :: "env \<Rightarrow> id \<Rightarrow> bool \<Rightarrow> (store, staff_assignment) act" where
  "setAssignmentActive c i isActive =
    bindA (reads (findAssignment i)) (\<lambda>a.
    bindA (reads (ensureEventCanBeModified (sa_eventId a))) (\<lambda>_.
    if \<not> isActive then stand_down c a (\<lambda>x. x\<lparr>sa_isActive := False\<rparr>)
    else
    bindA (reads (ensureStaffUser (sa_userId a))) (\<lambda>_.
    if \<not> truthy (sa_checkpointId a)
    then throw (BadRequest ''Staff assignment must include checkpointId before activation'')
    else if \<not> truthy (sa_deviceId a)
    then throw (BadRequest ''Staff assignment must include deviceId before activation'')
    else
    bindA (reads (ensureActiveCheckpointBelongsToEvent (the (sa_checkpointId a)) (sa_eventId a))) (\<lambda>_.
    bindA (reads (ensureActiveDevice (the (sa_deviceId a)) (sa_eventId a))) (\<lambda>_. take_over c a (\<lambda>x. x))))))"

definition activateAssignment :: "env \<Rightarrow> id \<Rightarrow> (store, staff_assignment) act" where
  "activateAssignment c i = setAssignmentActive c i True"

definition deactivateAssignment :: "env \<Rightarrow> id \<Rightarrow> (store, staff_assignment) act" where
  "deactivateAssignment c i = setAssignmentActive c i False"

definition removeAssignment :: "env \<Rightarrow> id \<Rightarrow> (store, staff_assignment) act" where
  "removeAssignment c i = setAssignmentActive c i False"

section \<open>Sessions and assignments\<close>

definition posting :: "staff_session \<Rightarrow> staff_assignment \<Rightarrow> bool" where
  "posting x a = (sa_isActive a \<and> sa_eventId a = ss_eventId x \<and> sa_userId a = ss_staffUserId x \<and>
     sa_deviceId a = Some (ss_deviceId x) \<and> sa_checkpointId a = Some (ss_checkpointId x))"

definition post_rows :: "env \<Rightarrow> nat \<Rightarrow> staff_assignment list \<Rightarrow> staff_session list \<Rightarrow> bool" where
  "post_rows c n posts sessions =
    (distinct (map sa_id posts) \<and> distinct (map (\<lambda>a. (sa_eventId a, sa_userId a)) posts) \<and>
     (\<forall>a \<in> set posts. \<exists>k < n. sa_id a = cuid c k) \<and>
     (\<forall>a \<in> set posts. \<forall>b \<in> set posts. sa_isActive a \<and> sa_isActive b \<and> sa_userId a = sa_userId b \<longrightarrow> a = b) \<and>
     (\<forall>x \<in> set sessions. is_active x \<longrightarrow> (\<exists>a \<in> set posts. posting x a)))"

definition post_inv :: "env \<Rightarrow> store \<Rightarrow> bool" where
  "post_inv c s = post_rows c (next_id s) (staffAssignments s) (staffSessions s)"

lemma post_rows_mono: "post_rows c n ps ss \<Longrightarrow> n \<le> m \<Longrightarrow> post_rows c m ps ss"
  unfolding post_rows_def by (meson order_less_le_trans)

lemma post_same: "post_rows c n ps ss \<Longrightarrow> a \<in> set ps \<Longrightarrow> b \<in> set ps \<Longrightarrow> sa_id a = sa_id b \<Longrightarrow> a = b"
  unfolding post_rows_def by (blast intro: distinct_key_inj)

lemma post_one: "post_rows c n ps ss \<Longrightarrow> a \<in> set ps \<Longrightarrow> b \<in> set ps \<Longrightarrow> sa_isActive a \<Longrightarrow> sa_isActive b \<Longrightarrow>
    sa_userId a = sa_userId b \<Longrightarrow> a = b"
  unfolding post_rows_def by blast

lemma post_fresh: "post_rows c n ps ss \<Longrightarrow> id_law c \<Longrightarrow> a \<in> set ps \<Longrightarrow> sa_id a \<noteq> cuid c n"
  by (auto simp: post_rows_def id_law_def inj_eq)

text \<open>Sessions of which no more are active.\<close>

definition fewer_active :: "staff_session list \<Rightarrow> staff_session list \<Rightarrow> bool" where
  "fewer_active before after = (\<forall>x \<in> set after. is_active x \<longrightarrow> (\<exists>y \<in> set before. is_active y \<and>
     ss_eventId y = ss_eventId x \<and> ss_staffUserId y = ss_staffUserId x \<and> ss_deviceId y = ss_deviceId x \<and>
     ss_checkpointId y = ss_checkpointId x))"

lemma post_rows_fewer:
  assumes "post_rows c n ps ss" and "fewer_active ss ss'"
  shows "post_rows c n ps ss'"
proof -
  have "\<exists>a \<in> set ps. posting x a" if "x \<in> set ss'" "is_active x" for x
    using assms that unfolding post_rows_def fewer_active_def posting_def by metis
  then show ?thesis using assms(1) by (simp add: post_rows_def)
qed

lemma fewer_ended: "fewer_active ss (ended c p ss)"
  by (auto simp: fewer_active_def dest!: ended_active)

lemma fewer_update:
  assumes "\<And>x. ss_eventId (f x) = ss_eventId x \<and> ss_staffUserId (f x) = ss_staffUserId x \<and> ss_deviceId (f x) = ss_deviceId x \<and>
    ss_checkpointId (f x) = ss_checkpointId x \<and> (is_active (f x) \<longrightarrow> is_active x)"
  shows "fewer_active ss (update_rows p f ss)"
  using assms by (fastforce simp: fewer_active_def set_update_rows)

lemma fewer_trans: "fewer_active a b \<Longrightarrow> fewer_active b d \<Longrightarrow> fewer_active a d"
  unfolding fewer_active_def by metis

text \<open>Rewriting the assignments while sessions end.\<close>

lemma post_rows_map:
  assumes inv: "post_rows c n ps ss" and few: "\<And>x. x \<in> set ss' \<Longrightarrow> is_active x \<Longrightarrow> x \<in> set ss"
    and keys: "\<And>a. a \<in> set ps \<Longrightarrow> sa_id (g a) = sa_id a \<and> sa_eventId (g a) = sa_eventId a \<and> sa_userId (g a) = sa_userId a"
    and one: "\<And>a b. a \<in> set ps \<Longrightarrow> b \<in> set ps \<Longrightarrow> sa_isActive (g a) \<Longrightarrow> sa_isActive (g b) \<Longrightarrow> sa_userId a = sa_userId b \<Longrightarrow> a = b"
    and kept: "\<And>x a. x \<in> set ss' \<Longrightarrow> is_active x \<Longrightarrow> a \<in> set ps \<Longrightarrow> posting x a \<Longrightarrow> posting x (g a)"
  shows "post_rows c n (map g ps) ss'"
proof -
  have maps: "map sa_id (map g ps) = map sa_id ps"
    "map (\<lambda>a. (sa_eventId a, sa_userId a)) (map g ps) = map (\<lambda>a. (sa_eventId a, sa_userId a)) ps"
    using keys by simp_all
  have single: "g a = g b" if "a \<in> set ps" "b \<in> set ps" "sa_isActive (g a) \<and> sa_isActive (g b) \<and> sa_userId (g a) = sa_userId (g b)" for a b
    using that one keys by metis
  have posted: "\<exists>a \<in> g ` set ps. posting x a" if "x \<in> set ss'" "is_active x" for x
    using few [OF that] kept [OF that] that(2) inv unfolding post_rows_def by blast
  have "\<exists>k < n. sa_id (g a) = cuid c k" if "a \<in> set ps" for a
    using keys [OF that] inv that by (simp add: post_rows_def)
  then have ids: "\<forall>a \<in> g ` set ps. \<exists>k < n. sa_id a = cuid c k" by blast
  have distinct: "distinct (map sa_id ps)" "distinct (map (\<lambda>a. (sa_eventId a, sa_userId a)) ps)"
    using inv by (simp_all add: post_rows_def)
  show ?thesis
    unfolding post_rows_def maps set_map
    by (intro conjI distinct ids ballI impI posted) (use single in blast)+
qed

section \<open>The operations keep it\<close>

definition off :: "env \<Rightarrow> (staff_assignment \<Rightarrow> bool) \<Rightarrow> staff_assignment \<Rightarrow> staff_assignment" where
  "off c p a = (if p a then a\<lparr>sa_isActive := False, sa_updatedAt := now c\<rparr> else a)"

lemma off_sel [simp]:
  "sa_id (off c p a) = sa_id a" "sa_eventId (off c p a) = sa_eventId a" "sa_userId (off c p a) = sa_userId a"
  "sa_isActive (off c p a) \<longleftrightarrow> sa_isActive a \<and> \<not> p a"
  by (simp_all add: off_def)

lemma posting_off: "\<not> p a \<Longrightarrow> posting x a \<Longrightarrow> posting x (off c p a)"
  by (simp add: off_def)

definition touched :: "env \<Rightarrow> id \<Rightarrow> (staff_assignment \<Rightarrow> staff_assignment) \<Rightarrow> staff_assignment \<Rightarrow> staff_assignment" where
  "touched c i f a = (if sa_id a = i then (f a)\<lparr>sa_updatedAt := now c\<rparr> else a)"

lemma change_run:
  "change_assignments c p (\<lambda>a. a\<lparr>sa_isActive := False\<rparr>) s =
    (Inr (), s\<lparr>staffAssignments := map (off c p) (staffAssignments s)\<rparr>)"
  "snd (change_assignment c i f s) = s\<lparr>staffAssignments := map (touched c i f) (staffAssignments s)\<rparr>"
  by (simp_all add: change_assignments_def change_assignment_def modify_def update_rows_def off_def [abs_def]
      touched_def [abs_def] bindA_def reads_def)

lemma post_transaction: "post_inv c (snd (m s)) \<Longrightarrow> post_inv c s \<Longrightarrow> post_inv c (snd (transaction m s))"
  by (auto simp: transaction_def split: prod.splits sum.splits)

definition keeps_keys :: "(staff_assignment \<Rightarrow> staff_assignment) \<Rightarrow> bool" where
  "keeps_keys f = (\<forall>a. sa_id (f a) = sa_id a \<and> sa_eventId (f a) = sa_eventId a \<and> sa_userId (f a) = sa_userId a)"

lemma findAssignment_mem: "findAssignment i s = Inr a \<Longrightarrow> a \<in> set (staffAssignments s) \<and> sa_id a = i"
  by (auto simp: findAssignment_def dest: lookup_by_Some)

lemma take_over_keeps:
  assumes "post_inv c s" and "findAssignment i s = Inr a" and "keeps_keys f"
  shows "post_inv c (snd (take_over c a f s))"
proof -
  let ?p = "\<lambda>x. sa_userId x = sa_userId a \<and> sa_isActive x \<and> sa_id x \<noteq> sa_id a"
  let ?g = "touched c (sa_id a) (\<lambda>x. (f x)\<lparr>sa_isActive := True\<rparr>) \<circ> off c ?p"
  have a: "a \<in> set (staffAssignments s)"
    using findAssignment_mem [OF assms(2)] by simp
  have inv: "post_rows c (next_id s) (staffAssignments s) (staffSessions s)" using assms(1) by (simp add: post_inv_def)
  have same: "x = a" if "x \<in> set (staffAssignments s)" "sa_id x = sa_id a" for x
    by (rule post_same [OF inv that(1) a that(2)])
  have "post_rows c (next_id s) (map ?g (staffAssignments s)) (ended c (user_sessions (sa_userId a)) (staffSessions s))"
  proof (rule post_rows_map [OF inv])
    fix x assume act: "x \<in> set (ended c (user_sessions (sa_userId a)) (staffSessions s))" "is_active x"
    then have x: "x \<in> set (staffSessions s)" "ss_staffUserId x \<noteq> sa_userId a"
      using ended_active [OF act] by (simp_all add: user_sessions_def)
    then show "x \<in> set (staffSessions s)" by simp
    fix b assume b: "b \<in> set (staffAssignments s)" "posting x b"
    then have "sa_userId b \<noteq> sa_userId a" "sa_id b \<noteq> sa_id a" using x same [OF b(1)] by (auto simp: posting_def)
    then show "posting x (?g b)" using b by (simp add: touched_def off_def)
  next
    fix x y assume xy: "x \<in> set (staffAssignments s)" "y \<in> set (staffAssignments s)"
      "sa_isActive (?g x)" "sa_isActive (?g y)" "sa_userId x = sa_userId y"
    have act: "z = a \<or> sa_isActive z \<and> sa_userId z \<noteq> sa_userId a"
      if "z \<in> set (staffAssignments s)" "sa_isActive (?g z)" for z
      using that same [of z] by (auto simp: touched_def split: if_splits)
    show "x = y" using act [OF xy(1,3)] act [OF xy(2,4)] xy(5) post_one [OF inv xy(1,2)] by auto
  qed (use assms(3) in \<open>auto simp: touched_def keeps_keys_def\<close>)
  then have "post_inv c (snd (bindA (end_sessions c (user_sessions (sa_userId a))) (\<lambda>_.
      bindA (change_assignments c ?p (\<lambda>x. x\<lparr>sa_isActive := False\<rparr>)) (\<lambda>_.
      change_assignment c (sa_id a) (\<lambda>x. (f x)\<lparr>sa_isActive := True\<rparr>))) s))"
    by (simp add: bindA_done [OF end_sessions_run] bindA_done [OF change_run(1)] change_run post_inv_def)
  then show ?thesis unfolding take_over_def by (rule post_transaction [OF _ assms(1)])
qed

lemma stand_down_keeps:
  assumes "post_inv c s" and "findAssignment i s = Inr a" and "keeps_keys f"
    and "\<And>x. sa_isActive (f x) \<Longrightarrow> sa_isActive x"
  shows "post_inv c (snd (stand_down c a f s))"
proof -
  let ?g = "touched c (sa_id a) f"
  have a: "a \<in> set (staffAssignments s)"
    using findAssignment_mem [OF assms(2)] by simp
  have inv: "post_rows c (next_id s) (staffAssignments s) (staffSessions s)" using assms(1) by (simp add: post_inv_def)
  have same: "x = a" if "x \<in> set (staffAssignments s)" "sa_id x = sa_id a" for x
    by (rule post_same [OF inv that(1) a that(2)])
  have "post_rows c (next_id s) (map ?g (staffAssignments s)) (ended c (event_sessions (sa_eventId a) (sa_userId a)) (staffSessions s))"
  proof (rule post_rows_map [OF inv])
    fix x assume act: "x \<in> set (ended c (event_sessions (sa_eventId a) (sa_userId a)) (staffSessions s))" "is_active x"
    then have x: "x \<in> set (staffSessions s)" "ss_eventId x \<noteq> sa_eventId a \<or> ss_staffUserId x \<noteq> sa_userId a"
      using ended_active [OF act] by (simp_all add: event_sessions_def)
    then show "x \<in> set (staffSessions s)" by simp
    fix b assume b: "b \<in> set (staffAssignments s)" "posting x b"
    then have "sa_id b \<noteq> sa_id a" using x same [OF b(1)] by (auto simp: posting_def)
    then show "posting x (?g b)" using b by (simp add: touched_def)
  next
    fix x y assume xy: "x \<in> set (staffAssignments s)" "y \<in> set (staffAssignments s)"
      "sa_isActive (?g x)" "sa_isActive (?g y)" "sa_userId x = sa_userId y"
    have act: "sa_isActive z" if "sa_isActive (?g z)" for z
      using that assms(4) by (auto simp: touched_def split: if_splits)
    show "x = y" by (rule post_one [OF inv xy(1,2) act [OF xy(3)] act [OF xy(4)] xy(5)])
  qed (use assms(3) in \<open>auto simp: touched_def keeps_keys_def\<close>)
  then have "post_inv c (snd (bindA (end_sessions c (event_sessions (sa_eventId a) (sa_userId a))) (\<lambda>_.
      change_assignment c (sa_id a) f) s))"
    by (simp add: bindA_done [OF end_sessions_run] change_run post_inv_def)
  then show ?thesis unfolding stand_down_def by (rule post_transaction [OF _ assms(1)])
qed

lemma post_rows_append:
  assumes "post_rows c n ps ss" and "sa_id r \<notin> sa_id ` set ps" and "(sa_eventId r, sa_userId r) \<notin> (\<lambda>a. (sa_eventId a, sa_userId a)) ` set ps"
    and "\<exists>k < n. sa_id r = cuid c k" and "\<And>a. a \<in> set ps \<Longrightarrow> sa_isActive a \<Longrightarrow> sa_userId a \<noteq> sa_userId r"
  shows "post_rows c n (append_row r ps) ss"
proof -
  have "a = b" if "a \<in> insert r (set ps)" "b \<in> insert r (set ps)" "sa_isActive a \<and> sa_isActive b \<and> sa_userId a = sa_userId b" for a b
    using that assms(1,5) unfolding post_rows_def by (metis insertE)
  then show ?thesis
    using assms(1-4) unfolding post_rows_def set_append_row map_append_row distinct_append by auto
qed

lemma create_keeps:
  assumes "post_inv c s" and "id_law c"
  shows "post_inv c (snd (createAssignment c dto s))"
proof -
  let ?u = "sd_userId dto" and ?e = "sd_eventId dto"
  let ?p = "\<lambda>x. sa_userId x = ?u \<and> sa_isActive x"
  let ?f = "\<lambda>a. a\<lparr>sa_checkpointId := Some (sd_checkpointId dto), sa_deviceId := Some (sd_deviceId dto),
      sa_notes := or_kept (sd_notes dto) (sa_notes a), sa_isActive := True\<rparr>"
  let ?ps = "map (off c ?p) (staffAssignments s)" and ?ss = "ended c (user_sessions ?u) (staffSessions s)"
  let ?t = "s\<lparr>staffSessions := ?ss, staffAssignments := ?ps\<rparr>"
  have inv: "post_rows c (next_id s) (staffAssignments s) (staffSessions s)" using assms(1) by (simp add: post_inv_def)
  have others: "x \<in> set (staffSessions s) \<and> ss_staffUserId x \<noteq> ?u" if "x \<in> set ?ss" "is_active x" for x
    using ended_active [OF that] by (simp add: user_sessions_def)
  have idle: "\<not> (sa_isActive a \<and> sa_userId a = ?u)" if "a \<in> set ?ps" for a
    using that by auto
  have off: "post_rows c (next_id s) ?ps ?ss"
  proof (rule post_rows_map [OF inv])
    fix x b assume x: "x \<in> set ?ss" "is_active x" and b: "b \<in> set (staffAssignments s)" "posting x b"
    then show "posting x (off c ?p b)" using others [OF x] by (auto simp: posting_def off_def)
  next
    fix x y assume xy: "x \<in> set (staffAssignments s)" "y \<in> set (staffAssignments s)"
      "sa_isActive (off c ?p x)" "sa_isActive (off c ?p y)" "sa_userId x = sa_userId y"
    then show "x = y" using post_one [OF inv xy(1,2) _ _ xy(5)] by simp
  qed (use others in auto)
  have step: "post_inv c (snd ((case find_assignment ?e ?u ?t of
        Some a \<Rightarrow> change_assignment c (sa_id a) ?f
      | None \<Rightarrow> bindA (new_id c) (\<lambda>i.
          let a = \<lparr>sa_id = i, sa_eventId = ?e, sa_userId = ?u,
            sa_checkpointId = Some (sd_checkpointId dto), sa_deviceId = Some (sd_deviceId dto), sa_isActive = True,
            sa_updatedAt = now c, sa_notes = or_kept (sd_notes dto) None, sa_createdAt = now c\<rparr> in
          bindA (modify (\<lambda>s. s\<lparr>staffAssignments := append_row a (staffAssignments s)\<rparr>)) (\<lambda>_. ret a))) ?t))"
  proof (cases "find_assignment ?e ?u ?t")
    case None
    have free: "(?e, ?u) \<noteq> (sa_eventId a, sa_userId a)" if "a \<in> set ?ps" for a
      using None that by (auto simp: find_assignment_def find_row_None)
    have fresh: "sa_id a \<noteq> cuid c (next_id s)" if "a \<in> set ?ps" for a
      using post_fresh [OF off assms(2) that] .
    define r where "r = \<lparr>sa_id = cuid c (next_id s), sa_eventId = ?e, sa_userId = ?u,
      sa_checkpointId = Some (sd_checkpointId dto), sa_deviceId = Some (sd_deviceId dto), sa_isActive = True,
      sa_updatedAt = now c, sa_notes = or_kept (sd_notes dto) None, sa_createdAt = now c\<rparr>"
    have r: "sa_id r = cuid c (next_id s)" "sa_eventId r = ?e" "sa_userId r = ?u" by (simp_all add: r_def)
    have "post_rows c (Suc (next_id s)) (append_row r ?ps) ?ss"
    proof (rule post_rows_append)
      show "post_rows c (Suc (next_id s)) ?ps ?ss" by (rule post_rows_mono [OF off le_SucI [OF order_refl]])
      show "sa_id r \<notin> sa_id ` set ?ps" by (rule notI, erule imageE) (use fresh r(1) in metis)
      show "(sa_eventId r, sa_userId r) \<notin> (\<lambda>a. (sa_eventId a, sa_userId a)) ` set ?ps"
        by (rule notI, erule imageE) (use free r(2,3) in metis)
      show "\<exists>k < Suc (next_id s). sa_id r = cuid c k" using r(1) by blast
      show "sa_userId a \<noteq> sa_userId r" if "a \<in> set ?ps" "sa_isActive a" for a
        using idle [OF that(1)] that(2) r(3) by simp
    qed
    then show ?thesis
      using None by (simp add: bindA_def new_id_def Let_def modify_def ret_def post_inv_def flip: r_def)
  next
    case (Some b)
    then have b: "b \<in> set ?ps" "sa_userId b = ?u" by (auto simp: find_assignment_def dest: find_row_Some)
    have "post_rows c (next_id s) (map (touched c (sa_id b) ?f) ?ps) ?ss"
    proof (rule post_rows_map [OF off])
      fix x a assume x: "x \<in> set ?ss" "is_active x" and a: "a \<in> set ?ps" "posting x a"
      then have "sa_userId a \<noteq> ?u" using others [OF x] by (auto simp: posting_def)
      then have "sa_id a \<noteq> sa_id b" using post_same [OF off a(1) b(1)] b(2) by auto
      then show "posting x (touched c (sa_id b) ?f a)" using a(2) by (simp add: touched_def)
    next
      fix x y assume xy: "x \<in> set ?ps" "y \<in> set ?ps"
        "sa_isActive (touched c (sa_id b) ?f x)" "sa_isActive (touched c (sa_id b) ?f y)" "sa_userId x = sa_userId y"
      have act: "z = b \<or> sa_isActive z \<and> sa_userId z \<noteq> ?u"
        if "z \<in> set ?ps" "sa_isActive (touched c (sa_id b) ?f z)" for z
        using that(2) idle [OF that(1)] post_same [OF off that(1) b(1)]
        by (simp add: touched_def split: if_splits)
      show "x = y" using act [OF xy(1,3)] act [OF xy(2,4)] xy(5) b(2) post_one [OF off xy(1,2)] by auto
    qed (auto simp: touched_def)
    then show ?thesis using Some by (simp add: change_run post_inv_def)
  qed
  have "post_inv c (snd (transaction (bindA (end_sessions c (user_sessions ?u)) (\<lambda>_.
      bindA (change_assignments c ?p (\<lambda>a. a\<lparr>sa_isActive := False\<rparr>)) (\<lambda>_.
      bindA (gets (find_assignment ?e ?u)) (\<lambda>existing. case existing of
        Some a \<Rightarrow> change_assignment c (sa_id a) ?f
      | None \<Rightarrow> bindA (new_id c) (\<lambda>i.
          let a = \<lparr>sa_id = i, sa_eventId = ?e, sa_userId = ?u,
            sa_checkpointId = Some (sd_checkpointId dto), sa_deviceId = Some (sd_deviceId dto), sa_isActive = True,
            sa_updatedAt = now c, sa_notes = or_kept (sd_notes dto) None, sa_createdAt = now c\<rparr> in
          bindA (modify (\<lambda>s. s\<lparr>staffAssignments := append_row a (staffAssignments s)\<rparr>)) (\<lambda>_. ret a)))))) s))"
    by (rule post_transaction [OF _ assms(1)])
      (use step in \<open>simp add: bindA_done [OF end_sessions_run] bindA_done [OF change_run(1)] bindA_gets\<close>)
  then show ?thesis
    using assms(1) by (simp add: createAssignment_def bindA_reads split: sum.splits)
qed

lemma update_keeps:
  assumes "post_inv c s"
  shows "post_inv c (snd (updateAssignment c i dto s))"
proof (cases "findAssignment i s")
  case (Inl e)
  then show ?thesis using assms by (simp add: updateAssignment_def bindA_reads)
next
  case (Inr a)
  have inv: "post_rows c (next_id s) (staffAssignments s) (staffSessions s)" using assms by (simp add: post_inv_def)
  have keys: "keeps_keys (changed_assignment dto)" by (simp add: keeps_keys_def changed_assignment_def)
  have on: "post_inv c (snd (take_over c a (changed_assignment dto) s))"
    by (rule take_over_keeps [OF assms Inr keys])
  have down: "post_inv c (snd (stand_down c a (changed_assignment dto) s))" if "sv_isActive dto \<noteq> Some True"
    by (rule stand_down_keeps [OF assms Inr keys])
      (use that in \<open>cases "sv_isActive dto"; simp add: changed_assignment_def\<close>)
  have only_notes: "post_inv c (snd (change_assignment c i (changed_assignment dto) s))"
    if "sv_isActive dto = None" "sv_checkpointId dto = None \<or> sv_checkpointId dto = sa_checkpointId a"
      "sv_deviceId dto = None \<or> sv_deviceId dto = sa_deviceId a"
  proof -
    have i: "sa_id a = i" "a \<in> set (staffAssignments s)" using findAssignment_mem [OF Inr] by simp_all
    have only: "b = a" if "b \<in> set (staffAssignments s)" "sa_id b = i" for b
      using post_same [OF inv that(1) i(2)] that(2) i(1) by simp
    have same: "sa_checkpointId (changed_assignment dto a) = sa_checkpointId a" "sa_deviceId (changed_assignment dto a) = sa_deviceId a"
        "sa_isActive (changed_assignment dto b) = sa_isActive b" for b
      using that by (auto simp: changed_assignment_def or_kept_def split: option.splits)
    have "post_rows c (next_id s) (map (touched c i (changed_assignment dto)) (staffAssignments s)) (staffSessions s)"
    proof (rule post_rows_map [OF inv])
      show "posting x (touched c i (changed_assignment dto) b)" if "b \<in> set (staffAssignments s)" "posting x b" for x b
        using only [OF that(1)] that(2) same keys by (auto simp: touched_def posting_def keeps_keys_def)
      show "x = y" if "x \<in> set (staffAssignments s)" "y \<in> set (staffAssignments s)" "sa_isActive (touched c i (changed_assignment dto) x)"
        "sa_isActive (touched c i (changed_assignment dto) y)" "sa_userId x = sa_userId y" for x y
        using post_one [OF inv that(1,2)] that(3-5) same by (auto simp: touched_def split: if_splits)
    qed (use keys in \<open>auto simp: touched_def keeps_keys_def\<close>)
    then show ?thesis by (simp add: change_run post_inv_def)
  qed
  have which: "sv_isActive dto = None" if "sv_isActive dto \<noteq> Some True" "sv_isActive dto \<noteq> Some False"
    using that by (cases "sv_isActive dto") auto
  show ?thesis
    using Inr assms on down only_notes which
    by (auto simp: updateAssignment_def bindA_reads Let_def throw_def split: sum.splits)
qed

lemma setActive_keeps:
  assumes "post_inv c s"
  shows "post_inv c (snd (setAssignmentActive c i b s))"
proof (cases "findAssignment i s")
  case (Inl e)
  then show ?thesis using assms by (simp add: setAssignmentActive_def bindA_reads)
next
  case (Inr a)
  have "post_inv c (snd (take_over c a (\<lambda>x. x) s))"
    by (rule take_over_keeps [OF assms Inr]) (simp add: keeps_keys_def)
  moreover have "post_inv c (snd (stand_down c a (\<lambda>x. x\<lparr>sa_isActive := False\<rparr>) s))"
    by (rule stand_down_keeps [OF assms Inr]) (simp_all add: keeps_keys_def)
  ultimately show ?thesis
    using Inr assms by (simp add: setAssignmentActive_def bindA_reads throw_def split: sum.splits)
qed

section \<open>The sessions keep it\<close>

lemma post_sessions:
  "post_inv c s \<Longrightarrow> fewer_active (staffSessions s) ss \<Longrightarrow> post_inv c (s\<lparr>staffSessions := ss\<rparr>)"
  by (auto simp: post_inv_def intro: post_rows_fewer)

lemma post_end_sessions: "within (keeps (post_inv c)) (end_sessions c' p) s"
  by (simp add: within_def keeps_def end_sessions_run post_sessions fewer_ended)

lemma post_seen: "within (keeps (post_inv c)) (seen_device c' d) s"
  by (simp add: within_def keeps_def seen_device_def modify_def post_inv_def)

lemma post_rewrite:
  assumes "\<And>x. ss_eventId (f x) = ss_eventId x \<and> ss_staffUserId (f x) = ss_staffUserId x \<and> ss_deviceId (f x) = ss_deviceId x \<and>
    ss_checkpointId (f x) = ss_checkpointId x \<and> (is_active (f x) \<longrightarrow> is_active x)"
  shows "within (keeps (post_inv c)) (modify (\<lambda>s. s\<lparr>staffSessions := update_by ss_id i f (staffSessions s)\<rparr>)) s"
  using fewer_update [OF assms] by (simp add: within_def keeps_def modify_def update_by_def post_sessions)

lemma post_start: "within (keeps (post_inv c)) (start c' u dto) s"
proof (cases "start c' u dto s")
  case (Pair r t)
  then show ?thesis
  proof (cases r)
    case (Inl e)
    then have "t = s"
      using Pair by (auto simp: start_def Let_def bindA_reads throw_def openSession_run split: sum.splits if_splits)
    then show ?thesis using Pair by (simp add: within_def keeps_def)
  next
    case (Inr x)
    then have run: "start c' u dto s = (Inr x, t)" using Pair by simp
    then show ?thesis
    proof (rule start_Inr)
      fix userId event user device cp a
      assume g: "openSession c' userId (st_mode dto) dto s = (Inr x, t)"
        "ensureActiveDevice (st_deviceId dto) (st_eventId dto) s = Inr device"
        "ensureActiveCheckpointBelongsToEvent (st_checkpointId dto) (st_eventId dto) s = Inr cp"
        "ensureActiveAssignmentBinding (st_eventId dto) userId (dv_id device) (cp_id cp) s = Inr a"
      let ?ss = "cleared c' userId dto (staffSessions s)"
      have ids: "dv_id device = st_deviceId dto" "cp_id cp = st_checkpointId dto"
        using g(2,3) by (auto simp: ensureActiveDevice_Inr ensureActiveCheckpointBelongsToEvent_def find_defs
          dest: lookup_by_Some split: option.splits if_splits)
      have x: "x = opened_row c' userId (st_mode dto) dto (cuid c' (next_id s))" and t: "staffSessions t = append_row x ?ss"
        "staffAssignments t = staffAssignments s" "next_id t = Suc (next_id s)"
        using g(1) by (auto simp: openSession_run)
      have "a \<in> set (staffAssignments s) \<and> posting x a"
        using g(4) ids x by (auto simp: ensureActiveAssignmentBinding_def find_assignment_def posting_def opened_row_def
          dest: find_row_Some split: option.splits if_splits)
      moreover have "post_rows c (Suc (next_id s)) (staffAssignments s) ?ss" if "post_inv c s"
        using post_rows_fewer [OF _ fewer_trans [OF fewer_ended fewer_ended]] post_rows_mono [of c "next_id s"] that
        unfolding cleared_def post_inv_def by (meson le_SucI order_refl)
      ultimately show ?thesis
        using Pair t by (auto simp: within_def keeps_def post_inv_def post_rows_def)
    qed
  qed
qed

lemma post_startMy: "within (keeps (post_inv c)) (startMySession c' u) s"
  unfolding startMySession_def reuseSession_def Let_def
  by (intro keeps.within_rules keeps.within_bind post_start post_end_sessions post_seen post_rewrite impI allI)
    (simp_all add: is_active_def)

lemma post_endMy: "within (keeps (post_inv c)) (endMySession c' u) s"
  unfolding endMySession_def by (intro keeps.within_rules keeps.within_bind post_end_sessions)

lemma post_end: "within (keeps (post_inv c)) (end_session c' i) s"
  unfolding end_session_def Let_def
  by (intro keeps.within_rules keeps.within_bind post_rewrite) (simp_all add: is_active_def)

section \<open>Histories\<close>

datatype post_op =
    CreatePost assignment_dto
  | UpdatePost id assignment_change
  | ActivatePost id
  | DeactivatePost id
  | RemovePost id
  | StartSession auth_user start_dto
  | StartMine auth_user
  | EndMine auth_user
  | EndSession id

fun post_step :: "env \<Rightarrow> post_op \<Rightarrow> store \<Rightarrow> store" where
  "post_step c (CreatePost dto) s = snd (createAssignment c dto s)"
| "post_step c (UpdatePost i dto) s = snd (updateAssignment c i dto s)"
| "post_step c (ActivatePost i) s = snd (activateAssignment c i s)"
| "post_step c (DeactivatePost i) s = snd (deactivateAssignment c i s)"
| "post_step c (RemovePost i) s = snd (removeAssignment c i s)"
| "post_step c (StartSession u dto) s = snd (start c u dto s)"
| "post_step c (StartMine u) s = snd (startMySession c u s)"
| "post_step c (EndMine u) s = snd (endMySession c u s)"
| "post_step c (EndSession i) s = snd (end_session c i s)"

definition run_posts :: "(env \<times> post_op) list \<Rightarrow> store \<Rightarrow> store" where
  "run_posts history s = fold (\<lambda>(c, op). post_step c op) history s"

lemma post_step_keeps: "post_inv c s \<Longrightarrow> id_law c \<Longrightarrow> post_inv c (post_step c op s)"
  using create_keeps update_keeps setActive_keeps post_start post_startMy post_endMy post_end
  by (cases op) (simp_all add: activateAssignment_def deactivateAssignment_def removeAssignment_def within_def keeps_def)

lemma post_inv_env: "cuid c' = cuid c \<Longrightarrow> post_inv c' s = post_inv c s"
  by (simp add: post_inv_def post_rows_def)

lemma run_posts_keeps:
  assumes "id_law c" and "list_all (\<lambda>(c', op). cuid c' = cuid c) history"
  shows "post_inv c s \<Longrightarrow> post_inv c (run_posts history s)"
  using assms(2)
proof (induction history arbitrary: s)
  case Nil
  then show ?case by (simp add: run_posts_def)
next
  case (Cons x xs)
  obtain c' op where x: "x = (c', op)" by (cases x)
  then have c': "cuid c' = cuid c" using Cons.prems by simp
  then have "id_law c'" using assms(1) by (simp add: id_law_def)
  then have "post_inv c (post_step c' op s)"
    using post_step_keeps [of c' s op] post_inv_env [OF c'] Cons.prems(1) by simp
  then show ?case using Cons.IH Cons.prems(2) x by (simp add: run_posts_def)
qed

text \<open>C30: through every history of requests to the assignments and sessions services, refused ones included, a
  scanner session is active only under the assignment that authorises it: the one assignment of its event
  and user is active, names its device and its checkpoint, and is the only active assignment of the user.\<close>

theorem sessions_follow_assignments:
  assumes "id_law c" and "post_inv c s" and "list_all (\<lambda>(c', op). cuid c' = cuid c) history"
    and "x \<in> set (staffSessions (run_posts history s))" and "is_active x"
  shows "\<exists>a. find_assignment (ss_eventId x) (ss_staffUserId x) (run_posts history s) = Some a \<and> sa_isActive a \<and>
    sa_deviceId a = Some (ss_deviceId x) \<and> sa_checkpointId a = Some (ss_checkpointId x) \<and>
    (\<forall>b \<in> set (staffAssignments (run_posts history s)). sa_isActive b \<and> sa_userId b = ss_staffUserId x \<longrightarrow> b = a)"
proof -
  let ?s = "run_posts history s"
  have inv: "post_rows c (next_id ?s) (staffAssignments ?s) (staffSessions ?s)"
    using run_posts_keeps [OF assms(1,3,2)] by (simp add: post_inv_def)
  then obtain a where a: "a \<in> set (staffAssignments ?s)" "posting x a"
    using assms(4,5) unfolding post_rows_def by blast
  have "find_assignment (ss_eventId x) (ss_staffUserId x) ?s = Some a"
    using find_row_unique [of "\<lambda>a. (sa_eventId a, sa_userId a)" "staffAssignments ?s" a] inv a
    by (simp add: find_assignment_def post_rows_def posting_def)
  moreover have "b = a" if "b \<in> set (staffAssignments ?s)" "sa_isActive b \<and> sa_userId b = ss_staffUserId x" for b
    using post_one [OF inv that(1) a(1)] that(2) a(2) by (simp add: posting_def)
  ultimately show ?thesis using a(2) by (auto simp: posting_def)
qed

definition sample_posts :: store where
  "sample_posts = sample_staff\<lparr>staffAssignments := [\<lparr>sa_id = ''c0'', sa_eventId = ''e1'', sa_userId = ''u1'',
     sa_checkpointId = Some ''p1'', sa_deviceId = Some ''d1'', sa_isActive = True, sa_updatedAt = 600, sa_notes = None,
     sa_createdAt = 0\<rparr>], next_id := 1\<rparr>"

lemma sample_posts_inv: "post_inv sample_env sample_posts"
proof -
  have "\<exists>k < Suc 0. ''c0'' = cuid sample_env k" by (rule exI [of _ 0]) code_simp
  then show ?thesis
    by (simp add: post_inv_def post_rows_def sample_posts_def sample_staff_def sample_regs_def empty_store_def)
qed

definition sample_shift :: "(env \<times> post_op) list" where
  "sample_shift = [(sample_env, StartMine sample_user),
     (sample_env, UpdatePost ''c0'' \<lparr>sv_notes = Some (Some ''gate''), sv_isActive = None, sv_checkpointId = None, sv_deviceId = None\<rparr>)]"

lemma sample_shift_session: "map is_active (staffSessions (run_posts sample_shift sample_posts)) = [True]"
  by code_simp

lemma sessions_follow_assignments_witness:
  "\<exists>x a. x \<in> set (staffSessions (run_posts sample_shift sample_posts)) \<and>
     find_assignment (ss_eventId x) (ss_staffUserId x) (run_posts sample_shift sample_posts) = Some a \<and> sa_isActive a"
proof -
  obtain x where x: "x \<in> set (staffSessions (run_posts sample_shift sample_posts))" "is_active x"
    using sample_shift_session by (metis (no_types, lifting) list.set_intros(1) list.simps(9) map_eq_Cons_conv)
  have "list_all (\<lambda>(c', op). cuid c' = cuid sample_env) sample_shift" by (simp add: sample_shift_def)
  from sessions_follow_assignments [OF sample_laws(1) sample_posts_inv this x] show ?thesis using x(1) by blast
qed

end
