(* ===== verification/AttendeeTypes.thy ===== *)
theory AttendeeTypes
  imports Locations Registrations
begin

text \<open>
  \<open>src/modules/attendee-types/attendee-types.service.ts\<close>: the kinds of attendees of an event. Codes are
  normalised and unique within the event, and at most one type is the default. The database refuses to
  delete a type with registrations and sets the references of fields, import jobs and ticket templates
  to null.
\<close>

section \<open>Names in normal form\<close>

text \<open>\<open>replace(/[p]+/g, '_')\<close>.\<close>

function runs_to :: "(char \<Rightarrow> bool) \<Rightarrow> string \<Rightarrow> string" where
  "runs_to p [] = []"
| "runs_to p (x # xs) = (if p x then CHR ''_'' # runs_to p (dropWhile p xs) else x # runs_to p xs)"
  by pat_completeness auto
termination
  by (relation "measure (\<lambda>(p, xs). length xs)") (auto simp: le_imp_less_Suc length_dropWhile_le)

definition is_separator :: "char \<Rightarrow> bool" where
  "is_separator x = (is_space x \<or> x = CHR ''-'')"

definition normalizeCode :: "string \<Rightarrow> string" where
  "normalizeCode code = to_upper (runs_to is_separator (trim code))"

lemma runs_to_id: "(\<And>x. x \<in> set xs \<Longrightarrow> \<not> p x) \<Longrightarrow> runs_to p xs = xs"
  by (induction xs) auto

lemma runs_to_set: "set (runs_to p xs) \<subseteq> insert (CHR ''_'') {x \<in> set xs. \<not> p x}"
  by (induction p xs rule: runs_to.induct) (auto dest: set_dropWhileD)

lemma trim_id: "(\<And>x. x \<in> set s \<Longrightarrow> \<not> is_space x) \<Longrightarrow> trim s = s"
proof -
  assume "\<And>x. x \<in> set s \<Longrightarrow> \<not> is_space x"
  then have "trim_left t = t" if "set t \<subseteq> set s" for t using that by (cases t) (auto simp: trim_left_def)
  then show ?thesis by (simp add: trim_def)
qed

lemma upper_char_cases: "upper_char x = x \<or> (\<exists>n :: nat. 65 \<le> n \<and> n \<le> 90 \<and> upper_char x = char_of n)"
  by (auto simp: upper_char_def Let_def intro!: exI [of _ "of_char x - 32"])

lemma upper_char_idem [simp]: "upper_char (upper_char x) = upper_char x"
  by (auto simp: upper_char_def Let_def)

lemma separator_code: "is_separator x \<Longrightarrow> of_char x < (48 :: nat)"
  by (auto simp: is_separator_def is_space_def)

lemma upper_separator: "is_separator (upper_char x) \<Longrightarrow> is_separator x"
  using upper_char_cases [of x] separator_code [of "upper_char x"] by auto

lemma normalizeCode_idem: "normalizeCode (normalizeCode code) = normalizeCode code"
proof -
  have "\<not> is_separator x" if "x \<in> set (normalizeCode code)" for x
  proof
    assume "is_separator x"
    with that obtain y where y: "y \<in> set (runs_to is_separator (trim code))" "is_separator y"
      using upper_separator by (auto simp: normalizeCode_def to_upper_def)
    then show False using runs_to_set [of is_separator "trim code"] by (auto simp: is_separator_def is_space_def)
  qed
  then have "runs_to is_separator (trim (normalizeCode code)) = normalizeCode code"
    by (simp add: trim_id runs_to_id is_separator_def)
  then have "normalizeCode (normalizeCode code) = to_upper (normalizeCode code)" by (simp add: normalizeCode_def)
  then show ?thesis by (simp add: normalizeCode_def to_upper_def)
qed

section \<open>Operations\<close>

record type_dto =
  yd_eventId :: id
  yd_code :: string
  yd_nameAr :: string
  yd_nameEn :: "string option"
  yd_descriptionAr :: "string option"
  yd_descriptionEn :: "string option"
  yd_isDefault :: bool
  yd_isActive :: bool
  yd_sortOrder :: int

record type_change =
  yc_code :: "string option"
  yc_nameAr :: "string option"
  yc_nameEn :: "string option option"
  yc_descriptionAr :: "string option option"
  yc_descriptionEn :: "string option option"
  yc_isDefault :: "bool option"
  yc_isActive :: "bool option"
  yc_sortOrder :: "int option"

definition ensureTypeCodeIsUnique :: "id \<Rightarrow> string \<Rightarrow> id option \<Rightarrow> store \<Rightarrow> unit res" where
  "ensureTypeCodeIsUnique eventId code excludeId s =
    guard (\<not> exists_row (\<lambda>t. at_eventId t = eventId \<and> at_code t = code \<and> (truthy excludeId \<longrightarrow> Some (at_id t) \<noteq> excludeId))
        (attendeeTypes s))
      (Conflict ''Attendee type code already exists for this event'')"

text \<open>\<open>updateMany\<close> that takes the default away.\<close>

definition clear_default :: "(attendee_type \<Rightarrow> bool) \<Rightarrow> (store, unit) act" where
  "clear_default p = modify (\<lambda>s. s\<lparr>attendeeTypes := update_rows p (\<lambda>t. t\<lparr>at_isDefault := False\<rparr>) (attendeeTypes s)\<rparr>)"

text \<open>The writes of one row, under the unique code of the event.\<close>

definition same_code :: "attendee_type \<Rightarrow> attendee_type \<Rightarrow> bool" where
  "same_code t x = (at_id x \<noteq> at_id t \<and> at_eventId x = at_eventId t \<and> at_code x = at_code t)"

definition create_type :: "env \<Rightarrow> (id \<Rightarrow> attendee_type) \<Rightarrow> (store, attendee_type) act" where
  "create_type c row = bindA (new_id c) (\<lambda>i.
     bindA (gets (exists_row (same_code (row i)) \<circ> attendeeTypes)) (\<lambda>taken.
     if taken then throw UniqueViolation
     else bindA (modify (\<lambda>s. s\<lparr>attendeeTypes := append_row (row i) (attendeeTypes s)\<rparr>)) (\<lambda>_. ret (row i))))"

definition update_type :: "id \<Rightarrow> (attendee_type \<Rightarrow> attendee_type) \<Rightarrow> (store, attendee_type) act" where
  "update_type i f =
    bindA (gets (find_attendee_type i)) (\<lambda>r. case r of
      None \<Rightarrow> throw (OtherError ''Record to update not found'')
    | Some t \<Rightarrow>
        bindA (gets (exists_row (same_code (f t)) \<circ> attendeeTypes)) (\<lambda>taken.
        if taken then throw UniqueViolation
        else bindA (modify (\<lambda>s. s\<lparr>attendeeTypes := update_by at_id i f (attendeeTypes s)\<rparr>)) (\<lambda>_. ret (f t))))"

definition createAttendeeType :: "env \<Rightarrow> type_dto \<Rightarrow> (store, attendee_type) act" where
  "createAttendeeType c dto =
    bindA (reads (ensureEventCanBeModified (yd_eventId dto))) (\<lambda>_.
    let code = normalizeCode (yd_code dto);
        row = (\<lambda>i. \<lparr>at_id = i, at_eventId = yd_eventId dto, at_code = code, at_isDefault = yd_isDefault dto,
          at_isActive = yd_isActive dto, at_nameAr = yd_nameAr dto, at_nameEn = yd_nameEn dto,
          at_descriptionAr = yd_descriptionAr dto, at_descriptionEn = yd_descriptionEn dto,
          at_sortOrder = yd_sortOrder dto, at_createdAt = now c\<rparr>) in
    bindA (reads (ensureTypeCodeIsUnique (yd_eventId dto) code None)) (\<lambda>_.
    if yd_isDefault dto
    then transaction (bindA (clear_default (\<lambda>t. at_eventId t = yd_eventId dto)) (\<lambda>_. create_type c row))
    else create_type c row))"

definition findAllAttendeeTypes :: "(string \<Rightarrow> string \<Rightarrow> bool) \<Rightarrow> id option \<Rightarrow> bool option \<Rightarrow> string option \<Rightarrow>
    page_query \<Rightarrow> store \<Rightarrow> attendee_type paginated" where
  "findAllAttendeeTypes contains eventId isActive search query s =
    find_page (\<lambda>t. if_given eventId (\<lambda>e. at_eventId t = e) \<and> (case isActive of None \<Rightarrow> True | Some b \<Rightarrow> at_isActive t = b) \<and>
        if_given search (\<lambda>x. contains (at_code t) x \<or> contains (at_nameAr t) x \<or> column_contains contains x (at_nameEn t)))
      (\<lambda>t. (at_sortOrder t, - at_createdAt t)) query (attendeeTypes s)"

definition findOneAttendeeType :: "id \<Rightarrow> store \<Rightarrow> attendee_type res" where
  "findOneAttendeeType i s = found ''Attendee type'' (find_attendee_type i s)"

definition changed_type :: "type_change \<Rightarrow> string option \<Rightarrow> attendee_type \<Rightarrow> attendee_type" where
  "changed_type dto code t = t\<lparr>at_code := or_kept code (at_code t), at_isDefault := or_kept (yc_isDefault dto) (at_isDefault t),
     at_isActive := or_kept (yc_isActive dto) (at_isActive t), at_nameAr := or_kept (yc_nameAr dto) (at_nameAr t),
     at_nameEn := or_kept (yc_nameEn dto) (at_nameEn t), at_descriptionAr := or_kept (yc_descriptionAr dto) (at_descriptionAr t),
     at_descriptionEn := or_kept (yc_descriptionEn dto) (at_descriptionEn t),
     at_sortOrder := or_kept (yc_sortOrder dto) (at_sortOrder t)\<rparr>"

definition updateAttendeeType :: "id \<Rightarrow> type_change \<Rightarrow> (store, attendee_type) act" where
  "updateAttendeeType i dto =
    bindA (reads (findOneAttendeeType i)) (\<lambda>t.
    bindA (reads (ensureEventCanBeModified (at_eventId t))) (\<lambda>_.
    let code = (if truthy (yc_code dto) then Some (normalizeCode (the (yc_code dto))) else None) in
    bindA (reads (\<lambda>s. if truthy code then ensureTypeCodeIsUnique (at_eventId t) (the code) (Some i) s else Inr ())) (\<lambda>_.
    if yc_isDefault dto = Some True
    then transaction (bindA (clear_default (\<lambda>x. at_eventId x = at_eventId t \<and> at_id x \<noteq> i)) (\<lambda>_.
      update_type i (changed_type dto code)))
    else update_type i (changed_type dto code))))"

definition removeAttendeeType :: "id \<Rightarrow> (store, id \<times> id) act" where
  "removeAttendeeType i =
    bindA (reads (findOneAttendeeType i)) (\<lambda>t.
    bindA (reads (ensureEventCanBeModified (at_eventId t))) (\<lambda>_.
    bindA (gets (\<lambda>s. count_rows (\<lambda>r. rg_attendeeTypeId r = i) (registrations s))) (\<lambda>registrationCount.
    if 0 < registrationCount then throw (Conflict ''Cannot delete attendee type with registrations'')
    else bindA (modify (\<lambda>s. s\<lparr>attendeeTypes := delete_rows (\<lambda>t. at_id t = i) (attendeeTypes s),
        regFields := map (\<lambda>f. f\<lparr>rf_attendeeTypeId := nullify {i} (rf_attendeeTypeId f)\<rparr>) (regFields s),
        importJobs := map (\<lambda>j. j\<lparr>ij_attendeeTypeId := nullify {i} (ij_attendeeTypeId j)\<rparr>) (importJobs s),
        ticketTemplates := map (\<lambda>x. x\<lparr>tt_attendeeTypeId := nullify {i} (tt_attendeeTypeId x)\<rparr>) (ticketTemplates s)\<rparr>))
      (\<lambda>_. ret (i, at_eventId t)))))"

section \<open>The invariant\<close>

definition type_rows :: "env \<Rightarrow> nat \<Rightarrow> attendee_type list \<Rightarrow> bool" where
  "type_rows c n ts = (distinct (map at_id ts) \<and> distinct (map (\<lambda>t. (at_eventId t, at_code t)) ts) \<and>
     (\<forall>t \<in> set ts. \<exists>k < n. at_id t = cuid c k) \<and> (\<forall>t \<in> set ts. normalizeCode (at_code t) = at_code t) \<and>
     (\<forall>t \<in> set ts. \<forall>u \<in> set ts. at_isDefault t \<and> at_isDefault u \<and> at_eventId t = at_eventId u \<longrightarrow> t = u))"

definition type_inv :: "env \<Rightarrow> store \<Rightarrow> bool" where
  "type_inv c s = type_rows c (next_id s) (attendeeTypes s)"

lemma type_rows_map:
  assumes inv: "type_rows c n ts"
    and keys: "\<And>t. t \<in> set ts \<Longrightarrow> at_id (g t) = at_id t \<and> at_eventId (g t) = at_eventId t"
    and codes: "\<And>t u. t \<in> set ts \<Longrightarrow> u \<in> set ts \<Longrightarrow> at_eventId t = at_eventId u \<Longrightarrow> at_code (g t) = at_code (g u) \<Longrightarrow> t = u"
    and normal: "\<And>t. t \<in> set ts \<Longrightarrow> normalizeCode (at_code (g t)) = at_code (g t)"
    and one: "\<And>t u. t \<in> set ts \<Longrightarrow> u \<in> set ts \<Longrightarrow> at_isDefault (g t) \<Longrightarrow> at_isDefault (g u) \<Longrightarrow> at_eventId t = at_eventId u \<Longrightarrow> t = u"
  shows "type_rows c n (map g ts)"
proof -
  have ids: "map at_id (map g ts) = map at_id ts" using keys by simp
  have "inj_on (\<lambda>t. (at_eventId (g t), at_code (g t))) (set ts)"
    using codes keys by (auto simp: inj_on_def)
  moreover have "distinct ts" using inv distinct_map [of at_id ts] by (simp add: type_rows_def)
  ultimately have unique: "distinct (map (\<lambda>t. (at_eventId t, at_code t)) (map g ts))"
    by (simp add: distinct_map comp_def)
  have single: "g t = g u" if "t \<in> set ts" "u \<in> set ts" "at_isDefault (g t) \<and> at_isDefault (g u) \<and> at_eventId (g t) = at_eventId (g u)" for t u
    using that one keys by metis
  have "\<exists>k < n. at_id (g t) = cuid c k" if "t \<in> set ts" for t
    using keys [OF that] inv that by (simp add: type_rows_def)
  then have fresh: "\<forall>t \<in> g ` set ts. \<exists>k < n. at_id t = cuid c k" by blast
  have old: "distinct (map at_id ts)" using inv by (simp add: type_rows_def)
  show ?thesis
    unfolding type_rows_def ids set_map
    by (intro conjI old unique fresh ballI impI) (use single normal in blast)+
qed

lemma type_rows_same: "type_rows c n ts \<Longrightarrow> t \<in> set ts \<Longrightarrow> u \<in> set ts \<Longrightarrow> at_id t = at_id u \<Longrightarrow> t = u"
  unfolding type_rows_def by (blast intro: distinct_key_inj)

lemma type_rows_code:
  "type_rows c n ts \<Longrightarrow> t \<in> set ts \<Longrightarrow> u \<in> set ts \<Longrightarrow> at_eventId t = at_eventId u \<Longrightarrow> at_code t = at_code u \<Longrightarrow> t = u"
  using distinct_key_inj [of "\<lambda>t. (at_eventId t, at_code t)" ts t u] by (simp add: type_rows_def)

lemma type_rows_default:
  "type_rows c n ts \<Longrightarrow> t \<in> set ts \<Longrightarrow> u \<in> set ts \<Longrightarrow> at_isDefault t \<Longrightarrow> at_isDefault u \<Longrightarrow> at_eventId t = at_eventId u \<Longrightarrow> t = u"
  unfolding type_rows_def by blast

lemma type_rows_delete: "type_rows c n ts \<Longrightarrow> type_rows c n (delete_rows p ts)"
  by (auto simp: type_rows_def set_delete_rows distinct_map_delete_rows)

lemma type_rows_mono: "type_rows c n ts \<Longrightarrow> n \<le> m \<Longrightarrow> type_rows c m ts"
  unfolding type_rows_def by (meson order_less_le_trans)

lemma type_rows_append:
  assumes "type_rows c n ts" and "id_law c" and "at_id t = cuid c n" and "\<not> exists_row (same_code t) ts"
    and "normalizeCode (at_code t) = at_code t"
    and "\<And>u. u \<in> set ts \<Longrightarrow> at_isDefault t \<Longrightarrow> at_isDefault u \<Longrightarrow> at_eventId u \<noteq> at_eventId t"
  shows "type_rows c (Suc n) (append_row t ts)"
proof -
  have new: "at_id u \<noteq> cuid c n" if "u \<in> set ts" for u
    using assms(1,2) that by (auto simp: type_rows_def id_law_def inj_eq)
  then have code: "(at_eventId u, at_code u) \<noteq> (at_eventId t, at_code t)" if "u \<in> set ts" for u
    using that assms(3,4) by (auto simp: same_code_def exists_row_iff)
  have "(at_eventId t, at_code t) \<notin> (\<lambda>t. (at_eventId t, at_code t)) ` set ts" "at_id t \<notin> at_id ` set ts"
    by (rule notI, erule imageE, use code in metis) (rule notI, erule imageE, use new assms(3) in metis)
  then have "distinct (map at_id (append_row t ts))" "distinct (map (\<lambda>t. (at_eventId t, at_code t)) (append_row t ts))"
    using assms(1) unfolding type_rows_def map_append_row distinct_append by simp_all
  moreover have "\<exists>k < Suc n. at_id u = cuid c k" if "u \<in> insert t (set ts)" for u
    using that type_rows_mono [OF assms(1) le_SucI [OF order_refl]] assms(3) by (auto simp: type_rows_def)
  moreover have "u = x" if "u \<in> insert t (set ts)" "x \<in> insert t (set ts)" "at_isDefault u \<and> at_isDefault x \<and> at_eventId u = at_eventId x" for u x
  proof (cases "u = t \<or> x = t")
    case True
    then show ?thesis using that(1,2) that(3) assms(6) [of u] assms(6) [of x] by (elim disjE insertE) simp_all
  next
    case False
    then show ?thesis using that type_rows_default [OF assms(1), of u x] by simp
  qed
  ultimately show ?thesis
    using assms(1,5) unfolding type_rows_def set_append_row by blast
qed

definition undefaulted :: "(attendee_type \<Rightarrow> bool) \<Rightarrow> attendee_type \<Rightarrow> attendee_type" where
  "undefaulted p t = (if p t then t\<lparr>at_isDefault := False\<rparr> else t)"

lemma undefaulted_sel [simp]:
  "at_id (undefaulted p t) = at_id t" "at_eventId (undefaulted p t) = at_eventId t" "at_code (undefaulted p t) = at_code t"
  "at_isDefault (undefaulted p t) \<longleftrightarrow> at_isDefault t \<and> \<not> p t"
  by (simp_all add: undefaulted_def)

lemma clear_default_run: "clear_default p s = (Inr (), s\<lparr>attendeeTypes := map (undefaulted p) (attendeeTypes s)\<rparr>)"
  by (simp add: clear_default_def modify_def update_rows_def undefaulted_def [abs_def])

lemma type_rows_undefaulted:
  assumes "type_rows c n ts"
  shows "type_rows c n (map (undefaulted p) ts)"
proof (rule type_rows_map [OF assms])
  show "t = u" if "t \<in> set ts" "u \<in> set ts" "at_isDefault (undefaulted p t)" "at_isDefault (undefaulted p u)" "at_eventId t = at_eventId u" for t u
    using type_rows_default [OF assms that(1,2) _ _ that(5)] that(3,4) by simp
  show "t = u" if "t \<in> set ts" "u \<in> set ts" "at_eventId t = at_eventId u" "at_code (undefaulted p t) = at_code (undefaulted p u)" for t u
    using type_rows_code [OF assms that(1-3)] that(4) by simp
qed (use assms in \<open>auto simp: type_rows_def\<close>)

lemma create_type_keeps:
  assumes "type_inv c s" and "id_law c" and "\<And>i. at_id (row i) = i \<and> normalizeCode (at_code (row i)) = at_code (row i)"
    and "\<And>i u. u \<in> set (attendeeTypes s) \<Longrightarrow> at_isDefault (row i) \<Longrightarrow> at_isDefault u \<Longrightarrow> at_eventId u \<noteq> at_eventId (row i)"
  shows "type_inv c (snd (create_type c row s))"
  using assms type_rows_append [of c "next_id s" "attendeeTypes s" "row (cuid c (next_id s))"] type_rows_mono [of c "next_id s" _ "Suc (next_id s)"]
  by (auto simp: create_type_def bindA_def new_id_def gets_def throw_def modify_def ret_def type_inv_def)

lemma update_type_keeps:
  assumes "type_inv c s" and "\<And>t. at_id (f t) = at_id t \<and> at_eventId (f t) = at_eventId t"
    and "\<And>t. normalizeCode (at_code t) = at_code t \<Longrightarrow> normalizeCode (at_code (f t)) = at_code (f t)"
    and "\<And>t u. t \<in> set (attendeeTypes s) \<Longrightarrow> u \<in> set (attendeeTypes s) \<Longrightarrow> at_id t = i \<Longrightarrow> at_id u \<noteq> i \<Longrightarrow>
      at_isDefault (f t) \<Longrightarrow> at_isDefault u \<Longrightarrow> at_eventId u \<noteq> at_eventId t"
  shows "type_inv c (snd (update_type i f s))"
proof (cases "find_attendee_type i s")
  case None
  then show ?thesis using assms(1) by (simp add: update_type_def act_simps)
next
  case (Some t)
  let ?ts = "attendeeTypes s" and ?g = "\<lambda>x. if at_id x = i then f x else x"
  have inv: "type_rows c (next_id s) ?ts" using assms(1) by (simp add: type_inv_def)
  have t: "t \<in> set ?ts" "at_id t = i" using Some by (auto simp: find_attendee_type_def dest: lookup_by_Some)
  have only: "x = t" if "x \<in> set ?ts" "at_id x = i" for x
    using type_rows_same [OF inv that(1) t(1)] that(2) t(2) by simp
  have "type_rows c (next_id s) (map ?g ?ts)" if free: "\<not> exists_row (same_code (f t)) ?ts"
  proof (rule type_rows_map [OF inv])
    fix x y assume xy: "x \<in> set ?ts" "y \<in> set ?ts" "at_eventId x = at_eventId y"
    have clash: "at_code z \<noteq> at_code (f t)" if "z \<in> set ?ts" "at_id z \<noteq> i" "at_eventId z = at_eventId t" for z
      using free that assms(2) t(2) by (auto simp: same_code_def exists_row_iff)
    show "x = y" if "at_code (?g x) = at_code (?g y)"
      using xy that clash [OF xy(1)] clash [OF xy(2)] only [OF xy(1)] only [OF xy(2)] type_rows_code [OF inv xy]
      by (cases "at_id x = i"; cases "at_id y = i") auto
    show "x = y" if "at_isDefault (?g x)" "at_isDefault (?g y)"
      using xy that only [OF xy(1)] only [OF xy(2)] type_rows_default [OF inv xy(1,2) _ _ xy(3)] assms(4) [OF t(1) _ t(2)]
      by (cases "at_id x = i"; cases "at_id y = i") auto
  qed (use assms(2,3) inv in \<open>auto simp: type_rows_def\<close>)
  then show ?thesis
    using Some assms(1) by (simp add: update_type_def act_simps type_inv_def update_by_def update_rows_def)
qed

lemma type_transaction: "type_inv c (snd (m s)) \<Longrightarrow> type_inv c s \<Longrightarrow> type_inv c (snd (transaction m s))"
  by (auto simp: transaction_def split: prod.splits sum.splits)

lemma createType_keeps:
  assumes "type_inv c s" and "id_law c"
  shows "type_inv c (snd (createAttendeeType c dto s))"
proof -
  let ?row = "\<lambda>i. \<lparr>at_id = i, at_eventId = yd_eventId dto, at_code = normalizeCode (yd_code dto), at_isDefault = yd_isDefault dto,
          at_isActive = yd_isActive dto, at_nameAr = yd_nameAr dto, at_nameEn = yd_nameEn dto,
          at_descriptionAr = yd_descriptionAr dto, at_descriptionEn = yd_descriptionEn dto,
          at_sortOrder = yd_sortOrder dto, at_createdAt = now c\<rparr>"
  let ?s = "s\<lparr>attendeeTypes := map (undefaulted (\<lambda>t. at_eventId t = yd_eventId dto)) (attendeeTypes s)\<rparr>"
  have "type_inv c ?s" using type_rows_undefaulted assms(1) by (simp add: type_inv_def)
  then have "type_inv c (snd (create_type c ?row ?s))"
    by (rule create_type_keeps) (auto simp: assms(2) normalizeCode_idem)
  then have "type_inv c (snd (transaction (bindA (clear_default (\<lambda>t. at_eventId t = yd_eventId dto)) (\<lambda>_. create_type c ?row)) s))"
    using assms(1) by (intro type_transaction) (simp_all add: bindA_done [OF clear_default_run])
  moreover have "type_inv c (snd (create_type c ?row s))" if "\<not> yd_isDefault dto"
    by (rule create_type_keeps [OF assms]) (use that in \<open>simp_all add: normalizeCode_idem\<close>)
  ultimately show ?thesis
    using assms(1)
    by (cases "yd_isDefault dto") (simp_all add: createAttendeeType_def bindA_reads Let_def split: sum.splits)
qed

lemma updateType_keeps:
  assumes "type_inv c s"
  shows "type_inv c (snd (updateAttendeeType i dto s))"
proof (cases "findOneAttendeeType i s")
  case (Inl e)
  then show ?thesis using assms by (simp add: updateAttendeeType_def bindA_reads)
next
  case (Inr t)
  define code where "code = (if truthy (yc_code dto) then Some (normalizeCode (the (yc_code dto))) else None)"
  let ?f = "changed_type dto code" and ?p = "\<lambda>x. at_eventId x = at_eventId t \<and> at_id x \<noteq> i"
  let ?s = "s\<lparr>attendeeTypes := map (undefaulted ?p) (attendeeTypes s)\<rparr>"
  have inv: "type_rows c (next_id s) (attendeeTypes s)" using assms by (simp add: type_inv_def)
  have t: "t \<in> set (attendeeTypes s)" "at_id t = i"
    using Inr by (auto simp: findOneAttendeeType_def find_attendee_type_def dest: lookup_by_Some)
  have keys: "at_id (?f x) = at_id x \<and> at_eventId (?f x) = at_eventId x" for x by (simp add: changed_type_def)
  have normal: "normalizeCode (at_code x) = at_code x \<Longrightarrow> normalizeCode (at_code (?f x)) = at_code (?f x)" for x
    by (simp add: changed_type_def normalizeCode_idem code_def)
  have cleared: "type_inv c ?s" using type_rows_undefaulted [OF inv] by (simp add: type_inv_def)
  have "type_inv c (snd (update_type i ?f ?s))"
  proof (rule update_type_keeps [OF cleared keys normal])
    fix x u assume xu: "x \<in> set (attendeeTypes ?s)" "u \<in> set (attendeeTypes ?s)" "at_id x = i" "at_id u \<noteq> i" "at_isDefault u"
    then obtain y where y: "y \<in> set (attendeeTypes s)" "x = undefaulted ?p y" by auto
    then have "y = t" using type_rows_same [OF inv y(1) t(1)] xu(3) t(2) by simp
    then show "at_eventId u \<noteq> at_eventId x" using xu y by auto
  qed simp
  then have on: "type_inv c (snd (transaction (bindA (clear_default ?p) (\<lambda>_. update_type i ?f)) s))"
    using assms by (intro type_transaction) (simp_all add: bindA_done [OF clear_default_run])
  have off: "type_inv c (snd (update_type i ?f s))" if "yc_isDefault dto \<noteq> Some True"
  proof (rule update_type_keeps [OF assms keys normal])
    fix x u assume xu: "x \<in> set (attendeeTypes s)" "u \<in> set (attendeeTypes s)" "at_id x = i" "at_id u \<noteq> i"
      "at_isDefault (?f x)" "at_isDefault u"
    then have "at_isDefault x" using that by (cases "yc_isDefault dto") (auto simp: changed_type_def)
    then show "at_eventId u \<noteq> at_eventId x" using type_rows_default [OF inv xu(1,2)] xu(3,4,6) by auto
  qed simp
  show ?thesis
    using Inr assms on off
    by (cases "yc_isDefault dto = Some True")
      (simp_all add: updateAttendeeType_def bindA_reads Let_def split: sum.splits flip: code_def)
qed

lemma removeType_keeps: "type_inv c s \<Longrightarrow> type_inv c (snd (removeAttendeeType i s))"
  by (simp add: removeAttendeeType_def act_simps type_inv_def type_rows_delete split: sum.splits)

section \<open>Properties\<close>

datatype type_op =
    CreateType type_dto
  | UpdateType id type_change
  | RemoveType id

fun type_step :: "env \<Rightarrow> type_op \<Rightarrow> store \<Rightarrow> store" where
  "type_step c (CreateType dto) s = snd (createAttendeeType c dto s)"
| "type_step c (UpdateType i dto) s = snd (updateAttendeeType i dto s)"
| "type_step c (RemoveType i) s = snd (removeAttendeeType i s)"

definition run_types :: "(env \<times> type_op) list \<Rightarrow> store \<Rightarrow> store" where
  "run_types history s = fold (\<lambda>(c, op). type_step c op) history s"

lemma type_inv_env: "cuid c' = cuid c \<Longrightarrow> type_inv c' s = type_inv c s"
  by (simp add: type_inv_def type_rows_def)

lemma run_types_keeps:
  assumes "id_law c" and "list_all (\<lambda>(c', op). cuid c' = cuid c) history"
  shows "type_inv c s \<Longrightarrow> type_inv c (run_types history s)"
  using assms(2)
proof (induction history arbitrary: s)
  case Nil
  then show ?case by (simp add: run_types_def)
next
  case (Cons x xs)
  obtain c' op where x: "x = (c', op)" by (cases x)
  then have c': "cuid c' = cuid c" using Cons.prems by simp
  then have "id_law c'" "type_inv c' s" using assms(1) Cons.prems(1) type_inv_env [OF c'] by (simp_all add: id_law_def)
  then have "type_inv c' (type_step c' op s)"
    using createType_keeps updateType_keeps removeType_keeps by (cases op) simp_all
  then have "type_inv c (type_step c' op s)" by (simp add: type_inv_env [OF c'])
  then show ?case using Cons.IH Cons.prems(2) x by (simp add: run_types_def)
qed

text \<open>C31: through every history of creating, changing and removing attendee types, refused requests included,
  codes are in normal form and unique within their event, and no event has two default types.\<close>

theorem attendee_types_stay_sound:
  assumes "id_law c" and "type_inv c s" and "list_all (\<lambda>(c', op). cuid c' = cuid c) history"
    and "t \<in> set (attendeeTypes (run_types history s))" and "u \<in> set (attendeeTypes (run_types history s))"
    and "at_eventId t = at_eventId u"
  shows "normalizeCode (at_code t) = at_code t \<and> (at_code t = at_code u \<longrightarrow> t = u) \<and>
    (at_isDefault t \<and> at_isDefault u \<longrightarrow> t = u)"
proof (intro conjI impI)
  let ?s = "run_types history s"
  have inv: "type_rows c (next_id ?s) (attendeeTypes ?s)"
    using run_types_keeps [OF assms(1,3,2)] by (simp add: type_inv_def)
  show "normalizeCode (at_code t) = at_code t" using inv assms(4) by (simp add: type_rows_def)
  show "at_code t = at_code u \<Longrightarrow> t = u" by (rule type_rows_code [OF inv assms(4-6)])
  show "at_isDefault t \<and> at_isDefault u \<Longrightarrow> t = u" using type_rows_default [OF inv assms(4,5)] assms(6) by blast
qed

definition sample_type_dto :: type_dto where
  "sample_type_dto = \<lparr>yd_eventId = ''e1'', yd_code = '' vip-guest '', yd_nameAr = ''VIP'', yd_nameEn = None,
     yd_descriptionAr = None, yd_descriptionEn = None, yd_isDefault = True, yd_isActive = True, yd_sortOrder = 0\<rparr>"

definition sample_types :: store where
  "sample_types = empty_store\<lparr>events := events sample_regs\<rparr>"

definition sample_type_history :: "(env \<times> type_op) list" where
  "sample_type_history = [(sample_env, CreateType sample_type_dto), (sample_env, CreateType (sample_type_dto\<lparr>yd_code := ''press''\<rparr>))]"

lemma sample_types_run:
  "map (\<lambda>t. (at_eventId t, at_code t, at_isDefault t)) (attendeeTypes (run_types sample_type_history sample_types)) =
    [(''e1'', ''VIP_GUEST'', False), (''e1'', ''PRESS'', True)]"
  by code_simp

lemma attendee_types_stay_sound_witness:
  "\<exists>t. t \<in> set (attendeeTypes (run_types sample_type_history sample_types)) \<and> at_isDefault t \<and>
    normalizeCode (at_code t) = at_code t"
proof -
  obtain a b where ab: "attendeeTypes (run_types sample_type_history sample_types) = [a, b]" "at_isDefault b"
    using sample_types_run by (auto simp: map_eq_Cons_conv)
  have "list_all (\<lambda>(c', op). cuid c' = cuid sample_env) sample_type_history" by (simp add: sample_type_history_def)
  moreover have "type_inv sample_env sample_types" by (simp add: type_inv_def type_rows_def sample_types_def empty_store_def)
  moreover have "b \<in> set (attendeeTypes (run_types sample_type_history sample_types))" using ab by simp
  ultimately show ?thesis
    using attendee_types_stay_sound [OF sample_laws(1), of sample_types sample_type_history b b] ab(2) by blast
qed

text \<open>Removing an attendee type widens its form fields to the whole event. No field is deleted with the
  type; every field that was asked of its attendees only is now asked, and required where it was, of
  all attendees of the event.\<close>

theorem removed_type_widens_fields:
  assumes "removeAttendeeType i s = (Inr r, s')" and "f \<in> set (regFields s)" and "rf_attendeeTypeId f = Some i"
  shows "f\<lparr>rf_attendeeTypeId := None\<rparr> \<in> set (regFields s') \<and> find_attendee_type i s' = None \<and>
    length (regFields s') = length (regFields s)"
  using assms
  by (auto simp: removeAttendeeType_def act_simps find_attendee_type_def lookup_by_None set_delete_rows nullify_def image_iff
      split: sum.splits if_splits intro!: bexI [of _ f])

definition sample_typed :: store where
  "sample_typed = (snd (createAttendeeType sample_env sample_type_dto sample_types))\<lparr>regFields :=
     [(hd (regFields sample_regs))\<lparr>rf_attendeeTypeId := Some ''c0''\<rparr>]\<rparr>"

lemma removed_type_widens_fields_witness: "find_attendee_type ''c0'' (snd (removeAttendeeType ''c0'' sample_typed)) = None"
proof -
  have "is_Inr (fst (removeAttendeeType ''c0'' sample_typed))" by code_simp
  then obtain r s' where r: "removeAttendeeType ''c0'' sample_typed = (Inr r, s')" using run_Inr by blast
  have "hd (regFields sample_typed) \<in> set (regFields sample_typed)" "rf_attendeeTypeId (hd (regFields sample_typed)) = Some ''c0''"
    by (simp_all add: sample_typed_def)
  from removed_type_widens_fields [OF r this] r show ?thesis by simp
qed

end
