(* ===== verification/RegistrationFields.thy ===== *)
theory RegistrationFields
  imports AttendeeTypes
begin

text \<open>
  \<open>src/modules/registration-fields/registration-fields.service.ts\<close>: the custom fields of the registration
  form, of one kind of attendee or of all. Keys are normalised and unique within their scope; a choice field
  has options and no other field does. The unique column of the database does not separate rows whose
  attendee type is null.
\<close>

section \<open>Keys\<close>

definition is_upper :: "char \<Rightarrow> bool" where
  "is_upper x = (65 \<le> (of_char x :: nat) \<and> of_char x \<le> (90 :: nat))"

definition is_lower :: "char \<Rightarrow> bool" where
  "is_lower x = (97 \<le> (of_char x :: nat) \<and> of_char x \<le> (122 :: nat))"

definition key_char :: "char \<Rightarrow> bool" where
  "key_char x = (is_upper x \<or> is_lower x \<or> (48 \<le> (of_char x :: nat) \<and> of_char x \<le> (57 :: nat)) \<or> x = CHR ''_'')"

text \<open>\<open>replace(/([a-z])([A-Z])/g, '$1_$2')\<close>.\<close>

fun split_humps :: "string \<Rightarrow> string" where
  "split_humps (x # y # xs) = (if is_lower x \<and> is_upper y then x # CHR ''_'' # y # split_humps xs else x # split_humps (y # xs))"
| "split_humps xs = xs"

definition normalizeKey :: "string \<Rightarrow> string" where
  "normalizeKey key =
    to_lower (runs_to (\<lambda>x. x = CHR ''_'') (filter key_char (runs_to is_separator (split_humps (trim key)))))"

section \<open>Operations\<close>

record field_dto =
  fd_eventId :: id
  fd_attendeeTypeId :: "id option"
  fd_key :: string
  fd_labelAr :: string
  fd_labelEn :: "string option"
  fd_type :: field_type
  fd_placeholderAr :: "string option"
  fd_placeholderEn :: "string option"
  fd_helpTextAr :: "string option"
  fd_helpTextEn :: "string option"
  fd_isRequired :: bool
  fd_isUnique :: bool
  fd_options :: "json option"
  fd_validation :: "json option"
  fd_sortOrder :: int
  fd_isActive :: bool

record field_change =
  fc_attendeeTypeId :: "id option option"
  fc_key :: "string option"
  fc_labelAr :: "string option"
  fc_labelEn :: "string option option"
  fc_type :: "field_type option"
  fc_placeholderAr :: "string option option"
  fc_placeholderEn :: "string option option"
  fc_helpTextAr :: "string option option"
  fc_helpTextEn :: "string option option"
  fc_isRequired :: "bool option"
  fc_isUnique :: "bool option"
  fc_options :: "json option"
  fc_validation :: "json option"
  fc_sortOrder :: "int option"
  fc_isActive :: "bool option"

definition ensureAttendeeTypeBelongsToEvent :: "id option \<Rightarrow> id \<Rightarrow> store \<Rightarrow> unit res" where
  "ensureAttendeeTypeBelongsToEvent attendeeTypeId eventId s =
    (if \<not> truthy attendeeTypeId then Inr ()
     else bindE (found ''Attendee type'' (find_attendee_type (the attendeeTypeId) s)) (\<lambda>t.
       guard (at_eventId t = eventId) (BadRequest ''Attendee type must belong to the same event'')))"

definition ensureKeyIsUnique :: "id \<Rightarrow> string \<Rightarrow> id option \<Rightarrow> id option \<Rightarrow> store \<Rightarrow> unit res" where
  "ensureKeyIsUnique eventId key attendeeTypeId excludeId s =
    guard (\<not> exists_row (\<lambda>f. rf_eventId f = eventId \<and> rf_key f = key \<and> rf_attendeeTypeId f = attendeeTypeId \<and>
        (truthy excludeId \<longrightarrow> Some (rf_id f) \<noteq> excludeId)) (regFields s))
      (Conflict ''Registration field key already exists for this event and attendee type scope'')"

fun requiresOptions :: "field_type \<Rightarrow> bool" where
  "requiresOptions F_SELECT = True"
| "requiresOptions F_MULTI_SELECT = True"
| "requiresOptions _ = False"

fun hasNonEmptyOptions :: "json option \<Rightarrow> bool" where
  "hasNonEmptyOptions (Some (JArr xs)) = (xs \<noteq> [])"
| "hasNonEmptyOptions (Some (JObj ms)) = (ms \<noteq> [])"
| "hasNonEmptyOptions _ = False"

definition normalizeOptions :: "field_type \<Rightarrow> json option \<Rightarrow> json res" where
  "normalizeOptions type options =
    (if \<not> requiresOptions type then Inr JNull
     else if \<not> hasNonEmptyOptions options then Inl (BadRequest ''options must be provided for select fields'')
     else Inr (the options))"

definition normalizeExistingOptions :: "field_type \<Rightarrow> json \<Rightarrow> json res" where
  "normalizeExistingOptions type options = normalizeOptions type (Some options)"

text \<open>The constraints of a stored row.\<close>

definition same_field :: "reg_field \<Rightarrow> reg_field \<Rightarrow> bool" where
  "same_field f x = (rf_id x \<noteq> rf_id f \<and> rf_eventId x = rf_eventId f \<and> rf_key x = rf_key f \<and>
     rf_attendeeTypeId f \<noteq> None \<and> rf_attendeeTypeId x = rf_attendeeTypeId f)"

definition field_constraints :: "reg_field \<Rightarrow> store \<Rightarrow> unit res" where
  "field_constraints f s =
    (if exists_row (same_field f) (regFields s) then Inl UniqueViolation
     else guard (refers (\<lambda>i. find_attendee_type i s) (rf_attendeeTypeId f)) foreign_key)"

definition createField :: "env \<Rightarrow> field_dto \<Rightarrow> (store, reg_field) act" where
  "createField c dto =
    bindA (reads (ensureEventCanBeModified (fd_eventId dto))) (\<lambda>_.
    bindA (reads (ensureAttendeeTypeBelongsToEvent (fd_attendeeTypeId dto) (fd_eventId dto))) (\<lambda>_.
    let key = normalizeKey (fd_key dto) in
    bindA (reads (ensureKeyIsUnique (fd_eventId dto) key (fd_attendeeTypeId dto) None)) (\<lambda>_.
    bindA (reads (\<lambda>_. normalizeOptions (fd_type dto) (fd_options dto))) (\<lambda>options.
    bindA (new_id c) (\<lambda>i.
    let f = \<lparr>rf_id = i, rf_eventId = fd_eventId dto, rf_attendeeTypeId = fd_attendeeTypeId dto, rf_key = key,
          rf_labelAr = fd_labelAr dto, rf_labelEn = fd_labelEn dto, rf_type = fd_type dto, rf_isRequired = fd_isRequired dto,
          rf_options = options, rf_isActive = fd_isActive dto, rf_isUnique = fd_isUnique dto,
          rf_validation = or_kept (fd_validation dto) JNull, rf_sortOrder = fd_sortOrder dto,
          rf_placeholderAr = fd_placeholderAr dto, rf_placeholderEn = fd_placeholderEn dto,
          rf_helpTextAr = fd_helpTextAr dto, rf_helpTextEn = fd_helpTextEn dto, rf_createdAt = now c\<rparr> in
    bindA (reads (field_constraints f)) (\<lambda>_.
    bindA (modify (\<lambda>s. s\<lparr>regFields := append_row f (regFields s)\<rparr>)) (\<lambda>_. ret f)))))))"

definition findAllFields :: "(string \<Rightarrow> string \<Rightarrow> bool) \<Rightarrow> id option \<Rightarrow> id option \<Rightarrow> field_type option \<Rightarrow> bool option \<Rightarrow>
    string option \<Rightarrow> page_query \<Rightarrow> store \<Rightarrow> reg_field paginated" where
  "findAllFields contains eventId attendeeTypeId type isActive search query s =
    find_page (\<lambda>f. if_given eventId (\<lambda>e. rf_eventId f = e) \<and> if_given attendeeTypeId (\<lambda>t. rf_attendeeTypeId f = Some t) \<and>
        (case type of None \<Rightarrow> True | Some t \<Rightarrow> rf_type f = t) \<and> (case isActive of None \<Rightarrow> True | Some b \<Rightarrow> rf_isActive f = b) \<and>
        if_given search (\<lambda>x. contains (rf_key f) x \<or> contains (rf_labelAr f) x \<or> column_contains contains x (rf_labelEn f)))
      (\<lambda>f. (rf_sortOrder f, - rf_createdAt f)) query (regFields s)"

definition findOneField :: "id \<Rightarrow> store \<Rightarrow> reg_field res" where
  "findOneField i s = found ''Registration field'' (lookup_by rf_id i (regFields s))"

definition changed_field :: "field_change \<Rightarrow> id option \<Rightarrow> string \<Rightarrow> json \<Rightarrow> reg_field \<Rightarrow> reg_field" where
  "changed_field dto attendeeTypeId key options f = f\<lparr>rf_attendeeTypeId := attendeeTypeId, rf_key := key,
     rf_labelAr := or_kept (fc_labelAr dto) (rf_labelAr f), rf_labelEn := or_kept (fc_labelEn dto) (rf_labelEn f),
     rf_type := or_kept (fc_type dto) (rf_type f), rf_isRequired := or_kept (fc_isRequired dto) (rf_isRequired f),
     rf_options := options, rf_isActive := or_kept (fc_isActive dto) (rf_isActive f),
     rf_isUnique := or_kept (fc_isUnique dto) (rf_isUnique f), rf_validation := or_kept (fc_validation dto) (rf_validation f),
     rf_sortOrder := or_kept (fc_sortOrder dto) (rf_sortOrder f),
     rf_placeholderAr := or_kept (fc_placeholderAr dto) (rf_placeholderAr f),
     rf_placeholderEn := or_kept (fc_placeholderEn dto) (rf_placeholderEn f),
     rf_helpTextAr := or_kept (fc_helpTextAr dto) (rf_helpTextAr f), rf_helpTextEn := or_kept (fc_helpTextEn dto) (rf_helpTextEn f)\<rparr>"

definition updateField :: "id \<Rightarrow> field_change \<Rightarrow> (store, reg_field) act" where
  "updateField i dto =
    bindA (reads (findOneField i)) (\<lambda>f.
    bindA (reads (ensureEventCanBeModified (rf_eventId f))) (\<lambda>_.
    let attendeeTypeId = or_kept (fc_attendeeTypeId dto) (rf_attendeeTypeId f);
        key = (if truthy (fc_key dto) then normalizeKey (the (fc_key dto)) else rf_key f);
        type = or_kept (fc_type dto) (rf_type f) in
    bindA (reads (ensureAttendeeTypeBelongsToEvent attendeeTypeId (rf_eventId f))) (\<lambda>_.
    bindA (reads (ensureKeyIsUnique (rf_eventId f) key attendeeTypeId (Some i))) (\<lambda>_.
    bindA (reads (\<lambda>_. case fc_options dto of None \<Rightarrow> normalizeExistingOptions type (rf_options f)
      | Some options \<Rightarrow> normalizeOptions type (Some options))) (\<lambda>options.
    let g = changed_field dto attendeeTypeId key options in
    bindA (reads (field_constraints (g f))) (\<lambda>_.
    bindA (modify (\<lambda>s. s\<lparr>regFields := update_by rf_id i g (regFields s)\<rparr>)) (\<lambda>_. ret (g f))))))))"

definition removeField :: "id \<Rightarrow> (store, id \<times> id) act" where
  "removeField i =
    bindA (reads (findOneField i)) (\<lambda>f.
    bindA (reads (ensureEventCanBeModified (rf_eventId f))) (\<lambda>_.
    bindA (modify (\<lambda>s. s\<lparr>regFields := delete_rows (\<lambda>f. rf_id f = i) (regFields s)\<rparr>)) (\<lambda>_. ret (i, rf_eventId f))))"

section \<open>Normal form\<close>

lemma filter_id: "(\<And>x. x \<in> set xs \<Longrightarrow> p x) \<Longrightarrow> filter p xs = xs"
  by (induction xs) auto

lemma split_humps_id: "(\<And>x. x \<in> set s \<Longrightarrow> \<not> is_upper x) \<Longrightarrow> split_humps s = s"
  by (induction s rule: split_humps.induct) auto

definition single_underscores :: "string \<Rightarrow> bool" where
  "single_underscores = successively (\<lambda>a b. a \<noteq> CHR ''_'' \<or> b \<noteq> CHR ''_'')"

lemma hd_runs_to: "runs_to p (dropWhile p xs) = [] \<or> \<not> p (hd (runs_to p (dropWhile p xs)))"
proof (cases "dropWhile p xs")
  case Nil
  show ?thesis unfolding Nil by simp
next
  case (Cons y ys)
  then have "\<not> p y" using hd_dropWhile [of p xs] by simp
  then show ?thesis unfolding Cons by simp
qed

lemma underscores_collapsed: "p = (\<lambda>x. x = CHR ''_'') \<Longrightarrow> single_underscores (runs_to p s)"
proof (induction p s rule: runs_to.induct)
  case (1 p)
  then show ?case by (simp add: single_underscores_def)
next
  case (2 p x xs)
  have "single_underscores (y # zs)" if "zs = [] \<or> y \<noteq> CHR ''_'' \<or> hd zs \<noteq> CHR ''_''" "single_underscores zs" for y zs
    using that by (auto simp: single_underscores_def successively_Cons)
  moreover have "runs_to p (dropWhile p xs) = [] \<or> hd (runs_to p (dropWhile p xs)) \<noteq> CHR ''_''"
    using hd_runs_to [of p xs] unfolding 2(3) by blast
  ultimately show ?case using 2 by (cases "p x") simp_all
qed

lemma collapsed_id: "single_underscores s \<Longrightarrow> runs_to (\<lambda>x. x = CHR ''_'') s = s"
proof (induction s)
  case Nil
  then show ?case by simp
next
  case (Cons x xs)
  then have "dropWhile (\<lambda>x. x = CHR ''_'') xs = xs" if "x = CHR ''_''"
    using that by (cases xs) (auto simp: single_underscores_def)
  moreover have "single_underscores xs" using Cons.prems by (auto simp: single_underscores_def successively_Cons)
  ultimately show ?case using Cons.IH by simp
qed

definition normal_char :: "char \<Rightarrow> bool" where
  "normal_char x = (key_char x \<and> \<not> is_upper x)"

lemma lower_char_id: "\<not> is_upper x \<Longrightarrow> lower_char x = x"
  by (auto simp: lower_char_def is_upper_def Let_def)

lemma lower_char_key: "key_char x \<Longrightarrow> normal_char (lower_char x)"
  by (auto simp: normal_char_def key_char_def lower_char_def is_upper_def is_lower_def Let_def)

lemma lower_char_underscore: "lower_char x = CHR ''_'' \<longleftrightarrow> x = CHR ''_''"
proof
  assume h: "lower_char x = CHR ''_''"
  show "x = CHR ''_''"
  proof (cases "is_upper x")
    case True
    then have "of_char (lower_char x) \<ge> (97 :: nat)" by (simp add: lower_char_def is_upper_def Let_def)
    then show ?thesis using h by simp
  next
    case False
    then show ?thesis using h by (simp add: lower_char_id)
  qed
qed (simp add: lower_char_def)

lemma normalizeKey_chars: "x \<in> set (normalizeKey key) \<Longrightarrow> normal_char x"
  using runs_to_set [of "\<lambda>x. x = CHR ''_''" "filter key_char (runs_to is_separator (split_humps (trim key)))"]
  by (auto simp: normalizeKey_def to_lower_def intro!: lower_char_key) (auto simp: key_char_def)

lemma normalizeKey_single: "single_underscores (normalizeKey key)"
  using underscores_collapsed [OF refl]
  by (simp add: normalizeKey_def to_lower_def single_underscores_def successively_map lower_char_underscore)

lemma normal_char_plain: "normal_char x \<Longrightarrow> \<not> is_space x \<and> \<not> is_separator x"
  by (auto simp: normal_char_def key_char_def is_upper_def is_lower_def is_separator_def is_space_def)

lemma normal_key:
  assumes "\<And>x. x \<in> set k \<Longrightarrow> normal_char x" and "single_underscores k"
  shows "normalizeKey k = k"
proof -
  have plain: "\<not> is_space x" "\<not> is_upper x" "\<not> is_separator x" "key_char x" if "x \<in> set k" for x
    using normal_char_plain [OF assms(1) [OF that]] assms(1) [OF that] by (auto simp: normal_char_def)
  have "map lower_char k = k" using plain(2) by (simp add: lower_char_id map_idI)
  then show ?thesis
    using plain assms(2)
    by (simp add: normalizeKey_def trim_id split_humps_id runs_to_id filter_id collapsed_id to_lower_def)
qed

section \<open>Properties\<close>

lemma separators_only: "(\<And>x. x \<in> set s \<Longrightarrow> \<not> key_char x \<and> \<not> is_separator x) \<Longrightarrow> filter key_char (runs_to is_separator s) = []"
  by (induction s) auto

text \<open>The normal form of a key is a normal form: normalising it again changes nothing, and it consists of
  small letters, digits and single underscores. A key in a script without Latin letters, as in Arabic, is
  normalised to nothing.\<close>

theorem normalizeKey_normal:
  "normalizeKey (normalizeKey key) = normalizeKey key \<and>
   (x \<in> set (normalizeKey key) \<longrightarrow> is_lower x \<or> is_digit x \<or> x = CHR ''_'') \<and>
   (list_all (\<lambda>y. \<not> key_char y \<and> \<not> is_separator y) key \<longrightarrow> normalizeKey key = [])"
proof (intro conjI impI)
  show "normalizeKey (normalizeKey key) = normalizeKey key"
    using normalizeKey_chars normalizeKey_single by (rule normal_key)
  show "x \<in> set (normalizeKey key) \<Longrightarrow> is_lower x \<or> is_digit x \<or> x = CHR ''_''"
    using normalizeKey_chars [of x key] by (auto simp: normal_char_def key_char_def is_digit_def)
  assume "list_all (\<lambda>y. \<not> key_char y \<and> \<not> is_separator y) key"
  then have none: "\<not> key_char x \<and> \<not> is_separator x" if "x \<in> set key" for x using that by (simp add: list_all_iff)
  have plain: "\<not> is_space x" "\<not> is_upper x" if "x \<in> set key" for x
    using none [OF that] by (auto simp: is_separator_def key_char_def)
  then have "normalizeKey key = to_lower (runs_to (\<lambda>x. x = CHR ''_'') (filter key_char (runs_to is_separator key)))"
    by (simp add: normalizeKey_def trim_id split_humps_id)
  then show "normalizeKey key = []" using separators_only [OF none] by (simp add: to_lower_def)
qed

text \<open>The Arabic for name, in UTF-8.\<close>

definition arabic_name :: string where
  "arabic_name = map char_of [216 :: nat, 167, 216, 179, 217, 133]"

lemma normalizeKey_normal_witness: "normalizeKey arabic_name = []"
proof -
  have "list_all (\<lambda>y. \<not> key_char y \<and> \<not> is_separator y) arabic_name" by code_simp
  then show ?thesis using normalizeKey_normal [of arabic_name] by blast
qed

definition field_sound :: "reg_field \<Rightarrow> bool" where
  "field_sound f = (normalizeKey (rf_key f) = rf_key f \<and>
     (if requiresOptions (rf_type f) then hasNonEmptyOptions (Some (rf_options f)) else rf_options f = JNull))"

definition fields_ok :: "store \<Rightarrow> bool" where
  "fields_ok s = (\<forall>f \<in> set (regFields s). field_sound f)"

lemma normalized_options:
  "normalizeOptions type options = Inr j \<Longrightarrow> if requiresOptions type then hasNonEmptyOptions (Some j) else j = JNull"
  by (cases options) (auto simp: normalizeOptions_def split: if_splits)

text \<open>Every stored field has its key in normal form, and has options exactly when it is a choice field.
  Creating, changing and removing fields, and removing the attendee type of a field, keep this on every
  branch.\<close>

theorem fields_stay_sound:
  assumes "fields_ok s" and "distinct (map rf_id (regFields s))"
  shows "fields_ok (snd (createField c dto s))" and "fields_ok (snd (updateField i ch s))"
    and "fields_ok (snd (removeField i s))" and "fields_ok (snd (removeAttendeeType i s))"
proof -
  note idem = normalizeKey_chars normalizeKey_single
  have normal: "normalizeKey (normalizeKey k) = normalizeKey k" for k using idem by (rule normal_key)
  show "fields_ok (snd (createField c dto s))"
    using assms(1) normalized_options [of "fd_type dto" "fd_options dto"]
    by (auto simp: createField_def act_simps Let_def bindA_def new_id_def reads_def fields_ok_def field_sound_def normal
        split: sum.splits)
  have changed: "field_sound (changed_field ch t key j f)"
    if "field_sound f" "key = (if truthy (fc_key ch) then normalizeKey (the (fc_key ch)) else rf_key f)"
      "normalizeOptions (or_kept (fc_type ch) (rf_type f)) opt = Inr j" for t key j f opt
    using that normalized_options [OF that(3)] by (simp add: field_sound_def changed_field_def normal)
  show "fields_ok (snd (updateField i ch s))"
  proof (cases "findOneField i s")
    case (Inl e)
    then show ?thesis using assms(1) by (simp add: updateField_def act_simps)
  next
    case (Inr f)
    then have f: "f \<in> set (regFields s)" "rf_id f = i"
      using lookup_by_Some [of rf_id i "regFields s" f] by (simp_all add: findOneField_def)
    have only: "x = f" if "x \<in> set (regFields s)" "rf_id x = i" for x
      using distinct_key_inj [OF assms(2) that(1) f(1)] that(2) f(2) by simp
    define key where "key = (if truthy (fc_key ch) then normalizeKey (the (fc_key ch)) else rf_key f)"
    have "fields_ok (s\<lparr>regFields := update_by rf_id i (changed_field ch t key j) (regFields s)\<rparr>)"
      if "normalizeOptions (or_kept (fc_type ch) (rf_type f)) opt = Inr j" for t j opt
      using assms(1) only changed [OF _ key_def that] by (auto simp: fields_ok_def set_update_by)
    then show ?thesis
      using Inr assms(1)
      by (auto simp: updateField_def act_simps Let_def normalizeExistingOptions_def split: sum.splits option.splits simp flip: key_def)
  qed
  show "fields_ok (snd (removeField i s))"
    using assms(1) by (auto simp: removeField_def act_simps fields_ok_def set_delete_rows split: sum.splits)
  show "fields_ok (snd (removeAttendeeType i s))"
    using assms(1) by (auto simp: removeAttendeeType_def act_simps fields_ok_def field_sound_def split: sum.splits)
qed

definition sample_fields :: store where
  "sample_fields = sample_regs\<lparr>regFields := [(hd (regFields sample_regs))\<lparr>rf_key := ''size'', rf_type := F_SELECT,
     rf_options := JArr [JStr ''S'', JStr ''M'']\<rparr>]\<rparr>"

lemma sample_fields_ok: "fields_ok sample_fields"
proof -
  have "normalizeKey ''size'' = ''size''" by code_simp
  then show ?thesis by (simp add: fields_ok_def field_sound_def sample_fields_def)
qed

lemma fields_stay_sound_witness: "fields_ok (snd (removeField ''f1'' sample_fields))"
  by (rule fields_stay_sound(3) [OF sample_fields_ok]) (simp add: sample_fields_def)

end
