(* ===== verification/Devices.thy ===== *)
theory Devices
  imports Requests OfflineQr
begin

text \<open>
  The scanner devices: \<open>src/modules/devices/devices.service.ts\<close>, the API keys of
  \<open>src/common/utils/api-key.util.ts\<close> and \<open>src/common/guards/device-auth.guard.ts\<close>, which lets a device in.
  The answers are the rows; the responses leave the hash of the key out. The 32 random bytes of a key are
  drawn from \<open>rnd\<close>, in hexadecimal.
\<close>

section \<open>Keys\<close>

definition generateApiKey :: "(nat \<Rightarrow> string) \<Rightarrow> string \<Rightarrow> (store, string) act" where
  "generateApiKey rnd pre = bindA (draw rnd) (\<lambda>apiKey. ret (pre @ apiKey))"

definition hashApiKey :: "env \<Rightarrow> string \<Rightarrow> string" where
  "hashApiKey c apiKey = sha256_hex c apiKey"

text \<open>The guard. A header may be given several times; the first counts.\<close>

definition getApiKey :: "string list \<Rightarrow> string option" where
  "getApiKey header = (case header of [] \<Rightarrow> None | k # _ \<Rightarrow> Some k)"

definition deviceCanActivate :: "env \<Rightarrow> string list \<Rightarrow> store \<Rightarrow> device res" where
  "deviceCanActivate c header s =
    (let rawApiKey = getApiKey header in
     if \<not> truthy rawApiKey then Inl (Unauthorized ''Device API key is required'')
     else (case lookup_by dv_apiKeyHash (hashApiKey c (the rawApiKey)) (devices s) of
         None \<Rightarrow> Inl (Unauthorized ''Invalid device API key'')
       | Some d \<Rightarrow> if dv_status d \<noteq> DEV_ACTIVE then Inl (Unauthorized ''Invalid device API key'') else Inr d))"

section \<open>Operations\<close>

record device_dto =
  dd_eventId :: id
  dd_name :: string
  dd_code :: string
  dd_metadata :: "json option"

record device_change =
  dc_name :: "string option"
  dc_metadata :: "json option"

definition findDeviceOrThrow :: "id \<Rightarrow> store \<Rightarrow> device res" where
  "findDeviceOrThrow i s = found ''Device'' (find_device i s)"

definition ensureDeviceCodeIsUnique :: "string \<Rightarrow> store \<Rightarrow> unit res" where
  "ensureDeviceCodeIsUnique code s =
    guard (lookup_by dv_code code (devices s) = None) (Conflict ''Device code already exists'')"

text \<open>The unique columns.\<close>

definition same_login_key :: "device \<Rightarrow> device \<Rightarrow> bool" where
  "same_login_key d x = (dv_code x = dv_code d \<or> dv_apiKeyHash x = dv_apiKeyHash d)"

definition createDevice :: "env \<Rightarrow> (nat \<Rightarrow> string) \<Rightarrow> device_dto \<Rightarrow> (store, device \<times> string) act" where
  "createDevice c rnd dto =
    bindA (reads (ensureEventCanBeModified (dd_eventId dto))) (\<lambda>_.
    bindA (reads (ensureDeviceCodeIsUnique (dd_code dto))) (\<lambda>_.
    bindA (generateApiKey rnd ''evtops_'') (\<lambda>rawApiKey.
    bindA (new_id c) (\<lambda>i.
    let d = \<lparr>dv_id = i, dv_eventId = dd_eventId dto, dv_code = dd_code dto, dv_apiKeyHash = hashApiKey c rawApiKey,
          dv_status = DEV_ACTIVE, dv_lastSeenAt = None, dv_name = dd_name dto, dv_metadata = or_kept (dd_metadata dto) JNull,
          dv_createdAt = now c\<rparr> in
    bindA (gets (exists_row (same_login_key d) \<circ> devices)) (\<lambda>taken.
    if taken then throw UniqueViolation
    else bindA (modify (\<lambda>s. s\<lparr>devices := append_row d (devices s)\<rparr>)) (\<lambda>_. ret (d, rawApiKey)))))))"

definition findAllDevices :: "(string \<Rightarrow> string \<Rightarrow> bool) \<Rightarrow> id option \<Rightarrow> device_status option \<Rightarrow> string option \<Rightarrow>
    page_query \<Rightarrow> store \<Rightarrow> device paginated" where
  "findAllDevices contains eventId status search query s =
    find_page (\<lambda>d. if_given eventId (\<lambda>e. dv_eventId d = e) \<and> (case status of None \<Rightarrow> True | Some x \<Rightarrow> dv_status d = x) \<and>
        if_given search (\<lambda>x. contains (dv_name d) x \<or> contains (dv_code d) x))
      (\<lambda>d. - dv_createdAt d) query (devices s)"

definition findOneDevice :: "id \<Rightarrow> store \<Rightarrow> device res" where
  "findOneDevice i s = findDeviceOrThrow i s"

definition update_device :: "id \<Rightarrow> (device \<Rightarrow> device) \<Rightarrow> (store, device) act" where
  "update_device i f =
    bindA (gets (find_device i)) (\<lambda>r. case r of
      None \<Rightarrow> throw (OtherError ''Record to update not found'')
    | Some d \<Rightarrow>
        bindA (gets (exists_row (\<lambda>x. dv_id x \<noteq> i \<and> same_login_key (f d) x) \<circ> devices)) (\<lambda>taken.
        if taken then throw UniqueViolation
        else bindA (modify (\<lambda>s. s\<lparr>devices := update_by dv_id i f (devices s)\<rparr>)) (\<lambda>_. ret (f d))))"

definition updateDevice :: "id \<Rightarrow> device_change \<Rightarrow> (store, device) act" where
  "updateDevice i dto =
    bindA (reads (findDeviceOrThrow i)) (\<lambda>d.
    bindA (reads (ensureEventCanBeModified (dv_eventId d))) (\<lambda>_.
    update_device i (\<lambda>d. d\<lparr>dv_name := or_kept (dc_name dto) (dv_name d), dv_metadata := or_kept (dc_metadata dto) (dv_metadata d)\<rparr>)))"

definition updateStatus :: "id \<Rightarrow> device_status \<Rightarrow> (store, device) act" where
  "updateStatus i status =
    bindA (reads (findDeviceOrThrow i)) (\<lambda>d.
    bindA (reads (ensureEventCanBeModified (dv_eventId d))) (\<lambda>_.
    update_device i (\<lambda>d. d\<lparr>dv_status := status\<rparr>)))"

definition revokeDevice :: "id \<Rightarrow> (store, device) act" where
  "revokeDevice i = updateStatus i DEV_REVOKED"

definition removeDevice :: "id \<Rightarrow> (store, device) act" where
  "removeDevice i = updateStatus i DEV_REVOKED"

definition activateDevice :: "id \<Rightarrow> (store, device) act" where
  "activateDevice i = updateStatus i DEV_ACTIVE"

definition suspendDevice :: "id \<Rightarrow> (store, device) act" where
  "suspendDevice i = updateStatus i DEV_SUSPENDED"

definition rotateApiKey :: "env \<Rightarrow> (nat \<Rightarrow> string) \<Rightarrow> id \<Rightarrow> (store, device \<times> string) act" where
  "rotateApiKey c rnd i =
    bindA (reads (findDeviceOrThrow i)) (\<lambda>d.
    bindA (reads (ensureEventCanBeModified (dv_eventId d))) (\<lambda>_.
    bindA (generateApiKey rnd ''evtops_'') (\<lambda>rawApiKey.
    bindA (update_device i (\<lambda>d. d\<lparr>dv_apiKeyHash := hashApiKey c rawApiKey\<rparr>)) (\<lambda>d. ret (d, rawApiKey)))))"

definition provisionOfflineKey :: "env \<Rightarrow> id \<Rightarrow> string \<Rightarrow> int \<Rightarrow> (store, offline_key) act" where
  "provisionOfflineKey c i publicKey keyVersion =
    bindA (reads (findDeviceOrThrow i)) (\<lambda>d.
    bindA (reads (ensureEventCanBeModified (dv_eventId d))) (\<lambda>_.
    provisionDevicePublicKey c i publicKey keyVersion False))"

definition rotateOfflineKey :: "env \<Rightarrow> id \<Rightarrow> string \<Rightarrow> int \<Rightarrow> (store, offline_key) act" where
  "rotateOfflineKey c i publicKey keyVersion =
    bindA (reads (findDeviceOrThrow i)) (\<lambda>d.
    bindA (reads (ensureEventCanBeModified (dv_eventId d))) (\<lambda>_.
    provisionDevicePublicKey c i publicKey keyVersion True))"

definition getOfflineTrustBundle :: "id \<Rightarrow> store \<Rightarrow> (id \<times> trust_entry list) res" where
  "getOfflineTrustBundle i s = getTrustBundle i s"

section \<open>Properties\<close>

lemma update_device_Inr:
  "update_device i f s = (Inr d', s') \<longleftrightarrow> (\<exists>d. find_device i s = Some d \<and> d' = f d \<and>
     \<not> exists_row (\<lambda>x. dv_id x \<noteq> i \<and> same_login_key (f d) x) (devices s) \<and> s' = s\<lparr>devices := update_by dv_id i f (devices s)\<rparr>)"
  by (auto simp: update_device_def act_simps split: option.splits)

lemma refused_hash:
  "(\<And>d. d \<in> set (devices s) \<Longrightarrow> dv_apiKeyHash d = hashApiKey c k \<Longrightarrow> dv_status d \<noteq> DEV_ACTIVE) \<Longrightarrow> k \<noteq> [] \<Longrightarrow>
   deviceCanActivate c (k # ks) s = Inl (Unauthorized ''Invalid device API key'')"
  by (auto simp: deviceCanActivate_def getApiKey_def split: option.splits dest: lookup_by_Some)

lemma updateStatus_Inr:
  "updateStatus i status s = (Inr d, s') \<Longrightarrow> s' = s\<lparr>devices := update_by dv_id i (\<lambda>d. d\<lparr>dv_status := status\<rparr>) (devices s)\<rparr>"
  by (auto simp: updateStatus_def act_simps update_device_Inr split: sum.splits)

lemma find_row_only:
  assumes "y \<in> set rows" and "p y" and "\<And>x. x \<in> set rows \<Longrightarrow> p x \<Longrightarrow> x = y"
  shows "find_row p rows = Some y"
proof (cases "find_row p rows")
  case None
  then show ?thesis using assms(1,2) by (simp add: find_row_None)
next
  case (Some x)
  then show ?thesis using assms(3) [of x] find_row_Some [OF Some] by simp
qed

lemma rotate_Inr:
  assumes "rotateApiKey c rnd i s = (Inr (d', raw), s')" and "find_device i s = Some d"
  shows "raw = ''evtops_'' @ rnd (next_rand s)" and "d' = d\<lparr>dv_apiKeyHash := hashApiKey c raw\<rparr>"
    and "devices s' = update_by dv_id i (\<lambda>d. d\<lparr>dv_apiKeyHash := hashApiKey c raw\<rparr>) (devices s)"
    and "\<forall>x \<in> set (devices s). dv_id x \<noteq> i \<longrightarrow> dv_apiKeyHash x \<noteq> hashApiKey c raw"
  using assms
  by (auto simp: rotateApiKey_def act_simps bindA_def generateApiKey_def draw_def ret_def reads_def find_device_def
      update_device_def gets_def throw_def modify_def exists_row_iff same_login_key_def
      split: sum.splits option.splits if_splits prod.splits)

text \<open>C32: a device is let in only with its present key while it is active. Rotating the key gives a key that
  opens exactly this device, and the key before it opens no device any more; and once a device has been
  revoked or suspended, its key opens nothing.\<close>

theorem rotated_api_key_replaces:
  assumes "distinct (map dv_id (devices s))" and "distinct (map dv_apiKeyHash (devices s))"
    and "find_device i s = Some d" and "dv_apiKeyHash d = hashApiKey c old" and "old \<noteq> []"
  shows "(rotateApiKey c rnd i s = (Inr (d', raw), s') \<and> hashApiKey c raw \<noteq> hashApiKey c old \<longrightarrow>
      deviceCanActivate c [old] s' = Inl (Unauthorized ''Invalid device API key'')) \<and>
    (rotateApiKey c rnd i s = (Inr (d', raw), s') \<and> dv_status d = DEV_ACTIVE \<longrightarrow> deviceCanActivate c [raw] s' = Inr d' \<and> dv_id d' = i) \<and>
    (revokeDevice i s = (Inr d', s') \<or> suspendDevice i s = (Inr d', s') \<longrightarrow>
      deviceCanActivate c [old] s' = Inl (Unauthorized ''Invalid device API key''))"
proof -
  have d: "d \<in> set (devices s)" "dv_id d = i" using assms(3) lookup_by_Some [of dv_id i "devices s" d] by (auto simp: find_device_def)
  have holder: "x = d" if "x \<in> set (devices s)" "dv_apiKeyHash x = hashApiKey c old" for x
    using distinct_key_inj [OF assms(2) that(1) d(1)] that(2) assms(4) by simp
  have same: "x = d" if "x \<in> set (devices s)" "dv_id x = i" for x
    using distinct_key_inj [OF assms(1) that(1) d(1)] that(2) d(2) by simp
  have "deviceCanActivate c [old] s' = Inl (Unauthorized ''Invalid device API key'')"
    if "rotateApiKey c rnd i s = (Inr (d', raw), s')" "hashApiKey c raw \<noteq> hashApiKey c old"
  proof (rule refused_hash [OF _ assms(5)])
    fix x assume "x \<in> set (devices s')" "dv_apiKeyHash x = hashApiKey c old"
    then show "dv_status x \<noteq> DEV_ACTIVE"
      using that(2) holder d(2) by (auto simp: rotate_Inr(3) [OF that(1) assms(3)] set_update_by split: if_splits)
  qed
  moreover have "deviceCanActivate c [raw] s' = Inr d' \<and> dv_id d' = i"
    if "rotateApiKey c rnd i s = (Inr (d', raw), s')" "dv_status d = DEV_ACTIVE"
  proof -
    note r = rotate_Inr [OF that(1) assms(3)]
    have "lookup_by dv_apiKeyHash (hashApiKey c raw) (devices s') = Some d'"
      unfolding lookup_by_def
    proof (rule find_row_only)
      show "d' \<in> set (devices s')" using d by (auto simp: r(2,3) set_update_by)
      show "dv_apiKeyHash d' = hashApiKey c raw" by (simp add: r(2))
      fix x assume "x \<in> set (devices s')" "dv_apiKeyHash x = hashApiKey c raw"
      then show "x = d'" using r(2,4) same by (auto simp: r(3) set_update_by split: if_splits)
    qed
    then show ?thesis using that(2) d(2) by (simp add: deviceCanActivate_def getApiKey_def r(1) r(2))
  qed
  moreover have "deviceCanActivate c [old] s' = Inl (Unauthorized ''Invalid device API key'')"
    if off: "revokeDevice i s = (Inr d', s') \<or> suspendDevice i s = (Inr d', s')"
  proof (rule refused_hash [OF _ assms(5)])
    fix x assume x: "x \<in> set (devices s')" "dv_apiKeyHash x = hashApiKey c old"
    obtain status where st: "status \<noteq> DEV_ACTIVE" "updateStatus i status s = (Inr d', s')"
      using off unfolding revokeDevice_def suspendDevice_def by blast
    then have "devices s' = update_by dv_id i (\<lambda>d. d\<lparr>dv_status := status\<rparr>) (devices s)"
      using updateStatus_Inr [OF st(2)] by simp
    then obtain y where y: "y \<in> set (devices s)" "x = (if dv_id y = i then y\<lparr>dv_status := status\<rparr> else y)"
      using x(1) by (auto simp: set_update_by)
    then have "y = d" using x(2) holder by (simp split: if_splits)
    then show "dv_status x \<noteq> DEV_ACTIVE" using y(2) d(2) st(1) by simp
  qed
  ultimately show ?thesis by blast
qed

definition sample_keyed :: store where
  "sample_keyed = empty_store\<lparr>events := [sample_event], devices := [\<lparr>dv_id = ''d1'', dv_eventId = ''e1'', dv_code = ''A'', dv_apiKeyHash = ''key'',
     dv_status = DEV_ACTIVE, dv_lastSeenAt = None, dv_name = ''Gate'', dv_metadata = JNull, dv_createdAt = 0\<rparr>]\<rparr>"

lemma rotated_api_key_replaces_witness:
  "deviceCanActivate sample_env [''key''] (snd (rotateApiKey sample_env sample_hex ''d1'' sample_keyed)) =
    Inl (Unauthorized ''Invalid device API key'')"
proof -
  have "is_Inr (fst (rotateApiKey sample_env sample_hex ''d1'' sample_keyed))" by code_simp
  then obtain d' raw s' where r: "rotateApiKey sample_env sample_hex ''d1'' sample_keyed = (Inr (d', raw), s')"
    using run_Inr by (metis prod.collapse)
  have f: "find_device ''d1'' sample_keyed = Some (hd (devices sample_keyed))"
    by (simp add: find_device_def lookup_by_def sample_keyed_def)
  have "hashApiKey sample_env raw \<noteq> hashApiKey sample_env ''key''"
    using rotate_Inr(1) [OF r f] by (simp add: hashApiKey_def sample_env_def)
  moreover have "distinct (map dv_id (devices sample_keyed))" "distinct (map dv_apiKeyHash (devices sample_keyed))"
    "dv_apiKeyHash (hd (devices sample_keyed)) = hashApiKey sample_env ''key''"
    by (simp_all add: sample_keyed_def hashApiKey_def sample_env_def)
  ultimately show ?thesis using rotated_api_key_replaces [OF _ _ f, of _ "''key''" sample_hex d' raw s'] r by simp
qed

end
