(* ===== verification/Events.thy ===== *)
theory Events
  imports AttendeeTypes Clients
begin

text \<open>
  \<open>src/modules/events/events.service.ts\<close>: creating, changing and removing events. The removal drops the rows
  of every table that belongs to the event, in the order of the transaction; the references between rows
  are within one event here, so that no foreign key stops it or reaches another event. The uploaded files,
  which are handed to \<open>storage-cleanup.service.ts\<close> afterwards, are left out.
\<close>

section \<open>Creating and changing\<close>

record event_dto =
  ed_clientId :: id
  ed_type :: event_type
  ed_titleAr :: string
  ed_titleEn :: "string option"
  ed_descriptionAr :: "string option"
  ed_descriptionEn :: "string option"
  ed_startsAt :: string
  ed_endsAt :: string
  ed_timezone :: string
  ed_allowReEntry :: bool
  ed_duplicateStrategy :: string
  ed_qrValidFrom :: "string option"
  ed_qrValidUntil :: "string option"

record event_change =
  ec_clientId :: "id option"
  ec_type :: "event_type option"
  ec_titleAr :: "string option"
  ec_titleEn :: "string option option"
  ec_descriptionAr :: "string option option"
  ec_descriptionEn :: "string option option"
  ec_startsAt :: "string option"
  ec_endsAt :: "string option"
  ec_timezone :: "string option"
  ec_allowReEntry :: "bool option"
  ec_duplicateStrategy :: "string option"
  ec_qrValidFrom :: "string option"
  ec_qrValidUntil :: "string option"

definition ensureClientExists :: "id \<Rightarrow> store \<Rightarrow> unit res" where
  "ensureClientExists clientId s = bindE (found ''Client'' (find_client clientId s)) (\<lambda>_. Inr ())"

text \<open>Dates that cannot be read compare as false here, and the database client refuses them.\<close>

definition ensureEndsAfterStarts :: "time option \<Rightarrow> time option \<Rightarrow> unit res" where
  "ensureEndsAfterStarts startsAt endsAt =
    guard (\<not> (case (startsAt, endsAt) of (Some a, Some b) \<Rightarrow> b \<le> a | _ \<Rightarrow> False)) (BadRequest ''endsAt must be after startsAt'')"

definition storable_date :: "time option \<Rightarrow> time res" where
  "storable_date d = (case d of None \<Rightarrow> Inl (OtherError ''Invalid Date'') | Some t \<Rightarrow> Inr t)"

definition optional_date :: "env \<Rightarrow> string option \<Rightarrow> time option \<Rightarrow> time option res" where
  "optional_date c text kept =
    (if truthy text then bindE (storable_date (parse_date c (the text))) (\<lambda>t. Inr (Some t)) else Inr kept)"

definition createEvent :: "env \<Rightarrow> event_dto \<Rightarrow> (store, event_row) act" where
  "createEvent c dto =
    bindA (reads (ensureClientExists (ed_clientId dto))) (\<lambda>_.
    let startsAt = parse_date c (ed_startsAt dto); endsAt = parse_date c (ed_endsAt dto) in
    bindA (reads (\<lambda>_. ensureEndsAfterStarts startsAt endsAt)) (\<lambda>_.
    bindA (reads (\<lambda>_. storable_date startsAt)) (\<lambda>a.
    bindA (reads (\<lambda>_. storable_date endsAt)) (\<lambda>b.
    bindA (reads (\<lambda>_. optional_date c (ed_qrValidFrom dto) None)) (\<lambda>qrValidFrom.
    bindA (reads (\<lambda>_. optional_date c (ed_qrValidUntil dto) None)) (\<lambda>qrValidUntil.
    bindA (new_id c) (\<lambda>i.
    let e = \<lparr>ev_id = i, ev_clientId = ed_clientId dto, ev_status = EV_DRAFT, ev_startsAt = a, ev_endsAt = b,
          ev_allowReEntry = ed_allowReEntry dto, ev_duplicateStrategy = ed_duplicateStrategy dto,
          ev_qrValidFrom = qrValidFrom, ev_qrValidUntil = qrValidUntil, ev_type = ed_type dto, ev_titleAr = ed_titleAr dto,
          ev_titleEn = ed_titleEn dto, ev_descriptionAr = ed_descriptionAr dto, ev_descriptionEn = ed_descriptionEn dto,
          ev_timezone = ed_timezone dto, ev_createdAt = now c\<rparr> in
    bindA (modify (\<lambda>s. s\<lparr>events := append_row e (events s)\<rparr>)) (\<lambda>_. ret e))))))))"

definition findAllEvents :: "(string \<Rightarrow> string \<Rightarrow> bool) \<Rightarrow> id option \<Rightarrow> event_status option \<Rightarrow> event_type option \<Rightarrow>
    string option \<Rightarrow> page_query \<Rightarrow> store \<Rightarrow> event_row paginated" where
  "findAllEvents contains clientId status type search query s =
    find_page (\<lambda>e. if_given clientId (\<lambda>k. ev_clientId e = k) \<and> (case status of None \<Rightarrow> True | Some x \<Rightarrow> ev_status e = x) \<and>
        (case type of None \<Rightarrow> True | Some x \<Rightarrow> ev_type e = x) \<and>
        if_given search (\<lambda>x. contains (ev_titleAr e) x \<or> column_contains contains x (ev_titleEn e)))
      (\<lambda>e. - ev_createdAt e) query (events s)"

definition findOneEvent :: "id \<Rightarrow> store \<Rightarrow> event_row res" where
  "findOneEvent i s = found ''Event'' (find_event i s)"

text \<open>
  \<open>UpdateEventDto\<close> is \<open>PartialType(CreateEventDto)\<close>. Whether the derived class keeps the initialisers of
  \<open>CreateEventDto\<close> for properties that the body leaves out is up to \<open>@nestjs/mapped-types\<close>; it does
  (\<open>inheritPropertyInitializers\<close>).
\<close>

definition event_body :: "bool \<Rightarrow> event_change \<Rightarrow> event_change" where
  "event_body initialisers body = (if \<not> initialisers then body else
     body\<lparr>ec_timezone := Some (or_kept (ec_timezone body) ''Asia/Damascus''),
       ec_allowReEntry := Some (or_kept (ec_allowReEntry body) True),
       ec_duplicateStrategy := Some (or_kept (ec_duplicateStrategy body) ''PHONE'')\<rparr>)"

definition given_date :: "env \<Rightarrow> string option \<Rightarrow> time \<Rightarrow> time option" where
  "given_date c text kept = (if truthy text then parse_date c (the text) else Some kept)"

definition updateEvent :: "env \<Rightarrow> id \<Rightarrow> event_change \<Rightarrow> (store, event_row) act" where
  "updateEvent c i dto =
    bindA (reads (findOneEvent i)) (\<lambda>event.
    if ev_status event = EV_ARCHIVED then throw (BadRequest ''Archived events cannot be modified'')
    else
    bindA (reads (\<lambda>s. if truthy (ec_clientId dto) then ensureClientExists (the (ec_clientId dto)) s else Inr ())) (\<lambda>_.
    let startsAt = given_date c (ec_startsAt dto) (ev_startsAt event);
        endsAt = given_date c (ec_endsAt dto) (ev_endsAt event) in
    bindA (reads (\<lambda>_. ensureEndsAfterStarts startsAt endsAt)) (\<lambda>_.
    bindA (reads (\<lambda>_. storable_date startsAt)) (\<lambda>a.
    bindA (reads (\<lambda>_. storable_date endsAt)) (\<lambda>b.
    bindA (reads (\<lambda>_. optional_date c (ec_qrValidFrom dto) (ev_qrValidFrom event))) (\<lambda>qrValidFrom.
    bindA (reads (\<lambda>_. optional_date c (ec_qrValidUntil dto) (ev_qrValidUntil event))) (\<lambda>qrValidUntil.
    let f = (\<lambda>e. e\<lparr>ev_clientId := or_kept (ec_clientId dto) (ev_clientId e), ev_startsAt := a, ev_endsAt := b,
          ev_allowReEntry := or_kept (ec_allowReEntry dto) (ev_allowReEntry e),
          ev_duplicateStrategy := or_kept (ec_duplicateStrategy dto) (ev_duplicateStrategy e),
          ev_qrValidFrom := qrValidFrom, ev_qrValidUntil := qrValidUntil, ev_type := or_kept (ec_type dto) (ev_type e),
          ev_titleAr := or_kept (ec_titleAr dto) (ev_titleAr e), ev_titleEn := or_kept (ec_titleEn dto) (ev_titleEn e),
          ev_descriptionAr := or_kept (ec_descriptionAr dto) (ev_descriptionAr e),
          ev_descriptionEn := or_kept (ec_descriptionEn dto) (ev_descriptionEn e),
          ev_timezone := or_kept (ec_timezone dto) (ev_timezone e)\<rparr>) in
    bindA (reads (\<lambda>s. guard (find_client (ev_clientId (f event)) s \<noteq> None) foreign_key)) (\<lambda>_.
    bindA (modify (\<lambda>s. s\<lparr>events := update_by ev_id i f (events s)\<rparr>)) (\<lambda>_. ret (f event))))))))))"

section \<open>Removing\<close>

text \<open>\<open>deleteMany\<close>, with the number of rows.\<close>

definition wipe :: "(store \<Rightarrow> 'r list) \<Rightarrow> ('r list \<Rightarrow> store \<Rightarrow> store) \<Rightarrow> (store \<Rightarrow> 'r \<Rightarrow> bool) \<Rightarrow> (store, nat) act" where
  "wipe table put p = (\<lambda>s. (Inr (count_rows (p s) (table s)), put (delete_rows (p s) (table s)) s))"

definition log_of_event :: "id \<Rightarrow> store \<Rightarrow> notification_log \<Rightarrow> bool" where
  "log_of_event i s l = (nl_eventId l = Some i \<or>
     exists_row (\<lambda>r. nl_registrationId l = Some (rg_id r) \<and> rg_eventId r = i) (registrations s) \<or>
     exists_row (\<lambda>t. nl_templateId l = Some (nt_id t) \<and> nt_eventId t = Some i) (notificationTemplates s))"

definition import_row_of_event :: "id \<Rightarrow> store \<Rightarrow> import_row \<Rightarrow> bool" where
  "import_row_of_event i s r = (exists_row (\<lambda>j. ij_id j = iw_importJobId r \<and> ij_eventId j = i) (importJobs s) \<or>
     exists_row (\<lambda>x. iw_registrationId r = Some (rg_id x) \<and> rg_eventId x = i) (registrations s))"

definition removeEvent :: "id \<Rightarrow> (store, (string \<times> nat) list) act" where
  "removeEvent i =
    bindA (reads (findOneEvent i)) (\<lambda>_.
    transaction (
    bindA (wipe offlineScans (\<lambda>v s. s\<lparr>offlineScans := v\<rparr>) (\<lambda>_ r. os_eventId r = i)) (\<lambda>offlineScanOperations.
    bindA (wipe mappings (\<lambda>v s. s\<lparr>mappings := v\<rparr>) (\<lambda>_ r. mp_eventId r = i)) (\<lambda>offlineRegistrationMappings.
    bindA (wipe notificationLogs (\<lambda>v s. s\<lparr>notificationLogs := v\<rparr>) (log_of_event i)) (\<lambda>nLogs.
    bindA (wipe movements (\<lambda>v s. s\<lparr>movements := v\<rparr>) (\<lambda>_ r. mv_eventId r = i)) (\<lambda>movementLogs.
    bindA (wipe scans (\<lambda>v s. s\<lparr>scans := v\<rparr>) (\<lambda>_ r. sc_eventId r = i)) (\<lambda>scanEvents.
    bindA (wipe qrTokens (\<lambda>v s. s\<lparr>qrTokens := v\<rparr>) (\<lambda>_ r. qr_eventId r = i)) (\<lambda>nTokens.
    bindA (wipe syncOps (\<lambda>v s. s\<lparr>syncOps := v\<rparr>)
      (\<lambda>s r. exists_row (\<lambda>b. sb_id b = so_syncBatchId r \<and> sb_eventId b = i) (syncBatches s))) (\<lambda>_.
    bindA (wipe syncBatches (\<lambda>v s. s\<lparr>syncBatches := v\<rparr>) (\<lambda>_ r. sb_eventId r = i)) (\<lambda>_.
    bindA (wipe importRows (\<lambda>v s. s\<lparr>importRows := v\<rparr>) (import_row_of_event i)) (\<lambda>_.
    bindA (wipe importJobs (\<lambda>v s. s\<lparr>importJobs := v\<rparr>) (\<lambda>_ r. ij_eventId r = i)) (\<lambda>_.
    bindA (wipe ticketImages (\<lambda>v s. s\<lparr>ticketImages := v\<rparr>) (\<lambda>_ r. ti_eventId r = i)) (\<lambda>digitalTicketImages.
    bindA (wipe staffSessions (\<lambda>v s. s\<lparr>staffSessions := v\<rparr>) (\<lambda>_ r. ss_eventId r = i)) (\<lambda>nSessions.
    bindA (wipe staffAssignments (\<lambda>v s. s\<lparr>staffAssignments := v\<rparr>) (\<lambda>_ r. sa_eventId r = i)) (\<lambda>nAssignments.
    bindA (wipe offlineKeys (\<lambda>v s. s\<lparr>offlineKeys := v\<rparr>)
      (\<lambda>s r. exists_row (\<lambda>d. dv_id d = ky_deviceId r \<and> dv_eventId d = i) (devices s))) (\<lambda>deviceOfflineKeys.
    bindA (wipe devices (\<lambda>v s. s\<lparr>devices := v\<rparr>) (\<lambda>_ r. dv_eventId r = i)) (\<lambda>nDevices.
    bindA (wipe checkpoints (\<lambda>v s. s\<lparr>checkpoints := v\<rparr>) (\<lambda>_ r. cp_eventId r = i)) (\<lambda>nCheckpoints.
    bindA (modify (\<lambda>s. s\<lparr>zones := update_rows (\<lambda>z. zn_eventId z = i) (\<lambda>z. z\<lparr>zn_parentId := None\<rparr>) (zones s)\<rparr>)) (\<lambda>_.
    bindA (wipe zones (\<lambda>v s. s\<lparr>zones := v\<rparr>) (\<lambda>_ r. zn_eventId r = i)) (\<lambda>nZones.
    bindA (wipe venues (\<lambda>v s. s\<lparr>venues := v\<rparr>) (\<lambda>_ r. vn_eventId r = i)) (\<lambda>nVenues.
    bindA (wipe regFields (\<lambda>v s. s\<lparr>regFields := v\<rparr>) (\<lambda>_ r. rf_eventId r = i)) (\<lambda>registrationFields.
    bindA (wipe registrations (\<lambda>v s. s\<lparr>registrations := v\<rparr>) (\<lambda>_ r. rg_eventId r = i)) (\<lambda>nRegistrations.
    bindA (wipe ticketTemplates (\<lambda>v s. s\<lparr>ticketTemplates := v\<rparr>) (\<lambda>_ r. tt_eventId r = i)) (\<lambda>digitalTicketTemplates.
    bindA (wipe attendeeTypes (\<lambda>v s. s\<lparr>attendeeTypes := v\<rparr>) (\<lambda>_ r. at_eventId r = i)) (\<lambda>nTypes.
    bindA (wipe brandings (\<lambda>v s. s\<lparr>brandings := v\<rparr>) (\<lambda>_ r. r = i)) (\<lambda>branding.
    bindA (wipe badgeTemplates (\<lambda>v s. s\<lparr>badgeTemplates := v\<rparr>) (\<lambda>_ r. r = i)) (\<lambda>nBadges.
    bindA (wipe notificationTemplates (\<lambda>v s. s\<lparr>notificationTemplates := v\<rparr>) (\<lambda>_ r. nt_eventId r = Some i)) (\<lambda>_.
    bindA (modify (\<lambda>s. s\<lparr>events := delete_rows (\<lambda>e. ev_id e = i) (events s)\<rparr>)) (\<lambda>_.
    ret [(''offlineScanOperations'', offlineScanOperations), (''offlineRegistrationMappings'', offlineRegistrationMappings),
      (''deviceOfflineKeys'', deviceOfflineKeys), (''digitalTicketImages'', digitalTicketImages),
      (''registrations'', nRegistrations), (''qrTokens'', nTokens), (''notificationLogs'', nLogs), (''scanEvents'', scanEvents),
      (''movementLogs'', movementLogs), (''staffSessions'', nSessions), (''staffAssignments'', nAssignments),
      (''devices'', nDevices), (''checkpoints'', nCheckpoints), (''zones'', nZones), (''venues'', nVenues),
      (''registrationFields'', registrationFields), (''attendeeTypes'', nTypes), (''branding'', branding),
      (''badgeTemplates'', nBadges), (''digitalTicketTemplates'', digitalTicketTemplates)])))))))))))))))))))))))))))))"

section \<open>Properties\<close>

lemma wipe_run: "wipe table put p s = (Inr (count_rows (p s) (table s)), put (delete_rows (p s) (table s)) s)"
  by (simp add: wipe_def)

lemma bind_wipe: "bindA (wipe table put p) f s = f (count_rows (p s) (table s)) (put (delete_rows (p s) (table s)) s)"
  by (simp add: bindA_def wipe_def)


lemma wipe_step:
  assumes "table s = rows" and "p s = q" and "\<And>n. \<exists>r. f n (put (delete_rows q rows) s) = (Inr r, u)"
  shows "\<exists>r. bindA (wipe table put p) f s = (Inr r, u)"
  using assms by (simp add: bind_wipe)

lemma of_event_frame [simp]:
  "log_of_event i (s\<lparr>offlineScans := a\<rparr>) = log_of_event i s" "log_of_event i (s\<lparr>mappings := b\<rparr>) = log_of_event i s"
  "import_row_of_event i (s\<lparr>offlineScans := a\<rparr>) = import_row_of_event i s"
  "import_row_of_event i (s\<lparr>mappings := b\<rparr>) = import_row_of_event i s"
  "import_row_of_event i (s\<lparr>notificationLogs := d\<rparr>) = import_row_of_event i s"
  "import_row_of_event i (s\<lparr>movements := e\<rparr>) = import_row_of_event i s"
  "import_row_of_event i (s\<lparr>scans := f\<rparr>) = import_row_of_event i s"
  "import_row_of_event i (s\<lparr>qrTokens := g\<rparr>) = import_row_of_event i s"
  "import_row_of_event i (s\<lparr>syncOps := h\<rparr>) = import_row_of_event i s"
  "import_row_of_event i (s\<lparr>syncBatches := k\<rparr>) = import_row_of_event i s"
  by (simp_all add: log_of_event_def import_row_of_event_def fun_eq_iff)

lemma modify_step:
  assumes "\<exists>r. f () (h s) = (Inr r, u)"
  shows "\<exists>r. bindA (modify h) f s = (Inr r, u)"
  using assms by (simp add: bindA_modify)

lemma transaction_step: "\<exists>r. m s = (Inr r, u) \<Longrightarrow> \<exists>r. transaction m s = (Inr r, u)"
  by (auto simp: transaction_def)

lemma removeEvent_run:
  assumes "find_event i s = Some e"
  shows "\<exists>r. removeEvent i s = (Inr r, s\<lparr>
    offlineScans := delete_rows (\<lambda>r. os_eventId r = i) (offlineScans s), mappings := delete_rows (\<lambda>r. mp_eventId r = i) (mappings s),
    notificationLogs := delete_rows (log_of_event i s) (notificationLogs s),
    movements := delete_rows (\<lambda>r. mv_eventId r = i) (movements s), scans := delete_rows (\<lambda>r. sc_eventId r = i) (scans s),
    qrTokens := delete_rows (\<lambda>r. qr_eventId r = i) (qrTokens s),
    syncOps := delete_rows (\<lambda>r. exists_row (\<lambda>b. sb_id b = so_syncBatchId r \<and> sb_eventId b = i) (syncBatches s)) (syncOps s),
    syncBatches := delete_rows (\<lambda>r. sb_eventId r = i) (syncBatches s),
    importRows := delete_rows (import_row_of_event i s) (importRows s),
    importJobs := delete_rows (\<lambda>r. ij_eventId r = i) (importJobs s), ticketImages := delete_rows (\<lambda>r. ti_eventId r = i) (ticketImages s),
    staffSessions := delete_rows (\<lambda>r. ss_eventId r = i) (staffSessions s),
    staffAssignments := delete_rows (\<lambda>r. sa_eventId r = i) (staffAssignments s),
    offlineKeys := delete_rows (\<lambda>r. exists_row (\<lambda>d. dv_id d = ky_deviceId r \<and> dv_eventId d = i) (devices s)) (offlineKeys s),
    devices := delete_rows (\<lambda>r. dv_eventId r = i) (devices s), checkpoints := delete_rows (\<lambda>r. cp_eventId r = i) (checkpoints s),
    zones := delete_rows (\<lambda>r. zn_eventId r = i) (update_rows (\<lambda>z. zn_eventId z = i) (\<lambda>z. z\<lparr>zn_parentId := None\<rparr>) (zones s)),
    venues := delete_rows (\<lambda>r. vn_eventId r = i) (venues s), regFields := delete_rows (\<lambda>r. rf_eventId r = i) (regFields s),
    registrations := delete_rows (\<lambda>r. rg_eventId r = i) (registrations s),
    ticketTemplates := delete_rows (\<lambda>r. tt_eventId r = i) (ticketTemplates s),
    attendeeTypes := delete_rows (\<lambda>r. at_eventId r = i) (attendeeTypes s), brandings := delete_rows (\<lambda>r. r = i) (brandings s),
    badgeTemplates := delete_rows (\<lambda>r. r = i) (badgeTemplates s),
    notificationTemplates := delete_rows (\<lambda>r. nt_eventId r = Some i) (notificationTemplates s),
    events := delete_rows (\<lambda>e. ev_id e = i) (events s)\<rparr>)"
  unfolding removeEvent_def bindA_reads findOneEvent_def found_def assms option.case sum.case
  apply (rule transaction_step)
  apply (rule wipe_step, simp, simp)+
  apply (rule modify_step)
  apply (rule wipe_step, simp, simp)+
  apply (rule modify_step)
  by (simp add: ret_apply)


definition sample_busy :: store where
  "sample_busy = sample_regs\<lparr>notificationLogs := [\<lparr>nl_eventId = None, nl_registrationId = None, nl_templateId = None\<rparr>]\<rparr>"


text \<open>The values a change of the title alone stores.\<close>

lemma updateEvent_row:
  assumes "updateEvent c i dto s = (Inr e', s')"
  obtains e where "find_event i s = Some e" and "ev_status e \<noteq> EV_ARCHIVED"
    and "ev_allowReEntry e' = or_kept (ec_allowReEntry dto) (ev_allowReEntry e)"
    and "ev_duplicateStrategy e' = or_kept (ec_duplicateStrategy dto) (ev_duplicateStrategy e)"
    and "ev_timezone e' = or_kept (ec_timezone dto) (ev_timezone e)" and "find_event i s' = Some e'" and "ev_startsAt e' < ev_endsAt e'"
proof -
  obtain e where e: "find_event i s = Some e" "ev_status e \<noteq> EV_ARCHIVED"
    using assms by (auto simp: updateEvent_def act_simps findOneEvent_def split: sum.splits if_splits)
  show ?thesis
    using assms e that rows.lookup_update [of ev_id _ i i "events s"]
    by (auto simp: updateEvent_def act_simps findOneEvent_def found_def Let_def storable_date_def ensureEndsAfterStarts_def
        find_event_def guard_def split: sum.splits if_splits option.splits)
qed


definition title_only :: event_change where
  "title_only = \<lparr>ec_clientId = None, ec_type = None, ec_titleAr = Some ''Fair'', ec_titleEn = None, ec_descriptionAr = None,
     ec_descriptionEn = None, ec_startsAt = None, ec_endsAt = None, ec_timezone = None, ec_allowReEntry = None,
     ec_duplicateStrategy = None, ec_qrValidFrom = None, ec_qrValidUntil = None\<rparr>"

definition sample_owned :: store where
  "sample_owned = empty_store\<lparr>events := [sample_event], clients := [\<lparr>cl_id = ''cl'', cl_name = ''Expo'', cl_contactName = None,
     cl_contactPhone = None, cl_contactEmail = None, cl_notes = None, cl_isActive = True, cl_primaryUserId = None, cl_createdAt = 0\<rparr>]\<rparr>"


end
