(* ===== verification/Visitors.thy ===== *)
theory Visitors
  imports Requests QrService Registrations "HOL-Library.AList" "HOL-Library.List_Lexorder" "HOL-Library.Char_ord"
begin

text \<open>
  \<open>src/modules/visitors/visitors.service.ts\<close>: the visitors of the event a member of staff works at, for
  scanners that go on working without a connection. A scanner downloads them in pages
  (\<open>findOfflineSnapshotForStaff\<close>), then follows the journal of changes (\<open>findChangesForStaff\<close>), and sends edits
  that name the version they were made on (\<open>updateForStaff\<close>).

  The journal \<open>VisitorChange\<close> is written by the triggers of the migration that creates it. \<open>write_db\<close> is one
  commit: it leaves the tables as given and appends what the triggers append for the rows that it changed, once
  for each row that the transaction leaves different. The ids of the journal count up; ids of registrations, which are lower case letters and digits, are
  compared as the database compares them. The files of QR images are left out of \<open>generateQrForStaff\<close>.
\<close>

section \<open>The state\<close>

datatype change_op = UPSERT | DELETED

record visitor_change =
  vc_id :: nat
  vc_eventId :: id
  vc_registrationId :: id
  vc_operation :: change_op
  vc_changedAt :: time

record badge_template =
  bt_id :: id
  bt_eventId :: id
  bt_name :: string
  bt_widthMm :: int
  bt_heightMm :: int
  bt_backgroundImageUrl :: "string option"
  bt_colors :: json
  bt_layout :: json
  bt_selectedFields :: json
  bt_isActive :: bool
  bt_createdAt :: time
  bt_updatedAt :: time

record edit_audit =
  ea_eventId :: id
  ea_actorUserId :: id
  ea_entityId :: id
  ea_changedFields :: "string list"

record vstate =
  db :: store
  journal :: "visitor_change list"
  next_change :: nat
  templates :: "badge_template list"
  edits :: "edit_audit list"

section \<open>The journal\<close>

text \<open>The conditions of the update triggers.\<close>

definition reg_differs :: "registration \<Rightarrow> registration \<Rightarrow> bool" where
  "reg_differs old new = (rg_eventId old \<noteq> rg_eventId new \<or> rg_attendeeTypeId old \<noteq> rg_attendeeTypeId new \<or>
     rg_status old \<noteq> rg_status new \<or> rg_source old \<noteq> rg_source new \<or> rg_fullName old \<noteq> rg_fullName new \<or>
     rg_phone old \<noteq> rg_phone new \<or> rg_email old \<noteq> rg_email new \<or> rg_companyName old \<noteq> rg_companyName new \<or>
     rg_jobTitle old \<noteq> rg_jobTitle new \<or> rg_externalId old \<noteq> rg_externalId new \<or>
     rg_customFields old \<noteq> rg_customFields new \<or> rg_notes old \<noteq> rg_notes new \<or>
     rg_registeredAt old \<noteq> rg_registeredAt new \<or> rg_syncedAt old \<noteq> rg_syncedAt new)"

definition qr_differs :: "qr_token \<Rightarrow> qr_token \<Rightarrow> bool" where
  "qr_differs old new = (qr_tokenId old \<noteq> qr_tokenId new \<or> qr_status old \<noteq> qr_status new \<or>
     qr_validFrom old \<noteq> qr_validFrom new \<or> qr_validUntil old \<noteq> qr_validUntil new \<or> qr_revokedAt old \<noteq> qr_revokedAt new)"

definition reg_log :: "registration list \<Rightarrow> registration list \<Rightarrow> (id \<times> id \<times> change_op) list" where
  "reg_log before after =
     map (\<lambda>r. (rg_eventId r, rg_id r, UPSERT)) (filter (\<lambda>r. case lookup_by rg_id (rg_id r) before of
       None \<Rightarrow> True | Some old \<Rightarrow> reg_differs old r) after) @
     map (\<lambda>r. (rg_eventId r, rg_id r, DELETED)) (filter (\<lambda>r. lookup_by rg_id (rg_id r) after = None) before)"

definition qr_log :: "qr_token list \<Rightarrow> qr_token list \<Rightarrow> (id \<times> id \<times> change_op) list" where
  "qr_log before after =
     map (\<lambda>q. (qr_eventId q, qr_registrationId q, UPSERT)) (filter (\<lambda>q. case lookup_by qr_id (qr_id q) before of
       None \<Rightarrow> True | Some old \<Rightarrow> qr_differs old q) after)"

fun numbered :: "time \<Rightarrow> nat \<Rightarrow> (id \<times> id \<times> change_op) list \<Rightarrow> visitor_change list" where
  "numbered t n [] = []"
| "numbered t n ((e, r, op) # ls) =
     \<lparr>vc_id = n, vc_eventId = e, vc_registrationId = r, vc_operation = op, vc_changedAt = t\<rparr> # numbered t (Suc n) ls"

definition store_log :: "store \<Rightarrow> store \<Rightarrow> (id \<times> id \<times> change_op) list" where
  "store_log s s' = reg_log (registrations s) (registrations s') @ qr_log (qrTokens s) (qrTokens s')"

definition write_db :: "env \<Rightarrow> store \<Rightarrow> vstate \<Rightarrow> vstate" where
  "write_db c s' v = (let ls = store_log (db v) s' in
     v\<lparr>db := s', journal := journal v @ numbered (now c) (next_change v) ls, next_change := next_change v + length ls\<rparr>)"

definition on_db :: "env \<Rightarrow> (store, 'a) act \<Rightarrow> (vstate, 'a) act" where
  "on_db c m v = (case m (db v) of (r, s') \<Rightarrow> (r, write_db c s' v))"

section \<open>The visitors of an answer\<close>

fun mapE :: "('a \<Rightarrow> 'b res) \<Rightarrow> 'a list \<Rightarrow> 'b list res" where
  "mapE f [] = Inr []"
| "mapE f (x # xs) = bindE (f x) (\<lambda>y. bindE (mapE f xs) (\<lambda>ys. Inr (y # ys)))"

record offline_qr =
  oq_id :: id
  oq_tokenId :: string
  oq_qrToken :: string \<comment> \<open>also \<open>token\<close>, \<open>value\<close>, \<open>compactQrToken\<close>\<close>
  oq_status :: qr_status
  oq_validFrom :: time
  oq_validUntil :: time
  oq_generatedAt :: time
  oq_updatedAt :: time

text \<open>The columns of the registration, with \<open>customFields ?? {}\<close>, its attendee type and its QR.\<close>

record offline_visitor =
  ov_registration :: registration
  ov_attendeeType :: "attendee_type option"
  ov_qr :: "offline_qr option"

definition formatOfflineQr :: "env \<Rightarrow> qr_token \<Rightarrow> offline_qr res" where
  "formatOfflineQr c q = bindE (createCompactTokenForOffline c (qr_tokenId q)) (\<lambda>compactQrToken.
     Inr \<lparr>oq_id = qr_id q, oq_tokenId = qr_tokenId q, oq_qrToken = compactQrToken, oq_status = qr_status q,
       oq_validFrom = qr_validFrom q, oq_validUntil = qr_validUntil q, oq_generatedAt = qr_generatedAt q,
       oq_updatedAt = qr_updatedAt q\<rparr>)"

definition formatOfflineVisitor :: "env \<Rightarrow> store \<Rightarrow> registration \<Rightarrow> offline_visitor res" where
  "formatOfflineVisitor c s r =
    bindE (case find_qr_by_registration (rg_id r) s of None \<Rightarrow> Inr None
        | Some q \<Rightarrow> bindE (formatOfflineQr c q) (\<lambda>x. Inr (Some x))) (\<lambda>qr.
    Inr \<lparr>ov_registration = r\<lparr>rg_customFields := (if rg_customFields r = JNull then JObj [] else rg_customFields r)\<rparr>,
      ov_attendeeType = find_attendee_type (rg_attendeeTypeId r) s, ov_qr = qr\<rparr>)"

definition resolvePublicAssetUrl :: "string option \<Rightarrow> string option \<Rightarrow> string option" where
  "resolvePublicAssetUrl path requestBaseUrl =
    (case path of None \<Rightarrow> None
     | Some p \<Rightarrow>
        if p = [] then None
        else if starts_with ''data:'' p \<or> starts_with ''blob:'' p \<or> starts_with ''http://'' p \<or> starts_with ''https://'' p
        then Some p
        else
          (let normalizedPath = (if starts_with ''/'' p then p else CHR ''/'' # p);
               normalizedBaseUrl = map_option (\<lambda>b. rev (dropWhile (\<lambda>x. x = CHR ''/'') (rev (trim b)))) requestBaseUrl in
           if \<not> truthy normalizedBaseUrl then Some normalizedPath else Some (the normalizedBaseUrl @ normalizedPath)))"

text \<open>The template and its resolved and its relative background image.\<close>

definition formatOfflineBadgeTemplate :: "badge_template option \<Rightarrow> string option \<Rightarrow>
    (badge_template \<times> string option \<times> string option) option" where
  "formatOfflineBadgeTemplate template requestBaseUrl =
    (case template of None \<Rightarrow> None
     | Some t \<Rightarrow>
        (let relative = (case bt_backgroundImageUrl t of None \<Rightarrow> None | Some u \<Rightarrow> if trim u = [] then None else Some (trim u))
         in Some (t, resolvePublicAssetUrl relative requestBaseUrl, relative)))"

definition findActiveTemplateOrNull :: "id \<Rightarrow> vstate \<Rightarrow> badge_template option" where
  "findActiveTemplateOrNull eventId v = find_row (\<lambda>t. bt_eventId t = eventId \<and> bt_isActive t) (templates v)"

definition findActiveStaffAssignment :: "id \<Rightarrow> store \<Rightarrow> (staff_assignment \<times> event_row) res" where
  "findActiveStaffAssignment userId s =
    (case find_row (\<lambda>a. sa_userId a = userId \<and> sa_isActive a) (sort_key (\<lambda>a. - sa_updatedAt a) (staffAssignments s)) of
       None \<Rightarrow> Inl (NotFound ''No active staff assignment found'')
     | Some a \<Rightarrow> (case find_event (sa_eventId a) s of
           None \<Rightarrow> Inl (OtherError ''Inconsistent query result'') | Some e \<Rightarrow> Inr (a, e)))"

definition event_visitors :: "id \<Rightarrow> store \<Rightarrow> registration list" where
  "event_visitors eventId s = filter (\<lambda>r. rg_eventId r = eventId) (registrations s)"

section \<open>Cursors\<close>

text \<open>\<open>String(value)\<close>, which \<open>RegExp.test\<close> applies to what is not a string.\<close>

fun coerced :: "json \<Rightarrow> string" where
  "coerced JNull = ''null''"
| "coerced (JBool b) = (if b then ''true'' else ''false'')"
| "coerced (JInt i) = int_text i"
| "coerced (JFloat t) = t"
| "coerced (JStr t) = t"
| "coerced (JArr vs) = commas (map (\<lambda>x. if x = JNull then [] else coerced x) vs)"
| "coerced (JObj fs) = ''[object Object]''"

definition digits :: "string \<Rightarrow> bool" where
  "digits t = (t \<noteq> [] \<and> list_all is_digit t)"

record snapshot_cursor =
  cu_version :: int
  cu_eventId :: string
  cu_snapshotAsOf :: string
  cu_createdAt :: string
  cu_id :: string
  cu_changeCursor :: "json option"

definition encodeOfflineSnapshotCursor :: "snapshot_cursor \<Rightarrow> string" where
  "encodeOfflineSnapshotCursor cursor = encode_json (JObj
     ([(''version'', JInt (cu_version cursor)), (''eventId'', JStr (cu_eventId cursor)),
       (''snapshotAsOf'', JStr (cu_snapshotAsOf cursor)), (''createdAt'', JStr (cu_createdAt cursor)),
       (''id'', JStr (cu_id cursor))] @
      (case cu_changeCursor cursor of None \<Rightarrow> [] | Some j \<Rightarrow> [(''changeCursor'', j)])))"

definition decodeOfflineSnapshotCursor :: "string \<Rightarrow> snapshot_cursor res" where
  "decodeOfflineSnapshotCursor encodedCursor =
    (let failed = Inl (BadRequest ''Invalid offline snapshot cursor'') in
     case decode_json (trim encodedCursor) of
       Some (JObj p) \<Rightarrow>
         (case (obj_get p ''version'', str_of (obj_get p ''eventId''), str_of (obj_get p ''snapshotAsOf''),
                str_of (obj_get p ''createdAt''), str_of (obj_get p ''id'')) of
            (Some (JInt n), Some eventId, Some snapshotAsOf, Some createdAt, Some i) \<Rightarrow>
              if n \<noteq> 2 \<and> n \<noteq> 3 then failed
              else if blank eventId \<or> blank i then failed
              else if (case obj_get p ''changeCursor'' of None \<Rightarrow> False | Some j \<Rightarrow> \<not> digits (coerced j)) then failed
              else Inr \<lparr>cu_version = n, cu_eventId = eventId, cu_snapshotAsOf = snapshotAsOf, cu_createdAt = createdAt,
                cu_id = i, cu_changeCursor = obj_get p ''changeCursor''\<rparr>
          | _ \<Rightarrow> failed)
     | _ \<Rightarrow> failed)"

definition parseCursorDate :: "env \<Rightarrow> string \<Rightarrow> string \<Rightarrow> time res" where
  "parseCursorDate c t errorMessage = (case parse_date c t of None \<Rightarrow> Inl (BadRequest errorMessage) | Some d \<Rightarrow> Inr d)"

definition createSnapshotId :: "id \<Rightarrow> string \<Rightarrow> string" where
  "createSnapshotId eventId snapshotAsOf = encodeOfflineSnapshotCursor \<lparr>cu_version = 3, cu_eventId = eventId,
     cu_snapshotAsOf = snapshotAsOf, cu_createdAt = snapshotAsOf, cu_id = ''snapshot'', cu_changeCursor = Some (JStr ''0'')\<rparr>"

definition parseVisitorChangeCursor :: "string option \<Rightarrow> nat res" where
  "parseVisitorChangeCursor given_text =
    (let normalized = (case given_text of None \<Rightarrow> ''0'' | Some t \<Rightarrow> if trim t = [] then ''0'' else trim t) in
     if digits normalized then Inr (digits_value normalized)
     else Inl (BadRequest ''after must be a non-negative integer''))"

text \<open>\<open>aggregate _max id ?? 0n\<close>.\<close>

definition max_change :: "(visitor_change \<Rightarrow> bool) \<Rightarrow> vstate \<Rightarrow> nat" where
  "max_change p v = fold (\<lambda>x m. max (vc_id x) m) (filter p (journal v)) 0"

definition getLatestVisitorChangeCursorAt :: "id \<Rightarrow> time \<Rightarrow> vstate \<Rightarrow> string" where
  "getLatestVisitorChangeCursorAt eventId snapshotAsOf v =
     nat_text (max_change (\<lambda>x. vc_eventId x = eventId \<and> vc_changedAt x \<le> snapshotAsOf) v)"

definition latest_change :: "id \<Rightarrow> vstate \<Rightarrow> nat" where
  "latest_change eventId v = max_change (\<lambda>x. vc_eventId x = eventId) v"

end
