(* ===== verification/VisitorService.thy ===== *)
theory VisitorService
  imports Visitors
begin

text \<open>
  The operations of \<open>src/modules/visitors/visitors.service.ts\<close>. The limits of the requests have passed their
  DTOs, the text of a search is matched by \<open>contains\<close>, the database's comparison.

  A request for changes reads three times: the page of the journal, the visitors it names, and the newest id
  of the journal. \<open>changes_page\<close> takes the state of each read, since other requests may write in between.
\<close>

section \<open>The download\<close>

record offline_state =
  st_eventId :: id
  st_visitorsRevision :: string
  st_visitorsCount :: nat
  st_visitorsUpdatedAt :: "string option"
  st_badgeTemplateRevision :: string
  st_badgeTemplate :: "(badge_template \<times> string option \<times> string option) option"
  st_generatedAt :: string

fun latest_time :: "time list \<Rightarrow> time option" where
  "latest_time [] = None"
| "latest_time (t # ts) = Some (case latest_time ts of None \<Rightarrow> t | Some m \<Rightarrow> max t m)"

definition getOfflineStateForStaff :: "env \<Rightarrow> id \<Rightarrow> string option \<Rightarrow> vstate \<Rightarrow> offline_state res" where
  "getOfflineStateForStaff c userId requestBaseUrl v =
    bindE (findActiveStaffAssignment userId (db v)) (\<lambda>(a, e).
    let badgeTemplate = findActiveTemplateOrNull (sa_eventId a) v;
        visitors = event_visitors (sa_eventId a) (db v) in
    Inr \<lparr>st_eventId = sa_eventId a, st_visitorsRevision = nat_text (latest_change (sa_eventId a) v),
      st_visitorsCount = length visitors,
      st_visitorsUpdatedAt = map_option (iso_date c) (latest_time (map rg_updatedAt visitors)),
      st_badgeTemplateRevision = (case badgeTemplate of None \<Rightarrow> ''NO_BADGE_TEMPLATE''
        | Some t \<Rightarrow> bt_id t @ '':'' @ iso_date c (bt_updatedAt t) @ '':'' @ (if bt_isActive t then ''ACTIVE'' else ''INACTIVE'')),
      st_badgeTemplate = formatOfflineBadgeTemplate badgeTemplate requestBaseUrl, st_generatedAt = iso_date c (now c)\<rparr>)"

record snapshot_page =
  sn_id :: string
  sn_eventId :: id
  sn_snapshotAsOf :: string
  sn_changeCursor :: json
  sn_pageSize :: int
  sn_totalCount :: "nat option"
  sn_hasMore :: bool
  sn_nextCursor :: "string option"
  sn_event :: event_row
  sn_badgeTemplate :: "(badge_template \<times> string option \<times> string option) option"
  sn_visitors :: "offline_visitor list"

definition visitor_key :: "registration \<Rightarrow> time \<times> id" where
  "visitor_key r = (rg_createdAt r, rg_id r)"

definition snapshot_rows :: "id \<Rightarrow> time \<Rightarrow> (time \<times> id) option \<Rightarrow> nat \<Rightarrow> store \<Rightarrow> registration list" where
  "snapshot_rows eventId snapshotAsOf cursor n s = take n (sort_key visitor_key (filter (\<lambda>r.
     rg_eventId r = eventId \<and> rg_createdAt r \<le> snapshotAsOf \<and>
     (case cursor of None \<Rightarrow> True
      | Some (t, i) \<Rightarrow> t < rg_createdAt r \<or> rg_createdAt r = t \<and> i < rg_id r)) (registrations s)))"

definition snapshot_limit :: "int \<Rightarrow> int" where
  "snapshot_limit l = min (max (if l = 0 then 500 else l) 50) 500"

definition snapshot_answer :: "env \<Rightarrow> snapshot_cursor option \<Rightarrow> time \<Rightarrow> (time \<times> id) option \<Rightarrow> json \<Rightarrow> int \<Rightarrow>
    id \<Rightarrow> event_row \<Rightarrow> string option \<Rightarrow> vstate \<Rightarrow> snapshot_page res" where
  "snapshot_answer c decoded snapshotAsOf key changeCursor limit eventId event requestBaseUrl v =
    (let rows = snapshot_rows eventId snapshotAsOf key (Suc (nat limit)) (db v);
         hasMore = (nat limit < length rows);
         items = (if hasMore then take (nat limit) rows else rows) in
     bindE (mapE (formatOfflineVisitor c (db v)) items) (\<lambda>visitors.
     Inr \<lparr>sn_id = createSnapshotId eventId (iso_date c snapshotAsOf), sn_eventId = eventId,
       sn_snapshotAsOf = iso_date c snapshotAsOf, sn_changeCursor = changeCursor, sn_pageSize = limit,
       sn_totalCount = (if decoded = None
         then Some (count_rows (\<lambda>r. rg_eventId r = eventId \<and> rg_createdAt r \<le> snapshotAsOf) (registrations (db v))) else None),
       sn_hasMore = hasMore,
       sn_nextCursor = (if hasMore \<and> items \<noteq> [] then Some (encodeOfflineSnapshotCursor \<lparr>cu_version = 3,
           cu_eventId = eventId, cu_snapshotAsOf = iso_date c snapshotAsOf, cu_createdAt = iso_date c (rg_createdAt (last items)),
           cu_id = rg_id (last items), cu_changeCursor = Some changeCursor\<rparr>) else None),
       sn_event = event, sn_badgeTemplate = formatOfflineBadgeTemplate (findActiveTemplateOrNull eventId v) requestBaseUrl,
       sn_visitors = visitors\<rparr>))"

definition findOfflineSnapshotForStaff :: "env \<Rightarrow> id \<Rightarrow> string option \<Rightarrow> int \<Rightarrow> string option \<Rightarrow> vstate \<Rightarrow> snapshot_page res" where
  "findOfflineSnapshotForStaff c userId cursor l requestBaseUrl v =
    bindE (findActiveStaffAssignment userId (db v)) (\<lambda>(a, e).
    let eventId = sa_eventId a; limit = snapshot_limit l in
    if \<not> truthy cursor then
      snapshot_answer c None (now c) None (JStr (getLatestVisitorChangeCursorAt eventId (now c) v)) limit eventId e requestBaseUrl v
    else
      bindE (decodeOfflineSnapshotCursor (the cursor)) (\<lambda>decoded.
      if cu_eventId decoded \<noteq> eventId then Inl (BadRequest ''Offline snapshot cursor belongs to a different event'')
      else
      bindE (parseCursorDate c (cu_snapshotAsOf decoded) ''Invalid snapshotAsOf inside offline snapshot cursor'') (\<lambda>snapshotAsOf.
      bindE (parseCursorDate c (cu_createdAt decoded) ''Invalid createdAt inside offline snapshot cursor'') (\<lambda>createdAt.
      snapshot_answer c (Some decoded) snapshotAsOf (Some (createdAt, cu_id decoded))
        (case cu_changeCursor decoded of Some j \<Rightarrow> j | None \<Rightarrow> JStr (getLatestVisitorChangeCursorAt eventId snapshotAsOf v))
        limit eventId e requestBaseUrl v))))"

section \<open>Changes\<close>

record change_entry =
  en_cursor :: string
  en_operation :: change_op
  en_registrationId :: id
  en_changedAt :: string
  en_visitor :: "offline_visitor option"

record change_page =
  cg_eventId :: id
  cg_afterCursor :: string
  cg_nextCursor :: string
  cg_latestCursor :: string
  cg_hasMore :: bool
  cg_visitorsCount :: nat
  cg_changes :: "change_entry list"

definition changes_limit :: "int \<Rightarrow> nat" where
  "changes_limit l = nat (min (max (if l = 0 then 500 else l) 1) 1000)"

definition journal_rows :: "id \<Rightarrow> nat \<Rightarrow> vstate \<Rightarrow> visitor_change list" where
  "journal_rows eventId after v = sort_key vc_id (filter (\<lambda>x. vc_eventId x = eventId \<and> after < vc_id x) (journal v))"

text \<open>\<open>latestChangeByRegistration\<close>, a \<open>Map\<close>, and its values in the order of their ids.\<close>

definition effective_rows :: "visitor_change list \<Rightarrow> visitor_change list" where
  "effective_rows pageRows =
     sort_key vc_id (map snd (fold (\<lambda>x m. AList.update (vc_registrationId x) x m) pageRows []))"

definition change_visitor :: "env \<Rightarrow> id \<Rightarrow> store \<Rightarrow> visitor_change \<Rightarrow> offline_visitor option res" where
  "change_visitor c eventId s x =
    (if vc_operation x = UPSERT
     then case lookup_by rg_id (vc_registrationId x) (event_visitors eventId s) of None \<Rightarrow> Inr None
       | Some r \<Rightarrow> bindE (formatOfflineVisitor c s r) (\<lambda>o'. Inr (Some o'))
     else Inr None)"

definition change_answer :: "env \<Rightarrow> id \<Rightarrow> store \<Rightarrow> visitor_change \<Rightarrow> change_entry res" where
  "change_answer c eventId s x = bindE (change_visitor c eventId s x) (\<lambda>o'.
     Inr \<lparr>en_cursor = nat_text (vc_id x), en_operation = vc_operation x, en_registrationId = vc_registrationId x,
       en_changedAt = iso_date c (vc_changedAt x), en_visitor = o'\<rparr>)"

definition changes_page :: "env \<Rightarrow> id \<Rightarrow> nat \<Rightarrow> nat \<Rightarrow> vstate \<Rightarrow> vstate \<Rightarrow> vstate \<Rightarrow> change_page res" where
  "changes_page c eventId after limit v1 v2 v3 =
    (let rows = take (Suc limit) (journal_rows eventId after v1);
         hasMore = (limit < length rows);
         pageRows = (if hasMore then take limit rows else rows);
         nextCursor = (if pageRows = [] then after else vc_id (last pageRows));
         latestCursor = latest_change eventId v3 in
     bindE (mapE (change_answer c eventId (db v2)) (effective_rows pageRows)) (\<lambda>changes.
     Inr \<lparr>cg_eventId = eventId, cg_afterCursor = nat_text after, cg_nextCursor = nat_text nextCursor,
       cg_latestCursor = nat_text latestCursor, cg_hasMore = (hasMore \<or> nextCursor < latestCursor),
       cg_visitorsCount = length (event_visitors eventId (db v3)), cg_changes = changes\<rparr>))"

definition findChangesForStaff :: "env \<Rightarrow> id \<Rightarrow> string option \<Rightarrow> int \<Rightarrow> vstate \<Rightarrow> vstate \<Rightarrow> vstate \<Rightarrow> change_page res" where
  "findChangesForStaff c userId after l v1 v2 v3 =
    bindE (findActiveStaffAssignment userId (db v1)) (\<lambda>(a, e).
    bindE (parseVisitorChangeCursor after) (\<lambda>n.
    changes_page c (sa_eventId a) n (changes_limit l) v1 v2 v3))"

section \<open>Lists\<close>

record visitor_query =
  vq_page :: page_query
  vq_search :: "string option"
  vq_fullName :: "string option"
  vq_phone :: "string option"
  vq_email :: "string option"
  vq_status :: "reg_status option"
  vq_attendeeTypeId :: "id option"

definition visitor_matches :: "(string \<Rightarrow> string \<Rightarrow> bool) \<Rightarrow> visitor_query \<Rightarrow> id option \<Rightarrow> registration \<Rightarrow> bool" where
  "visitor_matches contains query eventId r =
    (if_given eventId (\<lambda>e. rg_eventId r = e) \<and> if_given (vq_attendeeTypeId query) (\<lambda>t. rg_attendeeTypeId r = t) \<and>
     (case vq_status query of None \<Rightarrow> True | Some st \<Rightarrow> rg_status r = st) \<and>
     if_given (vq_fullName query) (\<lambda>x. contains (rg_fullName r) x) \<and>
     if_given (vq_phone query) (\<lambda>x. column_contains contains x (rg_phone r)) \<and>
     if_given (vq_email query) (\<lambda>x. column_contains contains x (rg_email r)) \<and>
     if_given (vq_search query) (\<lambda>x. contains (rg_fullName r) x \<or> column_contains contains x (rg_phone r) \<or>
       column_contains contains x (rg_email r) \<or> contains (rg_publicId r) x))"

definition findVisitors :: "(string \<Rightarrow> string \<Rightarrow> bool) \<Rightarrow> visitor_query \<Rightarrow> id option \<Rightarrow> store \<Rightarrow> registration paginated" where
  "findVisitors contains query eventId s =
    find_page (visitor_matches contains query eventId) (\<lambda>r. - rg_registeredAt r) (vq_page query) (registrations s)"

definition findForStaff :: "env \<Rightarrow> (string \<Rightarrow> string \<Rightarrow> bool) \<Rightarrow> id \<Rightarrow> visitor_query \<Rightarrow> store \<Rightarrow>
    (event_row \<times> offline_visitor paginated) res" where
  "findForStaff c contains userId query s =
    bindE (findActiveStaffAssignment userId s) (\<lambda>(a, e).
    let page = findVisitors contains query (Some (sa_eventId a)) s in
    bindE (mapE (formatOfflineVisitor c s) (pd_items page)) (\<lambda>items.
    Inr (e, \<lparr>pd_items = items, pd_total = pd_total page, pd_page = pd_page page, pd_limit = pd_limit page, pd_pages = pd_pages page\<rparr>)))"

definition findForAdmin :: "(string \<Rightarrow> string \<Rightarrow> bool) \<Rightarrow> visitor_query \<Rightarrow> id option \<Rightarrow> store \<Rightarrow> registration paginated" where
  "findForAdmin contains query eventId s = findVisitors contains query eventId s"

section \<open>QR codes and edits\<close>

definition own_registration :: "id \<Rightarrow> id \<Rightarrow> store \<Rightarrow> registration res" where
  "own_registration eventId registrationId s =
    (case find_registration registrationId s of
       None \<Rightarrow> Inl (NotFound ''Registration not found'')
     | Some r \<Rightarrow> if rg_eventId r \<noteq> eventId then Inl (NotFound ''Registration not found'') else Inr r)"

definition generateQrForStaff :: "env \<Rightarrow> id \<Rightarrow> id \<Rightarrow> (vstate, registration \<times> qr_response) act" where
  "generateQrForStaff c userId registrationId =
    bindA (reads (findActiveStaffAssignment userId \<circ> db)) (\<lambda>(a, e).
    bindA (reads (own_registration (sa_eventId a) registrationId \<circ> db)) (\<lambda>r.
    bindA (on_db c (generate c (rg_id r))) (\<lambda>qr. ret (r, qr))))"

record staff_edit =
  se_expectedUpdatedAt :: "string option"
  se_fullName :: "string option"
  se_phone :: "string option"
  se_email :: "string option option"
  se_companyName :: "string option"
  se_jobTitle :: "string option"
  se_customFields :: "fields option"
  se_notes :: "string option"

definition updatePayload :: "staff_edit \<Rightarrow> update_dto" where
  "updatePayload dto = \<lparr>ud_attendeeTypeId = None, ud_fullName = se_fullName dto, ud_phone = se_phone dto,
     ud_email = se_email dto, ud_companyName = se_companyName dto, ud_jobTitle = se_jobTitle dto,
     ud_externalId = None, ud_customFields = se_customFields dto, ud_notes = se_notes dto\<rparr>"

text \<open>\<open>Object.keys\<close> without the undefined ones, here in the order of the DTO.\<close>

definition changedFields :: "staff_edit \<Rightarrow> string list" where
  "changedFields dto =
    (if se_fullName dto = None then [] else [''fullName'']) @ (if se_phone dto = None then [] else [''phone'']) @
    (if se_email dto = None then [] else [''email'']) @ (if se_companyName dto = None then [] else [''companyName'']) @
    (if se_jobTitle dto = None then [] else [''jobTitle'']) @
    (if se_customFields dto = None then [] else [''customFields'']) @ (if se_notes dto = None then [] else [''notes''])"

definition auditStaffVisitorUpdate :: "id \<Rightarrow> registration \<Rightarrow> staff_edit \<Rightarrow> (vstate, unit) act" where
  "auditStaffVisitorUpdate userId r dto =
    (if changedFields dto = [] then ret ()
     else modify (\<lambda>v. v\<lparr>edits := append_row \<lparr>ea_eventId = rg_eventId r, ea_actorUserId = userId, ea_entityId = rg_id r,
       ea_changedFields = changedFields dto\<rparr> (edits v)\<rparr>))"

definition update_conflict :: err where
  "update_conflict = Conflict ''VISITOR_UPDATE_CONFLICT''"

definition updateForStaff :: "env \<Rightarrow> id \<Rightarrow> id \<Rightarrow> staff_edit \<Rightarrow> (vstate, registration) act" where
  "updateForStaff c userId registrationId dto =
    bindA (reads (findActiveStaffAssignment userId \<circ> db)) (\<lambda>(a, e).
    bindA (reads (own_registration (sa_eventId a) registrationId \<circ> db)) (\<lambda>r.
    if truthy (se_expectedUpdatedAt dto) \<and> parse_date c (the (se_expectedUpdatedAt dto)) \<noteq> Some (rg_updatedAt r)
    then throw update_conflict
    else
      bindA (on_db c (update c registrationId (updatePayload dto))) (\<lambda>updated.
      bindA (auditStaffVisitorUpdate userId r dto) (\<lambda>_. ret updated))))"

end
