(* ===== verification/VisitorSync.thy ===== *)
theory VisitorSync
  imports VisitorService Sample
begin

text \<open>
  What the proofs about copies of visitors share. \<open>content\<close> is what a visitor is at a time, up to the columns that the
  triggers do not watch, and \<open>shown_content\<close> what an answer shows of it; a commit that logs nothing of a visitor leaves its
  content. \<open>proper_write\<close> is what every commit of the services keeps of the tables, \<open>writes\<close> any number of such
  commits, \<open>journal_ok\<close> what they keep of the journal. The last lemmas read back the cursors.
\<close>

section \<open>Lists\<close>

lemma mapE_Inr: "mapE f xs = Inr ys \<longleftrightarrow> list_all2 (\<lambda>x y. f x = Inr y) xs ys"
proof (induction xs arbitrary: ys)
  case Nil
  then show ?case by (cases ys) auto
next
  case (Cons x xs)
  then show ?case by (cases ys) (auto simp: bindE_Inr_iff)
qed

lemma take_strict:
  fixes k :: "'a \<Rightarrow> 'b::linorder"
  assumes "sorted_wrt (<) (map k L)" and "0 < n" and "n \<le> length L" and "r \<in> set L"
  shows "r \<in> set (take n L) \<longleftrightarrow> k r \<le> k (L ! (n - 1))"
proof -
  obtain i where i: "i < length L" "r = L ! i" using assms(4) by (auto simp: in_set_conv_nth)
  have less: "j < m \<Longrightarrow> m < length L \<Longrightarrow> k (L ! j) < k (L ! m)" for j m
    using assms(1) by (simp add: sorted_wrt_iff_nth_less)
  have "r \<in> set (take n L) \<longleftrightarrow> i < n"
  proof
    assume "r \<in> set (take n L)"
    then obtain j where j: "j < n" "j < length L" "r = L ! j" by (auto simp: in_set_conv_nth)
    show "i < n"
    proof (rule ccontr)
      assume "\<not> i < n"
      then have "k (L ! j) < k (L ! i)" using j(1) i(1) by (intro less) auto
      then show False using j(3) i(2) by simp
    qed
  next
    assume "i < n"
    then show "r \<in> set (take n L)" using i by (auto simp: in_set_conv_nth intro!: exI [of _ i])
  qed
  moreover have "i < n \<longleftrightarrow> k r \<le> k (L ! (n - 1))"
  proof
    assume "i < n"
    show "k r \<le> k (L ! (n - 1))"
    proof (cases "i = n - 1")
      case False
      then have "i < n - 1" using \<open>i < n\<close> by linarith
      then have "k (L ! i) < k (L ! (n - 1))" using assms(2,3) by (intro less) auto
      then show ?thesis using i(2) by simp
    qed (use i in simp)
  next
    assume le: "k r \<le> k (L ! (n - 1))"
    show "i < n"
    proof (rule ccontr)
      assume "\<not> i < n"
      then have "k (L ! (n - 1)) < k (L ! i)" using assms(2) i(1) by (intro less) auto
      then show False using le i(2) by simp
    qed
  qed
  ultimately show ?thesis by simp
qed

lemma sort_key_strict:
  fixes k :: "'a \<Rightarrow> 'b::linorder"
  assumes "distinct (map k L)"
  shows "sorted_wrt (<) (map k (sort_key k L))"
proof -
  have "distinct (map k (sort_key k L))" using assms by (simp add: distinct_map)
  then show ?thesis by (simp add: strict_sorted_iff)
qed

lemma page_items:
  "(if n < length L then take n (take (Suc n) L) else take (Suc n) L) = take n L"
  "n < length (take (Suc n) L) \<longleftrightarrow> n < length L"
  by (auto simp: min_def)

lemma last_take:
  assumes "0 < n" and "n \<le> length L"
  shows "last (take n L) = L ! (n - 1)"
proof -
  have "take n L \<noteq> []" using assms by auto
  then have "last (take n L) = take n L ! (length (take n L) - 1)" by (rule last_conv_nth)
  then show ?thesis using assms by (simp add: min_absorb2)
qed

section \<open>What the triggers watch\<close>

type_synonym content = "registration \<times> (string \<times> qr_status \<times> time \<times> time) option"

definition plain_visitor :: "registration \<Rightarrow> registration" where
  "plain_visitor r = r\<lparr>rg_customFields := (if rg_customFields r = JNull then JObj [] else rg_customFields r),
     rg_updatedAt := 0\<rparr>"

definition content :: "id \<Rightarrow> store \<Rightarrow> id \<Rightarrow> content option" where
  "content eventId s i =
    (case lookup_by rg_id i (event_visitors eventId s) of None \<Rightarrow> None
     | Some r \<Rightarrow> Some (plain_visitor r, map_option (\<lambda>q. (qr_tokenId q, qr_status q, qr_validFrom q, qr_validUntil q))
         (find_qr_by_registration i s)))"

definition shown_content :: "offline_visitor \<Rightarrow> content" where
  "shown_content o' = ((ov_registration o')\<lparr>rg_updatedAt := 0\<rparr>,
     map_option (\<lambda>q. (oq_tokenId q, oq_status q, oq_validFrom q, oq_validUntil q)) (ov_qr o'))"

lemma format_shown:
  assumes "formatOfflineVisitor c s r = Inr o'"
  shows "rg_id (ov_registration o') = rg_id r"
    and "lookup_by rg_id i (event_visitors e s) = Some r \<Longrightarrow> content e s i = Some (shown_content o')"
proof -
  show "rg_id (ov_registration o') = rg_id r" using assms by (auto simp: formatOfflineVisitor_def bindE_Inr_iff)
  assume l: "lookup_by rg_id i (event_visitors e s) = Some r"
  then have "rg_id r = i" by (auto dest: lookup_by_Some)
  with l show "content e s i = Some (shown_content o')" using assms
    by (auto simp: formatOfflineVisitor_def formatOfflineQr_def bindE_Inr_iff content_def shown_content_def plain_visitor_def
        split: option.splits)
qed

text \<open>What the schema and the services keep of the two tables, and of them from one statement to the next.\<close>

definition tables_ok :: "store \<Rightarrow> bool" where
  "tables_ok s = (distinct (map rg_id (registrations s)) \<and> distinct (map qr_id (qrTokens s)) \<and>
     distinct (map qr_registrationId (qrTokens s)) \<and>
     (\<forall>q \<in> set (qrTokens s). \<forall>r \<in> set (registrations s). qr_registrationId q = rg_id r \<longrightarrow> qr_eventId q = rg_eventId r) \<and>
     (\<forall>r \<in> set (registrations s). valid_time (rg_createdAt r)))"

definition proper_write :: "store \<Rightarrow> store \<Rightarrow> bool" where
  "proper_write s s' = (tables_ok s' \<and>
     (\<forall>r \<in> set (registrations s). \<forall>r' \<in> set (registrations s'). rg_id r = rg_id r' \<longrightarrow>
       rg_eventId r = rg_eventId r' \<and> rg_publicId r = rg_publicId r' \<and> rg_createdAt r = rg_createdAt r') \<and>
     (\<forall>q \<in> set (qrTokens s). \<forall>q' \<in> set (qrTokens s'). qr_id q = qr_id q' \<longrightarrow> qr_registrationId q = qr_registrationId q') \<and>
     (\<forall>q \<in> set (qrTokens s). lookup_by qr_registrationId (qr_registrationId q) (qrTokens s') = None \<longrightarrow>
       lookup_by rg_id (qr_registrationId q) (registrations s') = None))"

lemma lookup_visitor:
  assumes "tables_ok s"
  shows "lookup_by rg_id i (event_visitors e s) = Some r \<longleftrightarrow>
    r \<in> set (registrations s) \<and> rg_id r = i \<and> rg_eventId r = e"
proof
  assume "r \<in> set (registrations s) \<and> rg_id r = i \<and> rg_eventId r = e"
  then show "lookup_by rg_id i (event_visitors e s) = Some r"
    using find_row_unique [of rg_id "event_visitors e s" r] assms
    by (auto simp: lookup_by_def tables_ok_def event_visitors_def distinct_map_filter)
qed (auto simp: event_visitors_def dest!: lookup_by_Some)

lemma lookup_no_visitor:
  assumes "tables_ok s"
  shows "lookup_by rg_id i (event_visitors e s) = None \<longleftrightarrow> (\<forall>r \<in> set (registrations s). rg_id r = i \<longrightarrow> rg_eventId r \<noteq> e)"
  by (auto simp: lookup_by_None event_visitors_def)

lemma lookup_qr:
  assumes "tables_ok s"
  shows "find_qr_by_registration i s = Some q \<longleftrightarrow> q \<in> set (qrTokens s) \<and> qr_registrationId q = i"
  using find_row_unique [of qr_registrationId "qrTokens s" q] assms
  by (auto simp: find_qr_by_registration_def lookup_by_def tables_ok_def dest: find_row_Some)


lemma qr_event: "tables_ok s \<Longrightarrow> q \<in> set (qrTokens s) \<Longrightarrow> r \<in> set (registrations s) \<Longrightarrow>
    qr_registrationId q = rg_id r \<Longrightarrow> qr_eventId q = rg_eventId r"
  by (simp add: tables_ok_def)

lemma proper_reg: "proper_write s s' \<Longrightarrow> r \<in> set (registrations s) \<Longrightarrow> r' \<in> set (registrations s') \<Longrightarrow> rg_id r = rg_id r' \<Longrightarrow>
    rg_eventId r = rg_eventId r' \<and> rg_publicId r = rg_publicId r' \<and> rg_createdAt r = rg_createdAt r'"
  by (simp add: proper_write_def)

lemma proper_qr: "proper_write s s' \<Longrightarrow> q \<in> set (qrTokens s) \<Longrightarrow> q' \<in> set (qrTokens s') \<Longrightarrow> qr_id q = qr_id q' \<Longrightarrow>
    qr_registrationId q = qr_registrationId q'"
  by (simp add: proper_write_def)

lemma proper_gone: "proper_write s s' \<Longrightarrow> q \<in> set (qrTokens s) \<Longrightarrow> find_qr_by_registration (qr_registrationId q) s' = None \<Longrightarrow>
    lookup_by rg_id (qr_registrationId q) (registrations s') = None"
  by (simp add: proper_write_def find_qr_by_registration_def)

definition logged :: "id \<Rightarrow> id \<Rightarrow> (id \<times> id \<times> change_op) list \<Rightarrow> bool" where
  "logged e i ls = (\<exists>op. (e, i, op) \<in> set ls)"

lemma unlogged_reg:
  assumes "\<not> logged e i (store_log s s')" and "r' \<in> set (registrations s')" and "rg_id r' = i" and "rg_eventId r' = e"
  shows "\<exists>r \<in> set (registrations s). rg_id r = i \<and> \<not> reg_differs r r'"
proof -
  have "\<not> (case lookup_by rg_id (rg_id r') (registrations s) of None \<Rightarrow> True | Some old \<Rightarrow> reg_differs old r')"
    using assms by (auto simp: logged_def store_log_def reg_log_def image_iff simp del: split_paired_Ex)
  then show ?thesis using assms(3) by (auto split: option.splits dest!: lookup_by_Some)
qed

lemma unlogged_gone:
  assumes "\<not> logged e i (store_log s s')" and "r \<in> set (registrations s)" and "rg_id r = i" and "rg_eventId r = e"
  shows "\<exists>r' \<in> set (registrations s'). rg_id r' = i"
proof -
  have "lookup_by rg_id (rg_id r) (registrations s') \<noteq> None"
    using assms by (auto simp: logged_def store_log_def reg_log_def image_iff simp del: split_paired_Ex)
  then show ?thesis using assms(3) by (auto dest!: lookup_by_Some)
qed

lemma unlogged_qr:
  assumes "\<not> logged e i (store_log s s')" and "q' \<in> set (qrTokens s')" and "qr_registrationId q' = i" and "qr_eventId q' = e"
  shows "\<exists>q \<in> set (qrTokens s). qr_id q = qr_id q' \<and> \<not> qr_differs q q'"
proof -
  have "\<not> (case lookup_by qr_id (qr_id q') (qrTokens s) of None \<Rightarrow> True | Some old \<Rightarrow> qr_differs old q')"
    using assms by (auto simp: logged_def store_log_def qr_log_def image_iff simp del: split_paired_Ex)
  then show ?thesis by (auto split: option.splits dest!: lookup_by_Some)
qed

lemma same_plain:
  assumes "\<not> reg_differs r r'" and "rg_id r = rg_id r'" and "rg_publicId r = rg_publicId r'" and "rg_createdAt r = rg_createdAt r'"
  shows "plain_visitor r = plain_visitor r'"
  using assms by (simp add: plain_visitor_def reg_differs_def)

lemma same_qr:
  assumes "tables_ok s" and "proper_write s s'" and "\<not> logged e i (store_log s s')"
    and "r' \<in> set (registrations s')" and "rg_id r' = i" and "rg_eventId r' = e"
  shows "map_option (\<lambda>q. (qr_tokenId q, qr_status q, qr_validFrom q, qr_validUntil q)) (find_qr_by_registration i s) =
    map_option (\<lambda>q. (qr_tokenId q, qr_status q, qr_validFrom q, qr_validUntil q)) (find_qr_by_registration i s')"
proof -
  have ok': "tables_ok s'" using assms(2) by (simp add: proper_write_def)
  show ?thesis
  proof (cases "find_qr_by_registration i s'")
    case (Some q')
    then have q': "q' \<in> set (qrTokens s')" "qr_registrationId q' = i" using lookup_qr [OF ok'] by auto
    then have "qr_eventId q' = e" using qr_event [OF ok' q'(1) assms(4)] assms(5,6) by simp
    then obtain q where q: "q \<in> set (qrTokens s)" "qr_id q = qr_id q'" "\<not> qr_differs q q'"
      using unlogged_qr [OF assms(3) q'] by blast
    then have "qr_registrationId q = i" using proper_qr [OF assms(2) q(1) q'(1)] q'(2) by simp
    then have "find_qr_by_registration i s = Some q" using lookup_qr [OF assms(1)] q(1) by blast
    then show ?thesis using Some q(3) by (simp add: qr_differs_def)
  next
    case None
    have "find_qr_by_registration i s = None"
    proof (cases "find_qr_by_registration i s")
      case (Some q)
      then have q: "q \<in> set (qrTokens s)" "qr_registrationId q = i" using lookup_qr [OF assms(1)] by auto
      have "lookup_by rg_id i (registrations s') \<noteq> None" using assms(4,5) by (auto simp: lookup_by_None)
      then have "find_qr_by_registration i s' \<noteq> None" using proper_gone [OF assms(2) q(1), unfolded q(2)] by (rule contrapos_nn)
      with None show ?thesis by simp
    qed
    with None show ?thesis by simp
  qed
qed

lemma unlogged_content:
  assumes "tables_ok s" and "proper_write s s'" and "\<not> logged e i (store_log s s')"
  shows "content e s' i = content e s i"
proof (cases "lookup_by rg_id i (event_visitors e s')")
  case None
  have ok': "tables_ok s'" using assms(2) by (simp add: proper_write_def)
  have "rg_eventId r \<noteq> e" if r: "r \<in> set (registrations s)" "rg_id r = i" for r
  proof
    assume "rg_eventId r = e"
    then obtain r' where r': "r' \<in> set (registrations s')" "rg_id r' = i" using unlogged_gone [OF assms(3) r] by blast
    then have "rg_eventId r' = e" using proper_reg [OF assms(2) r(1) r'(1)] r(2) \<open>rg_eventId r = e\<close> by simp
    then show False using None r' lookup_no_visitor [OF ok'] by blast
  qed
  then have "lookup_by rg_id i (event_visitors e s) = None" using lookup_no_visitor [OF assms(1)] by blast
  with None show ?thesis by (simp add: content_def)
next
  case (Some r')
  have ok': "tables_ok s'" using assms(2) by (simp add: proper_write_def)
  have r': "r' \<in> set (registrations s')" "rg_id r' = i" "rg_eventId r' = e" using Some lookup_visitor [OF ok'] by auto
  obtain r where r: "r \<in> set (registrations s)" "rg_id r = i" "\<not> reg_differs r r'" using unlogged_reg [OF assms(3) r'] by blast
  have same: "rg_eventId r = rg_eventId r'" "rg_publicId r = rg_publicId r'" "rg_createdAt r = rg_createdAt r'"
    using proper_reg [OF assms(2) r(1) r'(1)] r(2) r'(2) by simp_all
  have "lookup_by rg_id i (event_visitors e s) = Some r" using lookup_visitor [OF assms(1)] r(1,2) same(1) r'(3) by blast
  moreover have "plain_visitor r = plain_visitor r'" using same_plain [OF r(3)] r(2) r'(2) same by simp
  ultimately show ?thesis using Some same_qr [OF assms r'] by (simp add: content_def)
qed

section \<open>The journal of a history\<close>

definition row_of :: "id \<Rightarrow> id \<Rightarrow> visitor_change \<Rightarrow> bool" where
  "row_of e i y = (vc_eventId y = e \<and> vc_registrationId y = i)"

text \<open>The ids of the journal count up, and a visitor whose newest row is a deletion is not there.\<close>

definition journal_ok :: "vstate \<Rightarrow> bool" where
  "journal_ok v = (tables_ok (db v) \<and> sorted_wrt (<) (map vc_id (journal v)) \<and> 0 < next_change v \<and>
     (\<forall>y \<in> set (journal v). vc_id y < next_change v) \<and>
     (\<forall>e i y. find_row (row_of e i) (rev (journal v)) = Some y \<and> vc_operation y = DELETED \<longrightarrow>
        lookup_by rg_id i (event_visitors e (db v)) = None))"

lemma numbered_ids: "map vc_id (numbered t n ls) = [n ..< n + length ls]"
proof (induction t n ls rule: numbered.induct)
  case (2 t n e r op ls)
  then show ?case by (simp add: upt_conv_Cons del: upt_Suc)
qed simp

lemma numbered_rows: "(\<exists>y \<in> set (numbered t n ls). row_of e i y) \<longleftrightarrow> logged e i ls"
  by (induction t n ls rule: numbered.induct) (auto simp: row_of_def logged_def)

lemma numbered_op: "y \<in> set (numbered t n ls) \<Longrightarrow> (vc_eventId y, vc_registrationId y, vc_operation y) \<in> set ls"
  by (induction t n ls rule: numbered.induct) auto

definition quiet :: "id \<Rightarrow> id \<Rightarrow> nat \<Rightarrow> vstate \<Rightarrow> bool" where
  "quiet e i n v = (\<forall>y \<in> set (journal v). row_of e i y \<longrightarrow> vc_id y \<le> n)"

inductive writes :: "vstate \<Rightarrow> vstate \<Rightarrow> bool" where
  writes_none: "writes v v"
| writes_some: "writes v u \<Longrightarrow> proper_write (db u) s \<Longrightarrow>
    writes v ((write_db c s u)\<lparr>templates := ts, edits := es\<rparr>)"

lemma write_sel: "db ((write_db c s u)\<lparr>templates := ts, edits := es\<rparr>) = s"
  "journal ((write_db c s u)\<lparr>templates := ts, edits := es\<rparr>) = journal u @ numbered (now c) (next_change u) (store_log (db u) s)"
  "next_change ((write_db c s u)\<lparr>templates := ts, edits := es\<rparr>) = next_change u + length (store_log (db u) s)"
  by (simp_all add: write_db_def Let_def)

lemma write_journal_ok:
  assumes "journal_ok u" and "proper_write (db u) s"
  shows "journal_ok ((write_db c s u)\<lparr>templates := ts, edits := es\<rparr>)"
proof -
  let ?new = "numbered (now c) (next_change u) (store_log (db u) s)"
  have old: "\<forall>y \<in> set (journal u). vc_id y < next_change u" using assms(1) by (simp add: journal_ok_def)
  have ids: "vc_id y \<in> {next_change u ..< next_change u + length (store_log (db u) s)}" if "y \<in> set ?new" for y
    using imageI [OF that, of vc_id] numbered_ids [of "now c" "next_change u" "store_log (db u) s"]
    by (metis atLeastLessThan_upt list.set_map)
  have "lookup_by rg_id i (event_visitors e s) = None"
    if y: "find_row (row_of e i) (rev (journal u @ ?new)) = Some y" "vc_operation y = DELETED" for e i y
  proof (cases "find_row (row_of e i) (rev ?new)")
    case None
    then have "find_row (row_of e i) (rev (journal u)) = Some y" using y(1) by (simp add: find_row_append)
    then have "lookup_by rg_id i (event_visitors e (db u)) = None" using assms(1) y(2) by (simp add: journal_ok_def)
    moreover have "\<not> logged e i (store_log (db u) s)"
      using None numbered_rows [of "now c" "next_change u" "store_log (db u) s" e i] by (auto simp: find_row_None)
    ultimately have "content e s i = None"
      using unlogged_content [of "db u" s e i] assms by (simp add: journal_ok_def content_def)
    then show ?thesis by (simp add: content_def split: option.splits)
  next
    case (Some z)
    then have "y = z" using y(1) by (simp add: find_row_append)
    then have z: "y \<in> set ?new" "row_of e i y" using Some by (auto dest: find_row_Some)
    then have "(e, i, DELETED) \<in> set (store_log (db u) s)" using numbered_op [OF z(1)] y(2) by (simp add: row_of_def)
    then have "lookup_by rg_id i (registrations s) = None" by (auto simp: store_log_def reg_log_def qr_log_def)
    then show ?thesis by (auto simp: lookup_by_None event_visitors_def)
  qed
  moreover have "sorted_wrt (<) (map vc_id (journal u) @ [next_change u ..< next_change u + length (store_log (db u) s)])"
    using assms(1) old by (auto simp: journal_ok_def sorted_wrt_append)
  ultimately show ?thesis
    using assms old ids by (auto simp: journal_ok_def write_sel proper_write_def numbered_ids)
qed

lemma writes_facts:
  assumes "writes v v'" and "journal_ok v"
  shows "journal_ok v' \<and> next_change v \<le> next_change v' \<and>
    (\<exists>ls. journal v' = journal v @ ls \<and> (\<forall>y \<in> set ls. next_change v \<le> vc_id y) \<and>
      (\<forall>e i. (\<forall>y \<in> set ls. \<not> row_of e i y) \<longrightarrow> content e (db v') i = content e (db v) i))"
  using assms
proof (induction rule: writes.induct)
  case (writes_some v u s es ts c)
  then obtain ls where u: "journal_ok u" "next_change v \<le> next_change u" "journal u = journal v @ ls"
    "\<forall>y \<in> set ls. next_change v \<le> vc_id y"
    "\<forall>e i. (\<forall>y \<in> set ls. \<not> row_of e i y) \<longrightarrow> content e (db u) i = content e (db v) i" by blast
  let ?new = "numbered (now c) (next_change u) (store_log (db u) s)"
  have "content e s i = content e (db v) i" if "\<forall>y \<in> set (ls @ ?new). \<not> row_of e i y" for e i
  proof -
    have "\<not> logged e i (store_log (db u) s)" using that numbered_rows [of "now c" "next_change u" "store_log (db u) s" e i] by auto
    then have "content e s i = content e (db u) i"
      using writes_some.hyps(2) u(1) by (intro unlogged_content) (simp_all add: journal_ok_def)
    then show ?thesis using u(5) that by simp
  qed
  moreover have "next_change v \<le> vc_id y" if "y \<in> set ?new" for y
    using imageI [OF that, of vc_id] numbered_ids [of "now c" "next_change u" "store_log (db u) s"] u(2)
    by (metis atLeastLessThan_iff atLeastLessThan_upt le_trans list.set_map)
  ultimately show ?case
    using write_journal_ok [OF u(1) writes_some.hyps(2)] u(2-4)
    by (intro conjI exI [of _ "ls @ ?new"]) (auto simp: write_sel)
qed simp


lemma quiet_back:
  assumes "writes v v'" and "journal_ok v" and "n < next_change v" and "quiet e i n v'"
  shows "quiet e i n v" and "content e (db v') i = content e (db v) i"
proof -
  obtain ls where ls: "journal v' = journal v @ ls" "\<forall>y \<in> set ls. next_change v \<le> vc_id y"
    "(\<forall>y \<in> set ls. \<not> row_of e i y) \<longrightarrow> content e (db v') i = content e (db v) i"
    using writes_facts [OF assms(1,2)] by blast
  show "quiet e i n v" using assms(4) ls(1) by (simp add: quiet_def)
  have "\<not> row_of e i y" if "y \<in> set ls" for y
    using that ls(1,2) assms(3,4) by (fastforce simp: quiet_def)
  with ls(3) show "content e (db v') i = content e (db v) i" by blast
qed

lemma fold_max:
  fixes f :: "'a \<Rightarrow> nat"
  shows "a \<le> fold (\<lambda>x m. max (f x) m) xs a \<and> (\<forall>x \<in> set xs. f x \<le> fold (\<lambda>x m. max (f x) m) xs a) \<and>
    (\<forall>b. a < b \<and> (\<forall>x \<in> set xs. f x < b) \<longrightarrow> fold (\<lambda>x m. max (f x) m) xs a < b)"
proof (induction xs arbitrary: a)
  case (Cons x xs)
  show ?case using Cons [of "max (f x) a"] by auto
qed simp

lemma max_change_ge: "y \<in> set (journal v) \<Longrightarrow> P y \<Longrightarrow> vc_id y \<le> max_change P v"
  and max_change_less: "journal_ok v \<Longrightarrow> max_change P v < next_change v"
  using fold_max [of 0 vc_id "filter P (journal v)"] by (auto simp: max_change_def journal_ok_def)

lemma max_change_le:
  assumes "\<And>y. y \<in> set (journal v) \<Longrightarrow> P y \<Longrightarrow> vc_id y \<le> m"
  shows "max_change P v \<le> m"
proof -
  have "\<forall>x \<in> set (filter P (journal v)). vc_id x < Suc m" using assms by (simp add: less_Suc_eq_le)
  then have "max_change P v < Suc m" using fold_max [of 0 vc_id "filter P (journal v)"] unfolding max_change_def by blast
  then show ?thesis by simp
qed

section \<open>Cursors\<close>

lemma nat_text_char: "x \<in> set (nat_text n) \<Longrightarrow> is_digit x"
  using nat_text_digits by (auto simp: list_all_iff)

lemma digits_nat_text: "digits (nat_text n)"
  using nat_text_digits [of n] nat_text_ne [of n] by (simp add: digits_def)

lemma trim_nat_text: "trim (nat_text n) = nat_text n"
proof (rule trim_no_space)
  show "\<not> is_space x" if "x \<in> set (nat_text n)" for x
    using nat_text_char [OF that] by (auto simp: is_digit_def is_space_def)
qed

lemma parse_change_cursor: "parseVisitorChangeCursor (Some (nat_text n)) = Inr n"
  using digits_nat_text [of n] nat_text_ne [of n]
  by (simp add: parseVisitorChangeCursor_def trim_nat_text nat_text_value Let_def)

lemma trim_encoded: "trim (encode_json j) = encode_json j"
  unfolding encode_json_def
  by (rule trim_no_space) (use space_not_in_base64url in \<open>auto simp: is_space_def\<close>)

lemma decode_encoded:
  assumes "cu_version cur = 3" and "case cu_changeCursor cur of None \<Rightarrow> True | Some j \<Rightarrow> plain_json j"
  shows "decodeOfflineSnapshotCursor (encodeOfflineSnapshotCursor cur) =
    (if blank (cu_eventId cur) \<or> blank (cu_id cur) \<or> (case cu_changeCursor cur of None \<Rightarrow> False | Some j \<Rightarrow> \<not> digits (coerced j))
     then Inl (BadRequest ''Invalid offline snapshot cursor'') else Inr cur)"
proof -
  define fs where "fs = [(''version'', JInt (cu_version cur)), (''eventId'', JStr (cu_eventId cur)),
       (''snapshotAsOf'', JStr (cu_snapshotAsOf cur)), (''createdAt'', JStr (cu_createdAt cur)), (''id'', JStr (cu_id cur))] @
      (case cu_changeCursor cur of None \<Rightarrow> [] | Some j \<Rightarrow> [(''changeCursor'', j)])"
  have plain: "plain_json (JObj fs)" using assms(2) by (simp add: fs_def split: option.splits)
  have get: "obj_get fs ''version'' = Some (JInt 3)" "obj_get fs ''eventId'' = Some (JStr (cu_eventId cur))"
    "obj_get fs ''snapshotAsOf'' = Some (JStr (cu_snapshotAsOf cur))" "obj_get fs ''createdAt'' = Some (JStr (cu_createdAt cur))"
    "obj_get fs ''id'' = Some (JStr (cu_id cur))" "obj_get fs ''changeCursor'' = cu_changeCursor cur"
    using assms(1) by (simp_all add: obj_get_def fs_def split: option.splits)
  have "encodeOfflineSnapshotCursor cur = encode_json (JObj fs)" by (simp add: encodeOfflineSnapshotCursor_def fs_def)
  then have "decodeOfflineSnapshotCursor (encodeOfflineSnapshotCursor cur) =
    (if blank (cu_eventId cur) \<or> blank (cu_id cur) then Inl (BadRequest ''Invalid offline snapshot cursor'')
     else if (case cu_changeCursor cur of None \<Rightarrow> False | Some j \<Rightarrow> \<not> digits (coerced j))
     then Inl (BadRequest ''Invalid offline snapshot cursor'')
     else Inr \<lparr>cu_version = 3, cu_eventId = cu_eventId cur, cu_snapshotAsOf = cu_snapshotAsOf cur,
       cu_createdAt = cu_createdAt cur, cu_id = cu_id cur, cu_changeCursor = cu_changeCursor cur\<rparr>)"
    by (simp add: decodeOfflineSnapshotCursor_def trim_encoded decode_encode_json [OF plain] get str_of_def)
  then show ?thesis using assms(1) by (cases cur) simp
qed

lemma cursor_truthy: "truthy (Some (encodeOfflineSnapshotCursor cur))"
proof -
  have "to_base64url s \<noteq> []" if "s \<noteq> []" for s using that by (cases s rule: to_base64url.cases) auto
  then show ?thesis by (simp add: encodeOfflineSnapshotCursor_def encode_json_def)
qed

end
