(* ===== verification/Replica.thy ===== *)
theory Replica
  imports VisitorSync
begin

text \<open>
  The copy of a scanner: it stores each visitor of an answer under its id and drops the ones an answer has no
  visitor for. One page of the snapshot and one request for changes, each with what it adds to the copy.
\<close>

type_synonym replica = "id \<Rightarrow> offline_visitor option"

definition put_visitors :: "offline_visitor list \<Rightarrow> replica \<Rightarrow> replica" where
  "put_visitors os m = fold (\<lambda>o' m. m(rg_id (ov_registration o') := Some o')) os m"

definition put_changes :: "change_entry list \<Rightarrow> replica \<Rightarrow> replica" where
  "put_changes es m = fold (\<lambda>x m. m(en_registrationId x := en_visitor x)) es m"

lemma fold_upd:
  assumes "distinct (map k xs)"
  shows "fold (\<lambda>x m. m(k x := g x)) xs m i = (case find_row (\<lambda>x. k x = i) xs of None \<Rightarrow> m i | Some x \<Rightarrow> g x)"
  using assms
proof (induction xs arbitrary: m)
  case (Cons x xs)
  have "find_row (\<lambda>y. k y = i) xs = None" if "k x = i" using Cons.prems that by (simp add: find_row_None) (metis image_eqI)
  then show ?case using Cons by auto
qed simp

lemma find_answers:
  assumes "list_all2 (\<lambda>x y. f x = Inr y) xs ys" and "\<And>x y. f x = Inr y \<Longrightarrow> k' y = k x"
  shows "case find_row (\<lambda>x. k x = i) xs of None \<Rightarrow> find_row (\<lambda>y. k' y = i) ys = None
    | Some x \<Rightarrow> \<exists>y. find_row (\<lambda>y. k' y = i) ys = Some y \<and> f x = Inr y"
  using assms(1) by (induction rule: list_all2_induct) (auto simp: assms(2) split: option.splits)

lemma map_answers:
  assumes "list_all2 (\<lambda>x y. f x = Inr y) xs ys" and "\<And>x y. f x = Inr y \<Longrightarrow> k' y = k x"
  shows "map k' ys = map k xs"
  using assms(1) by (induction rule: list_all2_induct) (auto simp: assms(2))

section \<open>A page of the snapshot\<close>

definition beyond :: "(time \<times> id) option \<Rightarrow> registration \<Rightarrow> bool" where
  "beyond key r = (case key of None \<Rightarrow> True | Some k \<Rightarrow> k < visitor_key r)"

definition up_to :: "(time \<times> id) option \<Rightarrow> registration \<Rightarrow> bool" where
  "up_to key r = (case key of None \<Rightarrow> True | Some k \<Rightarrow> visitor_key r \<le> k)"

definition snapshot_all :: "id \<Rightarrow> time \<Rightarrow> (time \<times> id) option \<Rightarrow> store \<Rightarrow> registration list" where
  "snapshot_all e asOf key s = sort_key visitor_key (filter (\<lambda>r. rg_eventId r = e \<and> rg_createdAt r \<le> asOf \<and> beyond key r) (registrations s))"

lemma snapshot_rows_all: "snapshot_rows e asOf key n s = take n (snapshot_all e asOf key s)"
proof -
  have "(case key of None \<Rightarrow> True | Some (t, i) \<Rightarrow> t < rg_createdAt r \<or> rg_createdAt r = t \<and> i < rg_id r) = beyond key r" for r
    by (auto simp: beyond_def visitor_key_def split: option.splits)
  then show ?thesis by (simp add: snapshot_rows_def snapshot_all_def)
qed

lemma snapshot_all_strict: "tables_ok s \<Longrightarrow> sorted_wrt (<) (map visitor_key (snapshot_all e asOf key s))"
  unfolding snapshot_all_def
proof (rule sort_key_strict)
  assume "tables_ok s"
  then have "distinct (map rg_id (filter (\<lambda>r. rg_eventId r = e \<and> rg_createdAt r \<le> asOf \<and> beyond key r) (registrations s)))"
    by (simp add: tables_ok_def distinct_map_filter)
  then show "distinct (map visitor_key (filter (\<lambda>r. rg_eventId r = e \<and> rg_createdAt r \<le> asOf \<and> beyond key r) (registrations s)))"
    by (auto simp: distinct_map inj_on_def visitor_key_def)
qed

lemma set_snapshot_all: "r \<in> set (snapshot_all e asOf key s) \<longleftrightarrow>
    r \<in> set (registrations s) \<and> rg_eventId r = e \<and> rg_createdAt r \<le> asOf \<and> beyond key r"
  by (simp add: snapshot_all_def)

definition next_cursor :: "env \<Rightarrow> id \<Rightarrow> time \<Rightarrow> json \<Rightarrow> time \<times> id \<Rightarrow> string" where
  "next_cursor c e asOf cc k = encodeOfflineSnapshotCursor \<lparr>cu_version = 3, cu_eventId = e, cu_snapshotAsOf = iso_date c asOf,
     cu_createdAt = iso_date c (fst k), cu_id = snd k, cu_changeCursor = Some cc\<rparr>"

definition in_page :: "id \<Rightarrow> time \<Rightarrow> (time \<times> id) option \<Rightarrow> (time \<times> id) option \<Rightarrow> store \<Rightarrow> id \<Rightarrow> bool" where
  "in_page e asOf key b s i = (\<exists>r \<in> set (registrations s). rg_id r = i \<and> rg_eventId r = e \<and> rg_createdAt r \<le> asOf \<and>
     beyond key r \<and> up_to b r)"

text \<open>The page ends at a key, or it is the last one; it puts exactly the visitors up to there.\<close>

lemma snapshot_step:
  assumes ok: "tables_ok (db v)" and ans: "snapshot_answer c dec asOf key cc limit e ev url v = Inr p" and lim: "50 \<le> limit"
  obtains b where "sn_hasMore p \<longleftrightarrow> b \<noteq> None" and "sn_changeCursor p = cc" and "sn_eventId p = e"
    and "\<forall>k. b = Some k \<longrightarrow> sn_nextCursor p = Some (next_cursor c e asOf cc k) \<and> valid_time (fst k) \<and> (\<forall>k0. key = Some k0 \<longrightarrow> k0 \<le> k)"
    and "\<forall>i. in_page e asOf key b (db v) i \<longrightarrow> map_option shown_content (put_visitors (sn_visitors p) rep i) = content e (db v) i"
    and "\<forall>i. \<not> in_page e asOf key b (db v) i \<longrightarrow> put_visitors (sn_visitors p) rep i = rep i"
proof -
  define L where "L = snapshot_all e asOf key (db v)"
  define n where "n = nat limit"
  define items where "items = take n L"
  define b where "b = (if n < length L then Some (visitor_key (L ! (n - 1))) else None)"
  have n: "0 < n" using lim by (simp add: n_def)
  have strict: "sorted_wrt (<) (map visitor_key L)" unfolding L_def by (rule snapshot_all_strict [OF ok])
  obtain vs where vs: "mapE (formatOfflineVisitor c (db v)) items = Inr vs"
    and p: "sn_hasMore p = (n < length L)" "sn_changeCursor p = cc" "sn_eventId p = e" "sn_visitors p = vs"
      "sn_nextCursor p = (if n < length L \<and> items \<noteq> [] then Some (next_cursor c e asOf cc (visitor_key (last items))) else None)"
    using ans unfolding snapshot_answer_def Let_def snapshot_rows_all L_def [symmetric] n_def [symmetric] page_items items_def [symmetric]
    by (auto simp: bindE_Inr_iff next_cursor_def visitor_key_def)
  have inL: "r \<in> set items \<longleftrightarrow> r \<in> set L \<and> up_to b r" for r
  proof (cases "n < length L")
    case True
    then show ?thesis using take_strict [OF strict n, of r] in_set_takeD [of r n L] by (auto simp: items_def b_def up_to_def)
  qed (simp add: items_def b_def up_to_def)
  have answers: "list_all2 (\<lambda>r o'. formatOfflineVisitor c (db v) r = Inr o') items vs" using vs by (simp add: mapE_Inr)
  have ids: "map (rg_id \<circ> ov_registration) vs = map rg_id items"
    by (rule map_answers [OF answers]) (simp add: format_shown(1))
  have "distinct (map rg_id L)"
    using ok distinct_map_filter [of rg_id "registrations (db v)"] by (simp add: L_def snapshot_all_def tables_ok_def distinct_map)
  then have dist: "distinct (map rg_id items)" by (simp add: items_def take_map [symmetric])
  have put: "put_visitors vs rep i = (case find_row (\<lambda>o'. rg_id (ov_registration o') = i) vs of None \<Rightarrow> rep i | Some o' \<Rightarrow> Some o')" for i
    unfolding put_visitors_def using dist ids by (intro fold_upd) (simp add: o_def)
  have find: "case find_row (\<lambda>r. rg_id r = i) items of None \<Rightarrow> find_row (\<lambda>o'. rg_id (ov_registration o') = i) vs = None
      | Some r \<Rightarrow> \<exists>o'. find_row (\<lambda>o'. rg_id (ov_registration o') = i) vs = Some o' \<and> formatOfflineVisitor c (db v) r = Inr o'" for i
    by (rule find_answers [OF answers]) (simp add: format_shown(1))
  show thesis
  proof (rule that [of b])
    show "sn_hasMore p \<longleftrightarrow> b \<noteq> None" "sn_changeCursor p = cc" "sn_eventId p = e" using p by (simp_all add: b_def)
    show "\<forall>k. b = Some k \<longrightarrow> sn_nextCursor p = Some (next_cursor c e asOf cc k) \<and> valid_time (fst k) \<and> (\<forall>k0. key = Some k0 \<longrightarrow> k0 \<le> k)"
    proof (intro allI impI)
      fix k assume that: "b = Some k"
      have len: "n < length L" and k: "k = visitor_key (L ! (n - 1))" using that by (auto simp: b_def split: if_splits)
      then have "L ! (n - 1) \<in> set L" by (intro nth_mem) simp
      then have "L ! (n - 1) \<in> set (registrations (db v))" "beyond key (L ! (n - 1))" unfolding L_def set_snapshot_all by auto
      moreover have "last items = L ! (n - 1)" using last_take [OF n, of L] len by (simp add: items_def)
      moreover have "items \<noteq> []" using n len by (auto simp: items_def)
      ultimately show "sn_nextCursor p = Some (next_cursor c e asOf cc k) \<and> valid_time (fst k) \<and> (\<forall>k0. key = Some k0 \<longrightarrow> k0 \<le> k)"
        using p(5) len k ok by (auto simp: tables_ok_def visitor_key_def beyond_def simp del: split_paired_All)
    qed
    show "\<forall>i. in_page e asOf key b (db v) i \<longrightarrow> map_option shown_content (put_visitors (sn_visitors p) rep i) = content e (db v) i"
    proof (intro allI impI)
      fix i assume "in_page e asOf key b (db v) i"
      then obtain r where r: "r \<in> set (registrations (db v))" "rg_id r = i" "rg_eventId r = e" "rg_createdAt r \<le> asOf" "beyond key r" "up_to b r"
        unfolding in_page_def by blast
      have "r \<in> set items" using r by (simp add: inL L_def set_snapshot_all)
      then have "find_row (\<lambda>x. rg_id x = i) items = Some r" using find_row_unique [OF dist, of r] r(2) by simp
      then obtain o' where o: "find_row (\<lambda>o'. rg_id (ov_registration o') = i) vs = Some o'" "formatOfflineVisitor c (db v) r = Inr o'"
        using find [of i] by auto
      have "lookup_by rg_id i (event_visitors e (db v)) = Some r" using lookup_visitor [OF ok] r(1-3) by blast
      then show "map_option shown_content (put_visitors (sn_visitors p) rep i) = content e (db v) i"
        using format_shown(2) [OF o(2)] o(1) by (simp add: p(4) put)
    qed
    show "\<forall>i. \<not> in_page e asOf key b (db v) i \<longrightarrow> put_visitors (sn_visitors p) rep i = rep i"
    proof (intro allI impI)
      fix i assume no: "\<not> in_page e asOf key b (db v) i"
      have "find_row (\<lambda>r. rg_id r = i) items = None"
      proof (unfold find_row_None, intro ballI notI)
        fix r assume "r \<in> set items" and i: "rg_id r = i"
        then have "r \<in> set L" "up_to b r" by (simp_all add: inL)
        then show False using no i unfolding L_def set_snapshot_all in_page_def by blast
      qed
      then show "put_visitors (sn_visitors p) rep i = rep i" using find [of i] by (simp add: p(4) put)
    qed
  qed
qed


section \<open>A request for changes\<close>

lemma find_newest:
  assumes "sorted_wrt (<) (map vc_id ys)" and "y \<in> set ys" and "P y" and "\<And>z. z \<in> set ys \<Longrightarrow> P z \<Longrightarrow> vc_id z \<le> vc_id y"
  shows "find_row P (rev ys) = Some y"
  using assms
proof (induction ys rule: rev_induct)
  case (snoc x xs)
  show ?case
  proof (cases "P x")
    case True
    have "x = y"
    proof (rule ccontr)
      assume "x \<noteq> y"
      then have "vc_id y < vc_id x" using snoc.prems(1,2) by (auto simp: sorted_wrt_append)
      then show False using snoc.prems(4) [of x] True by simp
    qed
    then show ?thesis using True by simp
  next
    case False
    then have "y \<in> set xs" using snoc.prems(2,3) by auto
    then show ?thesis using snoc False by (simp add: sorted_wrt_append)
  qed
qed simp

lemma find_newest_max:
  assumes "sorted_wrt (<) (map vc_id ys)" and "find_row P (rev ys) = Some y" and "z \<in> set ys" and "P z"
  shows "vc_id z \<le> vc_id y"
  using assms
proof (induction ys rule: rev_induct)
  case (snoc x xs)
  then show ?case by (auto simp: sorted_wrt_append less_imp_le split: if_splits dest!: find_row_SomeD1)
qed simp

lemma map_of_latest:
  "map_of (fold (\<lambda>x m. AList.update (k x) x m) ys al) i =
    (case find_row (\<lambda>z. k z = i) (rev ys) of None \<Rightarrow> map_of al i | Some y \<Rightarrow> Some y)"
  by (induction ys arbitrary: al) (auto simp: find_row_append AList.update_conv' split: option.splits)

lemma distinct_latest:
  "distinct (map fst al) \<Longrightarrow> distinct (map fst (fold (\<lambda>x m. AList.update (k x) x m) ys al))"
  by (induction ys arbitrary: al) (auto simp: AList.distinct_update)

lemma find_effective:
  "find_row (\<lambda>z. vc_registrationId z = i) (effective_rows ys) = find_row (\<lambda>z. vc_registrationId z = i) (rev ys)"
  "distinct (map vc_registrationId (effective_rows ys))"
proof -
  define al where "al = fold (\<lambda>x m. AList.update (vc_registrationId x) x m) ys []"
  have map: "map_of al j = find_row (\<lambda>z. vc_registrationId z = j) (rev ys)" for j
    using map_of_latest [of vc_registrationId ys "[]" j] by (simp add: al_def split: option.splits)
  have dist: "distinct (map fst al)" unfolding al_def by (rule distinct_latest) simp
  have fst: "fst p = vc_registrationId (snd p)" if "p \<in> set al" for p
  proof -
    have "map_of al (fst p) = Some (snd p)" using that dist by simp
    then show ?thesis using map [of "fst p"] by (auto dest: find_row_Some)
  qed
  then have keys: "map vc_registrationId (map snd al) = map fst al" by simp
  have eff: "effective_rows ys = sort_key vc_id (map snd al)" by (simp add: effective_rows_def al_def)
  show "distinct (map vc_registrationId (effective_rows ys))"
    using dist keys unfolding eff by (metis distinct_map distinct_sort set_sort)
  then have unique: "y \<in> set (effective_rows ys) \<Longrightarrow> vc_registrationId y = i \<Longrightarrow>
      find_row (\<lambda>z. vc_registrationId z = i) (effective_rows ys) = Some y" for y
    using find_row_unique [of vc_registrationId "effective_rows ys" y] by blast
  have mem: "y \<in> set (effective_rows ys) \<longleftrightarrow> map_of al (vc_registrationId y) = Some y" for y
  proof
    assume "y \<in> set (effective_rows ys)"
    then obtain p where "p \<in> set al" "y = snd p" unfolding eff by auto
    then show "map_of al (vc_registrationId y) = Some y" using fst dist by (metis map_of_eq_Some_iff surjective_pairing)
  next
    assume "map_of al (vc_registrationId y) = Some y"
    then have "(vc_registrationId y, y) \<in> set al" by (rule map_of_SomeD)
    then show "y \<in> set (effective_rows ys)" unfolding eff by force
  qed
  show "find_row (\<lambda>z. vc_registrationId z = i) (effective_rows ys) = find_row (\<lambda>z. vc_registrationId z = i) (rev ys)"
  proof (cases "find_row (\<lambda>z. vc_registrationId z = i) (rev ys)")
    case None
    then have "map_of al i = None" by (simp add: map)
    then have "find_row (\<lambda>z. vc_registrationId z = i) (effective_rows ys) = None"
      by (auto simp: find_row_None mem)
    with None show ?thesis by simp
  next
    case (Some y)
    then have "vc_registrationId y = i" by (auto dest: find_row_Some)
    then show ?thesis using Some unique [of y] by (simp add: mem map)
  qed
qed


lemma journal_rows_filter:
  assumes "journal_ok v"
  shows "journal_rows e n v = filter (\<lambda>x. vc_eventId x = e \<and> n < vc_id x) (journal v)"
    and "sorted_wrt (<) (map vc_id (journal_rows e n v))"
proof -
  have "sorted_wrt (<) (map vc_id (filter (\<lambda>x. vc_eventId x = e \<and> n < vc_id x) (journal v)))"
    using assms by (auto simp: journal_ok_def sorted_wrt_map intro: sorted_wrt_filter)
  moreover from this have "sorted (map vc_id (filter (\<lambda>x. vc_eventId x = e \<and> n < vc_id x) (journal v)))"
    by (simp add: strict_sorted_iff)
  ultimately show "journal_rows e n v = filter (\<lambda>x. vc_eventId x = e \<and> n < vc_id x) (journal v)"
    and "sorted_wrt (<) (map vc_id (journal_rows e n v))"
    by (simp_all add: journal_rows_def sort_key_id_if_sorted)
qed

definition page_end :: "nat \<Rightarrow> visitor_change list \<Rightarrow> nat" where
  "page_end n pageRows = (if pageRows = [] then n else vc_id (last pageRows))"

lemma page_rows:
  fixes e :: id
  assumes "journal_ok v" and "0 < l" and "n < next_change v"
  defines "ys \<equiv> take l (journal_rows e n v)"
  shows "y \<in> set ys \<longleftrightarrow> y \<in> set (journal v) \<and> vc_eventId y = e \<and> n < vc_id y \<and> vc_id y \<le> page_end n ys"
    and "n \<le> page_end n ys" and "page_end n ys < next_change v" and "sorted_wrt (<) (map vc_id ys)"
proof -
  define J where "J = journal_rows e n v"
  have J: "z \<in> set J \<longleftrightarrow> z \<in> set (journal v) \<and> vc_eventId z = e \<and> n < vc_id z" for z
    by (auto simp: J_def journal_rows_filter(1) [OF assms(1)])
  have strict: "sorted_wrt (<) (map vc_id J)" unfolding J_def by (rule journal_rows_filter(2) [OF assms(1)])
  then show "sorted_wrt (<) (map vc_id ys)" by (simp add: ys_def sorted_wrt_take flip: J_def take_map)
  have sub: "set ys \<subseteq> set J" by (auto simp: ys_def J_def dest: in_set_takeD)
  have lastJ: "ys \<noteq> [] \<Longrightarrow> last ys \<in> set J" using sub last_in_set by blast
  then show "n \<le> page_end n ys" and "page_end n ys < next_change v"
    using assms(1,3) J by (auto simp: page_end_def journal_ok_def less_imp_le)
  have "y \<in> set ys \<longleftrightarrow> y \<in> set J \<and> vc_id y \<le> page_end n ys"
  proof (cases "l \<le> length J")
    case True
    then have "ys \<noteq> []" "last ys = J ! (l - 1)" using last_take [OF assms(2) True] assms(2) by (auto simp: ys_def J_def)
    then show ?thesis
      using take_strict [OF strict assms(2) True, of y] sub by (auto simp: ys_def page_end_def simp flip: J_def)
  next
    case False
    then have "ys = J" by (simp add: ys_def flip: J_def)
    moreover have "vc_id y \<le> page_end n J" if "y \<in> set J"
    proof -
      have "J \<noteq> []" using that by auto
      then have "last J = J ! (length J - 1)" by (rule last_conv_nth)
      then show ?thesis
        using that take_strict [OF strict, of "length J" y] \<open>J \<noteq> []\<close> by (simp add: page_end_def)
    qed
    ultimately show ?thesis by blast
  qed
  then show "y \<in> set ys \<longleftrightarrow> y \<in> set (journal v) \<and> vc_eventId y = e \<and> n < vc_id y \<and> vc_id y \<le> page_end n ys" by (simp add: J)
qed

lemma change_answer_id: "change_answer c e s y = Inr x \<Longrightarrow> en_registrationId x = vc_registrationId y"
  by (auto simp: change_answer_def bindE_Inr_iff)

lemma changes_page_Inr:
  assumes "changes_page c e n l v1 v2 v3 = Inr p" and "ys = take l (journal_rows e n v1)"
  shows "list_all2 (\<lambda>y x. change_answer c e (db v2) y = Inr x) (effective_rows ys) (cg_changes p)"
    and "cg_nextCursor p = nat_text (page_end n ys)"
    and "cg_hasMore p \<longleftrightarrow> l < length (journal_rows e n v1) \<or> page_end n ys < latest_change e v3"
  using assms by (auto simp: changes_page_def Let_def page_items bindE_Inr_iff mapE_Inr page_end_def)

lemma put_changes_find:
  assumes "list_all2 (\<lambda>y x. change_answer c e s y = Inr x) (effective_rows ys) xs"
  shows "find_row (\<lambda>y. vc_registrationId y = i) (rev ys) = None \<Longrightarrow> put_changes xs rep i = rep i"
    and "find_row (\<lambda>y. vc_registrationId y = i) (rev ys) = Some y \<Longrightarrow>
      \<exists>x. put_changes xs rep i = en_visitor x \<and> change_answer c e s y = Inr x"
proof -
  have "map en_registrationId xs = map vc_registrationId (effective_rows ys)"
    by (rule map_answers [OF assms]) (rule change_answer_id)
  then have put: "put_changes xs rep i = (case find_row (\<lambda>x. en_registrationId x = i) xs of None \<Rightarrow> rep i | Some x \<Rightarrow> en_visitor x)"
    unfolding put_changes_def using find_effective(2) [of ys] by (intro fold_upd) simp
  have "case find_row (\<lambda>y. vc_registrationId y = i) (effective_rows ys) of
      None \<Rightarrow> find_row (\<lambda>x. en_registrationId x = i) xs = None
    | Some y \<Rightarrow> \<exists>x. find_row (\<lambda>x. en_registrationId x = i) xs = Some x \<and> change_answer c e s y = Inr x"
    by (rule find_answers [OF assms]) (rule change_answer_id)
  then show "find_row (\<lambda>y. vc_registrationId y = i) (rev ys) = None \<Longrightarrow> put_changes xs rep i = rep i"
    and "find_row (\<lambda>y. vc_registrationId y = i) (rev ys) = Some y \<Longrightarrow>
      \<exists>x. put_changes xs rep i = en_visitor x \<and> change_answer c e s y = Inr x"
    unfolding put find_effective(1) by auto
qed

lemma change_visitor_content:
  assumes "change_answer c e s y = Inr x" and "vc_registrationId y = i"
    and "vc_operation y = DELETED \<Longrightarrow> content e s i = None"
  shows "map_option shown_content (en_visitor x) = content e s i"
proof (cases "lookup_by rg_id i (event_visitors e s)")
  case None
  then show ?thesis using assms
    by (cases "vc_operation y") (auto simp: change_answer_def change_visitor_def bindE_Inr_iff content_def)
next
  case (Some r)
  then have "vc_operation y = UPSERT" using assms(3) by (cases "vc_operation y") (simp_all add: content_def)
  then obtain o' where o: "formatOfflineVisitor c s r = Inr o'" "en_visitor x = Some o'"
    using assms(1,2) Some by (auto simp: change_answer_def change_visitor_def bindE_Inr_iff)
  then show ?thesis using format_shown(2) [OF o(1) Some] by simp
qed

lemma changes_step:
  assumes ok: "journal_ok v1" and w: "writes v1 v2" "writes v2 v3" and ans: "changes_page c e n l v1 v2 v3 = Inr p"
    and l: "0 < l" and n: "n < next_change v1"
    and rep: "\<And>i. quiet e i n v1 \<Longrightarrow> map_option shown_content (rep i) = content e (db v1) i"
  obtains m where "cg_nextCursor p = nat_text m" and "m < next_change v3"
    and "\<And>i. quiet e i m v3 \<Longrightarrow> map_option shown_content (put_changes (cg_changes p) rep i) = content e (db v3) i"
    and "\<not> cg_hasMore p \<Longrightarrow> (\<forall>y \<in> set (journal v3). vc_eventId y = e \<longrightarrow> vc_id y \<le> m)"
proof -
  define ys where "ys = take l (journal_rows e n v1)"
  define m where "m = page_end n ys"
  note p = changes_page_Inr [OF ans ys_def]
  note rows = page_rows [OF ok l n, where e = e, folded ys_def, folded m_def]
  note f2 = writes_facts [OF w(1) ok]
  then have ok2: "journal_ok v2" by blast
  note f3 = writes_facts [OF w(2) ok2]
  have m2: "m < next_change v2" using rows(3) f2 by linarith
  show thesis
  proof (rule that [of m])
    show "cg_nextCursor p = nat_text m" using p(2) by (simp add: m_def)
    show "m < next_change v3" using m2 f3 by linarith
    show "\<forall>y \<in> set (journal v3). vc_eventId y = e \<longrightarrow> vc_id y \<le> m" if "\<not> cg_hasMore p"
      using that p(3) max_change_ge [of _ v3 "\<lambda>x. vc_eventId x = e"] by (force simp: latest_change_def m_def)
    show "map_option shown_content (put_changes (cg_changes p) rep i) = content e (db v3) i" if q: "quiet e i m v3" for i
    proof -
      note b3 = quiet_back [OF w(2) ok2 m2 q]
      note b2 = quiet_back [OF w(1) ok rows(3) b3(1)]
      have row: "y \<in> set ys" if "y \<in> set (journal v1)" "row_of e i y" "n < vc_id y" for y
        using that b2(1) rows(1) by (auto simp: quiet_def row_of_def)
      show ?thesis
      proof (cases "find_row (\<lambda>y. vc_registrationId y = i) (rev ys)")
        case None
        then have "vc_id y \<le> n" if "y \<in> set (journal v1)" "row_of e i y" for y
          using row [OF that] that(2) by (fastforce simp: find_row_None row_of_def)
        then have "quiet e i n v1" by (simp add: quiet_def)
        then show ?thesis using rep put_changes_find(1) [OF p(1) None] b3(2) b2(2) by simp
      next
        case (Some y)
        then obtain x where x: "put_changes (cg_changes p) rep i = en_visitor x" "change_answer c e (db v2) y = Inr x"
          using put_changes_find(2) [OF p(1) Some] by blast
        have y: "y \<in> set ys" "vc_registrationId y = i" using find_row_Some [OF Some] by simp_all
        have max: "vc_id z \<le> vc_id y" if z: "z \<in> set (journal v1)" "row_of e i z" for z
        proof (cases "n < vc_id z")
          case True
          then have "z \<in> set ys" using row z by blast
          then show ?thesis using find_newest_max [OF rows(4) Some, of z] z(2) by (simp add: row_of_def)
        next
          case False
          then show ?thesis using y(1) rows(1) by auto
        qed
        have "content e (db v2) i = None" if "vc_operation y = DELETED"
        proof -
          have "find_row (row_of e i) (rev (journal v1)) = Some y"
            using ok y rows(1) max by (intro find_newest) (auto simp: journal_ok_def row_of_def)
          then have "lookup_by rg_id i (event_visitors e (db v1)) = None" using ok that by (simp add: journal_ok_def)
          then show ?thesis using b2(2) by (simp add: content_def)
        qed
        then show ?thesis using change_visitor_content [OF x(2) y(2)] x(1) b3(2) by simp
      qed
    qed
  qed
qed

end
