(* ===== verification/Downloads.thy ===== *)
theory Downloads
  imports Replica
begin

text \<open>
  Whole downloads: every interleaving of the requests of one scanner with the writes of others. The requests
  may run at different times \<open>t\<close>, with different limits, and under different accounts of the same event.
\<close>

section \<open>Downloads\<close>

datatype phase = Paging string | Following string bool \<comment> \<open>the next cursor; nothing more is known of\<close>

definition next_phase :: "snapshot_page \<Rightarrow> phase" where
  "next_phase p = (if sn_hasMore p then Paging (the (sn_nextCursor p))
     else Following (case sn_changeCursor p of JStr a \<Rightarrow> a | _ \<Rightarrow> []) False)"

fun stale :: "phase \<Rightarrow> phase" where
  "stale (Paging k) = Paging k"
| "stale (Following a b) = Following a False"

inductive download :: "env \<Rightarrow> id \<Rightarrow> phase \<Rightarrow> vstate \<Rightarrow> replica \<Rightarrow> bool" for c e where
  first_page: "journal_ok v \<Longrightarrow> list_all (\<lambda>r. rg_createdAt r \<le> t) (event_visitors e (db v)) \<Longrightarrow> valid_time t \<Longrightarrow>
    findOfflineSnapshotForStaff (c\<lparr>now := t\<rparr>) u None l url v = Inr p \<Longrightarrow> sn_eventId p = e \<Longrightarrow>
    download c e (next_phase p) v (put_visitors (sn_visitors p) (\<lambda>_. None))"
| next_page: "download c e (Paging k) v rep \<Longrightarrow>
    findOfflineSnapshotForStaff (c\<lparr>now := t\<rparr>) u (Some k) l url v = Inr p \<Longrightarrow> sn_eventId p = e \<Longrightarrow>
    download c e (next_phase p) v (put_visitors (sn_visitors p) rep)"
| written: "download c e ph v rep \<Longrightarrow> writes v v' \<Longrightarrow> download c e (stale ph) v' rep"
| changes: "download c e (Following a b) v rep \<Longrightarrow> writes v v2 \<Longrightarrow> writes v2 v3 \<Longrightarrow>
    findChangesForStaff (c\<lparr>now := t\<rparr>) u (Some a) l v v2 v3 = Inr p \<Longrightarrow> cg_eventId p = e \<Longrightarrow>
    download c e (Following (cg_nextCursor p) (\<not> cg_hasMore p)) v3 (put_changes (cg_changes p) rep)"

section \<open>The invariant\<close>

definition reached :: "(time \<times> id) option \<Rightarrow> registration \<Rightarrow> bool" where
  "reached key r = (case key of None \<Rightarrow> False | Some k \<Rightarrow> visitor_key r \<le> k)"

text \<open>What holds of a visitor whose changes the change cursor \<open>n\<close> is past: it is in the copy as it is now once
  the pages have come to it, and not before.\<close>

definition paging_ok :: "id \<Rightarrow> time \<Rightarrow> nat \<Rightarrow> (time \<times> id) option \<Rightarrow> vstate \<Rightarrow> replica \<Rightarrow> bool" where
  "paging_ok e asOf n key v rep = (n < next_change v \<and>
     (\<forall>i. quiet e i n v \<longrightarrow> map_option shown_content (rep i) =
        (case lookup_by rg_id i (event_visitors e (db v)) of None \<Rightarrow> None
         | Some r \<Rightarrow> if reached key r then content e (db v) i else None)) \<and>
     (\<forall>i r. quiet e i n v \<and> lookup_by rg_id i (event_visitors e (db v)) = Some r \<longrightarrow> rg_createdAt r \<le> asOf))"

definition following_ok :: "id \<Rightarrow> nat \<Rightarrow> bool \<Rightarrow> vstate \<Rightarrow> replica \<Rightarrow> bool" where
  "following_ok e n b v rep = (n < next_change v \<and>
     (\<forall>i. quiet e i n v \<longrightarrow> map_option shown_content (rep i) = content e (db v) i) \<and>
     (b \<longrightarrow> (\<forall>y \<in> set (journal v). vc_eventId y = e \<longrightarrow> vc_id y \<le> n)))"

fun phase_ok :: "env \<Rightarrow> id \<Rightarrow> phase \<Rightarrow> vstate \<Rightarrow> replica \<Rightarrow> bool" where
  "phase_ok c e (Paging k) v rep = (\<exists>asOf n key. k = next_cursor c e asOf (JStr (nat_text n)) key \<and> valid_time asOf \<and>
     valid_time (fst key) \<and> paging_ok e asOf n (Some key) v rep)"
| "phase_ok c e (Following a b) v rep = (\<exists>n. a = nat_text n \<and> following_ok e n b v rep)"

lemma lookup_key_kept:
  assumes "content e s' i = content e s i"
  shows "case lookup_by rg_id i (event_visitors e s) of None \<Rightarrow> lookup_by rg_id i (event_visitors e s') = None
    | Some r \<Rightarrow> \<exists>r'. lookup_by rg_id i (event_visitors e s') = Some r' \<and> visitor_key r' = visitor_key r \<and> rg_createdAt r' = rg_createdAt r"
proof (cases "lookup_by rg_id i (event_visitors e s)")
  case None
  then show ?thesis using assms by (simp add: content_def split: option.splits)
next
  case (Some r)
  then obtain r' where r': "lookup_by rg_id i (event_visitors e s') = Some r'" "plain_visitor r' = plain_visitor r"
    using assms by (auto simp: content_def split: option.splits)
  have "rg_createdAt r' = rg_createdAt r" using arg_cong [OF r'(2), of rg_createdAt] by (simp add: plain_visitor_def)
  moreover have "rg_id r' = rg_id r" using arg_cong [OF r'(2), of rg_id] by (simp add: plain_visitor_def)
  ultimately show ?thesis using Some r'(1) by (simp add: visitor_key_def)
qed

lemma write_phase:
  assumes "writes v v'" and "journal_ok v" and "phase_ok c e ph v rep"
  shows "phase_ok c e (stale ph) v' rep"
proof (cases ph)
  case (Paging k)
  then obtain asOf n key where k: "k = next_cursor c e asOf (JStr (nat_text n)) key" "valid_time asOf" "valid_time (fst key)"
    and ok: "paging_ok e asOf n (Some key) v rep" using assms(3) by auto
  have n: "n < next_change v" using ok by (simp add: paging_ok_def)
  have "paging_ok e asOf n (Some key) v' rep"
    unfolding paging_ok_def
  proof (intro conjI allI impI)
    show "n < next_change v'" using n writes_facts [OF assms(1,2)] by linarith
    fix i
    assume q: "quiet e i n v'"
    note b = quiet_back [OF assms(1,2) n q]
    have "map_option shown_content (rep i) = (case lookup_by rg_id i (event_visitors e (db v)) of None \<Rightarrow> None
        | Some r \<Rightarrow> if reached (Some key) r then content e (db v) i else None)"
      using ok b(1) by (simp add: paging_ok_def)
    then show "map_option shown_content (rep i) = (case lookup_by rg_id i (event_visitors e (db v')) of None \<Rightarrow> None
        | Some r \<Rightarrow> if reached (Some key) r then content e (db v') i else None)"
      using lookup_key_kept [OF b(2)] b(2)
      by (cases "lookup_by rg_id i (event_visitors e (db v))") (auto simp: reached_def)
  next
    fix i r
    assume "quiet e i n v' \<and> lookup_by rg_id i (event_visitors e (db v')) = Some r"
    then have q: "quiet e i n v'" and r: "lookup_by rg_id i (event_visitors e (db v')) = Some r" by simp_all
    note b = quiet_back [OF assms(1,2) n q]
    show "rg_createdAt r \<le> asOf"
      using lookup_key_kept [OF b(2)] r ok b(1) unfolding paging_ok_def
      by (cases "lookup_by rg_id i (event_visitors e (db v))") auto
  qed
  then show ?thesis unfolding Paging stale.simps phase_ok.simps using k by blast
next
  case (Following a b)
  then obtain n where n: "a = nat_text n" "following_ok e n b v rep" using assms(3) by auto
  then have "n < next_change v" by (simp add: following_ok_def)
  then have "following_ok e n False v' rep"
    using writes_facts [OF assms(1,2)] quiet_back [OF assms(1,2)] n(2) unfolding following_ok_def
    by (metis less_le_trans)
  then show ?thesis using Following n(1) by auto
qed

text \<open>A page, first or later, from what was reached before.\<close>

lemma page_phase:
  assumes ok: "journal_ok v" and before: "paging_ok e asOf n key v rep" and "valid_time asOf"
    and "snapshot_answer c' dec asOf key (JStr (nat_text n)) limit e ev url v = Inr p" and "50 \<le> limit"
    and same: "iso_date c' = iso_date c"
  shows "phase_ok c e (next_phase p) v (put_visitors (sn_visitors p) rep)"
proof -
  have tab: "tables_ok (db v)" using ok by (simp add: journal_ok_def)
  obtain b where b: "sn_hasMore p \<longleftrightarrow> b \<noteq> None" "sn_changeCursor p = JStr (nat_text n)" "sn_eventId p = e"
    and nxt: "\<forall>k. b = Some k \<longrightarrow> sn_nextCursor p = Some (next_cursor c' e asOf (JStr (nat_text n)) k) \<and> valid_time (fst k) \<and>
      (\<forall>k0. key = Some k0 \<longrightarrow> k0 \<le> k)"
    and put: "\<forall>i. in_page e asOf key b (db v) i \<longrightarrow> map_option shown_content (put_visitors (sn_visitors p) rep i) = content e (db v) i"
    and kept: "\<forall>i. \<not> in_page e asOf key b (db v) i \<longrightarrow> put_visitors (sn_visitors p) rep i = rep i"
    by (rule snapshot_step [OF tab assms(4,5), of rep], rule that; assumption)
  have after: "map_option shown_content (put_visitors (sn_visitors p) rep i) =
      (case lookup_by rg_id i (event_visitors e (db v)) of None \<Rightarrow> None | Some r \<Rightarrow> if up_to b r then content e (db v) i else None)"
    if q: "quiet e i n v" for i
  proof (cases "lookup_by rg_id i (event_visitors e (db v))")
    case None
    then have "\<not> in_page e asOf key b (db v) i" using lookup_no_visitor [OF tab] by (auto simp: in_page_def)
    then have "put_visitors (sn_visitors p) rep i = rep i" using kept by blast
    then show ?thesis using before q None by (simp add: paging_ok_def)
  next
    case (Some r)
    then have r: "r \<in> set (registrations (db v))" "rg_id r = i" "rg_eventId r = e" using lookup_visitor [OF tab] by auto
    have only: "x = r" if "x \<in> set (registrations (db v))" "rg_id x = i" "rg_eventId x = e" for x
      using lookup_visitor [OF tab, of i e x] Some that by simp
    have asOf: "rg_createdAt r \<le> asOf" using before q Some by (simp add: paging_ok_def)
    have rep: "map_option shown_content (rep i) = (if reached key r then content e (db v) i else None)"
      using before q Some by (simp add: paging_ok_def)
    show ?thesis
    proof (cases "beyond key r \<and> up_to b r")
      case True
      then have "in_page e asOf key b (db v) i" using r asOf by (auto simp: in_page_def)
      then show ?thesis using put Some True by simp
    next
      case False
      then have "\<not> in_page e asOf key b (db v) i" using only unfolding in_page_def by blast
      then have "put_visitors (sn_visitors p) rep i = rep i" using kept by blast
      moreover have "reached key r = up_to b r"
      proof (cases key)
        case None
        then show ?thesis using False by (simp add: reached_def beyond_def)
      next
        case (Some k0)
        show ?thesis
        proof (cases "visitor_key r \<le> k0")
          case True
          have "visitor_key r \<le> k" if "b = Some k" for k using nxt that Some True order.trans by blast
          then show ?thesis using True Some by (simp add: reached_def up_to_def split: option.split)
        next
          case gt: False
          then show ?thesis using False Some by (simp add: reached_def beyond_def not_le)
        qed
      qed
      ultimately show ?thesis using rep Some by simp
    qed
  qed
  have n: "n < next_change v" using before by (simp add: paging_ok_def)
  show ?thesis
  proof (cases b)
    case (Some k)
    have "paging_ok e asOf n (Some k) v (put_visitors (sn_visitors p) rep)"
    proof -
      have eq: "up_to b = reached (Some k)" using Some by (simp add: fun_eq_iff up_to_def reached_def)
      show ?thesis using after [unfolded eq] before n by (simp add: paging_ok_def)
    qed
    moreover have "next_phase p = Paging (next_cursor c e asOf (JStr (nat_text n)) k)"
      using b(1) nxt Some same by (simp add: next_phase_def next_cursor_def)
    moreover have "valid_time (fst k)" using nxt Some by blast
    ultimately show ?thesis unfolding phase_ok.simps using assms(3) by (metis phase_ok.simps(1))
  next
    case None
    have "map_option shown_content (put_visitors (sn_visitors p) rep i) = content e (db v) i" if "quiet e i n v" for i
      using after [OF that] None by (simp add: up_to_def content_def split: option.splits)
    then have "following_ok e n False v (put_visitors (sn_visitors p) rep)" using n by (simp add: following_ok_def)
    moreover have "next_phase p = Following (nat_text n) False" using b None by (simp add: next_phase_def)
    ultimately show ?thesis by auto
  qed
qed


section \<open>Requests\<close>

lemma date_now: "date_law c \<Longrightarrow> valid_time x \<Longrightarrow> parse_date (c\<lparr>now := t\<rparr>) (iso_date c x) = Some x"
  by (simp add: date_law_def)

lemma first_request:
  assumes "findOfflineSnapshotForStaff c u None l url v = Inr p" and "sn_eventId p = e"
  shows "\<exists>ev. snapshot_answer c None (now c) None (JStr (nat_text (max_change (\<lambda>x. vc_eventId x = e \<and> vc_changedAt x \<le> now c) v)))
    (snapshot_limit l) e ev url v = Inr p"
proof -
  obtain a :: staff_assignment and ev where a: "snapshot_answer c None (now c) None (JStr (getLatestVisitorChangeCursorAt (sa_eventId a) (now c) v))
      (snapshot_limit l) (sa_eventId a) ev url v = Inr p"
    using assms(1) by (auto simp: findOfflineSnapshotForStaff_def bindE_Inr_iff Let_def)
  moreover from a have "sn_eventId p = sa_eventId a" by (auto simp: snapshot_answer_def bindE_Inr_iff Let_def)
  ultimately show ?thesis using assms(2) by (auto simp: getLatestVisitorChangeCursorAt_def)
qed

lemma next_request:
  assumes "findOfflineSnapshotForStaff (c\<lparr>now := t\<rparr>) u (Some (next_cursor c e asOf (JStr (nat_text n)) k)) l url v = Inr p"
    and "date_law c" and "valid_time asOf" and "valid_time (fst k)"
  shows "\<exists>dec ev. snapshot_answer (c\<lparr>now := t\<rparr>) dec asOf (Some k) (JStr (nat_text n)) (snapshot_limit l) e ev url v = Inr p"
proof -
  let ?cur = "\<lparr>cu_version = 3, cu_eventId = e, cu_snapshotAsOf = iso_date c asOf, cu_createdAt = iso_date c (fst k),
    cu_id = snd k, cu_changeCursor = Some (JStr (nat_text n))\<rparr>"
  obtain a :: staff_assignment and ev d where "decodeOfflineSnapshotCursor (next_cursor c e asOf (JStr (nat_text n)) k) = Inr d"
    and run: "cu_eventId d = sa_eventId a" "\<exists>x y. parseCursorDate (c\<lparr>now := t\<rparr>) (cu_snapshotAsOf d) ''Invalid snapshotAsOf inside offline snapshot cursor'' = Inr x \<and>
      parseCursorDate (c\<lparr>now := t\<rparr>) (cu_createdAt d) ''Invalid createdAt inside offline snapshot cursor'' = Inr y \<and>
      snapshot_answer (c\<lparr>now := t\<rparr>) (Some d) x (Some (y, cu_id d))
        (case cu_changeCursor d of Some j \<Rightarrow> j | None \<Rightarrow> JStr (getLatestVisitorChangeCursorAt (sa_eventId a) x v))
        (snapshot_limit l) (sa_eventId a) ev url v = Inr p"
    using assms(1) cursor_truthy
    by (auto simp: findOfflineSnapshotForStaff_def bindE_Inr_iff Let_def next_cursor_def simp del: truthy_simps split: if_splits)
  moreover have "decodeOfflineSnapshotCursor (next_cursor c e asOf (JStr (nat_text n)) k) = Inr d \<Longrightarrow> d = ?cur"
    using decode_encoded [of ?cur] by (auto simp: next_cursor_def split: if_splits)
  ultimately have "d = ?cur" "sa_eventId a = e" by auto
  then show ?thesis using run(2) date_now [OF assms(2), of _ t] assms(3,4) by (auto simp: parseCursorDate_def)
qed

lemma change_request:
  assumes "findChangesForStaff c u (Some (nat_text n)) l v1 v2 v3 = Inr p" and "cg_eventId p = e"
  shows "changes_page c e n (changes_limit l) v1 v2 v3 = Inr p"
  using assms by (auto simp: findChangesForStaff_def bindE_Inr_iff parse_change_cursor changes_page_def Let_def)

lemma download_ok:
  assumes "date_law c" and "download c e ph v rep"
  shows "journal_ok v \<and> phase_ok c e ph v rep"
  using assms(2)
proof (induction rule: download.induct)
  case (first_page v t u l url p)
  define n where "n = max_change (\<lambda>x. vc_eventId x = e \<and> vc_changedAt x \<le> t) v"
  obtain ev where ans: "snapshot_answer (c\<lparr>now := t\<rparr>) None t None (JStr (nat_text n)) (snapshot_limit l) e ev url v = Inr p"
    using first_request [OF first_page(4,5)] by (auto simp: n_def)
  have "n < next_change v" unfolding n_def by (rule max_change_less [OF first_page(1)])
  then have "paging_ok e t n None v (\<lambda>_. None)"
    using first_page(2) by (auto simp: paging_ok_def reached_def list_all_iff split: option.splits dest: lookup_by_Some)
  from page_phase [OF first_page(1) this first_page(3) ans, of c] show ?case
    using first_page(1) by (simp add: snapshot_limit_def)
next
  case (next_page k v rep t u l url p)
  then obtain asOf n key where k: "k = next_cursor c e asOf (JStr (nat_text n)) key" "valid_time asOf" "valid_time (fst key)"
    "paging_ok e asOf n (Some key) v rep" and ok: "journal_ok v" by auto
  obtain dec ev where "snapshot_answer (c\<lparr>now := t\<rparr>) dec asOf (Some key) (JStr (nat_text n)) (snapshot_limit l) e ev url v = Inr p"
    using next_request [OF next_page(2) [unfolded k(1)] assms(1) k(2,3)] by blast
  from page_phase [OF ok k(4,2) this, of c] show ?case using ok by (simp add: snapshot_limit_def)
next
  case (written ph v rep v')
  then show ?case using write_phase writes_facts by blast
next
  case (changes a b v rep v2 v3 t u l p)
  then obtain n where n: "a = nat_text n" "following_ok e n b v rep" and ok: "journal_ok v" by auto
  have page: "changes_page (c\<lparr>now := t\<rparr>) e n (changes_limit l) v v2 v3 = Inr p"
    using change_request changes(4,5) n(1) by blast
  have "0 < changes_limit l" "n < next_change v" and rep: "\<And>i. quiet e i n v \<Longrightarrow> map_option shown_content (rep i) = content e (db v) i"
    using n(2) by (auto simp: changes_limit_def following_ok_def)
  then obtain m where "cg_nextCursor p = nat_text m" "m < next_change v3"
    "\<And>i. quiet e i m v3 \<Longrightarrow> map_option shown_content (put_changes (cg_changes p) rep i) = content e (db v3) i"
    "\<not> cg_hasMore p \<Longrightarrow> (\<forall>y \<in> set (journal v3). vc_eventId y = e \<longrightarrow> vc_id y \<le> m)"
    using changes_step [OF ok changes(2,3) page] by metis
  then have "phase_ok c e (Following (cg_nextCursor p) (\<not> cg_hasMore p)) v3 (put_changes (cg_changes p) rep)"
    by (auto simp: following_ok_def)
  moreover have "journal_ok v3" using writes_facts changes(2,3) ok by blast
  ultimately show ?case by blast
qed

text \<open>C35: a download ends with the visitors as they are. Whatever is written between the pages of the snapshot and the
  requests for changes, and between the reads of one request, when the answer says that there is nothing more, the
  scanner holds exactly the visitors of the event, each with the data and the QR token it has then (up to
  \<open>updatedAt\<close>, which no trigger watches); a visitor
  created, edited, given a new token or removed on the way is not missed.\<close>

theorem download_converges:
  assumes "date_law c" and "download c e (Following a True) v rep"
  shows "map_option shown_content (rep i) = content e (db v) i"
proof -
  obtain n where "following_ok e n True v rep" using download_ok [OF assms] by auto
  then show ?thesis by (auto simp: following_ok_def quiet_def row_of_def)
qed

end
