(* ===== verification/Commits.thy ===== *)
theory Commits
  imports Downloads
begin

text \<open>
  What the services commit to the tables of registrations and QR tokens: each successful operation is a write of
  the kind that the downloads are proved for.
\<close>

lemma tables_okI:
  assumes "distinct (map rg_id (registrations s))" and "\<forall>r \<in> set (registrations s). valid_time (rg_createdAt r)" and "qr_wf s"
  shows "tables_ok s"
proof -
  have "qr_eventId q = rg_eventId r"
    if q: "q \<in> set (qrTokens s)" and r: "r \<in> set (registrations s)" "qr_registrationId q = rg_id r" for q r
  proof -
    have "find_registration (rg_id r) s = Some r" using find_row_unique [OF assms(1) r(1)] by (simp add: find_registration_def lookup_by_def)
    then show ?thesis using assms(3) q r(2) by (force simp: qr_wf_def qr_row_ok_def payload_of_def)
  qed
  then show ?thesis using assms by (simp add: tables_ok_def qr_wf_def)
qed

lemma tables_regs: "tables_ok s \<Longrightarrow> x \<in> set (registrations s) \<Longrightarrow> r \<in> set (registrations s) \<Longrightarrow> rg_id x = rg_id r \<Longrightarrow> x = r"
  unfolding tables_ok_def by (blast intro: distinct_key_inj)

lemma tables_qrs: "tables_ok s \<Longrightarrow> q \<in> set (qrTokens s) \<Longrightarrow> q' \<in> set (qrTokens s) \<Longrightarrow> qr_id q = qr_id q' \<Longrightarrow> q = q'"
  unfolding tables_ok_def by (blast intro: distinct_key_inj)

text \<open>Writes that only touch one of the tables.\<close>

lemma proper_qr_only:
  assumes "tables_ok s" and "qr_wf s'" and "registrations s' = registrations s" and "others i s' = others i s"
    and "find_qr_by_registration i s' \<noteq> None"
  shows "proper_write s s'"
proof -
  have ok': "tables_ok s'" using assms(1-3) by (intro tables_okI) (simp_all add: tables_ok_def)
  have rows: "set (others i s') = set (others i s)" using assms(4) by simp
  have kept: "q \<in> set (qrTokens s')" if "q \<in> set (qrTokens s)" "qr_registrationId q \<noteq> i" for q
    using that rows by (auto simp: others_def)
  have came: "q \<in> set (qrTokens s)" if "q \<in> set (qrTokens s')" "qr_registrationId q \<noteq> i" for q
    using that rows by (auto simp: others_def)
  have "qr_registrationId q = qr_registrationId q'"
    if q: "q \<in> set (qrTokens s)" "q' \<in> set (qrTokens s')" "qr_id q = qr_id q'" for q q'
  proof (cases "qr_registrationId q = i")
    case True
    show ?thesis
    proof (rule ccontr)
      assume "qr_registrationId q \<noteq> qr_registrationId q'"
      then have "q' \<in> set (qrTokens s)" using came q(2) True by simp
      then have "q = q'" using tables_qrs [OF assms(1) q(1)] q(3) by blast
      then show False using \<open>qr_registrationId q \<noteq> qr_registrationId q'\<close> by simp
    qed
  next
    case False
    then have "q = q'" using tables_qrs [OF ok' kept [OF q(1)] q(2)] q(3) by blast
    then show ?thesis by simp
  qed
  moreover have "lookup_by qr_registrationId (qr_registrationId q) (qrTokens s') \<noteq> None" if "q \<in> set (qrTokens s)" for q
    using that kept assms(5) by (cases "qr_registrationId q = i") (auto simp: find_qr_by_registration_def lookup_by_None)
  moreover have "rg_eventId r = rg_eventId r' \<and> rg_publicId r = rg_publicId r' \<and> rg_createdAt r = rg_createdAt r'"
    if "r \<in> set (registrations s)" "r' \<in> set (registrations s')" "rg_id r = rg_id r'" for r r'
    using tables_regs [OF assms(1), of r r'] that assms(3) by simp
  ultimately show ?thesis using ok' unfolding proper_write_def by blast
qed

lemma proper_reg_only:
  assumes "tables_ok s" and "tables_ok s'" and "qrTokens s' = qrTokens s"
    and "\<And>r r'. r \<in> set (registrations s) \<Longrightarrow> r' \<in> set (registrations s') \<Longrightarrow> rg_id r = rg_id r' \<Longrightarrow>
      rg_eventId r = rg_eventId r' \<and> rg_publicId r = rg_publicId r' \<and> rg_createdAt r = rg_createdAt r'"
  shows "proper_write s s'"
proof -
  have "qr_registrationId q = qr_registrationId q'" if "q \<in> set (qrTokens s)" "q' \<in> set (qrTokens s)" "qr_id q = qr_id q'" for q q'
    using tables_qrs [OF assms(1) that] by simp
  moreover have "lookup_by qr_registrationId (qr_registrationId q) (qrTokens s') \<noteq> None" if "q \<in> set (qrTokens s)" for q
    using that assms(3) by (simp add: lookup_by_None)
  ultimately show ?thesis using assms(2,4) unfolding proper_write_def assms(3) by blast
qed

lemma proper_updated:
  assumes "tables_ok s" and "s' = s\<lparr>registrations := update_by rg_id i f (registrations s)\<rparr>"
    and "\<And>r. rg_id (f r) = rg_id r \<and> rg_eventId (f r) = rg_eventId r \<and> rg_publicId (f r) = rg_publicId r \<and> rg_createdAt (f r) = rg_createdAt r"
  shows "proper_write s s'"
proof -
  have same: "\<exists>x \<in> set (registrations s). rg_id x = rg_id r' \<and> rg_eventId x = rg_eventId r' \<and> rg_publicId x = rg_publicId r' \<and>
      rg_createdAt x = rg_createdAt r'" if "r' \<in> set (registrations s')" for r'
    using that assms(2,3) by (auto simp: set_update_by split: if_splits)
  have "map rg_id (registrations s') = map rg_id (registrations s)" using assms(2,3) by (simp add: map_update_by)
  moreover have "qr_eventId q = rg_eventId r" if "q \<in> set (qrTokens s)" "r \<in> set (registrations s')" "qr_registrationId q = rg_id r" for q r
    using same [OF that(2)] qr_event [OF assms(1) that(1)] that(3) by metis
  moreover have "valid_time (rg_createdAt r)" if "r \<in> set (registrations s')" for r
    using same [OF that] assms(1) by (auto simp: tables_ok_def)
  ultimately have "tables_ok s'" using assms(1,2) by (simp add: tables_ok_def)
  then show ?thesis
  proof (rule proper_reg_only [OF assms(1)])
    show "qrTokens s' = qrTokens s" by (simp add: assms(2))
    fix r r' assume r: "r \<in> set (registrations s)" "r' \<in> set (registrations s')" "rg_id r = rg_id r'"
    then obtain x where "x \<in> set (registrations s)" "rg_id x = rg_id r'" "rg_eventId x = rg_eventId r'" "rg_publicId x = rg_publicId r'"
      "rg_createdAt x = rg_createdAt r'" using same by blast
    then show "rg_eventId r = rg_eventId r' \<and> rg_publicId r = rg_publicId r' \<and> rg_createdAt r = rg_createdAt r'"
      using tables_regs [OF assms(1) r(1), of x] r(3) by auto
  qed
qed

lemma proper_created:
  assumes "tables_ok s" and "qr_wf s" and "reg_inv c s" and "id_law c" and "valid_time (rg_createdAt r)"
    and "rg_id r = cuid c (next_id s)" and "registrations s' = registrations s @ [r]" and "qrTokens s' = qrTokens s"
  shows "proper_write s s'"
proof -
  have fresh: "rg_id x \<noteq> rg_id r" if "x \<in> set (registrations s)" for x
    using assms(3,4,6) that by (auto simp: reg_inv_def reg_rows_def id_law_def inj_eq)
  have fk: "qr_registrationId q \<noteq> rg_id r" if "q \<in> set (qrTokens s)" for q
  proof -
    have "qr_row_ok s q" using assms(2) that by (simp add: qr_wf_def)
    then have "find_registration (qr_registrationId q) s \<noteq> None" by (auto simp: qr_row_ok_def payload_of_def split: option.splits)
    then obtain x where "x \<in> set (registrations s)" "rg_id x = qr_registrationId q"
      by (auto simp: find_registration_def dest: lookup_by_Some)
    then show ?thesis using fresh [of x] by simp
  qed
  have "rg_id r \<notin> rg_id ` set (registrations s)" using fresh by fastforce
  then have "tables_ok s'" using assms(1,5,7,8) fk by (auto simp: tables_ok_def)
  then show ?thesis
  proof (rule proper_reg_only [OF assms(1)])
    show "qrTokens s' = qrTokens s" by (rule assms(8))
    fix x x' assume "x \<in> set (registrations s)" "x' \<in> set (registrations s')" "rg_id x = rg_id x'"
    then have "x = x'" using fresh assms(7) tables_regs [OF assms(1), of x x'] by auto
    then show "rg_eventId x = rg_eventId x' \<and> rg_publicId x = rg_publicId x' \<and> rg_createdAt x = rg_createdAt x'" by simp
  qed
qed

lemma proper_deleted:
  assumes "tables_ok s" and "s' = delete_registration i s"
  shows "proper_write s s'"
proof -
  have r: "set (registrations s') \<subseteq> set (registrations s)" and q: "set (qrTokens s') \<subseteq> set (qrTokens s)"
    using assms(2) by (auto simp: delete_registration_def set_delete_rows)
  have "tables_ok s'"
    using assms by (auto simp: tables_ok_def delete_registration_def distinct_map_delete_rows set_delete_rows)
  moreover have "rg_eventId x = rg_eventId x' \<and> rg_publicId x = rg_publicId x' \<and> rg_createdAt x = rg_createdAt x'"
    if "x \<in> set (registrations s)" "x' \<in> set (registrations s')" "rg_id x = rg_id x'" for x x'
    using tables_regs [OF assms(1), of x x'] that r by auto
  moreover have "qr_registrationId x = qr_registrationId x'"
    if "x \<in> set (qrTokens s)" "x' \<in> set (qrTokens s')" "qr_id x = qr_id x'" for x x'
    using tables_qrs [OF assms(1), of x x'] that q by auto
  moreover have "lookup_by rg_id (qr_registrationId x) (registrations s') = None"
    if "x \<in> set (qrTokens s)" "lookup_by qr_registrationId (qr_registrationId x) (qrTokens s') = None" for x
  proof -
    have "qr_registrationId x = i"
      using that assms(2) by (auto simp: lookup_by_None delete_registration_def set_delete_rows)
    then show ?thesis using assms(2) by (auto simp: lookup_by_None delete_registration_def set_delete_rows)
  qed
  ultimately show ?thesis by (auto simp: proper_write_def)
qed

section \<open>The operations\<close>

lemma update_registration_Inr:
  "update_registration c i g s = (Inr r, s') \<Longrightarrow> s' = s\<lparr>registrations := update_by rg_id i (\<lambda>r. (g r)\<lparr>rg_updatedAt := now c\<rparr>) (registrations s)\<rparr>"
  by (auto simp: update_registration_def act_simps Let_def split: option.splits if_splits)


lemma update_Inr:
  "update c i dto s = (Inr r, s') \<Longrightarrow> \<exists>dto' t. s' = s\<lparr>registrations :=
     update_by rg_id i (\<lambda>r. (changed dto' t r)\<lparr>rg_updatedAt := now c\<rparr>) (registrations s)\<rparr>"
  by (auto simp: update_def Let_def catch_def act_simps split: sum.splits prod.splits dest!: update_registration_Inr)

lemma update_row:
  assumes "update c i dto s = (Inr r', s')" and "find_registration i s = Some r"
  shows "\<exists>dto' t. s' = s\<lparr>registrations :=
     update_by rg_id i (\<lambda>r. (changed dto' t r)\<lparr>rg_updatedAt := now c\<rparr>) (registrations s)\<rparr> \<and>
     r' = (changed dto' t r)\<lparr>rg_updatedAt := now c\<rparr>"
  using assms
  by (auto simp: update_def Let_def catch_def act_simps update_registration_def split: sum.splits prod.splits option.splits if_splits)

lemma setStatus_Inr:
  "setStatus c i st s = (Inr r, s') \<Longrightarrow> s' = s\<lparr>registrations :=
     update_by rg_id i (\<lambda>r. r\<lparr>rg_status := st, rg_updatedAt := now c\<rparr>) (registrations s)\<rparr>"
  by (auto simp: setStatus_def act_simps split: sum.splits dest!: update_registration_Inr)

lemma remove_Inr: "remove i s = (Inr x, s') \<Longrightarrow> s' = delete_registration i s"
  by (auto simp: remove_def act_simps split: sum.splits)

lemma create_registers:
  assumes "create c dto s = (Inr r, s')"
  shows "rg_id r = cuid c (next_id s) \<and> rg_createdAt r = now c \<and> registrations s' = registrations s @ [r] \<and> qrTokens s' = qrTokens s"
proof -
  obtain d where d: "createNormalized c d no_options s = (Inr r, s')"
    using assms by (auto simp: create_def bindA_reads split: sum.splits)
  show ?thesis
    by (rule createNormalized_Inr [OF d], simp add: no_options_def, simp add: no_options_def)
      (auto simp: no_options_def add_job_def append_row_def registration_row_def dest!: createOrThrow_Inr)
qed



section \<open>Examples\<close>

definition sample_homed :: store where
  "sample_homed = sample_regs\<lparr>registrations := [sample_registration\<lparr>rg_id := ''c0''\<rparr>], next_id := 1\<rparr>"


definition sample_post :: staff_assignment where
  "sample_post = \<lparr>sa_id = ''a1'', sa_eventId = ''e1'', sa_userId = ''u1'', sa_checkpointId = Some ''p1'', sa_deviceId = Some ''d1'',
     sa_isActive = True, sa_updatedAt = 0, sa_notes = None, sa_createdAt = 0\<rparr>"

definition sample_visit :: vstate where
  "sample_visit = \<lparr>db = sample_regs\<lparr>staffAssignments := [sample_post]\<rparr>, journal = [], next_change = 1, templates = [], edits = []\<rparr>"

definition sample_renamed :: vstate where
  "sample_renamed = (write_db sample_env ((db sample_visit)\<lparr>registrations := update_by rg_id ''r1'' (\<lambda>r. r\<lparr>rg_fullName := ''Bea''\<rparr>)
     (registrations (db sample_visit))\<rparr>) sample_visit)\<lparr>templates := [], edits := []\<rparr>"

definition sample_first :: "snapshot_page res" where
  "sample_first = findOfflineSnapshotForStaff sample_env ''u1'' None 500 None sample_visit"

definition sample_changes :: "change_page res" where
  "sample_changes = findChangesForStaff sample_env ''u1'' (Some ''0'') 500 sample_renamed sample_renamed sample_renamed"

lemma sample_answers:
  "case sample_first of Inl e \<Rightarrow> False | Inr p \<Rightarrow> sn_eventId p = ''e1'' \<and> next_phase p = Following ''0'' False"
  "case sample_changes of Inl e \<Rightarrow> False | Inr p \<Rightarrow> cg_eventId p = ''e1'' \<and> \<not> cg_hasMore p"
  by code_simp+

lemma sample_writes: "writes sample_visit sample_renamed"
proof -
  have "tables_ok (db sample_visit)"
    by (simp add: tables_ok_def sample_visit_def sample_regs_def empty_store_def sample_registration_def valid_time_def)
  then have "proper_write (db sample_visit) ((db sample_visit)\<lparr>registrations := update_by rg_id ''r1'' (\<lambda>r. r\<lparr>rg_fullName := ''Bea''\<rparr>)
     (registrations (db sample_visit))\<rparr>)"
    by (rule proper_updated [OF _ refl]) simp_all
  from writes_some [OF writes_none this] show ?thesis unfolding sample_renamed_def .
qed

lemma sample_journal: "journal_ok sample_visit"
  by (simp add: journal_ok_def tables_ok_def sample_visit_def sample_regs_def empty_store_def sample_registration_def valid_time_def)

lemma download_converges_witness:
  "\<exists>rep. map_option shown_content (rep ''r1'') = content ''e1'' (db sample_renamed) ''r1'' \<and> content ''e1'' (db sample_renamed) ''r1'' \<noteq> None"
proof -
  have now: "sample_env\<lparr>now := 1000\<rparr> = sample_env" by (simp add: sample_env_def)
  obtain p where p: "sample_first = Inr p" "sn_eventId p = ''e1''" "next_phase p = Following ''0'' False"
    using sample_answers(1) by (auto split: sum.splits)
  obtain q where q: "sample_changes = Inr q" "cg_eventId q = ''e1''" "\<not> cg_hasMore q"
    using sample_answers(2) by (auto split: sum.splits)
  have "list_all (\<lambda>r. rg_createdAt r \<le> 1000) (event_visitors ''e1'' (db sample_visit))" "valid_time 1000"
    by (simp_all add: event_visitors_def sample_visit_def sample_regs_def sample_registration_def valid_time_def)
  then have "download sample_env ''e1'' (next_phase p) sample_visit (put_visitors (sn_visitors p) (\<lambda>_. None))"
    using p by (intro first_page [OF sample_journal, where t = 1000 and u = "''u1''" and l = 500 and url = None]) (simp_all add: sample_first_def now)
  then have "download sample_env ''e1'' (stale (Following ''0'' False)) sample_renamed (put_visitors (sn_visitors p) (\<lambda>_. None))"
    unfolding p(3) by (rule written [OF _ sample_writes])
  then have "download sample_env ''e1'' (Following (cg_nextCursor q) (\<not> cg_hasMore q)) sample_renamed
      (put_changes (cg_changes q) (put_visitors (sn_visitors p) (\<lambda>_. None)))"
    using q by (intro changes [where v = sample_renamed and ?v2.0 = sample_renamed and t = 1000 and u = "''u1''" and l = 500] writes_none)
      (simp_all add: sample_changes_def now)
  from download_converges [OF sample_laws(3), of "''e1''" "cg_nextCursor q" sample_renamed _ "''r1''"] this q(3)
  have "map_option shown_content (put_changes (cg_changes q) (put_visitors (sn_visitors p) (\<lambda>_. None)) ''r1'') =
      content ''e1'' (db sample_renamed) ''r1''" by simp
  moreover have "content ''e1'' (db sample_renamed) ''r1'' \<noteq> None" by code_simp
  ultimately show ?thesis by blast
qed

end
