(* ===== verification/VisitorEdits.thy ===== *)
theory VisitorEdits
  imports Commits
begin

text \<open>
  Edits of visitors by staff: an edit names the version it was made on, and is refused when the row has another.
\<close>

lemma qr_log_same: "distinct (map qr_id qs) \<Longrightarrow> qr_log qs qs = []"
  using find_row_unique [of qr_id qs]
  by (auto simp: qr_log_def filter_empty_conv lookup_by_def qr_differs_def)

lemma reg_log_same:
  assumes "distinct (map rg_id rs)"
    and "\<And>r. r \<in> set rs \<Longrightarrow> rg_id (f r) = rg_id r \<and> \<not> reg_differs r (f r)"
  shows "reg_log rs (map f rs) = []"
proof -
  have ids: "map rg_id (map f rs) = map rg_id rs" using assms(2) by simp
  have "lookup_by rg_id (rg_id (f r)) rs = Some r" if "r \<in> set rs" for r
    using find_row_unique [OF assms(1) that] assms(2) [OF that] by (simp add: lookup_by_def)
  moreover have "lookup_by rg_id (rg_id r) (map f rs) \<noteq> None" if "r \<in> set rs" for r
    using that assms(2) by (auto simp: lookup_by_None image_iff)
  ultimately show ?thesis using assms(2) by (auto simp: reg_log_def filter_empty_conv)
qed

lemma store_log_same: "tables_ok s \<Longrightarrow> store_log s s = []"
  using reg_log_same [of "registrations s" "\<lambda>r. r"] qr_log_same
  by (simp add: store_log_def tables_ok_def reg_differs_def)

lemma write_same: "tables_ok (db v) \<Longrightarrow> write_db c (db v) v = v"
  by (simp add: write_db_def store_log_same Let_def)

lemma update_fails: "update c i dto s = (Inl err, s') \<Longrightarrow> s' = s"
  by (auto simp: update_def Let_def catch_def act_simps update_registration_def split: sum.splits prod.splits option.splits if_splits)

lemma own_registration_Inr: "own_registration e i s = Inr r \<longleftrightarrow> find_registration i s = Some r \<and> rg_eventId r = e"
  by (auto simp: own_registration_def split: option.splits)

lemma edit_Inr:
  assumes "updateForStaff c u i dto v = (Inr r', v')"
  obtains a e r s' where "findActiveStaffAssignment u (db v) = Inr (a, e)" "find_registration i (db v) = Some r" "rg_eventId r = sa_eventId a"
    "truthy (se_expectedUpdatedAt dto) \<Longrightarrow> parse_date c (the (se_expectedUpdatedAt dto)) = Some (rg_updatedAt r)"
    "update c i (updatePayload dto) (db v) = (Inr r', s')"
    "v' = (write_db c s' v)\<lparr>edits := (if changedFields dto = [] then edits v else append_row \<lparr>ea_eventId = rg_eventId r,
       ea_actorUserId = u, ea_entityId = rg_id r, ea_changedFields = changedFields dto\<rparr> (edits v))\<rparr>"
proof -
  obtain a e where a: "findActiveStaffAssignment u (db v) = Inr (a, e)"
    using assms by (auto simp: updateForStaff_def act_simps split: sum.splits)
  obtain r where r: "own_registration (sa_eventId a) i (db v) = Inr r"
    using assms a by (auto simp: updateForStaff_def act_simps split: sum.splits)
  have pass: "truthy (se_expectedUpdatedAt dto) \<Longrightarrow> parse_date c (the (se_expectedUpdatedAt dto)) = Some (rg_updatedAt r)"
    using assms a r by (auto simp: updateForStaff_def act_simps split: if_splits)
  obtain x s' where u: "update c i (updatePayload dto) (db v) = (x, s')" by fastforce
  have run: "bindA (on_db c (update c i (updatePayload dto))) (\<lambda>updated. bindA (auditStaffVisitorUpdate u r dto) (\<lambda>_. ret updated)) v = (Inr r', v')"
    using assms a r pass by (auto simp: updateForStaff_def act_simps split: if_splits)
  then have x: "x = Inr r'" by (cases x) (auto simp: bindA_def on_db_def u auditStaffVisitorUpdate_def ret_def modify_def split: if_splits)
  have v': "v' = (write_db c s' v)\<lparr>edits := (if changedFields dto = [] then edits v else append_row \<lparr>ea_eventId = rg_eventId r,
       ea_actorUserId = u, ea_entityId = rg_id r, ea_changedFields = changedFields dto\<rparr> (edits v))\<rparr>"
    using run by (auto simp: bindA_def on_db_def u x auditStaffVisitorUpdate_def ret_def modify_def write_db_def Let_def split: if_splits)
  show thesis
    by (rule that [OF a _ _ pass u [unfolded x] v']) (use r own_registration_Inr in auto)
qed

lemma edit_fails:
  assumes "tables_ok (db v)" and "updateForStaff c u i dto v = (Inl err, v')"
  shows "v' = v"
proof (cases "update c i (updatePayload dto) (db v)")
  case (Pair x s')
  show ?thesis
  proof (cases x)
    case (Inl e)
    then have "s' = db v" using Pair update_fails by blast
    then show ?thesis using assms Pair Inl
      by (auto simp: updateForStaff_def act_simps bindA_def on_db_def write_same split: sum.splits if_splits)
  next
    case (Inr r)
    then show ?thesis using assms(2) Pair
      by (auto simp: updateForStaff_def act_simps bindA_def on_db_def auditStaffVisitorUpdate_def ret_def modify_def throw_def
          split: sum.splits if_splits)
  qed
qed

text \<open>C37: an edit by staff goes through only for a visitor of the event of their active assignment, and, when it names
  the version it was made on, only if the row still has that version; it then changes this registration
  only and leaves one audit entry, if it names any field. Every other edit is refused and changes nothing,
  neither the tables nor the journal nor the audit.\<close>

theorem staff_edit_guarded:
  assumes "tables_ok (db v)" and "updateForStaff c u i dto v = (res, v')"
  shows "case res of Inl err \<Rightarrow> v' = v
    | Inr r' \<Rightarrow> \<exists>a e r. findActiveStaffAssignment u (db v) = Inr (a, e) \<and> find_registration i (db v) = Some r \<and> rg_eventId r = sa_eventId a \<and>
        (truthy (se_expectedUpdatedAt dto) \<longrightarrow> parse_date c (the (se_expectedUpdatedAt dto)) = Some (rg_updatedAt r)) \<and>
        find_registration i (db v') = Some r' \<and> rg_updatedAt r' = now c \<and>
        (\<forall>j. j \<noteq> i \<longrightarrow> find_registration j (db v') = find_registration j (db v)) \<and>
        length (edits v') = length (edits v) + (if changedFields dto = [] then 0 else 1)"
proof (cases res)
  case (Inl err)
  then show ?thesis using edit_fails assms by simp
next
  case (Inr r')
  obtain a e r s' where f: "findActiveStaffAssignment u (db v) = Inr (a, e)" "find_registration i (db v) = Some r" "rg_eventId r = sa_eventId a"
    "truthy (se_expectedUpdatedAt dto) \<Longrightarrow> parse_date c (the (se_expectedUpdatedAt dto)) = Some (rg_updatedAt r)"
    "update c i (updatePayload dto) (db v) = (Inr r', s')"
    "v' = (write_db c s' v)\<lparr>edits := (if changedFields dto = [] then edits v else append_row \<lparr>ea_eventId = rg_eventId r,
       ea_actorUserId = u, ea_entityId = rg_id r, ea_changedFields = changedFields dto\<rparr> (edits v))\<rparr>"
    using edit_Inr [OF assms(2) [unfolded Inr]] by metis
  obtain dto' t where s': "s' = (db v)\<lparr>registrations := update_by rg_id i (\<lambda>r. (changed dto' t r)\<lparr>rg_updatedAt := now c\<rparr>) (registrations (db v))\<rparr>"
    and r': "r' = (changed dto' t r)\<lparr>rg_updatedAt := now c\<rparr>"
    using update_row [OF f(5,2)] by metis
  have "find_registration j s' = (if j = i then map_option (\<lambda>r. (changed dto' t r)\<lparr>rg_updatedAt := now c\<rparr>) (find_registration i (db v))
      else find_registration j (db v))" for j
    using rows.lookup_update [of rg_id "\<lambda>r. (changed dto' t r)\<lparr>rg_updatedAt := now c\<rparr>" j i "registrations (db v)"]
    by (simp add: s' find_registration_def changed_def)
  then have "find_registration i s' = Some r'" "\<forall>j. j \<noteq> i \<longrightarrow> find_registration j s' = find_registration j (db v)" "rg_updatedAt r' = now c"
    by (simp_all add: f(2) r')
  then show ?thesis using f(1-4) Inr by (auto simp: f(6) write_db_def Let_def append_row_def)
qed


text \<open>C38: an edit that changes nothing makes every other copy unusable for edits. The row gets a new version, the triggers do
  not watch that column, so no scanner is told; an edit made on a copy from before is refused as a conflict,
  and following the changes never brings the new version.\<close>

theorem silent_update_outdates_copies:
  assumes "tables_ok (db v)" and "updateForStaff c u i dto v = (Inr r', v')" and "find_registration i (db v) = Some r"
    and "\<not> reg_differs r r'" and "now c \<noteq> rg_updatedAt r"
    and "truthy (se_expectedUpdatedAt dto')" and "parse_date c' (the (se_expectedUpdatedAt dto')) = Some (rg_updatedAt r)"
  shows "journal v' = journal v \<and> updateForStaff c' u i dto' v' = (Inl update_conflict, v')"
proof -
  obtain a e s' where f: "findActiveStaffAssignment u (db v) = Inr (a, e)" "rg_eventId r = sa_eventId a"
    "update c i (updatePayload dto) (db v) = (Inr r', s')" "db v' = s'" "journal v' = journal (write_db c s' v)"
  proof (rule edit_Inr [OF assms(2)], goal_cases)
    case (1 a e x s')
    then show ?case using assms(3) that by (simp add: write_db_def Let_def)
  qed
  obtain dto'' t where s': "s' = (db v)\<lparr>registrations := update_by rg_id i (\<lambda>r. (changed dto'' t r)\<lparr>rg_updatedAt := now c\<rparr>) (registrations (db v))\<rparr>"
    and r': "r' = (changed dto'' t r)\<lparr>rg_updatedAt := now c\<rparr>"
    using update_row [OF f(3) assms(3)] by metis
  let ?f = "\<lambda>x. if rg_id x = i then (changed dto'' t x)\<lparr>rg_updatedAt := now c\<rparr> else x"
  have r: "r \<in> set (registrations (db v))" "rg_id r = i" using assms(3) by (auto simp: find_registration_def dest: lookup_by_Some)
  have "rg_id (?f x) = rg_id x \<and> \<not> reg_differs x (?f x)" if "x \<in> set (registrations (db v))" for x
  proof (cases "rg_id x = i")
    case True
    then have "x = r" using tables_regs [OF assms(1) that r(1)] r(2) by simp
    then show ?thesis using assms(4) True by (simp add: r' changed_def)
  qed (simp add: reg_differs_def)
  then have "reg_log (registrations (db v)) (map ?f (registrations (db v))) = []"
    using assms(1) by (intro reg_log_same) (simp_all add: tables_ok_def)
  then have "store_log (db v) s' = []"
    using assms(1) qr_log_same [of "qrTokens (db v)"] by (simp add: store_log_def s' update_by_def update_rows_def tables_ok_def)
  then have "journal v' = journal v" by (simp add: f(5) write_db_def)
  moreover have "find_registration i s' = Some r'"
    using rows.lookup_updated [of rg_id "\<lambda>r. (changed dto'' t r)\<lparr>rg_updatedAt := now c\<rparr>" i "registrations (db v)" r] assms(3)
    by (simp add: s' r' find_registration_def changed_def)
  moreover have "find_event j s' = find_event j (db v)" for j by (simp add: s' find_event_def)
  then have "findActiveStaffAssignment u s' = findActiveStaffAssignment u (db v)"
    by (simp add: findActiveStaffAssignment_def cong: option.case_cong) (simp add: s')
  then have "findActiveStaffAssignment u s' = Inr (a, e)" using f(1) by simp
  moreover have "rg_eventId r' = sa_eventId a" "rg_updatedAt r' = now c" using f(2) by (simp_all add: r' changed_def)
  ultimately show ?thesis
    using assms(5-7) by (simp add: updateForStaff_def act_simps f(4) own_registration_def)
qed

definition sample_edit :: staff_edit where
  "sample_edit = \<lparr>se_expectedUpdatedAt = Some ''500'', se_fullName = Some ''Ann'', se_phone = None, se_email = None,
     se_companyName = None, se_jobTitle = None, se_customFields = None, se_notes = None\<rparr>"

lemma sample_visit_tables: "tables_ok (db sample_visit)"
  using sample_journal by (simp add: journal_ok_def)

lemma sample_edit_runs:
  "is_Inr (fst (updateForStaff sample_env ''u1'' ''r1'' sample_edit sample_visit))" by code_simp

lemma staff_edit_guarded_witness:
  "\<exists>r' v'. updateForStaff sample_env ''u1'' ''r1'' sample_edit sample_visit = (Inr r', v') \<and>
     find_registration ''r1'' (db v') = Some r' \<and> length (edits v') = 1"
proof -
  obtain r' v' where run: "updateForStaff sample_env ''u1'' ''r1'' sample_edit sample_visit = (Inr r', v')"
    using run_Inr [OF sample_edit_runs] by blast
  have "edits sample_visit = []" by (simp add: sample_visit_def)
  moreover have "changedFields sample_edit \<noteq> []" by (simp add: changedFields_def sample_edit_def)
  ultimately show ?thesis using staff_edit_guarded [OF sample_visit_tables run] run by auto
qed

lemma silent_update_outdates_copies_witness:
  "\<exists>v'. journal v' = journal sample_visit \<and> updateForStaff sample_env ''u1'' ''r1'' sample_edit v' = (Inl update_conflict, v')"
proof -
  obtain r' v' where run: "updateForStaff sample_env ''u1'' ''r1'' sample_edit sample_visit = (Inr r', v')"
    using run_Inr [OF sample_edit_runs] by blast
  have f: "find_registration ''r1'' (db sample_visit) = Some sample_registration" by code_simp
  have "case fst (updateForStaff sample_env ''u1'' ''r1'' sample_edit sample_visit) of Inl e \<Rightarrow> False
    | Inr r' \<Rightarrow> \<not> reg_differs sample_registration r'" by code_simp
  then have same: "\<not> reg_differs sample_registration r'" using run by simp
  have "parse_date sample_env (the (se_expectedUpdatedAt sample_edit)) = Some (rg_updatedAt sample_registration)"
    "truthy (se_expectedUpdatedAt sample_edit)" "now sample_env \<noteq> rg_updatedAt sample_registration" by code_simp+
  then show ?thesis using silent_update_outdates_copies [OF sample_visit_tables run f same] by blast
qed

end
