(* ===== verification/VisitorRealtime.thy ===== *)
theory VisitorRealtime
  imports VisitorEdits
begin

text \<open>
  \<open>src/modules/visitors/visitor-realtime.service.ts\<close>: every half second the journal is read from the last id seen, in
  batches of 1000, and the scanners connected to an event are told its newest change. \<open>poll_loop\<close> is the loop over
  the journal as it is at the time of the poll; it ends because every batch moves on. Timers, heartbeats and the
  HTTP stream itself are not modelled: a connected scanner gets the notifications of its event.
\<close>

record notification =
  nf_eventId :: id
  nf_cursor :: string
  nf_changedAt :: string

record realtime =
  lastObservedId :: nat
  polling :: bool
  published :: "notification list"

definition onModuleInit :: "vstate \<Rightarrow> realtime" where
  "onModuleInit v = \<lparr>lastObservedId = max_change (\<lambda>_. True) v, polling = False, published = []\<rparr>"

definition poll_changes :: "vstate \<Rightarrow> nat \<Rightarrow> visitor_change list" where
  "poll_changes v n = take 1000 (sort_key vc_id (filter (\<lambda>x. n < vc_id x) (journal v)))"

definition notification_of :: "env \<Rightarrow> visitor_change \<Rightarrow> notification" where
  "notification_of c x = \<lparr>nf_eventId = vc_eventId x, nf_cursor = nat_text (vc_id x), nf_changedAt = iso_date c (vc_changedAt x)\<rparr>"

text \<open>\<open>latestByEvent\<close>, a \<open>Map\<close>, and a notification for each entry.\<close>

definition notifications :: "env \<Rightarrow> visitor_change list \<Rightarrow> notification list" where
  "notifications c rows = map (\<lambda>(e, x). notification_of c x) (fold (\<lambda>x m. AList.update (vc_eventId x) x m) rows [])"

lemma poll_moves: "rows = poll_changes v n \<Longrightarrow> rows \<noteq> [] \<Longrightarrow>
    length (filter (\<lambda>x. vc_id (last rows) < vc_id x) (journal v)) < length (filter (\<lambda>x. n < vc_id x) (journal v))"
proof -
  assume "rows = poll_changes v n" "rows \<noteq> []"
  then have "last rows \<in> set (poll_changes v n)" by auto
  then have l: "last rows \<in> set (journal v)" "n < vc_id (last rows)" by (auto simp: poll_changes_def dest!: in_set_takeD)
  have "filter (\<lambda>x. vc_id (last rows) < vc_id x) (journal v) = filter (\<lambda>x. vc_id (last rows) < vc_id x) (filter (\<lambda>x. n < vc_id x) (journal v))"
    using l(2) by (auto intro!: filter_cong)
  also have "length \<dots> < length (filter (\<lambda>x. n < vc_id x) (journal v))"
    by (rule length_filter_less [of "last rows"]) (use l in simp_all)
  finally show ?thesis .
qed

function poll_loop :: "env \<Rightarrow> vstate \<Rightarrow> nat \<Rightarrow> notification list \<times> nat" where
  "poll_loop c v n =
    (let rows = poll_changes v n in
     if rows = [] then ([], n)
     else let sent = notifications c rows; m = vc_id (last rows) in
       if length rows < 1000 then (sent, m)
       else (case poll_loop c v m of (others_sent, k) \<Rightarrow> (sent @ others_sent, k)))"
  by pat_completeness auto

termination
  by (relation "measure (\<lambda>(c, v, n). length (filter (\<lambda>x. n < vc_id x) (journal v)))") (auto intro: poll_moves [OF refl])

declare poll_loop.simps [simp del]

definition pollJournal :: "env \<Rightarrow> vstate \<Rightarrow> realtime \<Rightarrow> realtime" where
  "pollJournal c v st =
    (if polling st then st
     else (case poll_loop c v (lastObservedId st) of (sent, n) \<Rightarrow>
       st\<lparr>lastObservedId := n, published := published st @ sent\<rparr>))"

definition getLatestCursor :: "id \<Rightarrow> vstate \<Rightarrow> string" where
  "getLatestCursor eventId v = nat_text (latest_change eventId v)"

text \<open>\<open>streamForStaff\<close>: the event and the cursor of the first message; then the notifications of the event.\<close>

definition streamForStaff :: "id \<Rightarrow> vstate \<Rightarrow> (id \<times> string) res" where
  "streamForStaff userId v =
    (case find_row (\<lambda>a. sa_userId a = userId \<and> sa_isActive a) (sort_key (\<lambda>a. - sa_updatedAt a) (staffAssignments (db v))) of
       None \<Rightarrow> Inl (NotFound ''Active staff assignment not found'')
     | Some a \<Rightarrow> Inr (sa_eventId a, getLatestCursor (sa_eventId a) v))"

definition stream_of :: "id \<Rightarrow> notification list \<Rightarrow> notification list" where
  "stream_of eventId ns = filter (\<lambda>x. nf_eventId x = eventId) ns"

section \<open>Notifications\<close>

lemma find_row_rev: "find_row P (rev ys) = (if filter P ys = [] then None else Some (last (filter P ys)))"
  by (induction ys rule: rev_induct) auto

lemma stream_notifications:
  "stream_of e (notifications c rows) =
    (if filter (\<lambda>x. vc_eventId x = e) rows = [] then [] else [notification_of c (last (filter (\<lambda>x. vc_eventId x = e) rows))])"
proof -
  define al where "al = fold (\<lambda>x m. AList.update (vc_eventId x) x m) rows []"
  have map: "map_of al j = find_row (\<lambda>x. vc_eventId x = j) (rev rows)" for j
    using map_of_latest [of vc_eventId rows "[]" j] by (simp add: al_def split: option.splits)
  have dist: "distinct (map fst al)" unfolding al_def by (rule distinct_latest) simp
  have key: "vc_eventId (snd p) = fst p" if "p \<in> set al" for p
  proof -
    have "map_of al (fst p) = Some (snd p)" using that dist by simp
    then show ?thesis using map [of "fst p"] by (auto dest: find_row_Some)
  qed
  have one: "filter (\<lambda>p. fst p = e) xs = (case map_of xs e of None \<Rightarrow> [] | Some x \<Rightarrow> [(e, x)])" if "distinct (map fst xs)" for xs :: "(id \<times> visitor_change) list"
    using that
  proof (induction xs)
    case (Cons p xs)
    show ?case
    proof (cases "fst p = e")
      case True
      then have "map_of xs e = None" using Cons.prems by (auto simp: map_of_eq_None_iff)
      then show ?thesis using Cons True by (cases p) simp
    next
      case False
      then show ?thesis using Cons by (cases p) simp
    qed
  qed simp
  have "stream_of e (notifications c rows) = map (\<lambda>(e, x). notification_of c x) (filter (\<lambda>p. fst p = e) al)"
    using key by (auto simp: stream_of_def notifications_def filter_map notification_of_def o_def case_prod_unfold simp flip: al_def intro!: arg_cong [of _ _ "map _"] filter_cong)
  then show ?thesis by (simp add: one [OF dist] map find_row_rev)
qed

text \<open>The rows after \<open>n\<close> and their batches, on a journal in order.\<close>

definition later :: "vstate \<Rightarrow> nat \<Rightarrow> visitor_change list" where
  "later v n = filter (\<lambda>x. n < vc_id x) (journal v)"

lemma later_strict: "journal_ok v \<Longrightarrow> sorted_wrt (<) (map vc_id (later v n))"
  by (auto simp: journal_ok_def later_def sorted_wrt_map intro: sorted_wrt_filter)

lemma poll_changes_later: "journal_ok v \<Longrightarrow> poll_changes v n = take 1000 (later v n)"
proof -
  assume "journal_ok v"
  then have "sorted (map vc_id (later v n))" using later_strict by (simp add: strict_sorted_iff)
  then show ?thesis by (simp add: poll_changes_def later_def sort_key_id_if_sorted)
qed

lemma later_rest:
  assumes "journal_ok v" and "0 < k" and "k \<le> length (later v n)"
  shows "later v (vc_id (last (take k (later v n)))) = drop k (later v n)"
proof -
  let ?J = "later v n" and ?m = "vc_id (last (take k (later v n)))"
  have last: "last (take k ?J) = ?J ! (k - 1)" using last_take assms(2,3) by blast
  then have "?J ! (k - 1) \<in> set ?J" using assms(2,3) by (intro nth_mem) simp
  then have "n < ?m" unfolding last by (simp add: later_def)
  then have "later v ?m = filter (\<lambda>x. ?m < vc_id x) ?J" by (auto simp: later_def intro!: filter_cong)
  also have "\<dots> = filter (\<lambda>x. ?m < vc_id x) (take k ?J) @ filter (\<lambda>x. ?m < vc_id x) (drop k ?J)"
    by (metis append_take_drop_id filter_append)
  also have "filter (\<lambda>x. ?m < vc_id x) (take k ?J) = []"
    using take_strict [OF later_strict [OF assms(1)] assms(2,3)] last in_set_takeD [of _ k ?J] by (fastforce simp: filter_empty_conv)
  also have "filter (\<lambda>x. ?m < vc_id x) (drop k ?J) = drop k ?J"
  proof (rule filter_True, rule ballI)
    fix x assume x: "x \<in> set (drop k ?J)"
    have d: "distinct ?J" using later_strict [OF assms(1), of n] by (metis distinct_map strict_sorted_iff)
    then have "x \<notin> set (take k ?J)" using x by (metis append_take_drop_id distinct_append disjoint_iff)
    then show "?m < vc_id x"
      using take_strict [OF later_strict [OF assms(1)] assms(2,3), of x] in_set_dropD [OF x] last by simp
  qed
  finally show ?thesis by simp
qed

lemma poll_loop_sends:
  assumes "journal_ok v"
  shows "case poll_loop c v n of (ns, m) \<Rightarrow> m = (if later v n = [] then n else vc_id (last (later v n))) \<and>
    (if filter (\<lambda>x. vc_eventId x = e) (later v n) = [] then stream_of e ns = []
     else stream_of e ns \<noteq> [] \<and> last (stream_of e ns) = notification_of c (last (filter (\<lambda>x. vc_eventId x = e) (later v n))))"
  using assms
proof (induction c v n rule: poll_loop.induct)
  case (1 c v n)
  let ?J = "later v n"
  have rows: "poll_changes v n = take 1000 ?J" using 1(2) by (rule poll_changes_later)
  show ?case
  proof (cases "length ?J < 1000")
    case True
    then show ?thesis by (subst poll_loop.simps) (auto simp: rows Let_def stream_notifications stream_of_def [of e "[]"])
  next
    case False
    then have k: "1000 \<le> length ?J" "?J \<noteq> []" by auto
    let ?m = "vc_id (last (take 1000 ?J))"
    obtain others_sent l where rec: "poll_loop c v ?m = (others_sent, l)" by fastforce
    have rest: "later v ?m = drop 1000 ?J" using later_rest [OF 1(2) _ k(1)] by simp
    have "case poll_loop c v ?m of (ns, m) \<Rightarrow> m = (if later v ?m = [] then ?m else vc_id (last (later v ?m))) \<and>
        (if filter (\<lambda>x. vc_eventId x = e) (later v ?m) = [] then stream_of e ns = []
         else stream_of e ns \<noteq> [] \<and> last (stream_of e ns) = notification_of c (last (filter (\<lambda>x. vc_eventId x = e) (later v ?m))))"
      using 1(1) [of "poll_changes v n"] 1(2) k by (simp add: rows)
    then have ih: "l = (if drop 1000 ?J = [] then ?m else vc_id (last (drop 1000 ?J)))"
      "if filter (\<lambda>x. vc_eventId x = e) (drop 1000 ?J) = [] then stream_of e others_sent = []
       else stream_of e others_sent \<noteq> [] \<and> last (stream_of e others_sent) = notification_of c (last (filter (\<lambda>x. vc_eventId x = e) (drop 1000 ?J)))"
      by (simp_all add: rec rest)
    have run: "poll_loop c v n = (notifications c (take 1000 ?J) @ others_sent, l)"
      using k rec by (subst poll_loop.simps) (simp add: rows Let_def)
    define F1 where "F1 = filter (\<lambda>x. vc_eventId x = e) (take 1000 ?J)"
    define F2 where "F2 = filter (\<lambda>x. vc_eventId x = e) (drop 1000 ?J)"
    have split: "filter (\<lambda>x. vc_eventId x = e) ?J = F1 @ F2" unfolding F1_def F2_def by (metis append_take_drop_id filter_append)
    have "last ?J = (if drop 1000 ?J = [] then last (take 1000 ?J) else last (drop 1000 ?J))"
      by (metis append_take_drop_id last_appendL last_appendR)
    then have "l = vc_id (last ?J)" using ih(1) by simp
    moreover have stream: "stream_of e (notifications c (take 1000 ?J) @ others_sent) =
        (if F1 = [] then [] else [notification_of c (last F1)]) @ stream_of e others_sent"
      using stream_notifications [of e c "take 1000 ?J"] by (simp add: stream_of_def F1_def)
    moreover have "if F2 = [] then stream_of e others_sent = []
        else stream_of e others_sent \<noteq> [] \<and> last (stream_of e others_sent) = notification_of c (last F2)"
      using ih(2) by (simp add: F2_def)
    ultimately show ?thesis
      unfolding run prod.case split stream using k(2) by (cases "F1 = []"; cases "F2 = []") simp_all
  qed
qed

lemma latest_later:
  assumes "journal_ok v" and "filter (\<lambda>x. vc_eventId x = e) (later v n) \<noteq> []"
  shows "vc_id (last (filter (\<lambda>x. vc_eventId x = e) (later v n))) = latest_change e v"
proof (rule antisym)
  let ?F = "filter (\<lambda>x. vc_eventId x = e) (later v n)"
  have l: "last ?F \<in> set (journal v)" "vc_eventId (last ?F) = e" "n < vc_id (last ?F)"
    using last_in_set [OF assms(2)] by (auto simp: later_def)
  then show "vc_id (last ?F) \<le> latest_change e v" unfolding latest_change_def by (intro max_change_ge)
  have "find_row (\<lambda>x. vc_eventId x = e) (rev (later v n)) = Some (last ?F)" using assms(2) by (simp add: find_row_rev)
  then have "vc_id y \<le> vc_id (last ?F)" if "y \<in> set (later v n)" "vc_eventId y = e" for y
    using find_newest_max [OF later_strict [OF assms(1)]] that by blast
  then have "vc_id y \<le> vc_id (last ?F)" if "y \<in> set (journal v)" "vc_eventId y = e" for y
    using that l(3) by (cases "n < vc_id y") (auto simp: later_def)
  then show "latest_change e v \<le> vc_id (last ?F)" unfolding latest_change_def by (intro max_change_le)
qed

text \<open>C39: a poll tells every event that has changed since the last one, and no other; the last thing an event is told is
  its newest change, however many batches the poll takes, and the next poll goes on after all of them.\<close>

theorem poll_notifies_events:
  assumes "journal_ok v" and "\<not> polling st" and "st' = pollJournal c v st"
  shows "\<exists>ns. published st' = published st @ ns \<and>
    (if \<exists>y \<in> set (journal v). vc_eventId y = e \<and> lastObservedId st < vc_id y
     then stream_of e ns \<noteq> [] \<and> nf_cursor (last (stream_of e ns)) = getLatestCursor e v
     else stream_of e ns = []) \<and>
    pollJournal c v st' = st' \<and> lastObservedId st \<le> lastObservedId st'"
proof -
  obtain ns m where run: "poll_loop c v (lastObservedId st) = (ns, m)" by fastforce
  let ?J = "later v (lastObservedId st)"
  note sends = poll_loop_sends [OF assms(1), where c = c and n = "lastObservedId st" and e = e, unfolded run prod.case]
  have st': "st' = st\<lparr>lastObservedId := m, published := published st @ ns\<rparr>" using assms(2,3) run by (simp add: pollJournal_def)
  have none: "later v m = []" and le: "lastObservedId st \<le> m"
  proof -
    have "later v m = [] \<and> lastObservedId st \<le> m"
    proof (cases "?J = []")
      case False
      have "later v (vc_id (last (take (length ?J) ?J))) = drop (length ?J) ?J"
        using later_rest [OF assms(1), of "length ?J"] False by blast
      moreover have "last ?J \<in> set ?J" using False by simp
      ultimately show ?thesis using sends False by (auto simp: later_def less_imp_le)
    qed (use sends in simp)
    then show "later v m = []" and "lastObservedId st \<le> m" by blast+
  qed
  have "poll_loop c v m = ([], m)" by (subst poll_loop.simps) (simp add: poll_changes_later [OF assms(1)] none)
  then have again: "pollJournal c v st' = st'" using assms(2) by (simp add: pollJournal_def st')
  have "(\<exists>y \<in> set (journal v). vc_eventId y = e \<and> lastObservedId st < vc_id y) \<longleftrightarrow> filter (\<lambda>x. vc_eventId x = e) ?J \<noteq> []"
    by (auto simp: later_def filter_empty_conv)
  then show ?thesis
    using sends again le latest_later [OF assms(1), of e "lastObservedId st"]
    by (auto simp: st' getLatestCursor_def notification_of_def)
qed


lemma sample_renamed_journal: "journal_ok sample_renamed"
  using writes_facts [OF sample_writes sample_journal] by blast

lemma poll_notifies_events_witness:
  "\<exists>ns. published (pollJournal sample_env sample_renamed (onModuleInit sample_visit)) = ns \<and>
     stream_of ''e1'' ns \<noteq> [] \<and> nf_cursor (last (stream_of ''e1'' ns)) = ''1''"
proof -
  have idle: "\<not> polling (onModuleInit sample_visit)" "published (onModuleInit sample_visit) = []" by (simp_all add: onModuleInit_def)
  have "list_ex (\<lambda>y. vc_eventId y = ''e1'' \<and> lastObservedId (onModuleInit sample_visit) < vc_id y) (journal sample_renamed)" by code_simp
  then have "\<exists>y \<in> set (journal sample_renamed). vc_eventId y = ''e1'' \<and> lastObservedId (onModuleInit sample_visit) < vc_id y"
    by (simp add: list_ex_iff)
  moreover have "getLatestCursor ''e1'' sample_renamed = ''1''" by code_simp
  ultimately show ?thesis
    using poll_notifies_events [OF sample_renamed_journal idle(1) refl, of sample_env "''e1''"] idle(2) by auto
qed

section \<open>Commits out of order\<close>

text \<open>C40: a change that commits late is lost to a scanner. The id of a journal row is taken when it is inserted, the row is seen
  when its transaction commits; when the scanner has meanwhile got to a higher id, its cursor is past the row.
  Asked with that cursor the server answers that there are no changes and nothing more, while the registration
  it committed with is among the visitors of the event.\<close>

theorem late_commit_skipped:
  assumes "findChangesForStaff c u after l v v v = Inr p" and "\<not> cg_hasMore p"
    and "parseVisitorChangeCursor (Some (cg_nextCursor p)) = Inr m" and "vc_id x < m"
    and "v' = v\<lparr>db := s, journal := journal v @ [x]\<rparr>" and "findActiveStaffAssignment u s = findActiveStaffAssignment u (db v)"
  shows "\<exists>p'. findChangesForStaff c u (Some (cg_nextCursor p)) l v' v' v' = Inr p' \<and> cg_changes p' = [] \<and> \<not> cg_hasMore p' \<and>
    cg_visitorsCount p' = length (event_visitors (cg_eventId p') s)"
proof -
  obtain a e n where a: "findActiveStaffAssignment u (db v) = Inr (a, e)" and page: "changes_page c (sa_eventId a) n (changes_limit l) v v v = Inr p"
    using assms(1) by (auto simp: findChangesForStaff_def bindE_Inr_iff)
  let ?e = "sa_eventId a"
  let ?k = "page_end n (take (changes_limit l) (journal_rows ?e n v))"
  note r = changes_page_Inr [OF page refl]
  have m: "m = ?k" using assms(3) r(2) by (simp add: parse_change_cursor)
  have "latest_change ?e v \<le> m" using assms(2) r(3) unfolding m by linarith
  then have old: "vc_id y \<le> m" if "y \<in> set (journal v)" "vc_eventId y = ?e" for y
    using max_change_ge [of y v "\<lambda>x. vc_eventId x = ?e"] that by (simp add: latest_change_def)
  then have none: "journal_rows ?e m v' = []"
  proof -
    have "filter (\<lambda>y. vc_eventId y = ?e \<and> m < vc_id y) (journal v') = []"
      using assms(4) old unfolding assms(5) by (auto simp: filter_empty_conv not_less)
    then show ?thesis by (simp only: journal_rows_def sort_key_simps)
  qed
  have "latest_change ?e v' \<le> m"
    unfolding latest_change_def by (rule max_change_le) (use old assms(4) in \<open>auto simp: assms(5)\<close>)
  then have "\<not> m < latest_change ?e v'" by simp
  then show ?thesis
    using a assms(3,6)
    by (auto simp: findChangesForStaff_def bindE_Inr_iff changes_page_def Let_def none [unfolded assms(5)] effective_rows_def assms(5))
qed

definition sample_late :: visitor_change where
  "sample_late = \<lparr>vc_id = 1, vc_eventId = ''e1'', vc_registrationId = ''r2'', vc_operation = UPSERT, vc_changedAt = 1000\<rparr>"

definition sample_ahead :: vstate where
  "sample_ahead = sample_visit\<lparr>journal := [\<lparr>vc_id = 2, vc_eventId = ''e1'', vc_registrationId = ''r1'', vc_operation = UPSERT,
     vc_changedAt = 1000\<rparr>], next_change := 3\<rparr>"

definition sample_joined :: store where
  "sample_joined = (db sample_visit)\<lparr>registrations := registrations (db sample_visit) @ [sample_registration\<lparr>rg_id := ''r2'', rg_publicId := ''REG_2''\<rparr>]\<rparr>"

lemma late_commit_skipped_witness:
  "\<exists>p. findChangesForStaff sample_env ''u1'' (Some ''2'') 500 (sample_ahead\<lparr>db := sample_joined, journal := journal sample_ahead @ [sample_late]\<rparr>)
      (sample_ahead\<lparr>db := sample_joined, journal := journal sample_ahead @ [sample_late]\<rparr>)
      (sample_ahead\<lparr>db := sample_joined, journal := journal sample_ahead @ [sample_late]\<rparr>) = Inr p \<and> cg_changes p = [] \<and> \<not> cg_hasMore p"
proof -
  have "case findChangesForStaff sample_env ''u1'' None 500 sample_ahead sample_ahead sample_ahead of Inl e \<Rightarrow> False
    | Inr p \<Rightarrow> \<not> cg_hasMore p \<and> cg_nextCursor p = ''2''" by code_simp
  then obtain p where p: "findChangesForStaff sample_env ''u1'' None 500 sample_ahead sample_ahead sample_ahead = Inr p"
    "\<not> cg_hasMore p" "cg_nextCursor p = ''2''" by (auto split: sum.splits)
  have "parseVisitorChangeCursor (Some ''2'') = Inr 2" by code_simp
  moreover have "findActiveStaffAssignment ''u1'' sample_joined = findActiveStaffAssignment ''u1'' (db sample_ahead)" by code_simp
  ultimately show ?thesis
    using late_commit_skipped [OF p(1,2), of 2 sample_late _ sample_joined] p(3) by (auto simp: sample_late_def)
qed

end
