(* ===== verification/Spec2Isabelle.thy ===== *)
theory Spec2Isabelle
  imports ScanRace SyncSample LocationsProps ImportProps ImportFileProps AccountsProps StaffAssignments
    RegistrationFields Devices Events VisitorRealtime
begin

text \<open>
  A verification library for the event-operations backend under \<open>src/\<close>: a NestJS service over a
  MySQL database (Prisma) with BullMQ queues. Organisers register attendees, every registration has
  a QR token, devices at checkpoints scan tokens online and offline, and staff open scanner sessions.

  \<^bold>\<open>How a service is modelled.\<close> The database is one record, \<open>store\<close>, with one list of rows per table
  (\<open>Schema\<close>); a read of a service is a function of the store into \<open>err + 'a\<close>; a handler is an action, a
  function from the store to a result, the exception or the answer, and the store it leaves
  (\<open>Prelude\<close>). Writes made before an exception stay, except inside \<open>transaction\<close>. What one run takes
  from outside, the clock, generated ids and random texts, Node's \<open>crypto\<close>, dates and configuration, is
  a record \<open>env\<close>; the few documented laws of these parameters that some theorems assume (\<open>id_law\<close>,
  \<open>mac_law\<close>, \<open>date_law\<close>) hold in the concrete \<open>sample_env\<close> of \<open>Sample\<close>, at which every theorem with
  hypotheses is applied. A handler runs to completion before the next, except in \<open>ScanRace\<close>.

  \<^bold>\<open>The theories.\<close>
  \<open>Prelude\<close> has exceptions, actions and their rules, tables, strings, and two interfaces as locales:
  \<open>keyed_table\<close>, which the list operations implement, and \<open>store_rel\<close>, a reflexive and transitive relation
  between the stores before and after a run, which invariants (\<open>keeps\<close>), frames (\<open>same\<close>) and the growth of
  the scan tables (\<open>rows_from\<close>) are instances of: its rules carry each invariant through a handler.
  \<open>Json\<close> has \<open>JSON.stringify\<close> and \<open>JSON.parse\<close> with their round trip, \<open>Encoding\<close> base64url, both instances
  of a locale of codecs that composes.
  \<open>QrSigning\<close> is \<open>common/utils/qr-signing.util.ts\<close>: what the verifiers accept exactly, and round trips.
  \<open>OfflineQr\<close> is \<open>modules/offline/offline-qr.service.ts\<close>: signed badges, device keys and their rotation.
  \<open>QrService\<close> is \<open>modules/qr/qr.service.ts\<close>: issuing, validating and revoking the token of a registration.
  \<open>ScanGuards\<close>, \<open>ScanService\<close> and \<open>ScanOffline\<close> are \<open>modules/scans/scans.service.ts\<close>: guards and resolution of
  codes, online scans, queued and offline scans. \<open>ScanInv\<close> proves their invariant for every handler,
  \<open>ScanHistory\<close> for every history of them, \<open>ScanProps\<close> what the answers mean, \<open>ScanRace\<close> what happens when
  two requests interleave.
  \<open>StaffSessions\<close> is \<open>modules/staff-sessions/staff-sessions.service.ts\<close>.
  \<open>Registrations\<close> is \<open>modules/registrations/registrations.service.ts\<close>: normalisation, custom fields, the
  unique columns and the removal of a registration with everything that refers to it.
  \<open>Sync\<close> is \<open>modules/sync/sync.service.ts\<close>, with the calls it makes into the four services above.
  \<open>SyncInv\<close> has the order of operations and, as the locale \<open>sync_run\<close>, what every operation of a batch
  stays within, instantiated with the invariant of its tables and with the frame of the batch rows;
  \<open>SyncProps\<close> is about batches, \<open>SyncOffline\<close> about offline registrations, \<open>SyncSample\<close> runs one of each.
  \<open>Pagination\<close> is \<open>common/utils/pagination.util.ts\<close> and the query of every list operation; \<open>Requests\<close> has what the
  services that create, change and list rows share.
  \<open>ZoneTree\<close> and \<open>Locations\<close> are \<open>common/utils/location-cascade.util.ts\<close> and the services of \<open>modules/venues\<close>,
  \<open>modules/zones\<close> and \<open>modules/checkpoints\<close> with the foreign keys their removals meet; \<open>LocationsInv\<close> proves
  that references stay within an event, \<open>LocationsProps\<close> what a removal takes with it.
  \<open>ImportFile\<close>, \<open>ImportMapping\<close>, \<open>Imports\<close> and \<open>ImportRuns\<close> are \<open>modules/imports/imports.service.ts\<close>: headers and
  rows of a file, the mapping of columns to fields, jobs and their rows, and processing in chunks.
  \<open>ImportSteps\<close> has the state machine of a row as an inductive relation and what a run does to the other
  tables, \<open>ImportProps\<close> how processing ends, \<open>ImportFileProps\<close> what is stored of a file.
  \<open>Accounts\<close> and \<open>Clients\<close> are \<open>modules/users\<close>, \<open>modules/auth\<close> and \<open>modules/clients\<close>; \<open>AccountsInv\<close> has the
  histories of their requests and, as the locale \<open>account_relation\<close>, what every request stays within,
  instantiated with the uniqueness of logins and with the end of a refresh token; \<open>AccountsProps\<close> rests on it.
  \<open>StaffAssignments\<close> is \<open>modules/staff-assignments\<close> together with the scanner sessions that it ends: their
  common invariant is proved over histories of both services.
  \<open>AttendeeTypes\<close>, \<open>RegistrationFields\<close>, \<open>Devices\<close> and \<open>Events\<close> are the services of these names, \<open>Devices\<close> with
  \<open>common/guards/device-auth.guard.ts\<close>, \<open>Events\<close> with the removal of an event from every table.
  \<open>Visitors\<close> and \<open>VisitorService\<close> are \<open>modules/visitors/visitors.service.ts\<close>, the download and the edits of visitors
  for offline scanners, with the triggers of the migration that keeps their journal: a state is the store and
  the journal, and \<open>write_db\<close> is a commit, which appends what the triggers log of it. \<open>VisitorSync\<close> and \<open>Replica\<close>
  have what one answer does to a scanner's copy, \<open>Downloads\<close> the interleavings of a whole download with commits
  of other requests as an inductive relation and that it converges, \<open>Commits\<close> that the services commit only what
  downloads are proved for, \<open>VisitorEdits\<close> the versions that edits name, \<open>VisitorRealtime\<close> the poller of
  \<open>visitor-realtime.service.ts\<close> and what happens when commits overtake each other.

  \<^bold>\<open>Fuel and termination.\<close> The JSON reader recurses on the length of its input, which is enough because every
  call consumes a character; \<open>generateTokenId\<close> tries five times, as the code does. The levels of zones end
  by a measure, the rows not yet met. The chunks of an import take the number of pending rows and one as
  fuel; \<open>process_chunks_enough\<close> shows that the loop of the code ends within it. All other recursion is
  structural or by a measure; the loop of the realtime poller ends because every batch moves past rows of the
  journal.

  \<^bold>\<open>What the model simplifies.\<close> A JavaScript string is its UTF-8 bytes, and columns are compared byte by
  byte (the database's collation may identify letter cases). A JSON column gives back the value stored.
  \<open>new Date()\<close> is one value during one run. Foreign keys hold, and a query with a required relation fails
  where they do not. A handler of \<open>modules/visitors\<close> that writes logs one row for each table row that differs
  after it, where the triggers may log one for each statement. The answers are the rows and verdicts; images,
  labels and the names of related rows that are joined to an answer are left out.

  The readers of CSV files and workbooks, bcrypt and the signing of tokens are arguments.

  \<^bold>\<open>Not modelled.\<close> Controllers, DTO validation and modules (wiring that the framework runs); rendering of
  badges, tickets, images and exports and the files of uploads (graphics and file libraries), also the QR
  images of \<open>generateQrForStaff\<close>; timers, heartbeats and the HTTP stream of the realtime channel, and the range of
  \<open>BIGINT\<close> of the journal's ids; notifications, digital tickets, WhatsApp requests and webhooks, branding and
  the editing of badge templates; reports and dashboards (queries that change nothing).
\<close>

end
